(* ===== verification/Prelude.thy ===== *)
theory Prelude imports Main Complex_Main "HOL-Library.Word" begin

text \<open>
  The shared layer of the development: the JavaScript values and library calls the modelled
  code uses (strings, numbers, tables, array searches), the named collections of rewrite
  rules, and the contract of a state machine driven by a list of actions.

  Strings are UTF-8 byte sequences (\<open>string\<close>, one \<open>char\<close> per byte); case conversion is
  the ASCII part of JavaScript's \<open>toUpperCase\<close> and \<open>toLowerCase\<close>. A JavaScript number
  that is a count, an index or a time in milliseconds is an \<open>int\<close> or a \<open>nat\<close>; an amount is
  a \<open>real\<close>, without IEEE rounding. \<open>undefined\<close> and \<open>null\<close> are \<open>None\<close>. A lookup
  in a \<open>Record\<close> literal is \<open>map_of\<close> on its entries; keys inherited from
  \<open>Object.prototype\<close> are outside the model.
\<close>

named_theorems js_simps \<open>rewrite rules of the JavaScript library model\<close>
named_theorems table_simps \<open>unfoldings of the code's constant tables\<close>
named_theorems step_simps \<open>unfoldings of the operations of the state machines\<close>

type_synonym number = real
type_synonym ('k, 'v) table = "('k \<times> 'v) list"

subsection \<open>Array searches\<close>

text \<open>\<open>Array.prototype.indexOf\<close>: the first index, or -1.\<close>

fun index_of :: "'a \<Rightarrow> 'a list \<Rightarrow> int" where
  "index_of x [] = -1"
| "index_of x (y # ys) =
     (if x = y then 0 else let i = index_of x ys in if i < 0 then -1 else i + 1)"

text \<open>\<open>Array.prototype.findIndex\<close>: the first index whose element satisfies the test, or -1.\<close>

fun find_index :: "('a \<Rightarrow> bool) \<Rightarrow> 'a list \<Rightarrow> int" where
  "find_index p [] = -1"
| "find_index p (y # ys) =
     (if p y then 0 else let i = find_index p ys in if i < 0 then -1 else i + 1)"

lemma index_of_find_index: "index_of x xs = find_index (\<lambda>y. x = y) xs"
  by (induction xs) auto

lemma find_index_range: "-1 \<le> find_index p xs \<and> find_index p xs < int (length xs)"
  by (induction xs) (auto simp: Let_def)

lemma find_index_neg_iff: "find_index p xs < 0 \<longleftrightarrow> (\<forall>x \<in> set xs. \<not> p x)"
  by (induction xs) (auto simp: Let_def)

lemma find_index_nth: "0 \<le> find_index p xs \<Longrightarrow> p (xs ! nat (find_index p xs))"
  by (induction xs) (auto simp: Let_def nth_Cons' nat_add_distrib split: if_splits)

lemma find_index_first:
  "0 \<le> find_index p xs \<Longrightarrow> j < nat (find_index p xs) \<Longrightarrow> \<not> p (xs ! j)"
proof (induction xs arbitrary: j)
  case (Cons y ys)
  then show ?case
    by (cases j) (auto simp: Let_def nat_add_distrib split: if_splits)
qed simp

subsection \<open>Strings\<close>

definition to_upper_char :: "char \<Rightarrow> char" where
  "to_upper_char c =
     (let n = (of_char c :: nat) in if 97 \<le> n \<and> n \<le> 122 then char_of (n - 32) else c)"

definition to_lower_char :: "char \<Rightarrow> char" where
  "to_lower_char c =
     (let n = (of_char c :: nat) in if 65 \<le> n \<and> n \<le> 90 then char_of (n + 32) else c)"

definition to_upper :: "string \<Rightarrow> string" where
  "to_upper s = map to_upper_char s"

definition to_lower :: "string \<Rightarrow> string" where
  "to_lower s = map to_lower_char s"

lemma to_upper_char_idem [simp]: "to_upper_char (to_upper_char c) = to_upper_char c"
  by (auto simp: to_upper_char_def Let_def)

lemma to_lower_char_idem [simp]: "to_lower_char (to_lower_char c) = to_lower_char c"
  by (auto simp: to_lower_char_def Let_def)

lemma to_lower_upper_char [simp]: "to_lower_char (to_upper_char c) = to_lower_char c"
  by (auto simp: to_lower_char_def to_upper_char_def Let_def)

lemma to_upper_lower_char [simp]: "to_upper_char (to_lower_char c) = to_upper_char c"
  by (auto simp: to_lower_char_def to_upper_char_def Let_def)

lemma to_upper_idem [simp]: "to_upper (to_upper s) = to_upper s"
  by (simp add: to_upper_def)

lemma to_lower_idem [simp]: "to_lower (to_lower s) = to_lower s"
  by (simp add: to_lower_def)

lemma to_lower_upper [simp]: "to_lower (to_upper s) = to_lower s"
  by (simp add: to_lower_def to_upper_def)

lemma to_upper_lower [simp]: "to_upper (to_lower s) = to_upper s"
  by (simp add: to_lower_def to_upper_def)

definition starts_with :: "string \<Rightarrow> string \<Rightarrow> bool" where
  "starts_with s p \<longleftrightarrow> take (length p) s = p"

lemma starts_with_append [simp]: "starts_with (p @ s) p"
  by (simp add: starts_with_def)

lemma starts_with_trans: "starts_with s p \<Longrightarrow> starts_with p q \<Longrightarrow> starts_with s q"
  unfolding starts_with_def by (metis append_take_drop_id append_eq_conv_conj append_assoc)

text \<open>\<open>String.prototype.includes\<close>.\<close>

fun includes_str :: "string \<Rightarrow> string \<Rightarrow> bool" where
  "includes_str [] p = (p = [])"
| "includes_str (c # s) p = (starts_with (c # s) p \<or> includes_str s p)"

text \<open>\<open>Array.prototype.join\<close>.\<close>

fun join_with :: "string \<Rightarrow> string list \<Rightarrow> string" where
  "join_with sep [] = []"
| "join_with sep [x] = x"
| "join_with sep (x # y # ys) = x @ sep @ join_with sep (y # ys)"

text \<open>A truthy string is a non-empty one; \<open>a || b\<close> on strings.\<close>

definition or_str :: "string option \<Rightarrow> string \<Rightarrow> string" where
  "or_str a b = (case a of None \<Rightarrow> b | Some s \<Rightarrow> if s = [] then b else s)"

text \<open>\<open>a ?? b\<close>.\<close>

definition coalesce :: "'a option \<Rightarrow> 'a \<Rightarrow> 'a" where
  "coalesce a b = (case a of None \<Rightarrow> b | Some x \<Rightarrow> x)"

lemma coalesce_simps [simp]: "coalesce None b = b" "coalesce (Some x) b = x"
  by (simp_all add: coalesce_def)

subsection \<open>Numbers as text\<close>

definition digit_char :: "nat \<Rightarrow> char" where
  "digit_char d = (if d < 10 then char_of (48 + d) else char_of (87 + d))"

fun digits_rev :: "nat \<Rightarrow> nat \<Rightarrow> nat list" where
  "digits_rev b n =
     (if b < 2 then [] else if n < b then [n] else (n mod b) # digits_rev b (n div b))"

declare digits_rev.simps [simp del]

text \<open>\<open>n.toString(b)\<close> for a non-negative integer.\<close>

definition nat_to_base :: "nat \<Rightarrow> nat \<Rightarrow> string" where
  "nat_to_base b n = map digit_char (rev (digits_rev b n))"

definition nat_str :: "nat \<Rightarrow> string" where
  "nat_str n = nat_to_base 10 n"

definition int_str :: "int \<Rightarrow> string" where
  "int_str i = (if i < 0 then CHR ''-'' # nat_str (nat (- i)) else nat_str (nat i))"

subsection \<open>White space\<close>

text \<open>\<open>String.prototype.trim\<close>, for the ASCII white space characters.\<close>

definition is_space :: "char \<Rightarrow> bool" where
  "is_space c \<longleftrightarrow> (of_char c :: nat) \<in> {9, 10, 11, 12, 13, 32}"

definition js_trim :: "string \<Rightarrow> string" where
  "js_trim s = rev (dropWhile is_space (rev (dropWhile is_space s)))"

lemma js_trim_Nil [simp]: "js_trim [] = []"
  by (simp add: js_trim_def)

lemma js_trim_blank: "js_trim s = [] \<longleftrightarrow> list_all is_space s"
proof -
  have "js_trim s = [] \<longleftrightarrow> (\<forall>c \<in> set (dropWhile is_space s). is_space c)"
    by (simp add: js_trim_def)
  also have "\<dots> \<longleftrightarrow> (\<forall>c \<in> set s. is_space c)"
    by (induction s) auto
  finally show ?thesis by (simp add: list_all_iff)
qed

end
