(* ===== verification/CrmTypes.thy ===== *)
theory CrmTypes imports Prelude begin

text \<open>
  The entities of the CRM service as the client reads them, src/frontend/src/types/CRM.ts: the
  enumerations, conversations (without their nested interactions and SLA records, which no modelled
  code reads), commitments and the entries of a contact's timeline. An optional field is an option.
\<close>

datatype interaction_channel =
    Phone_inbound | Phone_outbound | Secure_message | Email_inbound | Email_outbound | Walk_in
  | Portal_activity | Mail_inbound | Mail_outbound | Internal_handoff | System_channel | Fax

datatype interaction_type =
    Inquiry | Request | Complaint | Follow_up | Outreach | Escalation | Callback | Notification
  | Status_update | Document_receipt | Process_event | System_event

datatype interaction_outcome =
    Resolved | Escalated | Callback_scheduled | Info_provided | Work_item_created | Transferred
  | Voicemail_left | No_answer | In_progress

datatype conversation_status = Conv_open | Conv_pending | Conv_resolved | Conv_closed | Conv_reopened

datatype commitment_status = Com_pending | Com_in_progress | Com_fulfilled | Com_overdue | Com_cancelled

datatype direction = Inbound | Outbound | Internal

datatype visibility = Vis_internal | Vis_public

record conversation =
  cv_conversationId :: string
  cv_tenantId :: string
  cv_anchorType :: string
  cv_anchorId :: "string option"
  cv_topicCategory :: "string option"
  cv_topicSubcategory :: "string option"
  cv_subject :: "string option"
  cv_status :: conversation_status
  cv_resolvedAt :: "string option"
  cv_resolvedBy :: "string option"
  cv_resolutionSummary :: "string option"
  cv_slaDefinitionId :: "string option"
  cv_slaDueAt :: "string option"
  cv_slaBreached :: bool
  cv_assignedTeam :: "string option"
  cv_assignedAgent :: "string option"
  cv_interactionCount :: nat
  cv_createdAt :: string
  cv_updatedAt :: string
  cv_createdBy :: string
  cv_updatedBy :: string

record commitment =
  cm_commitmentId :: string
  cm_tenantId :: string
  cm_interactionId :: string
  cm_contactId :: "string option"
  cm_conversationId :: "string option"
  cm_description :: string
  cm_targetDate :: string
  cm_ownerAgent :: string
  cm_ownerTeam :: "string option"
  cm_status :: commitment_status
  cm_fulfilledAt :: "string option"
  cm_fulfilledBy :: "string option"
  cm_fulfillmentNote :: "string option"
  cm_alertDaysBefore :: nat
  cm_alertSent :: bool
  cm_createdAt :: string
  cm_createdBy :: string
  cm_updatedAt :: string
  cm_updatedBy :: string

record timeline_entry =
  te_interactionId :: string
  te_channel :: interaction_channel
  te_interactionType :: interaction_type
  te_category :: "string option"
  te_direction :: direction
  te_startedAt :: string
  te_endedAt :: "string option"
  te_durationSeconds :: "nat option"
  te_agentId :: "string option"
  te_outcome :: "interaction_outcome option"
  te_summary :: "string option"
  te_conversationId :: "string option"
  te_hasNotes :: bool
  te_hasCommitments :: bool
  te_visibility :: visibility

text \<open>The texts of the enumerations the client shows or sends.\<close>

fun channel_text :: "interaction_channel \<Rightarrow> string" where
  "channel_text Phone_inbound = ''phone_inbound''"
| "channel_text Phone_outbound = ''phone_outbound''"
| "channel_text Secure_message = ''secure_message''"
| "channel_text Email_inbound = ''email_inbound''"
| "channel_text Email_outbound = ''email_outbound''"
| "channel_text Walk_in = ''walk_in''"
| "channel_text Portal_activity = ''portal_activity''"
| "channel_text Mail_inbound = ''mail_inbound''"
| "channel_text Mail_outbound = ''mail_outbound''"
| "channel_text Internal_handoff = ''internal_handoff''"
| "channel_text System_channel = ''system_event''"
| "channel_text Fax = ''fax''"

fun commitment_status_text :: "commitment_status \<Rightarrow> string" where
  "commitment_status_text Com_pending = ''pending''"
| "commitment_status_text Com_in_progress = ''in_progress''"
| "commitment_status_text Com_fulfilled = ''fulfilled''"
| "commitment_status_text Com_overdue = ''overdue''"
| "commitment_status_text Com_cancelled = ''cancelled''"

end
