(* ===== verification/JsDate.thy ===== *)
theory JsDate imports Prelude begin

text \<open>
  Dates of the JavaScript library the code uses: \<open>new Date(text).getTime()\<close> on the ISO formats the
  services write (a date alone, or a date and a time with an optional fraction and zone), the
  calendar day and year of a time, and differences in days. A time is in milliseconds; a text that
  is no such date is invalid (\<open>None\<close>, the code's NaN). A date alone is in UTC, a date and time
  without a zone in local time: \<open>tz\<close> is the reader's time zone, as the two maps between local and
  universal time.
\<close>

record time_zone =
  tz_utc :: "int \<Rightarrow> int"
  tz_local :: "int \<Rightarrow> int"

definition MS_DAY :: int where "MS_DAY = 86400000"

subsection \<open>The calendar\<close>

definition leap_year :: "int \<Rightarrow> bool" where
  "leap_year y \<longleftrightarrow> y mod 4 = 0 \<and> (y mod 100 \<noteq> 0 \<or> y mod 400 = 0)"

text \<open>The number of the first day of a year, 1970-01-01 being day 0.\<close>

definition day_from_year :: "int \<Rightarrow> int" where
  "day_from_year y = 365 * (y - 1970) + (y - 1969) div 4 - (y - 1901) div 100 + (y - 1601) div 400"

definition month_lengths :: "int \<Rightarrow> int list" where
  "month_lengths y = [31, if leap_year y then 29 else 28, 31, 30, 31, 30, 31, 31, 30, 31, 30, 31]"

definition days_before_month :: "int \<Rightarrow> nat \<Rightarrow> int" where
  "days_before_month y m = sum_list (take (m - 1) (month_lengths y))"

definition day_number :: "int \<Rightarrow> nat \<Rightarrow> nat \<Rightarrow> int" where
  "day_number y m d = day_from_year y + days_before_month y m + int d - 1"

definition valid_date :: "int \<Rightarrow> nat \<Rightarrow> nat \<Rightarrow> bool" where
  "valid_date y m d \<longleftrightarrow> 1 \<le> m \<and> m \<le> 12 \<and> 1 \<le> d \<and> int d \<le> month_lengths y ! (m - 1)"

lemma day_number_epoch: "day_number 1970 1 1 = 0" "day_number 2000 3 1 = 11017"
  by (simp_all add: day_number_def day_from_year_def days_before_month_def month_lengths_def leap_year_def)

lemma div_step:
  fixes x b :: int
  assumes "0 < b"
  shows "(x + 1) div b = x div b + (if (x + 1) mod b = 0 then 1 else 0)"
proof -
  define q r where "q = x div b" and "r = x mod b"
  have x: "x = b * q + r" and r: "0 \<le> r" "r < b" using assms by (simp_all add: q_def r_def)
  show ?thesis
  proof (cases "r + 1 = b")
    case True
    then have "x + 1 = b * (q + 1)" by (simp add: x distrib_left)
    then show ?thesis using assms by (simp add: q_def)
  next
    case False
    then have eq: "x + 1 = b * q + (r + 1)" "0 \<le> r + 1" "r + 1 < b" using x r by simp_all
    then have "(x + 1) div b = q" "(x + 1) mod b = r + 1"
      using int_div_pos_eq[OF eq] int_mod_pos_eq[OF eq] by simp_all
    then show ?thesis using r by (simp add: q_def)
  qed
qed

lemma year_length: "day_from_year (y + 1) = day_from_year y + (if leap_year y then 366 else 365)"
proof -
  have m: "(y - 1969 + 1) mod 4 = y mod 4" "(y - 1901 + 1) mod 100 = y mod 100"
    "(y - 1601 + 1) mod 400 = y mod 400"
    using mod_mult_self1[of y "-492" 4] mod_mult_self1[of y "-19" 100] mod_mult_self1[of y "-4" 400]
    by simp_all
  have d: "y mod 400 = 0 \<Longrightarrow> y mod 100 = 0" "y mod 100 = 0 \<Longrightarrow> y mod 4 = 0"
    by (auto simp flip: dvd_eq_mod_eq_0 intro: dvd_trans[of 100 400] dvd_trans[of 4 100])
  have e: "y + 1 - 1969 = (y - 1969) + 1" "y + 1 - 1901 = (y - 1901) + 1" "y + 1 - 1601 = (y - 1601) + 1"
    by simp_all
  have s: "(y - 1969 + 1) div 4 = (y - 1969) div 4 + (if y mod 4 = 0 then 1 else 0)"
    "(y - 1901 + 1) div 100 = (y - 1901) div 100 + (if y mod 100 = 0 then 1 else 0)"
    "(y - 1601 + 1) div 400 = (y - 1601) div 400 + (if y mod 400 = 0 then 1 else 0)"
    by (subst div_step, simp, subst m, rule refl)+
  have add: "365 * (y + 1 - 1970) + (a + i) - (b + j) + (c + k) =
      365 * (y - 1970) + a - b + c + (365 + i - j + k)" for a b c i j k :: int by simp
  have "day_from_year (y + 1) = day_from_year y
      + (365 + (if y mod 4 = 0 then 1 else 0) - (if y mod 100 = 0 then 1 else 0) + (if y mod 400 = 0 then 1 else 0))"
    unfolding day_from_year_def e s by (rule add)
  moreover have "365 + (if y mod 4 = 0 then 1 else 0) - (if y mod 100 = 0 then 1 else 0)
      + (if y mod 400 = 0 then 1 else 0) = (if leap_year y then 366 else (365::int))"
    using d unfolding leap_year_def
    by (cases "y mod 4 = 0"; cases "y mod 100 = 0"; cases "y mod 400 = 0") simp_all
  ultimately show ?thesis by (simp only:)
qed

lemma year_length_ge: "day_from_year y + 365 \<le> day_from_year (y + 1)"
  by (simp add: year_length)

lemma day_from_year_mono: "y < z \<Longrightarrow> day_from_year y + 365 \<le> day_from_year z"
proof (induction "nat (z - y)" arbitrary: z)
  case (Suc n)
  show ?case
  proof (cases "z = y + 1")
    case False
    then have "day_from_year y + 365 \<le> day_from_year (z - 1)" using Suc by simp
    then show ?thesis using year_length_ge[of "z - 1"] by simp
  qed (simp add: year_length_ge)
qed simp

lemma day_from_year_less_iff: "day_from_year y < day_from_year z \<longleftrightarrow> y < z"
proof
  assume "day_from_year y < day_from_year z"
  then show "y < z" using day_from_year_mono[of z y] by (cases "z < y"; cases "z = y") auto
qed (use day_from_year_mono[of y z] in simp)

lemma year_length_gt: "day_from_year y < day_from_year (y + 1)"
  using year_length_ge[of y] by simp

text \<open>The year of a day: an estimate from below, then up one year at a time.\<close>

function year_up :: "int \<Rightarrow> int \<Rightarrow> int" where
  "year_up y n = (if day_from_year (y + 1) \<le> n then year_up (y + 1) n else y)"
  by pat_completeness auto

termination
  by (relation "measure (\<lambda>(y, n). nat (n - day_from_year y))")
    (auto simp: year_length_gt intro: order.strict_trans2[OF year_length_gt])

declare year_up.simps [simp del]

definition year_of_day :: "int \<Rightarrow> int" where
  "year_of_day n = year_up (1970 + (if 0 \<le> n then n div 366 else n div 365)) n"

lemma year_up_spec:
  "day_from_year y \<le> n \<Longrightarrow>
   day_from_year (year_up y n) \<le> n \<and> n < day_from_year (year_up y n + 1)"
proof (induction y n rule: year_up.induct)
  case (1 y n)
  then show ?case by (subst (1 2) year_up.simps) auto
qed

lemma years_from_below: "day_from_year y + 365 * int m \<le> day_from_year (y + int m)"
proof (induction m)
  case (Suc m)
  then show ?case using year_length_ge[of "y + int m"] by (simp add: algebra_simps)
qed simp

lemma years_from_above: "day_from_year (y + int m) \<le> day_from_year y + 366 * int m"
proof (induction m)
  case (Suc m)
  then show ?case using year_length[of "y + int m"] by (simp add: algebra_simps split: if_splits)
qed simp

lemma div_below:
  fixes x b :: int
  assumes "0 < b"
  shows "b * (x div b) \<le> x"
proof -
  have "x - b * (x div b) = x mod b" by (rule minus_mult_div_eq_mod)
  with pos_mod_sign[OF assms, of x] show ?thesis by linarith
qed

lemma year_of_day_spec:
  "day_from_year (year_of_day n) \<le> n \<and> n < day_from_year (year_of_day n + 1)"
proof -
  have epoch: "day_from_year 1970 = 0" by (simp add: day_from_year_def)
  have "day_from_year (1970 + (if 0 \<le> n then n div 366 else n div 365)) \<le> n"
  proof (cases "0 \<le> n")
    case True
    then have q: "0 \<le> n div 366" "366 * (n div 366) \<le> n"
      by (simp_all add: pos_imp_zdiv_nonneg_iff div_below)
    from years_from_above[of 1970 "nat (n div 366)"] q epoch have "day_from_year (1970 + n div 366) \<le> 366 * (n div 366)"
      by simp
    with q True show ?thesis by simp
  next
    case False
    define q where "q = n div 365"
    have q: "q < 0" "365 * q \<le> n" using False by (simp_all add: q_def div_below neg_imp_zdiv_neg_iff)
    from years_from_below[of "1970 + q" "nat (- q)"] q(1) epoch have "day_from_year (1970 + q) \<le> 365 * q"
      by simp
    with q False show ?thesis by (simp add: q_def)
  qed
  then show ?thesis unfolding year_of_day_def by (rule year_up_spec)
qed

lemma year_of_day_unique:
  assumes "day_from_year y \<le> n" "n < day_from_year (y + 1)"
  shows "year_of_day n = y"
proof -
  have "day_from_year y < day_from_year (year_of_day n + 1)" "day_from_year (year_of_day n) < day_from_year (y + 1)"
    using assms year_of_day_spec[of n] by linarith+
  then show ?thesis by (simp add: day_from_year_less_iff)
qed

subsection \<open>Texts\<close>

definition digits_of :: "string \<Rightarrow> nat option" where
  "digits_of s =
     (if s \<noteq> [] \<and> list_all (\<lambda>c. 48 \<le> (of_char c :: nat) \<and> (of_char c :: nat) \<le> 57) s
      then Some (foldl (\<lambda>n c. 10 * n + (of_char c - 48)) 0 s) else None)"

definition two_digits :: "string \<Rightarrow> nat option" where
  "two_digits s = (if length s = 2 then digits_of s else None)"

text \<open>The day number of \<open>YYYY-MM-DD\<close>.\<close>

definition parse_day :: "string \<Rightarrow> int option" where
  "parse_day s =
     (if length s = 10 \<and> s ! 4 = CHR ''-'' \<and> s ! 7 = CHR ''-'' then
        (case (digits_of (take 4 s), two_digits (take 2 (drop 5 s)), two_digits (drop 8 s)) of
           (Some y, Some m, Some d) \<Rightarrow>
             if valid_date (int y) m d then Some (day_number (int y) m d) else None
         | _ \<Rightarrow> None)
      else None)"

text \<open>The milliseconds of \<open>HH:MM\<close>, \<open>HH:MM:SS\<close> or \<open>HH:MM:SS.fff\<close>.\<close>

definition parse_clock :: "string \<Rightarrow> int option" where
  "parse_clock s =
     (case (two_digits (take 2 s), two_digits (take 2 (drop 3 s))) of
        (Some h, Some mi) \<Rightarrow>
          if 23 < h \<or> 59 < mi \<or> take 1 (drop 2 s) \<noteq> '':'' then None
          else if length s = 5 then Some (int (h * 3600000 + mi * 60000))
          else if take 1 (drop 5 s) \<noteq> '':'' then None
          else (case two_digits (take 2 (drop 6 s)) of
                  None \<Rightarrow> None
                | Some sec \<Rightarrow>
                    if 59 < sec then None
                    else let ms = h * 3600000 + mi * 60000 + sec * 1000 in
                      if length s = 8 then Some (int ms)
                      else if take 1 (drop 8 s) \<noteq> ''.'' then None
                      else case digits_of (drop 9 s) of
                             None \<Rightarrow> None
                           | Some _ \<Rightarrow>
                               map_option (\<lambda>f. int (ms + f)) (digits_of (take 3 (drop 9 s @ ''00''))))
      | _ \<Rightarrow> None)"

text \<open>The zone at the end of a time: \<open>Z\<close>, an offset in minutes, or none.\<close>

definition split_zone :: "string \<Rightarrow> string \<times> int option option" where
  "split_zone s =
     (let n = length s in
      if s \<noteq> [] \<and> last s = CHR ''Z'' then (butlast s, Some (Some 0))
      else if 6 \<le> n \<and> s ! (n - 6) \<in> {CHR ''+'', CHR ''-''} then
        (take (n - 6) s, Some
          (case (two_digits (take 2 (drop (n - 5) s)), two_digits (drop (n - 2) s)) of
             (Some h, Some mi) \<Rightarrow>
               if s ! (n - 3) \<noteq> CHR '':'' \<or> 23 < h \<or> 59 < mi then None
               else Some ((if s ! (n - 6) = CHR ''-'' then -1 else 1) * int (h * 60 + mi))
           | _ \<Rightarrow> None))
      else (s, None))"

text \<open>\<open>new Date(text).getTime()\<close>\<close>

definition getTime :: "time_zone \<Rightarrow> string \<Rightarrow> int option" where
  "getTime tz s =
     (if length s = 10 then map_option (\<lambda>n. MS_DAY * n) (parse_day s)
      else if take 1 (drop 10 s) = ''T'' then
        (case split_zone (drop 11 s) of
           (clock, zone) \<Rightarrow>
             (case (parse_day (take 10 s), parse_clock clock) of
                (Some n, Some c) \<Rightarrow>
                  (case zone of
                     None \<Rightarrow> Some (tz_utc tz (MS_DAY * n + c))
                   | Some None \<Rightarrow> None
                   | Some (Some off) \<Rightarrow> Some (MS_DAY * n + c - 60000 * off))
              | _ \<Rightarrow> None))
      else None)"

text \<open>The calendar day and the year a reader sees at a time.\<close>

definition local_day :: "time_zone \<Rightarrow> int \<Rightarrow> int" where
  "local_day tz t = tz_local tz t div MS_DAY"

definition getFullYear :: "time_zone \<Rightarrow> int \<Rightarrow> int" where
  "getFullYear tz t = year_of_day (local_day tz t)"

text \<open>A zone with a fixed offset in minutes.\<close>

definition fixed_zone :: "int \<Rightarrow> time_zone" where
  "fixed_zone off = \<lparr>tz_utc = (\<lambda>l. l - 60000 * off), tz_local = (\<lambda>t. t + 60000 * off)\<rparr>"

text \<open>The texts the code builds from a date: at local midnight and at the day's last second.\<close>

lemma getTime_day: "parse_day d = Some n \<Longrightarrow> getTime tz d = Some (MS_DAY * n)"
  by (simp add: getTime_def parse_day_def split: if_splits)

lemma parse_day_length: "parse_day d = Some n \<Longrightarrow> length d = 10"
  by (simp add: parse_day_def split: if_splits)

lemma getTime_clock:
  assumes "parse_day d = Some n" "split_zone clock = (clock, None)" "parse_clock clock = Some c"
  shows "getTime tz (d @ CHR ''T'' # clock) = Some (tz_utc tz (MS_DAY * n + c))"
  using assms parse_day_length[OF assms(1)] by (simp add: getTime_def)

lemma getTime_midnight:
  "parse_day d = Some n \<Longrightarrow> getTime tz (d @ ''T00:00:00'') = Some (tz_utc tz (MS_DAY * n))"
  using getTime_clock[of d n "''00:00:00''" 0 tz]
  by (simp add: split_zone_def Let_def parse_clock_def two_digits_def digits_of_def)

lemma getTime_last_second:
  "parse_day d = Some n \<Longrightarrow>
   getTime tz (d @ ''T23:59:59'') = Some (tz_utc tz (MS_DAY * n + 86399000))"
  using getTime_clock[of d n "''23:59:59''" 86399000 tz]
  by (simp add: split_zone_def Let_def parse_clock_def two_digits_def digits_of_def)

subsection \<open>The text of a day\<close>

text \<open>Month and day of month of the \<open>d\<close>-th day of a year, walking over the month lengths.\<close>

fun month_day :: "int list \<Rightarrow> int \<Rightarrow> nat \<Rightarrow> nat \<times> int" where
  "month_day [] d m = (m, d)"
| "month_day (l # ls) d m = (if d < l then (m, d) else month_day ls (d - l) (m + 1))"

definition pad2 :: "nat \<Rightarrow> string" where
  "pad2 n = [digit_char (n div 10 mod 10), digit_char (n mod 10)]"

text \<open>\<open>toISOString().slice(0, 10)\<close> of a time on day \<open>n\<close>, for the years with four digits.\<close>

definition iso_day :: "int \<Rightarrow> string" where
  "iso_day n =
     (let y = year_of_day n in
      case month_day (month_lengths y) (n - day_from_year y) 1 of
        (m, d) \<Rightarrow> pad2 (nat y div 100) @ pad2 (nat y) @ ''-'' @ pad2 m @ ''-'' @ pad2 (nat d + 1))"

lemma month_day_spec:
  "0 \<le> d \<Longrightarrow> d < sum_list ls \<Longrightarrow>
   (case month_day ls d m of (m', d') \<Rightarrow>
      m \<le> m' \<and> m' < m + length ls \<and> 0 \<le> d' \<and> d' < ls ! (m' - m)
      \<and> d = sum_list (take (m' - m) ls) + d')"
proof (induction ls d m rule: month_day.induct)
  case (2 l ls d m)
  show ?case
  proof (cases "d < l")
    case False
    obtain m' d' where md: "month_day ls (d - l) (m + 1) = (m', d')" by fastforce
    with 2 False have "m + 1 \<le> m'" "m' < m + 1 + length ls" "0 \<le> d'" "d' < ls ! (m' - (m + 1))"
      "d - l = sum_list (take (m' - (m + 1)) ls) + d'" by simp_all
    moreover from this(1) have "m' - m = Suc (m' - (m + 1))" by simp
    ultimately show ?thesis using False md by simp
  qed (use 2 in simp)
qed simp

lemma sum_month_lengths: "sum_list (month_lengths y) = day_from_year (y + 1) - day_from_year y"
  by (simp add: month_lengths_def year_length)

lemma digit_char_code: "d < 10 \<Longrightarrow> (of_char (digit_char d) :: nat) = 48 + d"
  by (simp add: digit_char_def of_char_of)

lemma digits_of_digits:
  "ds \<noteq> [] \<Longrightarrow> list_all (\<lambda>d. d < 10) ds \<Longrightarrow>
   digits_of (map digit_char ds) = Some (foldl (\<lambda>n d. 10 * n + d) 0 ds)"
proof -
  assume ds: "ds \<noteq> []" "list_all (\<lambda>d. d < 10) ds"
  have "foldl (\<lambda>n c. 10 * n + (of_char c - 48)) a (map digit_char ds) = foldl (\<lambda>n d. 10 * n + d) a ds" for a :: nat
    using ds(2) by (induction ds arbitrary: a) (simp_all add: digit_char_code)
  moreover have "list_all (\<lambda>c. 48 \<le> (of_char c :: nat) \<and> (of_char c :: nat) \<le> 57) (map digit_char ds)"
    using ds(2) by (auto simp: list_all_iff digit_char_code)
  ultimately show ?thesis using ds(1) by (simp add: digits_of_def)
qed

lemma two_digits_pad2: "n < 100 \<Longrightarrow> two_digits (pad2 n) = Some n"
  using digits_of_digits[of "[n div 10 mod 10, n mod 10]"]
  by (simp add: two_digits_def pad2_def less_mult_imp_div_less mult.commute)

lemma digits_pad4: "n < 10000 \<Longrightarrow> digits_of (pad2 (n div 100) @ pad2 n) = Some n"
proof -
  assume n: "n < 10000"
  have "100 * (n div 100) + n mod 100 = n" by (rule mult_div_mod_eq)
  moreover have "n mod 100 = 10 * (n div 10 mod 10) + n mod 10" using mod_mult2_eq[of n 10 10] by simp
  ultimately have "100 * (n div 100) + 10 * (n div 10 mod 10) + n mod 10 = n" by linarith
  moreover have "n div 100 div 10 < 10" using n by (simp add: less_mult_imp_div_less)
  ultimately show ?thesis
    using digits_of_digits[of "[n div 100 div 10 mod 10, n div 100 mod 10, n div 10 mod 10, n mod 10]"]
    by (simp add: pad2_def)
qed

lemma length_pad2 [simp]: "length (pad2 n) = 2"
  by (simp add: pad2_def)

lemma parse_day_parts:
  assumes "digits_of (pad2 a @ pad2 b) = Some y" "m < 100" "d < 100" "valid_date (int y) m d"
  shows "parse_day (pad2 a @ pad2 b @ ''-'' @ pad2 m @ ''-'' @ pad2 d) = Some (day_number (int y) m d)"
  using assms two_digits_pad2[of m] two_digits_pad2[of d] by (simp add: parse_day_def nth_append)

text \<open>Reading back the text of a day gives the day.\<close>

lemma parse_iso_day:
  assumes "0 \<le> year_of_day n" "year_of_day n < 10000"
  shows "parse_day (iso_day n) = Some n"
proof -
  define y where "y = year_of_day n"
  obtain m d where md: "month_day (month_lengths y) (n - day_from_year y) 1 = (m, d)" by fastforce
  have "0 \<le> n - day_from_year y" "n - day_from_year y < sum_list (month_lengths y)"
    using year_of_day_spec[of n] by (simp_all add: y_def sum_month_lengths)
  from month_day_spec[OF this, of 1] md
  have m: "1 \<le> m" "m < 13" and d: "0 \<le> d" "d < month_lengths y ! (m - 1)"
    and n: "n - day_from_year y = sum_list (take (m - 1) (month_lengths y)) + d"
    by (simp_all add: month_lengths_def)
  have "month_lengths y ! (m - 1) \<le> 31" using m
    by (cases "m - 1" rule: nat.exhaust) (auto simp: month_lengths_def nth_Cons split: nat.split)
  with d have "nat d + 1 < 100" by simp
  moreover have "valid_date y m (nat d + 1)" "day_number y m (nat d + 1) = n"
    using m d n by (simp_all add: valid_date_def day_number_def days_before_month_def)
  moreover have y: "int (nat y) = y" "nat y < 10000" using assms by (simp_all add: y_def)
  ultimately have "parse_day (pad2 (nat y div 100) @ pad2 (nat y) @ ''-'' @ pad2 m @ ''-'' @ pad2 (nat d + 1)) = Some n"
    using parse_day_parts[OF digits_pad4[OF y(2)], of m "nat d + 1"] m(2) by (simp only: y(1))
  then show ?thesis using md by (simp add: iso_day_def Let_def y_def[symmetric])
qed

end
