(* ===== verification/JsSort.thy ===== *)
theory JsSort imports Prelude "HOL-Library.Multiset" begin

text \<open>
  \<open>Array.prototype.sort\<close> with a comparison function: a stable sort by the sign of the comparator.
  The locale states what a comparator must satisfy for the result to be determined, and proves the
  sort ordered, stable and the only such arrangement, so that any engine's sort is this one.
\<close>

fun insert_by :: "('a \<Rightarrow> 'a \<Rightarrow> int) \<Rightarrow> 'a \<Rightarrow> 'a list \<Rightarrow> 'a list" where
  "insert_by cmp x [] = [x]"
| "insert_by cmp x (y # ys) = (if cmp x y \<le> 0 then x # y # ys else y # insert_by cmp x ys)"

definition js_sort :: "('a \<Rightarrow> 'a \<Rightarrow> int) \<Rightarrow> 'a list \<Rightarrow> 'a list" where
  "js_sort cmp xs = foldr (insert_by cmp) xs []"

lemma js_sort_simps [simp]:
  "js_sort cmp [] = []" "js_sort cmp (x # xs) = insert_by cmp x (js_sort cmp xs)"
  by (simp_all add: js_sort_def)

lemma mset_insert_by [simp]: "mset (insert_by cmp x ys) = add_mset x (mset ys)"
  by (induction ys) simp_all

lemma mset_js_sort [simp]: "mset (js_sort cmp xs) = mset xs"
  by (induction xs) simp_all

lemma set_js_sort [simp]: "set (js_sort cmp xs) = set xs"
  by (metis mset_js_sort set_mset_mset)

lemma length_js_sort [simp]: "length (js_sort cmp xs) = length xs"
  by (metis mset_js_sort size_mset)

text \<open>\<open>a.localeCompare(b)\<close>: the collation compares the sort keys of the two strings.\<close>

definition localeCompare :: "(string \<Rightarrow> 'k::linorder) \<Rightarrow> string \<Rightarrow> string \<Rightarrow> int" where
  "localeCompare collate a b =
     (if collate a < collate b then -1 else if collate b < collate a then 1 else 0)"

definition ordered_by :: "('a \<Rightarrow> 'a \<Rightarrow> int) \<Rightarrow> 'a list \<Rightarrow> bool" where
  "ordered_by cmp xs \<longleftrightarrow> sorted_wrt (\<lambda>a b. cmp a b \<le> 0) xs"

locale comparator =
  fixes cmp :: "'a \<Rightarrow> 'a \<Rightarrow> int"
  assumes cmp_swap: "cmp a b < 0 \<longleftrightarrow> 0 < cmp b a"
    and cmp_trans: "cmp a b \<le> 0 \<Longrightarrow> cmp b c \<le> 0 \<Longrightarrow> cmp a c \<le> 0"
begin

lemma cmp_total: "cmp a b \<le> 0 \<or> cmp b a \<le> 0"
  using cmp_swap[of a b] cmp_swap[of b a] by linarith

lemma cmp_refl: "cmp a a = 0"
  using cmp_swap[of a a] by linarith

lemma cmp_equal: "cmp a b = 0 \<longleftrightarrow> cmp a b \<le> 0 \<and> cmp b a \<le> 0"
  using cmp_swap[of a b] cmp_swap[of b a] by linarith

lemma ordered_insert: "ordered_by cmp ys \<Longrightarrow> ordered_by cmp (insert_by cmp x ys)"
proof (induction ys)
  case (Cons y ys)
  show ?case
  proof (cases "cmp x y \<le> 0")
    case True
    then show ?thesis using Cons.prems by (auto simp: ordered_by_def intro: cmp_trans[OF True])
  next
    case False
    then have "cmp y x \<le> 0" using cmp_total by blast
    moreover have "set (insert_by cmp x ys) = insert x (set ys)"
      by (metis mset_insert_by set_mset_add_mset_insert set_mset_mset)
    ultimately show ?thesis using False Cons by (auto simp: ordered_by_def)
  qed
qed (simp add: ordered_by_def)

lemma ordered_sort: "ordered_by cmp (js_sort cmp xs)"
  by (induction xs) (simp_all add: ordered_insert, simp add: ordered_by_def)

text \<open>Elements that compare equal keep their order.\<close>

lemma insert_same: "cmp x a = 0 \<Longrightarrow>
    filter (\<lambda>y. cmp y a = 0) (insert_by cmp x ys) = x # filter (\<lambda>y. cmp y a = 0) ys"
proof (induction ys)
  case (Cons y ys)
  show ?case
  proof (cases "cmp x y \<le> 0")
    case False
    have "cmp y a \<noteq> 0"
    proof
      assume "cmp y a = 0"
      then have "cmp a y \<le> 0" using cmp_equal by blast
      moreover have "cmp x a \<le> 0" using Cons.prems by simp
      ultimately show False using cmp_trans False by blast
    qed
    then show ?thesis using False Cons by simp
  qed (use Cons.prems in simp)
qed simp

lemma insert_other: "cmp x a \<noteq> 0 \<Longrightarrow>
    filter (\<lambda>y. cmp y a = 0) (insert_by cmp x ys) = filter (\<lambda>y. cmp y a = 0) ys"
  by (induction ys) simp_all

lemma stable_sort: "filter (\<lambda>y. cmp y a = 0) (js_sort cmp xs) = filter (\<lambda>y. cmp y a = 0) xs"
proof (induction xs)
  case (Cons x xs)
  then show ?case by (cases "cmp x a = 0") (simp_all add: insert_same insert_other)
qed simp

text \<open>An ordered list whose classes are those of another ordered list is that list.\<close>

lemma ordered_unique:
  "ordered_by cmp xs \<Longrightarrow> ordered_by cmp ys \<Longrightarrow> (\<And>a. filter (\<lambda>y. cmp y a = 0) xs = filter (\<lambda>y. cmp y a = 0) ys)
    \<Longrightarrow> xs = ys"
proof (induction xs arbitrary: ys)
  case Nil
  then have "a \<notin> set ys" for a
    using Nil(3)[of a] cmp_refl[of a] by (auto simp: filter_empty_conv eq_commute[of "[]"])
  then show ?case by (cases ys) auto
next
  case (Cons x xs)
  have "x \<in> set (filter (\<lambda>y. cmp y x = 0) (x # xs))" by (simp add: cmp_refl)
  then have "x \<in> set ys" unfolding Cons.prems(3)[of x] by simp
  then obtain z zs where ys: "ys = z # zs" by (cases ys) auto
  have "z \<in> set (filter (\<lambda>y. cmp y z = 0) ys)" by (simp add: cmp_refl ys)
  then have "z \<in> set (x # xs)" unfolding Cons.prems(3)[of z, symmetric] by (auto split: if_splits)
  then have "cmp x z \<le> 0" using Cons.prems(1) cmp_refl by (auto simp: ordered_by_def)
  moreover have "cmp z x \<le> 0"
    using \<open>x \<in> set ys\<close> ys Cons.prems(2) cmp_refl by (auto simp: ordered_by_def)
  ultimately have zx: "cmp z x = 0" using cmp_equal by blast
  then have "x = z" using Cons.prems(3)[of x] ys cmp_refl[of x] by simp
  moreover have "xs = zs"
  proof (rule Cons.IH)
    show "ordered_by cmp xs" "ordered_by cmp zs" using Cons.prems ys by (auto simp: ordered_by_def)
    show "filter (\<lambda>y. cmp y a = 0) xs = filter (\<lambda>y. cmp y a = 0) zs" for a
      using Cons.prems(3)[of a] ys \<open>x = z\<close> by (auto split: if_splits)
  qed
  ultimately show ?case using ys by simp
qed

text \<open>Whatever ordered and stable arrangement an engine returns, it is this one.\<close>

lemma any_stable_sort:
  "ordered_by cmp ys \<Longrightarrow> (\<And>a. filter (\<lambda>y. cmp y a = 0) ys = filter (\<lambda>y. cmp y a = 0) xs) \<Longrightarrow> ys = js_sort cmp xs"
  by (rule ordered_unique[OF _ ordered_sort]) (simp_all add: stable_sort)

end

text \<open>A comparator that subtracts numeric keys.\<close>

interpretation by_key: comparator "\<lambda>a b. key a - key b" for key :: "'a \<Rightarrow> int"
  by unfold_locales simp_all

text \<open>One key first, and a second comparator where it is equal.\<close>

definition then_by :: "('a \<Rightarrow> int) \<Rightarrow> ('a \<Rightarrow> 'a \<Rightarrow> int) \<Rightarrow> 'a \<Rightarrow> 'a \<Rightarrow> int" where
  "then_by key cmp a b = (let d = key a - key b in if d \<noteq> 0 then d else cmp a b)"

interpretation by_locale: comparator "\<lambda>a b. localeCompare collate (name a) (name b)"
  for collate :: "string \<Rightarrow> 'k::linorder" and name :: "'a \<Rightarrow> string"
  by unfold_locales (auto simp: localeCompare_def split: if_splits)

interpretation key_then_locale:
  comparator "then_by key (\<lambda>a b. localeCompare collate (name a) (name b))"
  for key :: "'a \<Rightarrow> int" and collate :: "string \<Rightarrow> 'k::linorder" and name :: "'a \<Rightarrow> string"
  by unfold_locales (auto simp: then_by_def localeCompare_def Let_def split: if_splits)

text \<open>A sort asks the comparator about the elements only.\<close>

lemma insert_by_cong:
  "(\<And>y. y \<in> set ys \<Longrightarrow> cmp x y = cmp' x y) \<Longrightarrow> insert_by cmp x ys = insert_by cmp' x ys"
  by (induction ys) simp_all

lemma js_sort_cong:
  "(\<And>x y. x \<in> set xs \<Longrightarrow> y \<in> set xs \<Longrightarrow> cmp x y = cmp' x y) \<Longrightarrow> js_sort cmp xs = js_sort cmp' xs"
proof (induction xs)
  case (Cons x xs)
  then have "js_sort cmp xs = js_sort cmp' xs" by simp
  with Cons.prems show ?case by (auto intro: insert_by_cong)
qed simp

text \<open>A comparator that subtracts keys on the elements sorts by the key, keeping ties in order.\<close>

lemma sort_by_difference:
  fixes key :: "'a \<Rightarrow> int"
  assumes "\<And>x y. x \<in> set xs \<Longrightarrow> y \<in> set xs \<Longrightarrow> cmp x y = key x - key y"
  shows "sorted_wrt (\<lambda>x y. key x \<le> key y) (js_sort cmp xs)"
    and "filter (\<lambda>x. key x = key a) (js_sort cmp xs) = filter (\<lambda>x. key x = key a) xs"
proof -
  have eq: "js_sort cmp xs = js_sort (\<lambda>x y. key x - key y) xs" by (rule js_sort_cong) (rule assms)
  show "sorted_wrt (\<lambda>x y. key x \<le> key y) (js_sort cmp xs)"
    using by_key.ordered_sort[of key xs] unfolding eq ordered_by_def by simp
  show "filter (\<lambda>x. key x = key a) (js_sort cmp xs) = filter (\<lambda>x. key x = key a) xs"
    using by_key.stable_sort[of key a xs] unfolding eq by simp
qed

end
