(* ===== verification/CrmSummary.thy ===== *)
theory CrmSummary imports CrmTypes JsDate JsSort begin

text \<open>
  The digest of a contact, \<open>composeCrmSummary\<close> of src/frontend/src/lib/crmSummary.ts: timeline,
  conversations and commitments in, one record of texts out. \<open>now\<close> is the clock and \<open>tz\<close> the
  reader's zone; an invalid date is \<open>None\<close>, and a figure computed from one is the text NaN.
\<close>

subsection \<open>Days and times\<close>

text \<open>\<open>Math.round\<close> of a quotient of integers: halves go up.\<close>

definition round_div :: "int \<Rightarrow> int \<Rightarrow> int" where
  "round_div x m = (2 * x + m) div (2 * m)"

definition daysBetween :: "int \<Rightarrow> int \<Rightarrow> int" where
  "daysBetween a b = round_div \<bar>a - b\<bar> MS_DAY"

definition num_text :: "int option \<Rightarrow> string" where
  "num_text n = (case n of None \<Rightarrow> ''NaN'' | Some i \<Rightarrow> int_str i)"

definition relativeTime :: "time_zone \<Rightarrow> int \<Rightarrow> string \<Rightarrow> string" where
  "relativeTime tz now text =
     (case map_option (\<lambda>t. daysBetween t now) (getTime tz text) of
        None \<Rightarrow> ''NaN months ago''
      | Some days \<Rightarrow>
          if days = 0 then ''today''
          else if days = 1 then ''1 day ago''
          else if days < 30 then int_str days @ ''d ago''
          else let months = round_div days 30 in
               if months = 1 then ''1 month ago'' else int_str months @ '' months ago'')"

fun channelLabel :: "interaction_channel \<Rightarrow> string" where
  "channelLabel Phone_inbound = ''phone call''"
| "channelLabel Phone_outbound = ''phone call''"
| "channelLabel Secure_message = ''secure message''"
| "channelLabel Email_inbound = ''email''"
| "channelLabel Email_outbound = ''email''"
| "channelLabel Walk_in = ''walk-in''"
| "channelLabel Portal_activity = ''portal activity''"
| "channelLabel Mail_inbound = ''mail''"
| "channelLabel Mail_outbound = ''mail''"
| "channelLabel Internal_handoff = ''internal note''"
| "channelLabel System_channel = ''system event''"
| "channelLabel Fax = ''fax''"

text \<open>Newest first; the difference of an invalid time is NaN, which a sort takes as 0.\<close>

definition newest_first :: "time_zone \<Rightarrow> ('a \<Rightarrow> string) \<Rightarrow> 'a \<Rightarrow> 'a \<Rightarrow> int" where
  "newest_first tz f a b =
     (case (getTime tz (f b), getTime tz (f a)) of (Some y, Some x) \<Rightarrow> y - x | _ \<Rightarrow> 0)"

subsection \<open>The parts of the digest\<close>

definition plural :: "bool \<Rightarrow> string" where
  "plural one = (if one then [] else ''s'')"

definition interactionDigest :: "time_zone \<Rightarrow> int \<Rightarrow> timeline_entry list \<Rightarrow> string" where
  "interactionDigest tz now newest =
     (case newest of
        [] \<Rightarrow> ''No interactions recorded.''
      | latest # _ \<Rightarrow>
          let months = map_option (\<lambda>t. max 1 (round_div (daysBetween t now) 30))
                         (getTime tz (te_startedAt (last newest)));
              count = length newest in
          nat_str count @ '' interaction'' @ plural (count = 1) @ '' over '' @ num_text months
            @ '' month'' @ plural (months = Some 1) @ ''. '' @ ''Last contact: ''
            @ channelLabel (te_channel latest) @ '' '' @ relativeTime tz now (te_startedAt latest) @ ''.'')"

text \<open>The counts of the categories, in the order of their first appearance.\<close>

fun count_up :: "string \<Rightarrow> (string, nat) table \<Rightarrow> (string, nat) table" where
  "count_up c [] = [(c, 1)]"
| "count_up c ((k, n) # m) = (if k = c then (k, n + 1) # m else (k, n) # count_up c m)"

definition categories :: "timeline_entry list \<Rightarrow> conversation list \<Rightarrow> string list" where
  "categories entries conversations =
     filter (\<lambda>c. c \<noteq> [])
       (map (\<lambda>v. or_str (cv_topicCategory v) []) conversations @ map (\<lambda>e. or_str (te_category e) []) entries)"

definition catCounts :: "timeline_entry list \<Rightarrow> conversation list \<Rightarrow> (string, nat) table" where
  "catCounts entries conversations = fold count_up (categories entries conversations) []"

definition topic_text :: "string \<Rightarrow> string" where
  "topic_text cat =
     to_upper (take 1 cat) @ map (\<lambda>c. if c = CHR ''_'' then CHR '' '' else c) (drop 1 cat)"

definition ranked_topics :: "(string, nat) table \<Rightarrow> (string, nat) table" where
  "ranked_topics = js_sort (\<lambda>a b. int (snd b) - int (snd a))"

definition topTopics :: "timeline_entry list \<Rightarrow> conversation list \<Rightarrow> string list" where
  "topTopics entries conversations =
     map (\<lambda>(cat, _). topic_text cat) (take 4 (ranked_topics (catCounts entries conversations)))"

text \<open>A commitment that is neither fulfilled nor cancelled is overdue after its day's last second.\<close>

definition commitment_counts :: "commitment \<Rightarrow> bool" where
  "commitment_counts c \<longleftrightarrow> cm_status c \<noteq> Com_fulfilled \<and> cm_status c \<noteq> Com_cancelled"

definition summary_overdue :: "time_zone \<Rightarrow> int \<Rightarrow> commitment \<Rightarrow> bool" where
  "summary_overdue tz now c =
     (case getTime tz (cm_targetDate c @ ''T23:59:59'') of None \<Rightarrow> False | Some t \<Rightarrow> t < now)"

definition days_overdue :: "time_zone \<Rightarrow> int \<Rightarrow> commitment \<Rightarrow> string" where
  "days_overdue tz now c =
     num_text (map_option (\<lambda>t. daysBetween t now) (getTime tz (cm_targetDate c)))"

definition open_conversation :: "conversation \<Rightarrow> bool" where
  "open_conversation v \<longleftrightarrow> cv_status v \<in> {Conv_open, Conv_pending, Conv_reopened}"

definition openItems ::
  "time_zone \<Rightarrow> int \<Rightarrow> conversation list \<Rightarrow> commitment list \<Rightarrow> string list" where
  "openItems tz now conversations commitments =
     map (\<lambda>v. or_str (cv_subject v) (''Open conversation ('' @ cv_conversationId v @ '')''))
       (filter open_conversation conversations)
     @ map (\<lambda>c. if summary_overdue tz now c
                then cm_description c @ '' (overdue '' @ days_overdue tz now c @ ''d)''
                else cm_description c)
         (filter commitment_counts commitments)"

definition recentHighlights :: "timeline_entry list \<Rightarrow> string list" where
  "recentHighlights newest =
     map (\<lambda>e. let t = or_str (te_summary e) [] in
              if 80 < length t then take 77 t @ ''...'' else t)
       (take 3 (filter (\<lambda>e. or_str (te_summary e) [] \<noteq> []) newest))"

datatype sentiment = Positive | Neutral | Mixed | Concern

definition entry_score :: "timeline_entry \<Rightarrow> int" where
  "entry_score e =
     (if te_interactionType e = Complaint \<or> te_interactionType e = Escalation then -2
      else if te_outcome e = Some Resolved then 1
      else if te_outcome e = Some Escalated then -2
      else 0)"

definition sentimentScore :: "timeline_entry list \<Rightarrow> conversation list \<Rightarrow> int" where
  "sentimentScore entries conversations =
     sum_list (map entry_score entries) - 3 * int (length (filter cv_slaBreached conversations))"

definition sentiment_of :: "int \<Rightarrow> sentiment" where
  "sentiment_of score =
     (if 2 \<le> score then Positive else if score \<le> -3 then Concern else if score < 0 then Mixed else Neutral)"

definition urgentFlags ::
  "time_zone \<Rightarrow> int \<Rightarrow> conversation list \<Rightarrow> commitment list \<Rightarrow> string list" where
  "urgentFlags tz now conversations commitments =
     map (\<lambda>c. cm_description c @ '' ('' @ days_overdue tz now c @ ''d overdue)'')
       (filter (\<lambda>c. commitment_counts c \<and> summary_overdue tz now c) commitments)
     @ map (\<lambda>v. ''SLA breached: '' @ or_str (cv_subject v) (cv_conversationId v))
         (filter cv_slaBreached conversations)"

record crm_summary =
  sm_interactionDigest :: string
  sm_topTopics :: "string list"
  sm_openItems :: "string list"
  sm_recentHighlights :: "string list"
  sm_sentiment :: sentiment
  sm_urgentFlags :: "string list"

definition composeCrmSummary ::
  "time_zone \<Rightarrow> int \<Rightarrow> timeline_entry list \<Rightarrow> conversation list \<Rightarrow> commitment list \<Rightarrow> crm_summary" where
  "composeCrmSummary tz now entries conversations commitments =
     (let newest = js_sort (newest_first tz te_startedAt) entries in
      \<lparr>sm_interactionDigest = interactionDigest tz now newest,
       sm_topTopics = topTopics entries conversations,
       sm_openItems = openItems tz now conversations commitments,
       sm_recentHighlights = recentHighlights newest,
       sm_sentiment = sentiment_of (sentimentScore entries conversations),
       sm_urgentFlags = urgentFlags tz now conversations commitments\<rparr>)"

subsection \<open>What the digest says\<close>

text \<open>The table of counts is the number of times each category occurs.\<close>

lemma count_up_map_of:
  "map_of (count_up c m) k =
    (if k = c then Some (coalesce (map_of m c) 0 + 1) else map_of m k)"
  by (induction c m rule: count_up.induct) auto

lemma count_up_keys:
  "map fst (count_up c m) = (if c \<in> fst ` set m then map fst m else map fst m @ [c])"
  by (induction c m rule: count_up.induct) auto

lemma fold_count_up:
  "map_of (fold count_up cs m) k
     = (if k \<in> set cs then Some (coalesce (map_of m k) 0 + count_list cs k) else map_of m k)"
  by (induction cs arbitrary: m) (auto simp: count_up_map_of count_notin)

lemma fold_count_up_distinct: "distinct (map fst m) \<Longrightarrow> distinct (map fst (fold count_up cs m))"
  by (induction cs arbitrary: m) (auto simp: count_up_keys)

lemma ranked_by_count: "(\<lambda>a b. int (snd b) - int (snd a)) = (\<lambda>a b. (- int (snd a)) - (- int (snd b)))"
  by (simp add: fun_eq_iff)

text \<open>
  The topics of a contact are counted and ranked: each category that occurs in a conversation
  or an interaction has exactly one count, the number of its occurrences; the ranking holds exactly
  these counts, from most to least frequent, categories of equal count in the order in which they
  first occur; and at most four are shown.
\<close>

theorem topics_ranked:
  "map_of (catCounts entries convs) cat =
     (if cat \<in> set (categories entries convs)
      then Some (count_list (categories entries convs) cat) else None)
 \<and> distinct (map fst (catCounts entries convs))
 \<and> mset (ranked_topics (catCounts entries convs)) = mset (catCounts entries convs)
 \<and> sorted_wrt (\<lambda>a b. snd b \<le> snd a) (ranked_topics (catCounts entries convs))
 \<and> filter (\<lambda>p. snd p = n) (ranked_topics (catCounts entries convs))
     = filter (\<lambda>p. snd p = n) (catCounts entries convs)
 \<and> length (topTopics entries convs) \<le> 4"
proof -
  let ?cs = "catCounts entries convs"
  have key: "js_sort (\<lambda>a b. (- int (snd a)) - (- int (snd b))) ?cs = ranked_topics ?cs"
    unfolding ranked_topics_def ranked_by_count ..
  have "ordered_by (\<lambda>a b. (- int (snd a)) - (- int (snd b))) (ranked_topics ?cs)"
    using by_key.ordered_sort[of "\<lambda>p. - int (snd p)" ?cs] unfolding key .
  then have sorted: "sorted_wrt (\<lambda>a b. snd b \<le> snd a) (ranked_topics ?cs)"
    by (simp add: ordered_by_def)
  have stable: "filter (\<lambda>p. snd p = n) (ranked_topics ?cs) = filter (\<lambda>p. snd p = n) ?cs"
    using by_key.stable_sort[of "\<lambda>p. - int (snd p)" "([], n)" ?cs] unfolding key by (simp add: eq_commute[of n])
  show ?thesis
    using sorted stable fold_count_up[of "categories entries convs" "[]" cat]
      fold_count_up_distinct[of "[]" "categories entries convs"]
    by (simp add: catCounts_def ranked_topics_def topTopics_def)
qed

end
