(* ===== verification/Json.thy ===== *)
theory Json imports Prelude begin

text \<open>
  JavaScript values as the API client sees them, \<open>String(x)\<close> and \<open>JSON.stringify\<close> on them,
  and the two enum case transforms of src/frontend/src/lib/apiClient.ts.

  A number is kept as the text \<open>String(n)\<close> gives it, so that no numeric format is
  approximated. \<open>JOpaque\<close> stands for an object without enumerable entries of its own (a
  \<open>FormData\<close>, a \<open>File\<close>, a \<open>Blob\<close>).
\<close>

datatype json =
    JUndef
  | JNull
  | JBool bool
  | JNum string
  | JStr string
  | JArr "json list"
  | JObj "(string \<times> json) list"
  | JOpaque

definition jint :: "int \<Rightarrow> json" where
  "jint i = JNum (int_str i)"

definition jopt :: "('a \<Rightarrow> json) \<Rightarrow> 'a option \<Rightarrow> json" where
  "jopt f x = (case x of None \<Rightarrow> JUndef | Some y \<Rightarrow> f y)"

text \<open>Property access \<open>obj.key\<close>.\<close>

fun jget :: "json \<Rightarrow> string \<Rightarrow> json" where
  "jget (JObj kvs) k = (case map_of kvs k of None \<Rightarrow> JUndef | Some v \<Rightarrow> v)"
| "jget _ k = JUndef"

text \<open>The entries of \<open>{...a, ...b}\<close>.\<close>

definition spread :: "(string \<times> json) list \<Rightarrow> (string \<times> json) list \<Rightarrow> (string \<times> json) list" where
  "spread a b =
     map (\<lambda>(k, v). (k, case map_of b k of Some w \<Rightarrow> w | None \<Rightarrow> v)) a
     @ filter (\<lambda>(k, v). k \<notin> fst ` set a) b"

text \<open>Truthiness.\<close>

fun truthy :: "json \<Rightarrow> bool" where
  "truthy JUndef = False"
| "truthy JNull = False"
| "truthy (JBool b) = b"
| "truthy (JNum t) = (t \<notin> {''0'', ''-0'', ''NaN''})"
| "truthy (JStr s) = (s \<noteq> [])"
| "truthy (JArr _) = True"
| "truthy (JObj _) = True"
| "truthy JOpaque = True"

fun is_object :: "json \<Rightarrow> bool" where
  "is_object (JArr _) = True"
| "is_object (JObj _) = True"
| "is_object JOpaque = True"
| "is_object _ = False"

text \<open>\<open>String(x)\<close>; an array joins its elements, with \<open>null\<close> and \<open>undefined\<close> as empty text.\<close>

lemma size_field [termination_simp]: "(k, v) \<in> set kvs \<Longrightarrow> size v < Suc (size_list (size_prod (\<lambda>_. 0) size) kvs)"
  by (induction kvs) auto

fun js_string :: "json \<Rightarrow> string" where
  "js_string JUndef = ''undefined''"
| "js_string JNull = ''null''"
| "js_string (JBool b) = (if b then ''true'' else ''false'')"
| "js_string (JNum t) = t"
| "js_string (JStr s) = s"
| "js_string (JArr xs) =
     join_with '','' (map (\<lambda>x. if x = JUndef \<or> x = JNull then [] else js_string x) xs)"
| "js_string (JObj _) = ''[object Object]''"
| "js_string JOpaque = ''[object Object]''"

text \<open>
  What \<open>JSON.stringify\<close> puts on the wire, as a value: nothing for \<open>undefined\<close>; a field whose
  value is \<open>undefined\<close> is left out of its object, and \<open>undefined\<close> in an array becomes \<open>null\<close>.
\<close>

fun wire :: "json \<Rightarrow> json" where
  "wire (JArr xs) = JArr (map (\<lambda>x. if x = JUndef then JNull else wire x) xs)"
| "wire (JObj kvs) =
     JObj (map (\<lambda>(k, v). (k, wire v)) (filter (\<lambda>(k, v). v \<noteq> JUndef) kvs))"
| "wire (JNum t) = (if t \<in> {''NaN'', ''Infinity'', ''-Infinity''} then JNull else JNum t)"
| "wire JOpaque = JObj []"
| "wire v = v"

definition stringify :: "json \<Rightarrow> json option" where
  "stringify v = (if v = JUndef then None else Some (wire v))"

subsection \<open>Enum fields\<close>

definition ENUM_FIELDS :: "string list" where
  "ENUM_FIELDS =
     [''contactType'', ''status'', ''channel'', ''interactionType'', ''outcome'', ''direction'',
      ''visibility'', ''preferredChannel'', ''addressType'', ''preferenceType'', ''orgType'',
      ''anchorType'', ''employerStatus'', ''securityFlag'', ''priority'', ''sentiment'',
      ''linkType'', ''primaryPhoneType'', ''gender'', ''slaStatus'', ''category'',
      ''subcategory'']"

fun uppercaseEnums :: "json \<Rightarrow> json" where
  "uppercaseEnums (JArr xs) = JArr (map uppercaseEnums xs)"
| "uppercaseEnums (JObj kvs) =
     JObj (map (\<lambda>(k, v). (k,
       (case v of
          JStr s \<Rightarrow> if k \<in> set ENUM_FIELDS then JStr (to_upper s) else v
        | _ \<Rightarrow> if is_object v then uppercaseEnums v else v))) kvs)"
| "uppercaseEnums JOpaque = JObj []"
| "uppercaseEnums v = v"

fun lowercaseEnums :: "json \<Rightarrow> json" where
  "lowercaseEnums (JArr xs) = JArr (map lowercaseEnums xs)"
| "lowercaseEnums (JObj kvs) =
     JObj (map (\<lambda>(k, v). (k,
       (case v of
          JStr s \<Rightarrow> if k \<in> set ENUM_FIELDS then JStr (to_lower s) else v
        | _ \<Rightarrow> if is_object v then lowercaseEnums v else v))) kvs)"
| "lowercaseEnums JOpaque = JObj []"
| "lowercaseEnums v = v"

end
