(* ===== verification/EnumTransform.thy ===== *)
theory EnumTransform imports Json begin

text \<open>
  The contract of an enum case transform (\<open>uppercaseEnums\<close> on the way out,
  \<open>lowercaseEnums\<close> on the way in): it maps arrays elementwise, rewrites the strings under an
  enum field, descends into nested objects and leaves every other value alone. What follows from
  the contract is proved once in the locale and interpreted for both directions.
\<close>

fun enum_all :: "(string \<Rightarrow> bool) \<Rightarrow> json \<Rightarrow> bool" where
  "enum_all P (JArr xs) = list_all (enum_all P) xs"
| "enum_all P (JObj kvs) =
     list_all (\<lambda>(k, v). (case v of JStr s \<Rightarrow> k \<in> set ENUM_FIELDS \<longrightarrow> P s | _ \<Rightarrow> enum_all P v)) kvs"
| "enum_all P JOpaque = False"
| "enum_all P v = True"

text \<open>The value with every enum string forgotten: keys, order, nesting and other values.\<close>

fun enum_shape :: "json \<Rightarrow> json" where
  "enum_shape (JArr xs) = JArr (map enum_shape xs)"
| "enum_shape (JObj kvs) =
     JObj (map (\<lambda>(k, v). (k, (case v of JStr s \<Rightarrow> if k \<in> set ENUM_FIELDS then JStr [] else v
                                        | _ \<Rightarrow> enum_shape v))) kvs)"
| "enum_shape JOpaque = JObj []"
| "enum_shape v = v"

locale enum_transform =
  fixes T :: "json \<Rightarrow> json" and f :: "string \<Rightarrow> string"
  assumes T_arr: "T (JArr xs) = JArr (map T xs)"
    and T_obj: "T (JObj kvs) = JObj (map (\<lambda>(k, v). (k,
          (case v of JStr s \<Rightarrow> if k \<in> set ENUM_FIELDS then JStr (f s) else v
           | _ \<Rightarrow> if is_object v then T v else v))) kvs)"
    and T_opaque: "T JOpaque = JObj []"
    and T_leaf: "\<not> is_object v \<Longrightarrow> T v = v"
    and f_idem: "f (f s) = f s"
begin

text \<open>The rewriting of one field.\<close>

definition field :: "string \<times> json \<Rightarrow> string \<times> json" where
  "field kv = (fst kv, (case snd kv of
       JStr s \<Rightarrow> if fst kv \<in> set ENUM_FIELDS then JStr (f s) else JStr s | v \<Rightarrow> T v))"

lemma T_obj_field: "T (JObj kvs) = JObj (map field kvs)"
  unfolding T_obj by (auto simp: field_def T_leaf split: json.split)

lemmas T_simps [simp] = T_arr T_obj_field T_opaque T_leaf

lemma field_simps [simp]:
  "fst (field kv) = fst kv"
  "field (k, JStr s) = (k, if k \<in> set ENUM_FIELDS then JStr (f s) else JStr s)"
  "\<not> (\<exists>s. v = JStr s) \<Longrightarrow> field (k, v) = (k, T v)"
  by (auto simp: field_def split: json.split)

lemma T_str_iff: "T v = JStr s \<longleftrightarrow> v = JStr s"
  by (cases v) auto

lemma T_idem: "T (T v) = T v"
proof (induction v)
  case (JArr xs)
  then show ?case by simp
next
  case (JObj kvs)
  have "field (field kv) = field kv" if "kv \<in> set kvs" for kv
  proof (cases kv)
    case (Pair k w)
    show ?thesis
    proof (cases "\<exists>s. w = JStr s")
      case True
      with Pair show ?thesis by (auto simp: f_idem)
    next
      case False
      then have "\<not> (\<exists>s. T w = JStr s)" by (auto simp: T_str_iff)
      moreover have "T (T w) = T w"
        using JObj that Pair by (metis insertI1 snds.intros snd_conv)
      ultimately show ?thesis using False Pair by simp
    qed
  qed
  then show ?case by (simp cong: map_cong)
qed simp_all

lemma T_shape: "enum_shape (T v) = enum_shape v"
proof (induction v)
  case (JArr xs)
  then show ?case by simp
next
  case (JObj kvs)
  have "(case field kv of (k, v) \<Rightarrow> (k, (case v of JStr s \<Rightarrow> if k \<in> set ENUM_FIELDS then JStr [] else v
                                        | _ \<Rightarrow> enum_shape v))) =
        (case kv of (k, v) \<Rightarrow> (k, (case v of JStr s \<Rightarrow> if k \<in> set ENUM_FIELDS then JStr [] else v
                                        | _ \<Rightarrow> enum_shape v)))" if "kv \<in> set kvs" for kv
  proof (cases kv)
    case (Pair k w)
    have "enum_shape (T w) = enum_shape w"
      using JObj that Pair by (metis snds.intros snd_conv)
    with Pair show ?thesis
      by (cases w) (auto simp: enum_shape.simps)
  qed
  then show ?case by (simp cong: map_cong)
qed simp_all

lemma T_fixes: "enum_all (\<lambda>s. f s = s) v \<Longrightarrow> T v = v"
proof (induction v)
  case (JArr xs)
  then show ?case by (simp add: list_all_iff map_idI)
next
  case (JObj kvs)
  have "field kv = kv" if "kv \<in> set kvs" for kv
  proof (cases kv)
    case (Pair k w)
    have "enum_all (\<lambda>s. f s = s) w \<Longrightarrow> T w = w"
      using JObj(1) that Pair by (metis snds.intros snd_conv)
    moreover have "(case w of JStr s \<Rightarrow> k \<in> set ENUM_FIELDS \<longrightarrow> f s = s
                      | _ \<Rightarrow> enum_all (\<lambda>s. f s = s) w)"
      using JObj(2) that Pair by (auto simp: list_all_iff)
    ultimately show ?thesis using Pair by (cases w) (simp_all add: field_def)
  qed
  then show ?case by (simp add: map_idI)
qed simp_all

lemma T_all: "enum_all (\<lambda>s. f s = s) (T v)"
proof (induction v)
  case (JArr xs)
  then show ?case by (simp add: list_all_iff)
next
  case (JObj kvs)
  have "(case field kv of (k, v) \<Rightarrow> (case v of JStr s \<Rightarrow> k \<in> set ENUM_FIELDS \<longrightarrow> f s = s
          | _ \<Rightarrow> enum_all (\<lambda>s. f s = s) v))" if "kv \<in> set kvs" for kv
  proof (cases kv)
    case (Pair k w)
    have "enum_all (\<lambda>s. f s = s) (T w)"
      using JObj that Pair by (metis snds.intros snd_conv)
    with Pair show ?thesis
      by (cases w) (auto simp: f_idem)
  qed
  then show ?case by (auto simp: list_all_iff)
qed simp_all

end

text \<open>Two transforms of which the second forgets what the first did.\<close>

locale enum_pair = A: enum_transform T f + B: enum_transform U g
  for T :: "json \<Rightarrow> json" and f :: "string \<Rightarrow> string" and U :: "json \<Rightarrow> json" and g :: "string \<Rightarrow> string" +
  assumes cancel: "g (f s) = g s"
begin

lemma U_T: "U (T v) = U v"
proof (induction v)
  case (JArr xs)
  then show ?case by simp
next
  case (JObj kvs)
  have "B.field (A.field kv) = B.field kv" if "kv \<in> set kvs" for kv
  proof (cases kv)
    case (Pair k w)
    have "U (T w) = U w"
      using JObj that Pair by (metis snds.intros snd_conv)
    with Pair show ?thesis
      by (cases w) (simp_all add: cancel)
  qed
  then show ?case by (simp cong: map_cong)
qed simp_all

lemma U_T_fixed: "enum_all (\<lambda>s. g s = s) v \<Longrightarrow> U (T v) = v"
  by (simp add: U_T B.T_fixes)

end

interpretation up: enum_transform uppercaseEnums to_upper
proof (unfold_locales, goal_cases)
  case (4 v)
  then show ?case by (cases v) simp_all
qed simp_all

interpretation low: enum_transform lowercaseEnums to_lower
proof (unfold_locales, goal_cases)
  case (4 v)
  then show ?case by (cases v) simp_all
qed simp_all

interpretation up_low: enum_pair uppercaseEnums to_upper lowercaseEnums to_lower
  by unfold_locales simp

interpretation low_up: enum_pair lowercaseEnums to_lower uppercaseEnums to_upper
  by unfold_locales simp

end
