(* ===== verification/Machine.thy ===== *)
theory Machine imports Prelude begin

text \<open>
  The contract the stateful components share. A component is a step function on its state; the
  client (a React component, the browser's event loop, a test) drives it with a list of actions.
  The locales state what a component promises of one step, and prove once what then holds of every
  run: an invariant, a monotone quantity, and a part of the state no action writes. Each stateful
  theory interprets them on its own step function.
\<close>

definition run :: "('s \<Rightarrow> 'a \<Rightarrow> 's) \<Rightarrow> 's \<Rightarrow> 'a list \<Rightarrow> 's" where
  "run step s as = foldl step s as"

lemma run_simps [simp]:
  "run step s [] = s"
  "run step s (a # as) = run step (step s a) as"
  by (simp_all add: run_def)

lemma run_append: "run step s (as @ bs) = run step (run step s as) bs"
  by (simp add: run_def)

lemma run_snoc: "run step s (as @ [a]) = step (run step s as) a"
  by (simp add: run_def)

text \<open>An operation keeps an invariant.\<close>

locale invariant_machine =
  fixes step :: "'s \<Rightarrow> 'a \<Rightarrow> 's"
    and inv :: "'s \<Rightarrow> bool"
  assumes step_inv: "inv s \<Longrightarrow> inv (step s a)"
begin

lemma run_inv: "inv s \<Longrightarrow> inv (run step s as)"
  by (induction as arbitrary: s) (auto intro: step_inv)

lemma run_inv_prefix: "inv s \<Longrightarrow> inv (run step s (take n as))"
  by (rule run_inv)

end

text \<open>No operation writes the viewed part of the state.\<close>

locale frame_machine =
  fixes step :: "'s \<Rightarrow> 'a \<Rightarrow> 's"
    and view :: "'s \<Rightarrow> 'v"
  assumes step_frame: "view (step s a) = view s"
begin

lemma run_frame: "view (run step s as) = view s"
  by (induction as arbitrary: s) (simp_all add: step_frame)

end

text \<open>Under the invariant, every operation moves a measure of the state one way only.\<close>

locale monotone_machine = invariant_machine step inv
  for step :: "'s \<Rightarrow> 'a \<Rightarrow> 's" and inv :: "'s \<Rightarrow> bool" +
  fixes level :: "'s \<Rightarrow> 'm::order"
  assumes step_mono: "inv s \<Longrightarrow> level s \<le> level (step s a)"
begin

lemma run_mono: "inv s \<Longrightarrow> level s \<le> level (run step s as)"
proof (induction as arbitrary: s)
  case (Cons a as)
  then have "level (step s a) \<le> level (run step (step s a) as)"
    by (simp add: step_inv)
  with Cons.prems show ?case
    using step_mono order_trans by fastforce
qed simp

lemma run_mono_between:
  "inv s \<Longrightarrow> m \<le> n \<Longrightarrow> level (run step s (take m as)) \<le> level (run step s (take n as))"
proof -
  assume inv: "inv s" and "m \<le> n"
  then obtain k where n: "n = m + k" using le_Suc_ex by blast
  have "run step s (take n as) = run step (run step s (take m as)) (take k (drop m as))"
    by (simp add: n take_add run_append)
  then show ?thesis using run_mono run_inv inv by metis
qed

end

end
