(* ===== verification/ErrorReporter.thy ===== *)
theory ErrorReporter imports Machine begin

text \<open>
  src/frontend/src/lib/errorReporter.ts: the report a failed request sends to the Issues service,
  and the deduplication window. The module's state is the set of fingerprints reported within the
  window, each with the time its timer removes it; \<open>now\<close> is the time of the call in
  milliseconds. The send itself is fire and forget: the model returns whether it happens.
\<close>

record error_report =
  er_requestId :: string
  er_url :: string
  er_httpStatus :: int
  er_errorCode :: string
  er_errorMessage :: string
  er_portal :: string
  er_route :: string

definition DEDUP_WINDOW_MS :: nat where
  "DEDUP_WINDOW_MS = 60000"

definition fingerprint :: "error_report \<Rightarrow> string" where
  "fingerprint r = er_errorCode r @ '':'' @ er_url r @ '':'' @ int_str (er_httpStatus r)"

text \<open>The pending removals: fingerprint and due time. A timer fires no earlier than it is due.\<close>

type_synonym fingerprints = "(string \<times> nat) list"

definition expire :: "nat \<Rightarrow> fingerprints \<Rightarrow> fingerprints" where
  "expire now fps = filter (\<lambda>(fp, due). now < due) fps"

definition reportError :: "nat \<Rightarrow> error_report \<Rightarrow> fingerprints \<Rightarrow> bool \<times> fingerprints" where
  "reportError now report fps0 =
     (let fps = expire now fps0 in
      if includes_str (er_url report) ''/errors/report'' then (False, fps)
      else let fp = fingerprint report in
        if fp \<in> fst ` set fps then (False, fps)
        else (True, (fp, now + DEDUP_WINDOW_MS) # fps))"

text \<open>A history of calls, each with its time; the sent reports, oldest first.\<close>

fun report_all :: "(nat \<times> error_report) list \<Rightarrow> fingerprints \<Rightarrow> (nat \<times> error_report) list" where
  "report_all [] fps = []"
| "report_all ((now, r) # rest) fps =
     (let (sent, fps') = reportError now r fps in
      (if sent then [(now, r)] else []) @ report_all rest fps')"

text \<open>Times of a history do not decrease.\<close>

definition in_time_order :: "(nat \<times> error_report) list \<Rightarrow> bool" where
  "in_time_order h \<longleftrightarrow> sorted (map fst h)"

subsection \<open>What the window keeps\<close>

lemma report_all_subset: "set (report_all h fps) \<subseteq> set h"
proof (induction h arbitrary: fps)
  case (Cons x h)
  show ?case
  proof
    fix y assume "y \<in> set (report_all (x # h) fps)"
    then show "y \<in> set (x # h)"
      using Cons by (cases x) (auto split: prod.splits if_splits)
  qed
qed simp

lemma not_sent_pending:
  assumes "(fp, due) \<in> set fps" "t < due" "in_time_order h"
    "(t', r) \<in> set (report_all h fps)" "fingerprint r = fp" "\<forall>x \<in> set h. t \<le> fst x"
  shows "due \<le> t'"
  using assms
proof (induction h fps arbitrary: t rule: report_all.induct)
  case (1 fps)
  then show ?case by simp
next
  case (2 now r0 rest fps)
  obtain sent fps' where e: "reportError now r0 fps = (sent, fps')" by fastforce
  show ?case
  proof (cases "now < due")
    case False
    have "\<forall>x \<in> set ((now, r0) # rest). now \<le> fst x"
      using 2(4) by (auto simp: in_time_order_def)
    moreover have "(t', r) \<in> set ((now, r0) # rest)"
      using 2(5) report_all_subset by blast
    ultimately show ?thesis using False by fastforce
  next
    case True
    have pend: "(fp, due) \<in> set (expire now fps)"
      using 2(2) True by (auto simp: expire_def)
    then have "fp \<in> fst ` set (expire now fps)" by force
    then have "\<not> (sent \<and> fingerprint r0 = fp)" "(fp, due) \<in> set fps'"
      using e pend by (auto simp: reportError_def Let_def split: if_splits)
    moreover have "(t', r) \<in> set (report_all rest fps')"
      using 2(5,6) calculation e by (auto split: if_splits)
    moreover have "in_time_order rest" "\<forall>x \<in> set rest. now \<le> fst x"
      using 2(4) by (auto simp: in_time_order_def)
    ultimately show ?thesis
      using 2(1)[OF e[symmetric] refl] e 2(6) True by (metis)
  qed
qed

lemma sent_spacing:
  assumes "in_time_order h"
  shows "sorted_wrt (\<lambda>(t, r) (t', r'). fingerprint r = fingerprint r' \<longrightarrow> t + DEDUP_WINDOW_MS \<le> t')
           (report_all h fps)"
  using assms
proof (induction h fps rule: report_all.induct)
  case (1 fps)
  then show ?case by simp
next
  case (2 now r0 rest fps)
  obtain sent fps' where e: "reportError now r0 fps = (sent, fps')" by fastforce
  have ord: "in_time_order rest" "\<forall>x \<in> set rest. now \<le> fst x"
    using 2(2) by (auto simp: in_time_order_def)
  have ih: "sorted_wrt (\<lambda>(t, r) (t', r'). fingerprint r = fingerprint r' \<longrightarrow> t + DEDUP_WINDOW_MS \<le> t')
      (report_all rest fps')"
    using 2(1)[OF e[symmetric] refl] ord by simp
  show ?case
  proof (cases sent)
    case False
    with e ih show ?thesis by simp
  next
    case True
    have "(fingerprint r0, now + DEDUP_WINDOW_MS) \<in> set fps'"
      using e True by (auto simp: reportError_def Let_def split: if_splits)
    then have "now + DEDUP_WINDOW_MS \<le> t'"
      if "(t', r') \<in> set (report_all rest fps')" "fingerprint r' = fingerprint r0" for t' r'
      using not_sent_pending[of "fingerprint r0" "now + DEDUP_WINDOW_MS" fps' now rest t' r'] that ord
      by (simp add: DEDUP_WINDOW_MS_def)
    then show ?thesis using e True ih by auto
  qed
qed

lemma no_self_reports:
  "list_all (\<lambda>(t, r). \<not> includes_str (er_url r) ''/errors/report'') (report_all h fps)"
proof (induction h arbitrary: fps)
  case (Cons x h)
  then show ?case by (cases x) (auto simp: reportError_def Let_def)
qed simp

text \<open>A call is sent, or covered by a report still pending or sent within the window.\<close>

lemma call_covered:
  assumes "(t, r) \<in> set h" "\<not> includes_str (er_url r) ''/errors/report''" "in_time_order h"
  shows "(\<exists>due. (fingerprint r, due) \<in> set fps \<and> t < due)
    \<or> (\<exists>t' r'. (t', r') \<in> set (report_all h fps) \<and> fingerprint r' = fingerprint r
          \<and> t' \<le> t \<and> t < t' + DEDUP_WINDOW_MS)"
  using assms
proof (induction h arbitrary: fps)
  case (Cons x h)
  obtain now r0 where x: "x = (now, r0)" by fastforce
  obtain sent fps' where e: "reportError now r0 fps = (sent, fps')" by fastforce
  show ?case
  proof (cases "(t, r) = (now, r0)")
    case True
    show ?thesis
    proof (cases sent)
      case False
      then have "\<exists>due. (fingerprint r, due) \<in> set (expire now fps)"
        using True e Cons.prems(2) by (auto simp: reportError_def Let_def split: if_splits)
      then show ?thesis using True by (auto simp: expire_def)
    next
      case s: True
      have "(t, r) \<in> set (report_all (x # h) fps)" using s True x e by simp
      then show ?thesis by (force simp: DEDUP_WINDOW_MS_def)
    qed
  next
    case False
    then have "(t, r) \<in> set h" "in_time_order h" "now \<le> t"
      using Cons.prems x by (auto simp: in_time_order_def)
    from Cons.IH[OF this(1) Cons.prems(2) this(2), of fps'] this(3) show ?thesis
    proof (elim disjE exE conjE)
      fix due assume due: "(fingerprint r, due) \<in> set fps'" "t < due" "now \<le> t"
      show ?thesis
      proof (cases "(fingerprint r, due) \<in> set fps")
        case True
        with due show ?thesis by blast
      next
        case new: False
        then have "sent" "fingerprint r = fingerprint r0" "due = now + DEDUP_WINDOW_MS"
          using e due(1) by (auto simp: reportError_def Let_def expire_def split: if_splits)
        then have "(now, r0) \<in> set (report_all (x # h) fps) \<and> fingerprint r0 = fingerprint r
            \<and> now \<le> t \<and> t < now + DEDUP_WINDOW_MS"
          using x e due by simp
        then show ?thesis by blast
      qed
    next
      fix t' r' assume "(t', r') \<in> set (report_all h fps')" "fingerprint r' = fingerprint r"
        "t' \<le> t" "t < t' + DEDUP_WINDOW_MS"
      moreover have "set (report_all h fps') \<subseteq> set (report_all (x # h) fps)"
        using x e by simp
      ultimately show ?thesis by blast
    qed
  qed
qed simp

text \<open>
  C25: The error reporter sends at most one report per fingerprint (error code, address, status) in
  any window of sixty seconds, whatever calls reach it, and never a report about the report
  endpoint itself; and it drops no error: every call about another address is sent, or a report
  with its fingerprint was sent less than sixty seconds before.
\<close>

theorem report_dedup:
  assumes "in_time_order h"
  shows "sorted_wrt (\<lambda>(t, r) (t', r'). fingerprint r = fingerprint r' \<longrightarrow> t + 60000 \<le> t')
           (report_all h [])
       \<and> list_all (\<lambda>(t, r). \<not> includes_str (er_url r) ''/errors/report'') (report_all h [])
       \<and> ((t, r) \<in> set h \<longrightarrow> \<not> includes_str (er_url r) ''/errors/report'' \<longrightarrow>
            (\<exists>t' r'. (t', r') \<in> set (report_all h []) \<and> fingerprint r' = fingerprint r
               \<and> t' \<le> t \<and> t < t' + 60000))"
  using sent_spacing[OF assms, of "[]"] no_self_reports[of h "[]"] call_covered[of t r h "[]"] assms
  by (simp add: DEDUP_WINDOW_MS_def)

definition sample_report :: "int \<Rightarrow> error_report" where
  "sample_report status =
     \<lparr>er_requestId = ''r1'', er_url = ''/api/v1/cases'', er_httpStatus = status,
      er_errorCode = ''HTTP_500'', er_errorMessage = ''failed'', er_portal = ''staff'', er_route = ''/''\<rparr>"

theorem report_dedup_witness:
  "sorted_wrt (\<lambda>(t, r) (t', r'). fingerprint r = fingerprint r' \<longrightarrow> t + 60000 \<le> t')
     (report_all [(0, sample_report 500), (10, sample_report 500), (70000, sample_report 500)] [])"
  using report_dedup[of "[(0, sample_report 500), (10, sample_report 500), (70000, sample_report 500)]"]
  by (simp add: in_time_order_def)

end
