(* ===== verification/ApiClient.thy ===== *)
theory ApiClient imports EnumTransform ErrorReporter begin

text \<open>
  The request core of src/frontend/src/lib/apiClient.ts: \<open>rawRequest\<close> with its retry loop,
  timeout, token refresh and error report; the helpers built on it; the query string writer.

  The network is a parameter: \<open>net\<close> gives the outcome of each attempt's fetch, a refresher
  gives the outcome of the token refresh. A request returns the trace of what it did (sleeps,
  fetches, refreshes, reports), its result (\<open>Inl\<close> the thrown error) and the token left in the
  module's \<open>_authToken\<close>. The console output is left out. Bodies are the values
  \<open>JSON.stringify\<close> sends.
\<close>

type_synonym http_headers = "(string \<times> string) list"

text \<open>\<open>Headers.set\<close>.\<close>

definition header_set :: "string \<Rightarrow> string \<Rightarrow> http_headers \<Rightarrow> http_headers" where
  "header_set k v hs = (k, v) # filter (\<lambda>kv. fst kv \<noteq> k) hs"

lemma map_of_header_set [simp]: "map_of (header_set k v hs) = (map_of hs)(k \<mapsto> v)"
proof
  fix j show "map_of (header_set k v hs) j = ((map_of hs)(k \<mapsto> v)) j"
    by (induction hs) (auto simp: header_set_def)
qed

record request_init =
  ri_method :: "string option"
  ri_headers :: http_headers
  ri_body :: "json option"

datatype exn =
    Exn_api string int string string
  | Exn_type string
  | Exn_other string

text \<open>What reading the body as JSON gives: a value, a network failure, or a parse failure.\<close>

datatype body_read = Body json | Body_broken string | Body_malformed string

datatype net_outcome =
    Replied int string body_read
  | Timed_out
  | Net_type_error string
  | Net_failed string

datatype api_event =
    Ev_sleep nat
  | Ev_fetch string string http_headers "json option" nat
  | Ev_refresh
  | Ev_report error_report

definition MAX_RETRIES :: nat where "MAX_RETRIES = 2"
definition RETRY_DELAY_MS :: nat where "RETRY_DELAY_MS = 500"
definition RETRYABLE_STATUSES :: "int list" where "RETRYABLE_STATUSES = [503, 502, 504]"
definition DEFAULT_TIMEOUT_MS :: nat where "DEFAULT_TIMEOUT_MS = 30000"

definition response_ok :: "int \<Rightarrow> bool" where
  "response_ok status \<longleftrightarrow> 200 \<le> status \<and> status \<le> 299"

definition detectPortal :: "string option \<Rightarrow> string" where
  "detectPortal pathname =
     (case pathname of
        None \<Rightarrow> ''unknown''
      | Some path \<Rightarrow>
          if starts_with path ''/employer'' then ''employer''
          else if starts_with path ''/member'' then ''member''
          else if starts_with path ''/retirement'' then ''retirement''
          else ''staff'')"

text \<open>
  The ambient values of one request: the network, the refresh callback (\<open>None\<close> when none is
  registered, \<open>Some None\<close> when it throws), the generated request id and the page's path.
\<close>

record api_env =
  ae_net :: "nat \<Rightarrow> net_outcome"
  ae_refresher :: "string option option"
  ae_request_id :: string
  ae_pathname :: "string option"

definition apply_auth :: "string \<Rightarrow> http_headers \<Rightarrow> http_headers" where
  "apply_auth tok hs = (if tok \<noteq> [] then header_set ''Authorization'' (''Bearer '' @ tok) hs else hs)"

definition initial_headers :: "string \<Rightarrow> string \<Rightarrow> request_init \<Rightarrow> http_headers" where
  "initial_headers tok requestId init =
     (let hs = apply_auth tok (header_set ''X-Request-ID'' requestId (ri_headers init)) in
      if ri_body init \<noteq> None then header_set ''Content-Type'' ''application/json'' hs else hs)"

text \<open>How one attempt ends: the loop goes round again, returns, or throws.\<close>

datatype attempt_end = Again exn | Return json | Throw exn

text \<open>The \<open>catch\<close> block of an attempt.\<close>

definition on_exception :: "nat \<Rightarrow> exn \<Rightarrow> attempt_end" where
  "on_exception attempt err =
     (case err of
        Exn_type msg \<Rightarrow> if attempt < MAX_RETRIES then Again err else Throw err
      | _ \<Rightarrow> Throw err)"

text \<open>The tail of the \<open>!res.ok\<close> branch: read the error body, report, throw.\<close>

definition error_response ::
  "api_env \<Rightarrow> string \<Rightarrow> nat \<Rightarrow> int \<Rightarrow> string \<Rightarrow> body_read \<Rightarrow> api_event list \<times> attempt_end" where
  "error_response env url attempt status statusText body =
     (let errBody = (case body of Body j \<Rightarrow> j
                     | _ \<Rightarrow> JObj [(''error'', JObj [(''message'', JStr statusText)])]) in
      if errBody = JNull then
        ([], on_exception attempt (Exn_type ''Cannot read properties of null (reading 'error')''))
      else
        let e = jget errBody ''error'';
            message = (if truthy (jget e ''message'') then js_string (jget e ''message'')
                       else ''API error: '' @ int_str status);
            errorCode = (if truthy (jget e ''code'') then js_string (jget e ''code'')
                         else ''HTTP_'' @ int_str status)
        in ([Ev_report \<lparr>er_requestId = ae_request_id env, er_url = url, er_httpStatus = status,
               er_errorCode = errorCode, er_errorMessage = message,
               er_portal = detectPortal (ae_pathname env),
               er_route = coalesce (ae_pathname env) []\<rparr>],
            Throw (Exn_api message status (ae_request_id env) url)))"

text \<open>One pass of the loop's \<open>try\<close> block after the fetch, with the token it leaves.\<close>

definition after_fetch ::
  "api_env \<Rightarrow> string \<Rightarrow> nat \<Rightarrow> string \<Rightarrow> api_event list \<times> attempt_end \<times> string" where
  "after_fetch env url attempt tok =
     (case ae_net env attempt of
        Timed_out \<Rightarrow> ([], Throw (Exn_api ''Request timed out'' 0 (ae_request_id env) url), tok)
      | Net_type_error msg \<Rightarrow> ([], on_exception attempt (Exn_type msg), tok)
      | Net_failed msg \<Rightarrow> ([], on_exception attempt (Exn_other msg), tok)
      | Replied status statusText body \<Rightarrow>
          if \<not> response_ok status then
            if status \<in> set RETRYABLE_STATUSES \<and> attempt < MAX_RETRIES then
              ([], Again (Exn_api (''Server returned '' @ int_str status) status
                     (ae_request_id env) url), tok)
            else if status = 401 \<and> ae_refresher env \<noteq> None \<and> attempt = 0 then
              (case the (ae_refresher env) of
                 Some newToken \<Rightarrow>
                   ([Ev_refresh], Again (Exn_api ''Token expired, retrying'' 401
                                    (ae_request_id env) url), newToken)
               | None \<Rightarrow>
                   (let (evs, e) = error_response env url attempt status statusText body in
                    (Ev_refresh # evs, e, tok)))
            else
              (let (evs, e) = error_response env url attempt status statusText body in (evs, e, tok))
          else
            (case body of
               Body j \<Rightarrow> ([], Return j, tok)
             | Body_broken msg \<Rightarrow> ([], on_exception attempt (Exn_type msg), tok)
             | Body_malformed msg \<Rightarrow> ([], on_exception attempt (Exn_other msg), tok)))"

type_synonym 'a api_result = "api_event list \<times> (exn + 'a) \<times> string"

definition method_of :: "request_init \<Rightarrow> string" where
  "method_of init = coalesce (ri_method init) ''GET''"

function raw_loop ::
  "api_env \<Rightarrow> string \<Rightarrow> request_init \<Rightarrow> nat \<Rightarrow> nat \<Rightarrow> http_headers \<Rightarrow> string \<Rightarrow> exn option
     \<Rightarrow> json api_result" where
  "raw_loop env url init timeout attempt hs tok lastError =
     (if MAX_RETRIES < attempt then
        ([], Inl (coalesce lastError (Exn_other (''Request failed after ''
               @ nat_str (MAX_RETRIES + 1) @ '' attempts''))), tok)
      else
        let pre = (if 0 < attempt then [Ev_sleep (RETRY_DELAY_MS * 2 ^ (attempt - 1))] else []);
            hs' = (if 0 < attempt then apply_auth tok hs else hs);
            sent = Ev_fetch (method_of init) url hs' (ri_body init) timeout;
            (evs, e, tok') = after_fetch env url attempt tok
        in case e of
             Return j \<Rightarrow> (pre @ sent # evs, Inr j, tok')
           | Throw err \<Rightarrow> (pre @ sent # evs, Inl err, tok')
           | Again err \<Rightarrow>
               (let (evs', r, tok'') =
                      raw_loop env url init timeout (attempt + 1) hs' tok' (Some err)
                in (pre @ sent # evs @ evs', r, tok'')))"
  by pat_completeness auto
termination
  by (relation "measure (\<lambda>(env, url, init, timeout, attempt, hs, tok, err). Suc MAX_RETRIES - attempt)")
    auto

declare raw_loop.simps [simp del]

definition rawRequest ::
  "api_env \<Rightarrow> string \<Rightarrow> string \<Rightarrow> request_init \<Rightarrow> nat option \<Rightarrow> json api_result" where
  "rawRequest env tok url init timeoutMs =
     raw_loop env url init (coalesce timeoutMs DEFAULT_TIMEOUT_MS) 0
       (initial_headers tok (ae_request_id env) init) tok None"

text \<open>\<open>body.data\<close> of a body that is \<open>null\<close> throws; of another value it is a property read.\<close>

definition read_data :: "json \<Rightarrow> exn + json" where
  "read_data body =
     (if body = JNull \<or> body = JUndef
      then Inl (Exn_type ''Cannot read properties of null (reading 'data')'')
      else Inr (jget body ''data''))"

definition request ::
  "api_env \<Rightarrow> string \<Rightarrow> string \<Rightarrow> request_init \<Rightarrow> nat option \<Rightarrow> bool \<Rightarrow> json api_result" where
  "request env tok url init timeoutMs raw =
     (case rawRequest env tok url init timeoutMs of
        (evs, Inl err, tok') \<Rightarrow> (evs, Inl err, tok')
      | (evs, Inr body, tok') \<Rightarrow>
          (evs, (case read_data body of
                   Inl err \<Rightarrow> Inl err
                 | Inr data \<Rightarrow> Inr (if raw then data else lowercaseEnums data)), tok'))"

subsection \<open>Public helpers\<close>

record fetch_options =
  fo_timeout :: "nat option"
  fo_raw :: bool

definition no_options :: fetch_options where
  "no_options = \<lparr>fo_timeout = None, fo_raw = False\<rparr>"

definition empty_init :: request_init where
  "empty_init = \<lparr>ri_method = None, ri_headers = [], ri_body = None\<rparr>"

definition fetchAPI :: "api_env \<Rightarrow> string \<Rightarrow> string \<Rightarrow> fetch_options \<Rightarrow> json api_result" where
  "fetchAPI env tok url opts = request env tok url empty_init (fo_timeout opts) (fo_raw opts)"

definition fetchPaginatedAPI ::
  "api_env \<Rightarrow> string \<Rightarrow> string \<Rightarrow> fetch_options \<Rightarrow> (json \<times> json) api_result" where
  "fetchPaginatedAPI env tok url opts =
     (case rawRequest env tok url empty_init (fo_timeout opts) of
        (evs, Inl err, tok') \<Rightarrow> (evs, Inl err, tok')
      | (evs, Inr body, tok') \<Rightarrow>
          (evs, (case read_data body of
             Inl err \<Rightarrow> Inl err
           | Inr data \<Rightarrow>
               (let items = (if data = JUndef \<or> data = JNull then JArr [] else data);
                    pg = jget body ''pagination'';
                    pagination = (if pg = JUndef \<or> pg = JNull
                      then JObj [(''total'', jint 0), (''limit'', jint 25), (''offset'', jint 0),
                                 (''hasMore'', JBool False)]
                      else pg)
                in Inr (if fo_raw opts then items else lowercaseEnums items, pagination))), tok'))"

definition send_body :: "fetch_options \<Rightarrow> json \<Rightarrow> json option" where
  "send_body opts payload = stringify (if fo_raw opts then payload else uppercaseEnums payload)"

definition postAPI :: "api_env \<Rightarrow> string \<Rightarrow> string \<Rightarrow> json \<Rightarrow> fetch_options \<Rightarrow> json api_result" where
  "postAPI env tok url payload opts =
     request env tok url
       \<lparr>ri_method = Some ''POST'', ri_headers = [], ri_body = send_body opts payload\<rparr>
       (fo_timeout opts) (fo_raw opts)"

definition putAPI :: "api_env \<Rightarrow> string \<Rightarrow> string \<Rightarrow> json \<Rightarrow> fetch_options \<Rightarrow> json api_result" where
  "putAPI env tok url payload opts =
     request env tok url
       \<lparr>ri_method = Some ''PUT'', ri_headers = [], ri_body = send_body opts payload\<rparr>
       (fo_timeout opts) (fo_raw opts)"

definition patchAPI :: "api_env \<Rightarrow> string \<Rightarrow> string \<Rightarrow> json \<Rightarrow> fetch_options \<Rightarrow> json api_result" where
  "patchAPI env tok url payload opts =
     request env tok url
       \<lparr>ri_method = Some ''PATCH'', ri_headers = [], ri_body = send_body opts payload\<rparr>
       (fo_timeout opts) (fo_raw opts)"

definition deleteAPI :: "api_env \<Rightarrow> string \<Rightarrow> string \<Rightarrow> fetch_options \<Rightarrow> json api_result" where
  "deleteAPI env tok url opts =
     request env tok url \<lparr>ri_method = Some ''DELETE'', ri_headers = [], ri_body = None\<rparr>
       (fo_timeout opts) (fo_raw opts)"

end
