(* ===== verification/ApiClientProps.thy ===== *)
theory ApiClientProps imports ApiClient begin

text \<open>
  What the request core promises. The reference is \<open>transient\<close>, the table of outcomes that are
  tried again, and \<open>last_attempt\<close>, the first attempt that is not: the loop is shown to make
  exactly the attempts up to it, and to return or throw what that attempt gives.
\<close>

definition transient :: "api_env \<Rightarrow> nat \<Rightarrow> bool" where
  "transient env k =
     (case ae_net env k of
        Replied status _ body \<Rightarrow>
          (if response_ok status then k < 2 \<and> (\<exists>m. body = Body_broken m)
           else if status \<in> {502, 503, 504} then k < 2
           else if status = 401 \<and> k = 0 \<and> (\<exists>t. ae_refresher env = Some (Some t)) then True
           else k < 2 \<and> body = Body JNull)
      | Net_type_error _ \<Rightarrow> k < 2
      | Timed_out \<Rightarrow> False
      | Net_failed _ \<Rightarrow> False)"

definition last_attempt :: "api_env \<Rightarrow> nat" where
  "last_attempt env = (if \<not> transient env 0 then 0 else if \<not> transient env 1 then 1 else 2)"

fun is_again :: "attempt_end \<Rightarrow> bool" where
  "is_again (Again e) = True"
| "is_again _ = False"

fun is_fetch :: "api_event \<Rightarrow> bool" where
  "is_fetch (Ev_fetch m u hs b t) = True"
| "is_fetch _ = False"

fun is_refresh :: "api_event \<Rightarrow> bool" where
  "is_refresh Ev_refresh = True"
| "is_refresh _ = False"

fun is_report :: "api_event \<Rightarrow> bool" where
  "is_report (Ev_report r) = True"
| "is_report _ = False"

definition sleeps :: "api_event list \<Rightarrow> nat list" where
  "sleeps evs = concat (map (\<lambda>e. case e of Ev_sleep n \<Rightarrow> [n] | _ \<Rightarrow> []) evs)"

definition fetch_auth :: "api_event list \<Rightarrow> string option list" where
  "fetch_auth evs = concat (map (\<lambda>e. case e of
     Ev_fetch m u hs b t \<Rightarrow> [map_of hs ''Authorization''] | _ \<Rightarrow> []) evs)"

lemma sleeps_simps [simp]:
  "sleeps [] = []" "sleeps (xs @ ys) = sleeps xs @ sleeps ys"
  "sleeps (Ev_sleep n # xs) = n # sleeps xs"
  "sleeps (Ev_fetch m u hs b t # xs) = sleeps xs"
  "sleeps (Ev_refresh # xs) = sleeps xs" "sleeps (Ev_report r # xs) = sleeps xs"
  by (simp_all add: sleeps_def)

lemma fetch_auth_simps [simp]:
  "fetch_auth [] = []" "fetch_auth (xs @ ys) = fetch_auth xs @ fetch_auth ys"
  "fetch_auth (Ev_sleep n # xs) = fetch_auth xs"
  "fetch_auth (Ev_fetch m u hs b t # xs) = map_of hs ''Authorization'' # fetch_auth xs"
  "fetch_auth (Ev_refresh # xs) = fetch_auth xs" "fetch_auth (Ev_report r # xs) = fetch_auth xs"
  by (simp_all add: fetch_auth_def)

lemmas attempt_defs = after_fetch_def on_exception_def error_response_def Let_def MAX_RETRIES_def
  RETRYABLE_STATUSES_def

text \<open>Which attempts go round again; the token plays no part in it.\<close>

lemma again_iff: "is_again (fst (snd (after_fetch env url k tok))) \<longleftrightarrow> transient env k"
  by (cases "ae_net env k")
    (auto simp: attempt_defs transient_def response_ok_def split: body_read.splits option.splits)

text \<open>What an attempt records besides its fetch.\<close>

lemma error_response_events:
  "fst (error_response env url k status st body) = [] \<or>
   (\<exists>r. fst (error_response env url k status st body) = [Ev_report r])"
  by (simp add: error_response_def Let_def)

lemma after_fetch_trace:
  "list_all (\<lambda>e. is_refresh e \<or> is_report e) (fst (after_fetch env url k tok))"
proof (cases "ae_net env k")
  case (Replied status st body)
  then show ?thesis
    using error_response_events[of env url k status st body] error_response_events[of env url 0 status st body]
    by (cases "error_response env url k status st body"; cases body)
      (auto simp: after_fetch_def split: option.split)
qed (simp_all add: after_fetch_def)

lemma quiet_trace:
  assumes "list_all (\<lambda>e. is_refresh e \<or> is_report e) evs"
  shows "filter is_fetch evs = []" "sleeps evs = []" "fetch_auth evs = []"
proof -
  have "filter is_fetch evs = [] \<and> sleeps evs = [] \<and> fetch_auth evs = []"
    using assms
  proof (induction evs)
    case (Cons e evs)
    then show ?case by (cases e) simp_all
  qed simp
  then show "filter is_fetch evs = []" "sleeps evs = []" "fetch_auth evs = []" by simp_all
qed

lemmas after_fetch_events = quiet_trace[OF after_fetch_trace]

lemma after_fetch_token:
  "snd (snd (after_fetch env url k tok)) =
     (case ae_net env k of
        Replied status _ _ \<Rightarrow>
          (if status = 401 \<and> k = 0 then
             (case ae_refresher env of Some (Some t) \<Rightarrow> t | _ \<Rightarrow> tok) else tok)
      | _ \<Rightarrow> tok)"
  by (cases "ae_net env k")
    (auto simp: attempt_defs response_ok_def split: body_read.splits option.splits)

definition refreshes_at :: "api_env \<Rightarrow> nat \<Rightarrow> bool" where
  "refreshes_at env k \<longleftrightarrow> k = 0 \<and> ae_refresher env \<noteq> None \<and> (\<exists>s b. ae_net env 0 = Replied 401 s b)"

lemma after_fetch_refresh:
  "length (filter is_refresh (fst (after_fetch env url k tok))) = (if refreshes_at env k then 1 else 0)"
  by (cases "ae_net env k")
    (auto simp: attempt_defs refreshes_at_def response_ok_def split: body_read.splits option.splits)

lemma after_fetch_report:
  "\<not> is_again (fst (snd (after_fetch env url k tok))) \<Longrightarrow>
   length (filter is_report (fst (after_fetch env url k tok))) =
     (case fst (snd (after_fetch env url k tok)) of
        Throw (Exn_api m s r u) \<Rightarrow> (if ae_net env k = Timed_out then 0 else 1)
      | _ \<Rightarrow> 0)"
  by (cases "ae_net env k")
    (auto simp: attempt_defs response_ok_def split: body_read.splits option.splits)

lemma after_fetch_again_report:
  "is_again (fst (snd (after_fetch env url k tok))) \<Longrightarrow> filter is_report (fst (after_fetch env url k tok)) = []"
  by (cases "ae_net env k")
    (auto simp: attempt_defs response_ok_def split: body_read.splits option.splits if_splits)

fun conclude :: "attempt_end \<Rightarrow> exn + json" where
  "conclude (Return j) = Inr j"
| "conclude (Throw e) = Inl e"
| "conclude (Again e) = Inl e"

text \<open>One turn of the loop, with the attempt taken apart.\<close>

definition turn_headers :: "nat \<Rightarrow> string \<Rightarrow> http_headers \<Rightarrow> http_headers" where
  "turn_headers k tok hs = (if 0 < k then apply_auth tok hs else hs)"

definition turn_events ::
  "api_env \<Rightarrow> string \<Rightarrow> request_init \<Rightarrow> nat \<Rightarrow> nat \<Rightarrow> http_headers \<Rightarrow> string \<Rightarrow> api_event list" where
  "turn_events env url init timeout k hs tok =
     (if 0 < k then [Ev_sleep (500 * 2 ^ (k - 1))] else [])
     @ Ev_fetch (method_of init) url (turn_headers k tok hs) (ri_body init) timeout
     # fst (after_fetch env url k tok)"

lemma raw_loop_last:
  assumes "k \<le> 2" "\<not> transient env k"
  shows "raw_loop env url init timeout k hs tok err =
     (turn_events env url init timeout k hs tok, conclude (fst (snd (after_fetch env url k tok))),
      snd (snd (after_fetch env url k tok)))"
proof -
  obtain evs e t where a: "after_fetch env url k tok = (evs, e, t)" by (metis prod_cases3)
  then have "\<not> is_again e" using again_iff[of env url k tok] assms by simp
  with a assms(1) show ?thesis
    by (cases e) (simp_all add: raw_loop.simps[of _ _ _ _ k] turn_events_def turn_headers_def
        MAX_RETRIES_def RETRY_DELAY_MS_def Let_def)
qed

lemma raw_loop_again:
  assumes "k \<le> 2" "transient env k"
  obtains err' where "raw_loop env url init timeout k hs tok err =
     (let (evs, r, t) = raw_loop env url init timeout (Suc k) (turn_headers k tok hs)
                          (snd (snd (after_fetch env url k tok))) (Some err')
      in (turn_events env url init timeout k hs tok @ evs, r, t))"
proof -
  obtain evs e t where a: "after_fetch env url k tok = (evs, e, t)" by (metis prod_cases3)
  then obtain err' where "e = Again err'"
    using again_iff[of env url k tok] assms by (cases e) auto
  with a assms(1) show ?thesis
    by (intro that[of err']) (simp add: raw_loop.simps[of _ _ _ _ k] turn_events_def turn_headers_def
        MAX_RETRIES_def RETRY_DELAY_MS_def Let_def split: prod.split)
qed

lemma not_transient_2 [simp]: "\<not> transient env 2"
  by (auto simp: transient_def split: net_outcome.split)

text \<open>The tokens and headers in force at each attempt.\<close>

definition token_after :: "api_env \<Rightarrow> string \<Rightarrow> string" where
  "token_after env tok =
     (case ae_net env 0 of
        Replied status _ _ \<Rightarrow>
          (if status = 401 then (case ae_refresher env of Some (Some t) \<Rightarrow> t | _ \<Rightarrow> tok) else tok)
      | _ \<Rightarrow> tok)"

lemma token_0: "snd (snd (after_fetch env url 0 tok)) = token_after env tok"
  by (simp add: after_fetch_token token_after_def split: net_outcome.split)

lemma token_later: "0 < k \<Longrightarrow> snd (snd (after_fetch env url k tok)) = tok"
  by (simp add: after_fetch_token split: net_outcome.split)

text \<open>The whole request: the turns up to the last attempt, and what that attempt concludes.\<close>

definition turn ::
  "api_env \<Rightarrow> string \<Rightarrow> string \<Rightarrow> request_init \<Rightarrow> nat \<Rightarrow> nat \<Rightarrow> api_event list" where
  "turn env tok url init timeout k =
     (let hs = initial_headers tok (ae_request_id env) init; t = token_after env tok in
      if k = 0 then turn_events env url init timeout 0 hs tok
      else turn_events env url init timeout k
             (if k = 1 then hs else apply_auth t hs) t)"

lemma rawRequest_turns:
  "rawRequest env tok url init timeoutMs =
     (let n = last_attempt env; t = token_after env tok in
      (concat (map (turn env tok url init (coalesce timeoutMs DEFAULT_TIMEOUT_MS)) [0..<Suc n]),
       conclude (fst (snd (after_fetch env url n (if n = 0 then tok else t)))), t))"
proof -
  let ?t = "token_after env tok" and ?hs = "initial_headers tok (ae_request_id env) init"
  let ?T = "coalesce timeoutMs DEFAULT_TIMEOUT_MS"
  note last = raw_loop_last[of _ env url init ?T]
  show ?thesis
  proof (cases "transient env 0")
    case False
    then show ?thesis
      using last[of 0] by (simp add: rawRequest_def last_attempt_def turn_def Let_def token_0)
  next
    case t0: True
    obtain e0 where 0: "raw_loop env url init ?T 0 ?hs tok None =
       (let (evs, r, t) = raw_loop env url init ?T (Suc 0) ?hs ?t (Some e0)
        in (turn_events env url init ?T 0 ?hs tok @ evs, r, t))"
      using raw_loop_again[of 0 env url init ?T ?hs tok None] t0
      by (metis token_0 turn_headers_def less_irrefl zero_le)
    show ?thesis
    proof (cases "transient env 1")
      case False
      then show ?thesis
        using last[of 1] 0 t0
        by (simp add: rawRequest_def last_attempt_def turn_def Let_def token_later)
    next
      case t1: True
      obtain e1 where 1: "raw_loop env url init ?T (Suc 0) ?hs ?t (Some e0) =
         (let (evs, r, t) = raw_loop env url init ?T 2 (apply_auth ?t ?hs) ?t (Some e1)
          in (turn_events env url init ?T 1 ?hs ?t @ evs, r, t))"
        using raw_loop_again[of 1 env url init ?T ?hs ?t "Some e0"] t1
        by (auto simp: token_later turn_headers_def numeral_2_eq_2)
      then show ?thesis
        using last[of 2] 0 t0 t1
        by (simp add: rawRequest_def last_attempt_def turn_def Let_def token_later
            numeral_2_eq_2[symmetric] upt_rec)
    qed
  qed
qed


subsection \<open>What a trace contains\<close>

lemma last_attempt_cases:
  obtains "last_attempt env = 0" "[0..<Suc (last_attempt env)] = [0]"
  | "last_attempt env = 1" "[0..<Suc (last_attempt env)] = [0, 1]"
  | "last_attempt env = 2" "[0..<Suc (last_attempt env)] = [0, 1, 2]"
proof -
  have "last_attempt env \<in> {0, 1, 2}" by (simp add: last_attempt_def)
  moreover have "[0..<Suc 0] = [0]" "[0..<Suc 1] = [0, 1]" "[0..<Suc 2] = [0, 1, 2]"
    by (simp_all add: upt_rec)
  ultimately show ?thesis using that by fastforce
qed

lemma sum_trace:
  "length (filter P (concat (map f [0..<n]))) = (\<Sum>k<n. length (filter P (f k)))"
  by (induction n) simp_all

lemma turn_summary:
  "length (filter is_fetch (turn env tok url init timeout k)) = 1"
  "sleeps (turn env tok url init timeout k) = (if 0 < k then [500 * 2 ^ (k - 1)] else [])"
  "length (filter is_refresh (turn env tok url init timeout k)) = (if refreshes_at env k then 1 else 0)"
  by (simp_all add: turn_def turn_events_def Let_def after_fetch_events)
    (use after_fetch_refresh[of env url 0 tok]
      after_fetch_refresh[of env url k "token_after env tok"] in \<open>auto split: if_splits\<close>)

lemma fetch_auth_turn:
  assumes "tok \<noteq> []" "token_after env tok \<noteq> []"
  shows "fetch_auth (turn env tok url init timeout k) =
     [Some (''Bearer '' @ (if k = 0 then tok else token_after env tok))]"
  using assms by (auto simp: turn_def turn_events_def turn_headers_def Let_def after_fetch_events
      apply_auth_def initial_headers_def)

text \<open>
  C6: A request makes exactly the attempts up to the first one whose outcome is not transient, and
  never more than three, whatever its method or body: it waits 500 ms before the second and
  1000 ms before the third, its result is what that last attempt gives (the parsed body, or the
  error thrown), and the fallback error after the loop is never thrown.
\<close>

theorem rawRequest_attempts:
  "let n = last_attempt env; (evs, r, t) = rawRequest env tok url init timeoutMs in
     n \<le> 2 \<and> \<not> transient env n \<and> (\<forall>k. k < n \<longrightarrow> transient env k)
   \<and> length (filter is_fetch evs) = Suc n
   \<and> sleeps evs = take n [500, 1000]
   \<and> r = (case ae_net env n of
            Timed_out \<Rightarrow> Inl (Exn_api ''Request timed out'' 0 (ae_request_id env) url)
          | Net_type_error m \<Rightarrow> Inl (Exn_type m)
          | Net_failed m \<Rightarrow> Inl (Exn_other m)
          | Replied status st body \<Rightarrow>
              (if response_ok status then
                 (case body of Body j \<Rightarrow> Inr j | Body_broken m \<Rightarrow> Inl (Exn_type m)
                  | Body_malformed m \<Rightarrow> Inl (Exn_other m))
               else conclude (snd (error_response env url n status st body))))"
proof -
  have n: "last_attempt env \<le> 2" "\<not> transient env (last_attempt env)"
    "\<forall>k. k < last_attempt env \<longrightarrow> transient env k"
    by (auto simp: last_attempt_def less_2_cases_iff)
  let ?tk = "if last_attempt env = 0 then tok else token_after env tok"
  have r: "conclude (fst (snd (after_fetch env url (last_attempt env) ?tk))) =
       (case ae_net env (last_attempt env) of
            Timed_out \<Rightarrow> Inl (Exn_api ''Request timed out'' 0 (ae_request_id env) url)
          | Net_type_error m \<Rightarrow> Inl (Exn_type m)
          | Net_failed m \<Rightarrow> Inl (Exn_other m)
          | Replied status st body \<Rightarrow>
              (if response_ok status then
                 (case body of Body j \<Rightarrow> Inr j | Body_broken m \<Rightarrow> Inl (Exn_type m)
                  | Body_malformed m \<Rightarrow> Inl (Exn_other m))
               else conclude (snd (error_response env url (last_attempt env) status st body))))"
    using n(2) by (cases "ae_net env (last_attempt env)")
      (auto simp: after_fetch_def on_exception_def transient_def RETRYABLE_STATUSES_def
        MAX_RETRIES_def Let_def split: body_read.splits option.splits prod.split)
  have c: "length (filter is_fetch (concat (map (turn env tok url init T) [0..<Suc (last_attempt env)])))
        = Suc (last_attempt env)" for T
    unfolding sum_trace turn_summary by simp
  have s: "sleeps (concat (map (turn env tok url init T) [0..<Suc (last_attempt env)]))
        = take (last_attempt env) [500, 1000]" for T
    by (rule last_attempt_cases[of env]) (simp_all only:, simp_all add: turn_summary)
  show ?thesis
    using n r c s unfolding rawRequest_turns Let_def prod.case by blast
qed

definition flaky_env :: api_env where
  "flaky_env = \<lparr>ae_net = (\<lambda>k. if k = 0 then Replied 503 ''Unavailable'' (Body JNull)
       else Replied 200 ''OK'' (Body (JObj [(''data'', JNum ''1'')]))),
     ae_refresher = None, ae_request_id = ''r1'', ae_pathname = Some ''/''\<rparr>"

theorem rawRequest_attempts_witness:
  "last_attempt flaky_env = 1 \<and>
   length (filter is_fetch (fst (rawRequest flaky_env [] ''/api/v1/cases'' empty_init None))) = 2"
  using rawRequest_attempts[of flaky_env "[]" "''/api/v1/cases''" empty_init None]
  by (auto simp: Let_def last_attempt_def transient_def flaky_env_def response_ok_def split: prod.splits)


definition expired_env :: api_env where
  "expired_env = \<lparr>ae_net = (\<lambda>k. if k = 0 then Replied 401 ''Unauthorized'' (Body JNull)
       else Replied 200 ''OK'' (Body (JObj []))),
     ae_refresher = Some (Some ''new''), ae_request_id = ''r1'', ae_pathname = None\<rparr>"


lemma turn_reports:
  "filter is_report (turn env tok url init timeout k) =
     filter is_report (fst (after_fetch env url k (if k = 0 then tok else token_after env tok)))"
  by (auto simp: turn_def turn_events_def Let_def)

text \<open>
  A request reports at most one error, exactly when it ends by throwing the API error of a
  server response: retried attempts, timeouts, network failures and successes report nothing.
\<close>

theorem rawRequest_reports:
  "let n = last_attempt env; (evs, r, t) = rawRequest env tok url init timeoutMs in
     length (filter is_report evs) =
       (case r of Inl (Exn_api m s i u) \<Rightarrow> (if ae_net env n = Timed_out then 0 else 1) | _ \<Rightarrow> 0)"
proof -
  let ?n = "last_attempt env"
  let ?tk = "if ?n = 0 then tok else token_after env tok"
  have na: "\<not> is_again (fst (snd (after_fetch env url ?n ?tk)))"
    by (simp add: again_iff last_attempt_def)
  have early: "0 < last_attempt env \<Longrightarrow> transient env 0" "last_attempt env = 2 \<Longrightarrow> transient env (Suc 0)"
    by (auto simp: last_attempt_def split: if_splits)
  have q: "transient env k \<Longrightarrow> filter is_report (fst (after_fetch env url k x)) = []" for k x
    using after_fetch_again_report again_iff by blast
  have "length (filter is_report (concat (map (turn env tok url init T) [0..<Suc ?n])))
      = length (filter is_report (fst (after_fetch env url ?n ?tk)))" for T
    unfolding sum_trace turn_reports
    by (rule last_attempt_cases[of env]) (simp_all only:, simp_all add: q early numeral_2_eq_2)
  then show ?thesis
    using after_fetch_report[OF na] na
    by (cases "fst (snd (after_fetch env url ?n ?tk))")
      (auto simp: rawRequest_turns Let_def simp del: upt_Suc split: exn.split)
qed

end
