(* ===== verification/QueryString.thy ===== *)
theory QueryString imports Json begin

text \<open>
  \<open>toQueryString\<close> of src/frontend/src/lib/apiClient.ts and JavaScript's
  \<open>encodeURIComponent\<close> on UTF-8 bytes, with a reader in the way of \<open>URLSearchParams\<close> as the
  reference: reading back what was written gives the parameters that were kept.
\<close>

definition unreserved :: "char \<Rightarrow> bool" where
  "unreserved c =
     (let n = (of_char c :: nat) in
      65 \<le> n \<and> n \<le> 90 \<or> 97 \<le> n \<and> n \<le> 122 \<or> 48 \<le> n \<and> n \<le> 57
      \<or> c \<in> set ''-_.!~*()'' \<or> n = 39)"

definition hex_digit :: "nat \<Rightarrow> char" where
  "hex_digit n = (if n < 10 then char_of (48 + n) else char_of (55 + n))"

definition encode_byte :: "char \<Rightarrow> string" where
  "encode_byte c =
     (if unreserved c then [c]
      else [CHR ''%'', hex_digit (of_char c div 16), hex_digit (of_char c mod 16)])"

definition encodeURIComponent :: "string \<Rightarrow> string" where
  "encodeURIComponent s = concat (map encode_byte s)"

definition kept_param :: "json \<Rightarrow> bool" where
  "kept_param value \<longleftrightarrow> value \<noteq> JUndef \<and> value \<noteq> JNull \<and> value \<noteq> JStr []"

definition query_part :: "string \<times> json \<Rightarrow> string" where
  "query_part kv = encodeURIComponent (fst kv) @ ''='' @ encodeURIComponent (js_string (snd kv))"

definition toQueryString :: "(string \<times> json) list \<Rightarrow> string" where
  "toQueryString params =
     (let parts = map query_part (filter (\<lambda>kv. kept_param (snd kv)) params) in
      if 0 < length parts then ''?'' @ join_with ''&'' parts else [])"

subsection \<open>Reading it back\<close>

definition hex_value :: "char \<Rightarrow> nat" where
  "hex_value c = (let n = of_char c in if n < 58 then n - 48 else n - 55)"

fun percent_decode :: "string \<Rightarrow> string" where
  "percent_decode [] = []"
| "percent_decode (c # s) =
     (if c = CHR ''%'' then
        (case s of
           a # b # r \<Rightarrow> char_of (16 * hex_value a + hex_value b) # percent_decode r
         | _ \<Rightarrow> [c])
      else c # percent_decode s)"

fun split_on :: "char \<Rightarrow> string \<Rightarrow> string list" where
  "split_on d [] = [[]]"
| "split_on d (c # s) =
     (if c = d then [] # split_on d s
      else (case split_on d s of p # ps \<Rightarrow> (c # p) # ps | [] \<Rightarrow> [[c]]))"

definition parse_pair :: "string \<Rightarrow> string \<times> string" where
  "parse_pair p =
     (percent_decode (takeWhile (\<lambda>c. c \<noteq> CHR ''='') p),
      percent_decode (tl (dropWhile (\<lambda>c. c \<noteq> CHR ''='') p)))"

definition parse_query :: "string \<Rightarrow> (string \<times> string) list" where
  "parse_query s =
     (case s of
        [] \<Rightarrow> []
      | c # r \<Rightarrow> map parse_pair (split_on (CHR ''&'') r))"

lemma hex_value_digit [simp]: "n < 16 \<Longrightarrow> hex_value (hex_digit n) = n"
  by (auto simp: hex_value_def hex_digit_def Let_def)

lemma hex_digit_not: "n < 16 \<Longrightarrow> hex_digit n \<noteq> CHR ''&'' \<and> hex_digit n \<noteq> CHR ''=''"
proof -
  assume "n < 16"
  then have "(of_char (hex_digit n) :: nat) = (if n < 10 then 48 + n else 55 + n)"
    by (simp add: hex_digit_def)
  note d = this
  have False if "hex_digit n = CHR ''&''"
    using d unfolding that by (simp split: if_splits)
  moreover have False if "hex_digit n = CHR ''=''"
    using d unfolding that by (simp split: if_splits)
  ultimately show ?thesis by blast
qed

lemma nibbles [simp]: "of_char c div 16 < (16 :: nat)" "of_char c mod 16 < (16 :: nat)"
proof -
  show "of_char c div 16 < (16 :: nat)"
    by (rule less_mult_imp_div_less) simp
qed simp

lemma percent_decode_encode_byte: "percent_decode (encode_byte c @ s) = c # percent_decode s"
proof (cases "unreserved c")
  case True
  then have "c \<noteq> CHR ''%''" by (auto simp: unreserved_def Let_def)
  with True show ?thesis by (simp add: encode_byte_def)
next
  case False
  with False show ?thesis by (simp add: encode_byte_def)
qed

lemma decode_encode: "percent_decode (encodeURIComponent s) = s"
  by (induction s) (simp_all add: encodeURIComponent_def percent_decode_encode_byte)

lemma encode_no_separator:
  "CHR ''&'' \<notin> set (encodeURIComponent s) \<and> CHR ''='' \<notin> set (encodeURIComponent s)"
proof -
  have "CHR ''&'' \<notin> set (encode_byte c) \<and> CHR ''='' \<notin> set (encode_byte c)" for c
  proof (cases "unreserved c")
    case True
    then show ?thesis by (auto simp: encode_byte_def unreserved_def Let_def)
  next
    case False
    show ?thesis
      using False hex_digit_not[OF nibbles(1)[of c]] hex_digit_not[OF nibbles(2)[of c]]
      by (auto simp: encode_byte_def)
  qed
  then show ?thesis by (auto simp: encodeURIComponent_def)
qed

lemma split_on_none: "d \<notin> set p \<Longrightarrow> split_on d p = [p]"
  by (induction p) auto

lemma split_on_append: "d \<notin> set p \<Longrightarrow> split_on d (p @ d # s) = p # split_on d s"
  by (induction p) auto

lemma split_join:
  "list_all (\<lambda>p. d \<notin> set p) ps \<Longrightarrow> ps \<noteq> [] \<Longrightarrow> split_on d (join_with [d] ps) = ps"
  by (induction ps rule: join_with.induct[of "\<lambda>_ ps. P ps" for P])
    (simp_all add: split_on_none split_on_append)

lemma parse_query_part: "parse_pair (query_part kv) = (fst kv, js_string (snd kv))"
proof -
  let ?k = "encodeURIComponent (fst kv)" and ?v = "encodeURIComponent (js_string (snd kv))"
  have ne: "\<And>x. x \<in> set ?k \<Longrightarrow> x \<noteq> CHR ''=''"
    using encode_no_separator[of "fst kv"] by blast
  have "takeWhile (\<lambda>c. c \<noteq> CHR ''='') (?k @ CHR ''='' # ?v) = ?k"
    "dropWhile (\<lambda>c. c \<noteq> CHR ''='') (?k @ CHR ''='' # ?v) = CHR ''='' # ?v"
    using encode_no_separator[of "fst kv"]
    by (simp_all add: takeWhile_append2 dropWhile_append2 ne)
  then show ?thesis by (simp add: parse_pair_def query_part_def decode_encode)
qed

text \<open>Reading back what was written.\<close>

lemma parse_toQueryString:
  "parse_query (toQueryString params) =
     map (\<lambda>kv. (fst kv, js_string (snd kv))) (filter (\<lambda>kv. kept_param (snd kv)) params)"
proof -
  let ?kept = "filter (\<lambda>kv. kept_param (snd kv)) params"
  have "list_all (\<lambda>p. CHR ''&'' \<notin> set p) (map query_part ?kept)"
    using encode_no_separator by (auto simp: list_all_iff query_part_def)
  then have "?kept \<noteq> [] \<Longrightarrow>
      split_on (CHR ''&'') (join_with [CHR ''&''] (map query_part ?kept)) = map query_part ?kept"
    by (rule split_join) simp
  then show ?thesis
    by (auto simp: toQueryString_def parse_query_def Let_def parse_query_part comp_def)
qed

text \<open>
  C26: Whatever the parameter names and values (spaces, ampersands, equals signs, percent signs and
  non-ASCII bytes included), reading back the query string written by \<open>toQueryString\<close> gives
  exactly the parameters that are neither undefined, null nor the empty string, in order, each
  with the text of its value.
\<close>

theorem query_string_roundtrip:
  "parse_query (toQueryString params) =
     map (\<lambda>kv. (fst kv, js_string (snd kv))) (filter (\<lambda>kv. kept_param (snd kv)) params)"
  by (rule parse_toQueryString)

end
