(* ===== verification/RestCall.thy ===== *)
theory RestCall imports ApiClientProps QueryString begin

text \<open>
  A call the client libraries make through the request core: which helper of
  src/frontend/src/lib/apiClient.ts, with which address, body and options. The methods of the
  client objects build such a call; \<open>run_call\<close> performs it. The build-time environment
  (\<open>import.meta.env\<close>) is a parameter of the definitions that read it.
\<close>

type_synonym fields = "(string \<times> json) list"
type_synonym vite_env = "string \<Rightarrow> string option"

datatype rest_call =
    Fetch (call_url: string) (call_opts: fetch_options)
  | Fetch_page (call_url: string) (call_opts: fetch_options)
  | Post (call_url: string) (call_payload: json) (call_opts: fetch_options)
  | Put (call_url: string) (call_payload: json) (call_opts: fetch_options)
  | Patch (call_url: string) (call_payload: json) (call_opts: fetch_options)
  | Delete (call_url: string) (call_opts: fetch_options)

definition RAW :: fetch_options where
  "RAW = \<lparr>fo_timeout = None, fo_raw = True\<rparr>"

fun page_json :: "exn + json \<times> json \<Rightarrow> exn + json" where
  "page_json (Inl e) = Inl e"
| "page_json (Inr (items, pagination)) =
     Inr (JObj [(''items'', items), (''pagination'', pagination)])"

fun run_call :: "api_env \<Rightarrow> string \<Rightarrow> rest_call \<Rightarrow> json api_result" where
  "run_call env tok (Fetch url opts) = fetchAPI env tok url opts"
| "run_call env tok (Fetch_page url opts) =
     (case fetchPaginatedAPI env tok url opts of (evs, r, t) \<Rightarrow> (evs, page_json r, t))"
| "run_call env tok (Post url payload opts) = postAPI env tok url payload opts"
| "run_call env tok (Put url payload opts) = putAPI env tok url payload opts"
| "run_call env tok (Patch url payload opts) = patchAPI env tok url payload opts"
| "run_call env tok (Delete url opts) = deleteAPI env tok url opts"

text \<open>A call that changes state on the server.\<close>

definition is_write :: "rest_call \<Rightarrow> bool" where
  "is_write c = (case c of Fetch _ _ \<Rightarrow> False | Fetch_page _ _ \<Rightarrow> False | _ \<Rightarrow> True)"

definition call_raw :: "rest_call \<Rightarrow> bool" where
  "call_raw c = fo_raw (call_opts c)"

definition call_method :: "rest_call \<Rightarrow> string" where
  "call_method c = (case c of
     Fetch _ _ \<Rightarrow> ''GET'' | Fetch_page _ _ \<Rightarrow> ''GET'' | Post _ _ _ \<Rightarrow> ''POST''
   | Put _ _ _ \<Rightarrow> ''PUT'' | Patch _ _ _ \<Rightarrow> ''PATCH'' | Delete _ _ \<Rightarrow> ''DELETE'')"

definition call_body :: "rest_call \<Rightarrow> json option" where
  "call_body c = (case c of
     Post _ p opts \<Rightarrow> send_body opts p | Put _ p opts \<Rightarrow> send_body opts p
   | Patch _ p opts \<Rightarrow> send_body opts p | _ \<Rightarrow> None)"

subsection \<open>What a call puts on the wire\<close>

lemma after_fetch_no_fetch: "e \<in> set (fst (after_fetch env url k tok)) \<Longrightarrow> \<not> is_fetch e"
  using after_fetch_events(1)[of env url k tok] by (auto simp: filter_empty_conv)

lemma rawRequest_fetches:
  assumes "(evs, r, t) = rawRequest env tok url init timeoutMs" "e \<in> set evs" "is_fetch e"
  shows "\<exists>hs. e = Ev_fetch (method_of init) url hs (ri_body init) (coalesce timeoutMs DEFAULT_TIMEOUT_MS)"
proof -
  have "evs = concat (map (turn env tok url init (coalesce timeoutMs DEFAULT_TIMEOUT_MS))
      [0..<Suc (last_attempt env)])"
    using assms(1) by (simp only: rawRequest_turns Let_def prod.inject)
  then obtain k where "e \<in> set (turn env tok url init (coalesce timeoutMs DEFAULT_TIMEOUT_MS) k)"
    using assms(2) by auto
  then show ?thesis
    using assms(3) after_fetch_no_fetch
    by (auto simp: turn_def turn_events_def Let_def split: if_splits)
qed

lemma request_trace: "fst (request env tok url init timeoutMs raw) = fst (rawRequest env tok url init timeoutMs)"
  by (auto simp: request_def split: prod.splits sum.splits)

lemma page_trace:
  "fst (fetchPaginatedAPI env tok url opts) = fst (rawRequest env tok url empty_init (fo_timeout opts))"
  by (auto simp: fetchPaginatedAPI_def split: prod.splits sum.splits)

lemma run_call_fetches:
  assumes "e \<in> set (fst (run_call env tok c))" "is_fetch e"
  shows "\<exists>hs T. e = Ev_fetch (call_method c) (call_url c) hs (call_body c) T"
proof -
  have ex: "\<exists>hs T. e = Ev_fetch (method_of init) u hs (ri_body init) T"
    if "e \<in> set (fst (rawRequest env tok u init tm))" for u init tm
    using rawRequest_fetches[of _ _ _ env tok u init tm e] that assms(2)
    by (cases "rawRequest env tok u init tm") auto
  show ?thesis
  proof (cases c)
    case (Fetch_page u opts)
    then have "e \<in> set (fst (rawRequest env tok u empty_init (fo_timeout opts)))"
      using assms(1) page_trace[of env tok u opts] by (simp add: case_prod_beta)
    from ex[OF this] Fetch_page show ?thesis
      by (simp add: call_method_def call_body_def method_of_def empty_init_def)
  qed (use assms(1) ex in \<open>force simp: fetchAPI_def postAPI_def putAPI_def patchAPI_def
      deleteAPI_def request_trace call_method_def call_body_def method_of_def empty_init_def\<close>)+
qed

end
