(* ===== verification/QueryCache.thy ===== *)
theory QueryCache imports RestCall Machine begin

text \<open>
  What the data hooks hand to the query library, and the part of that library's documented
  behaviour the code relies on: a query is identified by its key, an invalidation by a key prefix.
  A query hook is modelled by its key, the call it makes, the reading of the reply, whether it is
  enabled, its stale time and its refetch interval (a function of the status in the last data); a
  mutation hook by the calls it makes in order and the key prefixes it invalidates on success. The
  library's retry count is left out.
\<close>

type_synonym query_key = "json list"

record query_spec =
  qs_key :: query_key
  qs_call :: rest_call
  qs_select :: "json \<Rightarrow> json"
  qs_enabled :: bool
  qs_stale :: nat
  qs_interval :: "json \<Rightarrow> nat option"

definition query_of :: "query_key \<Rightarrow> rest_call \<Rightarrow> bool \<Rightarrow> query_spec" where
  "query_of k c e = \<lparr>qs_key = k, qs_call = c, qs_select = (\<lambda>d. d), qs_enabled = e, qs_stale = 0,
     qs_interval = (\<lambda>d. None)\<rparr>"

definition stale_for :: "nat \<Rightarrow> query_spec \<Rightarrow> query_spec" where
  "stale_for ms q = q\<lparr>qs_stale := ms\<rparr>"

definition every :: "nat \<Rightarrow> query_spec \<Rightarrow> query_spec" where
  "every ms q = q\<lparr>qs_interval := (\<lambda>d. Some ms)\<rparr>"

definition while_status :: "string list \<Rightarrow> nat \<Rightarrow> query_spec \<Rightarrow> query_spec" where
  "while_status ss ms q =
     q\<lparr>qs_interval := (\<lambda>d. if jget d ''status'' \<in> JStr ` set ss then Some ms else None)\<rparr>"

definition reading :: "(json \<Rightarrow> json) \<Rightarrow> query_spec \<Rightarrow> query_spec" where
  "reading f q = q\<lparr>qs_select := f\<rparr>"

text \<open>\<open>res.items\<close>.\<close>

definition items_of :: "json \<Rightarrow> json" where
  "items_of d = jget d ''items''"

record mutation_spec =
  ms_calls :: "rest_call list"
  ms_invalidates :: "query_key list"

definition mutation_of :: "rest_call \<Rightarrow> query_key list \<Rightarrow> mutation_spec" where
  "mutation_of c ks = \<lparr>ms_calls = [c], ms_invalidates = ks\<rparr>"

text \<open>Truthiness of a string, an optional string and a number.\<close>

definition set_str :: "string option \<Rightarrow> bool" where
  "set_str s \<longleftrightarrow> s \<noteq> None \<and> s \<noteq> Some []"

text \<open>An optional argument as a template literal prints it.\<close>

definition shown :: "string option \<Rightarrow> string" where
  "shown s = coalesce s ''undefined''"

text \<open>
  The identity of a key is the text of its JSON, in which \<open>undefined\<close> in an array reads as
  \<open>null\<close> and an undefined field is left out. An object's fields are taken in the order the page
  writes them (the library sorts them).
\<close>

definition hash_key :: "query_key \<Rightarrow> json" where
  "hash_key k = wire (JArr k)"

definition key_prefix :: "query_key \<Rightarrow> query_key \<Rightarrow> bool" where
  "key_prefix p k \<longleftrightarrow> (\<exists>r. hash_key k = hash_key (p @ r))"

definition key_elem :: "json \<Rightarrow> json" where
  "key_elem x = (if x = JUndef then JNull else wire x)"

lemma hash_key_def2: "hash_key k = JArr (map key_elem k)"
  by (simp add: hash_key_def key_elem_def)

lemma key_prefix_code [code]:
  "key_prefix p k \<longleftrightarrow> length p \<le> length k \<and> hash_key (take (length p) k) = hash_key p"
proof
  assume "key_prefix p k"
  then obtain r where r: "map key_elem k = map key_elem p @ map key_elem r"
    by (auto simp: key_prefix_def hash_key_def2)
  have "length (map key_elem k) = length (map key_elem p @ map key_elem r)"
    by (simp only: r)
  moreover have "take (length p) (map key_elem k) = map key_elem p" by (simp add: r)
  ultimately show "length p \<le> length k \<and> hash_key (take (length p) k) = hash_key p"
    by (simp add: hash_key_def2 take_map)
next
  assume p: "length p \<le> length k \<and> hash_key (take (length p) k) = hash_key p"
  have "map key_elem k = map key_elem (take (length p) k) @ map key_elem (drop (length p) k)"
    by (metis append_take_drop_id map_append)
  then have "hash_key k = hash_key (p @ drop (length p) k)"
    using p by (simp add: hash_key_def2)
  then show "key_prefix p k" by (auto simp: key_prefix_def)
qed

lemma key_prefix_append [simp]: "key_prefix p (p @ r)"
  by (auto simp: key_prefix_def)

definition refreshes :: "mutation_spec \<Rightarrow> query_spec \<Rightarrow> bool" where
  "refreshes m q \<longleftrightarrow> list_ex (\<lambda>p. key_prefix p (qs_key q)) (ms_invalidates m)"

lemma query_specs [simp]:
  "qs_key (query_of k c e) = k" "qs_call (query_of k c e) = c" "qs_enabled (query_of k c e) = e"
  "qs_key (stale_for ms q) = qs_key q" "qs_call (stale_for ms q) = qs_call q"
  "qs_enabled (stale_for ms q) = qs_enabled q"
  "qs_key (every ms q) = qs_key q" "qs_call (every ms q) = qs_call q"
  "qs_enabled (every ms q) = qs_enabled q"
  "qs_key (while_status ss ms q) = qs_key q" "qs_call (while_status ss ms q) = qs_call q"
  "qs_enabled (while_status ss ms q) = qs_enabled q"
  "qs_key (reading f q) = qs_key q" "qs_call (reading f q) = qs_call q"
  "qs_enabled (reading f q) = qs_enabled q"
  by (simp_all add: query_of_def stale_for_def every_def while_status_def reading_def)

lemma mutation_specs [simp]:
  "ms_calls (mutation_of c ks) = [c]" "ms_invalidates (mutation_of c ks) = ks"
  by (simp_all add: mutation_of_def)

lemma key_elem_simps [simp]:
  "key_elem (JStr s) = JStr s" "key_elem JUndef = JNull" "key_elem JNull = JNull"
  "key_elem (JBool b) = JBool b"
  by (simp_all add: key_elem_def)

lemma nat_str_digits: "c \<in> set (nat_str n) \<Longrightarrow> 48 \<le> (of_char c :: nat) \<and> (of_char c :: nat) < 58"
proof -
  have d: "\<forall>d \<in> set (digits_rev 10 m). d < 10" for m
    by (induction "10::nat" m rule: digits_rev.induct) (subst digits_rev.simps, auto)
  assume "c \<in> set (nat_str n)"
  then show ?thesis
    using d[of n] by (auto simp: nat_str_def nat_to_base_def digit_char_def)
qed

lemma int_str_number: "int_str i \<notin> {''NaN'', ''Infinity'', ''-Infinity''}"
proof -
  have "nat_str n \<noteq> ''NaN''" "nat_str n \<noteq> ''Infinity''" "nat_str n \<noteq> ''-Infinity''" for n
    using nat_str_digits[of "CHR ''N''" n] nat_str_digits[of "CHR ''I''" n] nat_str_digits[of "CHR ''-''" n]
    by auto
  then show ?thesis by (auto simp: int_str_def)
qed

lemma key_elem_jint [simp]: "key_elem (jint i) = jint i"
  using int_str_number[of i] by (simp add: key_elem_def jint_def)

lemma jopt_key [simp]:
  "key_elem (jopt jint a) = key_elem (jopt jint b) \<longleftrightarrow> jopt jint a = jopt jint b"
  "key_elem (jopt JStr c) = key_elem (jopt JStr d) \<longleftrightarrow> c = d"
proof -
  have *: "key_elem (JNum (int_str i)) = JNum (int_str i)" for i
    using key_elem_jint[of i] by (simp only: jint_def)
  show "key_elem (jopt jint a) = key_elem (jopt jint b) \<longleftrightarrow> jopt jint a = jopt jint b"
    by (cases a; cases b) (simp_all add: jopt_def jint_def *)
  show "key_elem (jopt JStr c) = key_elem (jopt JStr d) \<longleftrightarrow> c = d"
    by (cases c; cases d) (simp_all add: jopt_def)
qed

text \<open>Filters the pages pass in a key: scalars, or fields left undefined.\<close>

fun scalar :: "json \<Rightarrow> bool" where
  "scalar (JStr s) = True"
| "scalar (JBool b) = True"
| "scalar (JNum t) = (t \<notin> {''NaN'', ''Infinity'', ''-Infinity''})"
| "scalar _ = False"

definition plain_fields :: "fields \<Rightarrow> bool" where
  "plain_fields ps = list_all (\<lambda>(k, v). scalar v \<or> v = JUndef) ps"

lemma plain_wire: "plain_fields ps \<Longrightarrow> wire (JObj ps) = JObj (filter (\<lambda>kv. snd kv \<noteq> JUndef) ps)"
proof -
  have w: "wire v = v" if "scalar v" for v using that by (cases v) auto
  show "plain_fields ps \<Longrightarrow> ?thesis"
    by (induction ps) (auto simp: plain_fields_def w)
qed

lemma plain_key: "plain_fields ps \<Longrightarrow> key_elem (JObj ps) = JObj (filter (\<lambda>kv. snd kv \<noteq> JUndef) ps)"
  by (simp add: key_elem_def plain_wire del: wire.simps)

lemma query_string_defined: "toQueryString (filter (\<lambda>kv. snd kv \<noteq> JUndef) ps) = toQueryString ps"
proof -
  have "filter (\<lambda>kv. kept_param (snd kv)) (filter (\<lambda>kv. snd kv \<noteq> JUndef) ps)
      = filter (\<lambda>kv. kept_param (snd kv)) ps"
    by (induction ps) (auto simp: kept_param_def)
  then show ?thesis by (simp add: toQueryString_def)
qed

lemma plain_query_string:
  assumes "plain_fields ps" "plain_fields qs" "key_elem (JObj ps) = key_elem (JObj qs)"
  shows "toQueryString ps = toQueryString qs"
  using assms query_string_defined by (metis json.inject(5) plain_key)

subsection \<open>The cache\<close>

text \<open>
  An entry holds the call that filled it and whether it is stale. Queries of a family fill it and
  invalidations by prefix mark entries stale; a hook reads the entry of its key.
\<close>

record cache_entry =
  ce_key :: json
  ce_call :: rest_call
  ce_stale :: bool

type_synonym query_cache = "cache_entry list"

definition cache_fill :: "query_spec \<Rightarrow> query_cache \<Rightarrow> query_cache" where
  "cache_fill q c =
     \<lparr>ce_key = hash_key (qs_key q), ce_call = qs_call q, ce_stale = False\<rparr>
     # filter (\<lambda>e. ce_key e \<noteq> hash_key (qs_key q)) c"

definition hash_prefix :: "query_key \<Rightarrow> json \<Rightarrow> bool" where
  "hash_prefix p h =
     (case h of JArr xs \<Rightarrow> length p \<le> length xs \<and> JArr (take (length p) xs) = hash_key p | _ \<Rightarrow> False)"

definition cache_invalidate :: "query_key \<Rightarrow> query_cache \<Rightarrow> query_cache" where
  "cache_invalidate p c = map (\<lambda>e. if hash_prefix p (ce_key e) then e\<lparr>ce_stale := True\<rparr> else e) c"

definition cache_read :: "query_cache \<Rightarrow> query_spec \<Rightarrow> cache_entry option" where
  "cache_read c q = find (\<lambda>e. ce_key e = hash_key (qs_key q)) c"

datatype 'q cache_action = Fill 'q | Succeed mutation_spec

lemma hash_prefix_key: "hash_prefix p (hash_key k) = key_prefix p k"
  by (simp add: hash_prefix_def key_prefix_code hash_key_def2 take_map)

text \<open>What a family of queries and the writes around it do to the cache.\<close>

definition cache_step ::
  "('q \<Rightarrow> query_spec) \<Rightarrow> ('q \<Rightarrow> bool) \<Rightarrow> query_cache \<Rightarrow> 'q cache_action \<Rightarrow> query_cache" where
  "cache_step spec valid c a =
     (case a of
        Fill q \<Rightarrow> if valid q \<and> qs_enabled (spec q) then cache_fill (spec q) c else c
      | Succeed m \<Rightarrow> fold cache_invalidate (ms_invalidates m) c)"

definition cache_inv :: "('q \<Rightarrow> query_spec) \<Rightarrow> ('q \<Rightarrow> bool) \<Rightarrow> query_cache \<Rightarrow> bool" where
  "cache_inv spec valid c \<longleftrightarrow>
     (\<forall>e \<in> set c. \<exists>q. valid q \<and> ce_key e = hash_key (qs_key (spec q)) \<and> ce_call e = qs_call (spec q))"

lemma read_invalidate:
  "cache_read (cache_invalidate p c) q =
     map_option (\<lambda>e. if key_prefix p (qs_key q) then e\<lparr>ce_stale := True\<rparr> else e) (cache_read c q)"
  by (induction c) (auto simp: cache_read_def cache_invalidate_def hash_prefix_key)

lemma read_invalidated:
  "cache_read (fold cache_invalidate ks c) q =
     map_option (\<lambda>e. if list_ex (\<lambda>p. key_prefix p (qs_key q)) ks then e\<lparr>ce_stale := True\<rparr> else e)
       (cache_read c q)"
  by (induction ks arbitrary: c) (auto simp: read_invalidate option.map_comp comp_def option.map_ident
      intro!: option.map_cong)

text \<open>A family of queries in which a key stands for one call.\<close>

locale keyed_queries =
  fixes spec :: "'q \<Rightarrow> query_spec" and valid :: "'q \<Rightarrow> bool"
  assumes key_call: "valid a \<Longrightarrow> valid b \<Longrightarrow> hash_key (qs_key (spec a)) = hash_key (qs_key (spec b))
    \<Longrightarrow> qs_call (spec a) = qs_call (spec b)"
begin

lemma cache_inv_invalidate: "cache_inv spec valid c \<Longrightarrow> cache_inv spec valid (cache_invalidate p c)"
  by (auto simp: cache_inv_def cache_invalidate_def)

lemma cache_inv_step: "cache_inv spec valid c \<Longrightarrow> cache_inv spec valid (cache_step spec valid c a)"
proof (cases a)
  case (Fill q)
  assume "cache_inv spec valid c"
  with Fill show ?thesis by (auto simp: cache_inv_def cache_step_def cache_fill_def)
next
  case (Succeed m)
  assume "cache_inv spec valid c"
  then have "cache_inv spec valid (fold cache_invalidate ks c)" for ks
    by (induction ks arbitrary: c) (simp_all add: cache_inv_invalidate)
  with Succeed show ?thesis by (simp add: cache_step_def)
qed

lemma cache_inv_run: "cache_inv spec valid (run (cache_step spec valid) [] as)"
proof -
  have from_inv: "cache_inv spec valid (run (cache_step spec valid) c as)" if "cache_inv spec valid c" for c
    using that by (induction as arbitrary: c) (simp_all add: cache_inv_step)
  show ?thesis by (rule from_inv) (simp add: cache_inv_def)
qed

lemma cache_read_call:
  assumes "valid q" "cache_read (run (cache_step spec valid) [] as) (spec q) = Some e"
  shows "ce_call e = qs_call (spec q)"
proof -
  have e: "e \<in> set (run (cache_step spec valid) [] as)" "ce_key e = hash_key (qs_key (spec q))"
    using assms(2) by (auto simp: cache_read_def find_Some_iff)
  then obtain q' where "valid q'" "ce_key e = hash_key (qs_key (spec q'))" "ce_call e = qs_call (spec q')"
    using cache_inv_run[of as] unfolding cache_inv_def by blast
  with e assms(1) show ?thesis using key_call by metis
qed

lemma succeed_read:
  "cache_read (cache_step spec valid c (Succeed m)) (spec q) =
     map_option (\<lambda>e. if refreshes m (spec q) then e\<lparr>ce_stale := True\<rparr> else e) (cache_read c (spec q))"
  by (simp add: cache_step_def refreshes_def read_invalidated)

end

end
