(* ===== verification/CrmApi.thy ===== *)
theory CrmApi imports RestCall begin

text \<open>
  The CRM service's client, src/frontend/src/lib/crmApi.ts, its audit log client lib/auditApi.ts,
  and the employer operations client lib/employerOpsApi.ts.
\<close>

subsection \<open>crmAPI\<close>

definition CRM_URL :: "vite_env \<Rightarrow> string" where
  "CRM_URL vite = or_str (vite ''VITE_CRM_URL'') ''/api''"

definition crmAPI_searchContacts :: "vite_env \<Rightarrow> fields \<Rightarrow> rest_call" where
  "crmAPI_searchContacts vite params =
     Fetch_page ((CRM_URL vite) @ ''/v1/crm/contacts'' @ (toQueryString params)) no_options"

definition crmAPI_getContact :: "vite_env \<Rightarrow> string \<Rightarrow> rest_call" where
  "crmAPI_getContact vite contactId =
     Fetch ((CRM_URL vite) @ ''/v1/crm/contacts/'' @ contactId) no_options"

definition crmAPI_createContact :: "vite_env \<Rightarrow> json \<Rightarrow> rest_call" where
  "crmAPI_createContact vite req =
     Post ((CRM_URL vite) @ ''/v1/crm/contacts'')
       req no_options"

definition crmAPI_updateContact :: "vite_env \<Rightarrow> string \<Rightarrow> json \<Rightarrow> rest_call" where
  "crmAPI_updateContact vite contactId req =
     Patch ((CRM_URL vite) @ ''/v1/crm/contacts/'' @ contactId)
       req no_options"

definition crmAPI_getContactByLegacyId :: "vite_env \<Rightarrow> string \<Rightarrow> rest_call" where
  "crmAPI_getContactByLegacyId vite legacyMbrId =
     Fetch ((CRM_URL vite) @ ''/v1/crm/contacts-by-legacy/'' @ legacyMbrId) no_options"

definition crmAPI_getContactTimeline ::
  "vite_env \<Rightarrow> string \<Rightarrow> int option \<Rightarrow> int option \<Rightarrow> rest_call" where
  "crmAPI_getContactTimeline vite contactId limit offset =
     Fetch ((CRM_URL vite) @ ''/v1/crm/contacts/'' @ contactId @ ''/timeline'' @
       (toQueryString [(''limit'', jopt jint limit), (''offset'', jopt jint offset)])) no_options"

definition crmAPI_createInteraction :: "vite_env \<Rightarrow> json \<Rightarrow> rest_call" where
  "crmAPI_createInteraction vite req =
     Post ((CRM_URL vite) @ ''/v1/crm/interactions'')
       req no_options"

definition crmAPI_getInteraction :: "vite_env \<Rightarrow> string \<Rightarrow> rest_call" where
  "crmAPI_getInteraction vite interactionId =
     Fetch ((CRM_URL vite) @ ''/v1/crm/interactions/'' @ interactionId) no_options"

definition crmAPI_listInteractions :: "vite_env \<Rightarrow> fields \<Rightarrow> rest_call" where
  "crmAPI_listInteractions vite params =
     Fetch_page ((CRM_URL vite) @ ''/v1/crm/interactions'' @
       (toQueryString [(''conversation_id'', jget (JObj params) ''conversationId''),
         (''contact_id'', jget (JObj params) ''contactId''),
           (''channel'', jget (JObj params) ''channel''),
             (''limit'', jget (JObj params) ''limit''),
               (''offset'', jget (JObj params) ''offset'')])) no_options"

definition crmAPI_listConversations :: "vite_env \<Rightarrow> fields \<Rightarrow> rest_call" where
  "crmAPI_listConversations vite params =
     Fetch_page ((CRM_URL vite) @ ''/v1/crm/conversations'' @
       (toQueryString params)) no_options"

definition crmAPI_listConversationsByAnchor ::
  "vite_env \<Rightarrow> string \<Rightarrow> string \<Rightarrow> string option \<Rightarrow> int option \<Rightarrow> rest_call" where
  "crmAPI_listConversationsByAnchor vite anchorType anchorId status limit =
     Fetch_page ((CRM_URL vite) @ ''/v1/crm/conversations'' @
       (toQueryString [(''anchor_type'', JStr anchorType), (''anchor_id'', JStr anchorId),
         (''status'', jopt JStr status), (''limit'', jopt jint limit)])) no_options"

definition crmAPI_getConversation :: "vite_env \<Rightarrow> string \<Rightarrow> rest_call" where
  "crmAPI_getConversation vite conversationId =
     Fetch ((CRM_URL vite) @ ''/v1/crm/conversations/'' @ conversationId) no_options"

definition crmAPI_createConversation :: "vite_env \<Rightarrow> json \<Rightarrow> rest_call" where
  "crmAPI_createConversation vite req =
     Post ((CRM_URL vite) @ ''/v1/crm/conversations'')
       req no_options"

definition crmAPI_updateConversation :: "vite_env \<Rightarrow> string \<Rightarrow> json \<Rightarrow> rest_call" where
  "crmAPI_updateConversation vite conversationId req =
     Patch ((CRM_URL vite) @ ''/v1/crm/conversations/'' @ conversationId)
       req no_options"

definition crmAPI_createNote :: "vite_env \<Rightarrow> json \<Rightarrow> rest_call" where
  "crmAPI_createNote vite req =
     Post ((CRM_URL vite) @ ''/v1/crm/notes'')
       req no_options"

definition crmAPI_listCommitments :: "vite_env \<Rightarrow> fields \<Rightarrow> rest_call" where
  "crmAPI_listCommitments vite params =
     Fetch_page ((CRM_URL vite) @ ''/v1/crm/commitments'' @ (toQueryString params)) no_options"

definition crmAPI_createCommitment :: "vite_env \<Rightarrow> json \<Rightarrow> rest_call" where
  "crmAPI_createCommitment vite req =
     Post ((CRM_URL vite) @ ''/v1/crm/commitments'')
       req no_options"

definition crmAPI_updateCommitment :: "vite_env \<Rightarrow> string \<Rightarrow> json \<Rightarrow> rest_call" where
  "crmAPI_updateCommitment vite commitmentId req =
     Patch ((CRM_URL vite) @ ''/v1/crm/commitments/'' @ commitmentId)
       req no_options"

definition crmAPI_listOutreach :: "vite_env \<Rightarrow> fields \<Rightarrow> rest_call" where
  "crmAPI_listOutreach vite params =
     Fetch_page ((CRM_URL vite) @ ''/v1/crm/outreach'' @ (toQueryString params)) no_options"

definition crmAPI_createOutreach :: "vite_env \<Rightarrow> json \<Rightarrow> rest_call" where
  "crmAPI_createOutreach vite req =
     Post ((CRM_URL vite) @ ''/v1/crm/outreach'')
       req no_options"

definition crmAPI_updateOutreach :: "vite_env \<Rightarrow> string \<Rightarrow> json \<Rightarrow> rest_call" where
  "crmAPI_updateOutreach vite outreachId req =
     Patch ((CRM_URL vite) @ ''/v1/crm/outreach/'' @ outreachId)
       req no_options"

definition crmAPI_listOrganizations :: "vite_env \<Rightarrow> fields \<Rightarrow> rest_call" where
  "crmAPI_listOrganizations vite params =
     Fetch_page ((CRM_URL vite) @ ''/v1/crm/organizations'' @
       (toQueryString params)) no_options"

definition crmAPI_getOrganization :: "vite_env \<Rightarrow> string \<Rightarrow> rest_call" where
  "crmAPI_getOrganization vite orgId =
     Fetch ((CRM_URL vite) @ ''/v1/crm/organizations/'' @ orgId) no_options"

subsection \<open>auditAPI\<close>

definition auditAPI_listEntries :: "vite_env \<Rightarrow> fields option \<Rightarrow> rest_call" where
  "auditAPI_listEntries vite params =
     Fetch_page ((CRM_URL vite) @ ''/v1/crm/audit'' @
       (toQueryString (coalesce params []))) no_options"

subsection \<open>Employer operations\<close>

definition fetchEmployerRoster :: "string \<Rightarrow> fields option \<Rightarrow> rest_call" where
  "fetchEmployerRoster orgId opts =
     Fetch_page (''/api/v1/employer/'' @ orgId @ ''/members'' @
       ((toQueryString (coalesce opts [])))) no_options"

definition fetchEmployerMemberSummary :: "string \<Rightarrow> rest_call" where
  "fetchEmployerMemberSummary orgId =
     Fetch (''/api/v1/employer/'' @ orgId @ ''/members/summary'') no_options"

definition fetchEmployerDQScore :: "string \<Rightarrow> rest_call" where
  "fetchEmployerDQScore orgId =
     Fetch (''/api/v1/dq/employer/'' @ orgId @ ''/score'') no_options"

definition fetchEmployerDQIssues :: "string \<Rightarrow> fields option \<Rightarrow> rest_call" where
  "fetchEmployerDQIssues orgId opts =
     Fetch_page (''/api/v1/dq/employer/'' @ orgId @ ''/issues'' @
       ((toQueryString (coalesce opts [])))) no_options"

definition fetchEmployerDQChecks :: "string \<Rightarrow> fields option \<Rightarrow> rest_call" where
  "fetchEmployerDQChecks orgId opts =
     Fetch_page (''/api/v1/dq/employer/'' @ orgId @ ''/checks'' @
       ((toQueryString (coalesce opts [])))) no_options"

definition fetchOrgInteractions :: "string \<Rightarrow> fields option \<Rightarrow> rest_call" where
  "fetchOrgInteractions orgId opts =
     Fetch_page (''/api/v1/crm/organizations/'' @ orgId @ ''/interactions'' @
       ((toQueryString (coalesce opts [])))) no_options"

definition fetchOrgContacts :: "string \<Rightarrow> fields option \<Rightarrow> rest_call" where
  "fetchOrgContacts orgId opts =
     Fetch_page (''/api/v1/crm/organizations/'' @ orgId @ ''/contacts'' @
       ((toQueryString (coalesce opts [])))) no_options"

definition createEmployerInteraction :: "json \<Rightarrow> rest_call" where
  "createEmployerInteraction req =
     Post (''/api/v1/crm/interactions/employer'')
       req no_options"

definition fetchEmployerTemplates :: "fields option \<Rightarrow> rest_call" where
  "fetchEmployerTemplates opts =
     Fetch_page (''/api/v1/correspondence/templates/employer'' @
       ((toQueryString (coalesce opts [])))) no_options"

definition generateEmployerLetter :: "json \<Rightarrow> rest_call" where
  "generateEmployerLetter req =
     Post (''/api/v1/correspondence/generate/employer'')
       req no_options"

definition fetchEmployerCases :: "string \<Rightarrow> fields option \<Rightarrow> rest_call" where
  "fetchEmployerCases orgId opts =
     Fetch_page (''/api/v1/employer/'' @ orgId @ ''/cases'' @
       ((toQueryString (coalesce opts [])))) no_options"

definition fetchEmployerCaseSummary :: "string \<Rightarrow> rest_call" where
  "fetchEmployerCaseSummary orgId =
     Fetch (''/api/v1/employer/'' @ orgId @ ''/cases/summary'') no_options"

definition createEmployerCase :: "json \<Rightarrow> rest_call" where
  "createEmployerCase req =
     Post (''/api/v1/employer/cases'')
       req no_options"

end
