(* ===== verification/CrmQueries.thy ===== *)
theory CrmQueries imports QueryCache CrmApi begin

text \<open>
  The CRM data hooks, src/frontend/src/hooks/useCRM.ts, and the call logger useLogCall.ts.
\<close>

subsection \<open>hooks/useCRM.ts\<close>

definition useContactSearch :: "vite_env \<Rightarrow> string \<Rightarrow> bool option \<Rightarrow> query_spec" where
  "useContactSearch vite query enabled =
     query_of [JStr ''crm'', JStr ''contacts'', JStr ''search'', JStr query]
       (crmAPI_searchContacts vite [(''query'', JStr query)])
       (coalesce enabled True \<and> query \<noteq> [])"

definition useContact :: "vite_env \<Rightarrow> string \<Rightarrow> query_spec" where
  "useContact vite contactId =
     query_of [JStr ''crm'', JStr ''contact'', JStr contactId]
       (crmAPI_getContact vite contactId)
       (contactId \<noteq> [])"

definition useContactByLegacyId :: "vite_env \<Rightarrow> string \<Rightarrow> query_spec" where
  "useContactByLegacyId vite legacyMbrId =
     query_of [JStr ''crm'', JStr ''contact'', JStr ''legacy'', JStr legacyMbrId]
       (crmAPI_getContactByLegacyId vite legacyMbrId)
       (legacyMbrId \<noteq> [])"

definition useContactTimeline :: "vite_env \<Rightarrow> string \<Rightarrow> int option \<Rightarrow> query_spec" where
  "useContactTimeline vite contactId limit =
     query_of [JStr ''crm'', JStr ''timeline'', JStr contactId, jopt jint limit]
       (crmAPI_getContactTimeline vite contactId limit None)
       (contactId \<noteq> [])"

definition useInteraction :: "vite_env \<Rightarrow> string \<Rightarrow> query_spec" where
  "useInteraction vite interactionId =
     query_of [JStr ''crm'', JStr ''interaction'', JStr interactionId]
       (crmAPI_getInteraction vite interactionId)
       (interactionId \<noteq> [])"

definition useConversations :: "vite_env \<Rightarrow> fields \<Rightarrow> query_spec" where
  "useConversations vite params =
     query_of [JStr ''crm'', JStr ''conversations'', JObj params]
       (crmAPI_listConversations vite params)
       (list_ex (\<lambda>f. truthy (jget (JObj params) f)) [''contactId'', ''assignedAgent'',
         ''assignedTeam'', ''status''])"

definition useConversation :: "vite_env \<Rightarrow> string \<Rightarrow> query_spec" where
  "useConversation vite conversationId =
     query_of [JStr ''crm'', JStr ''conversation'', JStr conversationId]
       (crmAPI_getConversation vite conversationId)
       (conversationId \<noteq> [])"

definition useCommitments :: "vite_env \<Rightarrow> fields \<Rightarrow> query_spec" where
  "useCommitments vite params =
     query_of [JStr ''crm'', JStr ''commitments'', JObj params]
       (crmAPI_listCommitments vite params)
       (list_ex (\<lambda>f. truthy (jget (JObj params) f)) [''contactId'', ''conversationId'',
         ''ownerAgent'', ''status''])"

definition useOutreach :: "vite_env \<Rightarrow> fields \<Rightarrow> query_spec" where
  "useOutreach vite params =
     query_of [JStr ''crm'', JStr ''outreach'', JObj params]
       (crmAPI_listOutreach vite params)
       (list_ex (\<lambda>f. truthy (jget (JObj params) f)) [''contactId'', ''assignedAgent'',
         ''assignedTeam'', ''status''])"

definition useOrganizations :: "vite_env \<Rightarrow> fields \<Rightarrow> query_spec" where
  "useOrganizations vite params =
     query_of [JStr ''crm'', JStr ''organizations'', JObj params]
       (crmAPI_listOrganizations vite params) True"

definition useOrganization :: "vite_env \<Rightarrow> string \<Rightarrow> query_spec" where
  "useOrganization vite orgId =
     query_of [JStr ''crm'', JStr ''organization'', JStr orgId]
       (crmAPI_getOrganization vite orgId)
       (orgId \<noteq> [])"

definition useCreateContact :: "vite_env \<Rightarrow> json \<Rightarrow> mutation_spec" where
  "useCreateContact vite req =
     mutation_of (crmAPI_createContact vite req)
       [[JStr ''crm'', JStr ''contacts'']]"

definition useUpdateContact :: "vite_env \<Rightarrow> string \<Rightarrow> json \<Rightarrow> mutation_spec" where
  "useUpdateContact vite contactId req =
     mutation_of (crmAPI_updateContact vite contactId req)
       [[JStr ''crm'', JStr ''contact'', JStr contactId],
        [JStr ''crm'', JStr ''contacts'']]"

definition useCreateInteraction :: "vite_env \<Rightarrow> json \<Rightarrow> mutation_spec" where
  "useCreateInteraction vite req =
     \<lparr>ms_calls = [crmAPI_createInteraction vite req],
      ms_invalidates =
        (if truthy (jget req ''contactId'')
         then [[JStr ''crm'', JStr ''timeline'', jget req ''contactId'']] else [])
        @ (if truthy (jget req ''conversationId'')
           then [[JStr ''crm'', JStr ''conversation'', jget req ''conversationId'']] else [])
        @ [[JStr ''crm'', JStr ''conversations'']]\<rparr>"

definition useCreateNote :: "vite_env \<Rightarrow> json \<Rightarrow> mutation_spec" where
  "useCreateNote vite req =
     mutation_of (crmAPI_createNote vite req)
       [[JStr ''crm'', JStr ''interaction'', jget req ''interactionId'']]"

definition useCreateCommitment :: "vite_env \<Rightarrow> json \<Rightarrow> mutation_spec" where
  "useCreateCommitment vite req =
     \<lparr>ms_calls = [crmAPI_createCommitment vite req],
      ms_invalidates =
        [[JStr ''crm'', JStr ''commitments''],
         [JStr ''crm'', JStr ''interaction'', jget req ''interactionId'']]
        @ (if truthy (jget req ''contactId'')
           then [[JStr ''crm'', JStr ''timeline'', jget req ''contactId'']] else [])\<rparr>"

definition useUpdateCommitment :: "vite_env \<Rightarrow> string \<Rightarrow> json \<Rightarrow> mutation_spec" where
  "useUpdateCommitment vite commitmentId req =
     mutation_of (crmAPI_updateCommitment vite commitmentId req)
       [[JStr ''crm'', JStr ''commitments'']]"

definition useCreateConversation :: "vite_env \<Rightarrow> json \<Rightarrow> mutation_spec" where
  "useCreateConversation vite req =
     mutation_of (crmAPI_createConversation vite req)
       [[JStr ''crm'', JStr ''conversations'']]"

definition useUpdateConversation :: "vite_env \<Rightarrow> string \<Rightarrow> json \<Rightarrow> mutation_spec" where
  "useUpdateConversation vite conversationId req =
     mutation_of (crmAPI_updateConversation vite conversationId req)
       [[JStr ''crm'', JStr ''conversation'', JStr conversationId],
        [JStr ''crm'', JStr ''conversations'']]"

definition useCreateOutreach :: "vite_env \<Rightarrow> json \<Rightarrow> mutation_spec" where
  "useCreateOutreach vite req =
     mutation_of (crmAPI_createOutreach vite req)
       [[JStr ''crm'', JStr ''outreach'']]"

definition useUpdateOutreach :: "vite_env \<Rightarrow> string \<Rightarrow> json \<Rightarrow> mutation_spec" where
  "useUpdateOutreach vite outreachId req =
     mutation_of (crmAPI_updateOutreach vite outreachId req)
       [[JStr ''crm'', JStr ''outreach'']]"

definition useContactByMemberId :: "vite_env \<Rightarrow> string \<Rightarrow> query_spec" where
  "useContactByMemberId vite memberId =
     query_of [JStr ''crm'', JStr ''portal'', JStr ''contact-by-member'', JStr memberId]
       (crmAPI_getContactByLegacyId vite memberId)
       (memberId \<noteq> [])"

definition useFullTimeline :: "vite_env \<Rightarrow> string \<Rightarrow> query_spec" where
  "useFullTimeline vite contactId =
     query_of [JStr ''crm'', JStr ''portal'', JStr ''full-timeline'', JStr contactId]
       (crmAPI_getContactTimeline vite contactId None None)
       (contactId \<noteq> [])"

definition useMemberConversations :: "vite_env \<Rightarrow> string \<Rightarrow> query_spec" where
  "useMemberConversations vite memberId =
     reading items_of (query_of [JStr ''crm'', JStr ''portal'', JStr ''member-conversations'',
         JStr memberId]
       (crmAPI_listConversationsByAnchor vite ''MEMBER'' memberId None None)
       (memberId \<noteq> []))"

definition useEmployerConversations :: "vite_env \<Rightarrow> string \<Rightarrow> query_spec" where
  "useEmployerConversations vite orgId =
     reading items_of (query_of [JStr ''crm'', JStr ''portal'', JStr ''employer-conversations'',
         JStr orgId]
       (crmAPI_listConversationsByAnchor vite ''EMPLOYER'' orgId None None)
       (orgId \<noteq> []))"

text \<open>\<open>res.items.filter((i) => i.visibility === 'public')\<close>.\<close>

definition public_items :: "json \<Rightarrow> json" where
  "public_items d = (case items_of d of
     JArr xs \<Rightarrow> JArr (filter (\<lambda>i. jget i ''visibility'' = JStr ''public'') xs)
   | v \<Rightarrow> v)"

definition usePublicConversationInteractions :: "vite_env \<Rightarrow> string \<Rightarrow> query_spec" where
  "usePublicConversationInteractions vite conversationId =
     reading public_items (query_of
       [JStr ''crm'', JStr ''portal'', JStr ''public-interactions'', JStr conversationId]
       (crmAPI_listInteractions vite [(''conversationId'', JStr conversationId)])
       (conversationId \<noteq> []))"

definition useAllConversationInteractions :: "vite_env \<Rightarrow> string \<Rightarrow> query_spec" where
  "useAllConversationInteractions vite conversationId =
     reading items_of (query_of [JStr ''crm'', JStr ''portal'', JStr ''all-interactions'', JStr
         conversationId]
       (crmAPI_listInteractions vite [(''conversationId'', JStr conversationId)])
       (conversationId \<noteq> []))"

definition usePortalConversation :: "vite_env \<Rightarrow> string \<Rightarrow> query_spec" where
  "usePortalConversation vite conversationId =
     query_of [JStr ''crm'', JStr ''portal'', JStr ''conversation'', JStr conversationId]
       (crmAPI_getConversation vite conversationId)
       (conversationId \<noteq> [])"

definition usePortalInteraction :: "vite_env \<Rightarrow> string \<Rightarrow> query_spec" where
  "usePortalInteraction vite interactionId =
     query_of [JStr ''crm'', JStr ''portal'', JStr ''interaction'', JStr interactionId]
       (crmAPI_getInteraction vite interactionId)
       (interactionId \<noteq> [])"

definition useContactCommitments :: "vite_env \<Rightarrow> string \<Rightarrow> query_spec" where
  "useContactCommitments vite contactId =
     reading items_of (query_of [JStr ''crm'', JStr ''portal'', JStr ''commitments'', JStr
         contactId]
       (crmAPI_listCommitments vite [(''contactId'', JStr contactId)])
       (contactId \<noteq> []))"

definition usePortalOrganization :: "vite_env \<Rightarrow> string \<Rightarrow> query_spec" where
  "usePortalOrganization vite orgId =
     query_of [JStr ''crm'', JStr ''portal'', JStr ''organization'', JStr orgId]
       (crmAPI_getOrganization vite orgId)
       (orgId \<noteq> [])"

definition usePortalOrganizations :: "vite_env \<Rightarrow> query_spec" where
  "usePortalOrganizations vite =
     reading items_of (query_of [JStr ''crm'', JStr ''portal'', JStr ''organizations'']
       (crmAPI_listOrganizations vite []) True)"

definition useCreatePortalMessage :: "vite_env \<Rightarrow> json \<Rightarrow> mutation_spec" where
  "useCreatePortalMessage vite dat =
     mutation_of (crmAPI_createInteraction vite (JObj [(''conversationId'', jget dat
         ''conversationId''), (''contactId'', jget dat ''contactId''), (''orgId'', jget dat
         ''orgId''), (''agentId'', jget dat ''agentId''), (''channel'', JStr ''secure_message''),
         (''interactionType'', JStr ''request''), (''direction'', jget dat ''direction''),
         (''summary'', jget dat ''content''), (''visibility'', JStr ''public'')]))
       [[JStr ''crm'', JStr ''portal'']]"

text \<open>The second call is made with the reply to the first.\<close>

definition useCreateNewConversation :: "vite_env \<Rightarrow> json \<Rightarrow> json \<Rightarrow> mutation_spec" where
  "useCreateNewConversation vite dat conversation =
     \<lparr>ms_calls =
        [crmAPI_createConversation vite (JObj
           [(''anchorType'', jget dat ''anchorType''), (''anchorId'', jget dat ''anchorId''),
            (''subject'', jget dat ''subject'')]),
         crmAPI_createInteraction vite (JObj
           [(''conversationId'', jget conversation ''conversationId''),
            (''contactId'', jget dat ''contactId''), (''orgId'', jget dat ''orgId''),
            (''agentId'', jget dat ''agentId''), (''channel'', JStr ''secure_message''),
            (''interactionType'', JStr ''request''), (''direction'', jget dat ''direction''),
            (''summary'', jget dat ''initialMessage''), (''visibility'', JStr ''public'')])],
      ms_invalidates = [[JStr ''crm'', JStr ''portal'']]\<rparr>"

definition useCreateStaffNote :: "vite_env \<Rightarrow> json \<Rightarrow> mutation_spec" where
  "useCreateStaffNote vite dat =
     mutation_of (crmAPI_createInteraction vite (JObj [(''contactId'', jget dat ''contactId''),
         (''conversationId'', jget dat ''conversationId''), (''agentId'', jget dat ''agentId''),
         (''channel'', JStr ''internal_handoff''), (''interactionType'', JStr ''follow_up''),
         (''direction'', JStr ''internal''), (''summary'', jget dat ''content''),
         (''visibility'', JStr ''internal'')]))
       [[JStr ''crm'', JStr ''portal'']]"

text \<open>The note refers to the interaction the first call created.\<close>

definition useCreateStructuredNote :: "vite_env \<Rightarrow> json \<Rightarrow> json \<Rightarrow> mutation_spec" where
  "useCreateStructuredNote vite dat interaction =
     \<lparr>ms_calls =
        [crmAPI_createInteraction vite (JObj
           [(''contactId'', jget dat ''contactId''),
            (''conversationId'', jget dat ''conversationId''),
            (''agentId'', jget dat ''agentId''), (''channel'', JStr ''internal_handoff''),
            (''interactionType'', JStr ''follow_up''), (''direction'', JStr ''internal''),
            (''summary'', jget dat ''summary''), (''visibility'', JStr ''internal'')]),
         crmAPI_createNote vite (JObj
           [(''interactionId'', jget interaction ''interactionId''),
            (''category'', jget dat ''category''), (''summary'', jget dat ''summary''),
            (''outcome'', jget dat ''outcome''), (''nextStep'', jget dat ''nextStep''),
            (''narrative'', jget dat ''narrative''), (''sentiment'', jget dat ''sentiment''),
            (''urgentFlag'', jget dat ''urgentFlag''), (''aiSuggested'', JBool False)])],
      ms_invalidates = [[JStr ''crm'', JStr ''portal'']]\<rparr>"

subsection \<open>hooks/useLogCall.ts\<close>

definition useLogCall :: "vite_env \<Rightarrow> string \<Rightarrow> string \<Rightarrow> mutation_spec" where
  "useLogCall vite contactId summary =
     useCreateInteraction vite (JObj
       [(''contactId'', JStr contactId), (''summary'', JStr summary),
        (''channel'', JStr ''phone_inbound''), (''interactionType'', JStr ''inquiry''),
        (''direction'', JStr ''inbound''), (''visibility'', JStr ''internal'')])"

end
