(* ===== verification/ServiceApis.thy ===== *)
theory ServiceApis imports RestCall begin

text \<open>
  The clients of the connector, intelligence, preferences, case, issue, security, correspondence,
  knowledge base, data quality and member search services: src/frontend/src/lib/api.ts,
  caseApi.ts, issuesApi.ts, securityApi.ts, correspondenceApi.ts, kbApi.ts, dqApi.ts, rulesApi.ts
  and memberSearchApi.ts.
\<close>

subsection \<open>connectorAPI\<close>

definition CONNECTOR_URL :: "vite_env \<Rightarrow> string" where
  "CONNECTOR_URL vite = or_str (vite ''VITE_CONNECTOR_URL'') ''/api''"

definition connectorAPI_getMember :: "vite_env \<Rightarrow> int \<Rightarrow> rest_call" where
  "connectorAPI_getMember vite ident =
     Fetch ((CONNECTOR_URL vite) @ ''/v1/members/'' @ (int_str ident)) no_options"

definition connectorAPI_getEmployment :: "vite_env \<Rightarrow> int \<Rightarrow> rest_call" where
  "connectorAPI_getEmployment vite ident =
     Fetch ((CONNECTOR_URL vite) @ ''/v1/members/'' @ (int_str ident) @
       ''/employment'') no_options"

definition connectorAPI_getSalary :: "vite_env \<Rightarrow> int \<Rightarrow> rest_call" where
  "connectorAPI_getSalary vite ident =
     Fetch ((CONNECTOR_URL vite) @ ''/v1/members/'' @ (int_str ident) @ ''/salary'') no_options"

definition connectorAPI_getAMS :: "vite_env \<Rightarrow> int \<Rightarrow> rest_call" where
  "connectorAPI_getAMS vite ident =
     Fetch ((CONNECTOR_URL vite) @ ''/v1/members/'' @ (int_str ident) @
       ''/salary/ams'') no_options"

definition connectorAPI_getBeneficiaries :: "vite_env \<Rightarrow> int \<Rightarrow> rest_call" where
  "connectorAPI_getBeneficiaries vite ident =
     Fetch ((CONNECTOR_URL vite) @ ''/v1/members/'' @ (int_str ident) @
       ''/beneficiaries'') no_options"

definition connectorAPI_getDRO :: "vite_env \<Rightarrow> int \<Rightarrow> rest_call" where
  "connectorAPI_getDRO vite ident =
     Fetch ((CONNECTOR_URL vite) @ ''/v1/members/'' @ (int_str ident) @ ''/dro'') no_options"

definition connectorAPI_getContributions :: "vite_env \<Rightarrow> int \<Rightarrow> rest_call" where
  "connectorAPI_getContributions vite ident =
     Fetch ((CONNECTOR_URL vite) @ ''/v1/members/'' @ (int_str ident) @
       ''/contributions'') no_options"

definition connectorAPI_getServiceCredit :: "vite_env \<Rightarrow> int \<Rightarrow> rest_call" where
  "connectorAPI_getServiceCredit vite ident =
     Fetch ((CONNECTOR_URL vite) @ ''/v1/members/'' @ (int_str ident) @
       ''/service-credit'') no_options"

subsection \<open>intelligenceAPI\<close>

definition INTELLIGENCE_URL :: "vite_env \<Rightarrow> string" where
  "INTELLIGENCE_URL vite = or_str (vite ''VITE_INTELLIGENCE_URL'') ''/api''"

definition intelligenceAPI_evaluateEligibility ::
  "vite_env \<Rightarrow> int \<Rightarrow> string option \<Rightarrow> rest_call" where
  "intelligenceAPI_evaluateEligibility vite memberID retirementDate =
     Post ((INTELLIGENCE_URL vite) @ ''/v1/eligibility/evaluate'')
       (JObj [(''member_id'', jint memberID),
         (''retirement_date'', jopt JStr retirementDate)]) no_options"

definition intelligenceAPI_calculateBenefit ::
  "vite_env \<Rightarrow> int \<Rightarrow> string \<Rightarrow> int option \<Rightarrow> rest_call" where
  "intelligenceAPI_calculateBenefit vite memberID retirementDate droId =
     Post ((INTELLIGENCE_URL vite) @ ''/v1/benefit/calculate'')
       (JObj ([(''member_id'', jint memberID), (''retirement_date'', JStr retirementDate)]
         @ (case droId of None \<Rightarrow> [] |
           Some droId \<Rightarrow> [(''dro_id'', jint droId)]))) no_options"

definition intelligenceAPI_calculateOptions ::
  "vite_env \<Rightarrow> int \<Rightarrow> string \<Rightarrow> string option \<Rightarrow> int option \<Rightarrow> rest_call" where
  "intelligenceAPI_calculateOptions vite memberID retirementDate beneficiaryDOB droId =
     Post ((INTELLIGENCE_URL vite) @ ''/v1/benefit/options'')
       (JObj ([(''member_id'', jint memberID), (''retirement_date'', JStr retirementDate),
         (''beneficiary_dob'', jopt JStr beneficiaryDOB)]
           @ (case droId of None \<Rightarrow> [] |
             Some droId \<Rightarrow> [(''dro_id'', jint droId)]))) no_options"

definition intelligenceAPI_calculateScenario ::
  "vite_env \<Rightarrow> int \<Rightarrow> string list \<Rightarrow> int option \<Rightarrow> rest_call" where
  "intelligenceAPI_calculateScenario vite memberID retirementDates droId =
     Post ((INTELLIGENCE_URL vite) @ ''/v1/benefit/scenario'')
       (JObj ([(''member_id'', jint memberID),
         (''retirement_dates'', JArr (map JStr retirementDates))]
           @ (case droId of None \<Rightarrow> [] |
             Some droId \<Rightarrow> [(''dro_id'', jint droId)]))) no_options"

definition intelligenceAPI_calculateDRO :: "vite_env \<Rightarrow> int \<Rightarrow> string \<Rightarrow> rest_call" where
  "intelligenceAPI_calculateDRO vite memberID retirementDate =
     Post ((INTELLIGENCE_URL vite) @ ''/v1/dro/calculate'')
       (JObj [(''member_id'', jint memberID),
         (''retirement_date'', JStr retirementDate)]) no_options"

subsection \<open>preferencesAPI\<close>

definition PREFERENCES_URL :: "vite_env \<Rightarrow> string" where
  "PREFERENCES_URL vite = or_str (vite ''VITE_PREFERENCES_URL'') ''/api''"

definition preferencesAPI_getPreferences :: "vite_env \<Rightarrow> string \<Rightarrow> rest_call" where
  "preferencesAPI_getPreferences vite contextKey =
     Fetch ((PREFERENCES_URL vite) @ ''/v1/preferences?context_key='' @
       (encodeURIComponent contextKey)) no_options"

definition preferencesAPI_upsertPreference :: "vite_env \<Rightarrow> json \<Rightarrow> rest_call" where
  "preferencesAPI_upsertPreference vite req =
     Put ((PREFERENCES_URL vite) @ ''/v1/preferences'')
       req no_options"

definition preferencesAPI_resetPreferences :: "vite_env \<Rightarrow> string \<Rightarrow> rest_call" where
  "preferencesAPI_resetPreferences vite contextKey =
     Delete ((PREFERENCES_URL vite) @ ''/v1/preferences?context_key='' @
       (encodeURIComponent contextKey)) no_options"

definition preferencesAPI_getSuggestions :: "vite_env \<Rightarrow> string \<Rightarrow> rest_call" where
  "preferencesAPI_getSuggestions vite contextKey =
     Fetch ((PREFERENCES_URL vite) @ ''/v1/suggestions?context_key='' @
       (encodeURIComponent contextKey)) no_options"

definition preferencesAPI_respondToSuggestion :: "vite_env \<Rightarrow> string \<Rightarrow> string \<Rightarrow> rest_call" where
  "preferencesAPI_respondToSuggestion vite suggestionId response =
     Post ((PREFERENCES_URL vite) @ ''/v1/suggestions/'' @ suggestionId @ ''/respond'')
       (JObj [(''response'', JStr response)]) no_options"

subsection \<open>caseAPI\<close>

definition CASE_URL :: "vite_env \<Rightarrow> string" where
  "CASE_URL vite = or_str (vite ''VITE_CASE_URL'') ''/api''"

definition caseAPI_listStages :: "vite_env \<Rightarrow> rest_call" where
  "caseAPI_listStages vite =
     Fetch ((CASE_URL vite) @ ''/v1/stages'') no_options"

definition caseAPI_getCaseStats :: "vite_env \<Rightarrow> rest_call" where
  "caseAPI_getCaseStats vite =
     Fetch ((CASE_URL vite) @ ''/v1/cases/stats'') no_options"

definition caseAPI_getSLAStats :: "vite_env \<Rightarrow> rest_call" where
  "caseAPI_getSLAStats vite =
     Fetch ((CASE_URL vite) @ ''/v1/cases/stats/sla'') no_options"

definition caseAPI_getVolumeStats :: "vite_env \<Rightarrow> int option \<Rightarrow> rest_call" where
  "caseAPI_getVolumeStats vite months =
     Fetch ((CASE_URL vite) @ ''/v1/cases/stats/volume?months='' @
       (int_str (coalesce months 6))) no_options"

definition caseAPI_listCases :: "vite_env \<Rightarrow> fields option \<Rightarrow> rest_call" where
  "caseAPI_listCases vite params =
     Fetch_page ((CASE_URL vite) @ ''/v1/cases'' @
       (toQueryString [(''status'', jget (JObj (coalesce params [])) ''status''),
         (''priority'', jget (JObj (coalesce params [])) ''priority''),
           (''assigned_to'', jget (JObj (coalesce params [])) ''assignedTo''),
             (''stage'', jget (JObj (coalesce params [])) ''stage''),
               (''member_id'', jget (JObj (coalesce params [])) ''memberId''),
                 (''limit'', jget (JObj (coalesce params [])) ''limit''),
                   (''offset'', jget (JObj (coalesce params [])) ''offset'')])) no_options"

definition caseAPI_getCase :: "vite_env \<Rightarrow> string \<Rightarrow> rest_call" where
  "caseAPI_getCase vite caseId =
     Fetch ((CASE_URL vite) @ ''/v1/cases/'' @ caseId) no_options"

definition caseAPI_createCase :: "vite_env \<Rightarrow> json \<Rightarrow> rest_call" where
  "caseAPI_createCase vite req =
     Post ((CASE_URL vite) @ ''/v1/cases'')
       req no_options"

definition caseAPI_updateCase :: "vite_env \<Rightarrow> string \<Rightarrow> json \<Rightarrow> rest_call" where
  "caseAPI_updateCase vite caseId req =
     Put ((CASE_URL vite) @ ''/v1/cases/'' @ caseId)
       req no_options"

definition caseAPI_advanceStage :: "vite_env \<Rightarrow> string \<Rightarrow> json \<Rightarrow> rest_call" where
  "caseAPI_advanceStage vite caseId req =
     Post ((CASE_URL vite) @ ''/v1/cases/'' @ caseId @ ''/advance'')
       req no_options"

definition caseAPI_getStageHistory :: "vite_env \<Rightarrow> string \<Rightarrow> rest_call" where
  "caseAPI_getStageHistory vite caseId =
     Fetch ((CASE_URL vite) @ ''/v1/cases/'' @ caseId @ ''/history'') no_options"

subsection \<open>issuesAPI\<close>

definition ISSUES_URL :: "vite_env \<Rightarrow> string" where
  "ISSUES_URL vite = or_str (vite ''VITE_ISSUES_URL'') ''/api''"

definition issuesAPI_listIssues :: "vite_env \<Rightarrow> fields option \<Rightarrow> rest_call" where
  "issuesAPI_listIssues vite params =
     Fetch_page ((ISSUES_URL vite) @ ''/v1/issues'' @
       (toQueryString (coalesce params []))) no_options"

definition issuesAPI_getIssue :: "vite_env \<Rightarrow> int \<Rightarrow> rest_call" where
  "issuesAPI_getIssue vite ident =
     Fetch ((ISSUES_URL vite) @ ''/v1/issues/'' @ (int_str ident)) no_options"

definition issuesAPI_createIssue :: "vite_env \<Rightarrow> json \<Rightarrow> rest_call" where
  "issuesAPI_createIssue vite dat =
     Post ((ISSUES_URL vite) @ ''/v1/issues'')
       dat no_options"

definition issuesAPI_updateIssue :: "vite_env \<Rightarrow> int \<Rightarrow> json \<Rightarrow> rest_call" where
  "issuesAPI_updateIssue vite ident dat =
     Put ((ISSUES_URL vite) @ ''/v1/issues/'' @ (int_str ident))
       dat no_options"

definition issuesAPI_getStats :: "vite_env \<Rightarrow> rest_call" where
  "issuesAPI_getStats vite =
     Fetch ((ISSUES_URL vite) @ ''/v1/issues/stats'') no_options"

definition issuesAPI_listComments :: "vite_env \<Rightarrow> int \<Rightarrow> rest_call" where
  "issuesAPI_listComments vite issueId =
     Fetch ((ISSUES_URL vite) @ ''/v1/issues/'' @ (int_str issueId) @ ''/comments'') no_options"

definition issuesAPI_createComment :: "vite_env \<Rightarrow> int \<Rightarrow> json \<Rightarrow> rest_call" where
  "issuesAPI_createComment vite issueId dat =
     Post ((ISSUES_URL vite) @ ''/v1/issues/'' @ (int_str issueId) @ ''/comments'')
       dat no_options"

subsection \<open>securityAPI\<close>

definition SECURITY_URL :: "vite_env \<Rightarrow> string" where
  "SECURITY_URL vite = or_str (vite ''VITE_SECURITY_URL'') ''/api''"

definition securityAPI_listEvents :: "vite_env \<Rightarrow> fields option \<Rightarrow> rest_call" where
  "securityAPI_listEvents vite params =
     Fetch_page ((SECURITY_URL vite) @ ''/v1/security/events'' @
       (toQueryString (coalesce params []))) no_options"

definition securityAPI_getEventStats :: "vite_env \<Rightarrow> rest_call" where
  "securityAPI_getEventStats vite =
     Fetch ((SECURITY_URL vite) @ ''/v1/security/events/stats'') no_options"

definition securityAPI_listSessions :: "vite_env \<Rightarrow> rest_call" where
  "securityAPI_listSessions vite =
     Fetch ((SECURITY_URL vite) @ ''/v1/security/sessions'') no_options"

subsection \<open>correspondenceAPI\<close>

definition CORR_URL :: "vite_env \<Rightarrow> string" where
  "CORR_URL vite = or_str (vite ''VITE_CORRESPONDENCE_URL'') ''/api''"

definition correspondenceAPI_listTemplates :: "vite_env \<Rightarrow> fields option \<Rightarrow> rest_call" where
  "correspondenceAPI_listTemplates vite params =
     Fetch ((CORR_URL vite) @ ''/v1/correspondence/templates'' @
       (toQueryString (coalesce params []))) no_options"

definition correspondenceAPI_getTemplate :: "vite_env \<Rightarrow> string \<Rightarrow> rest_call" where
  "correspondenceAPI_getTemplate vite templateId =
     Fetch ((CORR_URL vite) @ ''/v1/correspondence/templates/'' @ templateId) no_options"

definition correspondenceAPI_generate :: "vite_env \<Rightarrow> json \<Rightarrow> rest_call" where
  "correspondenceAPI_generate vite req =
     Post ((CORR_URL vite) @ ''/v1/correspondence/generate'')
       req no_options"

definition correspondenceAPI_listHistory :: "vite_env \<Rightarrow> fields option \<Rightarrow> rest_call" where
  "correspondenceAPI_listHistory vite params =
     Fetch ((CORR_URL vite) @ ''/v1/correspondence/history'' @
       (toQueryString (coalesce params []))) no_options"

definition correspondenceAPI_getCorrespondence :: "vite_env \<Rightarrow> string \<Rightarrow> rest_call" where
  "correspondenceAPI_getCorrespondence vite corrId =
     Fetch ((CORR_URL vite) @ ''/v1/correspondence/history/'' @ corrId) no_options"

definition correspondenceAPI_updateStatus :: "vite_env \<Rightarrow> string \<Rightarrow> json \<Rightarrow> rest_call" where
  "correspondenceAPI_updateStatus vite corrId req =
     Put ((CORR_URL vite) @ ''/v1/correspondence/history/'' @ corrId)
       req no_options"

subsection \<open>kbAPI\<close>

definition KB_URL :: "vite_env \<Rightarrow> string" where
  "KB_URL vite = or_str (vite ''VITE_KB_URL'') ''/api''"

definition kbAPI_listArticles :: "vite_env \<Rightarrow> fields option \<Rightarrow> rest_call" where
  "kbAPI_listArticles vite params =
     Fetch ((KB_URL vite) @ ''/v1/kb/articles'' @
       (toQueryString (coalesce params []))) no_options"

definition kbAPI_getArticle :: "vite_env \<Rightarrow> string \<Rightarrow> rest_call" where
  "kbAPI_getArticle vite articleId =
     Fetch ((KB_URL vite) @ ''/v1/kb/articles/'' @ articleId) no_options"

definition kbAPI_getStageHelp :: "vite_env \<Rightarrow> string \<Rightarrow> rest_call" where
  "kbAPI_getStageHelp vite stageId =
     Fetch ((KB_URL vite) @ ''/v1/kb/stages/'' @ stageId) no_options"

definition kbAPI_searchArticles :: "vite_env \<Rightarrow> string \<Rightarrow> int option \<Rightarrow> rest_call" where
  "kbAPI_searchArticles vite q limit =
     Fetch ((KB_URL vite) @ ''/v1/kb/search'' @
       (toQueryString [(''q'', JStr q), (''limit'', jopt jint limit)])) no_options"

definition kbAPI_listRules :: "vite_env \<Rightarrow> string option \<Rightarrow> rest_call" where
  "kbAPI_listRules vite domain =
     Fetch ((KB_URL vite) @ ''/v1/kb/rules'' @
       (toQueryString [(''domain'', jopt JStr domain)])) no_options"

definition kbAPI_getRuleDetail :: "vite_env \<Rightarrow> string \<Rightarrow> rest_call" where
  "kbAPI_getRuleDetail vite ruleId =
     Fetch ((KB_URL vite) @ ''/v1/kb/rules/'' @ ruleId) no_options"

subsection \<open>dqAPI\<close>

definition DQ_URL :: "vite_env \<Rightarrow> string" where
  "DQ_URL vite = or_str (vite ''VITE_DQ_URL'') ''/api''"

definition dqAPI_listChecks :: "vite_env \<Rightarrow> fields option \<Rightarrow> rest_call" where
  "dqAPI_listChecks vite params =
     Fetch ((DQ_URL vite) @ ''/v1/dq/checks'' @
       (toQueryString (coalesce params []))) no_options"

definition dqAPI_getCheck :: "vite_env \<Rightarrow> string \<Rightarrow> rest_call" where
  "dqAPI_getCheck vite checkId =
     Fetch ((DQ_URL vite) @ ''/v1/dq/checks/'' @ checkId) no_options"

definition dqAPI_listResults :: "vite_env \<Rightarrow> fields option \<Rightarrow> rest_call" where
  "dqAPI_listResults vite params =
     Fetch ((DQ_URL vite) @ ''/v1/dq/results'' @
       (toQueryString (coalesce params []))) no_options"

definition dqAPI_getScore :: "vite_env \<Rightarrow> rest_call" where
  "dqAPI_getScore vite =
     Fetch ((DQ_URL vite) @ ''/v1/dq/score'') no_options"

definition dqAPI_getScoreTrend :: "vite_env \<Rightarrow> int option \<Rightarrow> rest_call" where
  "dqAPI_getScoreTrend vite days =
     Fetch ((DQ_URL vite) @ ''/v1/dq/score/trend'' @
       (toQueryString [(''days'', jopt jint days)])) no_options"

definition dqAPI_listIssues :: "vite_env \<Rightarrow> fields option \<Rightarrow> rest_call" where
  "dqAPI_listIssues vite params =
     Fetch ((DQ_URL vite) @ ''/v1/dq/issues'' @
       (toQueryString (coalesce params []))) no_options"

definition dqAPI_updateIssue :: "vite_env \<Rightarrow> string \<Rightarrow> json \<Rightarrow> rest_call" where
  "dqAPI_updateIssue vite issueId req =
     Put ((DQ_URL vite) @ ''/v1/dq/issues/'' @ issueId)
       req no_options"

subsection \<open>rulesAPI\<close>

definition rulesAPI_listDefinitions :: "vite_env \<Rightarrow> string option \<Rightarrow> rest_call" where
  "rulesAPI_listDefinitions vite domain =
     Fetch ((KB_URL vite) @ ''/v1/kb/rules/definitions'' @
       ((case domain of None \<Rightarrow> [] | Some domain \<Rightarrow> if domain = []
         then [] else ''?domain='' @
       (encodeURIComponent domain)))) no_options"

definition rulesAPI_getDefinition :: "vite_env \<Rightarrow> string \<Rightarrow> rest_call" where
  "rulesAPI_getDefinition vite ruleId =
     Fetch ((KB_URL vite) @ ''/v1/kb/rules/definitions/'' @
       (encodeURIComponent ruleId)) no_options"

definition rulesAPI_getTestReport :: "vite_env \<Rightarrow> rest_call" where
  "rulesAPI_getTestReport vite =
     Fetch ((KB_URL vite) @ ''/v1/kb/test-report'') no_options"

definition rulesAPI_getTestReportForRule :: "vite_env \<Rightarrow> string \<Rightarrow> rest_call" where
  "rulesAPI_getTestReportForRule vite ruleId =
     Fetch ((KB_URL vite) @ ''/v1/kb/test-report/'' @ (encodeURIComponent ruleId)) no_options"

definition rulesAPI_listDemoCases :: "vite_env \<Rightarrow> rest_call" where
  "rulesAPI_listDemoCases vite =
     Fetch ((KB_URL vite) @ ''/v1/kb/demo-cases'') no_options"

definition rulesAPI_getDemoCase :: "vite_env \<Rightarrow> string \<Rightarrow> rest_call" where
  "rulesAPI_getDemoCase vite caseId =
     Fetch ((KB_URL vite) @ ''/v1/kb/demo-cases/'' @ (encodeURIComponent caseId)) no_options"

subsection \<open>memberSearchAPI\<close>

definition DATA_URL :: "vite_env \<Rightarrow> string" where
  "DATA_URL vite = or_str (vite ''VITE_DATA_URL'') ''/api''"

definition memberSearchAPI_search :: "vite_env \<Rightarrow> string \<Rightarrow> int option \<Rightarrow> rest_call" where
  "memberSearchAPI_search vite query limit =
     Fetch ((DATA_URL vite) @ ''/v1/members/search'' @
       (toQueryString [(''q'', JStr query), (''limit'', jint (coalesce limit 10))])) no_options"

end
