(* ===== verification/MemberPortalApi.thy ===== *)
theory MemberPortalApi imports RestCall begin

text \<open>
  The member portal's clients, src/frontend/src/lib/memberPortalApi.ts.
\<close>

subsection \<open>memberAuthAPI\<close>

definition memberAuthAPI_verify :: "json \<Rightarrow> rest_call" where
  "memberAuthAPI_verify req =
     Post (''/api/v1/member-auth/verify'')
       req no_options"

subsection \<open>memberPreferencesAPI\<close>

definition memberPreferencesAPI_get :: "int \<Rightarrow> rest_call" where
  "memberPreferencesAPI_get memberId =
     Fetch (''/api/v1/members/'' @ (int_str memberId) @ ''/preferences'') no_options"

definition memberPreferencesAPI_update :: "int \<Rightarrow> json \<Rightarrow> rest_call" where
  "memberPreferencesAPI_update memberId prefs =
     Put (''/api/v1/members/'' @ (int_str memberId) @ ''/preferences'')
       prefs no_options"

subsection \<open>scenarioAPI\<close>

definition scenarioAPI_list :: "int \<Rightarrow> rest_call" where
  "scenarioAPI_list memberId =
     Fetch (''/api/v1/scenarios?member_id='' @ (int_str memberId)) no_options"

definition scenarioAPI_get :: "string \<Rightarrow> rest_call" where
  "scenarioAPI_get ident =
     Fetch (''/api/v1/scenarios/'' @ ident) no_options"

definition scenarioAPI_save :: "int \<Rightarrow> string \<Rightarrow> json \<Rightarrow> json \<Rightarrow> string \<Rightarrow> rest_call" where
  "scenarioAPI_save memberId lbl inputs1 results1 dataVersion =
     Post (''/api/v1/scenarios'')
       (JObj [(''member_id'', jint memberId), (''label'', JStr lbl), (''inputs'', inputs1),
         (''results'', results1), (''data_version'', JStr dataVersion)]) no_options"

definition scenarioAPI_delete :: "string \<Rightarrow> rest_call" where
  "scenarioAPI_delete ident =
     Delete (''/api/v1/scenarios/'' @ ident) no_options"

subsection \<open>notificationAPI\<close>

definition notificationAPI_list :: "int \<Rightarrow> rest_call" where
  "notificationAPI_list memberId =
     Fetch (''/api/v1/notifications?member_id='' @ (int_str memberId)) no_options"

definition notificationAPI_markRead :: "string \<Rightarrow> rest_call" where
  "notificationAPI_markRead ident =
     Patch (''/api/v1/notifications/'' @ ident @ ''/read'')
       (JObj []) no_options"

subsection \<open>paymentAPI\<close>

definition paymentAPI_list :: "int \<Rightarrow> rest_call" where
  "paymentAPI_list memberId =
     Fetch (''/api/v1/members/'' @ (int_str memberId) @ ''/payments'') no_options"

definition paymentAPI_taxDocuments :: "int \<Rightarrow> rest_call" where
  "paymentAPI_taxDocuments memberId =
     Fetch (''/api/v1/members/'' @ (int_str memberId) @ ''/tax-documents'') no_options"

subsection \<open>documentAPI\<close>

definition documentAPI_list :: "int \<Rightarrow> rest_call" where
  "documentAPI_list memberId =
     Fetch (''/api/v1/members/'' @ (int_str memberId) @ ''/documents'') no_options"

subsection \<open>changeRequestAPI\<close>

definition changeRequestAPI_list :: "int \<Rightarrow> rest_call" where
  "changeRequestAPI_list memberId =
     Fetch (''/api/v1/issues?member_id='' @ (int_str memberId) @
       ''&type=profile_change,beneficiary_change,data_correction,direct_deposit_change'') no_options"

definition changeRequestAPI_create :: "fields \<Rightarrow> rest_call" where
  "changeRequestAPI_create req =
     Post (''/api/v1/issues'')
       (JObj (spread req [(''type'', JStr ''profile_change'')])) no_options"

subsection \<open>addressAPI\<close>

definition addressAPI_list :: "int \<Rightarrow> rest_call" where
  "addressAPI_list memberId =
     Fetch (''/api/v1/members/'' @ (int_str memberId) @ ''/addresses'') no_options"

definition addressAPI_update :: "int \<Rightarrow> string \<Rightarrow> json \<Rightarrow> rest_call" where
  "addressAPI_update memberId addressId dat =
     Put (''/api/v1/members/'' @ (int_str memberId) @ ''/addresses/'' @ addressId)
       dat no_options"

subsection \<open>refundAPI\<close>

definition refundAPI_estimate :: "int \<Rightarrow> rest_call" where
  "refundAPI_estimate memberId =
     Fetch (''/api/v1/members/'' @ (int_str memberId) @ ''/refund-estimate'') no_options"

text \<open>The form data is an object without enumerable entries.\<close>

definition documentAPI_upload :: "string \<Rightarrow> int \<Rightarrow> json \<Rightarrow> string \<Rightarrow> rest_call" where
  "documentAPI_upload issueId memberId file1 documentType =
     (let formData = JOpaque in
      Post (''/api/v1/issues/'' @ issueId @ ''/documents?member_id='' @ int_str memberId
            @ ''&document_type='' @ encodeURIComponent documentType)
        formData no_options)"

definition documentAPI_download :: "string \<Rightarrow> rest_call" where
  "documentAPI_download documentId = Fetch (''/api/v1/documents/'' @ documentId @ ''/download'') no_options"

end
