(* ===== verification/MemberQueries.thy ===== *)
theory MemberQueries imports QueryCache ServiceApis MemberPortalApi CrmApi begin

text \<open>
  The remaining data hooks of src/frontend/src/hooks: case management, statistics, addresses,
  audit log, benefit calculation, correspondence, data quality, demonstration cases, issues,
  knowledge base, member record, payments, preferences, refund, rules, security and saved
  scenarios.
\<close>

subsection \<open>hooks/useCaseManagement.ts\<close>

definition useStages :: "vite_env \<Rightarrow> query_spec" where
  "useStages vite =
     stale_for 300000 (query_of [JStr ''cases'', JStr ''stages'']
       (caseAPI_listStages vite) True)"

definition useCases :: "vite_env \<Rightarrow> fields option \<Rightarrow> query_spec" where
  "useCases vite params =
     reading items_of (query_of [JStr ''cases'', JStr ''list'', jopt JObj params]
       (caseAPI_listCases vite params) True)"

definition useCase :: "vite_env \<Rightarrow> string \<Rightarrow> query_spec" where
  "useCase vite caseId =
     query_of [JStr ''cases'', JStr ''detail'', JStr caseId]
       (caseAPI_getCase vite caseId)
       (caseId \<noteq> [])"

definition useMemberCases :: "vite_env \<Rightarrow> int \<Rightarrow> query_spec" where
  "useMemberCases vite memberId =
     reading items_of (query_of [JStr ''cases'', JStr ''member'', jint memberId]
       (caseAPI_listCases vite (Some [(''memberId'', jint memberId)]))
       (0 < memberId))"

definition useStageHistory :: "vite_env \<Rightarrow> string \<Rightarrow> query_spec" where
  "useStageHistory vite caseId =
     query_of [JStr ''cases'', JStr ''history'', JStr caseId]
       (caseAPI_getStageHistory vite caseId)
       (caseId \<noteq> [])"

definition useAdvanceStage :: "vite_env \<Rightarrow> string \<Rightarrow> json \<Rightarrow> mutation_spec" where
  "useAdvanceStage vite caseId req =
     mutation_of (caseAPI_advanceStage vite caseId req)
       [[JStr ''cases'']]"

subsection \<open>hooks/useCaseStats.ts\<close>

definition useCaseStats :: "vite_env \<Rightarrow> query_spec" where
  "useCaseStats vite =
     stale_for 30000 (query_of [JStr ''cases'', JStr ''stats'']
       (caseAPI_getCaseStats vite) True)"

definition useSLAStats :: "vite_env \<Rightarrow> query_spec" where
  "useSLAStats vite =
     stale_for 30000 (query_of [JStr ''cases'', JStr ''stats'', JStr ''sla'']
       (caseAPI_getSLAStats vite) True)"

definition useVolumeStats :: "vite_env \<Rightarrow> int option \<Rightarrow> query_spec" where
  "useVolumeStats vite months =
     stale_for 60000 (query_of [JStr ''cases'', JStr ''stats'', JStr ''volume'', jint (coalesce
         months 6)]
       (caseAPI_getVolumeStats vite (Some (coalesce months 6))) True)"

subsection \<open>hooks/useAddresses.ts\<close>

definition useAddresses :: "int \<Rightarrow> query_spec" where
  "useAddresses memberId =
     query_of [JStr ''addresses'', jint memberId]
       (addressAPI_list memberId)
       (0 < memberId)"

definition useUpdateAddress :: "int \<Rightarrow> string \<Rightarrow> json \<Rightarrow> mutation_spec" where
  "useUpdateAddress memberId addressId dat =
     mutation_of (addressAPI_update memberId addressId dat)
       [[JStr ''addresses'', jint memberId]]"

subsection \<open>hooks/useAuditLog.ts\<close>

definition useAuditLog_log :: "vite_env \<Rightarrow> fields option \<Rightarrow> query_spec" where
  "useAuditLog_log vite params =
     stale_for 30000 (query_of [JStr ''audit'', JStr ''log'', jopt JObj params]
       (auditAPI_listEntries vite params) True)"

subsection \<open>hooks/useBenefitCalculation.ts\<close>

definition useEligibility :: "vite_env \<Rightarrow> int \<Rightarrow> string option \<Rightarrow> query_spec" where
  "useEligibility vite memberID retirementDate =
     query_of [JStr ''eligibility'', jint memberID, jopt JStr retirementDate]
       (intelligenceAPI_evaluateEligibility vite memberID retirementDate)
       (0 < memberID)"

definition useBenefitCalculation :: "vite_env \<Rightarrow> int \<Rightarrow> string \<Rightarrow> int option \<Rightarrow> query_spec" where
  "useBenefitCalculation vite memberID retirementDate droId =
     query_of [JStr ''benefit'', jint memberID, JStr retirementDate, jopt jint droId]
       (intelligenceAPI_calculateBenefit vite memberID retirementDate droId)
       (0 < memberID \<and> retirementDate \<noteq> [])"

definition useScenario :: "vite_env \<Rightarrow> int \<Rightarrow> string list \<Rightarrow> int option \<Rightarrow> query_spec" where
  "useScenario vite memberID dates droId =
     query_of [JStr ''scenario'', jint memberID, JArr (map JStr dates), jopt jint droId]
       (intelligenceAPI_calculateScenario vite memberID dates droId)
       (0 < memberID \<and> dates \<noteq> [])"

subsection \<open>hooks/useCorrespondence.ts\<close>

definition useCorrespondenceHistory :: "vite_env \<Rightarrow> int \<Rightarrow> query_spec" where
  "useCorrespondenceHistory vite memberId =
     query_of [JStr ''correspondence'', JStr ''history'', jint memberId]
       (correspondenceAPI_listHistory vite (Some [(''member_id'', jint memberId)]))
       (0 < memberId)"

definition useSentCorrespondence :: "vite_env \<Rightarrow> int \<Rightarrow> query_spec" where
  "useSentCorrespondence vite memberId =
     query_of [JStr ''correspondence'', JStr ''sent'', jint memberId]
       (correspondenceAPI_listHistory vite (Some [(''member_id'', jint memberId), (''status'',
         JStr ''sent'')]))
       (0 < memberId)"

definition useCaseCorrespondence :: "vite_env \<Rightarrow> string \<Rightarrow> query_spec" where
  "useCaseCorrespondence vite caseId =
     query_of [JStr ''correspondence'', JStr ''case'', JStr caseId]
       (correspondenceAPI_listHistory vite (Some [(''case_id'', JStr caseId)]))
       (caseId \<noteq> [])"

definition useContactCorrespondence :: "vite_env \<Rightarrow> string \<Rightarrow> query_spec" where
  "useContactCorrespondence vite contactId =
     query_of [JStr ''correspondence'', JStr ''contact'', JStr contactId]
       (correspondenceAPI_listHistory vite (Some [(''contact_id'', JStr contactId), (''status'',
         JStr ''sent'')]))
       (contactId \<noteq> [])"

subsection \<open>hooks/useCorrespondenceTemplates.ts\<close>

definition useTemplatesByStage :: "vite_env \<Rightarrow> string \<Rightarrow> query_spec" where
  "useTemplatesByStage vite stageCategory =
     query_of [JStr ''correspondence'', JStr ''templates'', JStr ''stage'', JStr stageCategory]
       (correspondenceAPI_listTemplates vite (Some [(''stage_category'', JStr stageCategory)]))
       (stageCategory \<noteq> [])"

subsection \<open>hooks/useDataQuality.ts\<close>

definition useDQScore :: "vite_env \<Rightarrow> query_spec" where
  "useDQScore vite =
     stale_for 300000 (query_of [JStr ''dq'', JStr ''score'']
       (dqAPI_getScore vite) True)"

definition useDQScoreTrend :: "vite_env \<Rightarrow> int option \<Rightarrow> query_spec" where
  "useDQScoreTrend vite days =
     stale_for 300000 (query_of [JStr ''dq'', JStr ''score'', JStr ''trend'', jint (coalesce days
         30)]
       (dqAPI_getScoreTrend vite (Some (coalesce days 30))) True)"

definition useDQChecks :: "vite_env \<Rightarrow> query_spec" where
  "useDQChecks vite =
     stale_for 300000 (query_of [JStr ''dq'', JStr ''checks'']
       (dqAPI_listChecks vite None) True)"

definition useDQIssues :: "vite_env \<Rightarrow> fields option \<Rightarrow> query_spec" where
  "useDQIssues vite params =
     stale_for 120000 (query_of [JStr ''dq'', JStr ''issues'', jopt JObj params]
       (dqAPI_listIssues vite (Some (spread (coalesce params []) [(''limit'', jint 200)]))) True)"

definition useUpdateDQIssue :: "vite_env \<Rightarrow> string \<Rightarrow> json \<Rightarrow> mutation_spec" where
  "useUpdateDQIssue vite issueId req =
     mutation_of (dqAPI_updateIssue vite issueId req)
       [[JStr ''dq'', JStr ''issues''],
        [JStr ''dq'', JStr ''score'']]"

subsection \<open>hooks/useDemoCases.ts\<close>

definition useDemoCases :: "vite_env \<Rightarrow> query_spec" where
  "useDemoCases vite =
     stale_for 300000 (query_of [JStr ''rules'', JStr ''demo-cases'']
       (rulesAPI_listDemoCases vite) True)"

definition useDemoCase :: "vite_env \<Rightarrow> string \<Rightarrow> query_spec" where
  "useDemoCase vite caseId =
     stale_for 300000 (query_of [JStr ''rules'', JStr ''demo-cases'', JStr caseId]
       (rulesAPI_getDemoCase vite caseId)
       (caseId \<noteq> []))"

subsection \<open>hooks/useIssues.ts\<close>

definition useIssues :: "vite_env \<Rightarrow> fields option \<Rightarrow> query_spec" where
  "useIssues vite filters =
     query_of [JStr ''issues'', jopt JObj filters]
       (issuesAPI_listIssues vite filters) True"

definition useIssueStats :: "vite_env \<Rightarrow> query_spec" where
  "useIssueStats vite =
     query_of [JStr ''issues'', JStr ''stats'']
       (issuesAPI_getStats vite) True"

definition useIssueComments :: "vite_env \<Rightarrow> int option \<Rightarrow> query_spec" where
  "useIssueComments vite issueId =
     query_of [JStr ''issues'', jopt jint issueId, JStr ''comments'']
       (issuesAPI_listComments vite (coalesce issueId 0))
       (issueId \<noteq> None)"

subsection \<open>hooks/useKBRules.ts\<close>

definition useKBRules :: "vite_env \<Rightarrow> string option \<Rightarrow> query_spec" where
  "useKBRules vite dom1 =
     stale_for 300000 (query_of [JStr ''kb'', JStr ''rules'', jopt JStr dom1]
       (kbAPI_listRules vite dom1) True)"

subsection \<open>hooks/useMember.ts\<close>

definition useMember :: "vite_env \<Rightarrow> int \<Rightarrow> query_spec" where
  "useMember vite memberID =
     query_of [JStr ''member'', jint memberID]
       (connectorAPI_getMember vite memberID)
       (0 < memberID)"

definition useEmployment :: "vite_env \<Rightarrow> int \<Rightarrow> query_spec" where
  "useEmployment vite memberID =
     query_of [JStr ''employment'', jint memberID]
       (connectorAPI_getEmployment vite memberID)
       (0 < memberID)"

definition useServiceCredit :: "vite_env \<Rightarrow> int \<Rightarrow> query_spec" where
  "useServiceCredit vite memberID =
     query_of [JStr ''serviceCredit'', jint memberID]
       (connectorAPI_getServiceCredit vite memberID)
       (0 < memberID)"

definition useBeneficiaries :: "vite_env \<Rightarrow> int \<Rightarrow> query_spec" where
  "useBeneficiaries vite memberID =
     query_of [JStr ''beneficiaries'', jint memberID]
       (connectorAPI_getBeneficiaries vite memberID)
       (0 < memberID)"

definition useDRO :: "vite_env \<Rightarrow> int \<Rightarrow> query_spec" where
  "useDRO vite memberID =
     query_of [JStr ''dro'', jint memberID]
       (connectorAPI_getDRO vite memberID)
       (0 < memberID)"

definition useContributions :: "vite_env \<Rightarrow> int \<Rightarrow> query_spec" where
  "useContributions vite memberID =
     query_of [JStr ''contributions'', jint memberID]
       (connectorAPI_getContributions vite memberID)
       (0 < memberID)"

subsection \<open>hooks/usePayments.ts\<close>

definition usePayments :: "int \<Rightarrow> query_spec" where
  "usePayments memberId =
     query_of [JStr ''payments'', jint memberId]
       (paymentAPI_list memberId)
       (memberId \<noteq> 0)"

definition useTaxDocuments :: "int \<Rightarrow> query_spec" where
  "useTaxDocuments memberId =
     query_of [JStr ''tax-documents'', jint memberId]
       (paymentAPI_taxDocuments memberId)
       (memberId \<noteq> 0)"

subsection \<open>hooks/usePreferences.ts\<close>

definition useUserPreferences :: "vite_env \<Rightarrow> string \<Rightarrow> query_spec" where
  "useUserPreferences vite contextKey =
     stale_for 300000 (query_of [JStr ''preferences'', JStr contextKey]
       (preferencesAPI_getPreferences vite contextKey)
       (contextKey \<noteq> []))"

definition useUpsertPreference :: "vite_env \<Rightarrow> json \<Rightarrow> mutation_spec" where
  "useUpsertPreference vite req =
     mutation_of (preferencesAPI_upsertPreference vite req)
       [[JStr ''preferences'', jget req ''contextKey'']]"

definition useResetPreferences :: "vite_env \<Rightarrow> string \<Rightarrow> mutation_spec" where
  "useResetPreferences vite contextKey =
     mutation_of (preferencesAPI_resetPreferences vite contextKey)
       [[JStr ''preferences'', JStr contextKey]]"

definition useSuggestions :: "vite_env \<Rightarrow> string \<Rightarrow> query_spec" where
  "useSuggestions vite contextKey =
     stale_for 3600000 (query_of [JStr ''suggestions'', JStr contextKey]
       (preferencesAPI_getSuggestions vite contextKey)
       (contextKey \<noteq> []))"

definition useRespondToSuggestion :: "vite_env \<Rightarrow> string \<Rightarrow> string \<Rightarrow> mutation_spec" where
  "useRespondToSuggestion vite suggestionId response =
     mutation_of (preferencesAPI_respondToSuggestion vite suggestionId response)
       [[JStr ''suggestions'']]"

subsection \<open>hooks/useRefundEstimate.ts\<close>

definition useRefundEstimate :: "int \<Rightarrow> query_spec" where
  "useRefundEstimate memberId =
     query_of [JStr ''refund-estimate'', jint memberId]
       (refundAPI_estimate memberId)
       (memberId \<noteq> 0)"

subsection \<open>hooks/useRuleDefinitions.ts\<close>

definition useRuleDefinitions :: "vite_env \<Rightarrow> string option \<Rightarrow> query_spec" where
  "useRuleDefinitions vite dom1 =
     stale_for 300000 (query_of [JStr ''rules'', JStr ''definitions'', jopt JStr dom1]
       (rulesAPI_listDefinitions vite dom1) True)"

definition useRuleDefinition :: "vite_env \<Rightarrow> string \<Rightarrow> query_spec" where
  "useRuleDefinition vite ruleId =
     stale_for 300000 (query_of [JStr ''rules'', JStr ''definitions'', JStr ruleId]
       (rulesAPI_getDefinition vite ruleId)
       (ruleId \<noteq> []))"

subsection \<open>hooks/useSecurityEvents.ts\<close>

definition useSecurityEventStats :: "vite_env \<Rightarrow> query_spec" where
  "useSecurityEventStats vite =
     every 60000 (query_of [JStr ''security'', JStr ''stats'']
       (securityAPI_getEventStats vite) True)"

definition useSecurityEvents :: "vite_env \<Rightarrow> fields option \<Rightarrow> query_spec" where
  "useSecurityEvents vite filters =
     query_of [JStr ''security'', JStr ''events'', jopt JObj filters]
       (securityAPI_listEvents vite filters) True"

definition useActiveSessions :: "vite_env \<Rightarrow> query_spec" where
  "useActiveSessions vite =
     every 30000 (query_of [JStr ''security'', JStr ''sessions'']
       (securityAPI_listSessions vite) True)"

subsection \<open>hooks/useTestReport.ts\<close>

definition useTestReport :: "vite_env \<Rightarrow> query_spec" where
  "useTestReport vite =
     stale_for 300000 (query_of [JStr ''rules'', JStr ''test-report'']
       (rulesAPI_getTestReport vite) True)"

text \<open>The open issues of one member, out of the shared query of open issues.\<close>

definition useMemberDQIssues :: "vite_env \<Rightarrow> int \<Rightarrow> query_spec" where
  "useMemberDQIssues vite memberId =
     reading (\<lambda>d. case d of
         JArr xs \<Rightarrow> JArr (filter (\<lambda>issue. jget issue ''recordId'' = JStr (int_str memberId)) xs)
       | _ \<Rightarrow> JArr [])
       (useDQIssues vite (Some [(''status'', JStr ''open'')]))"

subsection \<open>hooks/useSavedScenarios.ts\<close>

definition useSavedScenarios :: "int \<Rightarrow> query_spec" where
  "useSavedScenarios memberId =
     query_of [JStr ''saved-scenarios'', jint memberId] (scenarioAPI_list memberId) (0 < memberId)"

definition useSavedScenarios_save ::
  "int \<Rightarrow> string \<Rightarrow> json \<Rightarrow> json \<Rightarrow> string \<Rightarrow> mutation_spec" where
  "useSavedScenarios_save memberId lbl inputs1 results1 dataVersion =
     mutation_of (scenarioAPI_save memberId lbl inputs1 results1 dataVersion)
       [[JStr ''saved-scenarios'', jint memberId]]"

definition useSavedScenarios_remove :: "int \<Rightarrow> string \<Rightarrow> mutation_spec" where
  "useSavedScenarios_remove memberId scenarioId =
     mutation_of (scenarioAPI_delete scenarioId) [[JStr ''saved-scenarios'', jint memberId]]"

subsection \<open>hooks/useMemberPreferences.ts\<close>

definition memberPrefsUrl :: "vite_env \<Rightarrow> string \<Rightarrow> string" where
  "memberPrefsUrl vite memberId = CONNECTOR_URL vite @ ''/v1/members/'' @ memberId @ ''/preferences''"

definition useMemberPreferences :: "vite_env \<Rightarrow> string \<Rightarrow> query_spec" where
  "useMemberPreferences vite memberId =
     stale_for 300000 (query_of [JStr ''member-preferences'', JStr memberId]
       (Fetch (memberPrefsUrl vite memberId) no_options) True)"

text \<open>The reply of the service is put under the query's key: the call, and the key it fills.\<close>

definition useMemberPreferences_update :: "vite_env \<Rightarrow> string \<Rightarrow> json \<Rightarrow> rest_call \<times> query_key" where
  "useMemberPreferences_update vite memberId prefs =
     (Put (memberPrefsUrl vite memberId) prefs no_options,
      [JStr ''member-preferences'', JStr memberId])"

subsection \<open>hooks/useMemberRequests.ts\<close>

definition useResolveRequest :: "string \<Rightarrow> json \<Rightarrow> mutation_spec" where
  "useResolveRequest requestId payload =
     mutation_of (Patch (''/api/v1/issues/'' @ requestId @ ''/resolve'') payload no_options)
       [[JStr ''member-requests'']]"

end
