(* ===== verification/ActivityTracker.thy ===== *)
theory ActivityTracker imports CrmSummary CrmQueries MemberQueries begin

text \<open>
  The member's activity list and notification bell: src/frontend/src/hooks/useActivityTracker.ts over
  the conversations and the issues (types of lib/issuesApi.ts), and hooks/useNotifications.ts over the
  conversations.
\<close>

datatype issue_status = Iss_open | Iss_triaged | Iss_in_work | Iss_resolved | Iss_closed

record issue =
  is_issueId :: string
  is_title :: string
  is_description :: string
  is_severity :: string
  is_category :: string
  is_status :: issue_status
  is_affectedService :: string
  is_reportedBy :: string
  is_assignedTo :: "string option"
  is_updatedAt :: string

fun issue_status_text :: "issue_status \<Rightarrow> string" where
  "issue_status_text Iss_open = ''open''"
| "issue_status_text Iss_triaged = ''triaged''"
| "issue_status_text Iss_in_work = ''in-work''"
| "issue_status_text Iss_resolved = ''resolved''"
| "issue_status_text Iss_closed = ''closed''"

datatype activity_urgency = Action_needed | Urg_in_progress | Urg_completed

datatype activity_source = From_conversation | From_issue

record activity_item =
  ai_id :: string
  ai_source :: activity_source
  ai_urgency :: activity_urgency
  ai_title :: string
  ai_description :: string
  ai_timestamp :: string
  ai_actionLabel :: "string option"
  ai_actionKey :: "string option"
  ai_sourceId :: string

subsection \<open>hooks/useActivityTracker.ts\<close>

fun classify_status :: "conversation_status \<Rightarrow> activity_urgency" where
  "classify_status Conv_resolved = Urg_completed"
| "classify_status Conv_closed = Urg_completed"
| "classify_status Conv_pending = Action_needed"
| "classify_status _ = Urg_in_progress"

definition classifyConversation :: "conversation \<Rightarrow> activity_urgency" where
  "classifyConversation c = classify_status (cv_status c)"

definition conversationToActivity :: "conversation \<Rightarrow> activity_item" where
  "conversationToActivity c =
     (let urgency = classifyConversation c in
      \<lparr>ai_id = ''conv-'' @ cv_conversationId c, ai_source = From_conversation, ai_urgency = urgency,
       ai_title = or_str (cv_subject c) ''Message'',
       ai_description =
         (case urgency of
            Action_needed \<Rightarrow> ''Awaiting your response''
          | Urg_completed \<Rightarrow> ''Resolved''
          | Urg_in_progress \<Rightarrow> ''Awaiting staff response''),
       ai_timestamp = cv_updatedAt c,
       ai_actionLabel =
         (case urgency of Action_needed \<Rightarrow> Some ''Reply'' | Urg_in_progress \<Rightarrow> Some ''View'' | Urg_completed \<Rightarrow> None),
       ai_actionKey = Some (cv_conversationId c), ai_sourceId = cv_conversationId c\<rparr>)"

definition classifyIssue :: "issue \<Rightarrow> activity_urgency" where
  "classifyIssue i =
     (if is_status i = Iss_resolved \<or> is_status i = Iss_closed then Urg_completed else Urg_in_progress)"

text \<open>The separator of the description is a dash outside ASCII, written as two hyphens.\<close>

definition issueToActivity :: "issue \<Rightarrow> activity_item" where
  "issueToActivity i =
     (let urgency = classifyIssue i in
      \<lparr>ai_id = ''issue-'' @ is_issueId i, ai_source = From_issue, ai_urgency = urgency, ai_title = is_title i,
       ai_description =
         (if urgency = Urg_completed then ''Resolved''
          else is_severity i @ '' -- '' @ issue_status_text (is_status i)),
       ai_timestamp = is_updatedAt i, ai_actionLabel = None, ai_actionKey = None,
       ai_sourceId = is_issueId i\<rparr>)"

text \<open>The queries of the hook; the issues are asked for without the member.\<close>

definition activity_conversations :: "vite_env \<Rightarrow> string \<Rightarrow> query_spec" where
  "activity_conversations vite memberId = useMemberConversations vite memberId"

definition activity_issues :: "vite_env \<Rightarrow> string \<Rightarrow> query_spec" where
  "activity_issues vite memberId = useIssues vite (Some [(''limit'', jint 50)])"

definition activity_items ::
  "time_zone \<Rightarrow> conversation list option \<Rightarrow> issue list option \<Rightarrow> activity_item list" where
  "activity_items tz conversations issues =
     js_sort (newest_first tz ai_timestamp)
       (map conversationToActivity (coalesce conversations []) @ map issueToActivity (coalesce issues []))"

definition grouped :: "activity_item list \<Rightarrow> activity_urgency \<Rightarrow> activity_item list" where
  "grouped items u = filter (\<lambda>i. ai_urgency i = u) items"

record activity_counts =
  ac_actionNeeded :: nat
  ac_inProgress :: nat
  ac_completed :: nat
  ac_total :: nat

definition activity_counts_of :: "activity_item list \<Rightarrow> activity_counts" where
  "activity_counts_of items =
     \<lparr>ac_actionNeeded = length (grouped items Action_needed),
      ac_inProgress = length (grouped items Urg_in_progress),
      ac_completed = length (grouped items Urg_completed), ac_total = length items\<rparr>"

subsection \<open>hooks/useNotifications.ts\<close>

record notification_item =
  ni_id :: string
  ni_title :: string
  ni_description :: string
  ni_timestamp :: string

definition notification_items :: "conversation list option \<Rightarrow> notification_item list" where
  "notification_items conversations =
     (case conversations of
        None \<Rightarrow> []
      | Some cs \<Rightarrow>
          map (\<lambda>c. \<lparr>ni_id = cv_conversationId c, ni_title = or_str (cv_subject c) ''New message'',
                     ni_description =
                       (if cv_status c = Conv_pending then ''Awaiting your response'' else ''Conversation active''),
                     ni_timestamp = cv_updatedAt c\<rparr>)
            (filter (\<lambda>c. cv_status c = Conv_open \<or> cv_status c = Conv_pending \<or> cv_status c = Conv_reopened) cs))"

definition unreadCount :: "conversation list option \<Rightarrow> nat" where
  "unreadCount conversations = length (notification_items conversations)"

subsection \<open>What a member sees\<close>

lemma groups_length:
  "length (grouped xs Action_needed) + length (grouped xs Urg_in_progress) + length (grouped xs Urg_completed)
    = length xs"
proof (induction xs)
  case (Cons x xs)
  then show ?case by (cases "ai_urgency x") (simp_all add: grouped_def)
qed (simp add: grouped_def)

lemma mset_map_filter_cong: "mset xs = mset ys \<Longrightarrow> mset (map f (filter P xs)) = mset (map f (filter P ys))"
  by simp

lemma activity_conversation_items:
  "mset (map ai_sourceId (filter (\<lambda>i. ai_source i = From_conversation \<and> ai_urgency i \<noteq> Urg_completed)
      (activity_items tz (Some convs) issues)))
   = mset (map ni_id (notification_items (Some convs)))"
proof -
  let ?p = "\<lambda>i. ai_source i = From_conversation \<and> ai_urgency i \<noteq> Urg_completed"
  have convs: "map ai_sourceId (filter ?p (map conversationToActivity convs)) = map ni_id (notification_items (Some convs))"
  proof (induction convs)
    case (Cons c cs)
    then show ?case
      by (cases "cv_status c")
        (simp_all add: notification_items_def conversationToActivity_def classifyConversation_def Let_def)
  qed (simp add: notification_items_def)
  have issues: "filter ?p (map issueToActivity is) = []" for "is"
    by (induction "is") (simp_all add: issueToActivity_def Let_def)
  have "mset (activity_items tz (Some convs) issues)
      = mset (map conversationToActivity convs @ map issueToActivity (coalesce issues []))"
    by (simp add: activity_items_def)
  from mset_map_filter_cong[OF this]
  have "mset (map ai_sourceId (filter ?p (activity_items tz (Some convs) issues)))
      = mset (map ai_sourceId (filter ?p (map conversationToActivity convs @ map issueToActivity (coalesce issues []))))" .
  also have "\<dots> = mset (map ni_id (notification_items (Some convs)))"
    by (simp only: filter_append issues convs append_Nil2)
  finally show ?thesis .
qed


definition example_conversation :: conversation where
  "example_conversation =
     \<lparr>cv_conversationId = ''v1'', cv_tenantId = ''t'', cv_anchorType = ''member'', cv_anchorId = None,
      cv_topicCategory = None, cv_topicSubcategory = None, cv_subject = None, cv_status = Conv_pending,
      cv_resolvedAt = None, cv_resolvedBy = None,
      cv_resolutionSummary = None, cv_slaDefinitionId = None, cv_slaDueAt = None, cv_slaBreached = False, cv_assignedTeam = None,
      cv_assignedAgent = None, cv_interactionCount = 0, cv_createdAt = ''2024-03-01'',
      cv_updatedAt = ''2024-03-01'', cv_createdBy = [], cv_updatedBy = []\<rparr>"


text \<open>
  The issues in a member's activity list are not the member's: the query is the same for all
  members and names none, and each of the issues it answers with, whoever reported it, becomes an
  item of the list of any member.
\<close>

theorem activity_lists_everyones_issues:
  "activity_issues vite m1 = activity_issues vite m2
 \<and> list_all (\<lambda>i. issueToActivity i \<in> set (activity_items tz convs (Some iss))) iss
 \<and> call_url (qs_call (activity_issues vite m1)) = call_url (issuesAPI_listIssues vite (Some [(''limit'', jint 50)]))"
  by (simp add: activity_issues_def activity_items_def list_all_iff useIssues_def query_of_def)

end
