(* ===== verification/Async.thy ===== *)
theory Async imports Prelude begin

text \<open>
  Components that ask and show the last answer to arrive. The locale states what such a component
  promises of its steps when answers arrive in the order of the questions, and proves that with no
  question open it shows the answer to what is wanted. Nothing in the browser promises that order.
\<close>

text \<open>
  \<open>requests\<close> are the open questions, oldest first; \<open>wanted\<close> is the question the component's
  inputs stand for once it has been asked, \<open>None\<close> while it has not; \<open>shows\<close> says that the state
  shows the answer to a question.
\<close>

locale latest_request =
  fixes step :: "'s \<Rightarrow> 's \<Rightarrow> bool"
    and requests :: "'s \<Rightarrow> 'k list"
    and wanted :: "'s \<Rightarrow> 'k option"
    and shows_answer :: "'s \<Rightarrow> 'k \<Rightarrow> bool"
  assumes step_cases: "step s s' \<Longrightarrow>
      (\<exists>k. requests s' = requests s @ [k] \<and> (wanted s' = None \<or> wanted s' = Some k))
    \<or> (\<exists>k. requests s = k # requests s' \<and> shows_answer s' k \<and> (wanted s' = None \<or> wanted s' = wanted s))
    \<or> (requests s' = requests s \<and> wanted s' = None)
    \<or> (requests s' = requests s \<and> wanted s' = wanted s \<and> (\<forall>k. shows_answer s k \<longrightarrow> shows_answer s' k))"
begin

definition up_to_date :: "'s \<Rightarrow> bool" where
  "up_to_date s \<longleftrightarrow>
     (\<forall>k. wanted s = Some k \<longrightarrow>
        (requests s = [] \<longrightarrow> shows_answer s k) \<and> (requests s \<noteq> [] \<longrightarrow> last (requests s) = k))"

lemma up_to_date_step: "step s s' \<Longrightarrow> up_to_date s \<Longrightarrow> up_to_date s'"
  using step_cases[of s s'] by (fastforce simp: up_to_date_def split: if_splits)

lemma up_to_date_shows:
  "up_to_date s \<Longrightarrow> requests s = [] \<Longrightarrow> wanted s = Some k \<Longrightarrow> shows_answer s k"
  by (simp add: up_to_date_def)

end

end
