(* ===== verification/AuthContext.thy ===== *)
theory AuthContext imports Async begin

text \<open>
  Who is logged in and with which token: src/frontend/src/types/auth.ts (roles and the views they
  may open), src/frontend/src/lib/devAuth.ts (the users of the roles and the claims of a token; the
  signature is the browser's) and the provider src/frontend/src/contexts/AuthContext.tsx. A token
  is its claims; making one is asynchronous, so the provider's open calls are part of the state.
\<close>

datatype user_role = Role_staff | Role_member | Role_employer | Role_vendor | Role_admin

datatype view_mode =
    Vm_staff
  | Vm_portal
  | Vm_workspace
  | Vm_crm
  | Vm_employer
  | Vm_employer_ops
  | Vm_vendor
  | Vm_retirement_app
  | Vm_member_dashboard
  | Vm_rules_explorer
  | Vm_demo_cases
  | Vm_migration_management

fun ROLE_ACCESS :: "user_role \<Rightarrow> view_mode list" where
  "ROLE_ACCESS Role_admin =
     [Vm_staff, Vm_portal, Vm_workspace, Vm_crm, Vm_employer, Vm_employer_ops, Vm_vendor,
      Vm_retirement_app, Vm_member_dashboard, Vm_rules_explorer, Vm_demo_cases, Vm_migration_management]"
| "ROLE_ACCESS Role_staff =
     [Vm_staff, Vm_portal, Vm_workspace, Vm_crm, Vm_retirement_app, Vm_member_dashboard, Vm_employer,
      Vm_employer_ops, Vm_vendor, Vm_rules_explorer, Vm_demo_cases, Vm_migration_management]"
| "ROLE_ACCESS Role_member = [Vm_portal, Vm_member_dashboard]"
| "ROLE_ACCESS Role_employer = [Vm_employer]"
| "ROLE_ACCESS Role_vendor = [Vm_vendor]"

fun ROLE_DEFAULT_VIEW :: "user_role \<Rightarrow> view_mode" where
  "ROLE_DEFAULT_VIEW Role_admin = Vm_staff"
| "ROLE_DEFAULT_VIEW Role_staff = Vm_staff"
| "ROLE_DEFAULT_VIEW Role_member = Vm_portal"
| "ROLE_DEFAULT_VIEW Role_employer = Vm_employer"
| "ROLE_DEFAULT_VIEW Role_vendor = Vm_vendor"

definition hasAccess :: "user_role \<Rightarrow> view_mode \<Rightarrow> bool" where
  "hasAccess role viewMode \<longleftrightarrow> viewMode \<in> set (ROLE_ACCESS role)"

record auth_user =
  au_id :: string
  au_tenantId :: string
  au_role :: user_role
  au_name :: string
  au_memberId :: "nat option"

definition dev_user :: "string \<Rightarrow> user_role \<Rightarrow> string \<Rightarrow> nat option \<Rightarrow> auth_user" where
  "dev_user i role name memberId =
     \<lparr>au_id = i, au_tenantId = ''00000000-0000-0000-0000-000000000001'', au_role = role,
      au_name = name, au_memberId = memberId\<rparr>"

definition DEV_USERS :: "(string, auth_user) table" where
  "DEV_USERS =
     [(''staff'', dev_user ''dev-staff-001'' Role_staff ''Dev Staff User'' None),
      (''admin'', dev_user ''dev-admin-001'' Role_admin ''Dev Admin'' None),
      (''member'', dev_user ''dev-member-active-near'' Role_member ''Robert Martinez'' (Some 10001)),
      (''employer'', dev_user ''dev-employer-001'' Role_employer ''Dev Employer'' None),
      (''vendor'', dev_user ''dev-vendor-001'' Role_vendor ''Dev Vendor'' None)]"

text \<open>\<open>DEV_USERS[role] || DEV_USERS.staff\<close>.\<close>

definition user_for :: "string \<Rightarrow> auth_user" where
  "user_for role = coalesce (map_of DEV_USERS role) (the (map_of DEV_USERS ''staff''))"

fun role_name :: "user_role \<Rightarrow> string" where
  "role_name Role_staff = ''staff''"
| "role_name Role_member = ''member''"
| "role_name Role_employer = ''employer''"
| "role_name Role_vendor = ''vendor''"
| "role_name Role_admin = ''admin''"

record token_claims =
  tc_sub :: string
  tc_tenant_id :: string
  tc_role :: string
  tc_member_id :: string
  tc_exp :: nat

text \<open>The payload of a token made at \<open>now\<close> (milliseconds). A member id of 0 prints as none.\<close>

definition generateDevToken :: "auth_user \<Rightarrow> nat \<Rightarrow> token_claims" where
  "generateDevToken user now =
     \<lparr>tc_sub = au_id user, tc_tenant_id = au_tenantId user, tc_role = role_name (au_role user),
      tc_member_id = (case au_memberId user of
          None \<Rightarrow> [] | Some n \<Rightarrow> if n = 0 then [] else nat_to_base 10 n),
      tc_exp = now div 1000 + 86400\<rparr>"

subsection \<open>The provider\<close>

record auth_state =
  ax_user :: auth_user
  ax_token :: "token_claims option"
  ax_api_token :: "token_claims option"
  ax_refresher :: "auth_user option"
  ax_pending :: "auth_user list"
  ax_stored :: "string option"

text \<open>The two effects on the user: ask for a token, and register the refresher for this user.\<close>

definition user_effects :: "auth_state \<Rightarrow> auth_state" where
  "user_effects s = s\<lparr>ax_pending := ax_pending s @ [ax_user s], ax_refresher := Some (ax_user s)\<rparr>"

definition auth_mount :: "string option \<Rightarrow> auth_state" where
  "auth_mount stored =
     (let savedRole = (if stored = None \<or> stored = Some [] then ''staff'' else the stored) in
      user_effects
        \<lparr>ax_user = user_for savedRole, ax_token = None, ax_api_token = None, ax_refresher = None,
         ax_pending = [], ax_stored = stored\<rparr>)"

text \<open>Setting the user that is already there renders nothing.\<close>

definition switchRole :: "string \<Rightarrow> auth_state \<Rightarrow> auth_state" where
  "switchRole role s =
     (let s' = s\<lparr>ax_stored := Some role\<rparr> in
      if user_for role = ax_user s then s' else user_effects (s'\<lparr>ax_user := user_for role\<rparr>))"

text \<open>The request core meets a 401 and calls the registered refresher.\<close>

definition refresh_call :: "auth_state \<Rightarrow> auth_state" where
  "refresh_call s =
     (case ax_refresher s of None \<Rightarrow> s | Some u \<Rightarrow> s\<lparr>ax_pending := ax_pending s @ [u]\<rparr>)"

text \<open>The open call at position \<open>i\<close> resolves: \<open>setToken\<close> and \<open>setAuthToken\<close>.\<close>

definition token_arrives :: "nat \<Rightarrow> nat \<Rightarrow> auth_state \<Rightarrow> auth_state" where
  "token_arrives i now s =
     (let t = generateDevToken (ax_pending s ! i) now in
      s\<lparr>ax_token := Some t, ax_api_token := Some t,
        ax_pending := take i (ax_pending s) @ drop (i + 1) (ax_pending s)\<rparr>)"

definition canAccess :: "auth_state \<Rightarrow> view_mode \<Rightarrow> bool" where
  "canAccess s viewMode \<longleftrightarrow> hasAccess (au_role (ax_user s)) viewMode"

definition shows_children :: "auth_state \<Rightarrow> bool" where
  "shows_children s \<longleftrightarrow> ax_token s \<noteq> None"

inductive auth_step :: "bool \<Rightarrow> auth_state \<Rightarrow> auth_state \<Rightarrow> bool" for ordered where
  role_switched: "auth_step ordered s (switchRole role s)"
| token_refreshed: "auth_step ordered s (refresh_call s)"
| token_arrived: "i < length (ax_pending s) \<Longrightarrow> ordered \<longrightarrow> i = 0 \<Longrightarrow>
    auth_step ordered s (token_arrives i now s)"

inductive auth_reachable :: "bool \<Rightarrow> auth_state \<Rightarrow> bool" for ordered where
  auth_start: "auth_reachable ordered (auth_mount stored)"
| auth_next: "auth_reachable ordered s \<Longrightarrow> auth_step ordered s s' \<Longrightarrow> auth_reachable ordered s'"

definition token_of_user :: "auth_state \<Rightarrow> auth_user \<Rightarrow> bool" where
  "token_of_user s u \<longleftrightarrow>
     (\<exists>now. ax_token s = Some (generateDevToken u now) \<and> ax_api_token s = ax_token s)"

definition auth_wanted :: "auth_state \<Rightarrow> auth_user option" where
  "auth_wanted s = Some (ax_user s)"

definition ordered_auth :: "auth_state \<Rightarrow> auth_state \<Rightarrow> bool" where
  "ordered_auth s s' \<longleftrightarrow> ax_refresher s = Some (ax_user s) \<and> auth_step True s s'"

interpretation auth: latest_request ordered_auth ax_pending auth_wanted token_of_user
proof unfold_locales
  fix s s'
  assume "ordered_auth s s'"
  then have r: "ax_refresher s = Some (ax_user s)" and "auth_step True s s'"
    by (simp_all add: ordered_auth_def)
  from this(2) show "(\<exists>k. ax_pending s' = ax_pending s @ [k] \<and> (auth_wanted s' = None \<or> auth_wanted s' = Some k))
    \<or> (\<exists>k. ax_pending s = k # ax_pending s' \<and> token_of_user s' k
        \<and> (auth_wanted s' = None \<or> auth_wanted s' = auth_wanted s))
    \<or> (ax_pending s' = ax_pending s \<and> auth_wanted s' = None)
    \<or> (ax_pending s' = ax_pending s \<and> auth_wanted s' = auth_wanted s
        \<and> (\<forall>k. token_of_user s k \<longrightarrow> token_of_user s' k))"
  proof (cases rule: auth_step.cases)
    case (role_switched role)
    then show ?thesis
      by (auto simp: switchRole_def user_effects_def auth_wanted_def token_of_user_def Let_def)
  next
    case token_refreshed
    then show ?thesis using r by (simp add: refresh_call_def auth_wanted_def)
  next
    case (token_arrived i now)
    then show ?thesis
      by (cases "ax_pending s") (auto simp: token_arrives_def auth_wanted_def token_of_user_def Let_def)
  qed
qed

lemma auth_refresher_step:
  "auth_step ordered s s' \<Longrightarrow> ax_refresher s = Some (ax_user s) \<Longrightarrow> ax_refresher s' = Some (ax_user s')"
  by (induction rule: auth_step.induct)
    (auto simp: switchRole_def user_effects_def refresh_call_def token_arrives_def Let_def)

lemma ordered_auth_inv:
  "auth_reachable True s \<Longrightarrow> ax_refresher s = Some (ax_user s) \<and> auth.up_to_date s"
proof (induction rule: auth_reachable.induct)
  case (auth_start stored)
  show ?case unfolding auth.up_to_date_def
    by (simp add: auth_mount_def user_effects_def auth_wanted_def Let_def)
next
  case (auth_next s s')
  then show ?case
    using auth.up_to_date_step[of s s'] by (simp add: ordered_auth_def auth_refresher_step)
qed

subsection \<open>Properties\<close>

text \<open>
  C22: If tokens arrive in the order they were asked for, then with none outstanding the requests
  carry a token of the user the pages show, whose claims name that user's id and role; refreshes
  after a 401 change nothing of it.
\<close>

theorem token_follows_user:
  assumes "auth_reachable True s" "ax_pending s = []"
  shows "\<exists>t. ax_api_token s = Some t \<and> ax_token s = Some t
     \<and> tc_sub t = au_id (ax_user s) \<and> tc_role t = role_name (au_role (ax_user s))"
proof -
  have "token_of_user s (ax_user s)"
    using ordered_auth_inv[OF assms(1)] assms(2) auth.up_to_date_shows[of s] by (simp add: auth_wanted_def)
  then show ?thesis by (auto simp: token_of_user_def generateDevToken_def)
qed

theorem token_follows_user_witness:
  "\<exists>t. ax_api_token (token_arrives 0 0 (auth_mount (Some ''member''))) = Some t
     \<and> tc_sub t = ''dev-member-active-near''"
proof -
  have "auth_reachable True (token_arrives 0 0 (auth_mount (Some ''member'')))"
    by (rule auth_next[OF auth_start token_arrived])
      (simp_all add: auth_mount_def user_effects_def Let_def)
  moreover have "ax_pending (token_arrives 0 0 (auth_mount (Some ''member''))) = []"
    "ax_user (token_arrives 0 0 (auth_mount (Some ''member''))) = user_for ''member''"
    by (simp_all add: token_arrives_def auth_mount_def user_effects_def Let_def)
  ultimately show ?thesis
    using token_follows_user[of "token_arrives 0 0 (auth_mount (Some ''member''))"]
    by (auto simp: user_for_def DEV_USERS_def dev_user_def)
qed

text \<open>
  Nothing makes them arrive in that order: after a switch from one role to another the
  application can come to rest with the pages of the second role and every request carrying the
  token of the first.
\<close>

theorem role_switch_keeps_old_token:
  assumes "r1 \<noteq> r2"
  shows "\<exists>s t. auth_reachable False s \<and> ax_pending s = [] \<and> shows_children s
     \<and> au_role (ax_user s) = r2 \<and> ax_api_token s = Some t \<and> tc_role t = role_name r1
     \<and> (\<forall>v. canAccess s v = hasAccess r2 v)"
proof -
  have role: "au_role (user_for (role_name r)) = r" "role_name r \<noteq> []" for r
    by (cases r; simp add: user_for_def DEV_USERS_def dev_user_def)+
  have neq: "user_for (role_name r2) \<noteq> user_for (role_name r1)"
    using role assms by metis
  let ?a = "auth_mount (Some (role_name r1))"
  let ?b = "switchRole (role_name r2) ?a"
  let ?c = "token_arrives 1 0 ?b"
  let ?d = "token_arrives 0 0 ?c"
  have a: "ax_user ?a = user_for (role_name r1)" "ax_pending ?a = [user_for (role_name r1)]"
    by (simp_all add: auth_mount_def user_effects_def role Let_def)
  have b: "ax_user ?b = user_for (role_name r2)"
    "ax_pending ?b = [user_for (role_name r1), user_for (role_name r2)]"
    using a neq by (simp_all add: switchRole_def user_effects_def Let_def)
  have c: "ax_user ?c = user_for (role_name r2)" "ax_pending ?c = [user_for (role_name r1)]"
    using b by (simp_all add: token_arrives_def Let_def)
  have "auth_reachable False ?b" by (rule auth_next[OF auth_start role_switched])
  then have "auth_reachable False ?c" by (rule auth_next) (rule token_arrived, use b in simp_all)
  then have "auth_reachable False ?d" by (rule auth_next) (rule token_arrived, use c in simp_all)
  moreover have "ax_pending ?d = []" "ax_user ?d = user_for (role_name r2)" "shows_children ?d"
    "ax_api_token ?d = Some (generateDevToken (user_for (role_name r1)) 0)"
    using c by (simp_all add: token_arrives_def[of 0] shows_children_def Let_def)
  moreover have "tc_role (generateDevToken (user_for (role_name r1)) 0) = role_name r1"
    by (simp add: generateDevToken_def role)
  ultimately show ?thesis using role by (auto simp: canAccess_def)
qed

theorem role_switch_keeps_old_token_witness:
  "\<exists>s t. auth_reachable False s \<and> au_role (ax_user s) = Role_member
     \<and> ax_api_token s = Some t \<and> tc_role t = ''admin''"
  using role_switch_keeps_old_token[of Role_admin Role_member] by auto

end
