(* ===== verification/Formatters.thy ===== *)
theory Formatters imports JsDate begin

text \<open>
  How numbers and dates become text: the parts of \<open>toFixed\<close>, \<open>Intl.NumberFormat\<close> and
  \<open>toLocaleDateString\<close> (en-US) the client uses, and src/frontend/src/lib/formatters.ts. A number is
  a real, rounded as the library rounds it (halves away from zero); a text that is no date prints
  as the library prints it.
\<close>

subsection \<open>Numbers\<close>

definition is_digit :: "char \<Rightarrow> bool" where
  "is_digit c \<longleftrightarrow> 48 \<le> (of_char c :: nat) \<and> (of_char c :: nat) \<le> 57"

text \<open>\<open>parseInt(text, 10)\<close>: leading white space, a sign, then as many digits as there are.\<close>

definition parseInt :: "string \<Rightarrow> int option" where
  "parseInt s =
     (let t = dropWhile is_space s;
          neg = (take 1 t = ''-'');
          u = (if neg \<or> take 1 t = ''+'' then drop 1 t else t)
      in map_option (\<lambda>n. if neg then - int n else int n) (digits_of (takeWhile is_digit u)))"

text \<open>\<open>Math.round\<close>: halves go up.\<close>

definition js_round :: "number \<Rightarrow> int" where
  "js_round x = \<lfloor>x + 1/2\<rfloor>"

text \<open>A non-negative number in units of \<open>10 ^ -d\<close>.\<close>

definition scaled :: "nat \<Rightarrow> number \<Rightarrow> nat" where
  "scaled d x = nat \<lfloor>x * 10 ^ d + 1/2\<rfloor>"

definition zero_pad :: "nat \<Rightarrow> nat \<Rightarrow> string" where
  "zero_pad d n = replicate (d - length (nat_str n)) (CHR ''0'') @ nat_str n"

definition fraction_text :: "nat \<Rightarrow> nat \<Rightarrow> string" where
  "fraction_text d n = (if d = 0 then [] else CHR ''.'' # zero_pad d (n mod 10 ^ d))"

definition sign_text :: "number \<Rightarrow> string" where
  "sign_text x = (if x < 0 then ''-'' else [])"

definition toFixed :: "nat \<Rightarrow> number \<Rightarrow> string" where
  "toFixed d x =
     (let n = scaled d \<bar>x\<bar> in sign_text x @ nat_str (n div 10 ^ d) @ fraction_text d n)"

fun group_thousands :: "nat \<Rightarrow> string" where
  "group_thousands n =
     (if n < 1000 then nat_str n
      else group_thousands (n div 1000) @ CHR '','' # zero_pad 3 (n mod 1000))"

declare group_thousands.simps [simp del]

text \<open>\<open>toLocaleString('en-US')\<close> with a fixed number of decimals, plain and as an amount of dollars.\<close>

definition locale_number :: "nat \<Rightarrow> number \<Rightarrow> string" where
  "locale_number d x =
     (let n = scaled d \<bar>x\<bar> in sign_text x @ group_thousands (n div 10 ^ d) @ fraction_text d n)"

definition locale_currency :: "nat \<Rightarrow> number \<Rightarrow> string" where
  "locale_currency d x =
     (let n = scaled d \<bar>x\<bar> in
      sign_text x @ ''$'' @ group_thousands (n div 10 ^ d) @ fraction_text d n)"

text \<open>
  \<open>String(x)\<close>: the decimal expansion when it ends within 17 places (what a sum of amounts or of
  months has), else 17 places.
\<close>

definition decimals_of :: "number \<Rightarrow> nat" where
  "decimals_of x =
     (case List.find (\<lambda>k. of_int \<lfloor>x * 10 ^ k\<rfloor> = x * 10 ^ k) [0..<17] of None \<Rightarrow> 17 | Some k \<Rightarrow> k)"

definition number_text :: "number \<Rightarrow> string" where
  "number_text x = (if x = 0 then ''0'' else toFixed (decimals_of x) x)"

subsection \<open>Dates\<close>

definition MONTH_NAMES :: "string list" where
  "MONTH_NAMES = [''January'', ''February'', ''March'', ''April'', ''May'', ''June'', ''July'',
     ''August'', ''September'', ''October'', ''November'', ''December'']"

text \<open>Year, month (from 1) and day of month of a calendar day.\<close>

definition ymd :: "int \<Rightarrow> int \<times> nat \<times> nat" where
  "ymd n =
     (let y = year_of_day n in
      case month_day (month_lengths y) (n - day_from_year y) 1 of (m, d) \<Rightarrow> (y, m, nat d + 1))"

definition month_name :: "nat \<Rightarrow> string" where
  "month_name m = MONTH_NAMES ! (m - 1)"

definition month_short :: "nat \<Rightarrow> string" where
  "month_short m = take 3 (month_name m)"

text \<open>The code's way to read a date: a text without a time is taken as a local midnight.\<close>

definition date_arg :: "string \<Rightarrow> string" where
  "date_arg s = (if includes_str s ''T'' then s else s @ ''T00:00:00'')"

definition day_text :: "(int \<times> nat \<times> nat \<Rightarrow> string) \<Rightarrow> time_zone \<Rightarrow> int option \<Rightarrow> string" where
  "day_text f tz t = (case t of None \<Rightarrow> ''Invalid Date'' | Some t \<Rightarrow> f (ymd (local_day tz t)))"

definition long_day :: "int \<times> nat \<times> nat \<Rightarrow> string" where
  "long_day = (\<lambda>(y, m, d). month_name m @ '' '' @ nat_str d @ '', '' @ int_str y)"

definition medium_day :: "int \<times> nat \<times> nat \<Rightarrow> string" where
  "medium_day = (\<lambda>(y, m, d). month_short m @ '' '' @ nat_str d @ '', '' @ int_str y)"

definition short_day :: "int \<times> nat \<times> nat \<Rightarrow> string" where
  "short_day = (\<lambda>(y, m, d). month_short m @ '' '' @ nat_str d)"

definition month_year :: "int \<times> nat \<times> nat \<Rightarrow> string" where
  "month_year = (\<lambda>(y, m, d). month_short m @ '' '' @ int_str y)"

subsection \<open>lib/formatters.ts\<close>

definition formatCurrency :: "number \<Rightarrow> string" where
  "formatCurrency amount = locale_currency 2 amount"

definition formatPercent :: "number \<Rightarrow> nat \<Rightarrow> string" where
  "formatPercent value decimals = toFixed decimals value @ ''%''"

definition formatDate :: "time_zone \<Rightarrow> string \<Rightarrow> string" where
  "formatDate tz dateStr = day_text long_day tz (getTime tz (date_arg dateStr))"

definition formatDateShort :: "time_zone \<Rightarrow> string \<Rightarrow> string" where
  "formatDateShort tz dateStr = day_text medium_day tz (getTime tz (date_arg dateStr))"

definition whole_years :: "number \<Rightarrow> int" where
  "whole_years years = \<lfloor>years\<rfloor>"

definition months_of :: "number \<Rightarrow> int" where
  "months_of years = js_round ((years - of_int (whole_years years)) * 12)"

definition formatServiceYears :: "number \<Rightarrow> string" where
  "formatServiceYears years =
     (if months_of years = 0 then int_str (whole_years years) @ '' years''
      else int_str (whole_years years) @ '' yr '' @ int_str (months_of years) @ '' mo'')"

definition tierLabel :: "int \<Rightarrow> string" where
  "tierLabel tier = ''Tier '' @ int_str tier"

definition statusLabel :: "string \<Rightarrow> string" where
  "statusLabel code = or_str (map_of [(''A'', ''Active''), (''R'', ''Retired''), (''T'', ''Terminated''),
     (''D'', ''Deferred''), (''X'', ''Deceased'')] code) code"

definition eligibilityLabel :: "string \<Rightarrow> string" where
  "eligibilityLabel type = or_str (map_of [(''NORMAL'', ''Normal Retirement''),
     (''RULE_OF_75'', ''Rule of 75''), (''RULE_OF_85'', ''Rule of 85''), (''EARLY'', ''Early Retirement''),
     (''DEFERRED'', ''Deferred Retirement''), (''NONE'', ''Not Eligible'')] type) type"

subsection \<open>Amounts\<close>

lemma nat_str_small: "n < 10 \<Longrightarrow> nat_str n = [digit_char n]"
  by (simp add: nat_str_def nat_to_base_def digits_rev.simps)

lemma nat_str_step: "10 \<le> n \<Longrightarrow> nat_str n = nat_str (n div 10) @ [digit_char (n mod 10)]"
  by (simp add: nat_str_def nat_to_base_def digits_rev.simps[of 10 n])

lemma digit_char_digit: "d < 10 \<Longrightarrow> is_digit (digit_char d)"
  by (simp add: is_digit_def digit_char_code)

lemma nat_str_all_digits: "list_all is_digit (nat_str n)"
proof (induction n rule: less_induct)
  case (less n)
  then show ?case
    by (cases "n < 10") (simp_all add: nat_str_small nat_str_step digit_char_digit)
qed

text \<open>The number a text of digits stands for.\<close>

definition digits_value :: "string \<Rightarrow> nat" where
  "digits_value s = foldl (\<lambda>n c. 10 * n + (of_char c - 48)) 0 s"

lemma digits_value_snoc: "digits_value (s @ [c]) = 10 * digits_value s + (of_char c - 48)"
  by (simp add: digits_value_def)

lemma digits_value_nat_str: "digits_value (nat_str n) = n"
proof (induction n rule: less_induct)
  case (less n)
  show ?case
  proof (cases "n < 10")
    case True
    then show ?thesis by (simp add: nat_str_small digits_value_def digit_char_code)
  next
    case False
    then have "digits_value (nat_str n) = 10 * (n div 10) + n mod 10"
      using less by (simp add: nat_str_step digits_value_snoc digit_char_code)
    then show ?thesis by simp
  qed
qed

lemma digits_value_append: "digits_value (s @ t) = digits_value s * 10 ^ length t + digits_value t"
proof (induction t rule: rev_induct)
  case (snoc c t)
  have "digits_value (s @ t @ [c]) = 10 * digits_value (s @ t) + (of_char c - 48)"
    using digits_value_snoc[of "s @ t" c] by simp
  then show ?case using snoc by (simp add: digits_value_snoc algebra_simps)
qed (simp add: digits_value_def)

lemma digits_value_zeros: "digits_value (replicate k (CHR ''0'') @ s) = digits_value s"
proof -
  have "digits_value (replicate k (CHR ''0'')) = 0"
    by (induction k) (simp_all add: digits_value_def replicate_append_same[symmetric] del: replicate_append_same)
  then show ?thesis by (simp add: digits_value_append)
qed

lemma length_nat_str: "n < 10 ^ d \<Longrightarrow> 0 < d \<Longrightarrow> length (nat_str n) \<le> d"
proof (induction d arbitrary: n)
  case (Suc d)
  show ?case
  proof (cases "n < 10")
    case False
    then have "n div 10 < 10 ^ d" "0 < d" using Suc.prems(1)
      by (auto simp: less_mult_imp_div_less mult.commute intro: Suc_leI) (cases d; simp)
    then show ?thesis using Suc.IH[of "n div 10"] False by (simp add: nat_str_step)
  qed (simp add: nat_str_small)
qed simp

lemma zero_pad_value: "digits_value (zero_pad d n) = n"
  by (simp add: zero_pad_def digits_value_zeros digits_value_nat_str)

lemma zero_pad_length: "n < 10 ^ d \<Longrightarrow> 0 < d \<Longrightarrow> length (zero_pad d n) = d"
  using length_nat_str[of n d] by (simp add: zero_pad_def)

lemma zero_pad_digits: "list_all is_digit (zero_pad d n)"
  using nat_str_all_digits[of n] by (simp add: zero_pad_def list_all_length is_digit_def nth_append)

lemma filter_digits: "list_all is_digit s \<Longrightarrow> filter is_digit s = s"
  by (induction s) auto

lemma group_value: "digits_value (filter is_digit (group_thousands n)) = n"
proof (induction n rule: group_thousands.induct)
  case (1 n)
  show ?case
  proof (cases "n < 1000")
    case True
    then show ?thesis
      by (simp add: group_thousands.simps filter_digits nat_str_all_digits digits_value_nat_str)
  next
    case False
    have "filter is_digit (group_thousands n) =
        filter is_digit (group_thousands (n div 1000)) @ zero_pad 3 (n mod 1000)"
      using False by (simp add: group_thousands.simps[of n] filter_digits zero_pad_digits is_digit_def)
    moreover have "n mod 1000 < 10 ^ 3" by simp
    ultimately have "digits_value (filter is_digit (group_thousands n)) = n div 1000 * 1000 + n mod 1000"
      using 1 False zero_pad_length[of "n mod 1000" 3]
      by (simp add: digits_value_append zero_pad_value)
    then show ?thesis by simp
  qed
qed

lemma currency_value:
  "0 < d \<Longrightarrow> digits_value (filter is_digit (locale_currency d x)) = scaled d \<bar>x\<bar>"
proof -
  assume d: "0 < d"
  let ?n = "scaled d \<bar>x\<bar>"
  have "filter is_digit (locale_currency d x) =
      filter is_digit (group_thousands (?n div 10 ^ d)) @ zero_pad d (?n mod 10 ^ d)"
    using d by (simp add: locale_currency_def Let_def sign_text_def fraction_text_def is_digit_def)
      (simp add: filter_digits zero_pad_digits is_digit_def[symmetric, abs_def])
  then have "digits_value (filter is_digit (locale_currency d x)) = ?n div 10 ^ d * 10 ^ d + ?n mod 10 ^ d"
    using d by (simp add: digits_value_append group_value zero_pad_value zero_pad_length)
  then show ?thesis by (simp only: div_mult_mod_eq)
qed

lemma scaled_close: "0 \<le> x \<Longrightarrow> \<bar>real (scaled d x) - x * 10 ^ d\<bar> \<le> 1/2"
proof -
  assume "0 \<le> x"
  then have "0 \<le> \<lfloor>x * 10 ^ d + 1/2\<rfloor>" by simp
  then have "real (scaled d x) = of_int \<lfloor>x * 10 ^ d + 1/2\<rfloor>" by (simp add: scaled_def)
  then show ?thesis
    using of_int_floor_le[of "x * 10 ^ d + 1/2"] floor_correct[of "x * 10 ^ d + 1/2"]
    unfolding abs_le_iff by linarith
qed

lemma scaled_exact: "scaled d (real k / 10 ^ d) = k"
proof -
  have "real k / 10 ^ d * 10 ^ d + 1/2 = of_int (int k) + 1/2" by simp
  moreover have "\<lfloor>of_int (int k) + 1/2 :: real\<rfloor> = int k" by linarith
  ultimately show ?thesis by (simp add: scaled_def)
qed


subsection \<open>Service and dates\<close>

text \<open>
  The months of a service text are between 0 and 12, and 12 months are printed instead of
  another year from 11 and a half months on: 9.97 years of service read 9 yr 12 mo.
\<close>

theorem service_months:
  "0 \<le> months_of years \<and> months_of years \<le> 12
 \<and> (months_of years = 12 \<longleftrightarrow> 23/24 \<le> years - of_int \<lfloor>years\<rfloor>)
 \<and> formatServiceYears (997/100) = ''9 yr 12 mo''"
proof (intro conjI)
  define f where "f = years - of_int \<lfloor>years\<rfloor>"
  have f: "0 \<le> f" "f < 1" unfolding f_def using floor_correct[of years] by linarith+
  have m: "months_of years = \<lfloor>f * 12 + 1/2\<rfloor>"
    by (simp add: months_of_def js_round_def whole_years_def f_def)
  show "0 \<le> months_of years" unfolding m using f by simp
  show "months_of years \<le> 12" unfolding m floor_le_iff using f by simp
  show "months_of years = 12 \<longleftrightarrow> 23/24 \<le> years - of_int \<lfloor>years\<rfloor>"
    unfolding m f_def[symmetric] floor_eq_iff using f by auto
  have "\<lfloor>997/100 :: real\<rfloor> = 9" by linarith
  moreover have "months_of (997/100) = 12" unfolding months_of_def js_round_def whole_years_def calculation floor_eq_iff
    by simp
  ultimately show "formatServiceYears (997/100) = ''9 yr 12 mo''"
    by (simp add: formatServiceYears_def whole_years_def int_str_def nat_str_def nat_to_base_def
        digits_rev.simps digit_char_def char_of_def bit_0)
qed

definition zone_round_trips :: "time_zone \<Rightarrow> bool" where
  "zone_round_trips tz \<longleftrightarrow> (\<forall>l. tz_local tz (tz_utc tz l) = l)"

lemma includes_char: "includes_str s [c] \<longleftrightarrow> c \<in> set s"
  by (induction s) (auto simp: starts_with_def)

lemma digits_of_chars: "digits_of s = Some n \<Longrightarrow> c \<in> set s \<Longrightarrow> is_digit c"
  by (auto simp: digits_of_def is_digit_def list_all_iff split: if_splits)

lemma no_T_in_day: "parse_day s = Some n \<Longrightarrow> \<not> includes_str s ''T''"
proof
  assume p: "parse_day s = Some n" and "includes_str s ''T''"
  then have "CHR ''T'' \<in> set s" by (simp add: includes_char)
  moreover from p obtain y m d where s: "length s = 10" "s ! 4 = CHR ''-''" "s ! 7 = CHR ''-''"
    "digits_of (take 4 s) = Some y" "digits_of (take 2 (drop 5 s)) = Some m" "digits_of (drop 8 s) = Some d"
    by (auto simp: parse_day_def two_digits_def split: if_splits option.splits)
  ultimately obtain i where i: "i < 10" "s ! i = CHR ''T''" by (auto simp: in_set_conv_nth)
  have "\<not> is_digit (CHR ''T'')" by (simp add: is_digit_def)
  moreover have "i < 4 \<Longrightarrow> s ! i \<in> set (take 4 s)" using s(1) by (auto simp: in_set_conv_nth)
  moreover have "5 \<le> i \<Longrightarrow> i < 7 \<Longrightarrow> s ! i \<in> set (take 2 (drop 5 s))"
    using s(1) by (auto simp: in_set_conv_nth intro!: exI[of _ "i - 5"])
  moreover have "8 \<le> i \<Longrightarrow> s ! i \<in> set (drop 8 s)"
    using s(1) i(1) by (auto simp: in_set_conv_nth intro!: exI[of _ "i - 8"])
  moreover have "i < 4 \<or> i = 4 \<or> 5 \<le> i \<and> i < 7 \<or> i = 7 \<or> 8 \<le> i" using i(1) by linarith
  ultimately show False
    using s i(2) digits_of_chars by (elim disjE) (auto dest: digits_of_chars)
qed

lemma shown_day:
  assumes "parse_day s = Some n" "zone_round_trips tz"
  shows "day_text f tz (getTime tz (date_arg s)) = f (ymd n)"
  using assms getTime_midnight[OF assms(1), of tz] no_T_in_day[OF assms(1)]
  by (simp add: date_arg_def day_text_def local_day_def zone_round_trips_def MS_DAY_def)

end
