(* ===== verification/AppShell.thy ===== *)
theory AppShell imports AuthContext Formatters Machine "HOL-Library.Multiset" begin

text \<open>
  The top of the client: src/frontend/src/App.tsx (which view shows, the navigation between the
  views, the agent workspace's controls) and components/CommandPalette.tsx. The state is the hooks
  of \<open>AppInner\<close> with the role of the current user; what each view does inside is the matter of the
  other theories.
\<close>

subsection \<open>Numbers and dates of the workspace\<close>

text \<open>\<open>setFullYear\<close>: the local month, day and time of day stay; a day past the month's end runs over.\<close>

definition setFullYear :: "time_zone \<Rightarrow> int \<Rightarrow> int \<Rightarrow> int" where
  "setFullYear tz t y =
     (let l = tz_local tz t; n = l div MS_DAY; y0 = year_of_day n in
      case month_day (month_lengths y0) (n - day_from_year y0) 1 of
        (m, d) \<Rightarrow> tz_utc tz (MS_DAY * day_number y m (nat d + 1) + l mod MS_DAY))"

text \<open>An invalid date makes \<open>toISOString\<close> throw (\<open>None\<close>).\<close>

definition addYears :: "time_zone \<Rightarrow> string \<Rightarrow> int \<Rightarrow> string option" where
  "addYears tz dateStr years =
     map_option (\<lambda>t. iso_day (setFullYear tz t (getFullYear tz t + years) div MS_DAY))
       (getTime tz (dateStr @ ''T00:00:00''))"

subsection \<open>The state\<close>

datatype workspace_tab = Tab_summary | Tab_detail | Tab_options | Tab_history

record app_shell =
  sh_role :: user_role
  sh_viewMode :: view_mode
  sh_memberID :: int
  sh_retirementDate :: string
  sh_memberIDInput :: string
  sh_paletteOpen :: bool
  sh_query :: string
  sh_selectedIdx :: int
  sh_activeCaseId :: string
  sh_caseMemberId :: int
  sh_caseRetDate :: string
  sh_caseFlags :: "string list"
  sh_caseDroId :: "int option"
  sh_dashboardMemberId :: int
  sh_crmInitialMemberId :: "int option"
  sh_crmBackView :: "view_mode option"
  sh_selectedRuleId :: "string option"
  sh_selectedCaseId :: "string option"
  sh_workspaceTab :: workspace_tab

definition shell_mount :: "user_role \<Rightarrow> app_shell" where
  "shell_mount role =
     \<lparr>sh_role = role, sh_viewMode = ROLE_DEFAULT_VIEW role, sh_memberID = 10001,
      sh_retirementDate = ''2026-04-01'', sh_memberIDInput = ''10001'', sh_paletteOpen = False,
      sh_query = [], sh_selectedIdx = 0, sh_activeCaseId = [], sh_caseMemberId = 10001,
      sh_caseRetDate = ''2026-04-01'', sh_caseFlags = [], sh_caseDroId = None,
      sh_dashboardMemberId = 0, sh_crmInitialMemberId = None, sh_crmBackView = None,
      sh_selectedRuleId = None, sh_selectedCaseId = None, sh_workspaceTab = Tab_summary\<rparr>"

text \<open>The view that shows: a view the role may not open gives way to the role's default.\<close>

definition effectiveViewMode :: "app_shell \<Rightarrow> view_mode" where
  "effectiveViewMode s =
     (if hasAccess (sh_role s) (sh_viewMode s) then sh_viewMode s else ROLE_DEFAULT_VIEW (sh_role s))"

subsection \<open>The navigation\<close>

definition handleOpenCase ::
  "string \<Rightarrow> int \<Rightarrow> string \<Rightarrow> string list option \<Rightarrow> int option \<Rightarrow> app_shell \<Rightarrow> app_shell" where
  "handleOpenCase caseId memberId retDate flags droId s =
     (if \<not> hasAccess (sh_role s) Vm_retirement_app then s
      else s\<lparr>sh_activeCaseId := caseId, sh_caseMemberId := memberId, sh_caseRetDate := retDate,
             sh_caseFlags := coalesce flags [], sh_caseDroId := droId,
             sh_viewMode := Vm_retirement_app\<rparr>)"

definition handleViewMember :: "int \<Rightarrow> app_shell \<Rightarrow> app_shell" where
  "handleViewMember memberId s =
     (if \<not> hasAccess (sh_role s) Vm_member_dashboard then s
      else s\<lparr>sh_dashboardMemberId := memberId, sh_viewMode := Vm_member_dashboard\<rparr>)"

definition handleChangeView :: "view_mode \<Rightarrow> int option \<Rightarrow> app_shell \<Rightarrow> app_shell" where
  "handleChangeView mode memberId s =
     (if \<not> hasAccess (sh_role s) mode then s
      else s\<lparr>sh_viewMode := mode,
             sh_crmInitialMemberId := (if mode = Vm_crm then memberId else None),
             sh_crmBackView := (if mode = Vm_crm then Some (sh_viewMode s) else None),
             sh_selectedRuleId := (if mode \<noteq> Vm_rules_explorer then None else sh_selectedRuleId s),
             sh_selectedCaseId := (if mode \<noteq> Vm_demo_cases then None else sh_selectedCaseId s)\<rparr>)"

definition handleNavigateToRule :: "string \<Rightarrow> app_shell \<Rightarrow> app_shell" where
  "handleNavigateToRule ruleId s =
     handleChangeView Vm_rules_explorer None (s\<lparr>sh_selectedRuleId := Some ruleId\<rparr>)"

definition handleNavigateToDemoCase :: "string \<Rightarrow> app_shell \<Rightarrow> app_shell" where
  "handleNavigateToDemoCase caseId s =
     handleChangeView Vm_demo_cases None (s\<lparr>sh_selectedCaseId := Some caseId\<rparr>)"

text \<open>The workspace of the CRM gets a way back only when a view was remembered.\<close>

definition crm_back :: "app_shell \<Rightarrow> app_shell" where
  "crm_back s = (case sh_crmBackView s of None \<Rightarrow> s | Some v \<Rightarrow> handleChangeView v None s)"

subsection \<open>The agent workspace\<close>

definition handleLookup :: "app_shell \<Rightarrow> app_shell" where
  "handleLookup s =
     (case parseInt (sh_memberIDInput s) of
        None \<Rightarrow> s | Some i \<Rightarrow> if i > 0 then s\<lparr>sh_memberID := i\<rparr> else s)"

record demo_case =
  dc_id :: int
  dc_name :: string
  dc_retDate :: string
  dc_label :: string

definition DEMO_CASES :: "demo_case list" where
  "DEMO_CASES =
     [\<lparr>dc_id = 10001, dc_name = ''Robert Martinez'', dc_retDate = ''2026-04-01'',
       dc_label = ''Case 1: Tier 1, Rule of 75''\<rparr>,
      \<lparr>dc_id = 10002, dc_name = ''Jennifer Kim'', dc_retDate = ''2026-05-01'',
       dc_label = ''Case 2: Tier 2, Early Retirement''\<rparr>,
      \<lparr>dc_id = 10003, dc_name = ''David Washington'', dc_retDate = ''2026-04-01'',
       dc_label = ''Case 3: Tier 3, Early Retirement''\<rparr>,
      \<lparr>dc_id = 10001, dc_name = ''Robert Martinez (DRO)'', dc_retDate = ''2026-04-01'',
       dc_label = ''Case 4: Tier 1, DRO''\<rparr>]"

definition pick_demo :: "demo_case \<Rightarrow> app_shell \<Rightarrow> app_shell" where
  "pick_demo dc s =
     s\<lparr>sh_memberID := dc_id dc, sh_memberIDInput := int_str (dc_id dc),
       sh_retirementDate := dc_retDate dc\<rparr>"

definition demo_highlighted :: "app_shell \<Rightarrow> demo_case list" where
  "demo_highlighted s =
     filter (\<lambda>dc. sh_memberID s = dc_id dc \<and> sh_retirementDate s = dc_retDate dc) DEMO_CASES"

definition scenarioDates :: "time_zone \<Rightarrow> app_shell \<Rightarrow> string option list" where
  "scenarioDates tz s = Some (sh_retirementDate s) # map (addYears tz (sh_retirementDate s)) [1, 2, 3]"

subsection \<open>Tabs and commands\<close>

definition nav_tabs :: "view_mode list" where
  "nav_tabs = [Vm_staff, Vm_portal, Vm_workspace, Vm_crm, Vm_employer, Vm_employer_ops,
     Vm_migration_management]"

definition visibleTabs :: "user_role \<Rightarrow> view_mode list" where
  "visibleTabs role = filter (hasAccess role) nav_tabs"

datatype command_action =
    Go_view view_mode
  | Go_case string int string "string list"

record palette_command =
  pc_id :: string
  pc_label :: string
  pc_category :: string
  pc_action :: command_action

definition palette_commands :: "palette_command list" where
  "palette_commands =
     [\<lparr>pc_id = ''search-member'', pc_label = ''Search Member'', pc_category = ''Navigation'',
       pc_action = Go_view Vm_staff\<rparr>,
      \<lparr>pc_id = ''open-queue'', pc_label = ''My Work Queue'', pc_category = ''Navigation'',
       pc_action = Go_view Vm_staff\<rparr>,
      \<lparr>pc_id = ''run-calc'', pc_label = ''Run Calculation'', pc_category = ''Actions'',
       pc_action = Go_view Vm_workspace\<rparr>,
      \<lparr>pc_id = ''open-crm'', pc_label = ''Open CRM'', pc_category = ''Navigation'',
       pc_action = Go_view Vm_crm\<rparr>,
      \<lparr>pc_id = ''member-portal'', pc_label = ''Member Portal'', pc_category = ''Navigation'',
       pc_action = Go_view Vm_portal\<rparr>,
      \<lparr>pc_id = ''employer-portal'', pc_label = ''Employer Portal'', pc_category = ''Navigation'',
       pc_action = Go_view Vm_employer\<rparr>,
      \<lparr>pc_id = ''vendor-portal'', pc_label = ''Vendor Portal'', pc_category = ''Navigation'',
       pc_action = Go_view Vm_vendor\<rparr>,
      \<lparr>pc_id = ''case-robert'', pc_label = ''Open Case: Robert Martinez'', pc_category = ''Cases'',
       pc_action = Go_case ''RET-2026-0147'' 10001 ''2026-04-01'' [''leave-payout'']\<rparr>,
      \<lparr>pc_id = ''case-jennifer'', pc_label = ''Open Case: Jennifer Kim'', pc_category = ''Cases'',
       pc_action = Go_case ''RET-2026-0152'' 10002 ''2026-05-01''
         [''early-retirement'', ''purchased-service'']\<rparr>]"

definition cmdViewMap :: "(string, view_mode) table" where
  "cmdViewMap =
     [(''search-member'', Vm_staff), (''open-queue'', Vm_staff), (''run-calc'', Vm_workspace),
      (''open-crm'', Vm_crm), (''member-portal'', Vm_portal), (''employer-portal'', Vm_employer),
      (''vendor-portal'', Vm_vendor), (''case-robert'', Vm_retirement_app),
      (''case-jennifer'', Vm_retirement_app)]"

definition filteredCommands :: "user_role \<Rightarrow> palette_command list" where
  "filteredCommands role =
     filter (\<lambda>cmd. case map_of cmdViewMap (pc_id cmd) of None \<Rightarrow> True | Some v \<Rightarrow> hasAccess role v)
       palette_commands"

fun run_command :: "command_action \<Rightarrow> app_shell \<Rightarrow> app_shell" where
  "run_command (Go_view v) s = handleChangeView v None s"
| "run_command (Go_case c m d fl) s = handleOpenCase c m d (Some fl) None s"

definition palette_matches :: "app_shell \<Rightarrow> palette_command list" where
  "palette_matches s =
     filter (\<lambda>c. includes_str (to_lower (pc_label c)) (to_lower (sh_query s))
               \<or> includes_str (to_lower (pc_category c)) (to_lower (sh_query s)))
       (filteredCommands (sh_role s))"

definition palette_categories :: "app_shell \<Rightarrow> string list" where
  "palette_categories s = rev (remdups (rev (map pc_category (palette_matches s))))"

text \<open>The rows as they are listed: by category, in the order the categories first occur.\<close>

definition palette_rows :: "app_shell \<Rightarrow> palette_command list" where
  "palette_rows s =
     concat (map (\<lambda>cat. filter (\<lambda>c. pc_category c = cat) (palette_matches s)) (palette_categories s))"

text \<open>Opening the palette clears the query and the selection; a change of the query resets the latter.\<close>

definition toggle_palette :: "app_shell \<Rightarrow> app_shell" where
  "toggle_palette s =
     (if sh_paletteOpen s then s\<lparr>sh_paletteOpen := False\<rparr>
      else s\<lparr>sh_paletteOpen := True, sh_query := [], sh_selectedIdx := 0\<rparr>)"

definition type_query :: "string \<Rightarrow> app_shell \<Rightarrow> app_shell" where
  "type_query q s = (if q = sh_query s then s else s\<lparr>sh_query := q, sh_selectedIdx := 0\<rparr>)"

definition executeSelected :: "app_shell \<Rightarrow> app_shell" where
  "executeSelected s =
     (if 0 \<le> sh_selectedIdx s \<and> sh_selectedIdx s < int (length (palette_matches s))
      then (run_command (pc_action (palette_matches s ! nat (sh_selectedIdx s))) s)\<lparr>sh_paletteOpen := False\<rparr>
      else s)"

datatype palette_key = Pk_escape | Pk_down | Pk_up | Pk_enter

definition press_key :: "palette_key \<Rightarrow> app_shell \<Rightarrow> app_shell" where
  "press_key k s =
     (if \<not> sh_paletteOpen s then s
      else case k of
        Pk_escape \<Rightarrow> s\<lparr>sh_paletteOpen := False\<rparr>
      | Pk_down \<Rightarrow> s\<lparr>sh_selectedIdx := min (sh_selectedIdx s + 1) (int (length (palette_matches s)) - 1)\<rparr>
      | Pk_up \<Rightarrow> s\<lparr>sh_selectedIdx := max (sh_selectedIdx s - 1) 0\<rparr>
      | Pk_enter \<Rightarrow> executeSelected s)"

datatype shell_action =
    Role_switched user_role
  | Open_case string int string "string list option" "int option"
  | View_member int
  | Change_view view_mode "int option"
  | Navigate_rule string
  | Navigate_demo string
  | Crm_back
  | Toggle_palette
  | Type_query string
  | Press_key palette_key
  | Hover_row nat
  | Click_row nat
  | Type_member string
  | Lookup
  | Set_date string
  | Pick_demo nat
  | Pick_tab workspace_tab

fun shell_step :: "app_shell \<Rightarrow> shell_action \<Rightarrow> app_shell" where
  "shell_step s (Role_switched r) = s\<lparr>sh_role := r\<rparr>"
| "shell_step s (Open_case c m d fl dro) = handleOpenCase c m d fl dro s"
| "shell_step s (View_member m) = handleViewMember m s"
| "shell_step s (Change_view v m) = handleChangeView v m s"
| "shell_step s (Navigate_rule r) = handleNavigateToRule r s"
| "shell_step s (Navigate_demo c) = handleNavigateToDemoCase c s"
| "shell_step s Crm_back = crm_back s"
| "shell_step s Toggle_palette = toggle_palette s"
| "shell_step s (Type_query q) = type_query q s"
| "shell_step s (Press_key k) = press_key k s"
| "shell_step s (Hover_row i) = s\<lparr>sh_selectedIdx := int i\<rparr>"
| "shell_step s (Click_row i) =
     (if i < length (palette_matches s)
      then (run_command (pc_action (palette_matches s ! i)) s)\<lparr>sh_paletteOpen := False\<rparr> else s)"
| "shell_step s (Type_member v) = s\<lparr>sh_memberIDInput := v\<rparr>"
| "shell_step s Lookup = handleLookup s"
| "shell_step s (Set_date d) = s\<lparr>sh_retirementDate := d\<rparr>"
| "shell_step s (Pick_demo i) = (if i < length DEMO_CASES then pick_demo (DEMO_CASES ! i) s else s)"
| "shell_step s (Pick_tab t) = s\<lparr>sh_workspaceTab := t\<rparr>"

subsection \<open>Access\<close>

lemma crm_roles: "hasAccess r Vm_crm \<Longrightarrow> hasAccess r v"
  by (cases r; cases v) (simp_all add: hasAccess_def)

lemma default_access: "hasAccess r (ROLE_DEFAULT_VIEW r)"
  by (cases r) (simp_all add: hasAccess_def)

lemma command_roles:
  "list_all (\<lambda>c. map_of cmdViewMap (pc_id c) =
      Some (case pc_action c of Go_view v \<Rightarrow> v | Go_case _ _ _ _ \<Rightarrow> Vm_retirement_app)) palette_commands"
  by (simp add: palette_commands_def cmdViewMap_def)

definition command_view :: "palette_command \<Rightarrow> view_mode" where
  "command_view c = (case pc_action c of Go_view v \<Rightarrow> v | Go_case _ _ _ _ \<Rightarrow> Vm_retirement_app)"

lemma filtered_access: "c \<in> set (filteredCommands r) \<Longrightarrow> hasAccess r (command_view c)"
  using command_roles by (auto simp: filteredCommands_def list_all_iff command_view_def)

lemma run_command_view:
  "hasAccess (sh_role s) (case a of Go_view v \<Rightarrow> v | Go_case _ _ _ _ \<Rightarrow> Vm_retirement_app) \<Longrightarrow>
   effectiveViewMode (run_command a s) = (case a of Go_view v \<Rightarrow> v | Go_case _ _ _ _ \<Rightarrow> Vm_retirement_app)"
  by (cases a) (auto simp: effectiveViewMode_def handleChangeView_def handleOpenCase_def)

definition role_switched :: "shell_action \<Rightarrow> bool" where
  "role_switched a \<longleftrightarrow> (\<exists>r. a = Role_switched r)"

lemmas shell_defs = handleChangeView_def handleOpenCase_def handleViewMember_def handleNavigateToRule_def
  handleNavigateToDemoCase_def crm_back_def toggle_palette_def type_query_def press_key_def
  executeSelected_def handleLookup_def pick_demo_def

lemma run_command_access:
  "hasAccess (sh_role s) (sh_viewMode s) \<Longrightarrow> hasAccess (sh_role (run_command a s)) (sh_viewMode (run_command a s))"
  by (cases a) (auto simp: shell_defs)

lemma shell_step_access:
  assumes "hasAccess (sh_role s) (sh_viewMode s)" "\<not> role_switched a"
  shows "hasAccess (sh_role (shell_step s a)) (sh_viewMode (shell_step s a))"
  using assms run_command_access[OF assms(1)]
  by (cases a)
    (auto simp: role_switched_def shell_defs Let_def split: option.splits palette_key.splits)

lemma shell_run_access:
  "hasAccess (sh_role s) (sh_viewMode s) \<Longrightarrow> list_all (\<lambda>a. \<not> role_switched a) as \<Longrightarrow>
   hasAccess (sh_role (run shell_step s as)) (sh_viewMode (run shell_step s as))"
  by (induction as arbitrary: s) (simp_all add: shell_step_access)

lemma denied_view:
  "\<not> hasAccess (sh_role s) v \<Longrightarrow> shell_step s (Change_view v m) = s"
  by (simp add: handleChangeView_def)



subsection \<open>Ways back and demo cases\<close>

lemma crm_to_crm:
  "hasAccess (sh_role s) Vm_crm \<Longrightarrow> sh_viewMode s = Vm_crm \<Longrightarrow> sh_crmBackView s = Some Vm_crm \<Longrightarrow>
   sh_crmInitialMemberId s = None \<Longrightarrow> sh_selectedRuleId s = None \<Longrightarrow> sh_selectedCaseId s = None \<Longrightarrow>
   run shell_step s (replicate n Crm_back) = s"
proof (induction n)
  case (Suc n)
  then have "shell_step s Crm_back = s" by (cases s) (simp add: crm_back_def handleChangeView_def)
  with Suc show ?case by simp
qed simp

text \<open>
  The way back from the CRM is lost by asking for the CRM again. Opened from another view with
  a member, the CRM goes back there; but after one click on its own tab, or the palette's command,
  the member is forgotten and the way back leads to the CRM itself, however often it is taken.
\<close>

theorem crm_back_traps:
  assumes "hasAccess (sh_role s) Vm_crm" "sh_viewMode s \<noteq> Vm_crm"
  shows "let opened = shell_step s (Change_view Vm_crm (Some memberId));
             again = shell_step opened (Change_view Vm_crm None) in
     sh_viewMode (shell_step opened Crm_back) = sh_viewMode s
   \<and> run_command (Go_view Vm_crm) opened = again
   \<and> effectiveViewMode (run shell_step again (replicate n Crm_back)) = Vm_crm
   \<and> sh_crmInitialMemberId opened = Some memberId
   \<and> sh_crmInitialMemberId (run shell_step again (replicate n Crm_back)) = None"
proof -
  let ?again = "shell_step (shell_step s (Change_view Vm_crm (Some memberId))) (Change_view Vm_crm None)"
  have "run shell_step ?again (replicate n Crm_back) = ?again"
    by (rule crm_to_crm) (use assms in \<open>simp_all add: handleChangeView_def\<close>)
  then show ?thesis
    using assms crm_roles[OF assms(1)]
    by (simp add: Let_def handleChangeView_def crm_back_def effectiveViewMode_def)
qed

theorem crm_back_traps_witness:
  "effectiveViewMode (run shell_step
     (shell_step (shell_step (shell_mount Role_staff) (Change_view Vm_crm (Some 10001)))
       (Change_view Vm_crm None)) (replicate 3 Crm_back)) = Vm_crm"
  using crm_back_traps[of "shell_mount Role_staff" 10001 3]
  by (simp add: Let_def shell_mount_def hasAccess_def)

text \<open>
  The demo buttons of the first and the last case do the same: both show member 10001
  without a DRO, and both light up.
\<close>

theorem demo_case_dro_same:
  "shell_step s (Pick_demo 3) = shell_step s (Pick_demo 0)
 \<and> demo_highlighted (shell_step s (Pick_demo 3)) = [DEMO_CASES ! 0, DEMO_CASES ! 3]"
  by (simp add: DEMO_CASES_def pick_demo_def demo_highlighted_def)

subsection \<open>The palette's rows\<close>

lemma mset_two_groups:
  "k \<notin> set ks \<Longrightarrow> mset (filter (\<lambda>x. f x = k) xs) + mset (filter (\<lambda>x. f x \<in> set ks) xs) =
     mset (filter (\<lambda>x. f x \<in> set (k # ks)) xs)"
  by (induction xs) auto

lemma mset_groups:
  "distinct ks \<Longrightarrow> mset (concat (map (\<lambda>k. filter (\<lambda>x. f x = k) xs) ks)) =
     mset (filter (\<lambda>x. f x \<in> set ks) xs)"
proof (induction ks)
  case (Cons k ks)
  then show ?case using mset_two_groups[where k = k and ks = ks and f = f and xs = xs] by simp
qed simp

lemma includes_Nil [simp]: "includes_str s []"
  by (cases s) (simp_all add: starts_with_def)

lemma matches_all: "sh_query s = [] \<Longrightarrow> palette_matches s = filteredCommands (sh_role s)"
  by (simp add: palette_matches_def to_lower_def)

lemma staff_commands: "filteredCommands Role_staff = palette_commands"
  by (simp add: filteredCommands_def palette_commands_def cmdViewMap_def hasAccess_def)

text \<open>
  The palette lists every command the role may run and the query matches exactly once, grouped
  by category, and Enter runs the selected one and closes it: with a selection inside the list the
  view becomes the command's, with any other nothing happens. The arrow keys stay inside the list,
  whatever the query and however often they are pressed, and a new query starts at the top.
\<close>

theorem palette_selection:
  "mset (palette_rows s) = mset (palette_matches s)
 \<and> list_all (\<lambda>c. c \<in> set (filteredCommands (sh_role s))) (palette_matches s)
 \<and> (sh_paletteOpen s \<and> 0 \<le> sh_selectedIdx s \<and> sh_selectedIdx s < int (length (palette_matches s)) \<longrightarrow>
     (let s' = shell_step s (Press_key Pk_enter) in
        effectiveViewMode s' = command_view (palette_matches s ! nat (sh_selectedIdx s)) \<and> \<not> sh_paletteOpen s'))
 \<and> (sh_paletteOpen s \<and> palette_matches s \<noteq> [] \<and> 0 \<le> sh_selectedIdx s
     \<and> sh_selectedIdx s < int (length (palette_matches s)) \<and> k \<in> {Pk_down, Pk_up} \<longrightarrow>
     (let s' = shell_step s (Press_key k) in
        0 \<le> sh_selectedIdx s' \<and> sh_selectedIdx s' < int (length (palette_matches s'))
        \<and> palette_matches s' = palette_matches s))
 \<and> (q \<noteq> sh_query s \<longrightarrow> sh_selectedIdx (shell_step s (Type_query q)) = 0)"
proof -
  have set_cats: "set (palette_categories s) = set (map pc_category (palette_matches s))"
    and dist: "distinct (palette_categories s)"
    by (simp_all add: palette_categories_def)
  have "mset (palette_rows s) = mset (filter (\<lambda>c. pc_category c \<in> set (palette_categories s)) (palette_matches s))"
    unfolding palette_rows_def by (rule mset_groups[OF dist])
  also have "filter (\<lambda>c. pc_category c \<in> set (palette_categories s)) (palette_matches s) = palette_matches s"
    unfolding set_cats by (auto intro!: filter_True)
  finally have rows: "mset (palette_rows s) = mset (palette_matches s)" .
  have offered: "list_all (\<lambda>c. c \<in> set (filteredCommands (sh_role s))) (palette_matches s)"
    by (simp add: palette_matches_def list_all_iff)
  have keep: "palette_matches (s\<lparr>sh_selectedIdx := i\<rparr>) = palette_matches s" for i
    by (simp add: palette_matches_def)
  have closed: "effectiveViewMode (t\<lparr>sh_paletteOpen := b\<rparr>) = effectiveViewMode t" for t b
    by (simp add: effectiveViewMode_def)
  have enter: "effectiveViewMode (shell_step s (Press_key Pk_enter)) =
        command_view (palette_matches s ! nat (sh_selectedIdx s))
      \<and> \<not> sh_paletteOpen (shell_step s (Press_key Pk_enter))"
    if "sh_paletteOpen s" "0 \<le> sh_selectedIdx s" "sh_selectedIdx s < int (length (palette_matches s))"
  proof -
    let ?c = "palette_matches s ! nat (sh_selectedIdx s)"
    have "?c \<in> set (palette_matches s)" using that by (simp add: nat_less_iff)
    then have "hasAccess (sh_role s) (command_view ?c)"
      using offered filtered_access by (auto simp: list_all_iff)
    then have "effectiveViewMode (run_command (pc_action ?c) s) = command_view ?c"
      using run_command_view[of s "pc_action ?c"] by (simp add: command_view_def)
    then show ?thesis
      using that by (simp add: press_key_def executeSelected_def closed)
  qed
  show ?thesis
    using rows offered enter by (auto simp: Let_def press_key_def type_query_def keep)
qed

theorem palette_selection_witness:
  "effectiveViewMode (shell_step ((toggle_palette (shell_mount Role_staff))\<lparr>sh_selectedIdx := 2\<rparr>)
     (Press_key Pk_enter)) = Vm_workspace"
proof -
  let ?s = "(toggle_palette (shell_mount Role_staff))\<lparr>sh_selectedIdx := 2\<rparr>"
  have "palette_matches ?s = palette_commands"
    by (subst matches_all) (simp_all add: toggle_palette_def shell_mount_def staff_commands)
  moreover have "sh_paletteOpen ?s" by (simp add: toggle_palette_def shell_mount_def)
  ultimately show ?thesis
    using palette_selection[of ?s Pk_up "[]"] by (simp add: Let_def palette_commands_def command_view_def)
qed

subsection \<open>Dates a year on\<close>

text \<open>The calendar day \<open>k\<close> years after day \<open>n\<close>; the 29th of February becomes the 1st of March.\<close>

definition years_later :: "int \<Rightarrow> int \<Rightarrow> int" where
  "years_later n k =
     (let y = year_of_day n in
      case month_day (month_lengths y) (n - day_from_year y) 1 of
        (m, d) \<Rightarrow> day_number (y + k) m (nat d + 1))"

lemma day_of_offset: "-1440 < off \<Longrightarrow> off < 1440 \<Longrightarrow>
   (MS_DAY * n - 60000 * off) div MS_DAY = (if off > 0 then n - 1 else n)"
proof -
  assume off: "-1440 < off" "off < 1440"
  have "MS_DAY * n - 60000 * off = (- 60000 * off) + n * MS_DAY" by simp
  then have "(MS_DAY * n - 60000 * off) div MS_DAY = n + (- 60000 * off) div MS_DAY"
    by (simp add: MS_DAY_def)
  moreover have "(- 60000 * off) div MS_DAY = (if off > 0 then -1 else 0)"
    using off int_div_pos_eq[of "- 60000 * off" MS_DAY "-1" "MS_DAY - 60000 * off"]
      int_div_pos_eq[of "- 60000 * off" MS_DAY 0 "- 60000 * off"] by (auto simp: MS_DAY_def)
  ultimately show ?thesis by simp
qed

text \<open>
  The comparison dates of the workspace are the retirement date one, two and three years
  later, in the calendar (a leap day moves to the 1st of March), for a reader at or west of
  Greenwich. For a reader east of it every one is a day early, since the local midnight is written
  out in universal time.
\<close>

theorem scenario_dates:
  assumes "parse_day (sh_retirementDate s) = Some n" "-1440 < off" "off < 1440"
  shows "scenarioDates (fixed_zone off) s = Some (sh_retirementDate s) #
     map (\<lambda>k. Some (iso_day (years_later n k - (if off > 0 then 1 else 0)))) [1, 2, 3]"
proof -
  have one: "addYears (fixed_zone off) (sh_retirementDate s) k =
      Some (iso_day (years_later n k - (if off > 0 then 1 else 0)))" for k
  proof -
    have t: "getTime (fixed_zone off) (sh_retirementDate s @ ''T00:00:00'') = Some (MS_DAY * n - 60000 * off)"
      using getTime_midnight[OF assms(1), of "fixed_zone off"] by (simp add: fixed_zone_def)
    have l: "tz_local (fixed_zone off) (MS_DAY * n - 60000 * off) = MS_DAY * n" by (simp add: fixed_zone_def)
    have d: "MS_DAY * n div MS_DAY = n" "MS_DAY * n mod MS_DAY = 0" by (simp_all add: MS_DAY_def)
    have y: "getFullYear (fixed_zone off) (MS_DAY * n - 60000 * off) = year_of_day n"
      by (simp add: getFullYear_def local_day_def l d)
    have "setFullYear (fixed_zone off) (MS_DAY * n - 60000 * off) (year_of_day n + k) =
        MS_DAY * years_later n k - 60000 * off"
      by (simp add: setFullYear_def l d years_later_def Let_def split: prod.split)
        (simp add: fixed_zone_def)
    then show ?thesis
      by (simp add: addYears_def t y day_of_offset[OF assms(2,3)])
  qed
  show ?thesis unfolding scenarioDates_def one by simp
qed


lemma day_text: "parse_day ''2027-01-31'' = Some 20849"
  by (simp add: parse_day_def two_digits_def digits_of_def valid_date_def month_lengths_def
      day_number_def day_from_year_def days_before_month_def)

theorem scenario_dates_witness:
  "scenarioDates (fixed_zone (-420)) ((shell_mount Role_staff)\<lparr>sh_retirementDate := ''2027-01-31''\<rparr>) =
     Some ''2027-01-31'' # map (\<lambda>k. Some (iso_day (years_later 20849 k))) [1, 2, 3]"
  using scenario_dates[of "(shell_mount Role_staff)\<lparr>sh_retirementDate := ''2027-01-31''\<rparr>" 20849 "-420"] day_text
  by simp

end
