(* ===== verification/ApplicationTypes.thy ===== *)
theory ApplicationTypes imports Prelude begin

text \<open>
  The data of the member-facing retirement application (src/frontend/src/types/RetirementApplication.ts
  and the payment option record of types/MemberPortal.ts). Field names carry a prefix per record;
  an optional field is an \<open>option\<close>, with \<open>None\<close> for \<open>undefined\<close>.
\<close>

datatype member_stage =
    Verify_info
  | Upload_docs
  | Benefit_estimate
  | Payment_option
  | Review_submit
  | Staff_review
  | Complete_stage

datatype app_status =
    App_not_started
  | App_in_progress
  | App_submitted
  | App_under_review
  | App_bounced
  | App_complete

datatype stage_status =
    St_not_started
  | St_in_progress
  | St_complete
  | St_bounced

record stage_completion =
  sc_stage :: member_stage
  sc_status :: stage_status
  sc_completed_at :: "string option"
  sc_bounced_at :: "string option"
  sc_bounce_message :: "string option"

datatype item_category = Cat_personal | Cat_employment | Cat_beneficiary

record verification_item =
  vi_field_name :: string
  vi_label :: string
  vi_current_value :: string
  vi_category :: item_category
  vi_verified :: "bool option"
  vi_flag_reason :: "string option"

datatype upload_status = Up_processing | Up_received | Up_rejected

record required_document =
  rd_document_type :: string
  rd_label :: string
  rd_required :: bool
  rd_uploaded :: bool
  rd_document_id :: "string option"
  rd_status :: "upload_status option"

record payment_option_result =
  po_option_id :: string
  po_member_amount :: number
  po_survivor_amount :: number

record payment_selection =
  ps_option_id :: string
  ps_option_label :: string
  ps_member_amount :: number
  ps_survivor_amount :: number

record acknowledgment =
  ack_id :: string
  ack_label :: string
  ack_checked :: bool

datatype eligibility_type = EARLY | NORMAL

record estimate =
  be_monthly_benefit :: number
  be_eligibility_type :: eligibility_type
  be_ams :: number
  be_base_benefit :: number
  be_service_years :: number
  be_reduction_pct :: number
  be_payment_options :: "payment_option_result list"

record application_state =
  as_case_id :: "string option"
  as_member_id :: int
  as_status :: app_status
  as_current_stage :: member_stage
  as_retirement_date :: "string option"
  as_stages :: "stage_completion list"
  as_verification_items :: "verification_item list"
  as_required_documents :: "required_document list"
  as_benefit_estimate :: "estimate option"
  as_payment_selection :: "payment_selection option"
  as_acknowledgments :: "acknowledgment list"
  as_bounce_message :: "string option"
  as_bounce_stage :: "member_stage option"
  as_submitted_at :: "string option"
  as_completed_at :: "string option"

record data_change_impact_view =
  ci_trigger :: string
  ci_affected_stages :: "string list"
  ci_description :: string

end
