(* ===== verification/ApplicationMachine.thy ===== *)
theory ApplicationMachine imports ApplicationTypes Machine begin

text \<open>
  The member's retirement application: the stage tables, the transitions of
  src/frontend/src/lib/applicationStateMachine.ts, and the reducer the hook
  src/frontend/src/hooks/useRetirementApplication.ts runs over them. Where the code reads the
  clock (\<open>new Date().toISOString()\<close>) the definition takes the text \<open>now\<close>; the reads of one
  transition happen in one synchronous call and share it.
\<close>

subsection \<open>Stage tables\<close>

definition MEMBER_STAGES :: "member_stage list" where
  "MEMBER_STAGES = [Verify_info, Upload_docs, Benefit_estimate, Payment_option, Review_submit]"

definition ALL_STAGES :: "member_stage list" where
  "ALL_STAGES = MEMBER_STAGES @ [Staff_review, Complete_stage]"

fun STAGE_LABELS :: "member_stage \<Rightarrow> string" where
  "STAGE_LABELS Verify_info = ''Verify Your Information''"
| "STAGE_LABELS Upload_docs = ''Upload Documents''"
| "STAGE_LABELS Benefit_estimate = ''Review Benefit Estimate''"
| "STAGE_LABELS Payment_option = ''Select Payment Option''"
| "STAGE_LABELS Review_submit = ''Review & Submit''"
| "STAGE_LABELS Staff_review = ''Staff Review''"
| "STAGE_LABELS Complete_stage = ''Complete''"

fun STAGE_DESCRIPTIONS :: "member_stage \<Rightarrow> string" where
  "STAGE_DESCRIPTIONS Verify_info =
     ''Confirm your personal information, employment, and beneficiaries are correct.''"
| "STAGE_DESCRIPTIONS Upload_docs =
     ''Upload the documents required for your retirement application.''"
| "STAGE_DESCRIPTIONS Benefit_estimate =
     ''Review the estimated benefit amount based on your verified information.''"
| "STAGE_DESCRIPTIONS Payment_option =
     ''Choose how you want to receive your retirement benefit.''"
| "STAGE_DESCRIPTIONS Review_submit =
     ''Review all your selections and submit your application.''"
| "STAGE_DESCRIPTIONS Staff_review =
     ''Your application is being reviewed by a retirement specialist.''"
| "STAGE_DESCRIPTIONS Complete_stage =
     ''Your retirement application has been processed.''"

definition DEFAULT_ACKNOWLEDGMENTS :: "acknowledgment list" where
  "DEFAULT_ACKNOWLEDGMENTS =
     [\<lparr>ack_id = ''info_accurate'',
       ack_label = ''I certify that the information provided in this application is true and correct to the best of my knowledge.'',
       ack_checked = False\<rparr>,
      \<lparr>ack_id = ''irrevocable'',
       ack_label = ''I understand that once my retirement is finalized, my payment option selection is irrevocable and cannot be changed.'',
       ack_checked = False\<rparr>]"

fun FORWARD_TRANSITIONS :: "member_stage \<Rightarrow> member_stage option" where
  "FORWARD_TRANSITIONS Verify_info = Some Upload_docs"
| "FORWARD_TRANSITIONS Upload_docs = Some Benefit_estimate"
| "FORWARD_TRANSITIONS Benefit_estimate = Some Payment_option"
| "FORWARD_TRANSITIONS Payment_option = Some Review_submit"
| "FORWARD_TRANSITIONS Review_submit = Some Staff_review"
| "FORWARD_TRANSITIONS Staff_review = Some Complete_stage"
| "FORWARD_TRANSITIONS Complete_stage = None"

subsection \<open>Queries\<close>

definition canAdvance :: "member_stage \<Rightarrow> stage_completion list \<Rightarrow> bool" where
  "canAdvance current stageCompletions =
     (if current = Staff_review \<or> current = Complete_stage then False
      else (case find (\<lambda>s. sc_stage s = current) stageCompletions of
              None \<Rightarrow> False
            | Some completion \<Rightarrow> sc_status completion = St_complete))"

definition getNextStage :: "member_stage \<Rightarrow> member_stage option" where
  "getNextStage current = FORWARD_TRANSITIONS current"

definition getStageIndex :: "member_stage \<Rightarrow> int" where
  "getStageIndex stage = index_of stage MEMBER_STAGES"

definition canNavigateBack :: "member_stage \<Rightarrow> member_stage \<Rightarrow> bool" where
  "canNavigateBack target current =
     (let targetIdx = getStageIndex target; currentIdx = getStageIndex current in
      if targetIdx < 0 \<or> currentIdx < 0 then False else targetIdx < currentIdx)"

subsection \<open>Transitions\<close>

definition bounce_completion ::
  "string \<Rightarrow> member_stage \<Rightarrow> string \<Rightarrow> stage_completion \<Rightarrow> stage_completion" where
  "bounce_completion now bounceStage message s =
     (if sc_stage s = bounceStage then
        s\<lparr>sc_status := St_bounced, sc_bounced_at := Some now, sc_bounce_message := Some message\<rparr>
      else
        let bounceIdx = getStageIndex bounceStage; stageIdx = getStageIndex (sc_stage s) in
        if stageIdx > bounceIdx \<and> stageIdx \<ge> 0
        then s\<lparr>sc_status := St_not_started, sc_completed_at := None\<rparr>
        else s)"

definition applyBounce ::
  "string \<Rightarrow> application_state \<Rightarrow> member_stage \<Rightarrow> string \<Rightarrow> application_state" where
  "applyBounce now state bounceStage message =
     state\<lparr>as_status := App_bounced,
           as_current_stage := bounceStage,
           as_bounce_message := Some message,
           as_bounce_stage := Some bounceStage,
           as_stages := map (bounce_completion now bounceStage message) (as_stages state)\<rparr>"

definition advance_completion ::
  "string \<Rightarrow> member_stage \<Rightarrow> member_stage \<Rightarrow> stage_completion \<Rightarrow> stage_completion" where
  "advance_completion now current next s =
     (if sc_stage s = current then s\<lparr>sc_status := St_complete, sc_completed_at := Some now\<rparr>
      else if sc_stage s = next \<and> sc_status s = St_not_started then s\<lparr>sc_status := St_in_progress\<rparr>
      else s)"

definition advanceStage :: "string \<Rightarrow> application_state \<Rightarrow> application_state" where
  "advanceStage now state =
     (case getNextStage (as_current_stage state) of
        None \<Rightarrow> state
      | Some next \<Rightarrow>
          (let newStatus = (if next = Staff_review then App_submitted else as_status state) in
           state\<lparr>as_status := (if newStatus = App_bounced then App_in_progress else newStatus),
                 as_current_stage := next,
                 as_submitted_at :=
                   (if next = Staff_review then Some now else as_submitted_at state),
                 as_stages :=
                   map (advance_completion now (as_current_stage state) next) (as_stages state)\<rparr>))"

definition completeStage :: "string \<Rightarrow> application_state \<Rightarrow> member_stage \<Rightarrow> application_state" where
  "completeStage now state stage =
     state\<lparr>as_stages :=
       map (\<lambda>s. if sc_stage s = stage
                 then s\<lparr>sc_status := St_complete, sc_completed_at := Some now\<rparr> else s)
         (as_stages state)\<rparr>"

definition stage_is_complete :: "stage_completion list \<Rightarrow> member_stage \<Rightarrow> bool" where
  "stage_is_complete stages ms =
     (case find (\<lambda>c. sc_stage c = ms) stages of
        None \<Rightarrow> False | Some s \<Rightarrow> sc_status s = St_complete)"

definition deriveApplicationStatus :: "stage_completion list \<Rightarrow> string option \<Rightarrow> app_status" where
  "deriveApplicationStatus stages caseStatus =
     (if caseStatus = Some ''complete'' then App_complete
      else if list_ex (\<lambda>s. sc_status s = St_bounced) stages then App_bounced
      else if list_all (stage_is_complete stages) MEMBER_STAGES then
        (if stage_is_complete stages Staff_review then App_complete else App_under_review)
      else if list_ex (\<lambda>s. sc_status s = St_in_progress \<or> sc_status s = St_complete) stages
        then App_in_progress
      else App_not_started)"

definition initial_completion :: "nat \<Rightarrow> member_stage \<Rightarrow> stage_completion" where
  "initial_completion idx stage =
     \<lparr>sc_stage = stage, sc_status = (if idx = 0 then St_in_progress else St_not_started),
      sc_completed_at = None, sc_bounced_at = None, sc_bounce_message = None\<rparr>"

definition createInitialApplicationState :: "int \<Rightarrow> string option \<Rightarrow> application_state" where
  "createInitialApplicationState memberId retirementDate =
     \<lparr>as_case_id = None, as_member_id = memberId, as_status = App_in_progress,
      as_current_stage = Verify_info, as_retirement_date = retirementDate,
      as_stages = map (\<lambda>(idx, stage). initial_completion idx stage)
                    (zip [0..<length ALL_STAGES] ALL_STAGES),
      as_verification_items = [], as_required_documents = [],
      as_benefit_estimate = None, as_payment_selection = None,
      as_acknowledgments = DEFAULT_ACKNOWLEDGMENTS,
      as_bounce_message = None, as_bounce_stage = None,
      as_submitted_at = None, as_completed_at = None\<rparr>"

end
