(* ===== verification/ApplicationHook.thy ===== *)
theory ApplicationHook imports ApplicationMachine begin

text \<open>
  The reducer of src/frontend/src/hooks/useRetirementApplication.ts: one definition per callback
  of the hook, on the hook's state (\<open>None\<close> before an application is started), one action per
  callback, and the run of a list of actions. The lemmas give the effect of each transition on the
  stage list and the invariant every run keeps.
\<close>

type_synonym app_hook = "application_state option"

definition startApplication :: "int \<Rightarrow> string option \<Rightarrow> app_hook \<Rightarrow> app_hook" where
  "startApplication memberId retirementDate prev =
     Some (createInitialApplicationState memberId retirementDate)"

definition navigateToStage :: "member_stage \<Rightarrow> app_hook \<Rightarrow> app_hook" where
  "navigateToStage stage prev = map_option (\<lambda>p. p\<lparr>as_current_stage := stage\<rparr>) prev"

definition markStageComplete :: "string \<Rightarrow> app_hook \<Rightarrow> app_hook" where
  "markStageComplete now prev = map_option (advanceStage now) prev"

definition completeCurrentStage :: "string \<Rightarrow> member_stage \<Rightarrow> app_hook \<Rightarrow> app_hook" where
  "completeCurrentStage now stage prev = map_option (\<lambda>p. completeStage now p stage) prev"

definition setVerificationItems :: "verification_item list \<Rightarrow> app_hook \<Rightarrow> app_hook" where
  "setVerificationItems items prev = map_option (\<lambda>p. p\<lparr>as_verification_items := items\<rparr>) prev"

definition updateVerificationItem :: "string \<Rightarrow> bool \<Rightarrow> app_hook \<Rightarrow> app_hook" where
  "updateVerificationItem fieldName verified prev =
     map_option (\<lambda>p. p\<lparr>as_verification_items :=
       map (\<lambda>item. if vi_field_name item = fieldName
                    then item\<lparr>vi_verified := Some verified\<rparr> else item)
         (as_verification_items p)\<rparr>) prev"

definition setPaymentSelection :: "payment_selection \<Rightarrow> app_hook \<Rightarrow> app_hook" where
  "setPaymentSelection selection prev =
     map_option (\<lambda>p. p\<lparr>as_payment_selection := Some selection\<rparr>) prev"

definition updateAcknowledgment :: "string \<Rightarrow> bool \<Rightarrow> app_hook \<Rightarrow> app_hook" where
  "updateAcknowledgment ackId checked prev =
     map_option (\<lambda>p. p\<lparr>as_acknowledgments :=
       map (\<lambda>a. if ack_id a = ackId then a\<lparr>ack_checked := checked\<rparr> else a)
         (as_acknowledgments p)\<rparr>) prev"

definition handleBounce :: "string \<Rightarrow> member_stage \<Rightarrow> string \<Rightarrow> app_hook \<Rightarrow> app_hook" where
  "handleBounce now stage message prev =
     map_option (\<lambda>p. applyBounce now p stage message) prev"

definition resolveBounce :: "app_hook \<Rightarrow> app_hook" where
  "resolveBounce prev =
     (case prev of
        None \<Rightarrow> prev
      | Some p \<Rightarrow> (case as_bounce_stage p of
                     None \<Rightarrow> prev
                   | Some b \<Rightarrow> Some (p\<lparr>as_current_stage := b\<rparr>)))"

datatype app_action =
    Start "string option"
  | Navigate member_stage
  | Mark_complete string
  | Complete_one string member_stage
  | Set_items "verification_item list"
  | Update_item string bool
  | Set_payment payment_selection
  | Update_ack string bool
  | Bounce string member_stage string
  | Resolve

fun app_step :: "int \<Rightarrow> app_hook \<Rightarrow> app_action \<Rightarrow> app_hook" where
  "app_step m s (Start d) = startApplication m d s"
| "app_step m s (Navigate st) = navigateToStage st s"
| "app_step m s (Mark_complete now) = markStageComplete now s"
| "app_step m s (Complete_one now st) = completeCurrentStage now st s"
| "app_step m s (Set_items is) = setVerificationItems is s"
| "app_step m s (Update_item f v) = updateVerificationItem f v s"
| "app_step m s (Set_payment p) = setPaymentSelection p s"
| "app_step m s (Update_ack i c) = updateAcknowledgment i c s"
| "app_step m s (Bounce now st msg) = handleBounce now st msg s"
| "app_step m s Resolve = resolveBounce s"

text \<open>The hook's derived status, read from the stages and the case found for the member.\<close>

definition applicationStatus :: "app_hook \<Rightarrow> string option \<Rightarrow> app_status" where
  "applicationStatus appState caseStatus =
     (case appState of
        None \<Rightarrow> App_not_started
      | Some p \<Rightarrow> deriveApplicationStatus (as_stages p) caseStatus)"

lemmas [step_simps] = startApplication_def navigateToStage_def markStageComplete_def
  completeCurrentStage_def setVerificationItems_def updateVerificationItem_def
  setPaymentSelection_def updateAcknowledgment_def handleBounce_def resolveBounce_def

subsection \<open>Stage lists\<close>

lemma member_stages_set: "set MEMBER_STAGES = UNIV - {Staff_review, Complete_stage}"
proof -
  have "x \<in> set MEMBER_STAGES \<or> x = Staff_review \<or> x = Complete_stage" for x
    by (cases x) (simp_all add: MEMBER_STAGES_def)
  then show ?thesis by (auto simp: MEMBER_STAGES_def)
qed

lemma stage_index_simps [simp]:
  "getStageIndex Verify_info = 0" "getStageIndex Upload_docs = 1"
  "getStageIndex Benefit_estimate = 2" "getStageIndex Payment_option = 3"
  "getStageIndex Review_submit = 4"
  "getStageIndex Staff_review = -1" "getStageIndex Complete_stage = -1"
  by (simp_all add: getStageIndex_def MEMBER_STAGES_def)

lemma stage_index_inj:
  "getStageIndex s = getStageIndex t \<Longrightarrow> 0 \<le> getStageIndex s \<Longrightarrow> s = t"
  by (cases s; cases t) simp_all

lemma bounce_completion_stage [simp]: "sc_stage (bounce_completion now b m s) = sc_stage s"
  by (simp add: bounce_completion_def Let_def)

lemma advance_completion_stage [simp]: "sc_stage (advance_completion now c n s) = sc_stage s"
  by (simp add: advance_completion_def)

lemma stages_applyBounce [simp]:
  "map sc_stage (as_stages (applyBounce now p b m)) = map sc_stage (as_stages p)"
  by (simp add: applyBounce_def comp_def)

lemma stages_advanceStage [simp]:
  "map sc_stage (as_stages (advanceStage now p)) = map sc_stage (as_stages p)"
  by (simp add: advanceStage_def Let_def comp_def split: option.split)

lemma stages_completeStage [simp]:
  "map sc_stage (as_stages (completeStage now p st)) = map sc_stage (as_stages p)"
  by (simp add: completeStage_def comp_def if_distrib cong: if_cong)

lemma stages_initial [simp]:
  "map sc_stage (as_stages (createInitialApplicationState m d)) = ALL_STAGES"
  by (simp add: createInitialApplicationState_def ALL_STAGES_def MEMBER_STAGES_def
      initial_completion_def)

text \<open>
  What every operation keeps: the record of the seven stages in their order, the member, and the
  identity of the acknowledgments.
\<close>

definition app_inv :: "int \<Rightarrow> app_hook \<Rightarrow> bool" where
  "app_inv m s \<longleftrightarrow>
     (case s of
        None \<Rightarrow> True
      | Some p \<Rightarrow> map sc_stage (as_stages p) = ALL_STAGES \<and> as_member_id p = m \<and>
                  map ack_id (as_acknowledgments p) = map ack_id DEFAULT_ACKNOWLEDGMENTS)"

lemma kept_applyBounce [simp]:
  "as_member_id (applyBounce now p b m) = as_member_id p"
  "as_acknowledgments (applyBounce now p b m) = as_acknowledgments p"
  by (simp_all add: applyBounce_def)

lemma kept_advanceStage [simp]:
  "as_member_id (advanceStage now p) = as_member_id p"
  "as_acknowledgments (advanceStage now p) = as_acknowledgments p"
  by (simp_all add: advanceStage_def Let_def split: option.split)

lemma kept_completeStage [simp]:
  "as_member_id (completeStage now p st) = as_member_id p"
  "as_acknowledgments (completeStage now p st) = as_acknowledgments p"
  by (simp_all add: completeStage_def)

lemma kept_initial [simp]:
  "as_member_id (createInitialApplicationState m d) = m"
  "as_acknowledgments (createInitialApplicationState m d) = DEFAULT_ACKNOWLEDGMENTS"
  by (simp_all add: createInitialApplicationState_def)

lemma ack_id_update: "map ack_id (map (\<lambda>a. if ack_id a = i then a\<lparr>ack_checked := c\<rparr> else a) xs)
    = map ack_id xs"
  by (induction xs) simp_all

lemma app_step_inv: "app_inv m s \<Longrightarrow> app_inv m (app_step m s a)"
proof (cases s)
  case None
  then show ?thesis by (cases a) (simp_all add: app_inv_def step_simps del: list.map_comp map_map)
next
  case (Some p)
  assume "app_inv m s"
  with Some show ?thesis
    by (cases a)
      (simp_all add: app_inv_def step_simps ack_id_update del: map_map split: option.split)
qed

interpretation app: invariant_machine "app_step m" "app_inv m" for m
  by unfold_locales (rule app_step_inv)


subsection \<open>The completion record of one stage\<close>

definition completion_of :: "application_state \<Rightarrow> member_stage \<Rightarrow> stage_completion option" where
  "completion_of p st = find (\<lambda>s. sc_stage s = st) (as_stages p)"

definition status_of :: "application_state \<Rightarrow> member_stage \<Rightarrow> stage_status option" where
  "status_of p st = map_option sc_status (completion_of p st)"

lemma find_map_stage:
  assumes "\<And>s. sc_stage (f s) = sc_stage s"
  shows "find (\<lambda>s. sc_stage s = st) (map f xs) = map_option f (find (\<lambda>s. sc_stage s = st) xs)"
  by (induction xs) (simp_all add: assms)

lemma find_stage_Some: "find (\<lambda>s. sc_stage s = st) xs = Some c \<Longrightarrow> sc_stage c = st"
  by (auto simp: find_Some_iff)

lemma completion_of_bounce:
  "completion_of (applyBounce now p b m) st =
     map_option (bounce_completion now b m) (completion_of p st)"
  by (simp add: completion_of_def applyBounce_def find_map_stage)

lemma completion_of_exists:
  assumes "map sc_stage (as_stages p) = ALL_STAGES"
  shows "\<exists>c. completion_of p st = Some c \<and> sc_stage c = st \<and> c \<in> set (as_stages p)"
proof -
  have "st \<in> set ALL_STAGES"
    by (cases st) (simp_all add: ALL_STAGES_def MEMBER_STAGES_def)
  then obtain c where c: "c \<in> set (as_stages p)" "sc_stage c = st"
    by (metis assms imageE list.set_map)
  then have "find (\<lambda>s. sc_stage s = st) (as_stages p) \<noteq> None"
    by (auto simp: find_None_iff)
  then obtain d where d: "find (\<lambda>s. sc_stage s = st) (as_stages p) = Some d" by blast
  then have "d \<in> set (as_stages p)" by (auto simp: find_Some_iff)
  with d find_stage_Some[OF d] show ?thesis by (simp add: completion_of_def)
qed

text \<open>A stage list of the seven stages, taken apart.\<close>

lemma map_eq_Cons_elim:
  assumes "map f xs = y # ys"
  obtains x zs where "xs = x # zs" "f x = y" "map f zs = ys"
  using assms by (cases xs) simp_all

lemma all_stages_cases:
  assumes "map sc_stage xs = ALL_STAGES"
  obtains a b c d e f g where "xs = [a, b, c, d, e, f, g]"
    "sc_stage a = Verify_info" "sc_stage b = Upload_docs" "sc_stage c = Benefit_estimate"
    "sc_stage d = Payment_option" "sc_stage e = Review_submit" "sc_stage f = Staff_review"
    "sc_stage g = Complete_stage"
  using assms unfolding ALL_STAGES_def MEMBER_STAGES_def append.simps
  by (elim map_eq_Cons_elim) simp

lemmas status_defs = deriveApplicationStatus_def stage_is_complete_def MEMBER_STAGES_def

subsection \<open>Status along forward moves\<close>

fun status_rank :: "app_status \<Rightarrow> nat" where
  "status_rank App_not_started = 0"
| "status_rank App_in_progress = 1"
| "status_rank App_submitted = 1"
| "status_rank App_bounced = 1"
| "status_rank App_under_review = 2"
| "status_rank App_complete = 3"

datatype forward_move = Advance_at string | Complete_at string member_stage

fun forward_step :: "application_state \<Rightarrow> forward_move \<Rightarrow> application_state" where
  "forward_step p (Advance_at now) = advanceStage now p"
| "forward_step p (Complete_at now st) = completeStage now p st"

definition forward_inv :: "application_state \<Rightarrow> bool" where
  "forward_inv p \<longleftrightarrow>
     map sc_stage (as_stages p) = ALL_STAGES \<and> list_all (\<lambda>s. sc_status s \<noteq> St_bounced) (as_stages p)"

definition forward_level :: "application_state \<Rightarrow> nat" where
  "forward_level p = status_rank (deriveApplicationStatus (as_stages p) None)"

lemma forward_step_inv: "forward_inv p \<Longrightarrow> forward_inv (forward_step p a)"
proof (cases a)
  case (Advance_at now)
  assume "forward_inv p"
  then show ?thesis
    unfolding Advance_at forward_inv_def forward_step.simps stages_advanceStage
    by (auto simp: list_all_iff advanceStage_def Let_def advance_completion_def split: option.split)
next
  case (Complete_at now st)
  assume "forward_inv p"
  then show ?thesis
    unfolding Complete_at forward_inv_def forward_step.simps stages_completeStage
    by (auto simp: list_all_iff completeStage_def)
qed

text \<open>A stage map that keeps stages, keeps complete stages complete and reverts none.\<close>

lemma derive_rank_mono:
  assumes stage: "\<And>s. sc_stage (f s) = sc_stage s"
    and keep: "\<And>s. sc_status s = St_complete \<Longrightarrow> sc_status (f s) = St_complete"
    and prog: "\<And>s. sc_status s = St_in_progress \<Longrightarrow> sc_status (f s) \<in> {St_in_progress, St_complete}"
    and nb: "list_all (\<lambda>s. sc_status s \<noteq> St_bounced) xs"
    and nb': "list_all (\<lambda>s. sc_status s \<noteq> St_bounced) (map f xs)"
  shows "status_rank (deriveApplicationStatus xs None)
           \<le> status_rank (deriveApplicationStatus (map f xs) None)"
proof -
  have sc: "stage_is_complete xs st \<Longrightarrow> stage_is_complete (map f xs) st" for st
    by (auto simp: stage_is_complete_def find_map_stage stage keep split: option.splits)
  have lm: "list_all (stage_is_complete xs) ms \<Longrightarrow> list_all (stage_is_complete (map f xs)) ms" for ms
    using sc by (auto simp: list_all_iff)
  have nex: "\<not> list_ex (\<lambda>s. sc_status s = St_bounced) ys"
    if "list_all (\<lambda>s. sc_status s \<noteq> St_bounced) ys" for ys :: "stage_completion list"
    using that by (simp add: list_all_iff list_ex_iff)
  have st: "list_ex (\<lambda>s. sc_status s = St_in_progress \<or> sc_status s = St_complete) xs \<Longrightarrow>
      list_ex (\<lambda>s. sc_status s = St_in_progress \<or> sc_status s = St_complete) (map f xs)"
    using keep prog by (fastforce simp: list_ex_iff)
  show ?thesis
    using sc[of Staff_review] lm[of MEMBER_STAGES] st nex[OF nb] nex[OF nb']
    by (cases "list_all (stage_is_complete xs) MEMBER_STAGES"; cases "stage_is_complete xs Staff_review")
      (simp_all add: deriveApplicationStatus_def)
qed

lemma forward_step_mono: "forward_inv p \<Longrightarrow> forward_level p \<le> forward_level (forward_step p a)"
proof -
  assume inv: "forward_inv p"
  then have inv': "forward_inv (forward_step p a)" by (rule forward_step_inv)
  show ?thesis
  proof (cases a)
    case (Advance_at now)
    show ?thesis
    proof (cases "getNextStage (as_current_stage p)")
      case None
      with Advance_at show ?thesis by (simp add: advanceStage_def)
    next
      case (Some nx)
      define g where "g = advance_completion now (as_current_stage p) nx"
      have st: "as_stages (forward_step p a) = map g (as_stages p)"
        using Advance_at Some by (simp add: advanceStage_def Let_def g_def)
      show ?thesis
        unfolding forward_level_def st
        using inv inv' by (intro derive_rank_mono)
          (auto simp: g_def advance_completion_def forward_inv_def st)
    qed
  next
    case (Complete_at now stg)
    have st: "as_stages (forward_step p a) =
        map (\<lambda>s. if sc_stage s = stg
                  then s\<lparr>sc_status := St_complete, sc_completed_at := Some now\<rparr> else s) (as_stages p)"
      using Complete_at by (simp add: completeStage_def)
    show ?thesis
      unfolding forward_level_def st
      using inv inv' by (intro derive_rank_mono) (auto simp: forward_inv_def st)
  qed
qed

interpretation fwd: monotone_machine forward_step forward_inv forward_level
  by unfold_locales (simp_all add: forward_step_inv forward_step_mono)

end
