(* ===== verification/ApplicationSafety.thy ===== *)
theory ApplicationSafety imports ApplicationHook begin

text \<open>
  What the application's reducer promises, over whole runs: the shape every run keeps, the effect
  of a bounce, the recovery from one, the order of the stages and the status shown to the member.
\<close>

subsection \<open>Bounces\<close>

lemma derive_bounced:
  assumes "s \<in> set stages" "sc_status s = St_bounced" "caseStatus \<noteq> Some ''complete''"
  shows "deriveApplicationStatus stages caseStatus = App_bounced"
  using assms by (auto simp: deriveApplicationStatus_def list_ex_iff)

lemma derive_not_submitted: "deriveApplicationStatus stages caseStatus \<noteq> App_submitted"
  by (simp add: deriveApplicationStatus_def)

text \<open>What the reviewer's bounce makes of the completion record of each stage.\<close>

lemma completion_of_bounce_cases:
  assumes "map sc_stage (as_stages p) = ALL_STAGES"
  obtains c where "completion_of p st = Some c" "sc_stage c = st"
    "completion_of (applyBounce now p b m) st = Some (bounce_completion now b m c)"
  using completion_of_exists[OF assms, of st] by (auto simp: completion_of_bounce)

lemma status_of_bounce:
  assumes "map sc_stage (as_stages p) = ALL_STAGES"
  shows "status_of (applyBounce now p b m) st =
     (if st = b then Some St_bounced
      else if getStageIndex st > getStageIndex b \<and> getStageIndex st \<ge> 0 then Some St_not_started
      else status_of p st)"
  using assms
  by (rule completion_of_bounce_cases[where st = st and b = b and m = m and now = now])
    (simp add: status_of_def bounce_completion_def Let_def)



subsection \<open>Runs\<close>



subsection \<open>Forward walk\<close>

definition advances :: "string \<Rightarrow> nat \<Rightarrow> application_state \<Rightarrow> application_state" where
  "advances now n p = ((advanceStage now) ^^ n) p"

lemma advances_simps [simp]:
  "advances now 0 p = p"
  "advances now (Suc n) p = advances now n (advanceStage now p)"
  by (simp_all add: advances_def funpow_swap1)

lemmas advance_eval = advanceStage_def getNextStage_def Let_def advance_completion_def

text \<open>
  After a bounce at a member stage, completing that stage and the stages after it (five minus
  the stage's index advances) resubmits the application: staff review becomes the current stage,
  the submission time is the time of the last advance, and the derived status is "under review",
  provided the earlier stages were complete and staff review was not finished.
\<close>

theorem bounce_recovery:
  assumes shape: "map sc_stage (as_stages p) = ALL_STAGES"
    and member: "0 \<le> getStageIndex b"
    and earlier: "list_all (\<lambda>st. status_of p st = Some St_complete)
                    (take (nat (getStageIndex b)) MEMBER_STAGES)"
    and staff: "status_of p Staff_review = Some St_not_started"
    and final: "status_of p Complete_stage = Some St_not_started"
  shows "let q = advances now (nat (5 - getStageIndex b)) (applyBounce t p b msg) in
           as_current_stage q = Staff_review \<and> as_status q = App_submitted
         \<and> as_submitted_at q = Some now
         \<and> deriveApplicationStatus (as_stages q) None = App_under_review"
proof -
  obtain c1 c2 c3 c4 c5 c6 c7 where xs: "as_stages p = [c1, c2, c3, c4, c5, c6, c7]"
    and sc: "sc_stage c1 = Verify_info" "sc_stage c2 = Upload_docs" "sc_stage c3 = Benefit_estimate"
      "sc_stage c4 = Payment_option" "sc_stage c5 = Review_submit" "sc_stage c6 = Staff_review"
      "sc_stage c7 = Complete_stage"
    using all_stages_cases[OF shape] by metis
  have e: "sc_status c6 = St_not_started" "sc_status c7 = St_not_started"
    using staff final by (simp_all add: status_of_def completion_of_def xs sc)
  have pre: "0 < getStageIndex b \<Longrightarrow> sc_status c1 = St_complete"
    "1 < getStageIndex b \<Longrightarrow> sc_status c2 = St_complete"
    "2 < getStageIndex b \<Longrightarrow> sc_status c3 = St_complete"
    "3 < getStageIndex b \<Longrightarrow> sc_status c4 = St_complete"
    using earlier member
    by (cases b; simp add: MEMBER_STAGES_def status_of_def completion_of_def xs sc eval_nat_numeral)+
  show ?thesis
    using member pre e
    by (cases b) (simp_all add: applyBounce_def advance_eval bounce_completion_def xs sc
        eval_nat_numeral status_defs)
qed

theorem bounce_recovery_witness:
  "as_current_stage (advances ''t3'' 4 (applyBounce ''t2''
      (advances ''t1'' 1 (createInitialApplicationState 9 None)) Upload_docs ''fix'')) = Staff_review"
proof -
  let ?p = "advances ''t1'' 1 (createInitialApplicationState 9 None)"
  have e: "map sc_stage (as_stages ?p) = ALL_STAGES" "status_of ?p Verify_info = Some St_complete"
    "status_of ?p Staff_review = Some St_not_started" "status_of ?p Complete_stage = Some St_not_started"
    by (simp_all add: advance_eval createInitialApplicationState_def initial_completion_def
      ALL_STAGES_def MEMBER_STAGES_def status_of_def completion_of_def)
  show ?thesis
    using bounce_recovery[of ?p Upload_docs "''t3''" "''t2''" "''fix''"] e
    by (simp add: Let_def MEMBER_STAGES_def)
qed

text \<open>The stages of a new application, advanced n times.\<close>

definition walk_completion :: "nat \<Rightarrow> string \<Rightarrow> nat \<Rightarrow> member_stage \<Rightarrow> stage_completion" where
  "walk_completion n now i st =
     \<lparr>sc_stage = st,
      sc_status = (if i < n then St_complete else if i = n then St_in_progress else St_not_started),
      sc_completed_at = (if i < n then Some now else None),
      sc_bounced_at = None, sc_bounce_message = None\<rparr>"

lemma upto_six: "n \<le> 6 \<Longrightarrow> n \<in> {0, 1, 2, 3, 4, 5, 6 :: nat}"
  by auto

text \<open>
  Advancing a new application n times (n at most six) brings it to the n-th of the seven
  stages with exactly the stages before it complete and that stage in progress. It counts as
  submitted, with a submission time, exactly from the fifth advance on, and a further advance at
  the last stage changes nothing.
\<close>

theorem forward_walk:
  assumes "n \<le> 6"
  shows "let q = advances now n (createInitialApplicationState m d) in
           as_current_stage q = ALL_STAGES ! n
         \<and> as_stages q = map2 (walk_completion n now) [0..<7] ALL_STAGES
         \<and> (as_status q = App_submitted \<longleftrightarrow> 5 \<le> n)
         \<and> as_submitted_at q = (if 5 \<le> n then Some now else None)
         \<and> (n = 6 \<longrightarrow> advanceStage now q = q)"
  using upto_six[OF assms]
  by (elim insertE)
    (simp_all add: advance_eval createInitialApplicationState_def initial_completion_def
      walk_completion_def ALL_STAGES_def MEMBER_STAGES_def eval_nat_numeral upt_rec)

theorem forward_walk_witness:
  "as_current_stage (advances ''t'' 5 (createInitialApplicationState 1 None)) = Staff_review"
  using forward_walk[of 5 "''t''" 1 None] by (simp add: Let_def ALL_STAGES_def MEMBER_STAGES_def)

text \<open>
  As long as nobody bounces the application, the status derived for the member only moves
  forward (not started, in progress, under review, complete) over any sequence of stage
  completions, in any order, whichever page stage they start from.
\<close>

theorem status_moves_forward:
  assumes "forward_inv p" and "i \<le> j"
  shows "status_rank (deriveApplicationStatus (as_stages (run forward_step p (take i ms))) None)
       \<le> status_rank (deriveApplicationStatus (as_stages (run forward_step p (take j ms))) None)"
  using fwd.run_mono_between[OF assms, of ms] by (simp add: forward_level_def)

theorem status_moves_forward_witness:
  "forward_inv (createInitialApplicationState 3 None) \<and>
   status_rank (deriveApplicationStatus (as_stages (createInitialApplicationState 3 None)) None)
     \<le> status_rank (deriveApplicationStatus
          (as_stages (completeStage ''t'' (createInitialApplicationState 3 None) Review_submit)) None)"
proof -
  have "forward_inv (createInitialApplicationState 3 None)"
    by (simp add: forward_inv_def createInitialApplicationState_def initial_completion_def
        ALL_STAGES_def MEMBER_STAGES_def)
  then show ?thesis
    using status_moves_forward[of "createInitialApplicationState 3 None" 0 1
        "[Complete_at ''t'' Review_submit]"]
    by simp
qed

subsection \<open>Back navigation\<close>

definition next_stage_rel :: "(member_stage \<times> member_stage) set" where
  "next_stage_rel = {(a, b). FORWARD_TRANSITIONS a = Some b}"

lemma next_stage_trancl_index:
  assumes "(a, b) \<in> next_stage_rel\<^sup>+"
  shows "index_of a ALL_STAGES < index_of b ALL_STAGES"
  using assms
proof (induction rule: trancl_induct)
  case (base y)
  then show ?case
    by (cases a) (auto simp: next_stage_rel_def ALL_STAGES_def MEMBER_STAGES_def)
next
  case (step y z)
  have "index_of y ALL_STAGES < index_of z ALL_STAGES"
    using step.hyps(2) by (cases y) (auto simp: next_stage_rel_def ALL_STAGES_def MEMBER_STAGES_def)
  with step.IH show ?case by simp
qed

lemma next_stage_index_trancl:
  assumes "0 \<le> getStageIndex a" "getStageIndex a < getStageIndex b"
  shows "(a, b) \<in> next_stage_rel\<^sup>+"
proof -
  have s: "(Verify_info, Upload_docs) \<in> next_stage_rel" "(Upload_docs, Benefit_estimate) \<in> next_stage_rel"
    "(Benefit_estimate, Payment_option) \<in> next_stage_rel" "(Payment_option, Review_submit) \<in> next_stage_rel"
    by (simp_all add: next_stage_rel_def)
  show ?thesis
    using assms by (cases a; cases b; simp) (meson s trancl.simps)+
qed

lemma index_of_all_member:
  "0 \<le> getStageIndex a \<Longrightarrow> index_of a ALL_STAGES = getStageIndex a"
  by (cases a) (simp_all add: ALL_STAGES_def MEMBER_STAGES_def)

text \<open>
  The back-navigation test accepts a target exactly when both stages are member stages and
  the forward transitions lead from the target to the current stage: it never offers a jump
  forward, a jump to the current stage, or a jump out of staff review.
\<close>

theorem canNavigateBack_iff:
  "canNavigateBack target current \<longleftrightarrow>
     target \<in> set MEMBER_STAGES \<and> current \<in> set MEMBER_STAGES \<and> (target, current) \<in> next_stage_rel\<^sup>+"
proof -
  have mem: "x \<in> set MEMBER_STAGES \<longleftrightarrow> 0 \<le> getStageIndex x" for x
    by (cases x) (simp_all add: member_stages_set)
  show ?thesis
    using next_stage_index_trancl[of target current] next_stage_trancl_index[of target current]
      index_of_all_member[of target] index_of_all_member[of current]
    by (auto simp: canNavigateBack_def Let_def mem)
qed

subsection \<open>The case behind an application\<close>

record member_case =
  mc_case_type :: string
  mc_status :: string

definition existingCase :: "member_case list \<Rightarrow> member_case option" where
  "existingCase cases = find (\<lambda>c. mc_case_type c = ''retirement'' \<and> mc_status c \<noteq> ''complete'') cases"

lemma derive_case:
  "caseStatus \<noteq> Some ''complete'' \<Longrightarrow>
   deriveApplicationStatus stages caseStatus = deriveApplicationStatus stages None"
  by (simp add: deriveApplicationStatus_def)

text \<open>
  The case found for the member never decides the status the hook shows: it looks for a case
  that is not complete and then asks whether it is, so the status is the one derived from the
  stages alone, also once the case service reports the case as completed.
\<close>

theorem case_never_completes_application:
  "applicationStatus appState (map_option mc_status (existingCase cases)) = applicationStatus appState None"
proof -
  have "map_option mc_status (existingCase cases) \<noteq> Some ''complete''"
    by (auto simp: existingCase_def find_Some_iff)
  then have "\<And>s. deriveApplicationStatus s (map_option mc_status (existingCase cases)) =
      deriveApplicationStatus s None"
    by (rule derive_case)
  then show ?thesis
    by (simp only: applicationStatus_def)
qed

end
