(* ===== verification/BenefitTypes.thy ===== *)
theory BenefitTypes imports Prelude begin

text \<open>
  The data of a benefit calculation and of a member: src/frontend/src/types/BenefitCalculation.ts
  and the entities of types/Member.ts the pages read. Field names carry a prefix per record; an
  optional field, and a field the code reads with \<open>??\<close>, is an \<open>option\<close>.
\<close>

subsection \<open>types/BenefitCalculation.ts\<close>

record age_at_retirement =
  aa_years :: int
  aa_months :: int
  aa_completed_years :: int
  aa_decimal :: number

record service_credit_data =
  scd_earned_years :: number
  scd_purchased_years :: number
  scd_military_years :: number
  scd_total_years :: number
  scd_eligibility_years :: number
  scd_benefit_years :: number

record rule_evaluation =
  re_rule_id :: string
  re_rule_name :: string
  re_met :: bool
  re_details :: string
  re_source_reference :: string

record eligibility_result =
  er_member_id :: int
  er_retirement_date :: string
  er_age_at_retirement :: "age_at_retirement option"
  er_tier :: int
  er_tier_source :: string
  er_vested :: bool
  er_rule_of_n_sum :: "number option"
  er_service_credit :: "service_credit_data option"
  er_evaluations :: "rule_evaluation list"
  er_best_eligible_type :: string
  er_reduction_pct :: "number option"
  er_reduction_factor :: number

record ams_calc_detail =
  ams_window_months :: int
  ams_window_start :: string
  ams_window_end :: string
  ams_amount :: number
  ams_leave_payout_included :: bool
  ams_leave_payout_amount :: number
  ams_leave_payout_ams_impact :: number

record formula_detail =
  fd_ams :: number
  fd_multiplier :: number
  fd_multiplier_pct :: string
  fd_service_years :: number
  fd_service_type :: string
  fd_gross_benefit :: number
  fd_formula_display :: string

record reduction_detail =
  rdn_applies :: bool
  rdn_retirement_type :: string
  rdn_age_at_retirement :: number
  rdn_years_under_65 :: number
  rdn_rate_per_year :: number
  rdn_total_reduction_pct :: number
  rdn_reduction_factor :: "number option"
  rdn_reduced_benefit :: number
  rdn_source_reference :: string

record js_option =
  jo_member_amount :: "number option"
  jo_monthly_amount :: "number option"
  jo_survivor_amount :: number
  jo_survivor_pct :: number
  jo_factor :: number

record payment_options =
  pop_base_amount :: number
  pop_maximum :: "number option"
  pop_js_100 :: "js_option option"
  pop_js_75 :: "js_option option"
  pop_js_50 :: "js_option option"
  pop_joint_survivor_100 :: "js_option option"
  pop_joint_survivor_75 :: "js_option option"
  pop_joint_survivor_50 :: "js_option option"
  pop_disclaimer :: string

record dro_calc_result =
  dro_has_dro :: bool
  dro_marriage_date :: string
  dro_divorce_date :: string
  dro_marital_service_years :: number
  dro_total_service_years :: number
  dro_marital_fraction :: "number option"
  dro_gross_benefit :: number
  dro_marital_share :: number
  dro_alt_payee_pct :: "number option"
  dro_alt_payee_amount :: number
  dro_member_benefit_after_dro :: number
  dro_division_method :: string
  dro_division_value :: "number option"
  dro_alt_payee_first_name :: "string option"
  dro_alt_payee_last_name :: "string option"

record benefit_calc_result =
  bc_member_id :: int
  bc_retirement_date :: "string option"
  bc_tier :: "int option"
  bc_eligibility :: "eligibility_result option"
  bc_ams :: ams_calc_detail
  bc_formula :: formula_detail
  bc_reduction :: reduction_detail
  bc_maximum_benefit :: "number option"
  bc_payment_options :: "payment_options option"
  bc_dro :: "dro_calc_result option"

record scenario_entry =
  se_retirement_date :: string
  se_age :: number
  se_earned_service :: number
  se_total_service :: number
  se_eligibility_type :: string
  se_rule_of_n_sum :: number
  se_rule_of_n_met :: bool
  se_reduction_pct :: number
  se_monthly_benefit :: number

subsection \<open>types/Member.ts\<close>

record member =
  mb_member_id :: int
  mb_first_name :: string
  mb_last_name :: string
  mb_dob :: string
  mb_hire_date :: "string option"
  mb_status_code :: string
  mb_tier_code :: "int option"
  mb_tier :: "int option"
  mb_dept_name :: "string option"
  mb_department :: "string option"

record service_credit_summary =
  scs_member_id :: int
  scs_earned_years :: number
  scs_purchased_years :: number
  scs_military_years :: number
  scs_leave_years :: number
  scs_total_years :: number
  scs_eligibility_years :: number
  scs_benefit_years :: number

record beneficiary =
  bn_bene_id :: int
  bn_member_id :: int
  bn_bene_type :: string
  bn_first_name :: string
  bn_last_name :: string
  bn_relationship :: "string option"
  bn_dob :: "string option"
  bn_alloc_pct :: number
  bn_eff_date :: string
  bn_end_date :: "string option"

end
