(* ===== verification/WhatIf.thy ===== *)
theory WhatIf imports QueryCache ServiceApis BenefitTypes ApplicationTypes begin

text \<open>
  The benefit calculator \<open>useWhatIfCalculator\<close> of src/frontend/src/hooks/useWhatIfCalculator.ts:
  the inputs, their debounced copy and the timers between the two, the three queries made of the
  debounced inputs, and the result composed of the answers. A change of the inputs re-renders and
  runs the effect's cleanup and the effect before the next event; a timer keeps the inputs it was
  created with.
\<close>

record whatif_inputs =
  wi_retirement_date :: string
  wi_service_purchase_years :: number
  wi_salary_growth_pct :: number
  wi_payment_option :: string
  wi_beneficiary_dob :: "string option"

definition DEBOUNCE_MS :: nat where "DEBOUNCE_MS = 500"

definition DEFAULT_INPUTS :: whatif_inputs where
  "DEFAULT_INPUTS =
     \<lparr>wi_retirement_date = [], wi_service_purchase_years = 0, wi_salary_growth_pct = 3,
      wi_payment_option = ''maximum'', wi_beneficiary_dob = None\<rparr>"

subsection \<open>The debounced inputs\<close>

record debounce_timer =
  dt_id :: nat
  dt_due :: nat
  dt_inputs :: whatif_inputs

record whatif_state =
  ws_inputs :: whatif_inputs
  ws_debounced :: whatif_inputs
  ws_timer_ref :: "nat option"
  ws_pending :: "debounce_timer list"
  ws_next_id :: nat
  ws_clock :: nat

definition clear_ref :: "whatif_state \<Rightarrow> whatif_state" where
  "clear_ref s = s\<lparr>ws_pending := filter (\<lambda>t. ws_timer_ref s \<noteq> Some (dt_id t)) (ws_pending s)\<rparr>"

definition debounce_effect :: "whatif_state \<Rightarrow> whatif_state" where
  "debounce_effect s =
     (let s' = clear_ref s in
      s'\<lparr>ws_pending := ws_pending s' @
           [\<lparr>dt_id = ws_next_id s', dt_due = ws_clock s' + DEBOUNCE_MS, dt_inputs = ws_inputs s'\<rparr>],
         ws_timer_ref := Some (ws_next_id s'), ws_next_id := ws_next_id s' + 1\<rparr>)"

text \<open>Setting the inputs: the cleanup of the last effect, then the effect on the new inputs.\<close>

definition set_inputs :: "whatif_inputs \<Rightarrow> whatif_state \<Rightarrow> whatif_state" where
  "set_inputs i s = debounce_effect ((clear_ref s)\<lparr>ws_inputs := i\<rparr>)"

datatype input_change =
    Set_retirement_date string
  | Set_service_purchase_years number
  | Set_salary_growth_pct number
  | Set_payment_option string
  | Set_beneficiary_dob "string option"

fun change_inputs :: "input_change \<Rightarrow> whatif_inputs \<Rightarrow> whatif_inputs" where
  "change_inputs (Set_retirement_date d) i = i\<lparr>wi_retirement_date := d\<rparr>"
| "change_inputs (Set_service_purchase_years y) i = i\<lparr>wi_service_purchase_years := y\<rparr>"
| "change_inputs (Set_salary_growth_pct g) i = i\<lparr>wi_salary_growth_pct := g\<rparr>"
| "change_inputs (Set_payment_option p) i = i\<lparr>wi_payment_option := p\<rparr>"
| "change_inputs (Set_beneficiary_dob b) i = i\<lparr>wi_beneficiary_dob := b\<rparr>"

definition updateInput :: "input_change \<Rightarrow> whatif_state \<Rightarrow> whatif_state" where
  "updateInput c s = set_inputs (change_inputs c (ws_inputs s)) s"

text \<open>\<open>initial\<close> is \<open>{ ...DEFAULT_INPUTS, ...initialInputs }\<close>.\<close>

definition resetInputs :: "whatif_inputs \<Rightarrow> whatif_state \<Rightarrow> whatif_state" where
  "resetInputs initial s = set_inputs initial s"

definition calculateNow :: "whatif_state \<Rightarrow> whatif_state" where
  "calculateNow s = (clear_ref s)\<lparr>ws_debounced := ws_inputs s\<rparr>"

definition debounce_fires :: "debounce_timer \<Rightarrow> whatif_state \<Rightarrow> whatif_state" where
  "debounce_fires t s =
     s\<lparr>ws_debounced := dt_inputs t, ws_pending := filter (\<lambda>u. dt_id u \<noteq> dt_id t) (ws_pending s)\<rparr>"

definition whatif_mount :: "whatif_inputs \<Rightarrow> whatif_state" where
  "whatif_mount initial = debounce_effect
     \<lparr>ws_inputs = initial, ws_debounced = initial, ws_timer_ref = None, ws_pending = [],
      ws_next_id = 0, ws_clock = 0\<rparr>"

inductive whatif_step :: "whatif_inputs \<Rightarrow> whatif_state \<Rightarrow> whatif_state \<Rightarrow> bool" for initial where
  wi_update: "whatif_step initial s (updateInput c s)"
| wi_set: "whatif_step initial s (set_inputs i s)"
| wi_reset: "whatif_step initial s (resetInputs initial s)"
| wi_calculate: "whatif_step initial s (calculateNow s)"
| wi_fire: "t \<in> set (ws_pending s) \<Longrightarrow> dt_due t \<le> ws_clock s \<Longrightarrow>
    whatif_step initial s (debounce_fires t s)"
| wi_wait: "ws_clock s \<le> n \<Longrightarrow> whatif_step initial s (s\<lparr>ws_clock := n\<rparr>)"

inductive whatif_reachable :: "whatif_inputs \<Rightarrow> whatif_state \<Rightarrow> bool" for initial where
  wi_start: "whatif_reachable initial (whatif_mount initial)"
| wi_next: "whatif_reachable initial s \<Longrightarrow> whatif_step initial s s' \<Longrightarrow> whatif_reachable initial s'"

text \<open>
  At most one timer is pending. It is the one the ref names, it carries the current inputs and is
  due within the debounce time; with none pending the debounced inputs are the inputs.
\<close>

definition debounce_inv :: "whatif_state \<Rightarrow> bool" where
  "debounce_inv s \<longleftrightarrow>
     (case ws_pending s of
        [] \<Rightarrow> ws_debounced s = ws_inputs s
      | [t] \<Rightarrow> ws_timer_ref s = Some (dt_id t) \<and> dt_inputs t = ws_inputs s
              \<and> dt_due t \<le> ws_clock s + DEBOUNCE_MS
      | _ \<Rightarrow> False)"

lemma debounce_inv_cases:
  assumes "debounce_inv s"
  obtains (settled) "ws_pending s = []" "ws_debounced s = ws_inputs s"
  | (waiting) t where "ws_pending s = [t]" "ws_timer_ref s = Some (dt_id t)"
      "dt_inputs t = ws_inputs s" "dt_due t \<le> ws_clock s + DEBOUNCE_MS"
  using assms by (auto simp: debounce_inv_def split: list.splits)

lemma clear_ref_empties: "debounce_inv s \<Longrightarrow> ws_pending (clear_ref s) = []"
  by (erule debounce_inv_cases) (simp_all add: clear_ref_def)

lemma clear_ref_frame [simp]:
  "ws_inputs (clear_ref s) = ws_inputs s" "ws_timer_ref (clear_ref s) = ws_timer_ref s"
  "ws_next_id (clear_ref s) = ws_next_id s" "ws_clock (clear_ref s) = ws_clock s"
  by (simp_all add: clear_ref_def)

lemma effect_inv: "ws_pending s = [] \<Longrightarrow> debounce_inv (debounce_effect s)"
  by (simp add: debounce_effect_def debounce_inv_def Let_def clear_ref_def)

lemma set_inputs_inv: "debounce_inv s \<Longrightarrow> debounce_inv (set_inputs i s)"
  by (simp add: set_inputs_def effect_inv clear_ref_empties)

lemma whatif_step_inv: "whatif_step initial s s' \<Longrightarrow> debounce_inv s \<Longrightarrow> debounce_inv s'"
proof (induction rule: whatif_step.induct)
  case (wi_calculate s)
  then show ?case by (simp add: calculateNow_def debounce_inv_def clear_ref_empties)
next
  case (wi_fire t s)
  then show ?case by (elim debounce_inv_cases) (auto simp: debounce_fires_def debounce_inv_def)
next
  case (wi_wait s n)
  then show ?case by (elim debounce_inv_cases) (auto simp: debounce_inv_def)
qed (simp_all add: updateInput_def resetInputs_def set_inputs_inv)

lemma whatif_inv: "whatif_reachable initial s \<Longrightarrow> debounce_inv s"
proof (induction rule: whatif_reachable.induct)
  case wi_start
  then show ?case by (simp add: whatif_mount_def effect_inv)
qed (rule whatif_step_inv)

subsection \<open>The queries and the result\<close>

definition hasRetirementDate :: "whatif_inputs \<Rightarrow> bool" where
  "hasRetirementDate d \<longleftrightarrow> 0 < length (wi_retirement_date d)"

definition whatif_eligibility :: "vite_env \<Rightarrow> int \<Rightarrow> whatif_inputs \<Rightarrow> query_spec" where
  "whatif_eligibility vite memberId d =
     query_of [JStr ''whatif-eligibility'', jint memberId, JStr (wi_retirement_date d)]
       (intelligenceAPI_evaluateEligibility vite memberId (Some (wi_retirement_date d)))
       (0 < memberId \<and> hasRetirementDate d)"

definition whatif_benefit :: "vite_env \<Rightarrow> int \<Rightarrow> whatif_inputs \<Rightarrow> query_spec" where
  "whatif_benefit vite memberId d =
     query_of [JStr ''whatif-benefit'', jint memberId, JStr (wi_retirement_date d)]
       (intelligenceAPI_calculateBenefit vite memberId (wi_retirement_date d) None)
       (0 < memberId \<and> hasRetirementDate d)"

definition whatif_options :: "vite_env \<Rightarrow> int \<Rightarrow> whatif_inputs \<Rightarrow> query_spec" where
  "whatif_options vite memberId d =
     query_of [JStr ''whatif-options'', jint memberId, JStr (wi_retirement_date d),
         jopt JStr (wi_beneficiary_dob d)]
       (intelligenceAPI_calculateOptions vite memberId (wi_retirement_date d) (wi_beneficiary_dob d) None)
       (0 < memberId \<and> hasRetirementDate d)"

definition whatif_queries :: "vite_env \<Rightarrow> int \<Rightarrow> whatif_inputs \<Rightarrow> query_spec list" where
  "whatif_queries vite memberId d =
     [whatif_eligibility vite memberId d, whatif_benefit vite memberId d, whatif_options vite memberId d]"

record reduction_view =
  rv_applies :: bool
  rv_years_under_65 :: number
  rv_rate_per_year :: number

record whatif_result =
  wr_monthly_benefit :: number
  wr_eligibility_type :: string
  wr_reduction_pct :: "number option"
  wr_ams :: number
  wr_base_benefit :: number
  wr_service_years :: number
  wr_formula_display :: string
  wr_reduction_detail :: reduction_view
  wr_payment_options :: "payment_option_result list"
  wr_raw_benefit :: benefit_calc_result
  wr_raw_eligibility :: eligibility_result

definition js_result :: "string \<Rightarrow> js_option option \<Rightarrow> payment_option_result list" where
  "js_result key js =
     (case js of
        None \<Rightarrow> []
      | Some j \<Rightarrow> [\<lparr>po_option_id = key,
          po_member_amount = coalesce (jo_member_amount j) (coalesce (jo_monthly_amount j) 0),
          po_survivor_amount = jo_survivor_amount j\<rparr>])"

definition paymentOptionResults :: "payment_options option \<Rightarrow> payment_option_result list" where
  "paymentOptionResults opts =
     (case opts of
        None \<Rightarrow> []
      | Some p \<Rightarrow>
          (case pop_maximum p of
             None \<Rightarrow> []
           | Some m \<Rightarrow> [\<lparr>po_option_id = ''maximum'', po_member_amount = m, po_survivor_amount = 0\<rparr>])
          @ js_result ''js_100'' (pop_js_100 p) @ js_result ''js_75'' (pop_js_75 p)
          @ js_result ''js_50'' (pop_js_50 p))"

definition whatif_compose ::
  "benefit_calc_result option \<Rightarrow> eligibility_result option \<Rightarrow> payment_options option
     \<Rightarrow> whatif_result option" where
  "whatif_compose benefit eligibility opts =
     (case (benefit, eligibility) of
        (Some b, Some e) \<Rightarrow> Some
          \<lparr>wr_monthly_benefit = fd_gross_benefit (bc_formula b)
             * coalesce (rdn_reduction_factor (bc_reduction b)) 1,
           wr_eligibility_type = er_best_eligible_type e,
           wr_reduction_pct = er_reduction_pct e,
           wr_ams = ams_amount (bc_ams b),
           wr_base_benefit = fd_gross_benefit (bc_formula b),
           wr_service_years = fd_service_years (bc_formula b),
           wr_formula_display = fd_formula_display (bc_formula b),
           wr_reduction_detail =
             \<lparr>rv_applies = rdn_applies (bc_reduction b),
              rv_years_under_65 = rdn_years_under_65 (bc_reduction b),
              rv_rate_per_year = rdn_rate_per_year (bc_reduction b)\<rparr>,
           wr_payment_options = paymentOptionResults opts,
           wr_raw_benefit = b, wr_raw_eligibility = e\<rparr>
      | _ \<Rightarrow> None)"

record scenario_results =
  sr_monthly_benefit :: number
  sr_eligibility_type :: string
  sr_reduction_pct :: "number option"
  sr_ams :: number
  sr_base_benefit :: number
  sr_service_years :: number
  sr_payment_options :: "payment_option_result list"

definition toScenario ::
  "whatif_inputs \<Rightarrow> whatif_result option \<Rightarrow> (whatif_inputs \<times> scenario_results) option" where
  "toScenario debouncedInputs result =
     map_option (\<lambda>r. (debouncedInputs,
       \<lparr>sr_monthly_benefit = wr_monthly_benefit r, sr_eligibility_type = wr_eligibility_type r,
        sr_reduction_pct = wr_reduction_pct r, sr_ams = wr_ams r, sr_base_benefit = wr_base_benefit r,
        sr_service_years = wr_service_years r, sr_payment_options = wr_payment_options r\<rparr>)) result"

subsection \<open>Properties\<close>

text \<open>
  C23: However the member types, resets and calculates, the calculator's copy of the inputs follows
  them: at most one timer is pending, with none pending the copy is the current inputs, a pending
  one is due within half a second and brings the copy up to date when it fires, and "Calculate"
  does so at once and leaves no timer.
\<close>

theorem calculator_follows_inputs:
  assumes "whatif_reachable initial s"
  shows "length (ws_pending s) \<le> 1
     \<and> (ws_pending s = [] \<longrightarrow> ws_debounced s = ws_inputs s)
     \<and> list_all (\<lambda>t. dt_due t \<le> ws_clock s + DEBOUNCE_MS
         \<and> ws_debounced (debounce_fires t s) = ws_inputs (debounce_fires t s)
         \<and> ws_pending (debounce_fires t s) = []) (ws_pending s)
     \<and> ws_debounced (calculateNow s) = ws_inputs (calculateNow s) \<and> ws_pending (calculateNow s) = []"
  using whatif_inv[OF assms]
  by (elim debounce_inv_cases) (auto simp: debounce_fires_def calculateNow_def clear_ref_def)

theorem calculator_follows_inputs_witness:
  "let s = updateInput (Set_retirement_date ''2027-01-01'') (whatif_mount DEFAULT_INPUTS) in
     length (ws_pending s) \<le> 1 \<and> ws_pending (calculateNow s) = []"
proof -
  have "whatif_reachable DEFAULT_INPUTS
      (updateInput (Set_retirement_date ''2027-01-01'') (whatif_mount DEFAULT_INPUTS))"
    by (rule wi_next[OF wi_start wi_update])
  from calculator_follows_inputs[OF this] show ?thesis unfolding Let_def by blast
qed

text \<open>
  The calculator asks "what if" of the retirement date and the beneficiary only: the service
  purchase, the salary growth and the payment option change neither a query (its key, its call or
  whether it runs) nor the result shown, and a scenario saved with them holds the same figures.
\<close>

theorem ignored_inputs:
  "whatif_queries vite memberId (d\<lparr>wi_service_purchase_years := y, wi_salary_growth_pct := g,
       wi_payment_option := p\<rparr>) = whatif_queries vite memberId d
 \<and> map_option snd (toScenario (d\<lparr>wi_service_purchase_years := y, wi_salary_growth_pct := g,
       wi_payment_option := p\<rparr>) r) = map_option snd (toScenario d r)"
  by (cases r) (simp_all add: whatif_queries_def whatif_eligibility_def whatif_benefit_def
      whatif_options_def hasRetirementDate_def toScenario_def)

end
