(* ===== verification/ApplicationPage.thy ===== *)
theory ApplicationPage imports ApplicationSafety WhatIf begin

text \<open>
  The member's page over the application hook: ApplicationSection.tsx, ApplicationTracker.tsx and
  the stage components of src/frontend/src/components/portal/application. Which view the section
  shows, which buttons a view offers and which callbacks they run. What the section hands its
  stages beside the hook's state (the estimate, the payment options and their amounts) is the
  record \<open>stage_data\<close>, so the guards can be stated for any such data and then for the data
  the section passes.
\<close>

subsection \<open>The guards of the stages\<close>

definition allAddressed :: "verification_item list \<Rightarrow> bool" where
  "allAddressed items \<longleftrightarrow> 0 < length items \<and> list_all (\<lambda>item. vi_verified item \<noteq> None) items"

definition hasFlaggedItems :: "verification_item list \<Rightarrow> bool" where
  "hasFlaggedItems items \<longleftrightarrow> list_ex (\<lambda>item. vi_verified item = Some False) items"

definition allUploaded :: "required_document list \<Rightarrow> bool" where
  "allUploaded documents \<longleftrightarrow> list_all rd_uploaded (filter rd_required documents)"

definition allAcknowledged :: "acknowledgment list \<Rightarrow> bool" where
  "allAcknowledged acks \<longleftrightarrow> list_all ack_checked acks"

datatype step_status = Step_complete | Step_current | Step_bounced | Step_future

definition getStepStatus :: "member_stage \<Rightarrow> member_stage \<Rightarrow> stage_completion list \<Rightarrow> step_status" where
  "getStepStatus stage currentStage stages =
     (let completion = map_option sc_status (find (\<lambda>s. sc_stage s = stage) stages) in
      if completion = Some St_bounced then Step_bounced
      else if completion = Some St_complete then Step_complete
      else if stage = currentStage then Step_current
      else Step_future)"

record payment_option_config =
  pc_id :: string
  pc_label :: string
  pc_description :: string
  pc_has_survivor :: bool
  pc_survivor_pct :: "number option"

record stage_data =
  sd_result :: "whatif_result option"
  sd_loading :: bool
  sd_options :: "payment_option_config list"
  sd_amounts :: "payment_option_result list"

text \<open>What the section passes: no estimate, no options, no amounts.\<close>

definition section_data :: stage_data where
  "section_data = \<lparr>sd_result = None, sd_loading = False, sd_options = [], sd_amounts = []\<rparr>"

subsection \<open>The view\<close>

datatype section_shown =
    View_loading
  | View_not_started
  | View_review
  | View_complete
  | View_blank
  | View_stage member_stage

definition effectiveStatus :: "member_case option \<Rightarrow> app_hook \<Rightarrow> app_status" where
  "effectiveStatus existing appState =
     (if appState \<noteq> None then applicationStatus appState (map_option mc_status existing)
      else if existing \<noteq> None then App_under_review
      else App_not_started)"

definition section_view :: "bool \<Rightarrow> member_case option \<Rightarrow> app_hook \<Rightarrow> section_shown" where
  "section_view casesLoading existing appState =
     (if casesLoading then View_loading
      else if effectiveStatus existing appState = App_not_started then View_not_started
      else if effectiveStatus existing appState = App_under_review \<and> appState = None then View_review
      else if effectiveStatus existing appState = App_complete
              \<or> map_option mc_status existing = Some ''complete'' then View_complete
      else case appState of
             None \<Rightarrow> View_blank
           | Some p \<Rightarrow> View_stage (as_current_stage p))"

text \<open>A button or control of the page.\<close>

datatype page_click =
    Click_start
  | Click_step member_stage
  | Click_correct string
  | Click_flag string
  | Click_continue
  | Click_option string
  | Click_ack string bool
  | Click_resolve

text \<open>
  Whether the control is there and enabled. The tracker's steps show on every stage view and react
  when their stage is complete; "Continue" is the button that ends a stage ("Looks Correct" for
  the estimate, "Submit Application" for the review).
\<close>

fun verify_offers :: "verification_item list \<Rightarrow> page_click \<Rightarrow> bool" where
  "verify_offers items (Click_correct f) \<longleftrightarrow> list_ex (\<lambda>i. vi_field_name i = f) items"
| "verify_offers items (Click_flag f) \<longleftrightarrow> list_ex (\<lambda>i. vi_field_name i = f) items"
| "verify_offers items Click_continue \<longleftrightarrow> allAddressed items"
| "verify_offers items _ \<longleftrightarrow> False"

fun upload_offers :: "required_document list \<Rightarrow> page_click \<Rightarrow> bool" where
  "upload_offers documents Click_continue \<longleftrightarrow> allUploaded documents"
| "upload_offers documents _ \<longleftrightarrow> False"

fun estimate_offers :: "whatif_result option \<Rightarrow> bool \<Rightarrow> page_click \<Rightarrow> bool" where
  "estimate_offers result loading Click_continue \<longleftrightarrow> result \<noteq> None \<and> \<not> loading"
| "estimate_offers result loading _ \<longleftrightarrow> False"

fun option_offers ::
  "payment_option_config list \<Rightarrow> payment_selection option \<Rightarrow> page_click \<Rightarrow> bool" where
  "option_offers options selectedOption (Click_option i) \<longleftrightarrow> list_ex (\<lambda>c. pc_id c = i) options"
| "option_offers options selectedOption Click_continue \<longleftrightarrow> selectedOption \<noteq> None"
| "option_offers options selectedOption _ \<longleftrightarrow> False"

fun review_offers :: "acknowledgment list \<Rightarrow> page_click \<Rightarrow> bool" where
  "review_offers acknowledgments (Click_ack i c) \<longleftrightarrow> list_ex (\<lambda>a. ack_id a = i) acknowledgments"
| "review_offers acknowledgments Click_continue \<longleftrightarrow> allAcknowledged acknowledgments"
| "review_offers acknowledgments _ \<longleftrightarrow> False"

fun staff_offers :: "bool \<Rightarrow> string option \<Rightarrow> page_click \<Rightarrow> bool" where
  "staff_offers bounced bounceMessage Click_resolve \<longleftrightarrow>
     bounced \<and> bounceMessage \<noteq> None \<and> bounceMessage \<noteq> Some []"
| "staff_offers bounced bounceMessage _ \<longleftrightarrow> False"

text \<open>The stage content of ApplicationSection: the props each stage component gets.\<close>

fun stage_offers :: "stage_data \<Rightarrow> application_state \<Rightarrow> member_stage \<Rightarrow> page_click \<Rightarrow> bool" where
  "stage_offers d p Verify_info c = verify_offers (as_verification_items p) c"
| "stage_offers d p Upload_docs c = upload_offers (as_required_documents p) c"
| "stage_offers d p Benefit_estimate c = estimate_offers (sd_result d) (sd_loading d) c"
| "stage_offers d p Payment_option c = option_offers (sd_options d) (as_payment_selection p) c"
| "stage_offers d p Review_submit c = review_offers (as_acknowledgments p) c"
| "stage_offers d p Staff_review c = staff_offers (as_status p = App_bounced) (as_bounce_message p) c"
| "stage_offers d p _ c \<longleftrightarrow> False"

definition page_offers ::
  "stage_data \<Rightarrow> member_case option \<Rightarrow> app_hook \<Rightarrow> page_click \<Rightarrow> bool" where
  "page_offers d existing s c \<longleftrightarrow>
     (case section_view False existing s of
        View_not_started \<Rightarrow> c = Click_start
      | View_stage st \<Rightarrow>
          (case s of
             None \<Rightarrow> False
           | Some p \<Rightarrow>
               (case c of
                  Click_step t \<Rightarrow> t \<in> set MEMBER_STAGES \<and> getStepStatus t st (as_stages p) = Step_complete
                | _ \<Rightarrow> stage_offers d p st c))
      | _ \<Rightarrow> False)"

text \<open>
  The callbacks of a click. An option without an amount selects nothing; "Flag" on a flagged item
  only folds the reason away (\<open>item\<close> is the item the row shows).
\<close>

definition selection_of :: "stage_data \<Rightarrow> string \<Rightarrow> payment_selection option" where
  "selection_of d i =
     (case (find (\<lambda>c. pc_id c = i) (sd_options d), find (\<lambda>a. po_option_id a = i) (sd_amounts d)) of
        (Some c, Some a) \<Rightarrow> Some
          \<lparr>ps_option_id = pc_id c, ps_option_label = pc_label c,
           ps_member_amount = po_member_amount a, ps_survivor_amount = po_survivor_amount a\<rparr>
      | _ \<Rightarrow> None)"

definition item_verified :: "app_hook \<Rightarrow> string \<Rightarrow> bool option" where
  "item_verified s f =
     (case s of
        None \<Rightarrow> None
      | Some p \<Rightarrow> (case find (\<lambda>i. vi_field_name i = f) (as_verification_items p) of
                     None \<Rightarrow> None | Some item \<Rightarrow> vi_verified item))"

fun click_effect :: "stage_data \<Rightarrow> int \<Rightarrow> string \<Rightarrow> page_click \<Rightarrow> app_hook \<Rightarrow> app_hook" where
  "click_effect d m now Click_start s = startApplication m None s"
| "click_effect d m now (Click_step t) s = navigateToStage t s"
| "click_effect d m now (Click_correct f) s = updateVerificationItem f True s"
| "click_effect d m now (Click_flag f) s =
     (if item_verified s f = Some False then s else updateVerificationItem f False s)"
| "click_effect d m now Click_continue s = markStageComplete now s"
| "click_effect d m now (Click_option i) s =
     (case selection_of d i of None \<Rightarrow> s | Some sel \<Rightarrow> setPaymentSelection sel s)"
| "click_effect d m now (Click_ack i c) s = updateAcknowledgment i c s"
| "click_effect d m now Click_resolve s = resolveBounce s"

text \<open>
  The reason of a flag (VerifyInfoStage's local state): saved only when it is not blank, and handed
  to \<open>onItemFlagged\<close>.
\<close>

definition handleFlag ::
  "(string \<Rightarrow> string option) \<Rightarrow> string \<Rightarrow> (string \<times> string) option" where
  "handleFlag flagReasons fieldName =
     (case flagReasons fieldName of
        None \<Rightarrow> None
      | Some reason \<Rightarrow> if js_trim reason = [] then None else Some (fieldName, js_trim reason))"

text \<open>The section's \<open>onItemFlagged\<close> does nothing.\<close>

definition onItemFlagged :: "string \<times> string \<Rightarrow> app_hook \<Rightarrow> app_hook" where
  "onItemFlagged flagged s = s"

subsection \<open>Runs of the page\<close>

text \<open>
  A click on an offered control, at some time, whatever cases the member has. \<open>page_loads\<close> is the
  hook's \<open>setVerificationItems\<close> before any item is there, which no page calls: runs with it
  allowed (\<open>loads\<close>) show what the guards ensure, runs without it what the page does.
\<close>

inductive page_step :: "bool \<Rightarrow> stage_data \<Rightarrow> int \<Rightarrow> app_hook \<Rightarrow> app_hook \<Rightarrow> bool"
  for loads d m where
  page_clicks: "page_offers d existing s c \<Longrightarrow> page_step loads d m s (click_effect d m now c s)"
| page_loads: "loads \<Longrightarrow> s = Some p \<Longrightarrow> as_verification_items p = [] \<Longrightarrow>
    page_step loads d m s (setVerificationItems items s)"

inductive page_run :: "bool \<Rightarrow> stage_data \<Rightarrow> int \<Rightarrow> app_hook \<Rightarrow> bool" for loads d m where
  page_opened: "page_run loads d m None"
| page_goes_on: "page_run loads d m s \<Longrightarrow> page_step loads d m s s' \<Longrightarrow> page_run loads d m s'"

subsection \<open>What a run keeps\<close>

definition stage_done :: "application_state \<Rightarrow> member_stage \<Rightarrow> bool" where
  "stage_done p st \<longleftrightarrow> status_of p st = Some St_complete"

definition earlier_stages :: "member_stage \<Rightarrow> member_stage list" where
  "earlier_stages st = takeWhile (\<lambda>t. t \<noteq> st) MEMBER_STAGES"

lemma earlier_stages_simps [simp]:
  "earlier_stages Verify_info = []"
  "earlier_stages Upload_docs = [Verify_info]"
  "earlier_stages Benefit_estimate = [Verify_info, Upload_docs]"
  "earlier_stages Payment_option = [Verify_info, Upload_docs, Benefit_estimate]"
  "earlier_stages Review_submit = [Verify_info, Upload_docs, Benefit_estimate, Payment_option]"
  "earlier_stages Staff_review = MEMBER_STAGES"
  "earlier_stages Complete_stage = MEMBER_STAGES"
  by (simp_all add: earlier_stages_def MEMBER_STAGES_def)

text \<open>
  The stages before the current one are complete, a complete stage has complete predecessors, and
  the complete stages carry what their guards asked for.
\<close>

definition gates_kept :: "stage_data \<Rightarrow> application_state \<Rightarrow> bool" where
  "gates_kept d p \<longleftrightarrow>
     forward_inv p
   \<and> as_current_stage p \<noteq> Complete_stage \<and> as_status p \<noteq> App_bounced
   \<and> list_all (stage_done p) (earlier_stages (as_current_stage p))
   \<and> (\<forall>st. stage_done p st \<longrightarrow> list_all (stage_done p) (earlier_stages st))
   \<and> (stage_done p Verify_info \<longrightarrow> allAddressed (as_verification_items p))
   \<and> (stage_done p Benefit_estimate \<longrightarrow> sd_result d \<noteq> None)
   \<and> (stage_done p Payment_option \<longrightarrow> as_payment_selection p \<noteq> None)
   \<and> (as_submitted_at p \<noteq> None \<longleftrightarrow> stage_done p Review_submit)
   \<and> \<not> stage_done p Staff_review"

definition page_inv :: "stage_data \<Rightarrow> app_hook \<Rightarrow> bool" where
  "page_inv d s \<longleftrightarrow> (case s of None \<Rightarrow> True | Some p \<Rightarrow> gates_kept d p)"

lemma gates_shape: "gates_kept d p \<Longrightarrow> map sc_stage (as_stages p) = ALL_STAGES"
  by (simp add: gates_kept_def forward_inv_def)

lemma forward_inv_cong: "as_stages p' = as_stages p \<Longrightarrow> forward_inv p' = forward_inv p"
  by (simp add: forward_inv_def)

lemma forward_inv_initial: "forward_inv (createInitialApplicationState m d)"
  by (simp add: forward_inv_def)
    (simp add: createInitialApplicationState_def ALL_STAGES_def MEMBER_STAGES_def initial_completion_def)

text \<open>Two states with the same stage list have the same stages done.\<close>

lemma stage_done_cong: "as_stages p' = as_stages p \<Longrightarrow> stage_done p' = stage_done p"
  by (simp add: stage_done_def status_of_def completion_of_def fun_eq_iff)

lemma completion_of_advance:
  "getNextStage (as_current_stage p) = Some nx \<Longrightarrow>
   completion_of (advanceStage now p) st =
     map_option (advance_completion now (as_current_stage p) nx) (completion_of p st)"
  by (simp add: completion_of_def advanceStage_def Let_def find_map_stage)

lemma stage_done_advance:
  assumes shape: "map sc_stage (as_stages p) = ALL_STAGES"
    and nx: "getNextStage (as_current_stage p) = Some nx"
  shows "stage_done (advanceStage now p) st \<longleftrightarrow> st = as_current_stage p \<or> stage_done p st"
proof -
  obtain c where c: "completion_of p st = Some c" "sc_stage c = st"
    using completion_of_exists[OF shape] by blast
  then show ?thesis
    by (auto simp: stage_done_def status_of_def completion_of_advance[OF nx] advance_completion_def)
qed

lemma stage_done_initial: "\<not> stage_done (createInitialApplicationState m d) st"
  by (cases st) (simp_all add: stage_done_def status_of_def completion_of_def
      createInitialApplicationState_def ALL_STAGES_def MEMBER_STAGES_def initial_completion_def)

lemma gates_initial: "gates_kept d (createInitialApplicationState m date)"
  by (simp add: gates_kept_def stage_done_initial forward_inv_initial)
    (simp add: createInitialApplicationState_def)

lemma addressed_update:
  "allAddressed items \<Longrightarrow>
   allAddressed (map (\<lambda>i. if vi_field_name i = f then i\<lparr>vi_verified := Some v\<rparr> else i) items)"
  by (auto simp: allAddressed_def list_all_iff)

text \<open>Moving on from a stage whose guard holds.\<close>

lemma gates_advance:
  assumes inv: "gates_kept d p" and offered: "stage_offers d p (as_current_stage p) Click_continue"
  shows "gates_kept d (advanceStage now p)"
proof -
  obtain nx where nx: "getNextStage (as_current_stage p) = Some nx"
    using offered by (cases "as_current_stage p") (simp_all add: getNextStage_def)
  have shape: "map sc_stage (as_stages p) = ALL_STAGES" using inv by (rule gates_shape)
  have fwd: "forward_inv (advanceStage now p)"
    using inv forward_step_inv[of p "Advance_at now"] by (simp add: gates_kept_def)
  note dn = stage_done_advance[OF shape nx]
  have all: "list_all (stage_done p) xs \<Longrightarrow> list_all (stage_done (advanceStage now p)) xs" for xs
    by (simp add: list_all_iff dn)
  have q: "as_verification_items (advanceStage now p) = as_verification_items p"
    "as_payment_selection (advanceStage now p) = as_payment_selection p"
    "as_current_stage (advanceStage now p) = nx"
    "as_submitted_at (advanceStage now p) = (if nx = Staff_review then Some now else as_submitted_at p)"
    "as_status p \<noteq> App_bounced \<Longrightarrow> as_status (advanceStage now p) \<noteq> App_bounced"
    using nx by (simp_all add: advanceStage_def Let_def)
  have before: "list_all (stage_done (advanceStage now p)) (earlier_stages nx)"
    using inv offered nx
    by (cases "as_current_stage p")
      (auto simp: gates_kept_def getNextStage_def MEMBER_STAGES_def dn simp del: stage_offers.simps)
  have closed: "list_all (stage_done (advanceStage now p)) (earlier_stages st)"
    if "stage_done (advanceStage now p) st" for st
    using that inv by (auto simp: dn gates_kept_def intro!: all)
  show ?thesis
    using inv offered nx before closed fwd
    unfolding gates_kept_def q
    by (cases "as_current_stage p") (simp_all add: dn getNextStage_def q)
qed

lemma offers_stage:
  "page_offers d existing s c \<Longrightarrow>
   (s = None \<and> c = Click_start) \<or>
   (\<exists>p. s = Some p \<and> (c = Click_start \<or>
      (\<exists>t. c = Click_step t \<and> t \<in> set MEMBER_STAGES \<and> stage_done p t) \<or>
      stage_offers d p (as_current_stage p) c))"
  by (cases s; cases c) (auto simp: page_offers_def section_view_def getStepStatus_def stage_done_def
      status_of_def completion_of_def Let_def split: section_shown.splits if_splits)

text \<open>Updates of the items, the selection, the acknowledgments and the page keep the gates.\<close>

lemma gates_items:
  assumes "gates_kept d p" "stage_done p Verify_info \<Longrightarrow> allAddressed items"
  shows "gates_kept d (p\<lparr>as_verification_items := items\<rparr>)"
  using assms stage_done_cong[of "p\<lparr>as_verification_items := items\<rparr>" p]
    forward_inv_cong[of "p\<lparr>as_verification_items := items\<rparr>" p] by (simp add: gates_kept_def)

lemma gates_selection: "gates_kept d p \<Longrightarrow> gates_kept d (p\<lparr>as_payment_selection := Some sel\<rparr>)"
  using stage_done_cong[of "p\<lparr>as_payment_selection := Some sel\<rparr>" p]
    forward_inv_cong[of "p\<lparr>as_payment_selection := Some sel\<rparr>" p] by (simp add: gates_kept_def)

lemma gates_acks: "gates_kept d p \<Longrightarrow> gates_kept d (p\<lparr>as_acknowledgments := acks\<rparr>)"
  using stage_done_cong[of "p\<lparr>as_acknowledgments := acks\<rparr>" p]
    forward_inv_cong[of "p\<lparr>as_acknowledgments := acks\<rparr>" p] by (simp add: gates_kept_def)

lemma gates_navigate:
  assumes "gates_kept d p" "stage_done p t" "t \<in> set MEMBER_STAGES"
  shows "gates_kept d (p\<lparr>as_current_stage := t\<rparr>)"
  using assms stage_done_cong[of "p\<lparr>as_current_stage := t\<rparr>" p]
    forward_inv_cong[of "p\<lparr>as_current_stage := t\<rparr>" p]
  by (auto simp: gates_kept_def member_stages_set)

lemma gates_click:
  assumes inv: "gates_kept d p" and offered: "stage_offers d p (as_current_stage p) c"
  shows "page_inv d (click_effect d m now c (Some p))"
proof (cases c)
  case (Click_correct f)
  have "stage_done p Verify_info \<Longrightarrow> allAddressed (as_verification_items p)"
    using inv by (simp add: gates_kept_def)
  then show ?thesis using inv Click_correct
    by (simp add: page_inv_def updateVerificationItem_def gates_items addressed_update)
next
  case (Click_flag f)
  have "stage_done p Verify_info \<Longrightarrow> allAddressed (as_verification_items p)"
    using inv by (simp add: gates_kept_def)
  then show ?thesis using inv Click_flag
    by (simp add: page_inv_def updateVerificationItem_def gates_items addressed_update)
next
  case Click_continue
  then show ?thesis
    using gates_advance[OF inv] offered by (simp add: page_inv_def markStageComplete_def)
next
  case Click_resolve
  then have "as_current_stage p = Staff_review" "as_status p = App_bounced"
    using offered by (cases "as_current_stage p"; simp)+
  then show ?thesis using inv by (simp add: gates_kept_def)
next
  case (Click_step t)
  then show ?thesis using offered by (cases "as_current_stage p") simp_all
qed (use inv in \<open>simp_all add: page_inv_def startApplication_def gates_initial setPaymentSelection_def
      updateAcknowledgment_def gates_selection gates_acks split: option.split\<close>)

lemma page_step_inv: "page_step loads d m s s' \<Longrightarrow> page_inv d s \<Longrightarrow> page_inv d s'"
proof (induction rule: page_step.induct)
  case (page_clicks existing s c now)
  show ?case
  proof (cases "c = Click_start")
    case True
    then show ?thesis by (simp add: page_inv_def startApplication_def gates_initial)
  next
    case False
    with offers_stage[OF page_clicks(1)] obtain p where p: "s = Some p"
      "(\<exists>t. c = Click_step t \<and> t \<in> set MEMBER_STAGES \<and> stage_done p t)
        \<or> stage_offers d p (as_current_stage p) c" by blast
    with page_clicks(2) have "gates_kept d p" by (simp add: page_inv_def)
    with p show ?thesis
      by (auto simp: gates_click page_inv_def[of d "Some _"] navigateToStage_def gates_navigate)
  qed
next
  case (page_loads s p items)
  then have "gates_kept d p" "\<not> stage_done p Verify_info"
    by (auto simp: page_inv_def gates_kept_def allAddressed_def)
  then have "gates_kept d (p\<lparr>as_verification_items := items\<rparr>)" by (blast intro: gates_items)
  then show ?case using page_loads(2)
    by (simp add: page_inv_def setVerificationItems_def)
qed

lemma page_run_inv: "page_run loads d m s \<Longrightarrow> page_inv d s"
  by (induction rule: page_run.induct) (simp add: page_inv_def, rule page_step_inv)

subsection \<open>Properties\<close>

inductive_cases page_stepE: "page_step loads d m (Some p) (Some p')"

lemma submitting_click:
  assumes "page_step loads d m (Some p) (Some p')" "as_submitted_at p = None" "as_submitted_at p' \<noteq> None"
  obtains now where "p' = advanceStage now p" "stage_offers d p Review_submit Click_continue"
    "as_current_stage p = Review_submit"
  using assms(1)
proof (cases rule: page_step.cases)
  case (page_clicks existing c now)
  have c: "c = Click_continue"
    using page_clicks assms(2,3)
    by (cases c) (auto simp: startApplication_def createInitialApplicationState_def navigateToStage_def
        updateVerificationItem_def setPaymentSelection_def updateAcknowledgment_def resolveBounce_def
        split: if_splits option.splits)
  have offered: "stage_offers d p (as_current_stage p) Click_continue"
    using offers_stage[OF page_clicks(2)] c by auto
  have "p' = advanceStage now p" using page_clicks c by (simp add: markStageComplete_def)
  moreover from this have "as_current_stage p = Review_submit"
    using assms(2,3) offered
    by (cases "as_current_stage p") (simp_all add: advanceStage_def getNextStage_def Let_def)
  ultimately show ?thesis using that offered by simp
next
  case (page_loads items)
  then show ?thesis using assms(2,3) by (simp add: setVerificationItems_def)
qed

text \<open>
  C2: Whatever the member clicks, in whatever order, and whatever items, estimate and options the
  page is given: when a click submits the application, every item has been verified or flagged and
  there is at least one, the estimate was there, a payment option is selected and all
  acknowledgments are checked; the application is then with the staff and reads "under review".
\<close>

theorem submission_gates:
  assumes run: "page_run True d m (Some p)" and step: "page_step True d m (Some p) (Some p')"
    and before: "as_submitted_at p = None" and after: "as_submitted_at p' \<noteq> None"
  shows "allAddressed (as_verification_items p') \<and> sd_result d \<noteq> None
       \<and> as_payment_selection p' \<noteq> None \<and> allAcknowledged (as_acknowledgments p')
       \<and> as_current_stage p' = Staff_review
       \<and> applicationStatus (Some p') None = App_under_review"
proof -
  obtain now where p': "p' = advanceStage now p" and acks: "stage_offers d p Review_submit Click_continue"
    and cur: "as_current_stage p = Review_submit"
    using submitting_click[OF step before after] .
  have inv: "gates_kept d p'"
    using page_step_inv[OF step page_run_inv[OF run]] by (simp add: page_inv_def)
  have shape: "map sc_stage (as_stages p') = ALL_STAGES" using inv by (rule gates_shape)
  have all: "stage_is_complete (as_stages p') st \<longleftrightarrow> stage_done p' st" for st
    using completion_of_exists[OF shape, of st]
    by (auto simp: stage_is_complete_def stage_done_def status_of_def completion_of_def)
  have nb: "\<not> list_ex (\<lambda>s. sc_status s = St_bounced) (as_stages p')"
    using inv by (auto simp: gates_kept_def forward_inv_def list_all_iff list_ex_iff)
  have members: "list_all (stage_done p') MEMBER_STAGES" "\<not> stage_done p' Staff_review"
    "stage_done p' Verify_info" "stage_done p' Benefit_estimate" "stage_done p' Payment_option"
    using inv after by (auto simp: gates_kept_def MEMBER_STAGES_def)
  then have "applicationStatus (Some p') None = App_under_review"
    using nb by (simp add: applicationStatus_def deriveApplicationStatus_def all[abs_def])
  moreover have "as_current_stage p' = Staff_review" "as_acknowledgments p' = as_acknowledgments p"
    unfolding p' by (simp_all add: advanceStage_def getNextStage_def cur Let_def)
  ultimately show ?thesis
    using members inv acks by (simp add: gates_kept_def)
qed

text \<open>A list of clicks, each offered when it is made, for a member without cases.\<close>

fun page_play :: "stage_data \<Rightarrow> int \<Rightarrow> string \<Rightarrow> page_click list \<Rightarrow> app_hook \<Rightarrow> app_hook option" where
  "page_play d m now [] s = Some s"
| "page_play d m now (c # cs) s =
     (if page_offers d None s c then page_play d m now cs (click_effect d m now c s) else None)"

lemma page_play_run: "page_play d m now cs s = Some s' \<Longrightarrow> page_run loads d m s \<Longrightarrow> page_run loads d m s'"
proof (induction cs arbitrary: s)
  case (Cons c cs)
  then have "page_step loads d m s (click_effect d m now c s)"
    by (auto intro: page_step.page_clicks split: if_splits)
  with Cons show ?case by (auto intro: page_goes_on split: if_splits)
qed simp

definition example_result :: whatif_result where
  "example_result =
     \<lparr>wr_monthly_benefit = 1000, wr_eligibility_type = ''NORMAL'', wr_reduction_pct = None, wr_ams = 0,
      wr_base_benefit = 1000, wr_service_years = 20, wr_formula_display = [],
      wr_reduction_detail = \<lparr>rv_applies = False, rv_years_under_65 = 0, rv_rate_per_year = 0\<rparr>,
      wr_payment_options = [],
      wr_raw_benefit =
        \<lparr>bc_member_id = 7, bc_retirement_date = None, bc_tier = None, bc_eligibility = None,
         bc_ams = \<lparr>ams_window_months = 36, ams_window_start = [], ams_window_end = [], ams_amount = 0,
           ams_leave_payout_included = False, ams_leave_payout_amount = 0, ams_leave_payout_ams_impact = 0\<rparr>,
         bc_formula = \<lparr>fd_ams = 0, fd_multiplier = 0, fd_multiplier_pct = [], fd_service_years = 20,
           fd_service_type = [], fd_gross_benefit = 1000, fd_formula_display = []\<rparr>,
         bc_reduction = \<lparr>rdn_applies = False, rdn_retirement_type = [], rdn_age_at_retirement = 65,
           rdn_years_under_65 = 0, rdn_rate_per_year = 0, rdn_total_reduction_pct = 0,
           rdn_reduction_factor = None, rdn_reduced_benefit = 1000, rdn_source_reference = []\<rparr>,
         bc_maximum_benefit = None, bc_payment_options = None, bc_dro = None\<rparr>,
      wr_raw_eligibility =
        \<lparr>er_member_id = 7, er_retirement_date = [], er_age_at_retirement = None, er_tier = 1,
         er_tier_source = [], er_vested = True, er_rule_of_n_sum = None, er_service_credit = None,
         er_evaluations = [], er_best_eligible_type = ''NORMAL'', er_reduction_pct = None,
         er_reduction_factor = 1\<rparr>\<rparr>"

definition example_data :: stage_data where
  "example_data =
     \<lparr>sd_result = Some example_result, sd_loading = False,
      sd_options = [\<lparr>pc_id = ''maximum'', pc_label = ''Maximum'', pc_description = [],
        pc_has_survivor = False, pc_survivor_pct = None\<rparr>],
      sd_amounts = [\<lparr>po_option_id = ''maximum'', po_member_amount = 1000, po_survivor_amount = 0\<rparr>]\<rparr>"

definition example_item :: verification_item where
  "example_item =
     \<lparr>vi_field_name = ''dob'', vi_label = ''Date of birth'', vi_current_value = ''1968-07-15'',
      vi_category = Cat_personal, vi_verified = None, vi_flag_reason = None\<rparr>"

definition example_clicks :: "page_click list" where
  "example_clicks =
     [Click_correct ''dob'', Click_continue, Click_continue, Click_continue,
      Click_option ''maximum'', Click_continue, Click_ack ''info_accurate'' True,
      Click_ack ''irrevocable'' True]"

definition example_start :: app_hook where
  "example_start = setVerificationItems [example_item] (startApplication 7 None None)"

lemma example_plays:
  "map_option (map_option as_current_stage) (page_play example_data 7 ''t'' example_clicks example_start)
     = Some (Some Review_submit)
 \<and> map_option (map_option as_submitted_at) (page_play example_data 7 ''t'' example_clicks example_start)
     = Some (Some None)
 \<and> map_option (map_option as_submitted_at) (page_play example_data 7 ''t''
       (example_clicks @ [Click_continue]) example_start) = Some (Some (Some ''t''))"
  by code_simp

lemma page_play_append:
  "page_play d m now (cs @ ds) s =
     (case page_play d m now cs s of None \<Rightarrow> None | Some s' \<Rightarrow> page_play d m now ds s')"
  by (induction cs arbitrary: s) simp_all

theorem submission_gates_witness:
  "\<exists>p'. as_submitted_at p' = Some ''t'' \<and> page_run True example_data 7 (Some p')
     \<and> allAcknowledged (as_acknowledgments p') \<and> applicationStatus (Some p') None = App_under_review"
proof -
  obtain p where p: "page_play example_data 7 ''t'' example_clicks example_start = Some (Some p)"
    "as_submitted_at p = None"
    using example_plays by (auto simp: map_option_case split: option.splits)
  obtain p' where p': "page_play example_data 7 ''t'' [Click_continue] (Some p) = Some (Some p')"
    "as_submitted_at p' = Some ''t''"
    using example_plays p(1) by (auto simp: page_play_append map_option_case simp del: page_play.simps
        split: option.splits)
  have "page_run True example_data 7 (startApplication 7 None None)"
    using page_goes_on[OF page_opened page_step.page_clicks[of example_data None None Click_start]]
    by (simp add: page_offers_def section_view_def effectiveStatus_def)
  moreover have "page_step True example_data 7 (startApplication 7 None None) example_start"
    unfolding example_start_def
    by (rule page_step.page_loads[OF TrueI, of _ "createInitialApplicationState 7 None"])
      (simp_all add: startApplication_def createInitialApplicationState_def)
  ultimately have "page_run True example_data 7 example_start" by (rule page_goes_on)
  then have run: "page_run True example_data 7 (Some p)" by (rule page_play_run[OF p(1)])
  have step: "page_step True example_data 7 (Some p) (Some p')"
    using p'(1) page_step.page_clicks[of example_data None "Some p" Click_continue True 7 "''t''"]
    by (auto split: if_splits)
  have "page_run True example_data 7 (Some p')" by (rule page_goes_on[OF run step])
  then show ?thesis using submission_gates[OF run step p(2)] p'(2) by auto
qed

text \<open>
  On the page as it stands, where nothing loads the verification items, the application never
  leaves its first stage: whatever the member clicks and whatever cases the member has, the
  application is not started or is the fresh one, with no item, nothing submitted and "Continue"
  disabled.
\<close>

theorem page_stuck_at_first_stage:
  assumes "page_run False d m s"
  shows "(s = None \<or> s = Some (createInitialApplicationState m None))
       \<and> \<not> page_offers d existing s Click_continue"
proof -
  let ?p = "createInitialApplicationState m None"
  have p: "as_current_stage ?p = Verify_info" "as_verification_items ?p = []"
    by (simp_all add: createInitialApplicationState_def)
  have only: "c = Click_start" if "page_offers d ex (Some ?p) c" for ex c
    using offers_stage[OF that] p by (cases c) (auto simp: stage_done_initial allAddressed_def)
  from assms have s: "s = None \<or> s = Some ?p"
  proof (induction rule: page_run.induct)
    case (page_goes_on s s')
    from page_goes_on(2,3) show ?case
      by (cases rule: page_step.cases)
        (auto simp: startApplication_def dest!: only dest: offers_stage)
  qed simp
  moreover have "\<not> page_offers d existing None Click_continue"
    using offers_stage[of d existing None Click_continue] by auto
  ultimately show ?thesis using only[of existing Click_continue] by auto
qed

theorem page_stuck_at_first_stage_witness:
  "\<not> page_offers section_data None (startApplication 7 None None) Click_continue"
proof -
  have "page_run False section_data 7 (startApplication 7 None None)"
    using page_goes_on[OF page_opened page_step.page_clicks[of section_data None None Click_start]]
    by (simp add: page_offers_def section_view_def effectiveStatus_def)
  from page_stuck_at_first_stage[OF this] show ?thesis by blast
qed

end
