(* ===== verification/CaseTypes.thy ===== *)
theory CaseTypes imports Prelude begin

text \<open>
  The entities of the case service: src/frontend/src/types/Case.ts. A field the service may leave
  out is an \<open>option\<close>.
\<close>

record stage_definition =
  sdf_stageIdx :: int
  sdf_stageName :: string
  sdf_description :: "string option"
  sdf_sortOrder :: int

datatype case_priority = Case_urgent | Case_high | Case_standard | Case_low
datatype case_sla = Sla_on_track | Sla_at_risk | Sla_urgent

record retirement_case =
  rc_caseId :: string
  rc_tenantId :: string
  rc_memberId :: int
  rc_caseType :: string
  rc_retDate :: string
  rc_priority :: case_priority
  rc_sla :: case_sla
  rc_stage :: string
  rc_stageIdx :: int
  rc_assignedTo :: string
  rc_daysOpen :: int
  rc_status :: string
  rc_droId :: "int option"
  rc_flags :: "string list"
  rc_createdAt :: string
  rc_updatedAt :: string
  rc_name :: string
  rc_tier :: int
  rc_dept :: string

record stage_transition =
  st_id :: int
  st_caseId :: string
  st_fromStageIdx :: "int option"
  st_toStageIdx :: int
  st_fromStage :: "string option"
  st_toStage :: string
  st_transitionedBy :: string
  st_note :: "string option"
  st_transitionedAt :: string

end
