(* ===== verification/Workflow.thy ===== *)
theory Workflow imports Prelude begin

text \<open>
  The workflow composition engine, src/frontend/src/lib/workflowComposition.ts: the stages of a
  retirement case as its flags and data give them.
\<close>

datatype confidence_signal = Pre_verified | Needs_review | Issue_found | Pending

record stage_descriptor =
  sd_id :: string
  sd_label :: string
  sd_icon :: string
  sd_description :: string
  sd_confidence :: confidence_signal
  sd_conditional :: bool

record case_flags =
  cf_hasDRO :: bool
  cf_hasPurchasedService :: bool
  cf_isEarlyRetirement :: bool
  cf_hasLeavePayout :: bool
  cf_tier :: int
  cf_maritalStatus :: "string option"

text \<open>
  The part of the calculation the engine reads: whether the eligibility, the average salary and
  the formula are there, and the optional flags inside them.
\<close>

record workflow_calculation =
  wc_eligibility :: "string option option"
  wc_ams :: "bool option option"
  wc_formula :: bool
  wc_reduction :: "bool option option"
  wc_dro :: "bool option option"

record workflow_member =
  wm_tier_code :: "int option"
  wm_marital_status :: "string option"

record workflow_data =
  wd_member :: "workflow_member option"
  wd_calculation :: "workflow_calculation option"
  wd_employment :: "nat option"
  wd_purchased_years :: "number option"

definition assessConfidence :: "string \<Rightarrow> workflow_data \<Rightarrow> confidence_signal" where
  "assessConfidence stageId data =
     (let calculation = wd_calculation data in
      if stageId = ''intake'' then Pending
      else if stageId = ''eligibility'' then
        (case Option.bind calculation wc_eligibility of
           None \<Rightarrow> Pending
         | Some best \<Rightarrow> if best = Some ''EARLY'' then Needs_review else Pre_verified)
      else if stageId = ''dro'' then Needs_review
      else if stageId = ''verify-employment'' then
        (case wd_employment data of
           None \<Rightarrow> Pending
         | Some n \<Rightarrow> if n = 0 then Pending else Pre_verified)
      else if stageId = ''salary-ams'' then
        (case Option.bind calculation wc_ams of
           None \<Rightarrow> Pending
         | Some leave \<Rightarrow> if coalesce leave False then Needs_review else Pre_verified)
      else if stageId = ''benefit-calc'' then
        (case calculation of
           None \<Rightarrow> Pending
         | Some c \<Rightarrow>
             if \<not> wc_formula c then Pending
             else if coalesce (Option.bind (wc_reduction c) (\<lambda>a. a)) False then Needs_review
             else Pre_verified)
      else Pending)"

text \<open>The data of a call without data.\<close>

definition no_workflow_data :: workflow_data where
  "no_workflow_data = \<lparr>wd_member = None, wd_calculation = None, wd_employment = None,
     wd_purchased_years = None\<rparr>"

definition composeStages :: "case_flags \<Rightarrow> workflow_data option \<Rightarrow> stage_descriptor list" where
  "composeStages flags data =
     (let d = coalesce data no_workflow_data in
       [\<lparr>sd_id = ''intake'', sd_label = ''Application Intake'',
         sd_icon = [CHR 0xF0, CHR 0x9F, CHR 0x93, CHR 0x8B],
         sd_description = ''Verify documents and confirm retirement request'',
         sd_confidence = assessConfidence ''intake'' d, sd_conditional = False\<rparr>,
        \<lparr>sd_id = ''verify-employment'', sd_label = ''Verify Employment'',
         sd_icon = [CHR 0xF0, CHR 0x9F, CHR 0x93, CHR 0x8A],
         sd_description = ''Review employment history and service records'',
         sd_confidence = assessConfidence ''verify-employment'' d, sd_conditional = False\<rparr>,
        \<lparr>sd_id = ''salary-ams'', sd_label = ''Salary & AMS'',
         sd_icon = [CHR 0xF0, CHR 0x9F, CHR 0x92, CHR 0xB0],
         sd_description = ''Confirm salary data and average monthly salary window'',
         sd_confidence = assessConfidence ''salary-ams'' d, sd_conditional = False\<rparr>,
        \<lparr>sd_id = ''eligibility'', sd_label = ''Eligibility'',
         sd_icon = [CHR 0xE2, CHR 0x9C, CHR 0x93],
         sd_description = ''Review eligibility determination and reduction status'',
         sd_confidence = assessConfidence ''eligibility'' d, sd_conditional = False\<rparr>]
       @ (if cf_hasDRO flags then
           [\<lparr>sd_id = ''dro'', sd_label = ''DRO Division'',
             sd_icon = [CHR 0xE2, CHR 0x9A, CHR 0x96, CHR 0xEF, CHR 0xB8, CHR 0x8F],
             sd_description = ''Calculate marital fraction and DRO award'',
             sd_confidence = assessConfidence ''dro'' d, sd_conditional = True\<rparr>] else [])
       @ [\<lparr>sd_id = ''benefit-calc'', sd_label = ''Benefit Calculation'',
           sd_icon = [CHR 0xF0, CHR 0x9F, CHR 0x94, CHR 0xA2],
           sd_description = ''Review calculated benefit amount and formula'',
           sd_confidence = assessConfidence ''benefit-calc'' d, sd_conditional = False\<rparr>]
       @ (if cf_isEarlyRetirement flags then
           [\<lparr>sd_id = ''scenario'', sd_label = ''Scenario Comparison'',
             sd_icon = [CHR 0xF0, CHR 0x9F, CHR 0x94, CHR 0xAE],
             sd_description = ''Compare retire-now vs. wait scenarios'',
             sd_confidence = Needs_review, sd_conditional = True\<rparr>] else [])
       @ [\<lparr>sd_id = ''election'', sd_label = ''Election Recording'',
           sd_icon = [CHR 0xF0, CHR 0x9F, CHR 0x92, CHR 0xB3],
           sd_description = ''Select payment option, IPR, and death benefit elections'',
           sd_confidence = assessConfidence ''election'' d, sd_conditional = False\<rparr>,
          \<lparr>sd_id = ''submit'', sd_label = ''Final Certification'',
           sd_icon = [CHR 0xE2, CHR 0x9C, CHR 0x85],
           sd_description = ''Final review and certification for submission'',
           sd_confidence = assessConfidence ''submit'' d, sd_conditional = False\<rparr>])"

definition deriveCaseFlags ::
  "workflow_member option \<Rightarrow> workflow_calculation option \<Rightarrow> number option \<Rightarrow> string list option
     \<Rightarrow> case_flags" where
  "deriveCaseFlags member calculation purchasedYears caseFlags =
     (let flags = coalesce caseFlags [] in
      \<lparr>cf_hasDRO =
         (case caseFlags of
            Some fs \<Rightarrow> ''dro'' \<in> set fs
          | None \<Rightarrow> coalesce (Option.bind (Option.bind calculation wc_dro) (\<lambda>a. a)) False),
       cf_hasPurchasedService =
         (coalesce purchasedYears 0 > 0 \<or> ''purchased-service'' \<in> set flags),
       cf_isEarlyRetirement =
         (Option.bind (Option.bind calculation wc_eligibility) (\<lambda>a. a) = Some ''EARLY''
          \<or> ''early-retirement'' \<in> set flags),
       cf_hasLeavePayout = (''leave-payout'' \<in> set flags),
       cf_tier = (case Option.bind member wm_tier_code of
                    None \<Rightarrow> 1 | Some t \<Rightarrow> if t = 0 then 1 else t),
       cf_maritalStatus = Option.bind member wm_marital_status\<rparr>)"

subsection \<open>The composed stages\<close>

definition all_stage_ids :: "string list" where
  "all_stage_ids = [''intake'', ''verify-employment'', ''salary-ams'', ''eligibility'', ''dro'',
     ''benefit-calc'', ''scenario'', ''election'', ''submit'']"

text \<open>The stages a case with given flags goes through, as a filter of the full list.\<close>

definition stage_wanted :: "case_flags \<Rightarrow> string \<Rightarrow> bool" where
  "stage_wanted flags s \<longleftrightarrow>
     (s = ''dro'' \<longrightarrow> cf_hasDRO flags) \<and> (s = ''scenario'' \<longrightarrow> cf_isEarlyRetirement flags)"

lemma composed_ids:
  "map sd_id (composeStages flags data) = filter (stage_wanted flags) all_stage_ids"
  by (simp add: composeStages_def all_stage_ids_def stage_wanted_def Let_def)

lemma all_stage_ids_distinct: "distinct all_stage_ids"
  by (simp add: all_stage_ids_def)

lemma composed_distinct: "distinct (map sd_id (composeStages flags data))"
  by (simp add: composed_ids all_stage_ids_distinct)

lemma composed_length:
  "length (composeStages flags data) =
     7 + (if cf_hasDRO flags then 1 else 0) + (if cf_isEarlyRetirement flags then 1 else 0)"
  by (simp add: composeStages_def Let_def)

lemma composed_conditional:
  "list_all (\<lambda>s. sd_conditional s \<longleftrightarrow> sd_id s = ''dro'' \<or> sd_id s = ''scenario'')
     (composeStages flags data)"
  by (simp add: composeStages_def Let_def)

text \<open>
  The composed workflow is the full list of nine stages without the ones the case does not
  need: the DRO division exactly when the case has a DRO, the scenario comparison exactly for an
  early retirement. No stage appears twice, there are seven to nine of them, and a stage is marked
  conditional exactly when it is one of those two.
\<close>

theorem composed_stages:
  "map sd_id (composeStages flags data) = filter (stage_wanted flags) all_stage_ids
 \<and> distinct (map sd_id (composeStages flags data))
 \<and> length (composeStages flags data) =
     7 + (if cf_hasDRO flags then 1 else 0) + (if cf_isEarlyRetirement flags then 1 else 0)
 \<and> list_all (\<lambda>s. sd_conditional s \<longleftrightarrow> sd_id s = ''dro'' \<or> sd_id s = ''scenario'')
     (composeStages flags data)"
  by (rule conjI[OF composed_ids conjI[OF composed_distinct conjI[OF composed_length
      composed_conditional]]])

text \<open>
  Inside a case the case's own flags decide whether a DRO is processed, whatever the
  calculation says: with case flags the DRO stage is composed exactly when they hold the DRO flag,
  and an empty list of flags composes none. Only without case flags does the calculation decide.
\<close>

theorem case_flags_authoritative:
  "(''dro'' \<in> sd_id ` set (composeStages (deriveCaseFlags m calc py (Some fs)) data) \<longleftrightarrow> ''dro'' \<in> set fs)
 \<and> (''dro'' \<in> sd_id ` set (composeStages (deriveCaseFlags m calc py None) data) \<longleftrightarrow>
       Option.bind calc wc_dro = Some (Some True))
 \<and> (''scenario'' \<in> sd_id ` set (composeStages (deriveCaseFlags m calc py cfs) data) \<longleftrightarrow>
       Option.bind calc wc_eligibility = Some (Some ''EARLY'')
     \<or> ''early-retirement'' \<in> set (coalesce cfs []))"
proof -
  have ids: "s \<in> sd_id ` set (composeStages fl data) \<longleftrightarrow> s \<in> set all_stage_ids \<and> stage_wanted fl s" for s fl
  proof -
    have "s \<in> set (map sd_id (composeStages fl data)) \<longleftrightarrow> s \<in> set all_stage_ids \<and> stage_wanted fl s"
      unfolding composed_ids by auto
    then show ?thesis by simp
  qed
  have b: "coalesce (Option.bind calc (\<lambda>y. Option.bind (wc_dro y) (\<lambda>a. a))) False
      \<longleftrightarrow> Option.bind calc wc_dro = Some (Some True)"
    by (auto simp: coalesce_def bind_eq_Some_conv split: option.split)
  have c: "Option.bind calc (\<lambda>y. Option.bind (wc_eligibility y) (\<lambda>a. a)) = Some v
      \<longleftrightarrow> Option.bind calc wc_eligibility = Some (Some v)" for v
    by (auto simp: bind_eq_Some_conv)
  show ?thesis
    unfolding ids
    by (simp add: all_stage_ids_def stage_wanted_def deriveCaseFlags_def Let_def b c)
qed

end
