(* ===== verification/StageMapping.thy ===== *)
theory StageMapping imports Workflow Machine begin

text \<open>
  The translation between the page's composed stages and the case service's seven stages:
  src/frontend/src/lib/stageMapping.ts and lib/stageCorrespondenceMapping.ts, and the service's
  advance operation (\<open>AdvanceStage\<close> of src/platform/casemanagement/db/cases.go), reduced to the
  stage index.
\<close>

record advance_step =
  av_toIdx :: int
  av_autoSkip :: bool
  av_note :: "string option"

definition STAGE_ID_TO_BACKEND :: "(string, int option) table" where
  "STAGE_ID_TO_BACKEND =
     [(''intake'', Some 0), (''verify-employment'', Some 1), (''salary-ams'', None),
      (''eligibility'', Some 2), (''dro'', Some 3), (''benefit-calc'', Some 4),
      (''scenario'', None), (''election'', Some 5), (''submit'', Some 6)]"

definition BACKEND_TO_STAGE_ID :: "(int, string) table" where
  "BACKEND_TO_STAGE_ID =
     [(0, ''intake''), (1, ''verify-employment''), (2, ''eligibility''), (3, ''dro''),
      (4, ''benefit-calc''), (5, ''election''), (6, ''submit'')]"

definition getBackendStageIdx :: "string \<Rightarrow> int option" where
  "getBackendStageIdx frontendStageId = coalesce (map_of STAGE_ID_TO_BACKEND frontendStageId) None"

definition isAutoSkipStage :: "int \<Rightarrow> case_flags \<Rightarrow> bool" where
  "isAutoSkipStage backendIdx flags \<longleftrightarrow> backendIdx = 3 \<and> \<not> cf_hasDRO flags"

text \<open>The first loop: one step per advance call, while \<open>i <= mappedIdx && i < 6\<close>.\<close>

function advance_loop :: "int \<Rightarrow> int \<Rightarrow> advance_step list" where
  "advance_loop i mappedIdx =
     (if i \<le> mappedIdx \<and> i < 6
      then \<lparr>av_toIdx = i + 1, av_autoSkip = False, av_note = None\<rparr> # advance_loop (i + 1) mappedIdx
      else [])"
  by pat_completeness auto
termination by (relation "measure (\<lambda>(i, m). nat (6 - i))") auto

text \<open>The second loop: skip the stages right after it that do not apply.\<close>

function skip_loop :: "int \<Rightarrow> case_flags \<Rightarrow> advance_step list" where
  "skip_loop cursor flags =
     (if cursor < 6 \<and> isAutoSkipStage cursor flags
      then \<lparr>av_toIdx = cursor + 1, av_autoSkip = True,
             av_note = Some ''Stage not applicable for this case''\<rparr> # skip_loop (cursor + 1) flags
      else [])"
  by pat_completeness auto
termination by (relation "measure (\<lambda>(c, fl). nat (6 - c))") auto

declare advance_loop.simps [simp del] skip_loop.simps [simp del]

definition computeAdvanceSequence :: "string \<Rightarrow> int \<Rightarrow> case_flags \<Rightarrow> advance_step list" where
  "computeAdvanceSequence frontendStageId currentBackendIdx flags =
     (case getBackendStageIdx frontendStageId of
        None \<Rightarrow> []
      | Some mappedIdx \<Rightarrow>
          if currentBackendIdx > mappedIdx then []
          else advance_loop currentBackendIdx mappedIdx @ skip_loop (mappedIdx + 1) flags)"

definition frontendIdxFromBackendIdx :: "stage_descriptor list \<Rightarrow> int \<Rightarrow> bool \<Rightarrow> int" where
  "frontendIdxFromBackendIdx stages backendIdx hasDRO =
     (let targetId = (if backendIdx = 3 \<and> \<not> hasDRO then Some ''benefit-calc''
                      else map_of BACKEND_TO_STAGE_ID backendIdx);
          idx = find_index (\<lambda>s. Some (sd_id s) = targetId) stages
      in if idx \<ge> 0 then idx else 0)"

definition computeInitialState ::
  "int \<Rightarrow> stage_descriptor list \<Rightarrow> bool \<Rightarrow> int \<times> int set" where
  "computeInitialState backendStageIdx stages hasDRO =
     (let activeIdx = frontendIdxFromBackendIdx stages backendStageIdx hasDRO in
      (activeIdx,
       set (filter (\<lambda>i. \<not> (\<not> hasDRO \<and> nat i < length stages \<and> sd_id (stages ! nat i) = ''dro''))
             (map int [0..<nat activeIdx]))))"

definition STAGE_TO_TEMPLATE :: "(string, string) table" where
  "STAGE_TO_TEMPLATE =
     [(''intake'', ''intake''), (''verify-employment'', ''verify-employment''),
      (''eligibility'', ''eligibility''), (''dro'', ''dro''), (''benefit-calc'', ''benefit-calc''),
      (''election'', ''election''), (''submit'', ''submit'')]"

definition getTemplateCategoryForStage :: "string \<Rightarrow> string option" where
  "getTemplateCategoryForStage stageId = map_of STAGE_TO_TEMPLATE stageId"

subsection \<open>The case service's advance\<close>

datatype advance_error = Already_final

text \<open>The stage definitions are the indexes 0 to 6; the index after the current one must be one.\<close>

definition AdvanceStage :: "int \<Rightarrow> advance_error + int" where
  "AdvanceStage currentIdx =
     (let nextIdx = currentIdx + 1 in
      if 0 \<le> nextIdx \<and> nextIdx \<le> 6 then Inr nextIdx else Inl Already_final)"

text \<open>The page's calls in order: one advance per step, stopping at the first error.\<close>

fun advance_calls :: "advance_step list \<Rightarrow> int \<Rightarrow> advance_error + int" where
  "advance_calls [] idx = Inr idx"
| "advance_calls (s # ss) idx =
     (case AdvanceStage idx of Inl e \<Rightarrow> Inl e | Inr idx' \<Rightarrow> advance_calls ss idx')"

subsection \<open>The advance sequence\<close>

lemma backend_idx_cases:
  assumes "getBackendStageIdx s = Some k"
  shows "(s, k) \<in> {(''intake'', 0), (''verify-employment'', 1), (''eligibility'', 2), (''dro'', 3),
      (''benefit-calc'', 4), (''election'', 5), (''submit'', 6)}"
  using assms by (auto simp: getBackendStageIdx_def STAGE_ID_TO_BACKEND_def split: if_splits)

lemma backend_idx_range: "getBackendStageIdx s = Some k \<Longrightarrow> 0 \<le> k \<and> k \<le> 6"
  using backend_idx_cases[of s k] by auto

lemma advance_loop_targets:
  "m \<le> 6 \<Longrightarrow> map av_toIdx (advance_loop i m) = map (\<lambda>n. i + 1 + int n) [0..<nat (min (m + 1) 6 - i)]"
proof (induction i m rule: advance_loop.induct)
  case (1 i m)
  show ?case
  proof (cases "i \<le> m \<and> i < 6")
    case True
    then have n: "nat (min (m + 1) 6 - i) = Suc (nat (min (m + 1) 6 - (i + 1)))" by auto
    have "map av_toIdx (advance_loop i m) = (i + 1) # map av_toIdx (advance_loop (i + 1) m)"
      using True by (subst advance_loop.simps) simp
    moreover have "map av_toIdx (advance_loop (i + 1) m) =
        map (\<lambda>n. i + 1 + 1 + int n) [0..<nat (min (m + 1) 6 - (i + 1))]"
      using 1 True by simp
    ultimately show ?thesis
      unfolding n map_upt_Suc by simp
  next
    case False
    then show ?thesis using 1(2) by (subst advance_loop.simps) auto
  qed
qed

lemma skip_loop_unfold:
  "skip_loop c fl = (if c = 3 \<and> \<not> cf_hasDRO fl
     then [\<lparr>av_toIdx = 4, av_autoSkip = True, av_note = Some ''Stage not applicable for this case''\<rparr>]
     else [])"
proof (cases "c = 3 \<and> \<not> cf_hasDRO fl")
  case True
  have "skip_loop 4 fl = []" by (subst skip_loop.simps) (simp add: isAutoSkipStage_def)
  with True show ?thesis by (subst skip_loop.simps) (simp add: isAutoSkipStage_def)
next
  case False
  then show ?thesis by (subst skip_loop.simps) (auto simp: isAutoSkipStage_def)
qed

lemma advance_loop_simps_done: "m < i \<Longrightarrow> advance_loop i m = []" "6 \<le> i \<Longrightarrow> advance_loop i m = []"
  by (simp_all add: advance_loop.simps)

text \<open>Consecutive targets are exactly what the service answers.\<close>

lemma advance_calls_consecutive:
  assumes "map av_toIdx ss = map (\<lambda>n. i + 1 + int n) [0..<length ss]" "0 \<le> i + 1" "i + int (length ss) \<le> 6"
  shows "advance_calls ss i = Inr (i + int (length ss))"
  using assms
proof (induction ss arbitrary: i)
  case (Cons s ss)
  have "map av_toIdx ss = map (\<lambda>n. (i + 1) + 1 + int n) [0..<length ss]"
    using Cons.prems(1)
    by (simp add: upt_conv_Cons map_Suc_upt[symmetric] comp_def algebra_simps del: upt_Suc)
  with Cons show ?case by (simp add: AdvanceStage_def)
qed simp

definition backend_after :: "string \<Rightarrow> int \<Rightarrow> case_flags \<Rightarrow> int" where
  "backend_after s b flags =
     (case getBackendStageIdx s of
        None \<Rightarrow> b
      | Some k \<Rightarrow> if b > k then b
                  else if k = 2 \<and> \<not> cf_hasDRO flags then 4 else min (k + 1) 6)"

lemma sequence_targets:
  fixes s :: string and flags :: case_flags
  assumes "0 \<le> b" "b \<le> 6"
  defines "ss \<equiv> computeAdvanceSequence s b flags"
  shows "map av_toIdx ss = map (\<lambda>n. b + 1 + int n) [0..<length ss]
       \<and> b + int (length ss) = backend_after s b flags"
proof (cases "getBackendStageIdx s")
  case None
  then show ?thesis by (simp add: ss_def computeAdvanceSequence_def backend_after_def)
next
  case (Some k)
  show ?thesis
  proof (cases "b > k")
    case True
    with Some show ?thesis by (simp add: ss_def computeAdvanceSequence_def backend_after_def)
  next
    case False
    have k: "0 \<le> k" "k \<le> 6" using backend_idx_range[OF Some] by auto
    let ?n = "nat (min (k + 1) 6 - b)"
    have t: "map av_toIdx (advance_loop b k) = map (\<lambda>n. b + 1 + int n) [0..<?n]"
      using advance_loop_targets[of k b] k by simp
    then have l: "length (advance_loop b k) = ?n" by (metis length_map length_upt minus_nat.diff_0)
    show ?thesis
    proof (cases "k = 2 \<and> \<not> cf_hasDRO flags")
      case True
      then have "ss = advance_loop b k @
          [\<lparr>av_toIdx = 4, av_autoSkip = True, av_note = Some ''Stage not applicable for this case''\<rparr>]"
        using False Some by (simp add: ss_def computeAdvanceSequence_def skip_loop_unfold)
      then show ?thesis
        using t l True False assms Some by (simp add: backend_after_def)
    next
      case nodro: False
      then have "ss = advance_loop b k"
        using False Some by (auto simp: ss_def computeAdvanceSequence_def skip_loop_unfold)
      then show ?thesis
        using t l nodro False assms Some by (auto simp: backend_after_def)
    qed
  qed
qed

lemma backend_after_range:
  "0 \<le> b \<Longrightarrow> b \<le> 6 \<Longrightarrow> b \<le> backend_after s b flags \<and> backend_after s b flags \<le> 6"
  using backend_idx_range by (auto simp: backend_after_def split: option.split)

text \<open>
  C15: Completing a stage on the page sends the case service exactly the advances it needs. The
  steps' targets follow each other one by one from the service's current stage; the service
  accepts every one of them; it ends one past the completed stage, or one further when that stage
  is the DRO's and the case has none, and never past the last stage; a stage the page alone has,
  or one the service is already past, sends nothing; and only the DRO stage is marked as skipped.
\<close>

theorem advance_sequence_accepted:
  assumes "0 \<le> b" "b \<le> 6"
  shows "let ss = computeAdvanceSequence s b flags in
     advance_calls ss b = Inr (backend_after s b flags)
   \<and> map av_toIdx ss = map (\<lambda>n. b + 1 + int n) [0..<length ss]
   \<and> b \<le> backend_after s b flags \<and> backend_after s b flags \<le> 6
   \<and> list_all (\<lambda>st. av_autoSkip st \<longleftrightarrow> av_note st \<noteq> None) ss
   \<and> list_all (\<lambda>st. av_autoSkip st \<longrightarrow> av_toIdx st = 4 \<and> \<not> cf_hasDRO flags) ss"
proof -
  let ?ss = "computeAdvanceSequence s b flags"
  have noskip: "list_all (\<lambda>st. \<not> av_autoSkip st \<and> av_note st = None) (advance_loop i m)" for i m
    by (induction i m rule: advance_loop.induct) (subst advance_loop.simps, simp)
  have marks: "list_all (\<lambda>st. (av_autoSkip st \<longleftrightarrow> av_note st \<noteq> None)
       \<and> (av_autoSkip st \<longrightarrow> av_toIdx st = 4 \<and> \<not> cf_hasDRO flags)) ?ss"
    using noskip by (auto simp: computeAdvanceSequence_def skip_loop_unfold list_all_iff
        split: option.split)
  have range: "b \<le> backend_after s b flags \<and> backend_after s b flags \<le> 6"
    by (rule backend_after_range[OF assms])
  have seq: "map av_toIdx ?ss = map (\<lambda>n. b + 1 + int n) [0..<length ?ss]"
    "b + int (length ?ss) = backend_after s b flags"
    using sequence_targets[OF assms] by auto
  have "advance_calls ?ss b = Inr (backend_after s b flags)"
    using advance_calls_consecutive[OF seq(1)] seq(2) assms range by simp
  then show ?thesis
    using seq range marks by (simp add: Let_def list_all_iff)
qed

theorem advance_sequence_accepted_witness:
  "advance_calls (computeAdvanceSequence ''eligibility'' 0
     \<lparr>cf_hasDRO = False, cf_hasPurchasedService = False, cf_isEarlyRetirement = False,
      cf_hasLeavePayout = False, cf_tier = 1, cf_maritalStatus = None\<rparr>) 0 = Inr 4"
  using advance_sequence_accepted[of 0 "''eligibility''"
      "\<lparr>cf_hasDRO = False, cf_hasPurchasedService = False, cf_isEarlyRetirement = False,
        cf_hasLeavePayout = False, cf_tier = 1, cf_maritalStatus = None\<rparr>"]
  by (simp add: Let_def backend_after_def getBackendStageIdx_def STAGE_ID_TO_BACKEND_def)

subsection \<open>The two stage systems\<close>

lemma find_index_map: "find_index (\<lambda>s. p (f s)) xs = find_index p (map f xs)"
  by (induction xs) auto

lemma frontend_idx_ids:
  "frontendIdxFromBackendIdx (composeStages flags data) b (cf_hasDRO flags) =
     (let targetId = (if b = 3 \<and> \<not> cf_hasDRO flags then Some ''benefit-calc''
                      else map_of BACKEND_TO_STAGE_ID b);
          idx = find_index (\<lambda>i. Some i = targetId) (filter (stage_wanted flags) all_stage_ids)
      in if idx \<ge> 0 then idx else 0)"
  unfolding frontendIdxFromBackendIdx_def composed_ids[of flags data, symmetric]
  by (simp add: find_index_map[where f = sd_id and p = "\<lambda>i. Some i = t" for t])

definition backend_stages :: "int list" where
  "backend_stages = [0, 1, 2, 3, 4, 5, 6]"

lemma backend_stage_mem: "0 \<le> b \<Longrightarrow> b \<le> 6 \<Longrightarrow> b \<in> set backend_stages"
  by (auto simp: backend_stages_def)

text \<open>
  Opening a case shows the page stage of the service's current stage: for every service stage
  the page's active index lies inside the composed list, and the stage there translates back to
  that service stage (to the benefit calculation where the DRO stage does not apply). The stages
  before it are exactly the ones marked complete, and no DRO stage is marked in a case without a
  DRO.
\<close>

theorem open_case_position:
  assumes "0 \<le> b" "b \<le> 6"
  shows "let stages = composeStages flags data;
             (active, completed) = computeInitialState b stages (cf_hasDRO flags)
         in 0 \<le> active \<and> active < int (length stages)
          \<and> getBackendStageIdx (sd_id (stages ! nat active)) =
              Some (if b = 3 \<and> \<not> cf_hasDRO flags then 4 else b)
          \<and> completed = {0..<active}"
proof -
  let ?st = "composeStages flags data"
  let ?ids = "filter (stage_wanted flags) all_stage_ids"
  let ?a = "frontendIdxFromBackendIdx ?st b (cf_hasDRO flags)"
  have ids: "map sd_id ?st = ?ids" by (rule composed_ids)
  then have nth: "i < length ?st \<Longrightarrow> sd_id (?st ! i) = ?ids ! i" for i by (metis nth_map)
  have len: "length ?st = length ?ids" using ids by (metis length_map)
  have pos: "0 \<le> ?a \<and> ?a < int (length ?ids) \<and> getBackendStageIdx (?ids ! nat ?a) =
      Some (if b = 3 \<and> \<not> cf_hasDRO flags then 4 else b)"
    using backend_stage_mem[OF assms] unfolding backend_stages_def frontend_idx_ids
    by (cases "cf_hasDRO flags"; cases "cf_isEarlyRetirement flags"; simp; elim disjE;
        simp add: all_stage_ids_def stage_wanted_def BACKEND_TO_STAGE_ID_def getBackendStageIdx_def
          STAGE_ID_TO_BACKEND_def Let_def eval_nat_numeral)
  have nodro: "\<not> cf_hasDRO flags \<Longrightarrow> i < length ?st \<Longrightarrow> sd_id (?st ! i) \<noteq> ''dro''" for i
    using nth[of i] len nth_mem[of i ?ids] by (auto simp: stage_wanted_def)
  have "filter (\<lambda>i. \<not> (\<not> cf_hasDRO flags \<and> nat i < length ?st \<and> sd_id (?st ! nat i) = ''dro''))
      (map int [0..<nat ?a]) = map int [0..<nat ?a]"
    using nodro by (intro filter_True) auto
  moreover have "set (map int [0..<nat ?a]) = {0..<?a}"
    using pos by (simp add: image_int_atLeastLessThan)
  ultimately have "set (filter (\<lambda>i. \<not> (\<not> cf_hasDRO flags \<and> nat i < length ?st
      \<and> sd_id (?st ! nat i) = ''dro'')) (map int [0..<nat ?a])) = {0..<?a}" by metis
  then show ?thesis
    using pos len nth by (simp add: computeInitialState_def Let_def nat_less_iff)
qed

definition plain_flags :: case_flags where
  "plain_flags =
     \<lparr>cf_hasDRO = False, cf_hasPurchasedService = False, cf_isEarlyRetirement = True,
      cf_hasLeavePayout = False, cf_tier = 1, cf_maritalStatus = None\<rparr>"

theorem open_case_position_witness:
  "let stages = composeStages plain_flags None;
       (active, completed) = computeInitialState 3 stages (cf_hasDRO plain_flags)
   in 0 \<le> active \<and> active < int (length stages)
    \<and> getBackendStageIdx (sd_id (stages ! nat active)) =
        Some (if (3 :: int) = 3 \<and> \<not> cf_hasDRO plain_flags then 4 else 3)
    \<and> completed = {0..<active}"
  by (rule open_case_position) simp_all

end
