(* ===== verification/CaseWorkflow.thy ===== *)
theory CaseWorkflow imports StageMapping begin

text \<open>
  The page on which a clerk works a retirement case through its stages:
  src/frontend/src/components/RetirementApplication.tsx. The state is the component's hooks, the
  advance in progress (what its closure captured and the steps not answered yet), the requests it
  made and, as the other side, the stage index the case service holds per case. An event is a
  click, a key, an answer or new data; the component's two effects run after each.
\<close>

record case_data =
  cd_stageIdx :: int
  cd_assignedTo :: string

record advance_request =
  aq_caseId :: string
  aq_transitionedBy :: string
  aq_note :: "string option"

record stage_prompt =
  sp_stageId :: string
  sp_stageName :: string
  sp_templateCategory :: string

datatype navigation_model = Nav_guided | Nav_expert | Nav_deck | Nav_orbit

text \<open>An advance waiting for the answers to its calls; the head of the steps is in flight.\<close>

record advance_run =
  ar_caseId :: string
  ar_idx :: int
  ar_stage :: stage_descriptor
  ar_count :: nat
  ar_by :: string
  ar_steps :: "advance_step list"

record case_page =
  cp_caseId :: string
  cp_stages :: "stage_descriptor list"
  cp_flags :: case_flags
  cp_caseData :: "case_data option"
  cp_activeIdx :: int
  cp_completed :: "int set"
  cp_navModel :: navigation_model
  cp_helpOpen :: bool
  cp_isAdvancing :: bool
  cp_prompt :: "stage_prompt option"
  cp_showPanel :: bool
  cp_syncedWith :: "(string \<times> nat) option"
  cp_run :: "advance_run option"
  cp_requests :: "advance_request list"
  cp_service :: "string \<Rightarrow> int"
  cp_left :: bool

subsection \<open>The effects\<close>

definition sync_effect :: "case_page \<Rightarrow> case_page" where
  "sync_effect s =
     (case cp_caseData s of
        None \<Rightarrow> s
      | Some d \<Rightarrow>
          if cp_stages s = [] then s
          else if list_ex (\<lambda>x. sd_id x = ''dro'') (cp_stages s) \<noteq> cf_hasDRO (cp_flags s) then s
          else if cp_syncedWith s = Some (cp_caseId s, length (cp_stages s)) then s
          else (let initial = computeInitialState (cd_stageIdx d) (cp_stages s) (cf_hasDRO (cp_flags s))
                in s\<lparr>cp_activeIdx := fst initial, cp_completed := snd initial,
                     cp_syncedWith := Some (cp_caseId s, length (cp_stages s))\<rparr>))"

text \<open>The second effect sees the index the render had, not the one the first effect set.\<close>

definition run_effects :: "case_page \<Rightarrow> case_page" where
  "run_effects s =
     (let s' = sync_effect s; n = int (length (cp_stages s)) in
      if cp_activeIdx s \<ge> n then s'\<lparr>cp_activeIdx := n - 1\<rparr> else s')"

subsection \<open>The advance\<close>

definition send_step :: "advance_run \<Rightarrow> case_page \<Rightarrow> case_page" where
  "send_step r s = s\<lparr>cp_requests := cp_requests s @
     [\<lparr>aq_caseId = ar_caseId r, aq_transitionedBy = ar_by r,
       aq_note = av_note (hd (ar_steps r))\<rparr>]\<rparr>"

text \<open>What follows the last answer, over the captured index and stages.\<close>

definition finish_advance :: "int \<Rightarrow> stage_descriptor \<Rightarrow> nat \<Rightarrow> case_page \<Rightarrow> case_page" where
  "finish_advance idx stage count s =
     s\<lparr>cp_completed := insert idx (cp_completed s),
       cp_prompt := (case getTemplateCategoryForStage (sd_id stage) of
                       Some c \<Rightarrow> Some \<lparr>sp_stageId = sd_id stage, sp_stageName = sd_label stage,
                                       sp_templateCategory = c\<rparr>
                     | None \<Rightarrow> cp_prompt s),
       cp_activeIdx := (if idx < int count - 1 then idx + 1 else cp_activeIdx s)\<rparr>"

definition current_stage :: "case_page \<Rightarrow> stage_descriptor option" where
  "current_stage s =
     (if 0 \<le> cp_activeIdx s \<and> cp_activeIdx s < int (length (cp_stages s))
      then Some (cp_stages s ! nat (cp_activeIdx s)) else None)"

definition advance :: "case_page \<Rightarrow> case_page" where
  "advance s =
     (if cp_isAdvancing s then s
      else case current_stage s of
        None \<Rightarrow> s
      | Some stage \<Rightarrow>
          let backendIdx = (case cp_caseData s of None \<Rightarrow> 0 | Some d \<Rightarrow> cd_stageIdx d);
              steps = computeAdvanceSequence (sd_id stage) backendIdx (cp_flags s);
              r = \<lparr>ar_caseId = cp_caseId s, ar_idx = cp_activeIdx s, ar_stage = stage,
                   ar_count = length (cp_stages s),
                   ar_by = or_str (map_option cd_assignedTo (cp_caseData s)) ''Sarah Chen'',
                   ar_steps = steps\<rparr>
          in if steps = [] then finish_advance (cp_activeIdx s) stage (length (cp_stages s)) s
             else send_step r (s\<lparr>cp_isAdvancing := True, cp_run := Some r\<rparr>))"

text \<open>
  The service carries a call out as often as its attempts reach it; the last attempt says whether
  the call went well. \<open>lost\<close> is an answer that does not arrive.
\<close>

fun serve :: "nat \<Rightarrow> int \<Rightarrow> int \<times> bool" where
  "serve 0 i = (i, False)"
| "serve (Suc n) i =
     (case AdvanceStage i of
        Inl e \<Rightarrow> (i, False)
      | Inr j \<Rightarrow> if n = 0 then (j, True) else serve n j)"

definition answer_step :: "nat \<Rightarrow> bool \<Rightarrow> case_page \<Rightarrow> case_page" where
  "answer_step attempts lost s =
     (case cp_run s of
        None \<Rightarrow> s
      | Some r \<Rightarrow>
          let res = serve attempts (cp_service s (ar_caseId r));
              s' = s\<lparr>cp_service := (cp_service s)(ar_caseId r := fst res)\<rparr>
          in if \<not> snd res \<or> lost then s'\<lparr>cp_isAdvancing := False, cp_run := None\<rparr>
             else let r' = r\<lparr>ar_steps := tl (ar_steps r)\<rparr> in
               if ar_steps r' = []
               then finish_advance (ar_idx r) (ar_stage r) (ar_count r)
                      (s'\<lparr>cp_isAdvancing := False, cp_run := None\<rparr>)
               else send_step r' (s'\<lparr>cp_run := Some r'\<rparr>))"

subsection \<open>Moving between stages\<close>

definition may_open :: "case_page \<Rightarrow> int \<Rightarrow> bool" where
  "may_open s idx \<longleftrightarrow> idx \<in> cp_completed s \<or> idx \<le> cp_activeIdx s"

definition navigate :: "int \<Rightarrow> case_page \<Rightarrow> case_page" where
  "navigate idx s = (if may_open s idx then s\<lparr>cp_activeIdx := idx\<rparr> else s)"

definition goBack :: "case_page \<Rightarrow> case_page" where
  "goBack s = (if cp_activeIdx s > 0 then s\<lparr>cp_activeIdx := cp_activeIdx s - 1\<rparr> else s)"

definition key_forward :: "case_page \<Rightarrow> case_page" where
  "key_forward s =
     (if cp_activeIdx s < int (length (cp_stages s)) - 1
      then s\<lparr>cp_activeIdx := cp_activeIdx s + 1\<rparr> else s)"

definition key_digit :: "nat \<Rightarrow> case_page \<Rightarrow> case_page" where
  "key_digit num s =
     (if 1 \<le> num \<and> num \<le> length (cp_stages s) \<and> may_open s (int num - 1)
      then s\<lparr>cp_activeIdx := int num - 1\<rparr> else s)"

datatype case_event =
    Case_loaded case_data
  | Stages_composed "stage_descriptor list" case_flags
  | Case_opened string "case_data option"
  | Click_advance
  | Advance_answered nat bool
  | Click_previous
  | Click_stage nat
  | Key_forward
  | Key_back
  | Key_digit nat
  | Key_escape
  | Prompt_generate
  | Prompt_skip
  | Panel_closed
  | Help_set bool
  | Nav_set navigation_model

fun handle_event :: "case_event \<Rightarrow> case_page \<Rightarrow> case_page" where
  "handle_event (Case_loaded d) s = s\<lparr>cp_caseData := Some d\<rparr>"
| "handle_event (Stages_composed st fl) s = s\<lparr>cp_stages := st, cp_flags := fl\<rparr>"
| "handle_event (Case_opened c d) s = s\<lparr>cp_caseId := c, cp_caseData := d\<rparr>"
| "handle_event Click_advance s = advance s"
| "handle_event (Advance_answered attempts lost) s = answer_step attempts lost s"
| "handle_event Click_previous s = goBack s"
| "handle_event (Click_stage i) s = navigate (int i) s"
| "handle_event Key_forward s = key_forward s"
| "handle_event Key_back s = goBack s"
| "handle_event (Key_digit n) s = key_digit n s"
| "handle_event Key_escape s = s\<lparr>cp_left := True\<rparr>"
| "handle_event Prompt_generate s = s\<lparr>cp_showPanel := True, cp_prompt := None\<rparr>"
| "handle_event Prompt_skip s = s\<lparr>cp_prompt := None\<rparr>"
| "handle_event Panel_closed s = s\<lparr>cp_showPanel := False\<rparr>"
| "handle_event (Help_set b) s = s\<lparr>cp_helpOpen := b\<rparr>"
| "handle_event (Nav_set m) s = s\<lparr>cp_navModel := m\<rparr>"

definition case_step :: "case_page \<Rightarrow> case_event \<Rightarrow> case_page" where
  "case_step s e = run_effects (handle_event e s)"

definition case_mount ::
  "string \<Rightarrow> stage_descriptor list \<Rightarrow> case_flags \<Rightarrow> case_data option \<Rightarrow> (string \<Rightarrow> int) \<Rightarrow> case_page" where
  "case_mount caseId stages flags d service = run_effects
     \<lparr>cp_caseId = caseId, cp_stages = stages, cp_flags = flags, cp_caseData = d, cp_activeIdx = 0,
      cp_completed = {}, cp_navModel = Nav_guided, cp_helpOpen = True, cp_isAdvancing = False,
      cp_prompt = None, cp_showPanel = False, cp_syncedWith = None, cp_run = None,
      cp_requests = [], cp_service = service, cp_left = False\<rparr>"

subsection \<open>The page and the service in step\<close>

text \<open>
  The specification both sides are held to: a case is the number of page stages done, and the
  service's stage is the one the done stages lead to. A case without a DRO waits at the DRO stage
  of the service only between two calls, so that stage counts as the next one.
\<close>

definition progress_stage :: "case_flags \<Rightarrow> nat \<Rightarrow> int" where
  "progress_stage flags m =
     foldl (\<lambda>b s. backend_after s b flags) 0 (take m (filter (stage_wanted flags) all_stage_ids))"

definition effective_stage :: "case_flags \<Rightarrow> int \<Rightarrow> int" where
  "effective_stage flags b = (if b = 3 \<and> \<not> cf_hasDRO flags then 4 else b)"

definition ids_of :: "case_flags \<Rightarrow> string list" where
  "ids_of flags = filter (stage_wanted flags) all_stage_ids"

lemma ids_of_cases:
  "ids_of flags =
     [''intake'', ''verify-employment'', ''salary-ams'', ''eligibility'']
     @ (if cf_hasDRO flags then [''dro''] else []) @ [''benefit-calc'']
     @ (if cf_isEarlyRetirement flags then [''scenario''] else []) @ [''election'', ''submit'']"
  by (simp add: ids_of_def all_stage_ids_def stage_wanted_def)

lemma backend_idx_simps [simp]:
  "getBackendStageIdx ''intake'' = Some 0" "getBackendStageIdx ''verify-employment'' = Some 1"
  "getBackendStageIdx ''salary-ams'' = None" "getBackendStageIdx ''eligibility'' = Some 2"
  "getBackendStageIdx ''dro'' = Some 3" "getBackendStageIdx ''benefit-calc'' = Some 4"
  "getBackendStageIdx ''scenario'' = None" "getBackendStageIdx ''election'' = Some 5"
  "getBackendStageIdx ''submit'' = Some 6"
  by (simp_all add: getBackendStageIdx_def STAGE_ID_TO_BACKEND_def)

definition progress_table :: "case_flags \<Rightarrow> int list" where
  "progress_table flags =
     [0, 1, 2, 2] @ (if cf_hasDRO flags then [3, 4] else [4]) @ [5]
     @ (if cf_isEarlyRetirement flags then [5] else []) @ [6, 6]"

lemma progress_stage_table:
  "m \<le> length (ids_of flags) \<Longrightarrow> progress_stage flags m = progress_table flags ! m"
  unfolding progress_stage_def ids_of_def[symmetric] ids_of_cases progress_table_def
  by (cases "cf_hasDRO flags"; cases "cf_isEarlyRetirement flags";
      auto simp: le_Suc_eq backend_after_def)

lemma nat_upto: "i < n \<Longrightarrow> i \<in> set [0..<n]" by simp

lemma completes_stage:
  assumes "m < length (ids_of flags)" "0 \<le> b" "b \<le> 6"
    "progress_stage flags m \<le> effective_stage flags b"
    "effective_stage flags b \<le> progress_stage flags (Suc m)"
  shows "effective_stage flags (backend_after (ids_of flags ! m) b flags) = progress_stage flags (Suc m)"
proof -
  have b: "b \<in> set backend_stages" using backend_stage_mem assms(2,3) .
  have "m \<in> set [0..<9]" using assms(1) by (auto simp: ids_of_cases split: if_splits)
  then show ?thesis
    using assms(1,4,5) b
    unfolding progress_stage_table[OF less_imp_le[OF assms(1)]] progress_stage_table[OF Suc_leI[OF assms(1)]]
    unfolding backend_stages_def ids_of_cases progress_table_def effective_stage_def
    by (cases "cf_hasDRO flags"; cases "cf_isEarlyRetirement flags";
        auto simp: upt_rec backend_after_def)
qed

lemma progress_stage_mono: "progress_stage flags m \<le> progress_stage flags (Suc m)"
proof (cases "m < length (ids_of flags)")
  case True
  then have "m \<in> set [0..<9]" by (auto simp: ids_of_cases split: if_splits)
  then show ?thesis
    using True
    unfolding progress_stage_table[OF less_imp_le[OF True]] progress_stage_table[OF Suc_leI[OF True]]
    unfolding ids_of_cases progress_table_def
    by (cases "cf_hasDRO flags"; cases "cf_isEarlyRetirement flags"; auto simp: upt_rec)
next
  case False
  then show ?thesis unfolding progress_stage_def ids_of_def[symmetric] by simp
qed

lemma progress_stage_le: "i \<le> m \<Longrightarrow> progress_stage flags i \<le> progress_stage flags m"
  by (rule lift_Suc_mono_le[of "progress_stage flags"]) (rule progress_stage_mono)

lemma done_stage_next:
  assumes "i < length (ids_of flags)" "0 \<le> b" "b \<le> 6"
    "progress_stage flags (Suc i) \<le> effective_stage flags b"
  shows "computeAdvanceSequence (ids_of flags ! i) b flags = []"
proof -
  have b: "b \<in> set backend_stages" using backend_stage_mem assms(2,3) .
  have "i \<in> set [0..<9]" using assms(1) by (auto simp: ids_of_cases split: if_splits)
  then show ?thesis
    using assms(1,4) b
    unfolding progress_stage_table[OF Suc_leI[OF assms(1)]]
    unfolding backend_stages_def ids_of_cases progress_table_def effective_stage_def
    by (cases "cf_hasDRO flags"; cases "cf_isEarlyRetirement flags";
        auto simp: upt_rec computeAdvanceSequence_def advance_loop_simps_done skip_loop_unfold)
qed

lemma done_stage:
  assumes "i < m" "m \<le> length (ids_of flags)" "0 \<le> b" "b \<le> 6"
    "progress_stage flags m \<le> effective_stage flags b"
  shows "computeAdvanceSequence (ids_of flags ! i) b flags = []"
  using done_stage_next[of i flags b] progress_stage_le[of "Suc i" m flags] assms by simp

lemma effective_mono: "a \<le> b \<Longrightarrow> effective_stage flags a \<le> effective_stage flags b"
  by (simp add: effective_stage_def)

text \<open>Page and service agree that \<open>m\<close> stages are done, an advance of the next one may be on its way.\<close>

definition in_step :: "stage_descriptor list \<Rightarrow> case_flags \<Rightarrow> string \<Rightarrow> nat \<Rightarrow> case_page \<Rightarrow> bool" where
  "in_step stages flags c m s \<longleftrightarrow>
     cp_stages s = stages \<and> cp_flags s = flags \<and> cp_caseId s = c
   \<and> cp_syncedWith s = Some (c, length stages)
   \<and> m \<le> length stages \<and> cp_completed s = {0..<int m}
   \<and> 0 \<le> cp_activeIdx s \<and> cp_activeIdx s \<le> int m \<and> cp_activeIdx s < int (length stages)
   \<and> 0 \<le> cp_service s c \<and> cp_service s c \<le> 6
   \<and> progress_stage flags m \<le> effective_stage flags (cp_service s c)
   \<and> effective_stage flags (cp_service s c) \<le> progress_stage flags (Suc m)
   \<and> (cp_isAdvancing s \<longleftrightarrow> cp_run s \<noteq> None)
   \<and> (case cp_run s of None \<Rightarrow> True | Some r \<Rightarrow>
        ar_caseId r = c \<and> ar_idx r = int m \<and> m < length stages \<and> ar_stage r = stages ! m
      \<and> ar_count r = length stages \<and> ar_steps r \<noteq> []
      \<and> cp_service s c + int (length (ar_steps r)) \<le> 6
      \<and> effective_stage flags (cp_service s c + int (length (ar_steps r))) = progress_stage flags (Suc m))"

text \<open>
  What the clerk and the network do when nothing goes out of order: an advance is clicked on the
  service's current stage, no call is carried out twice, the forward keys stop at the first stage
  that is not done, and the case and its stages stay the same.
\<close>

fun orderly :: "case_page \<Rightarrow> case_event \<Rightarrow> bool" where
  "orderly s Click_advance = (map_option cd_stageIdx (cp_caseData s) = Some (cp_service s (cp_caseId s)))"
| "orderly s (Advance_answered attempts lost) = (attempts \<le> 1)"
| "orderly s Key_forward = (cp_activeIdx s \<in> cp_completed s)"
| "orderly s (Stages_composed st fl) = False"
| "orderly s (Case_opened c d) = False"
| "orderly s e = True"

lemma effects_in_step: "in_step stages flags c m s \<Longrightarrow> run_effects s = s"
  by (auto simp: in_step_def run_effects_def sync_effect_def Let_def split: option.splits)

lemma finish_in_step:
  assumes "in_step stages flags c m s" "cp_run s = None" "i \<le> m" "i < length stages"
    "i = m \<Longrightarrow> effective_stage flags (cp_service s c) = progress_stage flags (Suc m)"
  shows "in_step stages flags c (if i = m then Suc m else m)
           (finish_advance (int i) st (length stages) s)"
proof (cases "i = m")
  case True
  moreover have "insert (int m) {0..<int m} = {0..<int (Suc m)}" by auto
  ultimately show ?thesis
    using assms progress_stage_mono[of flags "Suc m"] by (simp add: in_step_def finish_advance_def)
next
  case False
  moreover have "insert (int i) {0..<int m} = {0..<int m}" using False assms(3) by auto
  ultimately show ?thesis
    using assms(1-4) by (simp add: in_step_def finish_advance_def)
qed

lemma advance_in_step:
  assumes s: "in_step stages flags c m s" and ids: "map sd_id stages = ids_of flags"
    and fresh: "orderly s Click_advance"
  shows "\<exists>m'. (m' = m \<or> m' = Suc m) \<and> in_step stages flags c m' (advance s)"
proof (cases "cp_isAdvancing s")
  case True
  then show ?thesis using s by (auto simp: advance_def)
next
  case False
  define i where "i = nat (cp_activeIdx s)"
  define b where "b = cp_service s c"
  have i: "cp_activeIdx s = int i" "i \<le> m" "i < length stages" and n: "length stages = length (ids_of flags)"
    and m: "m \<le> length (ids_of flags)"
    using s ids[THEN arg_cong[where f = length]] by (auto simp: in_step_def i_def)
  have sid: "sd_id (stages ! i) = ids_of flags ! i"
    using i(3) ids by (metis nth_map)
  have b: "0 \<le> b" "b \<le> 6" "progress_stage flags m \<le> effective_stage flags b"
    "effective_stage flags b \<le> progress_stage flags (Suc m)"
    using s by (auto simp: in_step_def b_def)
  let ?ss = "computeAdvanceSequence (ids_of flags ! i) b flags"
  let ?r = "\<lparr>ar_caseId = c, ar_idx = int i, ar_stage = stages ! i, ar_count = length stages,
             ar_by = or_str (map_option cd_assignedTo (cp_caseData s)) ''Sarah Chen'', ar_steps = ?ss\<rparr>"
  have norun: "cp_run s = None" using s False by (auto simp: in_step_def)
  have adv: "advance s = (if ?ss = [] then finish_advance (int i) (stages ! i) (length stages) s
        else send_step ?r (s\<lparr>cp_isAdvancing := True, cp_run := Some ?r\<rparr>))"
    using False s i fresh sid
    by (auto simp: advance_def current_stage_def in_step_def Let_def b_def split: option.splits)
  have len: "b + int (length ?ss) = backend_after (ids_of flags ! i) b flags"
    using sequence_targets[OF b(1,2)] by blast
  have last: "effective_stage flags (b + int (length ?ss)) = progress_stage flags (Suc m)" if "i = m"
    unfolding len using completes_stage[of m flags b] i(3) n b that by simp
  show ?thesis
  proof (cases "?ss = []")
    case True
    then have "advance s = finish_advance (int i) (stages ! i) (length stages) s" using adv by simp
    moreover have e: "effective_stage flags (cp_service s c) = progress_stage flags (Suc m)" if "i = m"
      using last[OF that] unfolding True by (simp add: b_def)
    ultimately have "in_step stages flags c (if i = m then Suc m else m) (advance s)"
      using finish_in_step[OF s norun i(2,3) e] by simp
    then show ?thesis by (cases "i = m") auto
  next
    case False
    have im: "i = m" using done_stage[of i m flags b] m b False i(2) by linarith
    have "b + int (length ?ss) \<le> 6" using backend_after_range[OF b(1,2)] by (simp add: len)
    then have "in_step stages flags c m (advance s)"
      using s adv False im i last by (auto simp: in_step_def send_step_def b_def)
    then show ?thesis by blast
  qed
qed


lemma serve_once:
  "n \<le> 1 \<Longrightarrow> 0 \<le> b \<Longrightarrow> b < 6 \<Longrightarrow> serve n b = (b, False) \<or> serve n b = (b + 1, True)"
  by (cases n) (auto simp: AdvanceStage_def)

lemma answer_in_step:
  assumes s: "in_step stages flags c m s" and once: "attempts \<le> 1"
  shows "\<exists>m'. (m' = m \<or> m' = Suc m) \<and> in_step stages flags c m' (answer_step attempts lost s)"
proof (cases "cp_run s")
  case None
  then show ?thesis using s by (auto simp: answer_step_def)
next
  case (Some r)
  define b where "b = cp_service s c"
  have r: "ar_caseId r = c" "ar_idx r = int m" "m < length stages" "ar_count r = length stages"
    "ar_steps r \<noteq> []" "b + int (length (ar_steps r)) \<le> 6"
    "effective_stage flags (b + int (length (ar_steps r))) = progress_stage flags (Suc m)"
    and b: "0 \<le> b" "progress_stage flags m \<le> effective_stage flags b"
    "effective_stage flags b \<le> progress_stage flags (Suc m)"
    using s Some by (auto simp: in_step_def b_def)
  obtain st ss where ss: "ar_steps r = st # ss" using r(5) by (cases "ar_steps r") auto
  have b6: "b < 6" using r(6) ss by simp
  have next_b: "progress_stage flags m \<le> effective_stage flags (b + 1)"
    "effective_stage flags (b + 1) \<le> progress_stage flags (Suc m)"
    using effective_mono[of b "b + 1" flags] effective_mono[of "b + 1" "b + int (length (ar_steps r))" flags]
      b(2) r(7) ss by simp_all
  let ?t = "\<lambda>k. s\<lparr>cp_service := (cp_service s)(c := k), cp_isAdvancing := False, cp_run := None\<rparr>"
  have stopped: "in_step stages flags c m (?t k)" if "k = b \<or> k = b + 1" for k
    using s that b next_b b6 by (auto simp: in_step_def b_def)
  have ans: "answer_step attempts lost s =
      (if \<not> snd (serve attempts b) \<or> lost then ?t (fst (serve attempts b))
       else if ss = [] then finish_advance (int m) (ar_stage r) (length stages) (?t (fst (serve attempts b)))
       else send_step (r\<lparr>ar_steps := ss\<rparr>)
         (s\<lparr>cp_service := (cp_service s)(c := fst (serve attempts b)), cp_run := Some (r\<lparr>ar_steps := ss\<rparr>)\<rparr>))"
    using Some r(1,2,4) ss by (simp add: answer_step_def Let_def b_def)
  show ?thesis
  proof (cases "snd (serve attempts b) \<and> \<not> lost")
    case False
    then have "answer_step attempts lost s = ?t (fst (serve attempts b))" unfolding ans by simp
    then show ?thesis using stopped serve_once[OF once b(1) b6] by auto
  next
    case ok: True
    then have f: "fst (serve attempts b) = b + 1" using serve_once[OF once b(1) b6] by auto
    show ?thesis
    proof (cases "ss = []")
      case True
      have "in_step stages flags c (if m = m then Suc m else m)
          (finish_advance (int m) (ar_stage r) (length stages) (?t (b + 1)))"
        by (rule finish_in_step[OF stopped]) (use r True ss in simp_all)
      moreover have "answer_step attempts lost s = finish_advance (int m) (ar_stage r) (length stages) (?t (b + 1))"
        using ok f True unfolding ans by simp
      ultimately show ?thesis by auto
    next
      case False
      then have "answer_step attempts lost s = send_step (r\<lparr>ar_steps := ss\<rparr>)
          (s\<lparr>cp_service := (cp_service s)(c := b + 1), cp_run := Some (r\<lparr>ar_steps := ss\<rparr>)\<rparr>)"
        using ok f unfolding ans by simp
      then have "in_step stages flags c m (answer_step attempts lost s)"
        using s Some r ss False next_b b6 by (simp add: in_step_def send_step_def b_def algebra_simps)
      then show ?thesis by blast
    qed
  qed
qed

lemma stage_of_position:
  assumes "a < length (ids_of flags)" "getBackendStageIdx (ids_of flags ! a) = Some k"
  shows "progress_stage flags a = k"
proof -
  have "a \<in> set [0..<9]" using assms(1) by (auto simp: ids_of_cases split: if_splits)
  then show ?thesis
    using assms unfolding progress_stage_table[OF less_imp_le[OF assms(1)]]
    unfolding ids_of_cases progress_table_def
    by (cases "cf_hasDRO flags"; cases "cf_isEarlyRetirement flags"; auto simp: upt_rec)
qed

lemma composed_dro: "list_ex (\<lambda>x. sd_id x = ''dro'') (composeStages flags data) \<longleftrightarrow> cf_hasDRO flags"
proof -
  have "list_ex (\<lambda>x. sd_id x = ''dro'') (composeStages flags data) \<longleftrightarrow>
      ''dro'' \<in> set (map sd_id (composeStages flags data))"
    by (auto simp: list_ex_iff image_iff) metis
  then show ?thesis by (simp add: composed_ids stage_wanted_def all_stage_ids_def)
qed

lemma composed_ids_of: "map sd_id (composeStages flags data) = ids_of flags"
  by (simp add: composed_ids ids_of_def)

lemma composed_nonempty: "composeStages flags data \<noteq> []"
  using composed_length[of flags data] by (cases "composeStages flags data") simp_all

lemma mount_position:
  assumes "0 \<le> cd_stageIdx d" "cd_stageIdx d \<le> 6"
  shows "\<exists>a. a < length (composeStages flags data) \<and> progress_stage flags a = effective_stage flags (cd_stageIdx d)
    \<and> case_mount c (composeStages flags data) flags (Some d) service =
      \<lparr>cp_caseId = c, cp_stages = composeStages flags data, cp_flags = flags, cp_caseData = Some d,
       cp_activeIdx = int a, cp_completed = {0..<int a}, cp_navModel = Nav_guided, cp_helpOpen = True,
       cp_isAdvancing = False, cp_prompt = None, cp_showPanel = False,
       cp_syncedWith = Some (c, length (composeStages flags data)), cp_run = None,
       cp_requests = [], cp_service = service, cp_left = False\<rparr>"
proof -
  let ?st = "composeStages flags data"
  obtain i fin where i: "computeInitialState (cd_stageIdx d) ?st (cf_hasDRO flags) = (i, fin)" by force
  have p: "0 \<le> i" "i < int (length ?st)" "fin = {0..<i}"
    "getBackendStageIdx (sd_id (?st ! nat i)) = Some (effective_stage flags (cd_stageIdx d))"
    using open_case_position[OF assms, of flags data] i by (auto simp: Let_def effective_stage_def)
  have n: "length ?st = length (ids_of flags)" using composed_ids_of by (metis length_map)
  have "sd_id (?st ! nat i) = ids_of flags ! nat i"
    using p(1,2) composed_ids_of[of flags data] by (metis nat_less_iff nth_map)
  then have "progress_stage flags (nat i) = effective_stage flags (cd_stageIdx d)"
    using stage_of_position[of "nat i" flags] p n by (simp add: nat_less_iff)
  then show ?thesis
    using p i composed_nonempty[of flags data]
    by (intro exI[of _ "nat i"])
      (simp add: case_mount_def run_effects_def sync_effect_def composed_dro nat_less_iff)
qed

lemma mount_in_step:
  assumes "0 \<le> cd_stageIdx d" "cd_stageIdx d \<le> 6" "service c = cd_stageIdx d"
  shows "\<exists>m. in_step (composeStages flags data) flags c m
      (case_mount c (composeStages flags data) flags (Some d) service)"
proof -
  obtain a where a: "a < length (composeStages flags data)"
    "progress_stage flags a = effective_stage flags (cd_stageIdx d)"
    and mount: "case_mount c (composeStages flags data) flags (Some d) service =
      \<lparr>cp_caseId = c, cp_stages = composeStages flags data, cp_flags = flags, cp_caseData = Some d,
       cp_activeIdx = int a, cp_completed = {0..<int a}, cp_navModel = Nav_guided, cp_helpOpen = True,
       cp_isAdvancing = False, cp_prompt = None, cp_showPanel = False,
       cp_syncedWith = Some (c, length (composeStages flags data)), cp_run = None,
       cp_requests = [], cp_service = service, cp_left = False\<rparr>"
    using mount_position[OF assms(1,2)] by blast
  show ?thesis
    using a assms progress_stage_mono[of flags a] unfolding mount
    by (intro exI[of _ a]) (simp add: in_step_def)
qed

lemma orderly_step:
  assumes s: "in_step stages flags c m s" and ids: "map sd_id stages = ids_of flags" and ok: "orderly s e"
  shows "\<exists>m'. (m' = m \<or> m' = Suc m) \<and> in_step stages flags c m' (case_step s e)"
proof -
  have "\<exists>m'. (m' = m \<or> m' = Suc m) \<and> in_step stages flags c m' (handle_event e s)"
  proof (cases e)
    case Click_advance
    then show ?thesis using advance_in_step[OF s ids] ok by simp
  next
    case (Advance_answered attempts lost)
    then show ?thesis using answer_in_step[OF s] ok by simp
  qed (use s ok in \<open>auto simp: in_step_def goBack_def navigate_def key_forward_def key_digit_def may_open_def\<close>)
  then show ?thesis unfolding case_step_def using effects_in_step by metis
qed

fun all_orderly :: "case_page \<Rightarrow> case_event list \<Rightarrow> bool" where
  "all_orderly s [] = True"
| "all_orderly s (e # es) = (orderly s e \<and> all_orderly (case_step s e) es)"

lemma orderly_run:
  assumes "in_step stages flags c m s" "map sd_id stages = ids_of flags" "all_orderly s (es @ es')"
  shows "\<exists>m'. in_step stages flags c m' (run case_step s es) \<and> all_orderly (run case_step s es) es'"
  using assms
proof (induction es arbitrary: s m)
  case (Cons e es)
  then obtain m' where "in_step stages flags c m' (case_step s e)"
    using orderly_step[of stages flags c m s e] by auto
  with Cons show ?case by simp
qed auto


definition stages_done :: "case_page \<Rightarrow> nat" where
  "stages_done s = card (cp_completed s)"

text \<open>The case as its specification has it: a count of stages done, growing one by one.\<close>

definition case_spec :: "nat \<Rightarrow> nat \<Rightarrow> nat \<Rightarrow> bool" where
  "case_spec n m m' \<longleftrightarrow> m' = m \<or> m' = Suc m \<and> m < n"


definition opened :: "string \<Rightarrow> stage_descriptor list \<Rightarrow> case_flags \<Rightarrow> case_data \<Rightarrow> (string \<Rightarrow> int) \<Rightarrow> case_page" where
  "opened c stages flags d service =
     \<lparr>cp_caseId = c, cp_stages = stages, cp_flags = flags, cp_caseData = Some d,
       cp_activeIdx = 0, cp_completed = {}, cp_navModel = Nav_guided, cp_helpOpen = True,
       cp_isAdvancing = False, cp_prompt = None, cp_showPanel = False,
       cp_syncedWith = Some (c, length stages), cp_run = None,
       cp_requests = [], cp_service = service, cp_left = False\<rparr>"

lemma mount_first:
  assumes "cd_stageIdx d = 0"
  shows "case_mount c (composeStages flags data) flags (Some d) service =
      opened c (composeStages flags data) flags d service"
proof -
  obtain a where a: "a < length (composeStages flags data)" "progress_stage flags a = 0"
    and mount: "case_mount c (composeStages flags data) flags (Some d) service =
      \<lparr>cp_caseId = c, cp_stages = composeStages flags data, cp_flags = flags, cp_caseData = Some d,
       cp_activeIdx = int a, cp_completed = {0..<int a}, cp_navModel = Nav_guided, cp_helpOpen = True,
       cp_isAdvancing = False, cp_prompt = None, cp_showPanel = False,
       cp_syncedWith = Some (c, length (composeStages flags data)), cp_run = None,
       cp_requests = [], cp_service = service, cp_left = False\<rparr>"
    using mount_position[of d flags data c service] assms by (auto simp: effective_stage_def)
  have "progress_stage flags 1 = 1"
    by (subst progress_stage_table) (simp_all add: ids_of_cases progress_table_def)
  then have "a = 0" using progress_stage_le[of 1 a flags] a(2) by (cases a) auto
  with mount show ?thesis by (simp add: opened_def)
qed

lemma stage_ids: "map sd_id st = ids_of flags \<Longrightarrow> i < length st \<Longrightarrow> sd_id (st ! i) = ids_of flags ! i"
  by (metis nth_map)

definition settled_page :: "case_page \<Rightarrow> bool" where
  "settled_page s \<longleftrightarrow> cp_syncedWith s = Some (cp_caseId s, length (cp_stages s))
     \<and> 0 \<le> cp_activeIdx s \<and> cp_activeIdx s < int (length (cp_stages s))"

lemma effects_settled: "settled_page s \<Longrightarrow> run_effects s = s"
  by (auto simp: settled_page_def run_effects_def sync_effect_def Let_def split: option.splits)

lemma answers_arrive:
  assumes "settled_page s" "cp_run s = Some r" "ar_steps r \<noteq> []" "0 \<le> cp_service s (ar_caseId r)"
    "cp_service s (ar_caseId r) + int (length (ar_steps r)) \<le> 6"
    "ar_count r = length (cp_stages s)" "0 \<le> ar_idx r"
  shows "\<exists>rq. run case_step s (replicate (length (ar_steps r)) (Advance_answered 1 False)) =
     finish_advance (ar_idx r) (ar_stage r) (ar_count r)
       (s\<lparr>cp_service := (cp_service s)(ar_caseId r := cp_service s (ar_caseId r) + int (length (ar_steps r))),
          cp_isAdvancing := False, cp_run := None, cp_requests := rq\<rparr>)"
  using assms
proof (induction "ar_steps r" arbitrary: s r)
  case (Cons st ss)
  have ss: "ar_steps r = st # ss" using Cons.hyps(2) by simp
  let ?b = "cp_service s (ar_caseId r)"
  have "?b < 6" using Cons.prems(5) ss by simp
  then have sv: "serve 1 ?b = (?b + 1, True)" using Cons.prems(4) by (simp add: AdvanceStage_def)
  let ?s1 = "s\<lparr>cp_service := (cp_service s)(ar_caseId r := ?b + 1)\<rparr>"
  show ?case
  proof (cases "ss = []")
    case True
    then have "handle_event (Advance_answered 1 False) s =
        finish_advance (ar_idx r) (ar_stage r) (ar_count r) (?s1\<lparr>cp_isAdvancing := False, cp_run := None\<rparr>)"
      using Cons.prems(2) ss sv by (simp add: answer_step_def Let_def)
    moreover have "settled_page (handle_event (Advance_answered 1 False) s)"
      using Cons.prems(1,6,7) unfolding calculation by (simp add: settled_page_def finish_advance_def)
    ultimately show ?thesis
      using True ss by (intro exI[of _ "cp_requests s"]) (simp add: case_step_def effects_settled)
  next
    case False
    let ?r = "r\<lparr>ar_steps := ss\<rparr>"
    let ?s2 = "send_step ?r (?s1\<lparr>cp_run := Some ?r\<rparr>)"
    have "handle_event (Advance_answered 1 False) s = ?s2"
      using Cons.prems(2) ss sv False by (simp add: answer_step_def Let_def)
    moreover have "settled_page ?s2"
      using Cons.prems(1) by (simp add: settled_page_def send_step_def)
    ultimately have one: "case_step s (Advance_answered 1 False) = ?s2"
      by (simp add: case_step_def effects_settled)
    have "\<exists>rq. run case_step ?s2 (replicate (length (ar_steps ?r)) (Advance_answered 1 False)) =
       finish_advance (ar_idx ?r) (ar_stage ?r) (ar_count ?r)
         (?s2\<lparr>cp_service := (cp_service ?s2)(ar_caseId ?r := cp_service ?s2 (ar_caseId ?r) + int (length (ar_steps ?r))),
            cp_isAdvancing := False, cp_run := None, cp_requests := rq\<rparr>)"
      by (rule Cons.hyps(1)) (use Cons.prems ss False in \<open>auto simp: settled_page_def send_step_def\<close>)
    then show ?thesis
      using ss one by (simp add: send_step_def finish_advance_def algebra_simps)
  qed
qed simp

lemma advance_round:
  assumes "settled_page s" "\<not> cp_isAdvancing s" "cp_run s = None" "cp_caseData s = Some d"
    "cp_activeIdx s = int i"
    "ss = computeAdvanceSequence (sd_id (cp_stages s ! i)) (cd_stageIdx d) (cp_flags s)"
    "0 \<le> cp_service s (cp_caseId s)" "cp_service s (cp_caseId s) + int (length ss) \<le> 6"
  shows "\<exists>rq. run case_step s (Click_advance # replicate (length ss) (Advance_answered 1 False)) =
     finish_advance (int i) (cp_stages s ! i) (length (cp_stages s))
       (s\<lparr>cp_service := (cp_service s)(cp_caseId s := cp_service s (cp_caseId s) + int (length ss)),
          cp_isAdvancing := False, cp_run := None, cp_requests := rq\<rparr>)"
proof (cases "ss = []")
  case True
  have "handle_event Click_advance s = finish_advance (int i) (cp_stages s ! i) (length (cp_stages s)) s"
    using assms True by (simp add: advance_def current_stage_def settled_page_def Let_def)
  moreover have "settled_page (handle_event Click_advance s)"
    using assms(1) unfolding calculation by (simp add: settled_page_def finish_advance_def)
  moreover have "s\<lparr>cp_isAdvancing := False, cp_run := None\<rparr> = s" using assms(2,3) by (cases s) simp
  ultimately show ?thesis
    using True by (intro exI[of _ "cp_requests s"]) (simp add: case_step_def effects_settled finish_advance_def)
next
  case False
  let ?r = "\<lparr>ar_caseId = cp_caseId s, ar_idx = int i, ar_stage = cp_stages s ! i,
             ar_count = length (cp_stages s),
             ar_by = or_str (map_option cd_assignedTo (cp_caseData s)) ''Sarah Chen'', ar_steps = ss\<rparr>"
  let ?s1 = "send_step ?r (s\<lparr>cp_isAdvancing := True, cp_run := Some ?r\<rparr>)"
  have "handle_event Click_advance s = ?s1"
    using assms False by (simp add: advance_def current_stage_def settled_page_def Let_def)
  moreover have "settled_page ?s1"
    using assms(1) by (simp add: settled_page_def send_step_def)
  ultimately have "case_step s Click_advance = ?s1" by (simp add: case_step_def effects_settled)
  moreover have "\<exists>rq. run case_step ?s1 (replicate (length (ar_steps ?r)) (Advance_answered 1 False)) =
     finish_advance (ar_idx ?r) (ar_stage ?r) (ar_count ?r)
       (?s1\<lparr>cp_service := (cp_service ?s1)(ar_caseId ?r := cp_service ?s1 (ar_caseId ?r) + int (length (ar_steps ?r))),
          cp_isAdvancing := False, cp_run := None, cp_requests := rq\<rparr>)"
    by (rule answers_arrive) (use assms False in \<open>auto simp: settled_page_def send_step_def\<close>)
  ultimately show ?thesis
    by (simp add: send_step_def finish_advance_def)
qed

lemma forward_keys:
  assumes "settled_page s" "cp_activeIdx s + int k < int (length (cp_stages s))"
  shows "run case_step s (replicate k Key_forward) = s\<lparr>cp_activeIdx := cp_activeIdx s + int k\<rparr>"
  using assms
proof (induction k arbitrary: s)
  case (Suc k)
  let ?s1 = "s\<lparr>cp_activeIdx := cp_activeIdx s + 1\<rparr>"
  have "settled_page ?s1" using Suc.prems by (simp add: settled_page_def)
  moreover have "case_step s Key_forward = ?s1"
    using Suc.prems calculation by (simp add: case_step_def key_forward_def effects_settled)
  ultimately show ?case using Suc.IH[of ?s1] Suc.prems by (simp add: algebra_simps)
qed simp

lemma opened_settled: "st \<noteq> [] \<Longrightarrow> settled_page (opened c st flags d service)"
  by (simp add: settled_page_def opened_def)


lemma opened_fields:
  "cp_caseId (opened c st fl d sv) = c" "cp_stages (opened c st fl d sv) = st"
  "cp_flags (opened c st fl d sv) = fl" "cp_caseData (opened c st fl d sv) = Some d"
  "cp_activeIdx (opened c st fl d sv) = 0" "cp_completed (opened c st fl d sv) = {}"
  "cp_isAdvancing (opened c st fl d sv) = False" "cp_run (opened c st fl d sv) = None"
  "cp_syncedWith (opened c st fl d sv) = Some (c, length st)" "cp_service (opened c st fl d sv) = sv"
  by (simp_all add: opened_def)

lemma finish_fields:
  "cp_caseId (finish_advance i x n s) = cp_caseId s" "cp_stages (finish_advance i x n s) = cp_stages s"
  "cp_flags (finish_advance i x n s) = cp_flags s" "cp_caseData (finish_advance i x n s) = cp_caseData s"
  "cp_activeIdx (finish_advance i x n s) = (if i < int n - 1 then i + 1 else cp_activeIdx s)"
  "cp_completed (finish_advance i x n s) = insert i (cp_completed s)"
  "cp_isAdvancing (finish_advance i x n s) = cp_isAdvancing s" "cp_run (finish_advance i x n s) = cp_run s"
  "cp_syncedWith (finish_advance i x n s) = cp_syncedWith s" "cp_service (finish_advance i x n s) = cp_service s"
  by (simp_all add: finish_advance_def)

lemmas round_fields = opened_fields finish_fields settled_page_def

lemma early_sequences:
  "computeAdvanceSequence ''intake'' 0 fl = [\<lparr>av_toIdx = 1, av_autoSkip = False, av_note = None\<rparr>]"
  "computeAdvanceSequence ''verify-employment'' 0 fl =
     [\<lparr>av_toIdx = 1, av_autoSkip = False, av_note = None\<rparr>, \<lparr>av_toIdx = 2, av_autoSkip = False, av_note = None\<rparr>]"
  "length (computeAdvanceSequence ''submit'' 0 fl) = 6"
  by (simp_all add: computeAdvanceSequence_def advance_loop.simps skip_loop_unfold)

text \<open>
  C35: The case has to be read again between two advances. When a clerk completes the first two
  stages before the refreshed case arrives, the second advance is counted from the old stage and
  sends two calls: the page marks two stages done and the service stands one stage further than
  those lead to, past the eligibility determination.
\<close>

theorem stale_advance_overshoots:
  assumes "cd_stageIdx d = 0" "service c = 0"
  shows "let s = run case_step (case_mount c (composeStages flags data) flags (Some d) service)
                ([Click_advance, Advance_answered 1 False] @
                 [Click_advance, Advance_answered 1 False, Advance_answered 1 False])
         in cp_completed s = {0, 1} \<and> cp_service s c = 3 \<and> progress_stage flags 2 = 2"
proof -
  define st where "st = composeStages flags data"
  have ids: "map sd_id st = ids_of flags" by (simp add: st_def composed_ids_of)
  then have n: "7 \<le> length st" using length_map[of sd_id st] by (simp add: ids_of_cases del: length_map)
  then have ne: "st \<noteq> []" by auto
  have st0: "sd_id (st ! 0) = ''intake''" "sd_id (st ! Suc 0) = ''verify-employment''"
    using stage_ids[OF ids, of 0] stage_ids[OF ids, of "Suc 0"] n ne by (simp_all add: ids_of_cases)
  let ?o = "opened c st flags d service"
  let ?f = "\<lambda>i k rq s. finish_advance (int i) (st ! i) (length st)
     (s\<lparr>cp_service := (cp_service s)(c := cp_service s c + int k), cp_isAdvancing := False,
        cp_run := None, cp_requests := rq\<rparr>)"
  obtain rq where one: "run case_step ?o [Click_advance, Advance_answered 1 False] = ?f 0 1 rq ?o"
    using advance_round[of ?o d 0 "computeAdvanceSequence ''intake'' 0 flags"] n ne st0 assms
    by (auto simp: round_fields early_sequences simp del: run_simps)
  let ?s1 = "?f 0 1 rq ?o"
  obtain rq' where two: "run case_step ?s1 [Click_advance, Advance_answered 1 False, Advance_answered 1 False]
      = ?f 1 2 rq' ?s1"
    using advance_round[of ?s1 d 1 "computeAdvanceSequence ''verify-employment'' 0 flags"] n ne st0 assms
    by (auto simp: round_fields early_sequences eval_nat_numeral simp del: run_simps)
  have "progress_stage flags 2 = 2"
    by (subst progress_stage_table) (simp_all add: ids_of_cases progress_table_def)
  then show ?thesis
    unfolding Let_def unfolding mount_first[OF assms(1)] unfolding st_def[symmetric] run_append one two
    using assms by (auto simp: round_fields)
qed

text \<open>
  C36: A click opens a stage only when it is done or not ahead, the arrow keys open any stage. With
  the forward key a clerk reaches the final certification of a new case without doing a stage, and
  completing it there sends all the calls: the service's case stands at its last stage while the
  page has one stage marked done.
\<close>

theorem arrow_keys_bypass_stages:
  assumes "cd_stageIdx d = 0" "service c = 0"
  shows "let st = composeStages flags data;
             s = run case_step (case_mount c st flags (Some d) service)
                (replicate (length st - 1) Key_forward
                 @ Click_advance # replicate 6 (Advance_answered 1 False))
         in cp_service s c = 6 \<and> cp_completed s = {int (length st) - 1} \<and> stages_done s = 1
          \<and> (\<forall>i. 0 < i \<longrightarrow> \<not> may_open (case_mount c st flags (Some d) service) i)"
proof -
  define st where "st = composeStages flags data"
  have ids: "map sd_id st = ids_of flags" by (simp add: st_def composed_ids_of)
  then have n: "length st = length (ids_of flags)" by (metis length_map)
  have n7: "7 \<le> length st" by (simp add: n ids_of_cases)
  then have ne: "st \<noteq> []" by auto
  have last: "sd_id (st ! (length st - 1)) = ''submit''"
    using stage_ids[OF ids, of "length st - 1"] n7 by (simp add: n) (simp add: ids_of_cases)
  let ?o = "opened c st flags d service"
  let ?s1 = "?o\<lparr>cp_activeIdx := int (length st - 1)\<rparr>"
  have one: "run case_step ?o (replicate (length st - 1) Key_forward) = ?s1"
    using forward_keys[of ?o "length st - 1"] n7 ne by (simp add: round_fields)
  obtain rq where two: "run case_step ?s1 (Click_advance # replicate 6 (Advance_answered 1 False)) =
      finish_advance (int (length st - 1)) (st ! (length st - 1)) (length st)
       (?s1\<lparr>cp_service := (cp_service ?s1)(c := cp_service ?s1 c + 6), cp_isAdvancing := False,
          cp_run := None, cp_requests := rq\<rparr>)"
    using advance_round[of ?s1 d "length st - 1" "computeAdvanceSequence ''submit'' 0 flags"] n7 ne last assms(1,2)
    by (auto simp: round_fields early_sequences simp del: run_simps)
  show ?thesis
    unfolding Let_def unfolding mount_first[OF assms(1)] unfolding st_def[symmetric] run_append one two
    using assms(2) n7 by (auto simp: round_fields stages_done_def may_open_def)
qed


lemma example_orderly:
  assumes "cd_stageIdx d = 0" "service c = 0"
  shows "all_orderly (case_mount c (composeStages flags data) flags (Some d) service)
     ([Click_advance, Click_previous] @ [Advance_answered 1 True])"
  unfolding mount_first[OF assms(1)] using assms by (simp add: opened_fields)


theorem stale_advance_overshoots_witness:
  "let s = run case_step (case_mount ''c'' (composeStages plain_flags None) plain_flags
         (Some \<lparr>cd_stageIdx = 0, cd_assignedTo = ''A''\<rparr>) (\<lambda>_. 0))
                ([Click_advance, Advance_answered 1 False] @
                 [Click_advance, Advance_answered 1 False, Advance_answered 1 False])
   in cp_completed s = {0, 1} \<and> cp_service s ''c'' = 3 \<and> progress_stage plain_flags 2 = 2"
  by (rule stale_advance_overshoots) simp_all

theorem arrow_keys_bypass_stages_witness:
  "let st = composeStages plain_flags None;
       d = \<lparr>cd_stageIdx = 0, cd_assignedTo = ''A''\<rparr>;
       s = run case_step (case_mount ''c'' st plain_flags (Some d) (\<lambda>_. 0))
                (replicate (length st - 1) Key_forward
                 @ Click_advance # replicate 6 (Advance_answered 1 False))
   in cp_service s ''c'' = 6"
  unfolding Let_def by (rule conjunct1, rule arrow_keys_bypass_stages[unfolded Let_def]) simp_all

end
