(* ===== verification/MigrationApi.thy ===== *)
theory MigrationApi imports RestCall begin

text \<open>
  The migration service's client, src/frontend/src/lib/migrationApi.ts: one definition per
  method of \<open>migrationAPI\<close>, giving the call it makes (or the address it builds).
\<close>

subsection \<open>Endpoints\<close>

definition migrationBASE :: string where
  "migrationBASE = ''/api/v1/migration''"

definition migrationAPI_getDashboardSummary :: "rest_call" where
  "migrationAPI_getDashboardSummary =
     Fetch (migrationBASE @ ''/dashboard/summary'') RAW"

definition migrationAPI_getSystemHealth :: "rest_call" where
  "migrationAPI_getSystemHealth =
     Fetch (migrationBASE @ ''/dashboard/system-health'') RAW"

definition migrationAPI_listEngagements :: "rest_call" where
  "migrationAPI_listEngagements =
     Fetch (migrationBASE @ ''/engagements'') RAW"

definition migrationAPI_getEngagement :: "string \<Rightarrow> rest_call" where
  "migrationAPI_getEngagement ident =
     Fetch (migrationBASE @ ''/engagements/'' @ ident) RAW"

definition migrationAPI_createEngagement :: "json \<Rightarrow> rest_call" where
  "migrationAPI_createEngagement req =
     Post (migrationBASE @ ''/engagements'')
       req RAW"

definition migrationAPI_updateEngagement :: "string \<Rightarrow> json \<Rightarrow> rest_call" where
  "migrationAPI_updateEngagement ident req =
     Patch (migrationBASE @ ''/engagements/'' @ ident)
       req RAW"

definition migrationAPI_configureSource :: "string \<Rightarrow> json \<Rightarrow> rest_call" where
  "migrationAPI_configureSource ident conn =
     Post (migrationBASE @ ''/engagements/'' @ ident @ ''/source'')
       conn RAW"

definition migrationAPI_discoverTables :: "string \<Rightarrow> rest_call" where
  "migrationAPI_discoverTables ident =
     Fetch (migrationBASE @ ''/engagements/'' @ ident @ ''/source/tables'') RAW"

definition migrationAPI_profileEngagement :: "string \<Rightarrow> json \<Rightarrow> rest_call" where
  "migrationAPI_profileEngagement ident req =
     Post (migrationBASE @ ''/engagements/'' @ ident @ ''/profile'')
       req RAW"

definition migrationAPI_listProfiles :: "string \<Rightarrow> rest_call" where
  "migrationAPI_listProfiles ident =
     Fetch (migrationBASE @ ''/engagements/'' @ ident @ ''/profiles'') RAW"

definition migrationAPI_approveBaseline :: "string \<Rightarrow> rest_call" where
  "migrationAPI_approveBaseline ident =
     Patch (migrationBASE @ ''/engagements/'' @ ident @ ''/approve-baseline'')
       (JObj []) RAW"

definition migrationAPI_generateMappings :: "string \<Rightarrow> json \<Rightarrow> rest_call" where
  "migrationAPI_generateMappings ident req =
     Post (migrationBASE @ ''/engagements/'' @ ident @ ''/generate-mappings'')
       req RAW"

definition migrationAPI_listMappings :: "string \<Rightarrow> fields option \<Rightarrow> rest_call" where
  "migrationAPI_listMappings ident params =
     Fetch (migrationBASE @ ''/engagements/'' @ ident @ ''/mappings'' @
       (case params of None \<Rightarrow> [] |
         Some params \<Rightarrow> (toQueryString params))) RAW"

definition migrationAPI_updateMapping :: "string \<Rightarrow> string \<Rightarrow> json \<Rightarrow> rest_call" where
  "migrationAPI_updateMapping engagementId mappingId req =
     Put (migrationBASE @ ''/engagements/'' @ engagementId @ ''/mappings/'' @ mappingId)
       req RAW"

definition migrationAPI_acknowledgeWarning :: "string \<Rightarrow> string \<Rightarrow> rest_call" where
  "migrationAPI_acknowledgeWarning engagementId mappingId =
     Post (migrationBASE @ ''/engagements/'' @ engagementId @ ''/mappings/'' @ mappingId
       @ ''/acknowledge'')
       (JObj []) RAW"

definition migrationAPI_listCodeMappings :: "string \<Rightarrow> rest_call" where
  "migrationAPI_listCodeMappings ident =
     Fetch (migrationBASE @ ''/engagements/'' @ ident @ ''/code-mappings'') RAW"

definition migrationAPI_updateCodeMapping :: "string \<Rightarrow> string \<Rightarrow> json \<Rightarrow> rest_call" where
  "migrationAPI_updateCodeMapping engagementId mappingId req =
     Put (migrationBASE @ ''/engagements/'' @ engagementId @ ''/code-mappings/'' @ mappingId)
       req RAW"

definition migrationAPI_listBatches :: "string \<Rightarrow> rest_call" where
  "migrationAPI_listBatches engagementId =
     Fetch (migrationBASE @ ''/engagements/'' @ engagementId @ ''/batches'') RAW"

definition migrationAPI_createBatch :: "string \<Rightarrow> json \<Rightarrow> rest_call" where
  "migrationAPI_createBatch engagementId req =
     Post (migrationBASE @ ''/engagements/'' @ engagementId @ ''/batches'')
       req RAW"

definition migrationAPI_getBatch :: "string \<Rightarrow> rest_call" where
  "migrationAPI_getBatch batchId =
     Fetch (migrationBASE @ ''/batches/'' @ batchId) RAW"

definition migrationAPI_listExceptions :: "string \<Rightarrow> rest_call" where
  "migrationAPI_listExceptions batchId =
     Fetch (migrationBASE @ ''/batches/'' @ batchId @ ''/exceptions'') RAW"

definition migrationAPI_executeBatch :: "string \<Rightarrow> rest_call" where
  "migrationAPI_executeBatch batchId =
     Post (migrationBASE @ ''/batches/'' @ batchId @ ''/execute'')
       (JObj []) RAW"

definition migrationAPI_retransformBatch :: "string \<Rightarrow> rest_call" where
  "migrationAPI_retransformBatch batchId =
     Post (migrationBASE @ ''/batches/'' @ batchId @ ''/retransform'')
       (JObj []) RAW"

definition migrationAPI_reconcileBatch :: "string \<Rightarrow> rest_call" where
  "migrationAPI_reconcileBatch batchId =
     Post (migrationBASE @ ''/batches/'' @ batchId @ ''/reconcile'')
       (JObj []) RAW"

definition migrationAPI_getReconciliation :: "string \<Rightarrow> rest_call" where
  "migrationAPI_getReconciliation engagementId =
     Fetch (migrationBASE @ ''/engagements/'' @ engagementId @ ''/reconciliation'') RAW"

definition migrationAPI_getP1Issues :: "string \<Rightarrow> rest_call" where
  "migrationAPI_getP1Issues engagementId =
     Fetch (migrationBASE @ ''/engagements/'' @ engagementId @ ''/reconciliation/p1'') RAW"

definition migrationAPI_getReconciliationSummary :: "string \<Rightarrow> rest_call" where
  "migrationAPI_getReconciliationSummary engagementId =
     Fetch (migrationBASE @ ''/engagements/'' @ engagementId @ ''/reconciliation/summary'') RAW"

definition migrationAPI_getReconciliationByTier :: "string \<Rightarrow> int \<Rightarrow> rest_call" where
  "migrationAPI_getReconciliationByTier engagementId tier =
     Fetch (migrationBASE @ ''/engagements/'' @ engagementId @ ''/reconciliation/tier/'' @
       (int_str tier)) RAW"

definition migrationAPI_certifyEngagement :: "string \<Rightarrow> json \<Rightarrow> rest_call" where
  "migrationAPI_certifyEngagement engagementId body =
     Post (migrationBASE @ ''/engagements/'' @ engagementId @ ''/certify'')
       body RAW"

definition migrationAPI_getCertification :: "string \<Rightarrow> rest_call" where
  "migrationAPI_getCertification engagementId =
     Fetch (migrationBASE @ ''/engagements/'' @ engagementId @ ''/certification'') RAW"

definition migrationAPI_listCertifications :: "string \<Rightarrow> int option \<Rightarrow> rest_call" where
  "migrationAPI_listCertifications engagementId page =
     Fetch (migrationBASE @ ''/engagements/'' @ engagementId @ ''/certifications'' @
       (toQueryString [(''page'', jint (coalesce page 1))])) RAW"

definition migrationAPI_evaluateGate :: "string \<Rightarrow> string \<Rightarrow> rest_call" where
  "migrationAPI_evaluateGate engagementId targetPhase =
     Fetch (migrationBASE @ ''/engagements/'' @ engagementId @ ''/gate-evaluation'' @
       (toQueryString [(''target_phase'', JStr targetPhase)])) RAW"

definition migrationAPI_listRisks :: "string option \<Rightarrow> rest_call" where
  "migrationAPI_listRisks engagementId =
     Fetch (migrationBASE @ ''/risks'' @
       (case engagementId of None \<Rightarrow> [] |
         Some engagementId \<Rightarrow> if engagementId = [] then []
           else (toQueryString [(''engagement_id'', JStr engagementId)]))) RAW"

definition migrationAPI_createRisk :: "string \<Rightarrow> json \<Rightarrow> rest_call" where
  "migrationAPI_createRisk engagementId req =
     Post (migrationBASE @ ''/engagements/'' @ engagementId @ ''/risks'')
       req RAW"

definition migrationAPI_updateRisk :: "string \<Rightarrow> json \<Rightarrow> rest_call" where
  "migrationAPI_updateRisk riskId req =
     Put (migrationBASE @ ''/risks/'' @ riskId)
       req RAW"

definition migrationAPI_deleteRisk :: "string \<Rightarrow> rest_call" where
  "migrationAPI_deleteRisk riskId =
     Delete (migrationBASE @ ''/risks/'' @ riskId) RAW"

definition migrationAPI_listExceptionClusters :: "string \<Rightarrow> rest_call" where
  "migrationAPI_listExceptionClusters batchId =
     Fetch (migrationBASE @ ''/batches/'' @ batchId @ ''/exception-clusters'') RAW"

definition migrationAPI_applyCluster :: "string \<Rightarrow> json \<Rightarrow> rest_call" where
  "migrationAPI_applyCluster clusterId req =
     Post (migrationBASE @ ''/exception-clusters/'' @ clusterId @ ''/apply'')
       req RAW"

definition migrationAPI_compareEngagements :: "string \<Rightarrow> string \<Rightarrow> rest_call" where
  "migrationAPI_compareEngagements id1 id2 =
     Fetch (migrationBASE @ ''/compare?ids='' @ id1 @ '','' @ id2) RAW"

definition migrationAPI_listEvents :: "string \<Rightarrow> fields option \<Rightarrow> rest_call" where
  "migrationAPI_listEvents engagementId params =
     Fetch_page (migrationBASE @ ''/engagements/'' @ engagementId @ ''/events'' @
       (case params of None \<Rightarrow> [] |
         Some params \<Rightarrow> (toQueryString params))) RAW"

definition migrationAPI_getGateStatus :: "string \<Rightarrow> rest_call" where
  "migrationAPI_getGateStatus engagementId =
     Fetch (migrationBASE @ ''/engagements/'' @ engagementId @ ''/gate-status'') RAW"

definition migrationAPI_advancePhase :: "string \<Rightarrow> json \<Rightarrow> rest_call" where
  "migrationAPI_advancePhase engagementId req =
     Post (migrationBASE @ ''/engagements/'' @ engagementId @ ''/advance-phase'')
       req RAW"

definition migrationAPI_regressPhase :: "string \<Rightarrow> json \<Rightarrow> rest_call" where
  "migrationAPI_regressPhase engagementId req =
     Post (migrationBASE @ ''/engagements/'' @ engagementId @ ''/regress-phase'')
       req RAW"

definition migrationAPI_getGateHistory :: "string \<Rightarrow> rest_call" where
  "migrationAPI_getGateHistory engagementId =
     Fetch (migrationBASE @ ''/engagements/'' @ engagementId @ ''/gate-history'') RAW"

definition migrationAPI_getAttentionItems :: "string \<Rightarrow> fields option \<Rightarrow> rest_call" where
  "migrationAPI_getAttentionItems engagementId params =
     Fetch (migrationBASE @ ''/engagements/'' @ engagementId @ ''/attention'' @
       (case params of None \<Rightarrow> [] |
         Some params \<Rightarrow> (toQueryString params))) RAW"

definition migrationAPI_getAttentionSummary :: "rest_call" where
  "migrationAPI_getAttentionSummary =
     Fetch (migrationBASE @ ''/attention/summary'') RAW"

definition migrationAPI_resolveAttentionItem ::
  "string \<Rightarrow> string \<Rightarrow> string \<Rightarrow> string \<Rightarrow> rest_call" where
  "migrationAPI_resolveAttentionItem engagementId itemId source note =
     Patch (migrationBASE @ ''/engagements/'' @ engagementId @ ''/attention/'' @ itemId
       @ ''/resolve'')
       (JObj [(''source'', JStr source), (''resolution_note'', JStr note)]) RAW"

definition migrationAPI_deferAttentionItem ::
  "string \<Rightarrow> string \<Rightarrow> string \<Rightarrow> string \<Rightarrow> rest_call" where
  "migrationAPI_deferAttentionItem engagementId itemId source note =
     Patch (migrationBASE @ ''/engagements/'' @ engagementId @ ''/attention/'' @ itemId
       @ ''/defer'')
       (JObj [(''source'', JStr source), (''resolution_note'', JStr note)]) RAW"

definition migrationAPI_getAIRecommendations :: "string \<Rightarrow> rest_call" where
  "migrationAPI_getAIRecommendations engagementId =
     Fetch (migrationBASE @ ''/engagements/'' @ engagementId @ ''/ai/recommendations'') RAW"

definition migrationAPI_getBatchSizingRecommendation :: "string \<Rightarrow> rest_call" where
  "migrationAPI_getBatchSizingRecommendation engagementId =
     Fetch (migrationBASE @ ''/engagements/'' @ engagementId @ ''/ai/batch-sizing'') RAW"

definition migrationAPI_getRemediationRecommendations :: "string \<Rightarrow> rest_call" where
  "migrationAPI_getRemediationRecommendations engagementId =
     Fetch (migrationBASE @ ''/engagements/'' @ engagementId @ ''/ai/remediation'') RAW"

definition migrationAPI_getMappingCorpusContext :: "string \<Rightarrow> string \<Rightarrow> rest_call" where
  "migrationAPI_getMappingCorpusContext engagementId mappingId =
     Fetch (migrationBASE @ ''/engagements/'' @ engagementId @ ''/mappings/'' @ mappingId @
       ''/corpus'') RAW"

definition migrationAPI_getRootCauseAnalysis :: "string \<Rightarrow> rest_call" where
  "migrationAPI_getRootCauseAnalysis engagementId =
     Fetch (migrationBASE @ ''/engagements/'' @ engagementId @
       ''/reconciliation/root-cause'') RAW"

definition migrationAPI_getReconciliationPatterns :: "string \<Rightarrow> rest_call" where
  "migrationAPI_getReconciliationPatterns engagementId =
     Fetch (migrationBASE @ ''/engagements/'' @ engagementId @
       ''/reconciliation/patterns'') RAW"

definition migrationAPI_resolvePattern :: "string \<Rightarrow> rest_call" where
  "migrationAPI_resolvePattern patternId =
     Patch (migrationBASE @ ''/reconciliation/patterns/'' @ patternId @ ''/resolve'')
       (JObj []) RAW"

definition migrationAPI_getNotifications :: "rest_call" where
  "migrationAPI_getNotifications =
     Fetch (migrationBASE @ ''/notifications'') RAW"

definition migrationAPI_markNotificationRead :: "string \<Rightarrow> rest_call" where
  "migrationAPI_markNotificationRead ident =
     Put (migrationBASE @ ''/notifications/'' @ ident @ ''/read'')
       (JObj []) RAW"

definition migrationAPI_markAllNotificationsRead :: "rest_call" where
  "migrationAPI_markAllNotificationsRead =
     Put (migrationBASE @ ''/notifications/read-all'')
       (JObj []) RAW"

definition migrationAPI_getCoverageReport :: "string \<Rightarrow> rest_call" where
  "migrationAPI_getCoverageReport engagementId =
     Fetch (migrationBASE @ ''/engagements/'' @ engagementId @ ''/coverage-report'') RAW"

definition migrationAPI_getMappingSpec :: "string \<Rightarrow> rest_call" where
  "migrationAPI_getMappingSpec engagementId =
     Fetch (migrationBASE @ ''/engagements/'' @ engagementId @ ''/reports/mapping-spec'') RAW"

definition migrationAPI_getJobs :: "string \<Rightarrow> fields option \<Rightarrow> rest_call" where
  "migrationAPI_getJobs engagementId params =
     Fetch (migrationBASE @ ''/engagements/'' @ engagementId @ ''/jobs'' @
       (case params of None \<Rightarrow> [] |
         Some params \<Rightarrow> (toQueryString params))) RAW"

definition migrationAPI_getJob :: "string \<Rightarrow> rest_call" where
  "migrationAPI_getJob jobId =
     Fetch (migrationBASE @ ''/jobs/'' @ jobId) RAW"

definition migrationAPI_getJobSummary :: "string \<Rightarrow> rest_call" where
  "migrationAPI_getJobSummary engagementId =
     Fetch (migrationBASE @ ''/engagements/'' @ engagementId @ ''/jobs/summary'') RAW"

definition migrationAPI_cancelJob :: "string \<Rightarrow> string \<Rightarrow> rest_call" where
  "migrationAPI_cancelJob engagementId jobId =
     Post (migrationBASE @ ''/engagements/'' @ engagementId @ ''/jobs/'' @ jobId @ ''/cancel'')
       (JObj []) RAW"

definition migrationAPI_retryJob :: "string \<Rightarrow> string \<Rightarrow> rest_call" where
  "migrationAPI_retryJob engagementId jobId =
     Post (migrationBASE @ ''/engagements/'' @ engagementId @ ''/jobs/'' @ jobId @ ''/retry'')
       (JObj []) RAW"

definition migrationAPI_getCutoverPlan :: "string \<Rightarrow> rest_call" where
  "migrationAPI_getCutoverPlan engagementId =
     Fetch (migrationBASE @ ''/engagements/'' @ engagementId @ ''/cutover-plan'') RAW"

definition migrationAPI_createCutoverPlan :: "string \<Rightarrow> json \<Rightarrow> rest_call" where
  "migrationAPI_createCutoverPlan engagementId req =
     Post (migrationBASE @ ''/engagements/'' @ engagementId @ ''/cutover-plan'')
       req RAW"

definition migrationAPI_updateCutoverStep :: "string \<Rightarrow> string \<Rightarrow> json \<Rightarrow> rest_call" where
  "migrationAPI_updateCutoverStep engagementId stepId req =
     Patch (migrationBASE @ ''/engagements/'' @ engagementId @ ''/cutover-plan/steps/'' @ stepId)
       req RAW"

definition migrationAPI_listReconRuleSets :: "string \<Rightarrow> fields option \<Rightarrow> rest_call" where
  "migrationAPI_listReconRuleSets engagementId params =
     Fetch (migrationBASE @ ''/engagements/'' @ engagementId @ ''/recon-rules'' @
       (case params of None \<Rightarrow> [] |
         Some params \<Rightarrow> (toQueryString params))) RAW"

definition migrationAPI_getReconRuleSet :: "string \<Rightarrow> string \<Rightarrow> rest_call" where
  "migrationAPI_getReconRuleSet engagementId rulesetId =
     Fetch (migrationBASE @ ''/engagements/'' @ engagementId @ ''/recon-rules/'' @
       rulesetId) RAW"

definition migrationAPI_getActiveReconRuleSet :: "string \<Rightarrow> rest_call" where
  "migrationAPI_getActiveReconRuleSet engagementId =
     Fetch (migrationBASE @ ''/engagements/'' @ engagementId @ ''/recon-rules/active'') RAW"

definition migrationAPI_createReconRuleSet :: "string \<Rightarrow> json \<Rightarrow> rest_call" where
  "migrationAPI_createReconRuleSet engagementId req =
     Post (migrationBASE @ ''/engagements/'' @ engagementId @ ''/recon-rules'')
       req RAW"

definition migrationAPI_updateReconRuleSet :: "string \<Rightarrow> string \<Rightarrow> json \<Rightarrow> rest_call" where
  "migrationAPI_updateReconRuleSet engagementId rulesetId req =
     Patch (migrationBASE @ ''/engagements/'' @ engagementId @ ''/recon-rules/'' @ rulesetId)
       req RAW"

definition migrationAPI_getRollback :: "string \<Rightarrow> rest_call" where
  "migrationAPI_getRollback engagementId =
     Fetch (migrationBASE @ ''/engagements/'' @ engagementId @ ''/rollback'') RAW"

definition migrationAPI_initiateRollback :: "string \<Rightarrow> json \<Rightarrow> rest_call" where
  "migrationAPI_initiateRollback engagementId req =
     Post (migrationBASE @ ''/engagements/'' @ engagementId @ ''/rollback'')
       req RAW"

definition migrationAPI_getGoLiveStatus :: "string \<Rightarrow> rest_call" where
  "migrationAPI_getGoLiveStatus engagementId =
     Fetch (migrationBASE @ ''/engagements/'' @ engagementId @ ''/go-live'') RAW"

definition migrationAPI_confirmGoLive :: "string \<Rightarrow> json \<Rightarrow> rest_call" where
  "migrationAPI_confirmGoLive engagementId req =
     Post (migrationBASE @ ''/engagements/'' @ engagementId @ ''/go-live'')
       req RAW"

definition migrationAPI_activateReconRuleSet :: "string \<Rightarrow> string \<Rightarrow> rest_call" where
  "migrationAPI_activateReconRuleSet engagementId rulesetId =
     Post (migrationBASE @ ''/engagements/'' @ engagementId @ ''/recon-rules/'' @ rulesetId
       @ ''/activate'')
       (JObj []) RAW"

definition migrationAPI_archiveReconRuleSet :: "string \<Rightarrow> string \<Rightarrow> rest_call" where
  "migrationAPI_archiveReconRuleSet engagementId rulesetId =
     Post (migrationBASE @ ''/engagements/'' @ engagementId @ ''/recon-rules/'' @ rulesetId
       @ ''/archive'')
       (JObj []) RAW"

definition migrationAPI_getReconRuleSetDiff :: "string \<Rightarrow> string \<Rightarrow> string \<Rightarrow> rest_call" where
  "migrationAPI_getReconRuleSetDiff engagementId rulesetId compareToId =
     Fetch (migrationBASE @ ''/engagements/'' @ engagementId @ ''/recon-rules/'' @ rulesetId @
       ''/diff'' @ (toQueryString [(''compare_to'', JStr compareToId)])) RAW"

definition migrationAPI_listReconExecutions :: "string \<Rightarrow> fields option \<Rightarrow> rest_call" where
  "migrationAPI_listReconExecutions engagementId params =
     Fetch (migrationBASE @ ''/engagements/'' @ engagementId @ ''/recon-executions'' @
       (case params of None \<Rightarrow> [] |
         Some params \<Rightarrow> (toQueryString params))) RAW"

definition migrationAPI_getReconExecution :: "string \<Rightarrow> string \<Rightarrow> rest_call" where
  "migrationAPI_getReconExecution engagementId execId =
     Fetch (migrationBASE @ ''/engagements/'' @ engagementId @ ''/recon-executions/'' @
       execId) RAW"

definition migrationAPI_getReconExecutionMismatches ::
  "string \<Rightarrow> string \<Rightarrow> fields option \<Rightarrow> rest_call" where
  "migrationAPI_getReconExecutionMismatches engagementId execId params =
     Fetch (migrationBASE @ ''/engagements/'' @ engagementId @ ''/recon-executions/'' @
       execId @ ''/mismatches'' @
       (case params of None \<Rightarrow> [] |
         Some params \<Rightarrow> (toQueryString params))) RAW"

definition migrationAPI_triggerReconExecution :: "string \<Rightarrow> json \<Rightarrow> rest_call" where
  "migrationAPI_triggerReconExecution engagementId req =
     Post (migrationBASE @ ''/engagements/'' @ engagementId @ ''/recon-executions'')
       req RAW"

definition migrationAPI_getDriftRuns :: "string \<Rightarrow> fields option \<Rightarrow> rest_call" where
  "migrationAPI_getDriftRuns engagementId params =
     Fetch (migrationBASE @ ''/engagements/'' @ engagementId @ ''/drift/runs'' @
       (case params of None \<Rightarrow> [] |
         Some params \<Rightarrow> (toQueryString params))) RAW"

definition migrationAPI_getDriftRecords :: "string \<Rightarrow> string \<Rightarrow> fields option \<Rightarrow> rest_call" where
  "migrationAPI_getDriftRecords engagementId runId params =
     Fetch (migrationBASE @ ''/engagements/'' @ engagementId @ ''/drift/runs/'' @ runId @
       ''/records'' @
       (case params of None \<Rightarrow> [] |
         Some params \<Rightarrow> (toQueryString params))) RAW"

definition migrationAPI_getDriftSummary :: "string \<Rightarrow> rest_call" where
  "migrationAPI_getDriftSummary engagementId =
     Fetch (migrationBASE @ ''/engagements/'' @ engagementId @ ''/drift/summary'') RAW"

definition migrationAPI_triggerDriftDetection :: "string \<Rightarrow> rest_call" where
  "migrationAPI_triggerDriftDetection engagementId =
     Post (migrationBASE @ ''/engagements/'' @ engagementId @ ''/drift/detect'')
       (JObj []) RAW"

definition migrationAPI_getDriftSchedule :: "string \<Rightarrow> rest_call" where
  "migrationAPI_getDriftSchedule engagementId =
     Fetch (migrationBASE @ ''/engagements/'' @ engagementId @ ''/drift/schedule'') RAW"

definition migrationAPI_updateDriftSchedule :: "string \<Rightarrow> json \<Rightarrow> rest_call" where
  "migrationAPI_updateDriftSchedule engagementId req =
     Patch (migrationBASE @ ''/engagements/'' @ engagementId @ ''/drift/schedule'')
       req RAW"

definition migrationAPI_getSchemaVersions :: "string \<Rightarrow> rest_call" where
  "migrationAPI_getSchemaVersions tenantId =
     Fetch (migrationBASE @ ''/tenants/'' @ tenantId @ ''/schema-versions'') RAW"

definition migrationAPI_getSchemaVersion :: "string \<Rightarrow> rest_call" where
  "migrationAPI_getSchemaVersion versionId =
     Fetch (migrationBASE @ ''/schema-versions/'' @ versionId) RAW"

definition migrationAPI_createSchemaVersion :: "string \<Rightarrow> json \<Rightarrow> rest_call" where
  "migrationAPI_createSchemaVersion tenantId req =
     Post (migrationBASE @ ''/tenants/'' @ tenantId @ ''/schema-versions'')
       req RAW"

definition migrationAPI_activateSchemaVersion :: "string \<Rightarrow> rest_call" where
  "migrationAPI_activateSchemaVersion versionId =
     Post (migrationBASE @ ''/schema-versions/'' @ versionId @ ''/activate'')
       (JObj []) RAW"

definition migrationAPI_getSchemaVersionDiff :: "string \<Rightarrow> string \<Rightarrow> rest_call" where
  "migrationAPI_getSchemaVersionDiff versionId1 versionId2 =
     Fetch (migrationBASE @ ''/schema-versions/diff?v1='' @ versionId1 @ ''&v2='' @
       versionId2) RAW"

definition migrationAPI_getAuditLog :: "string \<Rightarrow> fields option \<Rightarrow> rest_call" where
  "migrationAPI_getAuditLog engagementId filters =
     Fetch (migrationBASE @ ''/engagements/'' @ engagementId @ ''/audit'' @
       (case filters of None \<Rightarrow> [] |
         Some filters \<Rightarrow> (toQueryString filters))) RAW"

definition migrationAPI_exportAuditUrl :: "string \<Rightarrow> fields \<Rightarrow> string \<Rightarrow> string" where
  "migrationAPI_exportAuditUrl engagementId filters format =
     migrationBASE @ ''/engagements/'' @ engagementId @ ''/audit/export''
       @ (toQueryString (spread filters [(''format'', JStr format)]))"

definition migrationAPI_getAuditExportCount :: "string \<Rightarrow> fields \<Rightarrow> rest_call" where
  "migrationAPI_getAuditExportCount engagementId filters =
     Fetch (migrationBASE @ ''/engagements/'' @ engagementId @ ''/audit/export-count'' @
       (toQueryString filters)) RAW"

definition migrationAPI_getRetentionPolicy :: "string \<Rightarrow> rest_call" where
  "migrationAPI_getRetentionPolicy engagementId =
     Fetch (migrationBASE @ ''/engagements/'' @ engagementId @ ''/retention-policy'') RAW"

definition migrationAPI_setRetentionPolicy :: "string \<Rightarrow> json \<Rightarrow> rest_call" where
  "migrationAPI_setRetentionPolicy engagementId req =
     Put (migrationBASE @ ''/engagements/'' @ engagementId @ ''/retention-policy'')
       req RAW"

definition migrationAPI_generateReport :: "string \<Rightarrow> string \<Rightarrow> rest_call" where
  "migrationAPI_generateReport engagementId reportType =
     Post (migrationBASE @ ''/engagements/'' @ engagementId @ ''/reports'')
       (JObj [(''report_type'', JStr reportType)]) RAW"

definition migrationAPI_getReportStatus :: "string \<Rightarrow> string \<Rightarrow> rest_call" where
  "migrationAPI_getReportStatus engagementId reportId =
     Fetch (migrationBASE @ ''/engagements/'' @ engagementId @ ''/reports/'' @ reportId) RAW"

definition migrationAPI_listReports :: "string \<Rightarrow> rest_call" where
  "migrationAPI_listReports engagementId =
     Fetch (migrationBASE @ ''/engagements/'' @ engagementId @ ''/reports'') RAW"

definition migrationAPI_downloadReportUrl :: "string \<Rightarrow> string \<Rightarrow> string" where
  "migrationAPI_downloadReportUrl engagementId reportId =
     migrationBASE @ ''/engagements/'' @ engagementId @ ''/reports/'' @ reportId @ ''/download''"

end
