(* ===== verification/EmployerApi.thy ===== *)
theory EmployerApi imports RestCall begin

text \<open>
  The employer services' clients, src/frontend/src/lib/employerApi.ts: portal, reporting,
  enrollment, terminations, WARET and service credit purchase.
\<close>

subsection \<open>employerPortalAPI\<close>

definition PORTAL_BASE :: string where
  "PORTAL_BASE = ''/api/v1/employer''"

definition employerPortalAPI_listUsers :: "string \<Rightarrow> int option \<Rightarrow> int option \<Rightarrow> rest_call" where
  "employerPortalAPI_listUsers orgId limit offset =
     Fetch (PORTAL_BASE @ ''/users'' @
       (toQueryString [(''orgId'', JStr orgId), (''limit'', jint (coalesce limit 50)),
         (''offset'', jint (coalesce offset 0))])) no_options"

definition employerPortalAPI_createUser :: "json \<Rightarrow> rest_call" where
  "employerPortalAPI_createUser dat =
     Post (PORTAL_BASE @ ''/users'')
       dat no_options"

definition employerPortalAPI_updateRole :: "string \<Rightarrow> string \<Rightarrow> rest_call" where
  "employerPortalAPI_updateRole ident role =
     Put (PORTAL_BASE @ ''/users/'' @ ident @ ''/role'')
       (JObj [(''role'', JStr role)]) no_options"

definition employerPortalAPI_deactivateUser :: "string \<Rightarrow> rest_call" where
  "employerPortalAPI_deactivateUser ident =
     Delete (PORTAL_BASE @ ''/users/'' @ ident) no_options"

definition employerPortalAPI_getDashboard :: "string \<Rightarrow> rest_call" where
  "employerPortalAPI_getDashboard orgId =
     Fetch (PORTAL_BASE @ ''/dashboard'' @
       (toQueryString [(''orgId'', JStr orgId)])) no_options"

definition employerPortalAPI_listAlerts :: "string option \<Rightarrow> rest_call" where
  "employerPortalAPI_listAlerts orgId =
     Fetch (PORTAL_BASE @ ''/alerts'' @
       (toQueryString [(''orgId'', JStr (coalesce orgId []))])) no_options"

definition employerPortalAPI_createAlert :: "json \<Rightarrow> rest_call" where
  "employerPortalAPI_createAlert dat =
     Post (PORTAL_BASE @ ''/alerts'')
       dat no_options"

definition employerPortalAPI_listRateTables :: "string option \<Rightarrow> bool option \<Rightarrow> rest_call" where
  "employerPortalAPI_listRateTables divisionCode isSafetyOfficer =
     Fetch (PORTAL_BASE @ ''/rate-tables'' @
       (toQueryString [(''divisionCode'', JStr (coalesce divisionCode [])),
         (''isSafetyOfficer'', JStr (case isSafetyOfficer of None \<Rightarrow> [] |
           Some b \<Rightarrow> js_string (JBool b)))])) no_options"

definition employerPortalAPI_getCurrentRate :: "string \<Rightarrow> bool \<Rightarrow> rest_call" where
  "employerPortalAPI_getCurrentRate divisionCode isSafetyOfficer =
     Fetch (PORTAL_BASE @ ''/rate-tables/current'' @
       (toQueryString [(''divisionCode'', JStr divisionCode),
         (''isSafetyOfficer'', JStr (js_string (JBool isSafetyOfficer)))])) no_options"

definition employerPortalAPI_listDivisions :: "rest_call" where
  "employerPortalAPI_listDivisions =
     Fetch (PORTAL_BASE @ ''/divisions'') no_options"

subsection \<open>employerReportingAPI\<close>

definition REPORTING_BASE :: string where
  "REPORTING_BASE = ''/api/v1/reporting''"

definition employerReportingAPI_listFiles ::
  "string \<Rightarrow> int option \<Rightarrow> int option \<Rightarrow> rest_call" where
  "employerReportingAPI_listFiles orgId limit offset =
     Fetch_page (REPORTING_BASE @ ''/files'' @
       (toQueryString [(''org_id'', JStr orgId), (''limit'', jint (coalesce limit 25)),
         (''offset'', jint (coalesce offset 0))])) no_options"

definition employerReportingAPI_getFile :: "string \<Rightarrow> rest_call" where
  "employerReportingAPI_getFile fileId =
     Fetch (REPORTING_BASE @ ''/files/'' @ fileId) no_options"

definition employerReportingAPI_getRecords ::
  "string \<Rightarrow> int option \<Rightarrow> int option \<Rightarrow> rest_call" where
  "employerReportingAPI_getRecords fileId limit offset =
     Fetch_page (REPORTING_BASE @ ''/files/'' @ fileId @ ''/records'' @
       (toQueryString [(''limit'', jint (coalesce limit 50)),
         (''offset'', jint (coalesce offset 0))])) no_options"

definition employerReportingAPI_deleteFile :: "string \<Rightarrow> rest_call" where
  "employerReportingAPI_deleteFile fileId =
     Delete (REPORTING_BASE @ ''/files/'' @ fileId) no_options"

definition employerReportingAPI_submitManualEntry :: "json \<Rightarrow> rest_call" where
  "employerReportingAPI_submitManualEntry dat =
     Post (REPORTING_BASE @ ''/manual-entry'')
       dat no_options"

definition employerReportingAPI_listExceptions ::
  "string \<Rightarrow> string option \<Rightarrow> int option \<Rightarrow> int option \<Rightarrow> rest_call" where
  "employerReportingAPI_listExceptions orgId status limit offset =
     Fetch_page (REPORTING_BASE @ ''/exceptions'' @
       (toQueryString [(''org_id'', JStr orgId), (''status'', JStr (coalesce status [])),
         (''limit'', jint (coalesce limit 25)),
           (''offset'', jint (coalesce offset 0))])) no_options"

definition employerReportingAPI_getException :: "string \<Rightarrow> rest_call" where
  "employerReportingAPI_getException ident =
     Fetch (REPORTING_BASE @ ''/exceptions/'' @ ident) no_options"

definition employerReportingAPI_resolveException :: "string \<Rightarrow> string \<Rightarrow> rest_call" where
  "employerReportingAPI_resolveException ident note =
     Put (REPORTING_BASE @ ''/exceptions/'' @ ident @ ''/resolve'')
       (JObj [(''note'', JStr note)]) no_options"

definition employerReportingAPI_escalateException :: "string \<Rightarrow> rest_call" where
  "employerReportingAPI_escalateException ident =
     Put (REPORTING_BASE @ ''/exceptions/'' @ ident @ ''/escalate'')
       (JObj []) no_options"

definition employerReportingAPI_setupPayment :: "string \<Rightarrow> string \<Rightarrow> rest_call" where
  "employerReportingAPI_setupPayment fileId meth =
     Post (REPORTING_BASE @ ''/files/'' @ fileId @ ''/payment-setup'')
       (JObj [(''method'', JStr meth)]) no_options"

definition employerReportingAPI_listPayments ::
  "string \<Rightarrow> int option \<Rightarrow> int option \<Rightarrow> rest_call" where
  "employerReportingAPI_listPayments orgId limit offset =
     Fetch_page (REPORTING_BASE @ ''/payments'' @
       (toQueryString [(''org_id'', JStr orgId), (''limit'', jint (coalesce limit 25)),
         (''offset'', jint (coalesce offset 0))])) no_options"

definition employerReportingAPI_cancelPayment :: "string \<Rightarrow> rest_call" where
  "employerReportingAPI_cancelPayment paymentId =
     Delete (REPORTING_BASE @ ''/payments/'' @ paymentId) no_options"

definition employerReportingAPI_submitCorrection :: "json \<Rightarrow> rest_call" where
  "employerReportingAPI_submitCorrection dat =
     Post (REPORTING_BASE @ ''/corrections'')
       dat no_options"

definition employerReportingAPI_getInterest :: "string \<Rightarrow> rest_call" where
  "employerReportingAPI_getInterest orgId =
     Fetch (REPORTING_BASE @ ''/interest/'' @ orgId) no_options"

subsection \<open>employerEnrollmentAPI\<close>

definition ENROLLMENT_BASE :: string where
  "ENROLLMENT_BASE = ''/api/v1/enrollment''"

definition employerEnrollmentAPI_createSubmission :: "json \<Rightarrow> rest_call" where
  "employerEnrollmentAPI_createSubmission dat =
     Post (ENROLLMENT_BASE @ ''/submissions'')
       dat no_options"

definition employerEnrollmentAPI_listSubmissions ::
  "string \<Rightarrow> string option \<Rightarrow> int option \<Rightarrow> int option \<Rightarrow> rest_call" where
  "employerEnrollmentAPI_listSubmissions orgId status limit offset =
     Fetch_page (ENROLLMENT_BASE @ ''/submissions'' @
       (toQueryString [(''org_id'', JStr orgId), (''status'', JStr (coalesce status [])),
         (''limit'', jint (coalesce limit 25)),
           (''offset'', jint (coalesce offset 0))])) no_options"

definition employerEnrollmentAPI_getSubmission :: "string \<Rightarrow> rest_call" where
  "employerEnrollmentAPI_getSubmission ident =
     Fetch (ENROLLMENT_BASE @ ''/submissions/'' @ ident) no_options"

definition employerEnrollmentAPI_submitForValidation :: "string \<Rightarrow> rest_call" where
  "employerEnrollmentAPI_submitForValidation ident =
     Put (ENROLLMENT_BASE @ ''/submissions/'' @ ident @ ''/submit'')
       (JObj []) no_options"

definition employerEnrollmentAPI_approveSubmission :: "string \<Rightarrow> rest_call" where
  "employerEnrollmentAPI_approveSubmission ident =
     Put (ENROLLMENT_BASE @ ''/submissions/'' @ ident @ ''/approve'')
       (JObj []) no_options"

definition employerEnrollmentAPI_rejectSubmission :: "string \<Rightarrow> string \<Rightarrow> rest_call" where
  "employerEnrollmentAPI_rejectSubmission ident reason =
     Put (ENROLLMENT_BASE @ ''/submissions/'' @ ident @ ''/reject'')
       (JObj [(''reason'', JStr reason)]) no_options"

definition employerEnrollmentAPI_listPendingDuplicates ::
  "string \<Rightarrow> int option \<Rightarrow> int option \<Rightarrow> rest_call" where
  "employerEnrollmentAPI_listPendingDuplicates orgId limit offset =
     Fetch_page (ENROLLMENT_BASE @ ''/duplicates'' @
       (toQueryString [(''org_id'', JStr orgId), (''limit'', jint (coalesce limit 25)),
         (''offset'', jint (coalesce offset 0))])) no_options"

definition employerEnrollmentAPI_listSubmissionDuplicates :: "string \<Rightarrow> rest_call" where
  "employerEnrollmentAPI_listSubmissionDuplicates submissionId =
     Fetch (ENROLLMENT_BASE @ ''/submissions/'' @ submissionId @ ''/duplicates'') no_options"

definition employerEnrollmentAPI_resolveDuplicate ::
  "string \<Rightarrow> string \<Rightarrow> string \<Rightarrow> rest_call" where
  "employerEnrollmentAPI_resolveDuplicate ident resolution note =
     Put (ENROLLMENT_BASE @ ''/duplicates/'' @ ident @ ''/resolve'')
       (JObj [(''resolution'', JStr resolution), (''note'', JStr note)]) no_options"

definition employerEnrollmentAPI_listPERAChoicePending ::
  "string \<Rightarrow> int option \<Rightarrow> int option \<Rightarrow> rest_call" where
  "employerEnrollmentAPI_listPERAChoicePending orgId limit offset =
     Fetch_page (ENROLLMENT_BASE @ ''/perachoice'' @
       (toQueryString [(''org_id'', JStr orgId), (''limit'', jint (coalesce limit 25)),
         (''offset'', jint (coalesce offset 0))])) no_options"

definition employerEnrollmentAPI_getPERAChoiceElection :: "string \<Rightarrow> rest_call" where
  "employerEnrollmentAPI_getPERAChoiceElection ident =
     Fetch (ENROLLMENT_BASE @ ''/perachoice/'' @ ident) no_options"

definition employerEnrollmentAPI_electPERAChoice :: "string \<Rightarrow> string \<Rightarrow> rest_call" where
  "employerEnrollmentAPI_electPERAChoice ident plan =
     Put (ENROLLMENT_BASE @ ''/perachoice/'' @ ident @ ''/elect'')
       (JObj [(''plan'', JStr plan)]) no_options"

subsection \<open>employerTerminationsAPI\<close>

definition TERMINATIONS_BASE :: string where
  "TERMINATIONS_BASE = ''/api/v1/terminations''"

definition employerTerminationsAPI_createCertification :: "json \<Rightarrow> rest_call" where
  "employerTerminationsAPI_createCertification dat =
     Post (TERMINATIONS_BASE @ ''/certifications'')
       dat no_options"

definition employerTerminationsAPI_listCertifications ::
  "string \<Rightarrow> string option \<Rightarrow> int option \<Rightarrow> int option \<Rightarrow> rest_call" where
  "employerTerminationsAPI_listCertifications orgId status limit offset =
     Fetch_page (TERMINATIONS_BASE @ ''/certifications'' @
       (toQueryString [(''org_id'', JStr orgId), (''status'', JStr (coalesce status [])),
         (''limit'', jint (coalesce limit 25)),
           (''offset'', jint (coalesce offset 0))])) no_options"

definition employerTerminationsAPI_getCertification :: "string \<Rightarrow> rest_call" where
  "employerTerminationsAPI_getCertification ident =
     Fetch (TERMINATIONS_BASE @ ''/certifications/'' @ ident) no_options"

definition employerTerminationsAPI_verifyCertification :: "string \<Rightarrow> rest_call" where
  "employerTerminationsAPI_verifyCertification ident =
     Put (TERMINATIONS_BASE @ ''/certifications/'' @ ident @ ''/verify'')
       (JObj []) no_options"

definition employerTerminationsAPI_rejectCertification :: "string \<Rightarrow> string \<Rightarrow> rest_call" where
  "employerTerminationsAPI_rejectCertification ident reason =
     Put (TERMINATIONS_BASE @ ''/certifications/'' @ ident @ ''/reject'')
       (JObj [(''reason'', JStr reason)]) no_options"

definition employerTerminationsAPI_listHolds ::
  "string \<Rightarrow> string option \<Rightarrow> int option \<Rightarrow> int option \<Rightarrow> rest_call" where
  "employerTerminationsAPI_listHolds orgId status limit offset =
     Fetch_page (TERMINATIONS_BASE @ ''/holds'' @
       (toQueryString [(''org_id'', JStr orgId), (''status'', JStr (coalesce status [])),
         (''limit'', jint (coalesce limit 25)),
           (''offset'', jint (coalesce offset 0))])) no_options"

definition employerTerminationsAPI_getHold :: "string \<Rightarrow> rest_call" where
  "employerTerminationsAPI_getHold ident =
     Fetch (TERMINATIONS_BASE @ ''/holds/'' @ ident) no_options"

definition employerTerminationsAPI_resolveHold :: "string \<Rightarrow> string \<Rightarrow> string \<Rightarrow> rest_call" where
  "employerTerminationsAPI_resolveHold ident certificationId note =
     Put (TERMINATIONS_BASE @ ''/holds/'' @ ident @ ''/resolve'')
       (JObj [(''certificationId'', JStr certificationId), (''note'', JStr note)]) no_options"

definition employerTerminationsAPI_escalateHold :: "string \<Rightarrow> rest_call" where
  "employerTerminationsAPI_escalateHold ident =
     Put (TERMINATIONS_BASE @ ''/holds/'' @ ident @ ''/escalate'')
       (JObj []) no_options"

definition employerTerminationsAPI_createRefund :: "json \<Rightarrow> rest_call" where
  "employerTerminationsAPI_createRefund dat =
     Post (TERMINATIONS_BASE @ ''/refunds'')
       dat no_options"

definition employerTerminationsAPI_listRefunds ::
  "string \<Rightarrow> string option \<Rightarrow> int option \<Rightarrow> int option \<Rightarrow> rest_call" where
  "employerTerminationsAPI_listRefunds ssnHash status limit offset =
     Fetch_page (TERMINATIONS_BASE @ ''/refunds'' @
       (toQueryString [(''ssn_hash'', JStr ssnHash), (''status'', JStr (coalesce status [])),
         (''limit'', jint (coalesce limit 25)),
           (''offset'', jint (coalesce offset 0))])) no_options"

definition employerTerminationsAPI_getRefund :: "string \<Rightarrow> rest_call" where
  "employerTerminationsAPI_getRefund ident =
     Fetch (TERMINATIONS_BASE @ ''/refunds/'' @ ident) no_options"

definition employerTerminationsAPI_calculateRefund ::
  "string \<Rightarrow> string \<Rightarrow> string option \<Rightarrow> rest_call" where
  "employerTerminationsAPI_calculateRefund ident interestRatePercent droDeduction =
     Post (TERMINATIONS_BASE @ ''/refunds/'' @ ident @ ''/calculate'')
       (JObj [(''interestRatePercent'', JStr interestRatePercent),
         (''droDeduction'', JStr (coalesce droDeduction ''0''))]) no_options"

definition employerTerminationsAPI_setupPayment :: "string \<Rightarrow> json \<Rightarrow> rest_call" where
  "employerTerminationsAPI_setupPayment ident dat =
     Put (TERMINATIONS_BASE @ ''/refunds/'' @ ident @ ''/payment'')
       dat no_options"

definition employerTerminationsAPI_checkEligibility :: "string \<Rightarrow> rest_call" where
  "employerTerminationsAPI_checkEligibility ident =
     Fetch (TERMINATIONS_BASE @ ''/refunds/'' @ ident @ ''/eligibility'') no_options"

subsection \<open>employerWaretAPI\<close>

definition WARET_BASE :: string where
  "WARET_BASE = ''/api/v1/waret''"

definition employerWaretAPI_createDesignation :: "json \<Rightarrow> rest_call" where
  "employerWaretAPI_createDesignation dat =
     Post (WARET_BASE @ ''/designations'')
       dat no_options"

definition employerWaretAPI_listDesignations ::
  "string \<Rightarrow> int option \<Rightarrow> string option \<Rightarrow> int option \<Rightarrow> int option \<Rightarrow> rest_call" where
  "employerWaretAPI_listDesignations orgId year status limit offset =
     Fetch_page (WARET_BASE @ ''/designations'' @
       (toQueryString [(''org_id'', JStr orgId),
         (''year'', JStr (case year of None \<Rightarrow> [] | Some y \<Rightarrow> if y = 0
           then [] else int_str y)), (''status'', JStr (coalesce status [])),
             (''limit'', jint (coalesce limit 25)),
               (''offset'', jint (coalesce offset 0))])) no_options"

definition employerWaretAPI_getDesignation :: "string \<Rightarrow> rest_call" where
  "employerWaretAPI_getDesignation ident =
     Fetch (WARET_BASE @ ''/designations/'' @ ident) no_options"

definition employerWaretAPI_approveDesignation :: "string \<Rightarrow> rest_call" where
  "employerWaretAPI_approveDesignation ident =
     Put (WARET_BASE @ ''/designations/'' @ ident @ ''/approve'')
       (JObj []) no_options"

definition employerWaretAPI_revokeDesignation :: "string \<Rightarrow> string \<Rightarrow> rest_call" where
  "employerWaretAPI_revokeDesignation ident reason =
     Put (WARET_BASE @ ''/designations/'' @ ident @ ''/revoke'')
       (JObj [(''reason'', JStr reason)]) no_options"

definition employerWaretAPI_recordWorkDay :: "json \<Rightarrow> rest_call" where
  "employerWaretAPI_recordWorkDay dat =
     Post (WARET_BASE @ ''/tracking'')
       dat no_options"

definition employerWaretAPI_listTracking ::
  "string \<Rightarrow> int option \<Rightarrow> int option \<Rightarrow> rest_call" where
  "employerWaretAPI_listTracking designationId limit offset =
     Fetch_page (WARET_BASE @ ''/tracking'' @
       (toQueryString [(''designation_id'', JStr designationId),
         (''limit'', jint (coalesce limit 25)),
           (''offset'', jint (coalesce offset 0))])) no_options"

definition employerWaretAPI_getYTDSummary :: "string \<Rightarrow> rest_call" where
  "employerWaretAPI_getYTDSummary designationId =
     Fetch (WARET_BASE @ ''/tracking/summary/'' @ designationId) no_options"

definition employerWaretAPI_assessPenalty :: "json \<Rightarrow> rest_call" where
  "employerWaretAPI_assessPenalty dat =
     Post (WARET_BASE @ ''/penalties'')
       dat no_options"

definition employerWaretAPI_listPenalties ::
  "string \<Rightarrow> int option \<Rightarrow> int option \<Rightarrow> rest_call" where
  "employerWaretAPI_listPenalties designationId limit offset =
     Fetch_page (WARET_BASE @ ''/penalties'' @
       (toQueryString [(''designation_id'', JStr designationId),
         (''limit'', jint (coalesce limit 25)),
           (''offset'', jint (coalesce offset 0))])) no_options"

definition employerWaretAPI_appealPenalty :: "string \<Rightarrow> string \<Rightarrow> rest_call" where
  "employerWaretAPI_appealPenalty ident note =
     Put (WARET_BASE @ ''/penalties/'' @ ident @ ''/appeal'')
       (JObj [(''note'', JStr note)]) no_options"

definition employerWaretAPI_waivePenalty :: "string \<Rightarrow> string \<Rightarrow> rest_call" where
  "employerWaretAPI_waivePenalty ident reason =
     Put (WARET_BASE @ ''/penalties/'' @ ident @ ''/waive'')
       (JObj [(''reason'', JStr reason)]) no_options"

definition employerWaretAPI_createDisclosure :: "json \<Rightarrow> rest_call" where
  "employerWaretAPI_createDisclosure dat =
     Post (WARET_BASE @ ''/disclosures'')
       dat no_options"

definition employerWaretAPI_listDisclosures ::
  "string \<Rightarrow> int option \<Rightarrow> int option \<Rightarrow> int option \<Rightarrow> rest_call" where
  "employerWaretAPI_listDisclosures ssnHash year limit offset =
     Fetch_page (WARET_BASE @ ''/disclosures'' @
       (toQueryString [(''ssn_hash'', JStr ssnHash),
         (''year'', JStr (case year of None \<Rightarrow> [] | Some y \<Rightarrow> if y = 0
           then [] else int_str y)), (''limit'', jint (coalesce limit 25)),
             (''offset'', jint (coalesce offset 0))])) no_options"

definition employerWaretAPI_checkPERACare :: "string \<Rightarrow> bool \<Rightarrow> rest_call" where
  "employerWaretAPI_checkPERACare ident hasActiveSubsidy =
     Post (WARET_BASE @ ''/designations/'' @ ident @ ''/peracare-check'')
       (JObj [(''hasActiveSubsidy'', JBool hasActiveSubsidy)]) no_options"

definition employerWaretAPI_resolvePERACare :: "string \<Rightarrow> rest_call" where
  "employerWaretAPI_resolvePERACare ident =
     Put (WARET_BASE @ ''/designations/'' @ ident @ ''/peracare-resolve'')
       (JObj []) no_options"

subsection \<open>employerScpAPI\<close>

definition SCP_BASE :: string where
  "SCP_BASE = ''/api/v1/scp''"

definition employerScpAPI_listCostFactors ::
  "string option \<Rightarrow> bool option \<Rightarrow> int option \<Rightarrow> int option \<Rightarrow> rest_call" where
  "employerScpAPI_listCostFactors tier activeOnly limit offset =
     Fetch_page (SCP_BASE @ ''/cost-factors'' @
       (toQueryString [(''tier'', JStr (coalesce tier [])),
         (''active'', JStr (if coalesce activeOnly True then ''true'' else [])),
           (''limit'', jint (coalesce limit 50)),
             (''offset'', jint (coalesce offset 0))])) no_options"

definition employerScpAPI_lookupCostFactor :: "string \<Rightarrow> string \<Rightarrow> int \<Rightarrow> rest_call" where
  "employerScpAPI_lookupCostFactor tier hireDate age =
     Fetch (SCP_BASE @ ''/cost-factors/lookup'' @
       (toQueryString [(''tier'', JStr tier), (''hire_date'', JStr hireDate),
         (''age'', JStr (js_string (jint age)))])) no_options"

definition employerScpAPI_createCostFactor :: "json \<Rightarrow> rest_call" where
  "employerScpAPI_createCostFactor dat =
     Post (SCP_BASE @ ''/cost-factors'')
       dat no_options"

definition employerScpAPI_generateQuote :: "json \<Rightarrow> rest_call" where
  "employerScpAPI_generateQuote dat =
     Post (SCP_BASE @ ''/quotes'')
       dat no_options"

definition employerScpAPI_createRequest :: "json \<Rightarrow> rest_call" where
  "employerScpAPI_createRequest dat =
     Post (SCP_BASE @ ''/requests'')
       dat no_options"

definition employerScpAPI_getRequest :: "string \<Rightarrow> rest_call" where
  "employerScpAPI_getRequest ident =
     Fetch (SCP_BASE @ ''/requests/'' @ ident) no_options"

definition employerScpAPI_listRequests ::
  "string \<Rightarrow> string option \<Rightarrow> int option \<Rightarrow> int option \<Rightarrow> rest_call" where
  "employerScpAPI_listRequests orgId status limit offset =
     Fetch_page (SCP_BASE @ ''/requests'' @
       (toQueryString [(''org_id'', JStr orgId), (''status'', JStr (coalesce status [])),
         (''limit'', jint (coalesce limit 25)),
           (''offset'', jint (coalesce offset 0))])) no_options"

definition employerScpAPI_applyQuote :: "string \<Rightarrow> json \<Rightarrow> rest_call" where
  "employerScpAPI_applyQuote ident dat =
     Put (SCP_BASE @ ''/requests/'' @ ident @ ''/quote'')
       dat no_options"

definition employerScpAPI_submitDocumentation :: "string \<Rightarrow> rest_call" where
  "employerScpAPI_submitDocumentation ident =
     Put (SCP_BASE @ ''/requests/'' @ ident @ ''/submit-docs'')
       (JObj []) no_options"

definition employerScpAPI_approveRequest :: "string \<Rightarrow> rest_call" where
  "employerScpAPI_approveRequest ident =
     Put (SCP_BASE @ ''/requests/'' @ ident @ ''/approve'')
       (JObj []) no_options"

definition employerScpAPI_denyRequest :: "string \<Rightarrow> string \<Rightarrow> rest_call" where
  "employerScpAPI_denyRequest ident reason =
     Put (SCP_BASE @ ''/requests/'' @ ident @ ''/deny'')
       (JObj [(''reason'', JStr reason)]) no_options"

definition employerScpAPI_recordPayment :: "string \<Rightarrow> string \<Rightarrow> string \<Rightarrow> rest_call" where
  "employerScpAPI_recordPayment ident amount paymentMethod =
     Post (SCP_BASE @ ''/requests/'' @ ident @ ''/payment'')
       (JObj [(''amount'', JStr amount), (''paymentMethod'', JStr paymentMethod)]) no_options"

definition employerScpAPI_cancelRequest :: "string \<Rightarrow> rest_call" where
  "employerScpAPI_cancelRequest ident =
     Put (SCP_BASE @ ''/requests/'' @ ident @ ''/cancel'')
       (JObj []) no_options"

definition employerScpAPI_checkEligibility :: "string \<Rightarrow> string \<Rightarrow> rest_call" where
  "employerScpAPI_checkEligibility serviceType tier =
     Fetch (SCP_BASE @ ''/eligibility'' @
       (toQueryString [(''service_type'', JStr serviceType), (''tier'', JStr tier)])) no_options"

end
