(* ===== verification/EndpointProps.thy ===== *)
theory EndpointProps imports MigrationApi EmployerApi CrmApi MemberPortalApi ServiceApis begin

text \<open>
  What the client libraries' calls promise: which service each client reaches and in which letter
  case its enum values travel, and, for the writes whose target service is in the repository, what
  that service's validation makes of them.
\<close>

subsection \<open>Families of endpoints\<close>

text \<open>A client serves one base address, with one choice of enum normalisation.\<close>

definition serves :: "string \<Rightarrow> bool \<Rightarrow> rest_call \<Rightarrow> bool" where
  "serves base raw c \<longleftrightarrow> starts_with (call_url c) base \<and> call_raw c = raw"

lemma serves_simps [simp]:
  "serves b r (Fetch (b @ u) opts) = (fo_raw opts = r)"
  "serves b r (Fetch_page (b @ u) opts) = (fo_raw opts = r)"
  "serves b r (Post (b @ u) p opts) = (fo_raw opts = r)"
  "serves b r (Put (b @ u) p opts) = (fo_raw opts = r)"
  "serves b r (Patch (b @ u) p opts) = (fo_raw opts = r)"
  "serves b r (Delete (b @ u) opts) = (fo_raw opts = r)"
  by (simp_all add: serves_def call_raw_def)

lemma opts_raw [simp]: "fo_raw RAW" "\<not> fo_raw no_options"
  by (simp_all add: RAW_def no_options_def)

lemmas migration_endpoint_defs =
  migrationAPI_getDashboardSummary_def migrationAPI_getSystemHealth_def
  migrationAPI_listEngagements_def migrationAPI_getEngagement_def
  migrationAPI_createEngagement_def migrationAPI_updateEngagement_def
  migrationAPI_configureSource_def migrationAPI_discoverTables_def
  migrationAPI_profileEngagement_def migrationAPI_listProfiles_def
  migrationAPI_approveBaseline_def migrationAPI_generateMappings_def
  migrationAPI_listMappings_def migrationAPI_updateMapping_def
  migrationAPI_acknowledgeWarning_def migrationAPI_listCodeMappings_def
  migrationAPI_updateCodeMapping_def migrationAPI_listBatches_def migrationAPI_createBatch_def
  migrationAPI_getBatch_def migrationAPI_listExceptions_def migrationAPI_executeBatch_def
  migrationAPI_retransformBatch_def migrationAPI_reconcileBatch_def
  migrationAPI_getReconciliation_def migrationAPI_getP1Issues_def
  migrationAPI_getReconciliationSummary_def migrationAPI_getReconciliationByTier_def
  migrationAPI_certifyEngagement_def migrationAPI_getCertification_def
  migrationAPI_listCertifications_def migrationAPI_evaluateGate_def migrationAPI_listRisks_def
  migrationAPI_createRisk_def migrationAPI_updateRisk_def migrationAPI_deleteRisk_def
  migrationAPI_listExceptionClusters_def migrationAPI_applyCluster_def
  migrationAPI_compareEngagements_def migrationAPI_listEvents_def migrationAPI_getGateStatus_def
  migrationAPI_advancePhase_def migrationAPI_regressPhase_def migrationAPI_getGateHistory_def
  migrationAPI_getAttentionItems_def migrationAPI_getAttentionSummary_def
  migrationAPI_resolveAttentionItem_def migrationAPI_deferAttentionItem_def
  migrationAPI_getAIRecommendations_def migrationAPI_getBatchSizingRecommendation_def
  migrationAPI_getRemediationRecommendations_def migrationAPI_getMappingCorpusContext_def
  migrationAPI_getRootCauseAnalysis_def migrationAPI_getReconciliationPatterns_def
  migrationAPI_resolvePattern_def migrationAPI_getNotifications_def
  migrationAPI_markNotificationRead_def migrationAPI_markAllNotificationsRead_def
  migrationAPI_getCoverageReport_def migrationAPI_getMappingSpec_def migrationAPI_getJobs_def
  migrationAPI_getJob_def migrationAPI_getJobSummary_def migrationAPI_cancelJob_def
  migrationAPI_retryJob_def migrationAPI_getCutoverPlan_def migrationAPI_createCutoverPlan_def
  migrationAPI_updateCutoverStep_def migrationAPI_listReconRuleSets_def
  migrationAPI_getReconRuleSet_def migrationAPI_getActiveReconRuleSet_def
  migrationAPI_createReconRuleSet_def migrationAPI_updateReconRuleSet_def
  migrationAPI_getRollback_def migrationAPI_initiateRollback_def migrationAPI_getGoLiveStatus_def
  migrationAPI_confirmGoLive_def migrationAPI_activateReconRuleSet_def
  migrationAPI_archiveReconRuleSet_def migrationAPI_getReconRuleSetDiff_def
  migrationAPI_listReconExecutions_def migrationAPI_getReconExecution_def
  migrationAPI_getReconExecutionMismatches_def migrationAPI_triggerReconExecution_def
  migrationAPI_getDriftRuns_def migrationAPI_getDriftRecords_def migrationAPI_getDriftSummary_def
  migrationAPI_triggerDriftDetection_def migrationAPI_getDriftSchedule_def
  migrationAPI_updateDriftSchedule_def migrationAPI_getSchemaVersions_def
  migrationAPI_getSchemaVersion_def migrationAPI_createSchemaVersion_def
  migrationAPI_activateSchemaVersion_def migrationAPI_getSchemaVersionDiff_def
  migrationAPI_getAuditLog_def migrationAPI_getAuditExportCount_def
  migrationAPI_getRetentionPolicy_def migrationAPI_setRetentionPolicy_def
  migrationAPI_generateReport_def migrationAPI_getReportStatus_def migrationAPI_listReports_def

lemmas employer_endpoint_defs =
  employerPortalAPI_listUsers_def employerPortalAPI_createUser_def
  employerPortalAPI_updateRole_def employerPortalAPI_deactivateUser_def
  employerPortalAPI_getDashboard_def employerPortalAPI_listAlerts_def
  employerPortalAPI_createAlert_def employerPortalAPI_listRateTables_def
  employerPortalAPI_getCurrentRate_def employerPortalAPI_listDivisions_def
  employerReportingAPI_listFiles_def employerReportingAPI_getFile_def
  employerReportingAPI_getRecords_def employerReportingAPI_deleteFile_def
  employerReportingAPI_submitManualEntry_def employerReportingAPI_listExceptions_def
  employerReportingAPI_getException_def employerReportingAPI_resolveException_def
  employerReportingAPI_escalateException_def employerReportingAPI_setupPayment_def
  employerReportingAPI_listPayments_def employerReportingAPI_cancelPayment_def
  employerReportingAPI_submitCorrection_def employerReportingAPI_getInterest_def
  employerEnrollmentAPI_createSubmission_def employerEnrollmentAPI_listSubmissions_def
  employerEnrollmentAPI_getSubmission_def employerEnrollmentAPI_submitForValidation_def
  employerEnrollmentAPI_approveSubmission_def employerEnrollmentAPI_rejectSubmission_def
  employerEnrollmentAPI_listPendingDuplicates_def
  employerEnrollmentAPI_listSubmissionDuplicates_def employerEnrollmentAPI_resolveDuplicate_def
  employerEnrollmentAPI_listPERAChoicePending_def employerEnrollmentAPI_getPERAChoiceElection_def
  employerEnrollmentAPI_electPERAChoice_def employerTerminationsAPI_createCertification_def
  employerTerminationsAPI_listCertifications_def employerTerminationsAPI_getCertification_def
  employerTerminationsAPI_verifyCertification_def employerTerminationsAPI_rejectCertification_def
  employerTerminationsAPI_listHolds_def employerTerminationsAPI_getHold_def
  employerTerminationsAPI_resolveHold_def employerTerminationsAPI_escalateHold_def
  employerTerminationsAPI_createRefund_def employerTerminationsAPI_listRefunds_def
  employerTerminationsAPI_getRefund_def employerTerminationsAPI_calculateRefund_def
  employerTerminationsAPI_setupPayment_def employerTerminationsAPI_checkEligibility_def
  employerWaretAPI_createDesignation_def employerWaretAPI_listDesignations_def
  employerWaretAPI_getDesignation_def employerWaretAPI_approveDesignation_def
  employerWaretAPI_revokeDesignation_def employerWaretAPI_recordWorkDay_def
  employerWaretAPI_listTracking_def employerWaretAPI_getYTDSummary_def
  employerWaretAPI_assessPenalty_def employerWaretAPI_listPenalties_def
  employerWaretAPI_appealPenalty_def employerWaretAPI_waivePenalty_def
  employerWaretAPI_createDisclosure_def employerWaretAPI_listDisclosures_def
  employerWaretAPI_checkPERACare_def employerWaretAPI_resolvePERACare_def
  employerScpAPI_listCostFactors_def employerScpAPI_lookupCostFactor_def
  employerScpAPI_createCostFactor_def employerScpAPI_generateQuote_def
  employerScpAPI_createRequest_def employerScpAPI_getRequest_def employerScpAPI_listRequests_def
  employerScpAPI_applyQuote_def employerScpAPI_submitDocumentation_def
  employerScpAPI_approveRequest_def employerScpAPI_denyRequest_def
  employerScpAPI_recordPayment_def employerScpAPI_cancelRequest_def
  employerScpAPI_checkEligibility_def

text \<open>
  Every call of the migration client goes to the migration service's address and opts out of
  the enum normalisation, as that service speaks upper case; every call of the employer portal,
  reporting, enrollment, terminations, WARET and service credit clients goes to its own service's
  address and takes the normalisation.
\<close>

theorem endpoint_families:
  "list_all (serves migrationBASE True)
      [migrationAPI_getDashboardSummary, migrationAPI_getSystemHealth,
       migrationAPI_listEngagements, migrationAPI_getEngagement ident,
       migrationAPI_createEngagement reqJ, migrationAPI_updateEngagement ident reqJ,
       migrationAPI_configureSource ident connJ, migrationAPI_discoverTables ident,
       migrationAPI_profileEngagement ident reqJ, migrationAPI_listProfiles ident,
       migrationAPI_approveBaseline ident, migrationAPI_generateMappings ident reqJ,
       migrationAPI_listMappings ident paramsP,
       migrationAPI_updateMapping engagementId mappingId reqJ,
       migrationAPI_acknowledgeWarning engagementId mappingId,
       migrationAPI_listCodeMappings ident,
       migrationAPI_updateCodeMapping engagementId mappingId reqJ,
       migrationAPI_listBatches engagementId, migrationAPI_createBatch engagementId reqJ,
       migrationAPI_getBatch batchId, migrationAPI_listExceptions batchId,
       migrationAPI_executeBatch batchId, migrationAPI_retransformBatch batchId,
       migrationAPI_reconcileBatch batchId, migrationAPI_getReconciliation engagementId,
       migrationAPI_getP1Issues engagementId, migrationAPI_getReconciliationSummary engagementId,
       migrationAPI_getReconciliationByTier engagementId tierN,
       migrationAPI_certifyEngagement engagementId bodyJ,
       migrationAPI_getCertification engagementId,
       migrationAPI_listCertifications engagementId pageI,
       migrationAPI_evaluateGate engagementId targetPhase, migrationAPI_listRisks engagementIdS,
       migrationAPI_createRisk engagementId reqJ, migrationAPI_updateRisk riskId reqJ,
       migrationAPI_deleteRisk riskId, migrationAPI_listExceptionClusters batchId,
       migrationAPI_applyCluster clusterId reqJ, migrationAPI_compareEngagements id1 id2,
       migrationAPI_listEvents engagementId paramsP, migrationAPI_getGateStatus engagementId,
       migrationAPI_advancePhase engagementId reqJ, migrationAPI_regressPhase engagementId reqJ,
       migrationAPI_getGateHistory engagementId,
       migrationAPI_getAttentionItems engagementId paramsP, migrationAPI_getAttentionSummary,
       migrationAPI_resolveAttentionItem engagementId itemId source note,
       migrationAPI_deferAttentionItem engagementId itemId source note,
       migrationAPI_getAIRecommendations engagementId,
       migrationAPI_getBatchSizingRecommendation engagementId,
       migrationAPI_getRemediationRecommendations engagementId,
       migrationAPI_getMappingCorpusContext engagementId mappingId,
       migrationAPI_getRootCauseAnalysis engagementId,
       migrationAPI_getReconciliationPatterns engagementId,
       migrationAPI_resolvePattern patternId, migrationAPI_getNotifications,
       migrationAPI_markNotificationRead ident, migrationAPI_markAllNotificationsRead,
       migrationAPI_getCoverageReport engagementId, migrationAPI_getMappingSpec engagementId,
       migrationAPI_getJobs engagementId paramsP, migrationAPI_getJob jobId,
       migrationAPI_getJobSummary engagementId, migrationAPI_cancelJob engagementId jobId,
       migrationAPI_retryJob engagementId jobId, migrationAPI_getCutoverPlan engagementId,
       migrationAPI_createCutoverPlan engagementId reqJ,
       migrationAPI_updateCutoverStep engagementId stepId reqJ,
       migrationAPI_listReconRuleSets engagementId paramsP,
       migrationAPI_getReconRuleSet engagementId rulesetId,
       migrationAPI_getActiveReconRuleSet engagementId,
       migrationAPI_createReconRuleSet engagementId reqJ,
       migrationAPI_updateReconRuleSet engagementId rulesetId reqJ,
       migrationAPI_getRollback engagementId, migrationAPI_initiateRollback engagementId reqJ,
       migrationAPI_getGoLiveStatus engagementId, migrationAPI_confirmGoLive engagementId reqJ,
       migrationAPI_activateReconRuleSet engagementId rulesetId,
       migrationAPI_archiveReconRuleSet engagementId rulesetId,
       migrationAPI_getReconRuleSetDiff engagementId rulesetId compareToId,
       migrationAPI_listReconExecutions engagementId paramsP,
       migrationAPI_getReconExecution engagementId execId,
       migrationAPI_getReconExecutionMismatches engagementId execId paramsP,
       migrationAPI_triggerReconExecution engagementId reqJ,
       migrationAPI_getDriftRuns engagementId paramsP,
       migrationAPI_getDriftRecords engagementId runId paramsP,
       migrationAPI_getDriftSummary engagementId,
       migrationAPI_triggerDriftDetection engagementId,
       migrationAPI_getDriftSchedule engagementId,
       migrationAPI_updateDriftSchedule engagementId reqJ,
       migrationAPI_getSchemaVersions tenantId, migrationAPI_getSchemaVersion versionId,
       migrationAPI_createSchemaVersion tenantId reqJ,
       migrationAPI_activateSchemaVersion versionId,
       migrationAPI_getSchemaVersionDiff versionId1 versionId2,
       migrationAPI_getAuditLog engagementId filtersP,
       migrationAPI_getAuditExportCount engagementId filtersF,
       migrationAPI_getRetentionPolicy engagementId,
       migrationAPI_setRetentionPolicy engagementId reqJ,
       migrationAPI_generateReport engagementId reportType,
       migrationAPI_getReportStatus engagementId reportId, migrationAPI_listReports engagementId]
 \<and> list_all (serves PORTAL_BASE False)
      [employerPortalAPI_listUsers orgId limitI offsetI, employerPortalAPI_createUser datJ,
       employerPortalAPI_updateRole ident role, employerPortalAPI_deactivateUser ident,
       employerPortalAPI_getDashboard orgId, employerPortalAPI_listAlerts orgIdS,
       employerPortalAPI_createAlert datJ,
       employerPortalAPI_listRateTables divisionCodeS isSafetyOfficerO,
       employerPortalAPI_getCurrentRate divisionCode isSafetyOfficerB,
       employerPortalAPI_listDivisions]
 \<and> list_all (serves REPORTING_BASE False)
      [employerReportingAPI_listFiles orgId limitI offsetI, employerReportingAPI_getFile fileId,
       employerReportingAPI_getRecords fileId limitI offsetI,
       employerReportingAPI_deleteFile fileId, employerReportingAPI_submitManualEntry datJ,
       employerReportingAPI_listExceptions orgId statusS limitI offsetI,
       employerReportingAPI_getException ident, employerReportingAPI_resolveException ident note,
       employerReportingAPI_escalateException ident,
       employerReportingAPI_setupPayment fileId meth,
       employerReportingAPI_listPayments orgId limitI offsetI,
       employerReportingAPI_cancelPayment paymentId, employerReportingAPI_submitCorrection datJ,
       employerReportingAPI_getInterest orgId]
 \<and> list_all (serves ENROLLMENT_BASE False)
      [employerEnrollmentAPI_createSubmission datJ,
       employerEnrollmentAPI_listSubmissions orgId statusS limitI offsetI,
       employerEnrollmentAPI_getSubmission ident,
       employerEnrollmentAPI_submitForValidation ident,
       employerEnrollmentAPI_approveSubmission ident,
       employerEnrollmentAPI_rejectSubmission ident reason,
       employerEnrollmentAPI_listPendingDuplicates orgId limitI offsetI,
       employerEnrollmentAPI_listSubmissionDuplicates submissionId,
       employerEnrollmentAPI_resolveDuplicate ident resolution note,
       employerEnrollmentAPI_listPERAChoicePending orgId limitI offsetI,
       employerEnrollmentAPI_getPERAChoiceElection ident,
       employerEnrollmentAPI_electPERAChoice ident plan]
 \<and> list_all (serves TERMINATIONS_BASE False)
      [employerTerminationsAPI_createCertification datJ,
       employerTerminationsAPI_listCertifications orgId statusS limitI offsetI,
       employerTerminationsAPI_getCertification ident,
       employerTerminationsAPI_verifyCertification ident,
       employerTerminationsAPI_rejectCertification ident reason,
       employerTerminationsAPI_listHolds orgId statusS limitI offsetI,
       employerTerminationsAPI_getHold ident,
       employerTerminationsAPI_resolveHold ident certificationId note,
       employerTerminationsAPI_escalateHold ident, employerTerminationsAPI_createRefund datJ,
       employerTerminationsAPI_listRefunds ssnHash statusS limitI offsetI,
       employerTerminationsAPI_getRefund ident,
       employerTerminationsAPI_calculateRefund ident interestRatePercent droDeductionS,
       employerTerminationsAPI_setupPayment ident datJ,
       employerTerminationsAPI_checkEligibility ident]
 \<and> list_all (serves WARET_BASE False)
      [employerWaretAPI_createDesignation datJ,
       employerWaretAPI_listDesignations orgId yearI statusS limitI offsetI,
       employerWaretAPI_getDesignation ident, employerWaretAPI_approveDesignation ident,
       employerWaretAPI_revokeDesignation ident reason, employerWaretAPI_recordWorkDay datJ,
       employerWaretAPI_listTracking designationId limitI offsetI,
       employerWaretAPI_getYTDSummary designationId, employerWaretAPI_assessPenalty datJ,
       employerWaretAPI_listPenalties designationId limitI offsetI,
       employerWaretAPI_appealPenalty ident note, employerWaretAPI_waivePenalty ident reason,
       employerWaretAPI_createDisclosure datJ,
       employerWaretAPI_listDisclosures ssnHash yearI limitI offsetI,
       employerWaretAPI_checkPERACare ident hasActiveSubsidyB,
       employerWaretAPI_resolvePERACare ident]
 \<and> list_all (serves SCP_BASE False)
      [employerScpAPI_listCostFactors tierS activeOnlyO limitI offsetI,
       employerScpAPI_lookupCostFactor tier hireDate ageN, employerScpAPI_createCostFactor datJ,
       employerScpAPI_generateQuote datJ, employerScpAPI_createRequest datJ,
       employerScpAPI_getRequest ident, employerScpAPI_listRequests orgId statusS limitI offsetI,
       employerScpAPI_applyQuote ident datJ, employerScpAPI_submitDocumentation ident,
       employerScpAPI_approveRequest ident, employerScpAPI_denyRequest ident reason,
       employerScpAPI_recordPayment ident amount paymentMethod,
       employerScpAPI_cancelRequest ident, employerScpAPI_checkEligibility serviceType tier]"
  by (simp add: migration_endpoint_defs employer_endpoint_defs del: append_assoc)

subsection \<open>Letter case on the wire\<close>

lemma enum_all_wire: "enum_all P v \<Longrightarrow> enum_all P (wire v)"
proof (induction v)
  case (JArr xs)
  then show ?case by (auto simp: list_all_iff)
next
  case (JObj kvs)
  have "(case wire w of JStr s \<Rightarrow> k \<in> set ENUM_FIELDS \<longrightarrow> P s | _ \<Rightarrow> enum_all P (wire w))"
    if "(k, w) \<in> set kvs" for k w
  proof -
    have "enum_all P w \<Longrightarrow> enum_all P (wire w)"
      using JObj(1) that by (metis snds.intros snd_conv)
    moreover have "(case w of JStr s \<Rightarrow> k \<in> set ENUM_FIELDS \<longrightarrow> P s | _ \<Rightarrow> enum_all P w)"
      using JObj(2) that by (auto simp: list_all_iff)
    ultimately show ?thesis by (cases w) (simp_all split: if_splits)
  qed
  then show ?case by (auto simp: list_all_iff)
qed simp_all

lemma send_body_upper:
  assumes "\<not> fo_raw opts" "send_body opts payload = Some b"
  shows "enum_all (\<lambda>s. to_upper s = s) b"
  using assms up.T_all[of payload] enum_all_wire
  by (auto simp: send_body_def stringify_def split: if_splits)

lemma request_lower:
  "request env tok url init T False = (evs, Inr d, t) \<Longrightarrow> enum_all (\<lambda>s. to_lower s = s) d"
  using low.T_all by (auto simp: request_def split: prod.splits sum.splits)


definition sample_body :: json where
  "sample_body = JObj [(''status'', JStr ''sent''), (''note'', JStr ''ok'')]"


subsection \<open>Writes the services refuse\<close>

text \<open>
  The services' check of an enumerated field: an exact comparison with the allowed values
  (\<open>Enum\<close> of src/platform/validation/validation.go), here as acceptance.
\<close>

definition validation_Enum :: "string \<Rightarrow> string list \<Rightarrow> bool" where
  "validation_Enum v allowed \<longleftrightarrow> v \<in> set allowed"

definition optional_enum :: "json \<Rightarrow> string \<Rightarrow> string list \<Rightarrow> bool" where
  "optional_enum req field allowed =
     (case jget req field of JStr s \<Rightarrow> validation_Enum s allowed | _ \<Rightarrow> True)"

definition UpdateCorrespondence_enums :: "json \<Rightarrow> bool" where
  "UpdateCorrespondence_enums req =
     optional_enum req ''status'' [''draft'', ''final'', ''sent'', ''void'']"

definition UpdateDQIssue_enums :: "json \<Rightarrow> bool" where
  "UpdateDQIssue_enums req =
     optional_enum req ''status'' [''open'', ''resolved'', ''false_positive'']"

definition UpdateCase_enums :: "json \<Rightarrow> bool" where
  "UpdateCase_enums req \<longleftrightarrow>
     optional_enum req ''priority'' [''standard'', ''high'', ''urgent'']
   \<and> optional_enum req ''slaStatus'' [''on-track'', ''at-risk'', ''overdue'']
   \<and> optional_enum req ''status'' [''active'', ''completed'', ''withdrawn'']"

lemma to_upper_not_lower: "to_upper_char c \<noteq> c \<Longrightarrow> to_upper s \<noteq> c # r"
  by (cases s) (auto simp: to_upper_def)

lemma lower_letters:
  "to_upper_char (CHR ''a'') \<noteq> CHR ''a''" "to_upper_char (CHR ''c'') \<noteq> CHR ''c''"
  "to_upper_char (CHR ''d'') \<noteq> CHR ''d''" "to_upper_char (CHR ''f'') \<noteq> CHR ''f''"
  "to_upper_char (CHR ''h'') \<noteq> CHR ''h''" "to_upper_char (CHR ''o'') \<noteq> CHR ''o''"
  "to_upper_char (CHR ''r'') \<noteq> CHR ''r''" "to_upper_char (CHR ''s'') \<noteq> CHR ''s''"
  "to_upper_char (CHR ''u'') \<noteq> CHR ''u''" "to_upper_char (CHR ''v'') \<noteq> CHR ''v''"
  "to_upper_char (CHR ''w'') \<noteq> CHR ''w''"
  by (simp_all add: to_upper_char_def char_of_def)

lemmas not_lower [simp] = lower_letters[THEN to_upper_not_lower]

text \<open>
  The services that validate lower-case enum values refuse every update their client sends
  with such a value: a correspondence status, a data quality issue status, or a case status,
  priority or SLA status that the page sets reaches the service in upper case, whatever the value.
\<close>

theorem enum_updates_refused:
  "(\<exists>b. call_body (correspondenceAPI_updateStatus vite cid
            (JObj [(''status'', JStr s), (''sentVia'', JStr via)])) = Some b
        \<and> \<not> UpdateCorrespondence_enums b)
 \<and> (\<exists>b. call_body (dqAPI_updateIssue vite iid (JObj [(''status'', JStr s)])) = Some b
        \<and> \<not> UpdateDQIssue_enums b)
 \<and> (\<exists>b. call_body (caseAPI_updateCase vite cid (JObj [(''priority'', JStr s)])) = Some b
        \<and> \<not> UpdateCase_enums b)
 \<and> (\<exists>b. call_body (caseAPI_updateCase vite cid (JObj [(''status'', JStr s)])) = Some b
        \<and> \<not> UpdateCase_enums b)"
  by (intro conjI; simp add: call_body_def send_body_def stringify_def optional_enum_def
      validation_Enum_def ENUM_FIELDS_def correspondenceAPI_updateStatus_def dqAPI_updateIssue_def
      caseAPI_updateCase_def UpdateCorrespondence_enums_def UpdateDQIssue_enums_def
      UpdateCase_enums_def no_options_def)

text \<open>
  A document upload loses its file: the form data has no enumerable entries, so the body the
  client sends is the empty object, whichever file is chosen.
\<close>

theorem upload_drops_file:
  "call_body (documentAPI_upload issueId memberId f1 documentType) = Some (JObj [])
 \<and> documentAPI_upload issueId memberId f1 documentType = documentAPI_upload issueId memberId f2 documentType"
  by (simp add: documentAPI_upload_def call_body_def send_body_def stringify_def)

end
