(* ===== verification/CorrespondenceSend.thy ===== *)
theory CorrespondenceSend imports JsDate EndpointProps QueryCache "HOL-Library.Sublist" begin

text \<open>
  Sending a letter: the mutation of \<open>useCorrespondenceSend\<close>, src/frontend/src/hooks/useCorrespondence.ts.
  It marks the letter sent, logs an interaction with the contact and runs the template's effects,
  each after the first step on a best-effort basis. The network is a function from the number of
  calls made and the call to its answer, an error or a body; a run is the calls in order and the
  result of the mutation.
\<close>

type_synonym network = "nat \<Rightarrow> rest_call \<Rightarrow> string + json"

datatype send_effect_type = Advance_stage | Create_commitment

record send_effect =
  sf_type :: send_effect_type
  sf_description :: "string option"
  sf_targetDays :: "int option"

record send_params =
  sp_correspondenceId :: string
  sp_sentVia :: string
  sp_deliveryAddress :: "string option"
  sp_contactId :: "string option"
  sp_subject :: "string option"
  sp_caseId :: "string option"
  sp_onSendEffects :: "send_effect list"

definition update_call :: "vite_env \<Rightarrow> send_params \<Rightarrow> rest_call" where
  "update_call vite p = correspondenceAPI_updateStatus vite (sp_correspondenceId p)
     (JObj [(''status'', JStr ''sent''), (''sentVia'', JStr (sp_sentVia p)),
            (''deliveryAddress'', jopt JStr (sp_deliveryAddress p))])"

definition interaction_call :: "vite_env \<Rightarrow> send_params \<Rightarrow> string \<Rightarrow> rest_call" where
  "interaction_call vite p contactId =
     (let channel = (if sp_sentVia p = ''email'' then ''email_outbound'' else ''mail_outbound'');
          caseSuffix = (let c = or_str (sp_caseId p) [] in if c = [] then [] else '' ('' @ c @ '')'') in
      crmAPI_createInteraction vite
        (JObj [(''contactId'', JStr contactId), (''channel'', JStr channel),
               (''interactionType'', JStr ''notification''), (''direction'', JStr ''outbound''),
               (''summary'', JStr (''Correspondence sent: '' @ coalesce (sp_subject p) ''Letter'' @ caseSuffix)),
               (''visibility'', JStr ''public'')]))"

text \<open>The day \<open>days\<close> on by the reader's calendar, as the day of that time in UTC.\<close>

definition follow_up_date :: "time_zone \<Rightarrow> int \<Rightarrow> int \<Rightarrow> string" where
  "follow_up_date tz now days = iso_day (tz_utc tz (tz_local tz now + MS_DAY * days) div MS_DAY)"

definition commitment_call ::
  "vite_env \<Rightarrow> time_zone \<Rightarrow> int \<Rightarrow> string \<Rightarrow> string \<Rightarrow> send_effect \<Rightarrow> rest_call" where
  "commitment_call vite tz now interactionId contactId eff = crmAPI_createCommitment vite
     (JObj [(''interactionId'', JStr interactionId), (''contactId'', JStr contactId),
            (''description'', JStr (coalesce (sf_description eff) ''Follow-up from correspondence'')),
            (''targetDate'', JStr (follow_up_date tz now (coalesce (sf_targetDays eff) 7))),
            (''ownerAgent'', JStr ''system'')])"

definition response_id :: "json \<Rightarrow> string option" where
  "response_id r = (case jget r ''interactionId'' of JStr s \<Rightarrow> Some s | _ \<Rightarrow> None)"

text \<open>The contact to log with: a truthy id.\<close>

definition logged_contact :: "send_params \<Rightarrow> string option" where
  "logged_contact p = (let c = or_str (sp_contactId p) [] in if c = [] then None else Some c)"

text \<open>Step 2: the interaction, whose failure only loses its id.\<close>

definition log_interaction ::
  "vite_env \<Rightarrow> network \<Rightarrow> send_params \<Rightarrow> rest_call list \<Rightarrow> rest_call list \<times> string option" where
  "log_interaction vite net p calls =
     (case logged_contact p of
        None \<Rightarrow> (calls, None)
      | Some contactId \<Rightarrow>
          let c = interaction_call vite p contactId in
          (calls @ [c],
           case net (length calls) c of
             Inl _ \<Rightarrow> None
           | Inr r \<Rightarrow> (let i = or_str (response_id r) [] in if i = [] then None else Some i)))"

text \<open>Step 3: one effect, given the interaction and the contact.\<close>

definition run_send_effect ::
  "vite_env \<Rightarrow> time_zone \<Rightarrow> int \<Rightarrow> network \<Rightarrow> string option \<Rightarrow> string option \<Rightarrow> send_effect
     \<Rightarrow> rest_call list \<times> send_effect list \<Rightarrow> rest_call list \<times> send_effect list" where
  "run_send_effect vite tz now net interactionId contactId eff s =
     (case (sf_type eff, interactionId, contactId) of
        (Create_commitment, Some iid, Some cid) \<Rightarrow>
          (let c = commitment_call vite tz now iid cid eff in
           (fst s @ [c], case net (length (fst s)) c of Inl _ \<Rightarrow> snd s | Inr _ \<Rightarrow> snd s @ [eff]))
      | (Advance_stage, _, _) \<Rightarrow> (fst s, snd s @ [eff])
      | _ \<Rightarrow> s)"

definition useCorrespondenceSend ::
  "vite_env \<Rightarrow> time_zone \<Rightarrow> int \<Rightarrow> network \<Rightarrow> send_params
     \<Rightarrow> rest_call list \<times> (string + json \<times> send_effect list)" where
  "useCorrespondenceSend vite tz now net p =
     (let c = update_call vite p in
      case net 0 c of
        Inl e \<Rightarrow> ([c], Inl e)
      | Inr updated \<Rightarrow>
          (case log_interaction vite net p [c] of
             (calls, interactionId) \<Rightarrow>
               (case fold (run_send_effect vite tz now net interactionId (logged_contact p))
                       (sp_onSendEffects p) (calls, []) of
                  (calls', executed) \<Rightarrow> (calls', Inr (updated, executed)))))"

definition send_invalidates :: "query_key list" where
  "send_invalidates = [[JStr ''correspondence''], [JStr ''crm'']]"

text \<open>
  The network with the correspondence service of the repository behind it: an update whose enums
  its handler does not accept is answered with an error.
\<close>

definition with_correspondence_service :: "vite_env \<Rightarrow> network \<Rightarrow> network" where
  "with_correspondence_service vite net k c =
     (if starts_with (call_url c) (CORR_URL vite @ ''/v1/correspondence/history/'')
         \<and> \<not> UpdateCorrespondence_enums (coalesce (call_body c) JUndef)
      then Inl ''INVALID_REQUEST'' else net k c)"

subsection \<open>The effects\<close>

lemma run_send_effect_calls:
  "\<exists>cs. fst (run_send_effect vite tz now net i k eff s) = fst s @ cs
     \<and> cs = (case (sf_type eff, i, k) of
               (Create_commitment, Some iid, Some cid) \<Rightarrow> [commitment_call vite tz now iid cid eff]
             | _ \<Rightarrow> [])"
  by (auto simp: run_send_effect_def Let_def split: option.split send_effect_type.split)

lemma run_send_effect_done:
  "snd (run_send_effect vite tz now net i k eff s) = snd s @ [eff]
   \<or> (snd (run_send_effect vite tz now net i k eff s) = snd s \<and> sf_type eff = Create_commitment)"
  by (auto simp: run_send_effect_def Let_def split: option.split sum.split send_effect_type.split)

definition commitment_effects :: "string option \<Rightarrow> string option \<Rightarrow> send_effect list \<Rightarrow> send_effect list" where
  "commitment_effects i k effs =
     (if i = None \<or> k = None then [] else filter (\<lambda>e. sf_type e = Create_commitment) effs)"

lemma effects_calls:
  "fst (fold (run_send_effect vite tz now net i k) effs s) = fst s
     @ map (commitment_call vite tz now (coalesce i []) (coalesce k [])) (commitment_effects i k effs)"
proof (induction effs arbitrary: s)
  case (Cons e effs)
  show ?case unfolding fold_Cons comp_def Cons.IH
    by (auto simp: run_send_effect_def Let_def commitment_effects_def split: option.split send_effect_type.split)
qed (simp add: commitment_effects_def)

lemma effects_done:
  "\<exists>ds. snd (fold (run_send_effect vite tz now net i k) effs s) = snd s @ ds \<and> subseq ds effs
     \<and> filter (\<lambda>e. sf_type e = Advance_stage) ds = filter (\<lambda>e. sf_type e = Advance_stage) effs
     \<and> (i = None \<or> k = None \<longrightarrow> ds = filter (\<lambda>e. sf_type e = Advance_stage) effs)"
proof (induction effs arbitrary: s)
  case (Cons e effs)
  let ?s = "run_send_effect vite tz now net i k e s"
  from Cons.IH[of ?s] obtain ds where ds:
    "snd (fold (run_send_effect vite tz now net i k) effs ?s) = snd ?s @ ds" "subseq ds effs"
    "filter (\<lambda>e. sf_type e = Advance_stage) ds = filter (\<lambda>e. sf_type e = Advance_stage) effs"
    "i = None \<or> k = None \<longrightarrow> ds = filter (\<lambda>e. sf_type e = Advance_stage) effs" by blast
  have none: "i = None \<or> k = None \<Longrightarrow> sf_type e = Create_commitment \<Longrightarrow> snd ?s = snd s"
    by (auto simp: run_send_effect_def split: option.split)
  from run_send_effect_done[of vite tz now net i k e s] show ?case
  proof
    assume "snd ?s = snd s @ [e]"
    with ds none show ?thesis
      by (intro exI[of _ "e # ds"]) (cases "sf_type e"; cases i; cases k; auto)
  next
    assume "snd ?s = snd s \<and> sf_type e = Create_commitment"
    with ds show ?thesis by (intro exI[of _ ds]) auto
  qed
qed simp

text \<open>
  Once the letter is marked sent, the rest is best effort and in order: the calls are the update,
  then the interaction if there is a contact, then one commitment for each commitment effect, in the
  template's order and each naming the logged interaction, and none if logging failed; the mutation
  succeeds whatever these calls answer, and the effects it reports are effects of the template in
  their order, among them every stage advance.
\<close>

theorem send_effects_in_order:
  assumes "net 0 (update_call vite p) = Inr updated"
  shows "\<exists>interactionId executed.
      useCorrespondenceSend vite tz now net p =
        ([update_call vite p]
         @ (case logged_contact p of None \<Rightarrow> [] | Some cid \<Rightarrow> [interaction_call vite p cid])
         @ map (commitment_call vite tz now (coalesce interactionId []) (coalesce (logged_contact p) []))
             (commitment_effects interactionId (logged_contact p) (sp_onSendEffects p)),
         Inr (updated, executed))
    \<and> subseq executed (sp_onSendEffects p)
    \<and> filter (\<lambda>e. sf_type e = Advance_stage) executed
        = filter (\<lambda>e. sf_type e = Advance_stage) (sp_onSendEffects p)
    \<and> (interactionId = None \<or> logged_contact p = None
        \<longrightarrow> executed = filter (\<lambda>e. sf_type e = Advance_stage) (sp_onSendEffects p))"
proof -
  obtain calls i where log: "log_interaction vite net p [update_call vite p] = (calls, i)" by fastforce
  have calls: "calls = [update_call vite p]
      @ (case logged_contact p of None \<Rightarrow> [] | Some cid \<Rightarrow> [interaction_call vite p cid])"
    using log by (auto simp: log_interaction_def Let_def split: option.splits)
  let ?r = "fold (run_send_effect vite tz now net i (logged_contact p)) (sp_onSendEffects p) (calls, [])"
  from effects_done[of vite tz now net i "logged_contact p" "sp_onSendEffects p" "(calls, [])"]
  obtain ds where "snd ?r = ds" "subseq ds (sp_onSendEffects p)"
    "filter (\<lambda>e. sf_type e = Advance_stage) ds = filter (\<lambda>e. sf_type e = Advance_stage) (sp_onSendEffects p)"
    "i = None \<or> logged_contact p = None \<longrightarrow> ds = filter (\<lambda>e. sf_type e = Advance_stage) (sp_onSendEffects p)"
    by auto
  then show ?thesis
    using effects_calls[of vite tz now net i "logged_contact p" "sp_onSendEffects p" "(calls, [])"] log calls assms
    by (intro exI[of _ i] exI[of _ ds]) (auto simp: useCorrespondenceSend_def Let_def split: prod.split)
qed

definition example_send :: send_params where
  "example_send =
     \<lparr>sp_correspondenceId = ''k1'', sp_sentVia = ''email'', sp_deliveryAddress = None,
      sp_contactId = Some ''c1'', sp_subject = None, sp_caseId = None,
      sp_onSendEffects =
        [\<lparr>sf_type = Create_commitment, sf_description = None, sf_targetDays = None\<rparr>,
         \<lparr>sf_type = Advance_stage, sf_description = None, sf_targetDays = None\<rparr>]\<rparr>"

theorem send_effects_in_order_witness:
  "\<exists>interactionId executed.
      useCorrespondenceSend (\<lambda>_. None) (fixed_zone 0) 0 (\<lambda>k c. if k = 0 then Inr JNull else Inl ''down'') example_send
      = ([update_call (\<lambda>_. None) example_send, interaction_call (\<lambda>_. None) example_send ''c1'']
         @ map (commitment_call (\<lambda>_. None) (fixed_zone 0) 0 (coalesce interactionId []) ''c1'')
             (commitment_effects interactionId (Some ''c1'') (sp_onSendEffects example_send)),
         Inr (JNull, executed))"
proof -
  have "logged_contact example_send = Some ''c1''"
    by (simp add: logged_contact_def example_send_def or_str_def)
  with send_effects_in_order[of "\<lambda>k c. if k = 0 then Inr JNull else Inl ''down''" "\<lambda>_. None" example_send JNull
      "fixed_zone 0" 0]
  show ?thesis by auto
qed

text \<open>
  Against the correspondence service of the repository no letter can be sent: the update's
  status reaches the handler in upper case and is refused, so the mutation fails at its first call,
  whatever the rest of the network answers, and neither the interaction nor any commitment is
  attempted.
\<close>

theorem send_always_refused:
  "useCorrespondenceSend vite tz now (with_correspondence_service vite net) p
     = ([update_call vite p], Inl ''INVALID_REQUEST'')"
proof -
  have "starts_with (call_url (update_call vite p)) (CORR_URL vite @ ''/v1/correspondence/history/'')"
    using starts_with_append[of "CORR_URL vite @ ''/v1/correspondence/history/''" "sp_correspondenceId p"]
    by (simp add: update_call_def correspondenceAPI_updateStatus_def)
  moreover have "\<not> UpdateCorrespondence_enums (coalesce (call_body (update_call vite p)) JUndef)"
    by (simp add: update_call_def correspondenceAPI_updateStatus_def call_body_def send_body_def
        stringify_def optional_enum_def validation_Enum_def ENUM_FIELDS_def
        UpdateCorrespondence_enums_def no_options_def)
  ultimately show ?thesis
    by (simp add: useCorrespondenceSend_def Let_def with_correspondence_service_def)
qed

end
