(* ===== verification/CrmCache.thy ===== *)
theory CrmCache imports CrmQueries EnumTransform begin

text \<open>
  The CRM hooks as one family of queries over the shared cache: a key stands for one call, so
  what a hook reads was fetched by its own call; which writes refresh which hooks; and what the
  public view of a conversation can show.
\<close>

datatype crm_query =
    ContactSearch string "bool option"
  | Contact string
  | ContactByLegacyId string
  | ContactTimeline string "int option"
  | Interaction string
  | Conversations fields
  | Conversation string
  | Commitments fields
  | Outreach fields
  | Organizations fields
  | Organization string
  | ContactByMemberId string
  | FullTimeline string
  | MemberConversations string
  | EmployerConversations string
  | PublicConversationInteractions string
  | AllConversationInteractions string
  | PortalConversation string
  | PortalInteraction string
  | ContactCommitments string
  | PortalOrganization string
  | PortalOrganizations

fun crm_spec :: "vite_env \<Rightarrow> crm_query \<Rightarrow> query_spec" where
  "crm_spec vite (ContactSearch q enabled) = useContactSearch vite q enabled"
| "crm_spec vite (Contact c) = useContact vite c"
| "crm_spec vite (ContactByLegacyId m) = useContactByLegacyId vite m"
| "crm_spec vite (ContactTimeline c limit) = useContactTimeline vite c limit"
| "crm_spec vite (Interaction i) = useInteraction vite i"
| "crm_spec vite (Conversations ps) = useConversations vite ps"
| "crm_spec vite (Conversation c) = useConversation vite c"
| "crm_spec vite (Commitments ps) = useCommitments vite ps"
| "crm_spec vite (Outreach ps) = useOutreach vite ps"
| "crm_spec vite (Organizations ps) = useOrganizations vite ps"
| "crm_spec vite (Organization g) = useOrganization vite g"
| "crm_spec vite (ContactByMemberId m) = useContactByMemberId vite m"
| "crm_spec vite (FullTimeline c) = useFullTimeline vite c"
| "crm_spec vite (MemberConversations m) = useMemberConversations vite m"
| "crm_spec vite (EmployerConversations g) = useEmployerConversations vite g"
| "crm_spec vite (PublicConversationInteractions c) = usePublicConversationInteractions vite c"
| "crm_spec vite (AllConversationInteractions c) = useAllConversationInteractions vite c"
| "crm_spec vite (PortalConversation c) = usePortalConversation vite c"
| "crm_spec vite (PortalInteraction i) = usePortalInteraction vite i"
| "crm_spec vite (ContactCommitments c) = useContactCommitments vite c"
| "crm_spec vite (PortalOrganization g) = usePortalOrganization vite g"
| "crm_spec vite PortalOrganizations = usePortalOrganizations vite"

text \<open>Filters the pages pass: scalars, or fields left undefined.\<close>

fun crm_valid :: "crm_query \<Rightarrow> bool" where
  "crm_valid (Conversations ps) = plain_fields ps"
| "crm_valid (Commitments ps) = plain_fields ps"
| "crm_valid (Outreach ps) = plain_fields ps"
| "crm_valid (Organizations ps) = plain_fields ps"
| "crm_valid q = True"

lemmas crm_query_defs =
  useContactSearch_def useContact_def useContactByLegacyId_def useContactTimeline_def
  useInteraction_def useConversations_def useConversation_def useCommitments_def useOutreach_def
  useOrganizations_def useOrganization_def useContactByMemberId_def useFullTimeline_def
  useMemberConversations_def useEmployerConversations_def usePublicConversationInteractions_def
  useAllConversationInteractions_def usePortalConversation_def usePortalInteraction_def
  useContactCommitments_def usePortalOrganization_def usePortalOrganizations_def

text \<open>The keys of the family, below \<open>crm\<close>, as they are hashed.\<close>

fun crm_key :: "crm_query \<Rightarrow> json list" where
  "crm_key (ContactSearch q enabled) = [JStr ''contacts'', JStr ''search'', JStr q]"
| "crm_key (Contact c) = [JStr ''contact'', JStr c]"
| "crm_key (ContactByLegacyId m) = [JStr ''contact'', JStr ''legacy'', JStr m]"
| "crm_key (ContactTimeline c limit) = [JStr ''timeline'', JStr c, key_elem (jopt jint limit)]"
| "crm_key (Interaction i) = [JStr ''interaction'', JStr i]"
| "crm_key (Conversations ps) = [JStr ''conversations'', key_elem (JObj ps)]"
| "crm_key (Conversation c) = [JStr ''conversation'', JStr c]"
| "crm_key (Commitments ps) = [JStr ''commitments'', key_elem (JObj ps)]"
| "crm_key (Outreach ps) = [JStr ''outreach'', key_elem (JObj ps)]"
| "crm_key (Organizations ps) = [JStr ''organizations'', key_elem (JObj ps)]"
| "crm_key (Organization g) = [JStr ''organization'', JStr g]"
| "crm_key (ContactByMemberId m) = [JStr ''portal'', JStr ''contact-by-member'', JStr m]"
| "crm_key (FullTimeline c) = [JStr ''portal'', JStr ''full-timeline'', JStr c]"
| "crm_key (MemberConversations m) = [JStr ''portal'', JStr ''member-conversations'', JStr m]"
| "crm_key (EmployerConversations g) = [JStr ''portal'', JStr ''employer-conversations'', JStr g]"
| "crm_key (PublicConversationInteractions c) = [JStr ''portal'', JStr ''public-interactions'', JStr c]"
| "crm_key (AllConversationInteractions c) = [JStr ''portal'', JStr ''all-interactions'', JStr c]"
| "crm_key (PortalConversation c) = [JStr ''portal'', JStr ''conversation'', JStr c]"
| "crm_key (PortalInteraction i) = [JStr ''portal'', JStr ''interaction'', JStr i]"
| "crm_key (ContactCommitments c) = [JStr ''portal'', JStr ''commitments'', JStr c]"
| "crm_key (PortalOrganization g) = [JStr ''portal'', JStr ''organization'', JStr g]"
| "crm_key PortalOrganizations = [JStr ''portal'', JStr ''organizations'']"

lemma crm_spec_key: "hash_key (qs_key (crm_spec vite q)) = JArr (JStr ''crm'' # crm_key q)"
  by (cases q) (simp_all add: crm_query_defs hash_key_def2)

text \<open>The hook a key belongs to.\<close>

definition hook_of_portal :: "json \<Rightarrow> nat" where
  "hook_of_portal x = (case x of JStr s \<Rightarrow>
     (if s = ''contact-by-member'' then 11 else if s = ''full-timeline'' then 12 else if s =
      ''member-conversations'' then 13 else if s = ''employer-conversations'' then 14 else if
      s = ''public-interactions'' then 15 else if s = ''all-interactions'' then 16 else if s =
      ''conversation'' then 17 else if s = ''interaction'' then 18 else if s = ''commitments''
      then 19 else if s = ''organization'' then 20 else if s = ''organizations'' then 21 else
      99) | _ \<Rightarrow> 99)"

definition hook_of :: "json list \<Rightarrow> nat" where
  "hook_of k = (case hd k of JStr s \<Rightarrow>
     (if s = ''portal'' then hook_of_portal (hd (tl k))
      else if s = ''contact'' then length k - 1
      else if s = ''contacts'' then 0 else if s = ''timeline'' then 3 else if s = ''interaction''
      then 4 else if s = ''conversations'' then 5 else if s = ''conversation'' then 6 else if
      s = ''commitments'' then 7 else if s = ''outreach'' then 8 else if s = ''organizations''
      then 9 else if s = ''organization'' then 10 else 99) | _ \<Rightarrow> 99)"

fun crm_no :: "crm_query \<Rightarrow> nat" where
  "crm_no (ContactSearch q e) = 0"
| "crm_no (Contact c) = 1"
| "crm_no (ContactByLegacyId m) = 2"
| "crm_no (ContactTimeline c l) = 3"
| "crm_no (Interaction i) = 4"
| "crm_no (Conversations ps) = 5"
| "crm_no (Conversation c) = 6"
| "crm_no (Commitments ps) = 7"
| "crm_no (Outreach ps) = 8"
| "crm_no (Organizations ps) = 9"
| "crm_no (Organization g) = 10"
| "crm_no (ContactByMemberId m) = 11"
| "crm_no (FullTimeline c) = 12"
| "crm_no (MemberConversations m) = 13"
| "crm_no (EmployerConversations g) = 14"
| "crm_no (PublicConversationInteractions c) = 15"
| "crm_no (AllConversationInteractions c) = 16"
| "crm_no (PortalConversation c) = 17"
| "crm_no (PortalInteraction i) = 18"
| "crm_no (ContactCommitments c) = 19"
| "crm_no (PortalOrganization g) = 20"
| "crm_no PortalOrganizations = 21"

lemma hook_of_key: "hook_of (crm_key q) = crm_no q"
  by (cases q) (simp_all add: hook_of_def hook_of_portal_def)

lemma crm_key_inj:
  assumes "crm_key a = crm_key b"
  shows "case a of
       Conversations ps \<Rightarrow> (\<exists>qs. b = Conversations qs \<and> key_elem (JObj ps) = key_elem (JObj qs))
     | Commitments ps \<Rightarrow> (\<exists>qs. b = Commitments qs \<and> key_elem (JObj ps) = key_elem (JObj qs))
     | Outreach ps \<Rightarrow> (\<exists>qs. b = Outreach qs \<and> key_elem (JObj ps) = key_elem (JObj qs))
     | Organizations ps \<Rightarrow> (\<exists>qs. b = Organizations qs \<and> key_elem (JObj ps) = key_elem (JObj qs))
     | ContactSearch q e \<Rightarrow> (\<exists>e'. b = ContactSearch q e')
     | ContactTimeline c l \<Rightarrow> (\<exists>l'. b = ContactTimeline c l' \<and> jopt jint l = jopt jint l')
     | _ \<Rightarrow> a = b"
proof -
  have no: "crm_no b = crm_no a" using hook_of_key assms by metis
  show ?thesis
    by (insert no, cases a, simp_all, (cases b, simp_all, (insert assms, simp)?)+)
qed

lemma crm_key_call:
  assumes "crm_valid a" "crm_valid b"
    "hash_key (qs_key (crm_spec vite a)) = hash_key (qs_key (crm_spec vite b))"
  shows "qs_call (crm_spec vite a) = qs_call (crm_spec vite b)"
proof -
  have "crm_key a = crm_key b" using assms(3) by (simp add: crm_spec_key)
  note inj = crm_key_inj[OF this]
  show ?thesis
  proof (cases a)
    case (Conversations ps)
    with inj obtain qs where "b = Conversations qs" "key_elem (JObj ps) = key_elem (JObj qs)" by auto
    with Conversations show ?thesis
      using assms(1,2) plain_query_string[of ps qs]
      by (simp add: useConversations_def crmAPI_listConversations_def)
  next
    case (Commitments ps)
    with inj obtain qs where "b = Commitments qs" "key_elem (JObj ps) = key_elem (JObj qs)" by auto
    with Commitments show ?thesis
      using assms(1,2) plain_query_string[of ps qs]
      by (simp add: useCommitments_def crmAPI_listCommitments_def)
  next
    case (Outreach ps)
    with inj obtain qs where "b = Outreach qs" "key_elem (JObj ps) = key_elem (JObj qs)" by auto
    with Outreach show ?thesis
      using assms(1,2) plain_query_string[of ps qs]
      by (simp add: useOutreach_def crmAPI_listOutreach_def)
  next
    case (Organizations ps)
    with inj obtain qs where "b = Organizations qs" "key_elem (JObj ps) = key_elem (JObj qs)" by auto
    with Organizations show ?thesis
      using assms(1,2) plain_query_string[of ps qs]
      by (simp add: useOrganizations_def crmAPI_listOrganizations_def)
  next
    case (ContactSearch q e)
    with inj show ?thesis by (auto simp: useContactSearch_def)
  next
    case (ContactTimeline c l)
    with inj show ?thesis by (auto simp: useContactTimeline_def crmAPI_getContactTimeline_def)
  qed (use inj in simp_all)
qed

interpretation crm: keyed_queries "crm_spec vite" crm_valid for vite
  by unfold_locales (rule crm_key_call)

subsection \<open>Reads\<close>



subsection \<open>Writes\<close>

fun portal_query :: "crm_query \<Rightarrow> bool" where
  "portal_query (ContactByMemberId m) = True"
| "portal_query (FullTimeline c) = True"
| "portal_query (MemberConversations m) = True"
| "portal_query (EmployerConversations g) = True"
| "portal_query (PublicConversationInteractions c) = True"
| "portal_query (AllConversationInteractions c) = True"
| "portal_query (PortalConversation c) = True"
| "portal_query (PortalInteraction i) = True"
| "portal_query (ContactCommitments c) = True"
| "portal_query (PortalOrganization g) = True"
| "portal_query PortalOrganizations = True"
| "portal_query q = False"

lemma portal_prefix:
  "key_prefix [JStr ''crm'', JStr ''portal''] (qs_key (crm_spec vite q)) = portal_query q"
  by (cases q) (simp_all add: key_prefix_code crm_query_defs hash_key_def2)

text \<open>
  Each of the four writes a portal makes (a message, a new conversation, a staff note, a
  structured note) marks as stale what is cached for every portal hook, the other portals' hooks
  included, and leaves every entry of the hooks outside the portal prefix as it was.
\<close>

theorem portal_writes_refresh:
  "list_all (\<lambda>m. cache_read (cache_step (crm_spec vite) crm_valid c (Succeed m)) (crm_spec vite q) =
       (if portal_query q
        then map_option (\<lambda>e. e\<lparr>ce_stale := True\<rparr>) (cache_read c (crm_spec vite q))
        else cache_read c (crm_spec vite q)))
     [useCreatePortalMessage vite dat, useCreateNewConversation vite dat reply,
      useCreateStaffNote vite dat, useCreateStructuredNote vite dat reply]"
  by (simp add: crm.succeed_read refreshes_def portal_prefix option.map_ident
      useCreatePortalMessage_def useCreateNewConversation_def useCreateStaffNote_def
      useCreateStructuredNote_def)

lemma log_call_refreshes:
  "refreshes (useLogCall vite contactId summary) q \<longleftrightarrow>
     contactId \<noteq> [] \<and> key_prefix [JStr ''crm'', JStr ''timeline'', JStr contactId] (qs_key q)
     \<or> key_prefix [JStr ''crm'', JStr ''conversations''] (qs_key q)"
  by (simp add: refreshes_def useLogCall_def useCreateInteraction_def)

text \<open>
  A call logged from the service desk never marks the full timeline of a contact as stale, so
  an entry of \<open>useFullTimeline\<close> that was fresh stays fresh and the call is not seen there, while
  the short timeline of the same contact is marked.
\<close>

theorem log_call_leaves_timeline:
  "cache_read (cache_step (crm_spec vite) crm_valid c (Succeed (useLogCall vite contactId summary)))
     (crm_spec vite (FullTimeline someContact))
   = cache_read c (crm_spec vite (FullTimeline someContact))
   \<and> cache_read (cache_step (crm_spec vite) crm_valid c (Succeed (useLogCall vite contactId summary)))
       (crm_spec vite (ContactTimeline contactId limit))
     = map_option (\<lambda>e. if contactId \<noteq> [] then e\<lparr>ce_stale := True\<rparr> else e)
         (cache_read c (crm_spec vite (ContactTimeline contactId limit)))"
proof -
  have "\<not> refreshes (useLogCall vite contactId summary) (crm_spec vite (FullTimeline someContact))"
    by (simp add: log_call_refreshes useFullTimeline_def key_prefix_code hash_key_def2)
  moreover have "refreshes (useLogCall vite contactId summary)
      (crm_spec vite (ContactTimeline contactId limit)) \<longleftrightarrow> contactId \<noteq> []"
    by (simp add: log_call_refreshes useContactTimeline_def key_prefix_code hash_key_def2)
  ultimately show ?thesis
    by (simp add: crm.succeed_read option.map_ident del: crm_spec.simps)
qed

subsection \<open>The public view\<close>

lemma map_of_upper:
  "map_of kvs ''visibility'' = Some (JStr s) \<Longrightarrow>
   jget (lowercaseEnums (wire (uppercaseEnums (JObj kvs)))) ''visibility'' = JStr (to_lower s)"
proof (induction kvs)
  case (Cons kv kvs)
  obtain k v where kv: "kv = (k, v)" by (cases kv)
  show ?case
  proof (cases "k = ''visibility''")
    case True
    then show ?thesis using Cons.prems kv by (simp add: ENUM_FIELDS_def)
  next
    case False
    then show ?thesis using Cons kv by (cases v) auto
  qed
qed simp

definition posted_visibility :: "mutation_spec \<Rightarrow> json" where
  "posted_visibility m = jget (lowercaseEnums (the (call_body (hd (ms_calls m))))) ''visibility''"

lemma post_visibility:
  assumes "map_of kvs ''visibility'' = Some (JStr s)" "to_lower s = s'"
  shows "jget (lowercaseEnums (the (call_body (Post u (JObj kvs) no_options)))) ''visibility'' = JStr s'"
proof -
  have "the (call_body (Post u (JObj kvs) no_options)) = wire (uppercaseEnums (JObj kvs))"
    by (simp add: call_body_def send_body_def stringify_def no_options_def)
  then show ?thesis using map_of_upper[OF assms(1)] assms(2) by simp
qed

lemma lower_names: "to_lower ''public'' = ''public''" "to_lower ''internal'' = ''internal''"
  by code_simp+

lemma posted_visibilities:
  "posted_visibility (useCreatePortalMessage vite d) = JStr ''public''"
  "posted_visibility (useCreateStaffNote vite d) = JStr ''internal''"
  "posted_visibility (useCreateStructuredNote vite d reply) = JStr ''internal''"
  "posted_visibility (useLogCall vite contactId summary) = JStr ''internal''"
  unfolding posted_visibility_def useCreatePortalMessage_def useCreateStaffNote_def
    useCreateStructuredNote_def useLogCall_def useCreateInteraction_def crmAPI_createInteraction_def
    mutation_specs mutation_spec.simps list.sel
  by (rule post_visibility, simp, rule lower_names)+

text \<open>
  Of what the pages post to a conversation, the public view of it shows the portal messages
  only: the bodies of a portal message, a staff note, a structured note and a logged call, stored
  as they were sent and read back through the client's case conversion, leave the message alone.
\<close>

theorem public_view_shows_messages:
  "public_items (JObj [(''items'', JArr (map (\<lambda>m. lowercaseEnums (the (call_body (hd (ms_calls m)))))
       [useCreatePortalMessage vite d1, useCreateStaffNote vite d2,
        useCreateStructuredNote vite d3 reply, useLogCall vite contactId summary]))])
   = JArr [lowercaseEnums (the (call_body (hd (ms_calls (useCreatePortalMessage vite d1)))))]"
proof -
  have filter1: "public_items (JObj [(''items'', JArr xs)])
      = JArr (filter (\<lambda>i. jget i ''visibility'' = JStr ''public'') xs)" for xs
    by (simp add: public_items_def items_of_def)
  show ?thesis
    unfolding filter1 list.map filter.simps posted_visibility_def[symmetric] posted_visibilities
    by simp
qed

end
