(* ===== verification/CrmLists.thy ===== *)
theory CrmLists imports CrmSummary CrmQueries begin

text \<open>
  The lists of the CRM service as its handlers filter them (src/platform/crm/api/handlers.go and
  db), read by the client's list calls, and what the client makes of the commitments:
  \<open>useCommitmentStats\<close> (src/frontend/src/hooks/useCommitmentStats.ts) and the date texts of
  src/frontend/src/components/CommitmentTrackerCard.tsx. A table is the list of its rows of the
  tenant in the order of the handler's \<open>ORDER BY\<close>.
\<close>

subsection \<open>The handlers\<close>

text \<open>The parameters of an address, as \<open>r.URL.Query()\<close> reads them.\<close>

definition url_params :: "string \<Rightarrow> (string, string) table" where
  "url_params url = parse_query (dropWhile (\<lambda>c. c \<noteq> CHR ''?'') url)"

definition query_get :: "(string, string) table \<Rightarrow> string \<Rightarrow> string" where
  "query_get ps name = coalesce (map_of ps name) []"

text \<open>\<open>strconv.Atoi\<close> on a text with an optional sign.\<close>

definition atoi :: "string \<Rightarrow> int option" where
  "atoi s =
     (case s of
        [] \<Rightarrow> None
      | c # r \<Rightarrow>
          if c = CHR ''-'' then map_option (\<lambda>n. - int n) (digits_of r)
          else if c = CHR ''+'' then map_option int (digits_of r)
          else map_option int (digits_of s))"

definition intParam :: "(string, string) table \<Rightarrow> string \<Rightarrow> int \<Rightarrow> int" where
  "intParam ps name defaultVal = coalesce (atoi (query_get ps name)) defaultVal"

definition Pagination :: "int \<Rightarrow> int \<Rightarrow> int \<Rightarrow> nat \<times> nat" where
  "Pagination limit offset maxLimit =
     (nat (min (if limit \<le> 0 then 25 else limit) maxLimit), nat (max 0 offset))"

type_synonym db_row = "(string, string) table"

definition column :: "db_row \<Rightarrow> string \<Rightarrow> string" where
  "column row c = coalesce (map_of row c) []"

text \<open>A filter on a column for each parameter of the list that is not empty, then the page.\<close>

definition list_rows ::
  "(string \<times> string) list \<Rightarrow> db_row list \<Rightarrow> (string, string) table \<Rightarrow> db_row list" where
  "list_rows filters rows ps =
     (case Pagination (intParam ps ''limit'' 25) (intParam ps ''offset'' 0) 100 of
        (limit, offset) \<Rightarrow>
          take limit (drop offset
            (filter (\<lambda>row. list_all (\<lambda>(p, c). query_get ps p = [] \<or> column row c = query_get ps p) filters)
              rows)))"

definition ListCommitments :: "db_row list \<Rightarrow> (string, string) table \<Rightarrow> db_row list" where
  "ListCommitments = list_rows [(''status'', ''status''), (''owner_agent'', ''owner_agent'')]"

definition ListConversations :: "db_row list \<Rightarrow> (string, string) table \<Rightarrow> db_row list" where
  "ListConversations =
     list_rows [(''status'', ''status''), (''anchor_type'', ''anchor_type''), (''anchor_id'', ''anchor_id'')]"

definition ListOutreach :: "db_row list \<Rightarrow> (string, string) table \<Rightarrow> db_row list" where
  "ListOutreach = list_rows [(''status'', ''status''), (''assigned_agent'', ''assigned_agent'')]"

text \<open>What the schema lets a status be.\<close>

definition COMMITMENT_STATUSES :: "string list" where
  "COMMITMENT_STATUSES = [''PENDING'', ''IN_PROGRESS'', ''FULFILLED'', ''OVERDUE'', ''CANCELLED'']"

lemma url_params_query:
  assumes "CHR ''?'' \<notin> set url"
  shows "url_params (url @ toQueryString ps)
    = map (\<lambda>kv. (fst kv, js_string (snd kv))) (filter (\<lambda>kv. kept_param (snd kv)) ps)"
proof -
  have "dropWhile (\<lambda>c. c \<noteq> CHR ''?'') (toQueryString ps) = toQueryString ps"
    by (simp add: toQueryString_def Let_def)
  moreover have "dropWhile (\<lambda>c. c \<noteq> CHR ''?'') url = []" using assms by auto
  ultimately show ?thesis using parse_toQueryString[of ps] assms
    by (simp add: url_params_def dropWhile_append)
qed

text \<open>Without a parameter the handler reads, a list is the first page of the table.\<close>

lemma list_rows_all:
  assumes "list_all (\<lambda>(p, c). query_get ps p = []) filters"
    and "query_get ps ''limit'' = []" "query_get ps ''offset'' = []"
  shows "list_rows filters rows ps = take 25 rows"
  using assms by (auto simp: list_rows_def intParam_def atoi_def Pagination_def list_all_iff
      split_beta intro!: filter_True)

lemma list_rows_none:
  assumes "(p, c) \<in> set filters" "query_get ps p \<noteq> []"
    and "\<And>row. row \<in> set rows \<Longrightarrow> column row c \<noteq> query_get ps p"
  shows "list_rows filters rows ps = []"
proof -
  have "filter (\<lambda>row. list_all (\<lambda>(p, c). query_get ps p = [] \<or> column row c = query_get ps p) filters) rows = []"
    using assms by (fastforce simp: filter_empty_conv list_all_iff)
  then show ?thesis by (simp add: list_rows_def split: prod.split)
qed

subsection \<open>hooks/useCommitmentStats.ts\<close>

record commitment_stats =
  cs_overdue :: nat
  cs_dueThisWeek :: nat
  cs_upcoming :: nat

definition commitment_stats_query :: "vite_env \<Rightarrow> query_spec" where
  "commitment_stats_query vite = stale_for 60000 (query_of [JStr ''crm'', JStr ''commitments'', JStr ''stats'']
     (crmAPI_listCommitments vite [(''status'', JStr ''pending''), (''limit'', jint 100)]) True)"

text \<open>One week on by the reader's calendar: \<open>setDate(getDate() + 7)\<close>.\<close>

definition week_end :: "time_zone \<Rightarrow> int \<Rightarrow> int" where
  "week_end tz now = tz_utc tz (tz_local tz now + 7 * MS_DAY)"

text \<open>An invalid date compares false with everything and counts as upcoming.\<close>

definition stat_of :: "time_zone \<Rightarrow> int \<Rightarrow> string \<Rightarrow> commitment_stats \<Rightarrow> commitment_stats" where
  "stat_of tz now targetDate n =
     (case getTime tz targetDate of
        None \<Rightarrow> n\<lparr>cs_upcoming := cs_upcoming n + 1\<rparr>
      | Some due \<Rightarrow>
          if due < now then n\<lparr>cs_overdue := cs_overdue n + 1\<rparr>
          else if due \<le> week_end tz now then n\<lparr>cs_dueThisWeek := cs_dueThisWeek n + 1\<rparr>
          else n\<lparr>cs_upcoming := cs_upcoming n + 1\<rparr>)"

definition useCommitmentStats :: "time_zone \<Rightarrow> int \<Rightarrow> string list \<Rightarrow> commitment_stats" where
  "useCommitmentStats tz now targetDates =
     fold (stat_of tz now) targetDates \<lparr>cs_overdue = 0, cs_dueThisWeek = 0, cs_upcoming = 0\<rparr>"

subsection \<open>components/CommitmentTrackerCard.tsx\<close>

datatype date_indicator = Green | Yellow | Red

definition safeParseDate :: "time_zone \<Rightarrow> string option \<Rightarrow> int option" where
  "safeParseDate tz dateStr =
     (case dateStr of
        None \<Rightarrow> None
      | Some d \<Rightarrow>
          if d = [] then None
          else getTime tz (if CHR ''T'' \<in> set d then d else d @ ''T00:00:00''))"

text \<open>Whole days from the start of the reader's day, rounded up.\<close>

definition diffDays :: "time_zone \<Rightarrow> int \<Rightarrow> int \<Rightarrow> int" where
  "diffDays tz now target =
     (let today = tz_utc tz (MS_DAY * local_day tz now) in - ((today - target) div MS_DAY))"

definition getDateIndicator ::
  "time_zone \<Rightarrow> int \<Rightarrow> string \<Rightarrow> commitment_status \<Rightarrow> date_indicator" where
  "getDateIndicator tz now targetDate status =
     (if status = Com_fulfilled \<or> status = Com_cancelled then Green
      else case safeParseDate tz (Some targetDate) of
             None \<Rightarrow> Yellow
           | Some target \<Rightarrow>
               let d = diffDays tz now target in
               if d < 0 then Red else if d \<le> 3 then Yellow else Green)"

definition relativeDateLabel ::
  "time_zone \<Rightarrow> (int \<Rightarrow> string) \<Rightarrow> int \<Rightarrow> string \<Rightarrow> string" where
  "relativeDateLabel tz locale_date now targetDate =
     (case safeParseDate tz (Some targetDate) of
        None \<Rightarrow> ''--''
      | Some target \<Rightarrow>
          let d = diffDays tz now target in
          if d < -1 then int_str \<bar>d\<bar> @ '' days overdue''
          else if d = -1 then ''Yesterday (overdue)''
          else if d = 0 then ''Due today''
          else if d = 1 then ''Due tomorrow''
          else if d \<le> 7 then ''Due in '' @ int_str d @ '' days''
          else locale_date target)"

subsection \<open>What the lists give\<close>

text \<open>
  The dashboard of commitments always shows zero: the query asks for the status "pending" in
  lower case (query strings are not converted), the table holds the statuses of the schema in
  upper case, so whatever commitments there are the list is empty and every count is 0.
\<close>

theorem commitment_stats_always_zero:
  assumes "list_all (\<lambda>row. column row ''status'' \<in> set COMMITMENT_STATUSES) rows"
    and "CHR ''?'' \<notin> set (CRM_URL vite)"
  shows "useCommitmentStats tz now (map (\<lambda>row. column row ''target_date'')
      (ListCommitments rows (url_params (call_url (qs_call (commitment_stats_query vite))))))
    = \<lparr>cs_overdue = 0, cs_dueThisWeek = 0, cs_upcoming = 0\<rparr>"
proof -
  let ?ps = "url_params (call_url (qs_call (commitment_stats_query vite)))"
  have "query_get ?ps ''status'' = ''pending''"
    using assms(2) url_params_query[of "CRM_URL vite @ ''/v1/crm/commitments''"]
    by (simp add: commitment_stats_query_def stale_for_def query_of_def crmAPI_listCommitments_def
        kept_param_def query_get_def)
  moreover have "column row ''status'' \<noteq> ''pending''" if "row \<in> set rows" for row
    using assms(1) that by (auto simp: list_all_iff COMMITMENT_STATUSES_def)
  ultimately have "ListCommitments rows ?ps = []" unfolding ListCommitments_def
    by (intro list_rows_none[of "''status''" "''status''"]) simp_all
  then show ?thesis by (simp add: useCommitmentStats_def)
qed

theorem commitment_stats_always_zero_witness:
  "useCommitmentStats (fixed_zone 0) 0 (map (\<lambda>row. column row ''target_date'')
      (ListCommitments [[(''status'', ''PENDING''), (''target_date'', ''2020-01-01T00:00:00Z'')]]
        (url_params (call_url (qs_call (commitment_stats_query (\<lambda>_. None)))))))
    = \<lparr>cs_overdue = 0, cs_dueThisWeek = 0, cs_upcoming = 0\<rparr>"
  by (rule commitment_stats_always_zero)
    (simp_all add: column_def COMMITMENT_STATUSES_def CRM_URL_def or_str_def)

text \<open>
  The commitments, conversations and outreach the client lists for one contact are everyone's:
  the client names the contact \<open>contactId\<close> and the handlers read no such parameter, so for every
  contact the answer is the first 25 rows of the tenant's table.
\<close>

theorem contact_lists_unfiltered:
  assumes "CHR ''?'' \<notin> set (CRM_URL vite)"
  shows "ListCommitments rows (url_params (call_url (qs_call (useContactCommitments vite contactId))))
      = take 25 rows
    \<and> ListConversations rows (url_params (call_url (qs_call
        (useConversations vite [(''contactId'', JStr contactId)])))) = take 25 rows
    \<and> ListOutreach rows (url_params (call_url (qs_call
        (useOutreach vite [(''contactId'', JStr contactId)])))) = take 25 rows"
proof -
  have ps: "url_params (CRM_URL vite @ path @ toQueryString [(''contactId'', JStr contactId)])
      = (if contactId = [] then [] else [(''contactId'', contactId)])" if "CHR ''?'' \<notin> set path" for path
    using url_params_query[of "CRM_URL vite @ path"] assms that by (simp add: kept_param_def)
  have get: "query_get (if contactId = [] then [] else [(''contactId'', contactId)]) name = []"
    if "name \<noteq> ''contactId''" for name using that by (simp add: query_get_def)
  show ?thesis
    unfolding ListCommitments_def ListConversations_def ListOutreach_def useContactCommitments_def
      useConversations_def useOutreach_def crmAPI_listCommitments_def crmAPI_listConversations_def
      crmAPI_listOutreach_def
    using ps[of "''/v1/crm/commitments''"] ps[of "''/v1/crm/conversations''"] ps[of "''/v1/crm/outreach''"]
    by (simp add: reading_def query_of_def get list_rows_all)
qed

theorem contact_lists_unfiltered_witness:
  "ListCommitments [[(''contact_id'', ''bob'')]]
     (url_params (call_url (qs_call (useContactCommitments (\<lambda>_. None) ''alice''))))
   = [[(''contact_id'', ''bob'')]]"
proof -
  have url: "CHR ''?'' \<notin> set (CRM_URL (\<lambda>_. None))" by (simp add: CRM_URL_def or_str_def)
  have "ListCommitments [[(''contact_id'', ''bob'')]]
      (url_params (call_url (qs_call (useContactCommitments (\<lambda>_. None) ''alice''))))
    = take 25 [[(''contact_id'', ''bob'')]]"
    using contact_lists_unfiltered[OF url, of "[[(''contact_id'', ''bob'')]]" "''alice''"] by (rule conjunct1)
  also have "take 25 [[(''contact_id'', ''bob'')]] = [[(''contact_id'', ''bob'')]]" by simp
  finally show ?thesis .
qed

lemma late_text: "split_zone ''00:00:00ZT23:59:59'' = (''00:00:00ZT23:59:59'', None)"
    "parse_clock ''00:00:00ZT23:59:59'' = None"
    "split_zone ''00:00:00Z'' = (''00:00:00'', Some (Some 0))" "parse_clock ''00:00:00'' = Some 0"
  by (simp_all add: split_zone_def Let_def parse_clock_def two_digits_def digits_of_def)

lemma digest_date_invalid:
  assumes "parse_day d = Some n"
  shows "getTime tz ((d @ ''T00:00:00Z'') @ ''T23:59:59'') = None"
  using parse_day_length[OF assms] late_text by (simp add: getTime_def split: option.split)

lemma service_date:
  "parse_day d = Some n \<Longrightarrow> getTime tz (d @ ''T00:00:00Z'') = Some (MS_DAY * n)"
  using parse_day_length[of d n] late_text by (simp add: getTime_def)

text \<open>
  Of two views of the same open commitment one calls it overdue and the other never does. The
  service writes its date as a time at midnight in UTC. The tracker card marks it red once a whole
  day of the reader's has passed since; the digest appends a second time to the text, reads an
  invalid date, and lists it among the open items without the mark and not among the urgent flags,
  however late it is.
\<close>

theorem digest_misses_overdue:
  assumes date: "parse_day d = Some n" "cm_targetDate c = d @ ''T00:00:00Z''"
    and open_c: "commitment_counts c"
    and late: "MS_DAY * n + MS_DAY \<le> tz_utc tz (MS_DAY * local_day tz now)"
  shows "getDateIndicator tz now (cm_targetDate c) (cm_status c) = Red
    \<and> cm_description c \<in> set (openItems tz now vs (cs @ c # ds))
    \<and> urgentFlags tz now vs (cs @ c # ds) = urgentFlags tz now vs (cs @ ds)"
proof -
  have not_late: "\<not> summary_overdue tz now c"
    using digest_date_invalid[OF date(1)] by (simp add: summary_overdue_def date(2))
  have parsed: "safeParseDate tz (Some (cm_targetDate c)) = Some (MS_DAY * n)"
    using service_date[OF date(1)] by (simp add: safeParseDate_def date(2))
  have "1 \<le> (tz_utc tz (MS_DAY * local_day tz now) - MS_DAY * n) div MS_DAY"
    using zdiv_mono1[of MS_DAY _ MS_DAY] late by (simp add: MS_DAY_def)
  then have "getDateIndicator tz now (cm_targetDate c) (cm_status c) = Red"
    using open_c parsed by (simp add: getDateIndicator_def diffDays_def Let_def commitment_counts_def)
  moreover have "cm_description c \<in> set (openItems tz now vs (cs @ c # ds))"
    using open_c not_late by (simp add: openItems_def)
  moreover have "urgentFlags tz now vs (cs @ c # ds) = urgentFlags tz now vs (cs @ ds)"
    using not_late by (simp add: urgentFlags_def)
  ultimately show ?thesis by blast
qed

definition example_commitment :: commitment where
  "example_commitment =
     \<lparr>cm_commitmentId = ''c1'', cm_tenantId = [], cm_interactionId = ''i1'', cm_contactId = None, cm_conversationId = None,
      cm_description = ''call back'', cm_targetDate = ''2024-03-01T00:00:00Z'', cm_ownerAgent = ''ann'',
      cm_ownerTeam = None, cm_status = Com_pending, cm_fulfilledAt = None,
      cm_fulfilledBy = None, cm_fulfillmentNote = None, cm_alertDaysBefore = 2,
      cm_alertSent = False, cm_createdAt = [], cm_createdBy = [], cm_updatedAt = [], cm_updatedBy = []\<rparr>"

theorem digest_misses_overdue_witness:
  "getDateIndicator (fixed_zone 0) 1712000000000 ''2024-03-01T00:00:00Z'' Com_pending = Red
 \<and> ''call back'' \<in> set (openItems (fixed_zone 0) 1712000000000 [] [example_commitment])
 \<and> urgentFlags (fixed_zone 0) 1712000000000 [] [example_commitment] = []"
proof -
  have date: "parse_day ''2024-03-01'' = Some 19783" by code_simp
  show ?thesis
    using digest_misses_overdue[OF date, of example_commitment "fixed_zone 0" 1712000000000 "[]" "[]" "[]"]
    by (simp add: example_commitment_def commitment_counts_def MS_DAY_def local_day_def fixed_zone_def
        urgentFlags_def)
qed

end
