(* ===== verification/CrmWrites.thy ===== *)
theory CrmWrites imports CrmCache EndpointProps begin

text \<open>
  The writes of the CRM hooks against the enumeration checks of the CRM service
  (src/platform/crm/api/handlers.go): what the client sends, in upper case, and what the service
  accepts.
\<close>

definition required_enum :: "json \<Rightarrow> string \<Rightarrow> string list \<Rightarrow> bool" where
  "required_enum req field allowed =
     (case jget req field of JStr s \<Rightarrow> s \<noteq> [] \<and> validation_Enum s allowed | _ \<Rightarrow> False)"

definition CreateInteraction_enums :: "json \<Rightarrow> bool" where
  "CreateInteraction_enums req \<longleftrightarrow>
     required_enum req ''channel''
       [''PHONE_INBOUND'', ''PHONE_OUTBOUND'', ''SECURE_MESSAGE'', ''EMAIL_INBOUND'',
        ''EMAIL_OUTBOUND'', ''WALK_IN'', ''PORTAL_ACTIVITY'', ''MAIL_INBOUND'', ''MAIL_OUTBOUND'',
        ''INTERNAL_HANDOFF'', ''SYSTEM_EVENT'', ''FAX'']
   \<and> required_enum req ''direction'' [''INBOUND'', ''OUTBOUND'', ''INTERNAL'']"

definition CreateContact_enums :: "json \<Rightarrow> bool" where
  "CreateContact_enums req =
     required_enum req ''contactType'' [''member'', ''beneficiary'', ''alternate_payee'', ''external'']"

definition UpdateConversation_enums :: "json \<Rightarrow> bool" where
  "UpdateConversation_enums req =
     optional_enum req ''status'' [''open'', ''pending'', ''resolved'', ''closed'', ''reopened'']"

definition UpdateCommitment_enums :: "json \<Rightarrow> bool" where
  "UpdateCommitment_enums req =
     optional_enum req ''status''
       [''pending'', ''in_progress'', ''fulfilled'', ''overdue'', ''cancelled'']"

definition UpdateOutreach_enums :: "json \<Rightarrow> bool" where
  "UpdateOutreach_enums req =
     optional_enum req ''status''
       [''pending'', ''assigned'', ''attempted'', ''completed'', ''cancelled'', ''deferred'']"

definition sent_body :: "mutation_spec \<Rightarrow> json" where
  "sent_body m = the (call_body (hd (ms_calls m)))"

lemma body_of_object:
  "the (call_body (Post u (JObj kvs) no_options)) = wire (uppercaseEnums (JObj kvs))"
  "the (call_body (Patch u (JObj kvs) no_options)) = wire (uppercaseEnums (JObj kvs))"
  by (simp_all add: call_body_def send_body_def stringify_def no_options_def)

text \<open>An enum field set to a text, wherever it stands in the object.\<close>

lemma sent_enum:
  "map_of kvs k = Some (JStr s) \<Longrightarrow> k \<in> set ENUM_FIELDS \<Longrightarrow>
   jget (wire (uppercaseEnums (JObj kvs))) k = JStr (to_upper s)"
proof (induction kvs)
  case (Cons kv kvs)
  obtain j v where kv: "kv = (j, v)" by (cases kv)
  show ?case
  proof (cases "j = k")
    case True
    then show ?thesis using Cons.prems kv by simp
  next
    case False
    then show ?thesis using Cons kv by (cases v) auto
  qed
qed simp

lemma more_lower_letters:
  "to_upper_char (CHR ''p'') \<noteq> CHR ''p''" "to_upper_char (CHR ''i'') \<noteq> CHR ''i''"
  "to_upper_char (CHR ''m'') \<noteq> CHR ''m''" "to_upper_char (CHR ''b'') \<noteq> CHR ''b''"
  "to_upper_char (CHR ''e'') \<noteq> CHR ''e''"
  by (simp_all add: to_upper_char_def char_of_def)

lemmas never_lower = more_lower_letters[THEN to_upper_not_lower]

lemma interaction_uppers:
  "to_upper ''secure_message'' = ''SECURE_MESSAGE''" "to_upper ''internal_handoff'' = ''INTERNAL_HANDOFF''"
  "to_upper ''phone_inbound'' = ''PHONE_INBOUND''" "to_upper ''inbound'' = ''INBOUND''"
  "to_upper ''internal'' = ''INTERNAL''" "to_upper ''outbound'' = ''OUTBOUND''"
  by code_simp+

lemma enum_names: "''channel'' \<in> set ENUM_FIELDS" "''direction'' \<in> set ENUM_FIELDS"
  "''status'' \<in> set ENUM_FIELDS" "''contactType'' \<in> set ENUM_FIELDS"
  by (simp_all add: ENUM_FIELDS_def)

lemma interaction_accepted:
  assumes "map_of kvs ''channel'' = Some (JStr c)" "map_of kvs ''direction'' = Some (JStr d)"
    "to_upper c \<in> {''SECURE_MESSAGE'', ''INTERNAL_HANDOFF'', ''PHONE_INBOUND''}"
    "to_upper d \<in> {''INBOUND'', ''OUTBOUND'', ''INTERNAL''}"
  shows "CreateInteraction_enums (the (call_body (Post u (JObj kvs) no_options)))"
  using sent_enum[OF assms(1) enum_names(1)] sent_enum[OF assms(2) enum_names(2)] assms(3,4)
  unfolding body_of_object CreateInteraction_enums_def required_enum_def validation_Enum_def by auto

text \<open>
  The CRM service accepts the interactions the pages create (a portal message in either
  direction, a staff note, a structured note, a logged call), whose enumerations it checks in
  upper case, and refuses every status the update hooks of conversations, commitments and outreach
  send and every contact type of a new contact, which it checks in lower case.
\<close>

theorem crm_writes_accepted_and_refused:
  "CreateInteraction_enums (sent_body (useCreatePortalMessage vite
       (JObj [(''direction'', JStr (if inbound then ''inbound'' else ''outbound'')), (''content'', content)])))
 \<and> CreateInteraction_enums (sent_body (useCreateStaffNote vite d))
 \<and> CreateInteraction_enums (sent_body (useCreateStructuredNote vite d reply))
 \<and> CreateInteraction_enums (sent_body (useLogCall vite contactId summary))
 \<and> \<not> UpdateConversation_enums (sent_body (useUpdateConversation vite i (JObj [(''status'', JStr s)])))
 \<and> \<not> UpdateCommitment_enums (sent_body (useUpdateCommitment vite i (JObj [(''status'', JStr s)])))
 \<and> \<not> UpdateOutreach_enums (sent_body (useUpdateOutreach vite i (JObj [(''status'', JStr s)])))
 \<and> \<not> CreateContact_enums (sent_body (useCreateContact vite (JObj [(''contactType'', JStr s), (''firstName'', f)])))"
  (is "?a \<and> ?b \<and> ?c \<and> ?d \<and> ?e \<and> ?f \<and> ?g \<and> ?h")
proof (intro conjI)
  show ?a
    unfolding sent_body_def useCreatePortalMessage_def mutation_specs list.sel crmAPI_createInteraction_def
    by (rule interaction_accepted[of _ "''secure_message''" "if inbound then ''inbound'' else ''outbound''"])
      (simp_all add: interaction_uppers)
  show ?b
    unfolding sent_body_def useCreateStaffNote_def mutation_specs list.sel crmAPI_createInteraction_def
    by (rule interaction_accepted[of _ "''internal_handoff''" "''internal''"])
      (simp_all add: interaction_uppers)
  show ?c
    unfolding sent_body_def useCreateStructuredNote_def mutation_spec.simps list.sel
      crmAPI_createInteraction_def
    by (rule interaction_accepted[of _ "''internal_handoff''" "''internal''"])
      (simp_all add: interaction_uppers)
  show ?d
    unfolding sent_body_def useLogCall_def useCreateInteraction_def mutation_spec.simps list.sel
      crmAPI_createInteraction_def
    by (rule interaction_accepted[of _ "''phone_inbound''" "''inbound''"])
      (simp_all add: interaction_uppers)
  have status: "jget (wire (uppercaseEnums (JObj [(''status'', JStr s)]))) ''status'' = JStr (to_upper s)"
    by (rule sent_enum[OF _ enum_names(3)]) simp
  show ?e
    unfolding sent_body_def useUpdateConversation_def mutation_specs list.sel
      crmAPI_updateConversation_def body_of_object UpdateConversation_enums_def optional_enum_def status
    by (simp add: validation_Enum_def never_lower)
  show ?f
    unfolding sent_body_def useUpdateCommitment_def mutation_specs list.sel
      crmAPI_updateCommitment_def body_of_object UpdateCommitment_enums_def optional_enum_def status
    by (simp add: validation_Enum_def never_lower)
  show ?g
    unfolding sent_body_def useUpdateOutreach_def mutation_specs list.sel
      crmAPI_updateOutreach_def body_of_object UpdateOutreach_enums_def optional_enum_def status
    by (simp add: validation_Enum_def never_lower)
  have "jget (wire (uppercaseEnums (JObj [(''contactType'', JStr s), (''firstName'', f)]))) ''contactType''
      = JStr (to_upper s)"
    by (rule sent_enum[OF _ enum_names(4)]) simp
  then show ?h
    unfolding sent_body_def useCreateContact_def mutation_specs list.sel
      crmAPI_createContact_def body_of_object CreateContact_enums_def required_enum_def
    by (simp add: validation_Enum_def never_lower)
qed

end
