(* ===== verification/EmployerQueries.thy ===== *)
theory EmployerQueries imports QueryCache EmployerApi CrmApi begin

text \<open>
  The employer portal's data hooks, src/frontend/src/hooks/useEmployer*.ts (the alert list built
  by \<open>useEmployerAlerts\<close> of useEmployerOps.ts is in theory EmployerAlerts).
\<close>

subsection \<open>hooks/useEmployerEnrollment.ts\<close>

definition useEnrollmentSubmissions :: "string \<Rightarrow> string option \<Rightarrow> query_spec" where
  "useEnrollmentSubmissions orgId status =
     query_of [JStr ''enrollment'', JStr ''submissions'', JStr orgId, JStr (coalesce status [])]
       (employerEnrollmentAPI_listSubmissions orgId status None None)
       (orgId \<noteq> [])"

definition useEnrollmentSubmission :: "string \<Rightarrow> query_spec" where
  "useEnrollmentSubmission ident =
     query_of [JStr ''enrollment'', JStr ''submission'', JStr ident]
       (employerEnrollmentAPI_getSubmission ident)
       (ident \<noteq> [])"

definition usePendingDuplicates :: "string \<Rightarrow> query_spec" where
  "usePendingDuplicates orgId =
     query_of [JStr ''enrollment'', JStr ''duplicates'', JStr orgId]
       (employerEnrollmentAPI_listPendingDuplicates orgId None None)
       (orgId \<noteq> [])"

definition useSubmissionDuplicates :: "string \<Rightarrow> query_spec" where
  "useSubmissionDuplicates submissionId =
     query_of [JStr ''enrollment'', JStr ''submission-duplicates'', JStr submissionId]
       (employerEnrollmentAPI_listSubmissionDuplicates submissionId)
       (submissionId \<noteq> [])"

definition usePERAChoicePending :: "string \<Rightarrow> query_spec" where
  "usePERAChoicePending orgId =
     query_of [JStr ''enrollment'', JStr ''perachoice'', JStr orgId]
       (employerEnrollmentAPI_listPERAChoicePending orgId None None)
       (orgId \<noteq> [])"

definition usePERAChoiceElection :: "string \<Rightarrow> query_spec" where
  "usePERAChoiceElection ident =
     query_of [JStr ''enrollment'', JStr ''perachoice-election'', JStr ident]
       (employerEnrollmentAPI_getPERAChoiceElection ident)
       (ident \<noteq> [])"

definition useCreateEnrollment :: "json \<Rightarrow> mutation_spec" where
  "useCreateEnrollment dat =
     mutation_of (employerEnrollmentAPI_createSubmission dat)
       [[JStr ''enrollment'', JStr ''submissions'']]"

definition useSubmitForValidation :: "string \<Rightarrow> mutation_spec" where
  "useSubmitForValidation ident =
     mutation_of (employerEnrollmentAPI_submitForValidation ident)
       [[JStr ''enrollment'']]"

definition useApproveSubmission :: "string \<Rightarrow> mutation_spec" where
  "useApproveSubmission ident =
     mutation_of (employerEnrollmentAPI_approveSubmission ident)
       [[JStr ''enrollment'']]"

definition useRejectSubmission :: "string \<Rightarrow> string \<Rightarrow> mutation_spec" where
  "useRejectSubmission ident reason =
     mutation_of (employerEnrollmentAPI_rejectSubmission ident reason)
       [[JStr ''enrollment'']]"

definition useResolveDuplicate :: "string \<Rightarrow> string \<Rightarrow> string \<Rightarrow> mutation_spec" where
  "useResolveDuplicate ident resolution note =
     mutation_of (employerEnrollmentAPI_resolveDuplicate ident resolution note)
       [[JStr ''enrollment'', JStr ''duplicates''],
        [JStr ''enrollment'', JStr ''submissions'']]"

definition useElectPERAChoice :: "string \<Rightarrow> string \<Rightarrow> mutation_spec" where
  "useElectPERAChoice ident plan =
     mutation_of (employerEnrollmentAPI_electPERAChoice ident plan)
       [[JStr ''enrollment'', JStr ''perachoice'']]"

subsection \<open>hooks/useEmployerPortal.ts\<close>

definition usePortalUsers :: "string \<Rightarrow> query_spec" where
  "usePortalUsers orgId =
     query_of [JStr ''employer'', JStr ''users'', JStr orgId]
       (employerPortalAPI_listUsers orgId None None)
       (orgId \<noteq> [])"

definition useEmployerDashboard :: "string \<Rightarrow> query_spec" where
  "useEmployerDashboard orgId =
     query_of [JStr ''employer'', JStr ''dashboard'', JStr orgId]
       (employerPortalAPI_getDashboard orgId)
       (orgId \<noteq> [])"

definition useEmployerAlerts :: "string option \<Rightarrow> query_spec" where
  "useEmployerAlerts orgId =
     query_of [JStr ''employer'', JStr ''alerts'', JStr (coalesce orgId [])]
       (employerPortalAPI_listAlerts orgId) True"

definition useRateTables :: "string option \<Rightarrow> bool option \<Rightarrow> query_spec" where
  "useRateTables divisionCode isSafetyOfficer =
     query_of [JStr ''employer'', JStr ''rate-tables'', JStr (coalesce divisionCode []), (case
         isSafetyOfficer of None \<Rightarrow> JStr [] | Some v \<Rightarrow> JBool v)]
       (employerPortalAPI_listRateTables divisionCode isSafetyOfficer) True"

definition useCurrentRate :: "string \<Rightarrow> bool \<Rightarrow> query_spec" where
  "useCurrentRate divisionCode isSafetyOfficer =
     query_of [JStr ''employer'', JStr ''rate-tables'', JStr ''current'', JStr divisionCode,
         JBool isSafetyOfficer]
       (employerPortalAPI_getCurrentRate divisionCode isSafetyOfficer)
       (divisionCode \<noteq> [])"

definition useDivisions :: query_spec where
  "useDivisions =
     query_of [JStr ''employer'', JStr ''divisions'']
       (employerPortalAPI_listDivisions) True"

definition useCreatePortalUser :: "json \<Rightarrow> mutation_spec" where
  "useCreatePortalUser dat =
     mutation_of (employerPortalAPI_createUser dat)
       [[JStr ''employer'', JStr ''users'', jget dat ''orgId'']]"

definition useUpdatePortalUserRole :: "string \<Rightarrow> string \<Rightarrow> mutation_spec" where
  "useUpdatePortalUserRole ident role =
     mutation_of (employerPortalAPI_updateRole ident role)
       [[JStr ''employer'', JStr ''users'']]"

definition useDeactivatePortalUser :: "string \<Rightarrow> mutation_spec" where
  "useDeactivatePortalUser ident =
     mutation_of (employerPortalAPI_deactivateUser ident)
       [[JStr ''employer'', JStr ''users'']]"

definition useCreateAlert :: "json \<Rightarrow> mutation_spec" where
  "useCreateAlert dat =
     mutation_of (employerPortalAPI_createAlert dat)
       [[JStr ''employer'', JStr ''alerts''],
        [JStr ''employer'', JStr ''dashboard'']]"

subsection \<open>hooks/useEmployerReporting.ts\<close>

definition useContributionFiles :: "string \<Rightarrow> query_spec" where
  "useContributionFiles orgId =
     query_of [JStr ''reporting'', JStr ''files'', JStr orgId]
       (employerReportingAPI_listFiles orgId None None)
       (orgId \<noteq> [])"

definition useContributionFile :: "string \<Rightarrow> query_spec" where
  "useContributionFile fileId =
     query_of [JStr ''reporting'', JStr ''file'', JStr fileId]
       (employerReportingAPI_getFile fileId)
       (fileId \<noteq> [])"

definition useContributionRecords :: "string \<Rightarrow> int option \<Rightarrow> int option \<Rightarrow> query_spec" where
  "useContributionRecords fileId limit offset =
     query_of [JStr ''reporting'', JStr ''records'', JStr fileId, jint (coalesce limit 50), jint
         (coalesce offset 0)]
       (employerReportingAPI_getRecords fileId (Some (coalesce limit 50)) (Some (coalesce offset
         0)))
       (fileId \<noteq> [])"

definition useExceptions_reporting :: "string \<Rightarrow> string option \<Rightarrow> query_spec" where
  "useExceptions_reporting orgId status =
     query_of [JStr ''reporting'', JStr ''exceptions'', JStr orgId, JStr (coalesce status [])]
       (employerReportingAPI_listExceptions orgId status None None)
       (orgId \<noteq> [])"

definition useException :: "string \<Rightarrow> query_spec" where
  "useException ident =
     query_of [JStr ''reporting'', JStr ''exception'', JStr ident]
       (employerReportingAPI_getException ident)
       (ident \<noteq> [])"

definition usePayments_reporting :: "string \<Rightarrow> query_spec" where
  "usePayments_reporting orgId =
     query_of [JStr ''reporting'', JStr ''payments'', JStr orgId]
       (employerReportingAPI_listPayments orgId None None)
       (orgId \<noteq> [])"

definition useLateInterest :: "string \<Rightarrow> query_spec" where
  "useLateInterest orgId =
     query_of [JStr ''reporting'', JStr ''interest'', JStr orgId]
       (employerReportingAPI_getInterest orgId)
       (orgId \<noteq> [])"

definition useUploadManualEntry :: "json \<Rightarrow> mutation_spec" where
  "useUploadManualEntry dat =
     mutation_of (employerReportingAPI_submitManualEntry dat)
       [[JStr ''reporting'', JStr ''files'']]"

definition useDeleteFile :: "string \<Rightarrow> mutation_spec" where
  "useDeleteFile fileId =
     mutation_of (employerReportingAPI_deleteFile fileId)
       [[JStr ''reporting'', JStr ''files'']]"

definition useResolveException :: "string \<Rightarrow> string \<Rightarrow> mutation_spec" where
  "useResolveException ident note =
     mutation_of (employerReportingAPI_resolveException ident note)
       [[JStr ''reporting'', JStr ''exceptions'']]"

definition useEscalateException :: "string \<Rightarrow> mutation_spec" where
  "useEscalateException ident =
     mutation_of (employerReportingAPI_escalateException ident)
       [[JStr ''reporting'', JStr ''exceptions'']]"

definition useSetupPayment :: "string \<Rightarrow> string \<Rightarrow> mutation_spec" where
  "useSetupPayment fileId meth =
     mutation_of (employerReportingAPI_setupPayment fileId meth)
       [[JStr ''reporting'', JStr ''payments''],
        [JStr ''reporting'', JStr ''files'']]"

definition useCancelPayment :: "string \<Rightarrow> mutation_spec" where
  "useCancelPayment paymentId =
     mutation_of (employerReportingAPI_cancelPayment paymentId)
       [[JStr ''reporting'', JStr ''payments'']]"

definition useSubmitCorrection :: "json \<Rightarrow> mutation_spec" where
  "useSubmitCorrection dat =
     mutation_of (employerReportingAPI_submitCorrection dat)
       [[JStr ''reporting'', JStr ''files'']]"

subsection \<open>hooks/useEmployerScp.ts\<close>

definition useCostFactors :: "string option \<Rightarrow> query_spec" where
  "useCostFactors tier =
     query_of [JStr ''scp'', JStr ''cost-factors'', JStr (coalesce tier [])]
       (employerScpAPI_listCostFactors tier None None None) True"

definition useSCPRequest :: "string \<Rightarrow> query_spec" where
  "useSCPRequest ident =
     query_of [JStr ''scp'', JStr ''request'', JStr ident]
       (employerScpAPI_getRequest ident)
       (ident \<noteq> [])"

definition useSCPRequests :: "string \<Rightarrow> string option \<Rightarrow> query_spec" where
  "useSCPRequests orgId status =
     query_of [JStr ''scp'', JStr ''requests'', JStr orgId, JStr (coalesce status [])]
       (employerScpAPI_listRequests orgId status None None)
       (orgId \<noteq> [])"

definition useEligibilityCheck :: "string \<Rightarrow> string \<Rightarrow> query_spec" where
  "useEligibilityCheck serviceType tier =
     query_of [JStr ''scp'', JStr ''eligibility'', JStr serviceType, JStr tier]
       (employerScpAPI_checkEligibility serviceType tier)
       (serviceType \<noteq> [] \<and> tier \<noteq> [])"

definition useCreateSCPRequest :: "json \<Rightarrow> mutation_spec" where
  "useCreateSCPRequest dat =
     mutation_of (employerScpAPI_createRequest dat)
       [[JStr ''scp'', JStr ''requests'']]"

definition useGenerateQuote :: "json \<Rightarrow> mutation_spec" where
  "useGenerateQuote dat =
     mutation_of (employerScpAPI_generateQuote dat)
       []"

definition useApplyQuote :: "string \<Rightarrow> json \<Rightarrow> mutation_spec" where
  "useApplyQuote ident dat =
     mutation_of (employerScpAPI_applyQuote ident dat)
       [[JStr ''scp'']]"

definition useSubmitDocumentation :: "string \<Rightarrow> mutation_spec" where
  "useSubmitDocumentation ident =
     mutation_of (employerScpAPI_submitDocumentation ident)
       [[JStr ''scp'']]"

definition useApproveSCPRequest :: "string \<Rightarrow> mutation_spec" where
  "useApproveSCPRequest ident =
     mutation_of (employerScpAPI_approveRequest ident)
       [[JStr ''scp'']]"

definition useDenySCPRequest :: "string \<Rightarrow> string \<Rightarrow> mutation_spec" where
  "useDenySCPRequest ident reason =
     mutation_of (employerScpAPI_denyRequest ident reason)
       [[JStr ''scp'']]"

definition useRecordPayment :: "string \<Rightarrow> string \<Rightarrow> string \<Rightarrow> mutation_spec" where
  "useRecordPayment ident amount paymentMethod =
     mutation_of (employerScpAPI_recordPayment ident amount paymentMethod)
       [[JStr ''scp'']]"

definition useCancelSCPRequest :: "string \<Rightarrow> mutation_spec" where
  "useCancelSCPRequest ident =
     mutation_of (employerScpAPI_cancelRequest ident)
       [[JStr ''scp'']]"

subsection \<open>hooks/useEmployerTerminations.ts\<close>

definition useCertifications_terminations :: "string \<Rightarrow> string option \<Rightarrow> query_spec" where
  "useCertifications_terminations orgId status =
     query_of [JStr ''terminations'', JStr ''certifications'', JStr orgId, JStr (coalesce status
         [])]
       (employerTerminationsAPI_listCertifications orgId status None None)
       (orgId \<noteq> [])"

definition useCertification_terminations :: "string \<Rightarrow> query_spec" where
  "useCertification_terminations ident =
     query_of [JStr ''terminations'', JStr ''certification'', JStr ident]
       (employerTerminationsAPI_getCertification ident)
       (ident \<noteq> [])"

definition useCertificationHolds :: "string \<Rightarrow> string option \<Rightarrow> query_spec" where
  "useCertificationHolds orgId status =
     query_of [JStr ''terminations'', JStr ''holds'', JStr orgId, JStr (coalesce status [])]
       (employerTerminationsAPI_listHolds orgId status None None)
       (orgId \<noteq> [])"

definition useCertificationHold :: "string \<Rightarrow> query_spec" where
  "useCertificationHold ident =
     query_of [JStr ''terminations'', JStr ''hold'', JStr ident]
       (employerTerminationsAPI_getHold ident)
       (ident \<noteq> [])"

definition useRefundApplication :: "string \<Rightarrow> query_spec" where
  "useRefundApplication ident =
     query_of [JStr ''terminations'', JStr ''refund'', JStr ident]
       (employerTerminationsAPI_getRefund ident)
       (ident \<noteq> [])"

definition useRefundEligibility :: "string \<Rightarrow> query_spec" where
  "useRefundEligibility ident =
     query_of [JStr ''terminations'', JStr ''eligibility'', JStr ident]
       (employerTerminationsAPI_checkEligibility ident)
       (ident \<noteq> [])"

definition useCreateCertification_terminations :: "json \<Rightarrow> mutation_spec" where
  "useCreateCertification_terminations dat =
     mutation_of (employerTerminationsAPI_createCertification dat)
       [[JStr ''terminations'', JStr ''certifications'']]"

definition useVerifyCertification :: "string \<Rightarrow> mutation_spec" where
  "useVerifyCertification ident =
     mutation_of (employerTerminationsAPI_verifyCertification ident)
       [[JStr ''terminations'', JStr ''certifications''],
        [JStr ''terminations'', JStr ''holds'']]"

definition useRejectCertification :: "string \<Rightarrow> string \<Rightarrow> mutation_spec" where
  "useRejectCertification ident reason =
     mutation_of (employerTerminationsAPI_rejectCertification ident reason)
       [[JStr ''terminations'', JStr ''certifications'']]"

definition useResolveHold :: "string \<Rightarrow> string \<Rightarrow> string \<Rightarrow> mutation_spec" where
  "useResolveHold ident certificationId note =
     mutation_of (employerTerminationsAPI_resolveHold ident certificationId note)
       [[JStr ''terminations'', JStr ''holds'']]"

definition useEscalateHold :: "string \<Rightarrow> mutation_spec" where
  "useEscalateHold ident =
     mutation_of (employerTerminationsAPI_escalateHold ident)
       [[JStr ''terminations'', JStr ''holds'']]"

definition useCreateRefund :: "json \<Rightarrow> mutation_spec" where
  "useCreateRefund dat =
     mutation_of (employerTerminationsAPI_createRefund dat)
       [[JStr ''terminations'', JStr ''refunds'']]"

definition useCalculateRefund :: "string \<Rightarrow> string \<Rightarrow> string option \<Rightarrow> mutation_spec" where
  "useCalculateRefund ident interestRatePercent droDeduction =
     mutation_of (employerTerminationsAPI_calculateRefund ident interestRatePercent droDeduction)
       [[JStr ''terminations'', JStr ''refund'']]"

definition useSetupRefundPayment :: "string \<Rightarrow> json \<Rightarrow> mutation_spec" where
  "useSetupRefundPayment ident dat =
     mutation_of (employerTerminationsAPI_setupPayment ident dat)
       [[JStr ''terminations'', JStr ''refund'']]"

subsection \<open>hooks/useEmployerWaret.ts\<close>

definition useDesignations :: "string \<Rightarrow> int option \<Rightarrow> string option \<Rightarrow> query_spec" where
  "useDesignations orgId year status =
     query_of [JStr ''waret'', JStr ''designations'', JStr orgId, (case year of
         None \<Rightarrow> JStr [] | Some v \<Rightarrow> jint v), JStr (coalesce status [])]
       (employerWaretAPI_listDesignations orgId year status None None)
       (orgId \<noteq> [])"

definition useDesignation :: "string \<Rightarrow> query_spec" where
  "useDesignation ident =
     query_of [JStr ''waret'', JStr ''designation'', JStr ident]
       (employerWaretAPI_getDesignation ident)
       (ident \<noteq> [])"

definition useWaretTracking :: "string \<Rightarrow> query_spec" where
  "useWaretTracking designationId =
     query_of [JStr ''waret'', JStr ''tracking'', JStr designationId]
       (employerWaretAPI_listTracking designationId None None)
       (designationId \<noteq> [])"

definition useYTDSummary :: "string \<Rightarrow> query_spec" where
  "useYTDSummary designationId =
     query_of [JStr ''waret'', JStr ''summary'', JStr designationId]
       (employerWaretAPI_getYTDSummary designationId)
       (designationId \<noteq> [])"

definition useWaretPenalties :: "string \<Rightarrow> query_spec" where
  "useWaretPenalties designationId =
     query_of [JStr ''waret'', JStr ''penalties'', JStr designationId]
       (employerWaretAPI_listPenalties designationId None None)
       (designationId \<noteq> [])"

definition useWaretDisclosures :: "string \<Rightarrow> int option \<Rightarrow> query_spec" where
  "useWaretDisclosures ssnHash year =
     query_of [JStr ''waret'', JStr ''disclosures'', JStr ssnHash, (case year of
         None \<Rightarrow> JStr [] | Some v \<Rightarrow> jint v)]
       (employerWaretAPI_listDisclosures ssnHash year None None)
       (ssnHash \<noteq> [])"

definition useCreateDesignation :: "json \<Rightarrow> mutation_spec" where
  "useCreateDesignation dat =
     mutation_of (employerWaretAPI_createDesignation dat)
       [[JStr ''waret'', JStr ''designations'']]"

definition useApproveDesignation :: "string \<Rightarrow> mutation_spec" where
  "useApproveDesignation ident =
     mutation_of (employerWaretAPI_approveDesignation ident)
       [[JStr ''waret'', JStr ''designations''],
        [JStr ''waret'', JStr ''designation'']]"

definition useRevokeDesignation :: "string \<Rightarrow> string \<Rightarrow> mutation_spec" where
  "useRevokeDesignation ident reason =
     mutation_of (employerWaretAPI_revokeDesignation ident reason)
       [[JStr ''waret'', JStr ''designations''],
        [JStr ''waret'', JStr ''designation'']]"

definition useRecordWorkDay :: "json \<Rightarrow> mutation_spec" where
  "useRecordWorkDay dat =
     mutation_of (employerWaretAPI_recordWorkDay dat)
       [[JStr ''waret'', JStr ''tracking''],
        [JStr ''waret'', JStr ''summary'']]"

definition useAssessPenalty :: "json \<Rightarrow> mutation_spec" where
  "useAssessPenalty dat =
     mutation_of (employerWaretAPI_assessPenalty dat)
       [[JStr ''waret'', JStr ''penalties'']]"

definition useAppealPenalty :: "string \<Rightarrow> string \<Rightarrow> mutation_spec" where
  "useAppealPenalty ident note =
     mutation_of (employerWaretAPI_appealPenalty ident note)
       [[JStr ''waret'', JStr ''penalties'']]"

definition useWaivePenalty :: "string \<Rightarrow> string \<Rightarrow> mutation_spec" where
  "useWaivePenalty ident reason =
     mutation_of (employerWaretAPI_waivePenalty ident reason)
       [[JStr ''waret'', JStr ''penalties'']]"

definition useCreateDisclosure :: "json \<Rightarrow> mutation_spec" where
  "useCreateDisclosure dat =
     mutation_of (employerWaretAPI_createDisclosure dat)
       [[JStr ''waret'', JStr ''disclosures'']]"

definition useCheckPERACare :: "string \<Rightarrow> bool \<Rightarrow> mutation_spec" where
  "useCheckPERACare ident hasActiveSubsidy =
     mutation_of (employerWaretAPI_checkPERACare ident hasActiveSubsidy)
       [[JStr ''waret'', JStr ''designation'']]"

definition useResolvePERACare :: "string \<Rightarrow> mutation_spec" where
  "useResolvePERACare ident =
     mutation_of (employerWaretAPI_resolvePERACare ident)
       [[JStr ''waret'', JStr ''designation'']]"

subsection \<open>hooks/useEmployerOps.ts\<close>

definition useEmployerRoster :: "string \<Rightarrow> int option \<Rightarrow> int option \<Rightarrow> query_spec" where
  "useEmployerRoster orgId limit offset =
     query_of [JStr ''employer-ops'', JStr ''roster'', JStr orgId, jopt jint limit, jopt jint
         offset]
       (fetchEmployerRoster orgId (Some [(''limit'', jopt jint limit), (''offset'', jopt jint
         offset)]))
       (orgId \<noteq> [])"

definition useEmployerMemberSummary :: "string \<Rightarrow> query_spec" where
  "useEmployerMemberSummary orgId =
     query_of [JStr ''employer-ops'', JStr ''member-summary'', JStr orgId]
       (fetchEmployerMemberSummary orgId)
       (orgId \<noteq> [])"

definition useEmployerDQScore :: "string \<Rightarrow> query_spec" where
  "useEmployerDQScore orgId =
     query_of [JStr ''employer-ops'', JStr ''dq-score'', JStr orgId]
       (fetchEmployerDQScore orgId)
       (orgId \<noteq> [])"

definition useEmployerDQIssues :: "string \<Rightarrow> fields option \<Rightarrow> query_spec" where
  "useEmployerDQIssues orgId opts =
     query_of [JStr ''employer-ops'', JStr ''dq-issues'', JStr orgId, jopt JObj opts]
       (fetchEmployerDQIssues orgId opts)
       (orgId \<noteq> [])"

definition useEmployerDQChecks :: "string \<Rightarrow> query_spec" where
  "useEmployerDQChecks orgId =
     query_of [JStr ''employer-ops'', JStr ''dq-checks'', JStr orgId]
       (fetchEmployerDQChecks orgId None)
       (orgId \<noteq> [])"

definition useOrgInteractions :: "string \<Rightarrow> string option \<Rightarrow> query_spec" where
  "useOrgInteractions orgId category =
     query_of [JStr ''employer-ops'', JStr ''interactions'', JStr orgId, jopt JStr category]
       (fetchOrgInteractions orgId (Some [(''category'', jopt JStr category)]))
       (orgId \<noteq> [])"

definition useOrgContacts :: "string \<Rightarrow> query_spec" where
  "useOrgContacts orgId =
     query_of [JStr ''employer-ops'', JStr ''contacts'', JStr orgId]
       (fetchOrgContacts orgId None)
       (orgId \<noteq> [])"

definition useEmployerTemplates :: query_spec where
  "useEmployerTemplates =
     query_of [JStr ''employer-ops'', JStr ''templates'']
       (fetchEmployerTemplates None) True"

definition useEmployerCases :: "string \<Rightarrow> query_spec" where
  "useEmployerCases orgId =
     query_of [JStr ''employer-ops'', JStr ''cases'', JStr orgId]
       (fetchEmployerCases orgId None)
       (orgId \<noteq> [])"

definition useEmployerCaseSummary :: "string \<Rightarrow> query_spec" where
  "useEmployerCaseSummary orgId =
     query_of [JStr ''employer-ops'', JStr ''case-summary'', JStr orgId]
       (fetchEmployerCaseSummary orgId)
       (orgId \<noteq> [])"

definition useCreateEmployerInteraction :: "json \<Rightarrow> mutation_spec" where
  "useCreateEmployerInteraction vars =
     mutation_of (createEmployerInteraction vars)
       [[JStr ''employer-ops'', JStr ''interactions'', jget vars ''orgId'']]"

definition useGenerateEmployerLetter :: "json \<Rightarrow> mutation_spec" where
  "useGenerateEmployerLetter vars =
     mutation_of (generateEmployerLetter vars)
       [[JStr ''employer-ops'', JStr ''templates'']]"

definition useCreateEmployerCase :: "json \<Rightarrow> mutation_spec" where
  "useCreateEmployerCase vars =
     mutation_of (createEmployerCase vars)
       [[JStr ''employer-ops'', JStr ''cases'', jget vars ''employerOrgId''],
        [JStr ''employer-ops'', JStr ''case-summary'', jget vars ''employerOrgId'']]"

end
