(* ===== verification/EmployerAlerts.thy ===== *)
theory EmployerAlerts imports JsSort EmployerQueries begin

text \<open>
  The alert list of the employer desk: \<open>useEmployerAlerts\<close> of src/frontend/src/hooks/useEmployerOps.ts
  with the thresholds of lib/employerOpsConfig.ts. The score and the case summary of each employer
  are the data of its two queries, \<open>None\<close> while they are not loaded. A score is a real with the
  text \<open>num_text\<close> gives it; \<open>to_number\<close> is \<open>Number\<close> on the texts of the build-time environment;
  \<open>collate\<close> is the collation of \<open>localeCompare\<close>.
\<close>

record ops_thresholds =
  ot_dqScoreCritical :: number
  ot_dqScoreWarning :: number
  ot_slaOverdueWarning :: number
  ot_caseVolumeWarning :: number

definition OPS_THRESHOLDS :: "(string \<Rightarrow> number) \<Rightarrow> vite_env \<Rightarrow> ops_thresholds" where
  "OPS_THRESHOLDS to_number vite =
     \<lparr>ot_dqScoreCritical = coalesce (map_option to_number (vite ''VITE_DQ_SCORE_CRITICAL'')) 60,
      ot_dqScoreWarning = coalesce (map_option to_number (vite ''VITE_DQ_SCORE_WARNING'')) 80,
      ot_slaOverdueWarning = coalesce (map_option to_number (vite ''VITE_SLA_OVERDUE_WARNING'')) 1,
      ot_caseVolumeWarning = coalesce (map_option to_number (vite ''VITE_CASE_VOLUME_WARNING'')) 10\<rparr>"

record employer_dq_score =
  dq_overallScore :: number
  dq_openIssues :: nat
  dq_criticalIssues :: nat

record employer_case_summary =
  ec_activeCases :: nat
  ec_atRiskCases :: nat

datatype alert_severity = Sev_critical | Sev_warning | Sev_info

datatype alert_type = Alert_dq_score | Alert_dq_issues | Alert_sla_breach | Alert_case_volume

record employer_alert =
  al_orgId :: string
  al_orgName :: string
  al_type :: alert_type
  al_severity :: alert_severity
  al_message :: string
  al_value :: number

fun SEVERITY_ORDER :: "alert_severity \<Rightarrow> int" where
  "SEVERITY_ORDER Sev_critical = 0"
| "SEVERITY_ORDER Sev_warning = 1"
| "SEVERITY_ORDER Sev_info = 2"

definition em_dash :: string where
  "em_dash = [CHR 0xE2, CHR 0x80, CHR 0x94]"

definition mk_alert ::
  "string \<Rightarrow> string \<Rightarrow> alert_type \<Rightarrow> alert_severity \<Rightarrow> string \<Rightarrow> number \<Rightarrow> employer_alert" where
  "mk_alert orgId orgName t sev msg v =
     \<lparr>al_orgId = orgId, al_orgName = orgName, al_type = t, al_severity = sev, al_message = msg, al_value = v\<rparr>"

definition dq_score_alerts ::
  "ops_thresholds \<Rightarrow> (number \<Rightarrow> string) \<Rightarrow> string \<Rightarrow> string \<Rightarrow> employer_dq_score \<Rightarrow> employer_alert list" where
  "dq_score_alerts T num_text orgId orgName dq =
     (if dq_overallScore dq < ot_dqScoreCritical T then
        [mk_alert orgId orgName Alert_dq_score Sev_critical
           (''Data quality score '' @ num_text (dq_overallScore dq) @ ''% is critically low'') (dq_overallScore dq)]
      else if dq_overallScore dq < ot_dqScoreWarning T then
        [mk_alert orgId orgName Alert_dq_score Sev_warning
           (''Data quality score '' @ num_text (dq_overallScore dq) @ ''% below warning threshold'') (dq_overallScore dq)]
      else [])"

definition dq_issue_alerts :: "string \<Rightarrow> string \<Rightarrow> employer_dq_score \<Rightarrow> employer_alert list" where
  "dq_issue_alerts orgId orgName dq =
     (if 0 < dq_openIssues dq then
        [mk_alert orgId orgName Alert_dq_issues
           (if 0 < dq_criticalIssues dq then Sev_critical else Sev_warning)
           (if 0 < dq_criticalIssues dq
            then nat_str (dq_criticalIssues dq) @ '' critical data quality issues''
            else nat_str (dq_openIssues dq) @ '' open data quality issues'')
           (real (if 0 < dq_criticalIssues dq then dq_criticalIssues dq else dq_openIssues dq))]
      else [])"

definition case_alerts ::
  "ops_thresholds \<Rightarrow> string \<Rightarrow> string \<Rightarrow> employer_case_summary \<Rightarrow> employer_alert list" where
  "case_alerts T orgId orgName cs =
     (if ot_slaOverdueWarning T \<le> real (ec_atRiskCases cs) then
        [mk_alert orgId orgName Alert_sla_breach Sev_critical
           (nat_str (ec_atRiskCases cs) @ '' cases at risk of SLA breach'') (real (ec_atRiskCases cs))]
      else [])
     @ (if ot_caseVolumeWarning T \<le> real (ec_activeCases cs) then
          [mk_alert orgId orgName Alert_case_volume Sev_info
             (nat_str (ec_activeCases cs) @ '' active cases '' @ em_dash @ '' high volume'') (real (ec_activeCases cs))]
        else [])"

text \<open>The body of the loop for one employer and the data of its queries.\<close>

type_synonym employer_data = "string \<times> employer_dq_score option \<times> employer_case_summary option"

definition org_alerts ::
  "ops_thresholds \<Rightarrow> (number \<Rightarrow> string) \<Rightarrow> (string \<rightharpoonup> string) \<Rightarrow> employer_data \<Rightarrow> employer_alert list" where
  "org_alerts T num_text orgNames od =
     (case od of (orgId, dq, cs) \<Rightarrow>
        let orgName = coalesce (orgNames orgId) orgId in
        (case dq of None \<Rightarrow> [] | Some q \<Rightarrow>
           dq_score_alerts T num_text orgId orgName q @ dq_issue_alerts orgId orgName q)
        @ (case cs of None \<Rightarrow> [] | Some c \<Rightarrow> case_alerts T orgId orgName c))"

definition alert_order :: "(string \<Rightarrow> 'k::linorder) \<Rightarrow> employer_alert \<Rightarrow> employer_alert \<Rightarrow> int" where
  "alert_order collate =
     then_by (\<lambda>a. SEVERITY_ORDER (al_severity a)) (\<lambda>a b. localeCompare collate (al_orgName a) (al_orgName b))"

definition useEmployerOpsAlerts ::
  "ops_thresholds \<Rightarrow> (number \<Rightarrow> string) \<Rightarrow> (string \<Rightarrow> 'k::linorder) \<Rightarrow> (string \<rightharpoonup> string)
     \<Rightarrow> employer_data list \<Rightarrow> employer_alert list" where
  "useEmployerOpsAlerts T num_text collate orgNames orgs =
     js_sort (alert_order collate) (concat (map (org_alerts T num_text orgNames) orgs))"

text \<open>The queries of one employer; the hook adds a refetch interval of a minute to each.\<close>

definition ALERT_REFETCH_INTERVAL :: nat where "ALERT_REFETCH_INTERVAL = 60000"

definition alert_queries :: "string list \<Rightarrow> query_spec list" where
  "alert_queries orgIds =
     map (\<lambda>o'. every ALERT_REFETCH_INTERVAL (useEmployerDQScore o')) orgIds
     @ map (\<lambda>o'. every ALERT_REFETCH_INTERVAL (useEmployerCaseSummary o')) orgIds"

subsection \<open>Properties\<close>

interpretation alerts: comparator "alert_order collate" for collate :: "string \<Rightarrow> 'k::linorder"
  unfolding alert_order_def by (rule key_then_locale.comparator_axioms)

lemma alert_order_le:
  "alert_order collate a b \<le> 0 \<longleftrightarrow>
     SEVERITY_ORDER (al_severity a) < SEVERITY_ORDER (al_severity b)
   \<or> (al_severity a = al_severity b \<and> collate (al_orgName a) \<le> collate (al_orgName b))"
  by (cases "al_severity a"; cases "al_severity b")
    (auto simp: alert_order_def then_by_def localeCompare_def Let_def)

lemma alert_order_same:
  "alert_order collate a b = 0 \<longleftrightarrow>
     al_severity a = al_severity b \<and> collate (al_orgName a) = collate (al_orgName b)"
  by (cases "al_severity a"; cases "al_severity b")
    (auto simp: alert_order_def then_by_def localeCompare_def Let_def)

text \<open>
  The alert list holds exactly the alerts of the employers, critical ones first, then warnings,
  then notices, by name within a severity, and alerts equal in both stay in the order of the
  employers.
\<close>

theorem alerts_sorted:
  "mset (useEmployerOpsAlerts T num_text collate orgNames orgs)
     = mset (concat (map (org_alerts T num_text orgNames) orgs))
 \<and> sorted_wrt (\<lambda>a b. SEVERITY_ORDER (al_severity a) < SEVERITY_ORDER (al_severity b)
       \<or> (al_severity a = al_severity b \<and> collate (al_orgName a) \<le> collate (al_orgName b)))
     (useEmployerOpsAlerts T num_text collate orgNames orgs)
 \<and> filter (\<lambda>a. al_severity a = sev \<and> collate (al_orgName a) = collate name)
       (useEmployerOpsAlerts T num_text collate orgNames orgs)
     = filter (\<lambda>a. al_severity a = sev \<and> collate (al_orgName a) = collate name)
         (concat (map (org_alerts T num_text orgNames) orgs))"
proof -
  let ?ref = "mk_alert [] name Alert_dq_score sev [] 0"
  have "filter (\<lambda>a. alert_order collate a ?ref = 0) (useEmployerOpsAlerts T num_text collate orgNames orgs)
      = filter (\<lambda>a. alert_order collate a ?ref = 0) (concat (map (org_alerts T num_text orgNames) orgs))"
    unfolding useEmployerOpsAlerts_def by (rule alerts.stable_sort)
  moreover have "ordered_by (alert_order collate) (useEmployerOpsAlerts T num_text collate orgNames orgs)"
    unfolding useEmployerOpsAlerts_def by (rule alerts.ordered_sort)
  ultimately show ?thesis
    by (simp add: alert_order_same mk_alert_def ordered_by_def alert_order_le)
      (simp add: useEmployerOpsAlerts_def)
qed

text \<open>
  Of one employer at most four alerts, one per kind. A score is critical below the first
  threshold and a warning below the second, never both; open issues are critical when a critical
  one is among them; an employer whose data is not loaded, or whose figures pass every threshold,
  has none.
\<close>

theorem org_alert_kinds:
  "distinct (map al_type (org_alerts T num_text orgNames (orgId, dq, cs)))
 \<and> length (org_alerts T num_text orgNames (orgId, dq, cs)) \<le> 4
 \<and> list_all (\<lambda>a. al_orgId a = orgId \<and> al_orgName a = coalesce (orgNames orgId) orgId)
     (org_alerts T num_text orgNames (orgId, dq, cs))
 \<and> org_alerts T num_text orgNames (orgId, None, None) = []
 \<and> list_ex (\<lambda>a. al_severity a = Sev_critical)
       (org_alerts (OPS_THRESHOLDS to_number (\<lambda>_. None)) num_text orgNames (orgId, Some q, Some c))
     = (dq_overallScore q < 60 \<or> (0 < dq_openIssues q \<and> 0 < dq_criticalIssues q) \<or> 1 \<le> ec_atRiskCases c)"
  by (cases dq; cases cs)
    (auto simp: org_alerts_def dq_score_alerts_def dq_issue_alerts_def case_alerts_def mk_alert_def
      OPS_THRESHOLDS_def Let_def)

end
