(* ===== verification/Routing.thy ===== *)
theory Routing imports QueryCache begin

text \<open>
  Where a request of the client goes: the gateway of the deployed client
  (src/frontend/nginx.conf) forwards it by the longest location its path begins with, and the Go
  service behind that location answers it by its table of patterns (\<open>http.ServeMux\<close>). The tables
  are in \<open>ServiceRoutes\<close>.
\<close>

subsection \<open>Patterns of a Go multiplexer\<close>

text \<open>A wildcard stands for one segment that is not empty.\<close>

datatype segment = Seg string | Par

datatype route = Route (rt_method: string) (rt_pattern: "segment list") (rt_handler: string)

fun pattern_matches :: "segment list \<Rightarrow> string list \<Rightarrow> bool" where
  "pattern_matches [] [] \<longleftrightarrow> True"
| "pattern_matches (Seg s # ps) (x # xs) \<longleftrightarrow> (if s = x then pattern_matches ps xs else False)"
| "pattern_matches (Par # ps) (x # xs) \<longleftrightarrow> (if x = [] then False else pattern_matches ps xs)"
| "pattern_matches _ _ \<longleftrightarrow> False"

text \<open>Of two patterns that match, the one that names more segments wins.\<close>

definition more_specific :: "segment list \<Rightarrow> segment list \<Rightarrow> bool" where
  "more_specific p q \<longleftrightarrow> list_all2 (\<lambda>a b. case b of Par \<Rightarrow> True | Seg _ \<Rightarrow> a = b) p q"

datatype mux_answer = Handled string | Method_not_allowed | Not_found

definition best_route :: "route \<Rightarrow> route \<Rightarrow> route" where
  "best_route r b = (if more_specific (rt_pattern r) (rt_pattern b) then r else b)"

definition hits :: "string list \<Rightarrow> route list \<Rightarrow> route list" where
  "hits path routes = filter (\<lambda>r. pattern_matches (rt_pattern r) path) routes"

definition pick :: "string \<Rightarrow> route list \<Rightarrow> mux_answer" where
  "pick m hs =
     (case filter (\<lambda>r. rt_method r = m) hs of
        r # rs \<Rightarrow> Handled (rt_handler (fold best_route rs r))
      | [] \<Rightarrow> if hs = [] then Not_found else Method_not_allowed)"

definition mux :: "route list \<Rightarrow> string \<Rightarrow> string list \<Rightarrow> mux_answer" where
  "mux routes m path = pick m (hits path routes)"

text \<open>Routes that begin alike.\<close>

definition under :: "segment list \<Rightarrow> route list \<Rightarrow> route list" where
  "under p routes = map (\<lambda>r. Route (rt_method r) (p @ rt_pattern r) (rt_handler r)) routes"

subsection \<open>The gateway\<close>

text \<open>The path of an address: without the query.\<close>

definition path_of :: "string \<Rightarrow> string" where
  "path_of url = takeWhile (\<lambda>c. c \<noteq> CHR ''?'') url"

fun begins :: "string \<Rightarrow> string \<Rightarrow> bool" where
  "begins [] s \<longleftrightarrow> True"
| "begins (p # ps) (c # s) \<longleftrightarrow> (if p = c then begins ps s else False)"
| "begins (p # ps) [] \<longleftrightarrow> False"

definition LOCATIONS :: "(string \<times> string) list" where
  "LOCATIONS =
     [(''/api/v1/members'', ''dataaccess''),
      (''/api/v1/scenarios'', ''dataaccess''),
      (''/api/v1/notifications'', ''dataaccess''),
      (''/api/v1/eligibility'', ''intelligence''),
      (''/api/v1/benefit'', ''intelligence''),
      (''/api/v1/dro'', ''intelligence''),
      (''/api/v1/summary-log'', ''intelligence''),
      (''/api/v1/crm'', ''crm''),
      (''/api/v1/kb'', ''knowledgebase''),
      (''/api/v1/dq'', ''dataquality''),
      (''/api/v1/correspondence'', ''correspondence''),
      (''/api/v1/cases'', ''casemanagement''),
      (''/api/v1/stages'', ''casemanagement''),
      (''/api/v1/issues'', ''issues''),
      (''/api/v1/errors'', ''issues''),
      (''/api/v1/security'', ''security''),
      (''/api/v1/migration'', ''migration''),
      (''/ws/migration'', ''migration''),
      (''/api/v1/employer'', ''employer-portal''),
      (''/api/v1/reporting'', ''employer-reporting''),
      (''/api/v1/enrollment'', ''employer-enrollment''),
      (''/api/v1/terminations'', ''employer-terminations''),
      (''/api/v1/waret'', ''employer-waret''),
      (''/api/v1/scp'', ''employer-scp''),
      (''/api/v1/health/aggregate'', ''healthagg''),
      (''/api/v1/preferences'', ''preferences'')]"

definition longer_location :: "string \<times> string \<Rightarrow> string \<times> string \<Rightarrow> string \<times> string" where
  "longer_location l b = (if length (fst b) < length (fst l) then l else b)"

text \<open>\<open>None\<close>: no location but \<open>/\<close>, whose files are the pages of the client itself.\<close>

definition gateway :: "string \<Rightarrow> string option" where
  "gateway path =
     (case filter (\<lambda>l. begins (fst l) path) LOCATIONS of
        [] \<Rightarrow> None | l # ls \<Rightarrow> Some (snd (fold longer_location ls l)))"

datatype deployed_answer = Page_shell | Answered string mux_answer

definition answer_url :: "(string \<times> route list) list \<Rightarrow> string \<Rightarrow> string \<Rightarrow> deployed_answer" where
  "answer_url services m url =
     (case gateway (path_of url) of
        None \<Rightarrow> Page_shell
      | Some s \<Rightarrow> Answered s (mux (coalesce (map_of services s) []) m (split_on (CHR ''/'') (path_of url))))"

subsection \<open>Addresses with parameters\<close>

text \<open>An identifier as the services make them: letters, digits, \<open>-\<close> and \<open>_\<close>.\<close>

definition plain_segment :: "string \<Rightarrow> bool" where
  "plain_segment s \<longleftrightarrow> s \<noteq> [] \<and> list_all (\<lambda>c. let n = (of_char c :: nat) in
     48 \<le> n \<and> n \<le> 57 \<or> 65 \<le> n \<and> n \<le> 90 \<or> 97 \<le> n \<and> n \<le> 122 \<or> n = 45 \<or> n = 95) s"

lemma plain_chars:
  assumes "plain_segment s"
  shows "s \<noteq> []" "CHR ''?'' \<notin> set s" "CHR ''/'' \<notin> set s" "CHR ''%'' \<notin> set s"
  using assms by (auto simp: plain_segment_def list_all_iff Let_def)

lemma path_of_append: "CHR ''?'' \<notin> set x \<Longrightarrow> path_of (x @ s) = x @ path_of s"
  unfolding path_of_def by (induction x) auto

lemma path_steps:
  "path_of [] = []"
  "path_of (CHR ''?'' # s) = []"
  "c \<noteq> CHR ''?'' \<Longrightarrow> path_of (c # s) = c # path_of s"
  by (simp_all add: path_of_def)

lemma path_of_plain:
  assumes "plain_segment x"
  shows "path_of (x @ s) = x @ path_of s" "path_of x = x"
  using path_of_append[OF plain_chars(2)[OF assms], of s] path_of_append[OF plain_chars(2)[OF assms], of "[]"]
  by (simp_all add: path_steps)

lemma path_of_query: "path_of (toQueryString q) = []"
  by (auto simp: path_of_def toQueryString_def Let_def)

lemma split_plain:
  assumes "plain_segment x"
  shows "split_on (CHR ''/'') x = [x]"
    and "split_on (CHR ''/'') (x @ CHR ''/'' # s) = x # split_on (CHR ''/'') s"
  by (rule split_on_none[OF plain_chars(3)[OF assms]], rule split_on_append[OF plain_chars(3)[OF assms]])

lemma plain_not_empty: "plain_segment x \<Longrightarrow> x \<noteq> []"
  by (simp add: plain_segment_def)

lemma plain_encode: "plain_segment x \<Longrightarrow> encodeURIComponent x = x"
proof -
  have one: "unreserved c" if "c \<in> set x" "plain_segment x" for c
  proof -
    have code: "c = CHR ''-''" if "of_char c = (45::nat)"
      using that of_char_eq_iff[where 'a = nat, of c "CHR ''-''"] by simp
    have code': "c = CHR ''_''" if "of_char c = (95::nat)"
      using that of_char_eq_iff[where 'a = nat, of c "CHR ''_''"] by simp
    show ?thesis using that code code' by (auto simp: plain_segment_def list_all_iff unreserved_def Let_def)
  qed
  assume "plain_segment x"
  then have "list_all unreserved x" using one by (simp add: list_all_iff)
  then have "concat (map encode_byte x) = x" by (induction x) (simp_all add: encode_byte_def)
  then show ?thesis by (simp add: encodeURIComponent_def)
qed

lemma nat_str_nonempty: "nat_str n \<noteq> []"
  by (simp add: nat_str_def nat_to_base_def) (subst digits_rev.simps, simp)

lemma int_str_chars: "c \<in> set (int_str i) \<Longrightarrow> c = CHR ''-'' \<or> 48 \<le> (of_char c :: nat) \<and> (of_char c :: nat) < 58"
  using nat_str_digits[of c] by (auto simp: int_str_def split: if_splits)

lemma plain_int: "plain_segment (int_str i)"
proof -
  have "int_str i \<noteq> []" by (simp add: int_str_def nat_str_nonempty)
  then show ?thesis using int_str_chars[of _ i] by (fastforce simp: plain_segment_def list_all_iff Let_def)
qed

lemma int_not_word: "c \<in> set w \<Longrightarrow> 58 \<le> (of_char c :: nat) \<Longrightarrow> int_str i \<noteq> w"
  using int_str_chars[of c i] by auto

subsection \<open>Reading step by step\<close>

definition first_segment :: "char \<Rightarrow> string list \<Rightarrow> string list" where
  "first_segment c ps = (case ps of p # q \<Rightarrow> (c # p) # q | [] \<Rightarrow> [[c]])"

lemma split_steps:
  "split_on d [] = [[]]"
  "split_on d (d # s) = [] # split_on d s"
  "c \<noteq> d \<Longrightarrow> split_on d (c # s) = first_segment c (split_on d s)"
  "first_segment c (p # q) = (c # p) # q"
  by (simp_all add: first_segment_def)

lemma match_steps:
  "pattern_matches (Seg x # p) (x # xs) = pattern_matches p xs"
  "s \<noteq> x \<Longrightarrow> pattern_matches (Seg s # p) (x # xs) = False"
  "x \<noteq> [] \<Longrightarrow> pattern_matches (Par # p) (x # xs) = pattern_matches p xs"
  by simp_all

text \<open>Below a common beginning only the rest of the path is left to match.\<close>

fun strip :: "segment list \<Rightarrow> string list \<Rightarrow> string list option" where
  "strip [] xs = Some xs"
| "strip (Seg s # p) (x # xs) = (if s = x then strip p xs else None)"
| "strip (Par # p) (x # xs) = (if x = [] then None else strip p xs)"
| "strip (_ # p) [] = None"

lemma strip_matches:
  "pattern_matches (p @ q) xs = (case strip p xs of None \<Rightarrow> False | Some ys \<Rightarrow> pattern_matches q ys)"
  by (induction p xs rule: strip.induct) simp_all

lemma hits_under:
  "hits xs (under p rs) = (case strip p xs of None \<Rightarrow> [] | Some ys \<Rightarrow> under p (hits ys rs))"
  by (simp add: hits_def under_def filter_map comp_def strip_matches split: option.split)

lemma under_steps:
  "under p [] = []" "under p (Route m q h # rs) = Route m (p @ q) h # under p rs"
  by (simp_all add: under_def)

lemma hits_append: "hits xs (a @ b) = hits xs a @ hits xs b"
  by (simp add: hits_def)

lemma pattern_length: "pattern_matches p xs \<Longrightarrow> length p = length xs"
  by (induction p xs rule: pattern_matches.induct) (auto split: if_splits)

lemma hits_steps:
  "hits xs [] = []"
  "length q \<noteq> length ys \<Longrightarrow> hits (y # ys) (Route m (Seg s # q) h # rs) = hits (y # ys) rs"
  "s \<noteq> y \<Longrightarrow> hits (y # ys) (Route m (Seg s # q) h # rs) = hits (y # ys) rs"
  "hits (y # ys) (Route m (Seg y # q) h # rs)
     = (if pattern_matches q ys then [Route m (Seg y # q) h] else []) @ hits (y # ys) rs"
  "y \<noteq> [] \<Longrightarrow> hits (y # ys) (Route m (Par # q) h # rs)
     = (if pattern_matches q ys then [Route m (Par # q) h] else []) @ hits (y # ys) rs"
  "hits [] (Route m [] h # rs) = Route m [] h # hits [] rs"
  "hits [] (Route m (a # q) h # rs) = hits [] rs"
  "hits (y # ys) (Route m [] h # rs) = hits (y # ys) rs"
  using pattern_length[of q ys] by (auto simp: hits_def)

lemma hits_later: "\<not> pattern_matches q ys \<Longrightarrow> hits (y # ys) (Route m (Seg s # q) h # rs) = hits (y # ys) rs"
  by (simp add: hits_def)

text \<open>No location begins with another, so the one a path begins with decides.\<close>

lemma gateway_locations:
  "gateway (''/api/v1/members'' @ s) = Some ''dataaccess''"
  "gateway (''/api/v1/scenarios'' @ s) = Some ''dataaccess''"
  "gateway (''/api/v1/notifications'' @ s) = Some ''dataaccess''"
  "gateway (''/api/v1/eligibility'' @ s) = Some ''intelligence''"
  "gateway (''/api/v1/benefit'' @ s) = Some ''intelligence''"
  "gateway (''/api/v1/dro'' @ s) = Some ''intelligence''"
  "gateway (''/api/v1/summary-log'' @ s) = Some ''intelligence''"
  "gateway (''/api/v1/crm'' @ s) = Some ''crm''"
  "gateway (''/api/v1/kb'' @ s) = Some ''knowledgebase''"
  "gateway (''/api/v1/dq'' @ s) = Some ''dataquality''"
  "gateway (''/api/v1/correspondence'' @ s) = Some ''correspondence''"
  "gateway (''/api/v1/cases'' @ s) = Some ''casemanagement''"
  "gateway (''/api/v1/stages'' @ s) = Some ''casemanagement''"
  "gateway (''/api/v1/issues'' @ s) = Some ''issues''"
  "gateway (''/api/v1/errors'' @ s) = Some ''issues''"
  "gateway (''/api/v1/security'' @ s) = Some ''security''"
  "gateway (''/api/v1/migration'' @ s) = Some ''migration''"
  "gateway (''/ws/migration'' @ s) = Some ''migration''"
  "gateway (''/api/v1/employer'' @ s) = Some ''employer-portal''"
  "gateway (''/api/v1/reporting'' @ s) = Some ''employer-reporting''"
  "gateway (''/api/v1/enrollment'' @ s) = Some ''employer-enrollment''"
  "gateway (''/api/v1/terminations'' @ s) = Some ''employer-terminations''"
  "gateway (''/api/v1/waret'' @ s) = Some ''employer-waret''"
  "gateway (''/api/v1/scp'' @ s) = Some ''employer-scp''"
  "gateway (''/api/v1/health/aggregate'' @ s) = Some ''healthagg''"
  "gateway (''/api/v1/preferences'' @ s) = Some ''preferences''"
  by (simp_all add: gateway_def LOCATIONS_def longer_location_def)

lemma gateway_pages:
  "gateway (''/api/v1/documents/'' @ s) = None"
  "gateway (''/api/v1/member-auth'' @ s) = None"
  "gateway (''/api/v1/suggestions'' @ s) = None"
  by (simp_all add: gateway_def LOCATIONS_def)

lemmas gateway_steps = gateway_locations[simplified append_Cons append_Nil]
  gateway_pages[simplified append_Cons append_Nil]

end
