(* ===== verification/ServiceRoutes.thy ===== *)
theory ServiceRoutes imports Routing begin

text \<open>
  The tables of the Go services, as their \<open>RegisterRoutes\<close> and \<open>main\<close> register them: src/platform/<service>/api/handlers.go
  and, for the rules, src/platform/knowledgebase/api/rules_handlers.go. An entry is the method, the
  pattern (\<open>{id}\<close> is \<open>Par\<close>) and the name of the handler.
\<close>

definition api_v1 :: "segment list \<Rightarrow> segment list" where
  "api_v1 p = Seg [] # Seg ''api'' # Seg ''v1'' # p"

definition dataaccess_routes_members :: "route list" where
  "dataaccess_routes_members =
     [Route ''GET'' [Seg ''search''] ''SearchMembers'',
      Route ''GET'' [Par] ''GetMember'',
      Route ''GET'' [Par, Seg ''employment''] ''GetEmploymentHistory'',
      Route ''GET'' [Par, Seg ''salary''] ''GetSalaryHistory'',
      Route ''GET'' [Par, Seg ''salary'', Seg ''ams''] ''GetAMS'',
      Route ''GET'' [Par, Seg ''beneficiaries''] ''GetBeneficiaries'',
      Route ''GET'' [Par, Seg ''dro''] ''GetDRO'',
      Route ''GET'' [Par, Seg ''contributions''] ''GetContributions'',
      Route ''GET'' [Par, Seg ''service-credit''] ''GetServiceCredit'',
      Route ''GET'' [Par, Seg ''refund-estimate''] ''GetRefundEstimate'',
      Route ''GET'' [Par, Seg ''payments''] ''GetPaymentHistory'',
      Route ''GET'' [Par, Seg ''tax-documents''] ''GetTaxDocuments'',
      Route ''GET'' [Par, Seg ''addresses''] ''GetAddresses'',
      Route ''PUT'' [Par, Seg ''addresses'', Par] ''UpdateAddress'',
      Route ''GET'' [Par, Seg ''documents''] ''ListMemberDocuments'']"

definition dataaccess_routes_employer :: "route list" where
  "dataaccess_routes_employer =
     [Route ''GET'' [Par, Seg ''members''] ''EmployerMemberRoster'',
      Route ''GET'' [Par, Seg ''members'', Seg ''summary''] ''EmployerMemberSummary'']"

definition dataaccess_routes_issues :: "route list" where
  "dataaccess_routes_issues =
     [Route ''POST'' [Par, Seg ''documents''] ''UploadDocument'',
      Route ''GET'' [Par, Seg ''documents''] ''ListIssueDocuments'']"

definition dataaccess_routes_documents :: "route list" where
  "dataaccess_routes_documents =
     [Route ''GET'' [Par, Seg ''download''] ''DownloadDocument'']"

definition dataaccess_routes_own :: "route list" where
  "dataaccess_routes_own =
     [Route ''GET'' [Seg [], Seg ''healthz''] ''HealthCheck'',
      Route ''GET'' [Seg [], Seg ''health'', Seg ''detail''] ''NewDetailHandler'',
      Route ''GET'' [Seg [], Seg ''ready''] ''NewReadyHandler'']"

definition DATAACCESS_ROUTES :: "route list" where
  "DATAACCESS_ROUTES = under (api_v1 [Seg ''members'']) dataaccess_routes_members
     @ under (api_v1 [Seg ''employer'']) dataaccess_routes_employer
     @ under (api_v1 [Seg ''issues'']) dataaccess_routes_issues
     @ under (api_v1 [Seg ''documents'']) dataaccess_routes_documents
     @ dataaccess_routes_own"

definition intelligence_routes_eligibility :: "route list" where
  "intelligence_routes_eligibility =
     [Route ''POST'' [Seg ''evaluate''] ''EvaluateEligibility'']"

definition intelligence_routes_benefit :: "route list" where
  "intelligence_routes_benefit =
     [Route ''POST'' [Seg ''calculate''] ''CalculateBenefit'',
      Route ''POST'' [Seg ''options''] ''CalculatePaymentOptions'',
      Route ''POST'' [Seg ''scenario''] ''CalculateScenario'']"

definition intelligence_routes_dro :: "route list" where
  "intelligence_routes_dro =
     [Route ''POST'' [Seg ''calculate''] ''CalculateDRO'']"

definition intelligence_routes_summary_log :: "route list" where
  "intelligence_routes_summary_log =
     [Route ''POST'' [] ''LogSummary'']"

definition intelligence_routes_own :: "route list" where
  "intelligence_routes_own =
     [Route ''GET'' [Seg [], Seg ''healthz''] ''HealthCheck'',
      Route ''GET'' [Seg [], Seg ''health'', Seg ''detail''] ''NewDetailHandler'',
      Route ''GET'' [Seg [], Seg ''ready''] ''NewReadyHandler'']"

definition INTELLIGENCE_ROUTES :: "route list" where
  "INTELLIGENCE_ROUTES = under (api_v1 [Seg ''eligibility'']) intelligence_routes_eligibility
     @ under (api_v1 [Seg ''benefit'']) intelligence_routes_benefit
     @ under (api_v1 [Seg ''dro'']) intelligence_routes_dro
     @ under (api_v1 [Seg ''summary-log'']) intelligence_routes_summary_log
     @ intelligence_routes_own"

definition crm_routes_all :: "route list" where
  "crm_routes_all =
     [Route ''GET'' [Seg ''contacts''] ''SearchContacts'',
      Route ''POST'' [Seg ''contacts''] ''CreateContact'',
      Route ''GET'' [Seg ''contacts'', Par] ''GetContact'',
      Route ''PUT'' [Seg ''contacts'', Par] ''UpdateContact'',
      Route ''GET'' [Seg ''contacts'', Par, Seg ''timeline''] ''GetContactTimeline'',
      Route ''GET'' [Seg ''contacts-by-legacy'', Par] ''GetContactByLegacyID'',
      Route ''GET'' [Seg ''conversations''] ''ListConversations'',
      Route ''POST'' [Seg ''conversations''] ''CreateConversation'',
      Route ''GET'' [Seg ''conversations'', Par] ''GetConversation'',
      Route ''PUT'' [Seg ''conversations'', Par] ''UpdateConversation'',
      Route ''GET'' [Seg ''interactions''] ''ListInteractions'',
      Route ''POST'' [Seg ''interactions''] ''CreateInteraction'',
      Route ''GET'' [Seg ''interactions'', Par] ''GetInteraction'',
      Route ''POST'' [Seg ''notes''] ''CreateNote'',
      Route ''GET'' [Seg ''commitments''] ''ListCommitments'',
      Route ''POST'' [Seg ''commitments''] ''CreateCommitment'',
      Route ''PUT'' [Seg ''commitments'', Par] ''UpdateCommitment'',
      Route ''GET'' [Seg ''outreach''] ''ListOutreach'',
      Route ''POST'' [Seg ''outreach''] ''CreateOutreach'',
      Route ''PUT'' [Seg ''outreach'', Par] ''UpdateOutreach'',
      Route ''GET'' [Seg ''organizations''] ''ListOrganizations'',
      Route ''POST'' [Seg ''organizations''] ''CreateOrganization'',
      Route ''GET'' [Seg ''organizations'', Par] ''GetOrganization'',
      Route ''GET'' [Seg ''organizations'', Par, Seg ''interactions''] ''ListOrgInteractions'',
      Route ''GET'' [Seg ''organizations'', Par, Seg ''contacts''] ''ListOrgContacts'',
      Route ''POST'' [Seg ''interactions'', Seg ''employer''] ''CreateEmployerInteraction'',
      Route ''GET'' [Seg ''taxonomy''] ''GetTaxonomy'',
      Route ''GET'' [Seg ''audit''] ''GetAuditLog'']"

definition crm_routes_own :: "route list" where
  "crm_routes_own =
     [Route ''GET'' [Seg [], Seg ''healthz''] ''HealthCheck'',
      Route ''GET'' [Seg [], Seg ''health'', Seg ''detail''] ''NewDetailHandler'',
      Route ''GET'' [Seg [], Seg ''ready''] ''NewReadyHandler'']"

definition CRM_ROUTES :: "route list" where
  "CRM_ROUTES = under (api_v1 [Seg ''crm'']) crm_routes_all
     @ crm_routes_own"

definition knowledgebase_routes_all :: "route list" where
  "knowledgebase_routes_all =
     [Route ''GET'' [Seg ''articles''] ''ListArticles'',
      Route ''GET'' [Seg ''articles'', Par] ''GetArticle'',
      Route ''GET'' [Seg ''stages'', Par] ''GetStageHelp'',
      Route ''GET'' [Seg ''search''] ''SearchArticles'',
      Route ''GET'' [Seg ''rules''] ''ListRules'',
      Route ''GET'' [Seg ''rules'', Par] ''GetRule'',
      Route ''GET'' [Seg ''rules'', Seg ''definitions''] ''ListRuleDefinitions'',
      Route ''GET'' [Seg ''rules'', Seg ''definitions'', Par] ''GetRuleDefinition'',
      Route ''GET'' [Seg ''test-report''] ''GetTestReport'',
      Route ''GET'' [Seg ''test-report'', Par] ''GetTestReportForRule'',
      Route ''GET'' [Seg ''demo-cases''] ''ListDemoCases'',
      Route ''GET'' [Seg ''demo-cases'', Par] ''GetDemoCase'']"

definition knowledgebase_routes_own :: "route list" where
  "knowledgebase_routes_own =
     [Route ''GET'' [Seg [], Seg ''healthz''] ''HealthCheck'',
      Route ''GET'' [Seg [], Seg ''health'', Seg ''detail''] ''NewDetailHandler'',
      Route ''GET'' [Seg [], Seg ''ready''] ''NewReadyHandler'']"

definition KNOWLEDGEBASE_ROUTES :: "route list" where
  "KNOWLEDGEBASE_ROUTES = under (api_v1 [Seg ''kb'']) knowledgebase_routes_all
     @ knowledgebase_routes_own"

definition dataquality_routes_all :: "route list" where
  "dataquality_routes_all =
     [Route ''GET'' [Seg ''checks''] ''ListChecks'',
      Route ''GET'' [Seg ''checks'', Par] ''GetCheck'',
      Route ''GET'' [Seg ''results''] ''ListResults'',
      Route ''GET'' [Seg ''score''] ''GetScore'',
      Route ''GET'' [Seg ''score'', Seg ''trend''] ''GetScoreTrend'',
      Route ''GET'' [Seg ''employer'', Par, Seg ''score''] ''GetEmployerScore'',
      Route ''GET'' [Seg ''employer'', Par, Seg ''issues''] ''ListEmployerIssues'',
      Route ''GET'' [Seg ''employer'', Par, Seg ''checks''] ''ListEmployerChecks'',
      Route ''GET'' [Seg ''issues''] ''ListIssues'',
      Route ''PUT'' [Seg ''issues'', Par] ''UpdateIssue'']"

definition dataquality_routes_own :: "route list" where
  "dataquality_routes_own =
     [Route ''GET'' [Seg [], Seg ''healthz''] ''HealthCheck'',
      Route ''GET'' [Seg [], Seg ''health'', Seg ''detail''] ''NewDetailHandler'',
      Route ''GET'' [Seg [], Seg ''ready''] ''NewReadyHandler'']"

definition DATAQUALITY_ROUTES :: "route list" where
  "DATAQUALITY_ROUTES = under (api_v1 [Seg ''dq'']) dataquality_routes_all
     @ dataquality_routes_own"

definition correspondence_routes_all :: "route list" where
  "correspondence_routes_all =
     [Route ''GET'' [Seg ''templates''] ''ListTemplates'',
      Route ''GET'' [Seg ''templates'', Par] ''GetTemplate'',
      Route ''POST'' [Seg ''generate''] ''Generate'',
      Route ''GET'' [Seg ''templates'', Seg ''employer''] ''ListEmployerTemplates'',
      Route ''POST'' [Seg ''generate'', Seg ''employer''] ''GenerateEmployer'',
      Route ''GET'' [Seg ''history''] ''ListHistory'',
      Route ''GET'' [Seg ''history'', Par] ''GetCorrespondence'',
      Route ''PUT'' [Seg ''history'', Par] ''UpdateCorrespondence'']"

definition correspondence_routes_own :: "route list" where
  "correspondence_routes_own =
     [Route ''GET'' [Seg [], Seg ''healthz''] ''HealthCheck'',
      Route ''GET'' [Seg [], Seg ''health'', Seg ''detail''] ''NewDetailHandler'',
      Route ''GET'' [Seg [], Seg ''ready''] ''NewReadyHandler'']"

definition CORRESPONDENCE_ROUTES :: "route list" where
  "CORRESPONDENCE_ROUTES = under (api_v1 [Seg ''correspondence'']) correspondence_routes_all
     @ correspondence_routes_own"

definition casemanagement_routes_stages :: "route list" where
  "casemanagement_routes_stages =
     [Route ''GET'' [] ''ListStages'']"

definition casemanagement_routes_cases :: "route list" where
  "casemanagement_routes_cases =
     [Route ''GET'' [] ''ListCases'',
      Route ''POST'' [] ''CreateCase'',
      Route ''GET'' [Seg ''stats''] ''GetCaseStats'',
      Route ''GET'' [Seg ''stats'', Seg ''sla''] ''GetSLAStats'',
      Route ''GET'' [Seg ''stats'', Seg ''volume''] ''GetVolumeStats'',
      Route ''GET'' [Par] ''GetCase'',
      Route ''PUT'' [Par] ''UpdateCase'',
      Route ''POST'' [Par, Seg ''advance''] ''AdvanceStage'',
      Route ''GET'' [Par, Seg ''history''] ''GetStageHistory'',
      Route ''GET'' [Par, Seg ''notes''] ''ListNotes'',
      Route ''POST'' [Par, Seg ''notes''] ''CreateNote'',
      Route ''DELETE'' [Par, Seg ''notes'', Par] ''DeleteNote'',
      Route ''GET'' [Par, Seg ''documents''] ''ListDocuments'',
      Route ''POST'' [Par, Seg ''documents''] ''CreateDocument'',
      Route ''DELETE'' [Par, Seg ''documents'', Par] ''DeleteDocument'']"

definition casemanagement_routes_employer :: "route list" where
  "casemanagement_routes_employer =
     [Route ''GET'' [Par, Seg ''cases''] ''ListEmployerCases'',
      Route ''GET'' [Par, Seg ''cases'', Seg ''summary''] ''GetEmployerCaseSummary'',
      Route ''POST'' [Seg ''cases''] ''CreateEmployerCase'']"

definition casemanagement_routes_own :: "route list" where
  "casemanagement_routes_own =
     [Route ''GET'' [Seg [], Seg ''healthz''] ''HealthCheck'',
      Route ''GET'' [Seg [], Seg ''health'', Seg ''detail''] ''NewDetailHandler'',
      Route ''GET'' [Seg [], Seg ''ready''] ''NewReadyHandler'']"

definition CASEMANAGEMENT_ROUTES :: "route list" where
  "CASEMANAGEMENT_ROUTES = under (api_v1 [Seg ''stages'']) casemanagement_routes_stages
     @ under (api_v1 [Seg ''cases'']) casemanagement_routes_cases
     @ under (api_v1 [Seg ''employer'']) casemanagement_routes_employer
     @ casemanagement_routes_own"

definition preferences_routes_preferences :: "route list" where
  "preferences_routes_preferences =
     [Route ''GET'' [] ''GetPreferences'',
      Route ''PUT'' [] ''UpsertPreference'',
      Route ''DELETE'' [] ''ResetPreferences'']"

definition preferences_routes_suggestions :: "route list" where
  "preferences_routes_suggestions =
     [Route ''GET'' [] ''GetSuggestions'',
      Route ''POST'' [Par, Seg ''respond''] ''RespondToSuggestion'']"

definition preferences_routes_own :: "route list" where
  "preferences_routes_own =
     [Route ''GET'' [Seg [], Seg ''healthz''] ''HealthCheck'',
      Route ''GET'' [Seg [], Seg ''health'', Seg ''detail''] ''NewDetailHandler'',
      Route ''GET'' [Seg [], Seg ''ready''] ''NewReadyHandler'']"

definition PREFERENCES_ROUTES :: "route list" where
  "PREFERENCES_ROUTES = under (api_v1 [Seg ''preferences'']) preferences_routes_preferences
     @ under (api_v1 [Seg ''suggestions'']) preferences_routes_suggestions
     @ preferences_routes_own"

definition issues_routes_errors :: "route list" where
  "issues_routes_errors =
     [Route ''POST'' [Seg ''report''] ''ReportError'',
      Route ''GET'' [Seg ''recent''] ''ListRecentErrors'']"

definition issues_routes_issues :: "route list" where
  "issues_routes_issues =
     [Route ''GET'' [] ''ListIssues'',
      Route ''POST'' [] ''CreateIssue'',
      Route ''GET'' [Seg ''stats''] ''GetIssueStats'',
      Route ''GET'' [Par] ''GetIssue'',
      Route ''PUT'' [Par] ''UpdateIssue'',
      Route ''GET'' [Par, Seg ''comments''] ''ListComments'',
      Route ''POST'' [Par, Seg ''comments''] ''CreateComment'']"

definition issues_routes_own :: "route list" where
  "issues_routes_own =
     [Route ''GET'' [Seg [], Seg ''healthz''] ''HealthCheck'',
      Route ''GET'' [Seg [], Seg ''health'', Seg ''detail''] ''NewDetailHandler'',
      Route ''GET'' [Seg [], Seg ''ready''] ''NewReadyHandler'']"

definition ISSUES_ROUTES :: "route list" where
  "ISSUES_ROUTES = under (api_v1 [Seg ''errors'']) issues_routes_errors
     @ under (api_v1 [Seg ''issues'']) issues_routes_issues
     @ issues_routes_own"

definition security_routes_all :: "route list" where
  "security_routes_all =
     [Route ''GET'' [Seg ''events'', Seg ''stats''] ''GetEventStats'',
      Route ''GET'' [Seg ''events''] ''ListEvents'',
      Route ''POST'' [Seg ''events''] ''CreateEvent'',
      Route ''GET'' [Seg ''sessions''] ''ListActiveSessions'',
      Route ''POST'' [Seg ''sessions''] ''UpsertSession'',
      Route ''DELETE'' [Seg ''sessions'', Par] ''DeleteSession'',
      Route ''POST'' [Seg ''webhook'', Seg ''clerk''] ''ClerkWebhook'']"

definition security_routes_own :: "route list" where
  "security_routes_own =
     [Route ''GET'' [Seg [], Seg ''healthz''] ''HealthCheck'',
      Route ''GET'' [Seg [], Seg ''health'', Seg ''detail''] ''NewDetailHandler'',
      Route ''GET'' [Seg [], Seg ''ready''] ''NewReadyHandler'']"

definition SECURITY_ROUTES :: "route list" where
  "SECURITY_ROUTES = under (api_v1 [Seg ''security'']) security_routes_all
     @ security_routes_own"

definition migration_routes_mappings :: "route list" where
  "migration_routes_mappings =
     [Route ''GET'' [] ''ListMappings'',
      Route ''PUT'' [Par] ''UpdateMapping'',
      Route ''POST'' [Par, Seg ''acknowledge''] ''AcknowledgeMapping'']"

definition migration_routes_reconciliation :: "route list" where
  "migration_routes_reconciliation =
     [Route ''GET'' [] ''GetReconciliation'',
      Route ''GET'' [Seg ''p1''] ''GetP1Issues'',
      Route ''GET'' [Seg ''patterns''] ''GetReconciliationPatterns'',
      Route ''GET'' [Seg ''summary''] ''ReconciliationSummary'',
      Route ''GET'' [Seg ''tier'', Par] ''ReconciliationByTier'',
      Route ''GET'' [Seg ''root-cause''] ''HandleGetRootCause'']"

definition migration_routes_attention :: "route list" where
  "migration_routes_attention =
     [Route ''GET'' [] ''HandleGetAttentionItems'',
      Route ''PATCH'' [Par, Seg ''resolve''] ''HandleResolveAttention'',
      Route ''PATCH'' [Par, Seg ''defer''] ''HandleDeferAttention'']"

definition migration_routes_ai :: "route list" where
  "migration_routes_ai =
     [Route ''GET'' [Seg ''recommendations''] ''HandleGetAIRecommendations'',
      Route ''GET'' [Seg ''batch-sizing''] ''HandleGetBatchSizing'',
      Route ''GET'' [Seg ''remediation''] ''HandleGetRemediation'']"

definition migration_routes_reports :: "route list" where
  "migration_routes_reports =
     [Route ''GET'' [Seg ''mapping-spec''] ''MappingSpec'',
      Route ''GET'' [Seg ''mapping-spec'', Seg ''pdf''] ''MappingSpecPDF'',
      Route ''GET'' [Seg ''lineage'', Par, Seg ''pdf''] ''LineageReportPDF'',
      Route ''GET'' [Seg ''reconciliation'', Seg ''pdf''] ''ReconciliationReportPDF'']"

definition migration_routes_jobs :: "route list" where
  "migration_routes_jobs =
     [Route ''POST'' [] ''EnqueueJob'',
      Route ''GET'' [] ''ListJobs'',
      Route ''GET'' [Seg ''summary''] ''JobSummary'',
      Route ''GET'' [Par] ''GetJob'',
      Route ''POST'' [Par, Seg ''cancel''] ''CancelJob'',
      Route ''POST'' [Par, Seg ''retry''] ''RetryJob'']"

definition migration_routes_parallel_runs :: "route list" where
  "migration_routes_parallel_runs =
     [Route ''POST'' [] ''CreateParallelRun'',
      Route ''GET'' [] ''ListParallelRuns'',
      Route ''GET'' [Par] ''GetParallelRun'',
      Route ''GET'' [Par, Seg ''results''] ''GetParallelRunResults'',
      Route ''POST'' [Par, Seg ''cancel''] ''CancelParallelRun'']"

definition migration_routes_cutover_plans :: "route list" where
  "migration_routes_cutover_plans =
     [Route ''POST'' [] ''HandleCreateCutoverPlan'',
      Route ''GET'' [] ''HandleListCutoverPlans'',
      Route ''GET'' [Par] ''HandleGetCutoverPlan'',
      Route ''PATCH'' [Par, Seg ''approve''] ''HandleApproveCutoverPlan'',
      Route ''POST'' [Par, Seg ''execute''] ''HandleExecuteCutoverPlan'',
      Route ''PATCH'' [Par, Seg ''steps'', Par] ''HandleUpdateCutoverStep'',
      Route ''POST'' [Par, Seg ''rollback''] ''HandleRollbackCutoverPlan'']"

definition migration_routes_drift_detection :: "route list" where
  "migration_routes_drift_detection =
     [Route ''POST'' [] ''HandleInitiateDriftDetection'',
      Route ''GET'' [] ''HandleListDriftDetectionRuns'',
      Route ''GET'' [Par] ''HandleGetDriftDetectionRun'',
      Route ''GET'' [Par, Seg ''records''] ''HandleGetDriftDetectionRecords'']"

definition migration_routes_recon_executions :: "route list" where
  "migration_routes_recon_executions =
     [Route ''POST'' [] ''HandleCreateReconExecution'',
      Route ''GET'' [] ''HandleListReconExecutions'',
      Route ''GET'' [Par] ''HandleGetReconExecution'',
      Route ''GET'' [Par, Seg ''mismatches''] ''HandleListReconExecutionMismatches'']"

definition migration_routes_drift_schedule :: "route list" where
  "migration_routes_drift_schedule =
     [Route ''POST'' [] ''HandleCreateDriftSchedule'',
      Route ''GET'' [] ''HandleGetDriftSchedule'',
      Route ''PATCH'' [] ''HandleUpdateDriftSchedule'']"

definition migration_routes_profiling :: "route list" where
  "migration_routes_profiling =
     [Route ''GET'' [Par, Seg ''coverage''] ''GetL4CoverageReport'',
      Route ''GET'' [Par, Seg ''coverage'', Seg ''gaps''] ''GetL4CoverageGaps'',
      Route ''GET'' [Par, Seg ''relationships''] ''ListRelationships'',
      Route ''GET'' [Par, Seg ''orphan-summary''] ''OrphanSummary'']"

definition migration_routes_recon_rules :: "route list" where
  "migration_routes_recon_rules =
     [Route ''POST'' [] ''CreateReconRuleSet'',
      Route ''GET'' [] ''ListReconRuleSets'',
      Route ''GET'' [Seg ''active''] ''GetActiveReconRuleSet'',
      Route ''GET'' [Par] ''GetReconRuleSet'',
      Route ''PATCH'' [Par] ''UpdateReconRuleSet'',
      Route ''POST'' [Par, Seg ''activate''] ''ActivateReconRuleSet'',
      Route ''POST'' [Par, Seg ''archive''] ''ArchiveReconRuleSet'',
      Route ''GET'' [Par, Seg ''diff''] ''DiffReconRuleSets'']"

definition migration_routes_migration_engagements :: "route list" where
  "migration_routes_migration_engagements =
     [Route ''GET'' [] ''GetEngagement'',
      Route ''PATCH'' [] ''UpdateEngagement'',
      Route ''POST'' [Seg ''profile''] ''ProfileEngagement'',
      Route ''GET'' [Seg ''profiles''] ''ListProfiles'',
      Route ''PATCH'' [Seg ''approve-baseline''] ''ApproveBaseline'',
      Route ''POST'' [Seg ''generate-mappings''] ''GenerateMappings'',
      Route ''GET'' [Seg ''code-mappings''] ''ListCodeMappings'',
      Route ''PUT'' [Seg ''code-mappings'', Par] ''UpdateCodeMapping'',
      Route ''GET'' [Seg ''batches''] ''ListBatches'',
      Route ''POST'' [Seg ''batches''] ''CreateBatch'',
      Route ''POST'' [Seg ''risks''] ''CreateRisk'',
      Route ''POST'' [Seg ''source''] ''ConfigureSource'',
      Route ''GET'' [Seg ''source'', Seg ''tables''] ''DiscoverTables'',
      Route ''GET'' [Seg ''events''] ''ListEvents'',
      Route ''GET'' [Seg ''gate-status''] ''HandleGetGateStatus'',
      Route ''GET'' [Seg ''gate-evaluation''] ''HandleGetGateEvaluation'',
      Route ''POST'' [Seg ''advance-phase''] ''HandleAdvancePhase'',
      Route ''POST'' [Seg ''regress-phase''] ''HandleRegressPhase'',
      Route ''GET'' [Seg ''gate-history''] ''HandleGetGateHistory'',
      Route ''GET'' [Seg ''coverage-report''] ''CoverageReport'',
      Route ''POST'' [Seg ''certify''] ''HandleCertify'',
      Route ''GET'' [Seg ''certification''] ''HandleGetCertification'',
      Route ''GET'' [Seg ''certifications''] ''HandleListCertifications'',
      Route ''GET'' [Seg ''certification'', Seg ''checklist''] ''HandleGetCertificationChecklist'',
      Route ''GET'' [Seg ''audit-log''] ''HandleListAuditLog'',
      Route ''GET'' [Seg ''audit-log'', Seg ''export''] ''HandleExportAuditLog'',
      Route ''GET'' [Seg ''retention-policy''] ''HandleGetRetentionPolicy'',
      Route ''PATCH'' [Seg ''retention-policy''] ''HandleSetRetentionPolicy'',
      Route ''POST'' [Seg ''profiling-runs''] ''InitiateProfilingRun'',
      Route ''GET'' [Seg ''profiling-runs''] ''ListProfilingRuns'',
      Route ''GET'' [Seg ''drift-summary''] ''HandleGetDriftSummary'']
     @ under [Seg ''mappings''] migration_routes_mappings
     @ under [Seg ''reconciliation''] migration_routes_reconciliation
     @ under [Seg ''attention''] migration_routes_attention
     @ under [Seg ''ai''] migration_routes_ai
     @ under [Seg ''reports''] migration_routes_reports
     @ under [Seg ''jobs''] migration_routes_jobs
     @ under [Seg ''parallel-runs''] migration_routes_parallel_runs
     @ under [Seg ''cutover-plans''] migration_routes_cutover_plans
     @ under [Seg ''drift-detection''] migration_routes_drift_detection
     @ under [Seg ''recon-executions''] migration_routes_recon_executions
     @ under [Seg ''drift-schedule''] migration_routes_drift_schedule
     @ under [Seg ''profiling''] migration_routes_profiling
     @ under [Seg ''recon-rules''] migration_routes_recon_rules"

definition migration_routes_migration_batches :: "route list" where
  "migration_routes_migration_batches =
     [Route ''GET'' [] ''GetBatch'',
      Route ''GET'' [Seg ''exceptions''] ''ListExceptions'',
      Route ''POST'' [Seg ''execute''] ''ExecuteBatchHandler'',
      Route ''POST'' [Seg ''retransform''] ''RetransformBatch'',
      Route ''POST'' [Seg ''reconcile''] ''ReconcileBatch'',
      Route ''GET'' [Seg ''exception-clusters''] ''ListExceptionClusters'',
      Route ''GET'' [Seg ''lineage''] ''HandleGetLineage'',
      Route ''GET'' [Seg ''lineage'', Seg ''summary''] ''HandleGetLineageSummary'']"

definition migration_routes_migration :: "route list" where
  "migration_routes_migration =
     [Route ''POST'' [Seg ''engagements''] ''CreateEngagement'',
      Route ''GET'' [Seg ''engagements''] ''ListEngagements'',
      Route ''PATCH'' [Seg ''reconciliation'', Seg ''patterns'', Par, Seg ''resolve''] ''ResolvePattern'',
      Route ''GET'' [Seg ''dashboard'', Seg ''summary''] ''DashboardSummary'',
      Route ''GET'' [Seg ''dashboard'', Seg ''system-health''] ''SystemHealth'',
      Route ''GET'' [Seg ''risks''] ''ListRisks'',
      Route ''PUT'' [Seg ''risks'', Par] ''UpdateRisk'',
      Route ''DELETE'' [Seg ''risks'', Par] ''DeleteRisk'',
      Route ''POST'' [Seg ''exception-clusters'', Par, Seg ''apply''] ''ApplyCluster'',
      Route ''GET'' [Seg ''compare''] ''CompareEngagements'',
      Route ''GET'' [Seg ''attention'', Seg ''summary''] ''HandleGetAttentionSummary'',
      Route ''GET'' [Seg ''notifications''] ''HandleGetNotifications'',
      Route ''PUT'' [Seg ''notifications'', Par, Seg ''read''] ''HandleMarkNotificationRead'',
      Route ''PUT'' [Seg ''notifications'', Seg ''read-all''] ''HandleMarkAllNotificationsRead'',
      Route ''GET'' [Seg ''workers''] ''WorkerHealth'',
      Route ''GET'' [Seg ''profiling-runs'', Par] ''GetProfilingRunHandler'',
      Route ''GET'' [Seg ''profiling-runs'', Par, Seg ''inventory''] ''GetProfilingInventory'',
      Route ''POST'' [Seg ''schema-versions''] ''CreateSchemaVersion'',
      Route ''GET'' [Seg ''schema-versions''] ''ListSchemaVersions'',
      Route ''GET'' [Seg ''schema-versions'', Seg ''diff''] ''DiffSchemaVersions'',
      Route ''GET'' [Seg ''schema-versions'', Par] ''GetSchemaVersion'',
      Route ''POST'' [Seg ''schema-versions'', Par, Seg ''activate''] ''ActivateSchemaVersion'']"

definition migration_routes_own :: "route list" where
  "migration_routes_own =
     [Route ''GET'' [Seg [], Seg ''healthz''] ''HealthCheck'',
      Route ''GET'' [Seg [], Seg ''ws'', Seg ''migration'', Par] ''func'',
      Route ''GET'' [Seg [], Seg ''health'', Seg ''detail''] ''NewDetailHandler'',
      Route ''GET'' [Seg [], Seg ''ready''] ''NewReadyHandler'']"

definition MIGRATION_ROUTES :: "route list" where
  "MIGRATION_ROUTES = under (api_v1 [Seg ''migration'', Seg ''engagements'', Par]) migration_routes_migration_engagements
     @ under (api_v1 [Seg ''migration'', Seg ''batches'', Par]) migration_routes_migration_batches
     @ under (api_v1 [Seg ''migration'']) migration_routes_migration
     @ migration_routes_own"

definition employer_portal_routes_all :: "route list" where
  "employer_portal_routes_all =
     [Route ''GET'' [Seg ''users''] ''ListPortalUsers'',
      Route ''POST'' [Seg ''users''] ''CreatePortalUser'',
      Route ''PUT'' [Seg ''users'', Par, Seg ''role''] ''UpdatePortalUserRole'',
      Route ''DELETE'' [Seg ''users'', Par] ''DeactivatePortalUser'',
      Route ''GET'' [Seg ''dashboard''] ''GetDashboard'',
      Route ''GET'' [Seg ''alerts''] ''ListAlerts'',
      Route ''POST'' [Seg ''alerts''] ''CreateAlert'',
      Route ''GET'' [Seg ''rate-tables''] ''ListRateTables'',
      Route ''GET'' [Seg ''rate-tables'', Seg ''current''] ''GetCurrentRate'',
      Route ''GET'' [Seg ''divisions''] ''ListDivisions'']"

definition employer_portal_routes_own :: "route list" where
  "employer_portal_routes_own =
     [Route ''GET'' [Seg [], Seg ''healthz''] ''HealthCheck'',
      Route ''GET'' [Seg [], Seg ''health'', Seg ''detail''] ''NewDetailHandler'',
      Route ''GET'' [Seg [], Seg ''ready''] ''NewReadyHandler'']"

definition EMPLOYER_PORTAL_ROUTES :: "route list" where
  "EMPLOYER_PORTAL_ROUTES = under (api_v1 [Seg ''employer'']) employer_portal_routes_all
     @ employer_portal_routes_own"

definition employer_reporting_routes_all :: "route list" where
  "employer_reporting_routes_all =
     [Route ''GET'' [Seg ''files''] ''ListFiles'',
      Route ''GET'' [Seg ''files'', Par] ''GetFile'',
      Route ''GET'' [Seg ''files'', Par, Seg ''records''] ''ListRecords'',
      Route ''DELETE'' [Seg ''files'', Par] ''DeleteFile'',
      Route ''POST'' [Seg ''manual-entry''] ''ManualEntry'',
      Route ''GET'' [Seg ''exceptions''] ''ListExceptions'',
      Route ''GET'' [Seg ''exceptions'', Par] ''GetException'',
      Route ''PUT'' [Seg ''exceptions'', Par, Seg ''resolve''] ''ResolveException'',
      Route ''PUT'' [Seg ''exceptions'', Par, Seg ''escalate''] ''EscalateException'',
      Route ''POST'' [Seg ''files'', Par, Seg ''payment-setup''] ''SetupPayment'',
      Route ''GET'' [Seg ''payments''] ''ListPayments'',
      Route ''DELETE'' [Seg ''payments'', Par] ''CancelPayment'',
      Route ''POST'' [Seg ''corrections''] ''SubmitCorrection'',
      Route ''GET'' [Seg ''interest'', Par] ''GetInterest'']"

definition employer_reporting_routes_own :: "route list" where
  "employer_reporting_routes_own =
     [Route ''GET'' [Seg [], Seg ''healthz''] ''HealthCheck'',
      Route ''GET'' [Seg [], Seg ''health'', Seg ''detail''] ''NewDetailHandler'',
      Route ''GET'' [Seg [], Seg ''ready''] ''NewReadyHandler'']"

definition EMPLOYER_REPORTING_ROUTES :: "route list" where
  "EMPLOYER_REPORTING_ROUTES = under (api_v1 [Seg ''reporting'']) employer_reporting_routes_all
     @ employer_reporting_routes_own"

definition employer_enrollment_routes_all :: "route list" where
  "employer_enrollment_routes_all =
     [Route ''POST'' [Seg ''submissions''] ''CreateSubmission'',
      Route ''GET'' [Seg ''submissions''] ''ListSubmissions'',
      Route ''GET'' [Seg ''submissions'', Par] ''GetSubmission'',
      Route ''PUT'' [Seg ''submissions'', Par, Seg ''submit''] ''SubmitForValidation'',
      Route ''PUT'' [Seg ''submissions'', Par, Seg ''approve''] ''ApproveSubmission'',
      Route ''PUT'' [Seg ''submissions'', Par, Seg ''reject''] ''RejectSubmission'',
      Route ''GET'' [Seg ''duplicates''] ''ListPendingDuplicates'',
      Route ''GET'' [Seg ''submissions'', Par, Seg ''duplicates''] ''ListSubmissionDuplicates'',
      Route ''PUT'' [Seg ''duplicates'', Par, Seg ''resolve''] ''ResolveDuplicate'',
      Route ''GET'' [Seg ''perachoice''] ''ListPERAChoicePending'',
      Route ''GET'' [Seg ''perachoice'', Par] ''GetPERAChoiceElection'',
      Route ''PUT'' [Seg ''perachoice'', Par, Seg ''elect''] ''ElectPERAChoice'']"

definition employer_enrollment_routes_own :: "route list" where
  "employer_enrollment_routes_own =
     [Route ''GET'' [Seg [], Seg ''healthz''] ''HealthCheck'',
      Route ''GET'' [Seg [], Seg ''health'', Seg ''detail''] ''NewDetailHandler'',
      Route ''GET'' [Seg [], Seg ''ready''] ''NewReadyHandler'']"

definition EMPLOYER_ENROLLMENT_ROUTES :: "route list" where
  "EMPLOYER_ENROLLMENT_ROUTES = under (api_v1 [Seg ''enrollment'']) employer_enrollment_routes_all
     @ employer_enrollment_routes_own"

definition employer_terminations_routes_all :: "route list" where
  "employer_terminations_routes_all =
     [Route ''POST'' [Seg ''certifications''] ''CreateCertification'',
      Route ''GET'' [Seg ''certifications''] ''ListCertifications'',
      Route ''GET'' [Seg ''certifications'', Par] ''GetCertification'',
      Route ''PUT'' [Seg ''certifications'', Par, Seg ''verify''] ''VerifyCertification'',
      Route ''PUT'' [Seg ''certifications'', Par, Seg ''reject''] ''RejectCertification'',
      Route ''GET'' [Seg ''holds''] ''ListHolds'',
      Route ''GET'' [Seg ''holds'', Par] ''GetHold'',
      Route ''PUT'' [Seg ''holds'', Par, Seg ''resolve''] ''ResolveHold'',
      Route ''PUT'' [Seg ''holds'', Par, Seg ''escalate''] ''EscalateHold'',
      Route ''POST'' [Seg ''refunds''] ''CreateRefundApplication'',
      Route ''GET'' [Seg ''refunds''] ''ListRefundApplications'',
      Route ''GET'' [Seg ''refunds'', Par] ''GetRefundApplication'',
      Route ''POST'' [Seg ''refunds'', Par, Seg ''calculate''] ''CalculateRefund'',
      Route ''PUT'' [Seg ''refunds'', Par, Seg ''payment''] ''SetupRefundPayment'',
      Route ''GET'' [Seg ''refunds'', Par, Seg ''eligibility''] ''CheckEligibility'']"

definition employer_terminations_routes_own :: "route list" where
  "employer_terminations_routes_own =
     [Route ''GET'' [Seg [], Seg ''healthz''] ''HealthCheck'',
      Route ''GET'' [Seg [], Seg ''health'', Seg ''detail''] ''NewDetailHandler'',
      Route ''GET'' [Seg [], Seg ''ready''] ''NewReadyHandler'']"

definition EMPLOYER_TERMINATIONS_ROUTES :: "route list" where
  "EMPLOYER_TERMINATIONS_ROUTES = under (api_v1 [Seg ''terminations'']) employer_terminations_routes_all
     @ employer_terminations_routes_own"

definition employer_waret_routes_all :: "route list" where
  "employer_waret_routes_all =
     [Route ''POST'' [Seg ''designations''] ''CreateDesignation'',
      Route ''GET'' [Seg ''designations''] ''ListDesignations'',
      Route ''GET'' [Seg ''designations'', Par] ''GetDesignation'',
      Route ''PUT'' [Seg ''designations'', Par, Seg ''approve''] ''ApproveDesignation'',
      Route ''PUT'' [Seg ''designations'', Par, Seg ''revoke''] ''RevokeDesignation'',
      Route ''POST'' [Seg ''tracking''] ''RecordWorkDay'',
      Route ''GET'' [Seg ''tracking''] ''ListTracking'',
      Route ''GET'' [Seg ''tracking'', Seg ''summary'', Par] ''GetYTDSummary'',
      Route ''POST'' [Seg ''penalties''] ''AssessPenalty'',
      Route ''GET'' [Seg ''penalties''] ''ListPenalties'',
      Route ''PUT'' [Seg ''penalties'', Par, Seg ''appeal''] ''AppealPenalty'',
      Route ''PUT'' [Seg ''penalties'', Par, Seg ''waive''] ''WaivePenalty'',
      Route ''POST'' [Seg ''disclosures''] ''CreateICDisclosure'',
      Route ''GET'' [Seg ''disclosures''] ''ListICDisclosures'',
      Route ''POST'' [Seg ''designations'', Par, Seg ''peracare-check''] ''CheckPERACare'',
      Route ''PUT'' [Seg ''designations'', Par, Seg ''peracare-resolve''] ''ResolvePERACare'']"

definition employer_waret_routes_own :: "route list" where
  "employer_waret_routes_own =
     [Route ''GET'' [Seg [], Seg ''healthz''] ''HealthCheck'',
      Route ''GET'' [Seg [], Seg ''health'', Seg ''detail''] ''NewDetailHandler'',
      Route ''GET'' [Seg [], Seg ''ready''] ''NewReadyHandler'']"

definition EMPLOYER_WARET_ROUTES :: "route list" where
  "EMPLOYER_WARET_ROUTES = under (api_v1 [Seg ''waret'']) employer_waret_routes_all
     @ employer_waret_routes_own"

definition employer_scp_routes_all :: "route list" where
  "employer_scp_routes_all =
     [Route ''GET'' [Seg ''cost-factors''] ''ListCostFactors'',
      Route ''GET'' [Seg ''cost-factors'', Seg ''lookup''] ''LookupCostFactor'',
      Route ''POST'' [Seg ''cost-factors''] ''CreateCostFactor'',
      Route ''POST'' [Seg ''quotes''] ''GenerateQuote'',
      Route ''POST'' [Seg ''requests''] ''CreateRequest'',
      Route ''GET'' [Seg ''requests''] ''ListRequests'',
      Route ''GET'' [Seg ''requests'', Par] ''GetRequest'',
      Route ''PUT'' [Seg ''requests'', Par, Seg ''quote''] ''ApplyQuote'',
      Route ''PUT'' [Seg ''requests'', Par, Seg ''submit-docs''] ''SubmitDocumentation'',
      Route ''PUT'' [Seg ''requests'', Par, Seg ''approve''] ''ApproveRequest'',
      Route ''PUT'' [Seg ''requests'', Par, Seg ''deny''] ''DenyRequest'',
      Route ''POST'' [Seg ''requests'', Par, Seg ''payment''] ''RecordPayment'',
      Route ''PUT'' [Seg ''requests'', Par, Seg ''cancel''] ''CancelRequest'',
      Route ''GET'' [Seg ''eligibility''] ''CheckEligibility'']"

definition employer_scp_routes_own :: "route list" where
  "employer_scp_routes_own =
     [Route ''GET'' [Seg [], Seg ''healthz''] ''HealthCheck'',
      Route ''GET'' [Seg [], Seg ''health'', Seg ''detail''] ''NewDetailHandler'',
      Route ''GET'' [Seg [], Seg ''ready''] ''NewReadyHandler'']"

definition EMPLOYER_SCP_ROUTES :: "route list" where
  "EMPLOYER_SCP_ROUTES = under (api_v1 [Seg ''scp'']) employer_scp_routes_all
     @ employer_scp_routes_own"

definition healthagg_routes_all :: "route list" where
  "healthagg_routes_all =
     [Route ''GET'' [Seg ''aggregate''] ''func'']"

definition healthagg_routes_own :: "route list" where
  "healthagg_routes_own =
     [Route ''GET'' [Seg [], Seg ''healthz''] ''func'']"

definition HEALTHAGG_ROUTES :: "route list" where
  "HEALTHAGG_ROUTES = under (api_v1 [Seg ''health'']) healthagg_routes_all
     @ healthagg_routes_own"

definition SERVICES :: "(string \<times> route list) list" where
  "SERVICES =
     [(''dataaccess'', DATAACCESS_ROUTES),
      (''intelligence'', INTELLIGENCE_ROUTES),
      (''crm'', CRM_ROUTES),
      (''knowledgebase'', KNOWLEDGEBASE_ROUTES),
      (''dataquality'', DATAQUALITY_ROUTES),
      (''correspondence'', CORRESPONDENCE_ROUTES),
      (''casemanagement'', CASEMANAGEMENT_ROUTES),
      (''preferences'', PREFERENCES_ROUTES),
      (''issues'', ISSUES_ROUTES),
      (''security'', SECURITY_ROUTES),
      (''migration'', MIGRATION_ROUTES),
      (''employer-portal'', EMPLOYER_PORTAL_ROUTES),
      (''employer-reporting'', EMPLOYER_REPORTING_ROUTES),
      (''employer-enrollment'', EMPLOYER_ENROLLMENT_ROUTES),
      (''employer-terminations'', EMPLOYER_TERMINATIONS_ROUTES),
      (''employer-waret'', EMPLOYER_WARET_ROUTES),
      (''employer-scp'', EMPLOYER_SCP_ROUTES),
      (''healthagg'', HEALTHAGG_ROUTES)]"

text \<open>What the deployment answers to a call of the client.\<close>

definition deployed :: "rest_call \<Rightarrow> deployed_answer" where
  "deployed c = answer_url SERVICES (call_method c) (call_url c)"

definition no_vite :: vite_env where
  "no_vite = (\<lambda>_. None)"

text \<open>The call reaches the handler named, at the service named.\<close>

definition reaches :: "string \<Rightarrow> rest_call \<times> string \<Rightarrow> bool" where
  "reaches s ch \<longleftrightarrow> deployed (fst ch) = Answered s (Handled (snd ch))"

subsection \<open>Evaluating a call\<close>

lemmas route_tables =
  arg_cong[OF dataaccess_routes_members_def, where f = "hits xs" for xs]
  arg_cong[OF dataaccess_routes_employer_def, where f = "hits xs" for xs]
  arg_cong[OF dataaccess_routes_issues_def, where f = "hits xs" for xs]
  arg_cong[OF dataaccess_routes_documents_def, where f = "hits xs" for xs]
  arg_cong[OF dataaccess_routes_own_def, where f = "hits xs" for xs]
  arg_cong[OF intelligence_routes_eligibility_def, where f = "hits xs" for xs]
  arg_cong[OF intelligence_routes_benefit_def, where f = "hits xs" for xs]
  arg_cong[OF intelligence_routes_dro_def, where f = "hits xs" for xs]
  arg_cong[OF intelligence_routes_summary_log_def, where f = "hits xs" for xs]
  arg_cong[OF intelligence_routes_own_def, where f = "hits xs" for xs]
  arg_cong[OF crm_routes_all_def, where f = "hits xs" for xs]
  arg_cong[OF crm_routes_own_def, where f = "hits xs" for xs]
  arg_cong[OF knowledgebase_routes_all_def, where f = "hits xs" for xs]
  arg_cong[OF knowledgebase_routes_own_def, where f = "hits xs" for xs]
  arg_cong[OF dataquality_routes_all_def, where f = "hits xs" for xs]
  arg_cong[OF dataquality_routes_own_def, where f = "hits xs" for xs]
  arg_cong[OF correspondence_routes_all_def, where f = "hits xs" for xs]
  arg_cong[OF correspondence_routes_own_def, where f = "hits xs" for xs]
  arg_cong[OF casemanagement_routes_stages_def, where f = "hits xs" for xs]
  arg_cong[OF casemanagement_routes_cases_def, where f = "hits xs" for xs]
  arg_cong[OF casemanagement_routes_employer_def, where f = "hits xs" for xs]
  arg_cong[OF casemanagement_routes_own_def, where f = "hits xs" for xs]
  arg_cong[OF preferences_routes_preferences_def, where f = "hits xs" for xs]
  arg_cong[OF preferences_routes_suggestions_def, where f = "hits xs" for xs]
  arg_cong[OF preferences_routes_own_def, where f = "hits xs" for xs]
  arg_cong[OF issues_routes_errors_def, where f = "hits xs" for xs]
  arg_cong[OF issues_routes_issues_def, where f = "hits xs" for xs]
  arg_cong[OF issues_routes_own_def, where f = "hits xs" for xs]
  arg_cong[OF security_routes_all_def, where f = "hits xs" for xs]
  arg_cong[OF security_routes_own_def, where f = "hits xs" for xs]
  arg_cong[OF migration_routes_mappings_def, where f = "hits xs" for xs]
  arg_cong[OF migration_routes_reconciliation_def, where f = "hits xs" for xs]
  arg_cong[OF migration_routes_attention_def, where f = "hits xs" for xs]
  arg_cong[OF migration_routes_ai_def, where f = "hits xs" for xs]
  arg_cong[OF migration_routes_reports_def, where f = "hits xs" for xs]
  arg_cong[OF migration_routes_jobs_def, where f = "hits xs" for xs]
  arg_cong[OF migration_routes_parallel_runs_def, where f = "hits xs" for xs]
  arg_cong[OF migration_routes_cutover_plans_def, where f = "hits xs" for xs]
  arg_cong[OF migration_routes_drift_detection_def, where f = "hits xs" for xs]
  arg_cong[OF migration_routes_recon_executions_def, where f = "hits xs" for xs]
  arg_cong[OF migration_routes_drift_schedule_def, where f = "hits xs" for xs]
  arg_cong[OF migration_routes_profiling_def, where f = "hits xs" for xs]
  arg_cong[OF migration_routes_recon_rules_def, where f = "hits xs" for xs]
  arg_cong[OF migration_routes_migration_engagements_def, where f = "hits xs" for xs]
  arg_cong[OF migration_routes_migration_batches_def, where f = "hits xs" for xs]
  arg_cong[OF migration_routes_migration_def, where f = "hits xs" for xs]
  arg_cong[OF migration_routes_own_def, where f = "hits xs" for xs]
  arg_cong[OF employer_portal_routes_all_def, where f = "hits xs" for xs]
  arg_cong[OF employer_portal_routes_own_def, where f = "hits xs" for xs]
  arg_cong[OF employer_reporting_routes_all_def, where f = "hits xs" for xs]
  arg_cong[OF employer_reporting_routes_own_def, where f = "hits xs" for xs]
  arg_cong[OF employer_enrollment_routes_all_def, where f = "hits xs" for xs]
  arg_cong[OF employer_enrollment_routes_own_def, where f = "hits xs" for xs]
  arg_cong[OF employer_terminations_routes_all_def, where f = "hits xs" for xs]
  arg_cong[OF employer_terminations_routes_own_def, where f = "hits xs" for xs]
  arg_cong[OF employer_waret_routes_all_def, where f = "hits xs" for xs]
  arg_cong[OF employer_waret_routes_own_def, where f = "hits xs" for xs]
  arg_cong[OF employer_scp_routes_all_def, where f = "hits xs" for xs]
  arg_cong[OF employer_scp_routes_own_def, where f = "hits xs" for xs]
  arg_cong[OF healthagg_routes_all_def, where f = "hits xs" for xs]
  arg_cong[OF healthagg_routes_own_def, where f = "hits xs" for xs]
  arg_cong[OF DATAACCESS_ROUTES_def, where f = "hits xs" for xs]
  arg_cong[OF INTELLIGENCE_ROUTES_def, where f = "hits xs" for xs]
  arg_cong[OF CRM_ROUTES_def, where f = "hits xs" for xs]
  arg_cong[OF KNOWLEDGEBASE_ROUTES_def, where f = "hits xs" for xs]
  arg_cong[OF DATAQUALITY_ROUTES_def, where f = "hits xs" for xs]
  arg_cong[OF CORRESPONDENCE_ROUTES_def, where f = "hits xs" for xs]
  arg_cong[OF CASEMANAGEMENT_ROUTES_def, where f = "hits xs" for xs]
  arg_cong[OF PREFERENCES_ROUTES_def, where f = "hits xs" for xs]
  arg_cong[OF ISSUES_ROUTES_def, where f = "hits xs" for xs]
  arg_cong[OF SECURITY_ROUTES_def, where f = "hits xs" for xs]
  arg_cong[OF MIGRATION_ROUTES_def, where f = "hits xs" for xs]
  arg_cong[OF EMPLOYER_PORTAL_ROUTES_def, where f = "hits xs" for xs]
  arg_cong[OF EMPLOYER_REPORTING_ROUTES_def, where f = "hits xs" for xs]
  arg_cong[OF EMPLOYER_ENROLLMENT_ROUTES_def, where f = "hits xs" for xs]
  arg_cong[OF EMPLOYER_TERMINATIONS_ROUTES_def, where f = "hits xs" for xs]
  arg_cong[OF EMPLOYER_WARET_ROUTES_def, where f = "hits xs" for xs]
  arg_cong[OF EMPLOYER_SCP_ROUTES_def, where f = "hits xs" for xs]
  arg_cong[OF HEALTHAGG_ROUTES_def, where f = "hits xs" for xs]

lemma path_of_optional:
  "path_of (case a of None \<Rightarrow> [] | Some x \<Rightarrow> toQueryString (f x)) = []"
  "path_of (case a of None \<Rightarrow> [] | Some x \<Rightarrow> if x = [] then [] else toQueryString (f x)) = []"
  "path_of (case a of None \<Rightarrow> [] | Some x \<Rightarrow> if x = [] then [] else CHR ''?'' # g x) = []"
  "path_of (case a of None \<Rightarrow> [] | Some x \<Rightarrow> if x = [] then [] else (CHR ''?'' # s) @ g x) = []"
  by (simp_all add: path_of_query path_steps split: option.split)

lemma service_tables:
  "map_of SERVICES ''dataaccess'' = Some DATAACCESS_ROUTES"
  "map_of SERVICES ''intelligence'' = Some INTELLIGENCE_ROUTES"
  "map_of SERVICES ''crm'' = Some CRM_ROUTES"
  "map_of SERVICES ''knowledgebase'' = Some KNOWLEDGEBASE_ROUTES"
  "map_of SERVICES ''dataquality'' = Some DATAQUALITY_ROUTES"
  "map_of SERVICES ''correspondence'' = Some CORRESPONDENCE_ROUTES"
  "map_of SERVICES ''casemanagement'' = Some CASEMANAGEMENT_ROUTES"
  "map_of SERVICES ''preferences'' = Some PREFERENCES_ROUTES"
  "map_of SERVICES ''issues'' = Some ISSUES_ROUTES"
  "map_of SERVICES ''security'' = Some SECURITY_ROUTES"
  "map_of SERVICES ''migration'' = Some MIGRATION_ROUTES"
  "map_of SERVICES ''employer-portal'' = Some EMPLOYER_PORTAL_ROUTES"
  "map_of SERVICES ''employer-reporting'' = Some EMPLOYER_REPORTING_ROUTES"
  "map_of SERVICES ''employer-enrollment'' = Some EMPLOYER_ENROLLMENT_ROUTES"
  "map_of SERVICES ''employer-terminations'' = Some EMPLOYER_TERMINATIONS_ROUTES"
  "map_of SERVICES ''employer-waret'' = Some EMPLOYER_WARET_ROUTES"
  "map_of SERVICES ''employer-scp'' = Some EMPLOYER_SCP_ROUTES"
  "map_of SERVICES ''healthagg'' = Some HEALTHAGG_ROUTES"
  by (simp_all add: SERVICES_def)

declare split_on.simps [simp del] begins.simps [simp del]

lemmas route_steps = reaches_def deployed_def answer_url_def service_tables mux_def pick_def best_route_def
  more_specific_def api_v1_def under_steps hits_under hits_append hits_steps route_tables path_steps path_of_plain path_of_query path_of_optional split_steps split_plain
  plain_not_empty plain_encode plain_int match_steps gateway_steps call_method_def

end
