(* ===== verification/EmployerRoutes.thy ===== *)
theory EmployerRoutes imports ServiceRoutes EmployerApi begin

text \<open>
  The calls of src/frontend/src/lib/employerApi.ts against the gateway and the tables of the six
  employer services.
\<close>

subsection \<open>Expected handlers\<close>

definition portal_calls_1 ::
  "string \<Rightarrow> string \<Rightarrow> json \<Rightarrow> string option \<Rightarrow> int option \<Rightarrow> int option \<Rightarrow> (rest_call \<times> string) list" where
  "portal_calls_1 i s b t m m2 =
     [(employerPortalAPI_listUsers s m m2, ''ListPortalUsers''),
      (employerPortalAPI_createUser b, ''CreatePortalUser''),
      (employerPortalAPI_updateRole i s, ''UpdatePortalUserRole''),
      (employerPortalAPI_deactivateUser i, ''DeactivatePortalUser''),
      (employerPortalAPI_getDashboard s, ''GetDashboard''),
      (employerPortalAPI_listAlerts t, ''ListAlerts''),
      (employerPortalAPI_createAlert b, ''CreateAlert'')]"

definition portal_calls_2 ::
  "string \<Rightarrow> string option \<Rightarrow> bool \<Rightarrow> bool option \<Rightarrow> (rest_call \<times> string) list" where
  "portal_calls_2 s t u w =
     [(employerPortalAPI_listRateTables t w, ''ListRateTables''),
      (employerPortalAPI_getCurrentRate s u, ''GetCurrentRate''),
      (employerPortalAPI_listDivisions, ''ListDivisions'')]"

definition reporting_calls_1 ::
  "string \<Rightarrow> string \<Rightarrow> json \<Rightarrow> string option \<Rightarrow> int option \<Rightarrow> int option \<Rightarrow> (rest_call \<times> string) list" where
  "reporting_calls_1 i s b t m m2 =
     [(employerReportingAPI_listFiles s m m2, ''ListFiles''),
      (employerReportingAPI_getFile i, ''GetFile''),
      (employerReportingAPI_getRecords i m m2, ''ListRecords''),
      (employerReportingAPI_deleteFile i, ''DeleteFile''),
      (employerReportingAPI_submitManualEntry b, ''ManualEntry''),
      (employerReportingAPI_listExceptions s t m m2, ''ListExceptions''),
      (employerReportingAPI_getException i, ''GetException'')]"

definition reporting_calls_2 ::
  "string \<Rightarrow> string \<Rightarrow> json \<Rightarrow> int option \<Rightarrow> int option \<Rightarrow> (rest_call \<times> string) list" where
  "reporting_calls_2 i s b m m2 =
     [(employerReportingAPI_resolveException i s, ''ResolveException''),
      (employerReportingAPI_escalateException i, ''EscalateException''),
      (employerReportingAPI_setupPayment i s, ''SetupPayment''),
      (employerReportingAPI_listPayments s m m2, ''ListPayments''),
      (employerReportingAPI_cancelPayment i, ''CancelPayment''),
      (employerReportingAPI_submitCorrection b, ''SubmitCorrection''),
      (employerReportingAPI_getInterest i, ''GetInterest'')]"

definition enrollment_calls_1 ::
  "string \<Rightarrow> string \<Rightarrow> json \<Rightarrow> string option \<Rightarrow> int option \<Rightarrow> int option \<Rightarrow> (rest_call \<times> string) list" where
  "enrollment_calls_1 i s b t m m2 =
     [(employerEnrollmentAPI_createSubmission b, ''CreateSubmission''),
      (employerEnrollmentAPI_listSubmissions s t m m2, ''ListSubmissions''),
      (employerEnrollmentAPI_getSubmission i, ''GetSubmission''),
      (employerEnrollmentAPI_submitForValidation i, ''SubmitForValidation''),
      (employerEnrollmentAPI_approveSubmission i, ''ApproveSubmission''),
      (employerEnrollmentAPI_rejectSubmission i s, ''RejectSubmission''),
      (employerEnrollmentAPI_listPendingDuplicates s m m2, ''ListPendingDuplicates'')]"

definition enrollment_calls_2 ::
  "string \<Rightarrow> string \<Rightarrow> string \<Rightarrow> int option \<Rightarrow> int option \<Rightarrow> (rest_call \<times> string) list" where
  "enrollment_calls_2 i s s2 m m2 =
     [(employerEnrollmentAPI_listSubmissionDuplicates i, ''ListSubmissionDuplicates''),
      (employerEnrollmentAPI_resolveDuplicate i s s2, ''ResolveDuplicate''),
      (employerEnrollmentAPI_listPERAChoicePending s m m2, ''ListPERAChoicePending''),
      (employerEnrollmentAPI_getPERAChoiceElection i, ''GetPERAChoiceElection''),
      (employerEnrollmentAPI_electPERAChoice i s, ''ElectPERAChoice'')]"

definition terminations_calls_1 ::
  "string \<Rightarrow> string \<Rightarrow> json \<Rightarrow> string option \<Rightarrow> int option \<Rightarrow> int option \<Rightarrow> (rest_call \<times> string) list" where
  "terminations_calls_1 i s b t m m2 =
     [(employerTerminationsAPI_createCertification b, ''CreateCertification''),
      (employerTerminationsAPI_listCertifications s t m m2, ''ListCertifications''),
      (employerTerminationsAPI_getCertification i, ''GetCertification''),
      (employerTerminationsAPI_verifyCertification i, ''VerifyCertification''),
      (employerTerminationsAPI_rejectCertification i s, ''RejectCertification''),
      (employerTerminationsAPI_listHolds s t m m2, ''ListHolds''),
      (employerTerminationsAPI_getHold i, ''GetHold'')]"

definition terminations_calls_2 ::
  "string \<Rightarrow> string \<Rightarrow> string \<Rightarrow> json \<Rightarrow> string option \<Rightarrow> int option \<Rightarrow> int option \<Rightarrow> (rest_call \<times> string) list" where
  "terminations_calls_2 i s s2 b t m m2 =
     [(employerTerminationsAPI_resolveHold i s s2, ''ResolveHold''),
      (employerTerminationsAPI_escalateHold i, ''EscalateHold''),
      (employerTerminationsAPI_createRefund b, ''CreateRefundApplication''),
      (employerTerminationsAPI_listRefunds s t m m2, ''ListRefundApplications''),
      (employerTerminationsAPI_getRefund i, ''GetRefundApplication''),
      (employerTerminationsAPI_calculateRefund i s t, ''CalculateRefund''),
      (employerTerminationsAPI_setupPayment i b, ''SetupRefundPayment'')]"

definition terminations_calls_3 ::
  "string \<Rightarrow> (rest_call \<times> string) list" where
  "terminations_calls_3 i =
     [(employerTerminationsAPI_checkEligibility i, ''CheckEligibility'')]"

definition waret_calls_1 ::
  "string \<Rightarrow> string \<Rightarrow> json \<Rightarrow> string option \<Rightarrow> int option \<Rightarrow> int option \<Rightarrow> int option \<Rightarrow> (rest_call \<times> string) list" where
  "waret_calls_1 i s b t m m2 m3 =
     [(employerWaretAPI_createDesignation b, ''CreateDesignation''),
      (employerWaretAPI_listDesignations s m t m2 m3, ''ListDesignations''),
      (employerWaretAPI_getDesignation i, ''GetDesignation''),
      (employerWaretAPI_approveDesignation i, ''ApproveDesignation''),
      (employerWaretAPI_revokeDesignation i s, ''RevokeDesignation''),
      (employerWaretAPI_recordWorkDay b, ''RecordWorkDay''),
      (employerWaretAPI_listTracking s m m2, ''ListTracking'')]"

definition waret_calls_2 ::
  "string \<Rightarrow> string \<Rightarrow> json \<Rightarrow> int option \<Rightarrow> int option \<Rightarrow> int option \<Rightarrow> (rest_call \<times> string) list" where
  "waret_calls_2 i s b m m2 m3 =
     [(employerWaretAPI_getYTDSummary i, ''GetYTDSummary''),
      (employerWaretAPI_assessPenalty b, ''AssessPenalty''),
      (employerWaretAPI_listPenalties s m m2, ''ListPenalties''),
      (employerWaretAPI_appealPenalty i s, ''AppealPenalty''),
      (employerWaretAPI_waivePenalty i s, ''WaivePenalty''),
      (employerWaretAPI_createDisclosure b, ''CreateICDisclosure''),
      (employerWaretAPI_listDisclosures s m m2 m3, ''ListICDisclosures'')]"

definition waret_calls_3 ::
  "string \<Rightarrow> bool \<Rightarrow> (rest_call \<times> string) list" where
  "waret_calls_3 i u =
     [(employerWaretAPI_checkPERACare i u, ''CheckPERACare''),
      (employerWaretAPI_resolvePERACare i, ''ResolvePERACare'')]"

definition scp_calls_1 ::
  "string \<Rightarrow> string \<Rightarrow> string \<Rightarrow> json \<Rightarrow> int \<Rightarrow> string option \<Rightarrow> int option \<Rightarrow> int option \<Rightarrow> bool option \<Rightarrow> (rest_call \<times> string) list" where
  "scp_calls_1 i s s2 b n t m m2 w =
     [(employerScpAPI_listCostFactors t w m m2, ''ListCostFactors''),
      (employerScpAPI_lookupCostFactor s s2 n, ''LookupCostFactor''),
      (employerScpAPI_createCostFactor b, ''CreateCostFactor''),
      (employerScpAPI_generateQuote b, ''GenerateQuote''),
      (employerScpAPI_createRequest b, ''CreateRequest''),
      (employerScpAPI_getRequest i, ''GetRequest''),
      (employerScpAPI_listRequests s t m m2, ''ListRequests'')]"

definition scp_calls_2 ::
  "string \<Rightarrow> string \<Rightarrow> string \<Rightarrow> json \<Rightarrow> (rest_call \<times> string) list" where
  "scp_calls_2 i s s2 b =
     [(employerScpAPI_applyQuote i b, ''ApplyQuote''),
      (employerScpAPI_submitDocumentation i, ''SubmitDocumentation''),
      (employerScpAPI_approveRequest i, ''ApproveRequest''),
      (employerScpAPI_denyRequest i s, ''DenyRequest''),
      (employerScpAPI_recordPayment i s s2, ''RecordPayment''),
      (employerScpAPI_cancelRequest i, ''CancelRequest''),
      (employerScpAPI_checkEligibility s s2, ''CheckEligibility'')]"

subsection \<open>Evaluation\<close>

lemmas employer_base_steps = PORTAL_BASE_def REPORTING_BASE_def ENROLLMENT_BASE_def TERMINATIONS_BASE_def
  WARET_BASE_def SCP_BASE_def


lemma portal_calls_1_ok:
  assumes "plain_segment i"
  shows "list_all (reaches ''employer-portal'') (portal_calls_1 i s b t m m2)"
  using assms by (simp add: portal_calls_1_def route_steps employer_base_steps
      employerPortalAPI_listUsers_def employerPortalAPI_createUser_def employerPortalAPI_updateRole_def
      employerPortalAPI_deactivateUser_def employerPortalAPI_getDashboard_def employerPortalAPI_listAlerts_def
      employerPortalAPI_createAlert_def)

lemma portal_calls_2_ok:
  shows "list_all (reaches ''employer-portal'') (portal_calls_2 s t u w)"
  by (simp add: portal_calls_2_def route_steps employer_base_steps
      employerPortalAPI_listRateTables_def employerPortalAPI_getCurrentRate_def employerPortalAPI_listDivisions_def)

lemma reporting_calls_1_ok:
  assumes "plain_segment i"
  shows "list_all (reaches ''employer-reporting'') (reporting_calls_1 i s b t m m2)"
  using assms by (simp add: reporting_calls_1_def route_steps employer_base_steps
      employerReportingAPI_listFiles_def employerReportingAPI_getFile_def employerReportingAPI_getRecords_def
      employerReportingAPI_deleteFile_def employerReportingAPI_submitManualEntry_def employerReportingAPI_listExceptions_def
      employerReportingAPI_getException_def)

lemma reporting_calls_2_ok:
  assumes "plain_segment i"
  shows "list_all (reaches ''employer-reporting'') (reporting_calls_2 i s b m m2)"
  using assms by (simp add: reporting_calls_2_def route_steps employer_base_steps
      employerReportingAPI_resolveException_def employerReportingAPI_escalateException_def employerReportingAPI_setupPayment_def
      employerReportingAPI_listPayments_def employerReportingAPI_cancelPayment_def employerReportingAPI_submitCorrection_def
      employerReportingAPI_getInterest_def)

lemma enrollment_calls_1_ok:
  assumes "plain_segment i"
  shows "list_all (reaches ''employer-enrollment'') (enrollment_calls_1 i s b t m m2)"
  using assms by (simp add: enrollment_calls_1_def route_steps employer_base_steps
      employerEnrollmentAPI_createSubmission_def employerEnrollmentAPI_listSubmissions_def employerEnrollmentAPI_getSubmission_def
      employerEnrollmentAPI_submitForValidation_def employerEnrollmentAPI_approveSubmission_def employerEnrollmentAPI_rejectSubmission_def
      employerEnrollmentAPI_listPendingDuplicates_def)

lemma enrollment_calls_2_ok:
  assumes "plain_segment i"
  shows "list_all (reaches ''employer-enrollment'') (enrollment_calls_2 i s s2 m m2)"
  using assms by (simp add: enrollment_calls_2_def route_steps employer_base_steps
      employerEnrollmentAPI_listSubmissionDuplicates_def employerEnrollmentAPI_resolveDuplicate_def employerEnrollmentAPI_listPERAChoicePending_def
      employerEnrollmentAPI_getPERAChoiceElection_def employerEnrollmentAPI_electPERAChoice_def)

lemma terminations_calls_1_ok:
  assumes "plain_segment i"
  shows "list_all (reaches ''employer-terminations'') (terminations_calls_1 i s b t m m2)"
  using assms by (simp add: terminations_calls_1_def route_steps employer_base_steps
      employerTerminationsAPI_createCertification_def employerTerminationsAPI_listCertifications_def employerTerminationsAPI_getCertification_def
      employerTerminationsAPI_verifyCertification_def employerTerminationsAPI_rejectCertification_def employerTerminationsAPI_listHolds_def
      employerTerminationsAPI_getHold_def)

lemma terminations_calls_2_ok:
  assumes "plain_segment i"
  shows "list_all (reaches ''employer-terminations'') (terminations_calls_2 i s s2 b t m m2)"
  using assms by (simp add: terminations_calls_2_def route_steps employer_base_steps
      employerTerminationsAPI_resolveHold_def employerTerminationsAPI_escalateHold_def employerTerminationsAPI_createRefund_def
      employerTerminationsAPI_listRefunds_def employerTerminationsAPI_getRefund_def employerTerminationsAPI_calculateRefund_def
      employerTerminationsAPI_setupPayment_def)

lemma terminations_calls_3_ok:
  assumes "plain_segment i"
  shows "list_all (reaches ''employer-terminations'') (terminations_calls_3 i)"
  using assms by (simp add: terminations_calls_3_def route_steps employer_base_steps
      employerTerminationsAPI_checkEligibility_def)

lemma waret_calls_1_ok:
  assumes "plain_segment i"
  shows "list_all (reaches ''employer-waret'') (waret_calls_1 i s b t m m2 m3)"
  using assms by (simp add: waret_calls_1_def route_steps employer_base_steps
      employerWaretAPI_createDesignation_def employerWaretAPI_listDesignations_def employerWaretAPI_getDesignation_def
      employerWaretAPI_approveDesignation_def employerWaretAPI_revokeDesignation_def employerWaretAPI_recordWorkDay_def
      employerWaretAPI_listTracking_def)

lemma waret_calls_2_ok:
  assumes "plain_segment i"
  shows "list_all (reaches ''employer-waret'') (waret_calls_2 i s b m m2 m3)"
  using assms by (simp add: waret_calls_2_def route_steps employer_base_steps
      employerWaretAPI_getYTDSummary_def employerWaretAPI_assessPenalty_def employerWaretAPI_listPenalties_def
      employerWaretAPI_appealPenalty_def employerWaretAPI_waivePenalty_def employerWaretAPI_createDisclosure_def
      employerWaretAPI_listDisclosures_def)

lemma waret_calls_3_ok:
  assumes "plain_segment i"
  shows "list_all (reaches ''employer-waret'') (waret_calls_3 i u)"
  using assms by (simp add: waret_calls_3_def route_steps employer_base_steps
      employerWaretAPI_checkPERACare_def employerWaretAPI_resolvePERACare_def)

lemma scp_calls_1_ok:
  assumes "plain_segment i"
  shows "list_all (reaches ''employer-scp'') (scp_calls_1 i s s2 b n t m m2 w)"
  using assms by (simp add: scp_calls_1_def route_steps employer_base_steps
      employerScpAPI_listCostFactors_def employerScpAPI_lookupCostFactor_def employerScpAPI_createCostFactor_def
      employerScpAPI_generateQuote_def employerScpAPI_createRequest_def employerScpAPI_getRequest_def
      employerScpAPI_listRequests_def)

lemma scp_calls_2_ok:
  assumes "plain_segment i"
  shows "list_all (reaches ''employer-scp'') (scp_calls_2 i s s2 b)"
  using assms by (simp add: scp_calls_2_def route_steps employer_base_steps
      employerScpAPI_applyQuote_def employerScpAPI_submitDocumentation_def employerScpAPI_approveRequest_def
      employerScpAPI_denyRequest_def employerScpAPI_recordPayment_def employerScpAPI_cancelRequest_def
      employerScpAPI_checkEligibility_def)



end
