(* ===== verification/WireTypes.thy ===== *)
theory WireTypes imports ApiClient begin

text \<open>
  Types on the wire: what the client declares it gets (TypeScript) and what a service can send (a Go
  type under \<open>encoding/json\<close>), with a syntactic check that decides one against the other and is proved
  sound. The tables of declarations are in the theories of the clients.
\<close>

subsection \<open>TypeScript types\<close>

datatype ts_type =
    TString | TNumber | TBoolean | TNull | TUnknown
  | TLit string | TNumLit string
  | TUnion "ts_type list"
  | TArray ts_type
  | TRecord ts_type
  | TObject "(string \<times> bool \<times> ts_type) list"

lemma ts_field_size [termination_simp]:
  "(n, opt, t) \<in> set fs \<Longrightarrow> size t < Suc (size_list (size_prod (\<lambda>_. 0) (size_prod (\<lambda>_. 0) size)) fs)"
  by (induction fs) auto

text \<open>
  A value of the type. The flag says whether literals are told apart: without it a literal stands
  for any text (or number).
\<close>

function (sequential) conforms :: "bool \<Rightarrow> ts_type \<Rightarrow> json \<Rightarrow> bool" where
  "conforms s TUnknown j \<longleftrightarrow> True"
| "conforms s TString (JStr x) \<longleftrightarrow> True"
| "conforms s TNumber (JNum x) \<longleftrightarrow> True"
| "conforms s TBoolean (JBool b) \<longleftrightarrow> True"
| "conforms s TNull JNull \<longleftrightarrow> True"
| "conforms s (TLit x) (JStr y) \<longleftrightarrow> (s \<longrightarrow> x = y)"
| "conforms s (TNumLit x) (JNum y) \<longleftrightarrow> (s \<longrightarrow> x = y)"
| "conforms s (TUnion ts) j \<longleftrightarrow> list_ex (\<lambda>t. conforms s t j) ts"
| "conforms s (TArray t) (JArr js) \<longleftrightarrow> list_all (conforms s t) js"
| "conforms s (TRecord t) (JObj kvs) \<longleftrightarrow> list_all (\<lambda>kv. conforms s t (snd kv)) kvs"
| "conforms s (TObject fs) (JObj kvs) \<longleftrightarrow>
     list_all (\<lambda>(n, opt, t). case map_of kvs n of None \<Rightarrow> opt | Some j \<Rightarrow> conforms s t j) fs"
| "conforms s _ _ \<longleftrightarrow> False"
  by pat_completeness auto

termination conforms
  by (relation "measure (\<lambda>(_, t, _). size t)") (auto simp: termination_simp ts_field_size size_list_estimation)

subsection \<open>Go types\<close>

text \<open>
  A field of a struct: its name in JSON, whether it is \<open>omitempty\<close>, and its type. A value that may be
  nil is a pointer, or a slice or map the code may leave unmade: declared with \<open>var\<close> and only appended
  to, it is nil when nothing was found. \<open>GSlice\<close> and \<open>GMap\<close> alone are the ones the code always makes.
\<close>

datatype go_type =
    GString | GEnum "string list" | GInt | GFloat | GBool | GTime | GRaw
  | GNilable go_type
  | GSlice go_type
  | GMap go_type
  | GStruct "(string \<times> bool \<times> go_type) list"


lemma go_field_size [termination_simp]:
  "(n, opt, g) \<in> set fs \<Longrightarrow> size g < Suc (size_list (size_prod (\<lambda>_. 0) (size_prod (\<lambda>_. 0) size)) fs)"
  by (induction fs) auto

text \<open>What \<open>omitempty\<close> leaves out: it has no effect on a struct.\<close>

fun omittable :: "go_type \<Rightarrow> bool" where
  "omittable (GStruct _) = False"
| "omittable GTime = False"
| "omittable _ = True"

definition empty_value :: "json \<Rightarrow> bool" where
  "empty_value j \<longleftrightarrow> j \<in> {JNull, JStr [], JNum ''0'', JNum ''-0'', JBool False, JArr [], JObj []}"

text \<open>
  What \<open>json.Marshal\<close> makes of a value of the type: nil becomes \<open>null\<close>. Of a named string type only the
  declared constants are values.
\<close>

function (sequential) sends :: "go_type \<Rightarrow> json \<Rightarrow> bool" where
  "sends GString (JStr x) \<longleftrightarrow> True"
| "sends (GEnum cs) (JStr x) \<longleftrightarrow> x \<in> set cs"
| "sends GInt (JNum x) \<longleftrightarrow> True"
| "sends GFloat (JNum x) \<longleftrightarrow> True"
| "sends GBool (JBool b) \<longleftrightarrow> True"
| "sends GTime (JStr x) \<longleftrightarrow> x \<noteq> []"
| "sends GRaw j \<longleftrightarrow> j \<noteq> JUndef \<and> j \<noteq> JOpaque"
| "sends (GNilable g) j \<longleftrightarrow> j = JNull \<or> sends g j"
| "sends (GSlice g) (JArr js) \<longleftrightarrow> list_all (sends g) js"
| "sends (GMap g) (JObj kvs) \<longleftrightarrow> list_all (\<lambda>kv. sends g (snd kv)) kvs"
| "sends (GStruct fs) (JObj kvs) \<longleftrightarrow>
     list_all (\<lambda>(n, om, g). case map_of kvs n of
         None \<Rightarrow> om \<and> omittable g
       | Some j \<Rightarrow> sends g j \<and> (om \<and> omittable g \<longrightarrow> \<not> empty_value j)) fs
     \<and> list_all (\<lambda>kv. fst kv \<in> fst ` set fs) kvs \<and> distinct (map fst kvs)"
| "sends _ _ \<longleftrightarrow> False"
  by pat_completeness auto

termination sends
  by (relation "measure (\<lambda>(g, _). size g)") (auto simp: termination_simp go_field_size)

subsection \<open>A check of one type against the other\<close>

fun alts :: "ts_type \<Rightarrow> ts_type list" where
  "alts (TUnion ts) = concat (map alts ts)"
| "alts t = [t]"

lemma conforms_alts: "conforms s t j \<longleftrightarrow> list_ex (\<lambda>a. conforms s a j) (alts t)"
  by (induction t rule: alts.induct) (auto simp: list_ex_iff)

text \<open>A value that is there is not \<open>null\<close>: a nil field under \<open>omitempty\<close> is left out.\<close>

fun present :: "go_type \<Rightarrow> go_type" where
  "present (GNilable g) = g"
| "present g = g"

lemma present_size [termination_simp]: "size (present g) \<le> size g"
  by (cases g) auto

definition text_alt :: "bool \<Rightarrow> ts_type \<Rightarrow> bool" where
  "text_alt s a \<longleftrightarrow> (case a of TString \<Rightarrow> True | TUnknown \<Rightarrow> True | TLit _ \<Rightarrow> \<not> s | _ \<Rightarrow> False)"

definition number_alt :: "bool \<Rightarrow> ts_type \<Rightarrow> bool" where
  "number_alt s a \<longleftrightarrow> (case a of TNumber \<Rightarrow> True | TUnknown \<Rightarrow> True | TNumLit _ \<Rightarrow> \<not> s | _ \<Rightarrow> False)"

fun fits :: "bool \<Rightarrow> go_type \<Rightarrow> ts_type \<Rightarrow> bool" where
  "fits s GString t \<longleftrightarrow> list_ex (text_alt s) (alts t)"
| "fits s GTime t \<longleftrightarrow> list_ex (text_alt s) (alts t)"
| "fits s (GEnum cs) t \<longleftrightarrow> list_all (\<lambda>c. conforms s t (JStr c)) cs"
| "fits s GInt t \<longleftrightarrow> list_ex (number_alt s) (alts t)"
| "fits s GFloat t \<longleftrightarrow> list_ex (number_alt s) (alts t)"
| "fits s GBool t \<longleftrightarrow> list_ex (\<lambda>a. a = TBoolean \<or> a = TUnknown) (alts t)"
| "fits s GRaw t \<longleftrightarrow> list_ex (\<lambda>a. a = TUnknown) (alts t)"
| "fits s (GNilable g) t \<longleftrightarrow> conforms s t JNull \<and> fits s g t"
| "fits s (GSlice g) t \<longleftrightarrow> list_ex (\<lambda>a. case a of TArray e \<Rightarrow> fits s g e | TUnknown \<Rightarrow> True | _ \<Rightarrow> False) (alts t)"
| "fits s (GMap g) t \<longleftrightarrow> list_ex (\<lambda>a. case a of TRecord e \<Rightarrow> fits s g e | TUnknown \<Rightarrow> True | _ \<Rightarrow> False) (alts t)"
| "fits s (GStruct fs) t \<longleftrightarrow> list_ex (\<lambda>a. case a of
       TUnknown \<Rightarrow> True
     | TRecord e \<Rightarrow> list_all (\<lambda>(n, om, g). fits s g e) fs
     | TObject ts \<Rightarrow>
         list_all (\<lambda>(n, om, g). list_all (\<lambda>(m, opt, x).
             if m = n then (if om \<and> omittable g then opt \<and> fits s (present g) x else fits s g x)
             else True) ts) fs
         \<and> list_all (\<lambda>(n, opt, x). opt \<or> n \<in> fst ` set fs) ts
     | _ \<Rightarrow> False) (alts t)"


lemma conforms_alt: "a \<in> set (alts t) \<Longrightarrow> conforms s a j \<Longrightarrow> conforms s t j"
  by (subst conforms_alts) (auto simp: list_ex_iff)

lemma conforms_text: "list_ex (text_alt s) (alts t) \<Longrightarrow> conforms s t (JStr x)"
proof -
  have "text_alt s a \<Longrightarrow> conforms s a (JStr x)" for a by (cases a) (simp_all add: text_alt_def)
  then show "list_ex (text_alt s) (alts t) \<Longrightarrow> conforms s t (JStr x)"
    by (subst conforms_alts) (auto simp: list_ex_iff)
qed

lemma conforms_number: "list_ex (number_alt s) (alts t) \<Longrightarrow> conforms s t (JNum x)"
proof -
  have "number_alt s a \<Longrightarrow> conforms s a (JNum x)" for a by (cases a) (simp_all add: number_alt_def)
  then show "list_ex (number_alt s) (alts t) \<Longrightarrow> conforms s t (JNum x)"
    by (subst conforms_alts) (auto simp: list_ex_iff)
qed

lemma map_of_member: "map_of fs n = Some y \<Longrightarrow> (n, y) \<in> set fs"
  by (rule map_of_SomeD)

lemma sends_present: "sends g j \<Longrightarrow> \<not> empty_value j \<Longrightarrow> sends (present g) j"
  by (cases g) (auto simp: empty_value_def)

lemma sends_struct:
  assumes "sends (GStruct fs) j"
  obtains kvs where "j = JObj kvs" "set (map fst kvs) \<subseteq> fst ` set fs" "distinct (map fst kvs)"
    "\<And>n om g. (n, om, g) \<in> set fs \<Longrightarrow> (case map_of kvs n of None \<Rightarrow> om \<and> omittable g
       | Some j \<Rightarrow> sends g j \<and> (om \<and> omittable g \<longrightarrow> \<not> empty_value j))"
proof (cases j)
  case (JObj kvs)
  with assms show thesis by (intro that[of kvs]) (auto simp: list_all_iff)
qed (use assms in simp_all)

lemma object_conforms:
  assumes "sends (GStruct fs) j"
    and field: "\<And>n om g opt x j'. \<lbrakk>(n, om, g) \<in> set fs; (n, opt, x) \<in> set ts; sends g j';
        om \<and> omittable g \<longrightarrow> \<not> empty_value j'\<rbrakk> \<Longrightarrow> conforms s x j'"
    and opt: "\<And>n om g opt x. \<lbrakk>(n, om, g) \<in> set fs; (n, opt, x) \<in> set ts; om \<and> omittable g\<rbrakk> \<Longrightarrow> opt"
    and req: "list_all (\<lambda>(n, opt, x). opt \<or> n \<in> fst ` set fs) ts"
  shows "conforms s (TObject ts) j"
proof -
  obtain kvs where j: "j = JObj kvs" and sub: "set (map fst kvs) \<subseteq> fst ` set fs"
    and val: "\<And>n om g. (n, om, g) \<in> set fs \<Longrightarrow> (case map_of kvs n of None \<Rightarrow> om \<and> omittable g
       | Some j \<Rightarrow> sends g j \<and> (om \<and> omittable g \<longrightarrow> \<not> empty_value j))"
    by (rule sends_struct[OF assms(1)]) blast
  have "case map_of kvs n of None \<Rightarrow> opt | Some j' \<Rightarrow> conforms s x j'" if m: "(n, opt, x) \<in> set ts" for n opt x
  proof (cases "map_of kvs n")
    case None
    have "opt \<or> n \<in> fst ` set fs" using req m by (auto simp: list_all_iff)
    then show ?thesis using None m opt val by fastforce
  next
    case (Some j')
    have "n \<in> set (map fst kvs)" using Some by (force dest: map_of_SomeD)
    then have "n \<in> fst ` set fs" using sub by blast
    then obtain om g where "(n, om, g) \<in> set fs" by auto
    then show ?thesis using val[of n om g] Some field[of n om g opt x j'] m by simp
  qed
  then show ?thesis by (auto simp: j list_all_iff)
qed

lemma record_conforms:
  assumes "sends (GStruct fs) j"
    and "\<And>n om g j'. (n, om, g) \<in> set fs \<Longrightarrow> sends g j' \<Longrightarrow> conforms s e j'"
  shows "conforms s (TRecord e) j"
proof -
  obtain kvs where j: "j = JObj kvs" and sub: "set (map fst kvs) \<subseteq> fst ` set fs"
    and dist: "distinct (map fst kvs)"
    and val: "\<And>n om g. (n, om, g) \<in> set fs \<Longrightarrow> (case map_of kvs n of None \<Rightarrow> om \<and> omittable g
       | Some j \<Rightarrow> sends g j \<and> (om \<and> omittable g \<longrightarrow> \<not> empty_value j))"
    by (rule sends_struct[OF assms(1)]) blast
  have "conforms s e (snd kv)" if "kv \<in> set kvs" for kv
  proof -
    have "fst kv \<in> fst ` set fs" using sub that by auto
    then obtain om g where "(fst kv, om, g) \<in> set fs" by auto
    moreover have "map_of kvs (fst kv) = Some (snd kv)" using dist that by simp
    ultimately show ?thesis using val assms(2) by fastforce
  qed
  then show ?thesis by (simp add: j list_all_iff)
qed

lemma fits_sound: "fits s g t \<Longrightarrow> sends g j \<Longrightarrow> conforms s t j"
proof (induction g arbitrary: t j rule: measure_induct_rule[where f = size])
  case (less g)
  show ?case
  proof (cases g)
    case GString
    with less show ?thesis using conforms_text by (cases j) auto
  next
    case (GEnum cs)
    with less show ?thesis by (cases j) (auto simp: list_all_iff)
  next
    case GInt
    with less show ?thesis using conforms_number by (cases j) auto
  next
    case GFloat
    with less show ?thesis using conforms_number by (cases j) auto
  next
    case GBool
    with less show ?thesis by (cases j) (auto simp: list_ex_iff intro: conforms_alt)
  next
    case GTime
    with less show ?thesis using conforms_text by (cases j) auto
  next
    case GRaw
    with less show ?thesis by (auto simp: list_ex_iff intro: conforms_alt)
  next
    case (GNilable h)
    with less show ?thesis by auto
  next
    case (GSlice h)
    then obtain js where j: "j = JArr js" "list_all (sends h) js" using less.prems by (cases j) auto
    obtain a where a: "a \<in> set (alts t)"
      "case a of TArray e \<Rightarrow> fits s h e | TUnknown \<Rightarrow> True | _ \<Rightarrow> False"
      using less.prems(1) GSlice by (auto simp: list_ex_iff)
    have "conforms s a j"
    proof (cases a)
      case (TArray e)
      have "conforms s e x" if "x \<in> set js" for x
        using less.IH[of h e x] GSlice a TArray j that by (auto simp: list_all_iff)
      then show ?thesis by (simp add: TArray j list_all_iff)
    qed (use a in simp_all)
    then show ?thesis by (rule conforms_alt[OF a(1)])
  next
    case (GMap h)
    then obtain kvs where j: "j = JObj kvs" "list_all (\<lambda>kv. sends h (snd kv)) kvs" using less.prems by (cases j) auto
    obtain a where a: "a \<in> set (alts t)"
      "case a of TRecord e \<Rightarrow> fits s h e | TUnknown \<Rightarrow> True | _ \<Rightarrow> False"
      using less.prems(1) GMap by (auto simp: list_ex_iff)
    have "conforms s a j"
    proof (cases a)
      case (TRecord e)
      have "conforms s e (snd kv)" if "kv \<in> set kvs" for kv
        using less.IH[of h e "snd kv"] GMap a TRecord j that
        by (auto simp: list_all_iff)
      then show ?thesis by (simp add: TRecord j list_all_iff)
    qed (use a in simp_all)
    then show ?thesis by (rule conforms_alt[OF a(1)])
  next
    case (GStruct fs)
    then obtain a where a: "a \<in> set (alts t)" and fit: "case a of
         TUnknown \<Rightarrow> True
       | TRecord e \<Rightarrow> list_all (\<lambda>(n, om, g). fits s g e) fs
       | TObject ts \<Rightarrow>
           list_all (\<lambda>(n, om, g). list_all (\<lambda>(m, opt, x).
             if m = n then (if om \<and> omittable g then opt \<and> fits s (present g) x else fits s g x)
             else True) ts) fs
           \<and> list_all (\<lambda>(n, opt, x). opt \<or> n \<in> fst ` set fs) ts
       | _ \<Rightarrow> False"
      using less.prems(1) unfolding GStruct fits.simps list_ex_iff by blast
    have sent: "sends (GStruct fs) j" using less.prems(2) GStruct by simp
    have smaller: "size (present h) < size g" "size h < size g" if "(n, om, h) \<in> set fs" for n om h
      using go_field_size[OF that] present_size[of h] by (simp_all add: GStruct)
    have "conforms s a j"
    proof (cases a)
      case (TRecord e)
      show ?thesis unfolding TRecord
        by (rule record_conforms[OF sent]) (use less.IH smaller fit TRecord in \<open>force simp: list_all_iff\<close>)
    next
      case (TObject ts)
      have pair: "if om \<and> omittable h then opt \<and> fits s (present h) x else fits s h x"
        if "(n, om, h) \<in> set fs" "(n, opt, x) \<in> set ts" for n om h opt x
        using fit that by (fastforce simp: TObject list_all_iff)
      show ?thesis unfolding TObject
      proof (rule object_conforms[OF sent])
        fix n om h opt x j'
        assume m: "(n, om, h) \<in> set fs" "(n, opt, x) \<in> set ts" and v: "sends h j'"
          and e: "om \<and> omittable h \<longrightarrow> \<not> empty_value j'"
        show "conforms s x j'"
          using pair[OF m] less.IH[OF smaller(1)[OF m(1)], of x j'] less.IH[OF smaller(2)[OF m(1)], of x j']
            sends_present[OF v] v e by (auto split: if_splits)
      next
        fix n om h opt x
        assume "(n, om, h) \<in> set fs" "(n, opt, x) \<in> set ts" "om \<and> omittable h"
        then show opt using pair[of n om h opt x] by simp
      qed (use fit TObject in simp)
    qed (use fit in simp_all)
    then show ?thesis by (rule conforms_alt[OF a])
  qed
qed


text \<open>The other side: a declared field the service never sends, or another kind of value.\<close>

fun clash :: "go_type \<Rightarrow> ts_type \<Rightarrow> bool" where
  "clash (GStruct fs) (TObject ts) \<longleftrightarrow>
     list_ex (\<lambda>(n, opt, x). \<not> opt \<and> n \<notin> fst ` set fs) ts
     \<or> list_ex (\<lambda>(n, om, g). \<not> (om \<and> omittable g) \<and>
          list_ex (\<lambda>(m, opt, x). if m = n then list_all (clash g) (alts x) else False) ts) fs"
| "clash (GStruct fs) (TArray t) \<longleftrightarrow> True"
| "clash (GStruct fs) TNull \<longleftrightarrow> True"
| "clash GString TNumber \<longleftrightarrow> True"
| "clash g t \<longleftrightarrow> False"

definition never_fits :: "go_type \<Rightarrow> ts_type \<Rightarrow> bool" where
  "never_fits g t \<longleftrightarrow> list_all (clash g) (alts t)"

text \<open>Of a list the items: then only the empty list has the type.\<close>

fun mistyped :: "go_type \<Rightarrow> ts_type \<Rightarrow> bool" where
  "mistyped (GSlice g) (TArray t) \<longleftrightarrow> never_fits g t"
| "mistyped (GNilable (GSlice g)) (TArray t) \<longleftrightarrow> never_fits g t"
| "mistyped g t \<longleftrightarrow> never_fits g t"

lemma map_of_lowered: "map_of (map low.field kvs) n = map_option (\<lambda>v. snd (low.field (n, v))) (map_of kvs n)"
proof (induction kvs)
  case (Cons kv kvs)
  then show ?case by (cases kv) (simp add: low.field_simps(1) prod_eq_iff[symmetric] split: prod.split)
qed simp

text \<open>A value as it was sent, or as the case transform of the answers leaves it.\<close>

definition arrives_as :: "json \<Rightarrow> json \<Rightarrow> bool" where
  "arrives_as j k \<longleftrightarrow> k = j \<or> k = lowercaseEnums j \<or> (\<exists>x y. j = JStr x \<and> k = JStr y)"

lemma arrives_as_self [simp]: "arrives_as j j" "arrives_as j (lowercaseEnums j)"
  by (simp_all add: arrives_as_def)

lemma arrives_as_object:
  assumes "arrives_as (JObj kvs) k"
  obtains kvs' where "k = JObj kvs'" and "\<And>n. map_of kvs n = None \<Longrightarrow> map_of kvs' n = None"
    and "\<And>n v. map_of kvs n = Some v \<Longrightarrow> \<exists>w. map_of kvs' n = Some w \<and> arrives_as v w"
proof (cases "k = JObj kvs")
  case False
  then have k: "k = JObj (map low.field kvs)"
    using assms low.T_obj_field by (auto simp: arrives_as_def simp del: lowercaseEnums.simps)
  have "arrives_as v (snd (low.field (n, v)))" for n v
    by (cases "\<exists>x. v = JStr x") (auto simp: arrives_as_def split: if_splits)
  then show ?thesis by (intro that[OF k]) (auto simp: map_of_lowered)
qed (use that in auto)

lemma arrives_as_kind:
  assumes "arrives_as j k"
  shows "j = JStr x \<Longrightarrow> \<exists>y. k = JStr y" "j = JObj kvs \<Longrightarrow> \<exists>kvs'. k = JObj kvs'"
  using assms by (auto simp: arrives_as_def)

lemma clash_sound: "clash g a \<Longrightarrow> sends g j \<Longrightarrow> arrives_as j k \<Longrightarrow> \<not> conforms s a k"
proof (induction g arbitrary: a j k rule: measure_induct_rule[where f = size])
  case (less g)
  show ?case
  proof (cases "\<exists>fs ts. g = GStruct fs \<and> a = TObject ts")
    case False
    have "g = GString \<Longrightarrow> \<exists>x. j = JStr x" "g = GStruct fs \<Longrightarrow> \<exists>kvs. j = JObj kvs" for fs
      using less.prems(2) by (cases j; simp)+
    with False less.prems arrives_as_kind[OF less.prems(3)] show ?thesis
      by (cases "(g, a)" rule: clash.cases) fastforce+
  next
    case True
    then obtain fs ts where g: "g = GStruct fs" and a: "a = TObject ts" by blast
    obtain kvs where j: "j = JObj kvs" and sub: "set (map fst kvs) \<subseteq> fst ` set fs"
      and val: "\<And>n om h. (n, om, h) \<in> set fs \<Longrightarrow> (case map_of kvs n of None \<Rightarrow> om \<and> omittable h
         | Some j \<Rightarrow> sends h j \<and> (om \<and> omittable h \<longrightarrow> \<not> empty_value j))"
      by (rule sends_struct[OF less.prems(2)[unfolded g]]) blast
    obtain kvs' where k: "k = JObj kvs'" and none: "\<And>n. map_of kvs n = None \<Longrightarrow> map_of kvs' n = None"
      and some: "\<And>n v. map_of kvs n = Some v \<Longrightarrow> \<exists>w. map_of kvs' n = Some w \<and> arrives_as v w"
      by (rule arrives_as_object[OF less.prems(3)[unfolded j]]) blast
    consider n x where "(n, False, x) \<in> set ts" "n \<notin> fst ` set fs"
      | n om h opt x where "(n, om, h) \<in> set fs" "\<not> (om \<and> omittable h)" "(n, opt, x) \<in> set ts"
          "list_all (clash h) (alts x)"
      using less.prems(1) by (auto simp: g a list_ex_iff split: if_splits)
    then show ?thesis
    proof cases
      case 1
      then have "map_of kvs n = None" using sub by (auto simp: map_of_eq_None_iff)
      then show ?thesis using 1 none by (force simp: k a list_all_iff)
    next
      case 2
      obtain v where v: "map_of kvs n = Some v" "sends h v" using val[OF 2(1)] 2(2) by (auto split: option.splits)
      obtain w where w: "map_of kvs' n = Some w" "arrives_as v w" using some[OF v(1)] by blast
      have "size h < size g" using go_field_size[OF 2(1)] by (simp add: g)
      then have "\<not> conforms s b w" if "b \<in> set (alts x)" for b
        using less.IH[of h b v w] v(2) w(2) 2(4) that by (auto simp: list_all_iff)
      then have "\<not> conforms s x w" by (subst conforms_alts) (auto simp: list_ex_iff)
      then show ?thesis using 2(3) w(1) by (force simp: k a list_all_iff)
    qed
  qed
qed

lemma never_fits_sound: "never_fits g t \<Longrightarrow> sends g j \<Longrightarrow> arrives_as j k \<Longrightarrow> \<not> conforms s t k"
  by (subst conforms_alts) (auto simp: never_fits_def list_all_iff list_ex_iff dest: clash_sound)

lemma mistyped_never: "never_fits g t \<Longrightarrow> mistyped g t"
  by (cases "(g, t)" rule: mistyped.cases) (auto simp: never_fits_def)

lemma mistyped_items:
  assumes "never_fits h e" "sends (GSlice h) j" "k = j \<or> k = lowercaseEnums j" "conforms s (TArray e) k"
  shows "k = JArr []"
proof -
  obtain js where j: "j = JArr js" using assms(2) by (cases j) auto
  show ?thesis using assms never_fits_sound[of h e _ _ s] by (cases js) (auto simp: j)
qed

lemma mistyped_sound:
  assumes "mistyped g t" "sends g j" "k = j \<or> k = lowercaseEnums j" "conforms s t k"
  shows "k = JArr []"
proof (cases "(\<exists>h e. g = GSlice h \<and> t = TArray e) \<or> (\<exists>h e. g = GNilable (GSlice h) \<and> t = TArray e)")
  case True
  then show ?thesis using assms mistyped_items by auto
next
  case False
  then have "never_fits g t" using assms(1) by (cases "(g, t)" rule: mistyped.cases) auto
  then show ?thesis using never_fits_sound assms arrives_as_self by blast
qed

subsection \<open>Answers\<close>

text \<open>
  The helpers of src/platform/apiresponse: \<open>WriteSuccess\<close>, \<open>WritePaginated\<close> and \<open>WriteJSON\<close>, with the
  type of the value they are given. The first two put it into an envelope, the last does not, unless
  the handler has put it under \<open>data\<close> itself.
\<close>

datatype reply =
    is_Write_success: Write_success (payload_type: go_type)
  | is_Write_paginated: Write_paginated (payload_type: go_type)
  | is_Write_data: Write_data (payload_type: go_type)
  | is_Write_json: Write_json (payload_type: go_type)

fun answer_body :: "reply \<Rightarrow> json \<Rightarrow> json \<Rightarrow> json \<Rightarrow> json" where
  "answer_body (Write_success _) d pg meta = JObj [(''data'', d), (''meta'', meta)]"
| "answer_body (Write_paginated _) d pg meta = JObj [(''data'', d), (''meta'', meta), (''pagination'', pg)]"
| "answer_body (Write_data _) d pg meta = JObj [(''data'', d)]"
| "answer_body (Write_json _) d pg meta = d"

definition received :: "bool \<Rightarrow> json \<Rightarrow> exn + json" where
  "received raw body = (case read_data body of
     Inl e \<Rightarrow> Inl e | Inr d \<Rightarrow> Inr (if raw then d else lowercaseEnums d))"

lemma request_received:
  assumes "rawRequest env tok url init tm = (evs, Inr body, tok')"
  shows "request env tok url init tm raw = (evs, received raw body, tok')"
  by (simp add: request_def received_def assms)

lemma received_envelope:
  assumes "\<not> is_Write_json r"
  shows "received True (answer_body r d pg meta) = Inr d"
  using assms by (cases r) (simp_all add: received_def read_data_def)

text \<open>Without the envelope there is no \<open>data\<close> to read.\<close>

lemma received_bare:
  assumes "sends g d" and "case g of GStruct fs \<Rightarrow> ''data'' \<notin> fst ` set fs | GSlice _ \<Rightarrow> True | _ \<Rightarrow> False"
  shows "read_data d = Inr JUndef"
proof (cases g)
  case (GStruct fs)
  obtain kvs where j: "d = JObj kvs" and sub: "set (map fst kvs) \<subseteq> fst ` set fs"
    by (rule sends_struct[OF assms(1)[unfolded GStruct]]) blast
  have "map_of kvs ''data'' = None" using sub assms(2) by (auto simp: GStruct map_of_eq_None_iff)
  then show ?thesis by (simp add: read_data_def j)
next
  case (GSlice h)
  then obtain js where "d = JArr js" using assms(1) by (cases d) auto
  then show ?thesis by (simp add: read_data_def)
qed (use assms in simp_all)


text \<open>A network that answers with the body at once.\<close>

definition answering :: "json \<Rightarrow> api_env" where
  "answering body = \<lparr>ae_net = (\<lambda>_. Replied 200 ''OK'' (Body body)),
     ae_refresher = None, ae_request_id = ''r1'', ae_pathname = Some ''/''\<rparr>"

lemma rawRequest_answering:
  "\<exists>evs. rawRequest (answering body) tok url init tm = (evs, Inr body, tok)"
  by (simp add: rawRequest_def raw_loop.simps[of _ _ _ _ 0] answering_def after_fetch_def response_ok_def
      MAX_RETRIES_def Let_def)


subsection \<open>Through the client\<close>

text \<open>Without literals a type does not see the case transform of the answers.\<close>

lemma alts_no_union: "a \<in> set (alts t) \<Longrightarrow> a \<noteq> TUnion ts"
  by (induction t arbitrary: a rule: alts.induct) auto

lemma conforms_text_any: "conforms False t (JStr x) \<Longrightarrow> conforms False t (JStr y)"
proof -
  have "a \<in> set (alts t) \<Longrightarrow> conforms False a (JStr x) \<Longrightarrow> conforms False a (JStr y)" for a
    using alts_no_union[of a t] by (cases a) auto
  then show "conforms False t (JStr x) \<Longrightarrow> conforms False t (JStr y)"
    unfolding conforms_alts[of _ t] list_ex_iff by blast
qed

lemma lowered_value:
  assumes "\<And>j. conforms False t j \<Longrightarrow> conforms False t (lowercaseEnums j)" "conforms False t (snd kv)"
  shows "conforms False t (snd (low.field kv))"
proof (cases kv)
  case (Pair k v)
  show ?thesis
  proof (cases "\<exists>x. v = JStr x")
    case True
    then show ?thesis using assms conforms_text_any by (auto simp: Pair)
  next
    case False
    then show ?thesis using assms by (simp add: Pair)
  qed
qed

lemma conforms_lowered: "conforms False t j \<Longrightarrow> conforms False t (lowercaseEnums j)"
proof (induction t arbitrary: j)
  case (TUnion ts)
  then show ?case by (auto simp: list_ex_iff)
next
  case (TArray t)
  then show ?case by (cases j) (auto simp: list_all_iff)
next
  case (TRecord t)
  then obtain kvs where j: "j = JObj kvs" by (cases j) auto
  show ?case using TRecord.prems lowered_value[OF TRecord.IH]
    by (auto simp: j list_all_iff low.T_obj_field simp del: lowercaseEnums.simps)
next
  case (TObject fs)
  then obtain kvs where j: "j = JObj kvs" by (cases j) auto
  have "case map_of (map low.field kvs) n of None \<Rightarrow> opt | Some j \<Rightarrow> conforms False t j"
    if m: "(n, opt, t) \<in> set fs" for n opt t
  proof -
    have "case map_of kvs n of None \<Rightarrow> opt | Some j \<Rightarrow> conforms False t j"
      using TObject.prems m by (auto simp: j list_all_iff)
    moreover have "conforms False t x \<Longrightarrow> conforms False t (lowercaseEnums x)" for x
      using TObject.IH[OF m] by (simp add: snds.simps)
    ultimately show ?thesis using lowered_value[of t "(n, _)"] by (auto simp: map_of_lowered split: option.splits)
  qed
  then show ?case by (auto simp: j list_all_iff low.T_obj_field simp del: lowercaseEnums.simps)
qed (auto elim: conforms.elims)


text \<open>
  A checked answer arrives with the declared type, or as \<open>null\<close> where the service has nothing; an answer
  that never fits arrives without it.
\<close>

lemma fits_present [simp]: "fits s g t \<Longrightarrow> fits s (present g) t"
  by (cases g) auto

fun may_be_nil :: "go_type \<Rightarrow> bool" where
  "may_be_nil (GNilable g) \<longleftrightarrow> True"
| "may_be_nil g \<longleftrightarrow> False"

lemma sends_or_nil: "sends g j \<Longrightarrow> sends (present g) j \<or> (j = JNull \<and> may_be_nil g)"
  by (cases g) auto

lemma typed_answer:
  assumes "fits s (present (payload_type r)) t \<and> \<not> is_Write_json r" and "sends (payload_type r) d"
    and "rawRequest env tok url init tm = (evs, Inr (answer_body r d pg meta), tok')"
  shows "\<exists>x. request env tok url init tm True = (evs, Inr x, tok')
     \<and> (conforms s t x \<or> (x = JNull \<and> may_be_nil (payload_type r)))"
  using assms received_envelope[of r d pg meta] fits_sound[of s _ t d] sends_or_nil[OF assms(2)]
    request_received[OF assms(3), of True] by auto

lemma typed_answer_lowered:
  assumes "fits False (present (payload_type r)) t \<and> \<not> is_Write_json r" and "sends (payload_type r) d"
    and "rawRequest env tok url init tm = (evs, Inr (answer_body r d pg meta), tok')"
  shows "\<exists>x. request env tok url init tm False = (evs, Inr x, tok')
     \<and> (conforms False t x \<or> (x = JNull \<and> may_be_nil (payload_type r)))"
proof -
  have "received False (answer_body r d pg meta) = Inr (lowercaseEnums d)"
    using assms(1) by (cases r) (simp_all add: received_def read_data_def)
  then show ?thesis
    using request_received[OF assms(3), of False] conforms_lowered fits_sound assms(1) sends_or_nil[OF assms(2)] by auto
qed

lemma mistyped_answer:
  assumes "mistyped (payload_type r) t \<and> \<not> is_Write_json r" and "sends (payload_type r) d"
    and "rawRequest env tok url init tm = (evs, Inr (answer_body r d pg meta), tok')"
  shows "request env tok url init tm True = (evs, Inr d, tok') \<and> (conforms s t d \<longrightarrow> d = JArr [])"
  using assms received_envelope[of r d pg meta] mistyped_sound[of _ t d d s] request_received by auto

lemma mistyped_answer_lowered:
  assumes "mistyped (payload_type r) t \<and> \<not> is_Write_json r" and "sends (payload_type r) d"
    and "rawRequest env tok url init tm = (evs, Inr (answer_body r d pg meta), tok')"
  shows "\<exists>x. request env tok url init tm False = (evs, Inr x, tok') \<and> (conforms s t x \<longrightarrow> x = JArr [])"
proof -
  have "received False (answer_body r d pg meta) = Inr (lowercaseEnums d)"
    using assms(1) by (cases r) (simp_all add: received_def read_data_def)
  then show ?thesis using request_received[OF assms(3), of False] mistyped_sound[of _ t d _ s] assms(1,2) by auto
qed

fun has_no_data :: "go_type \<Rightarrow> bool" where
  "has_no_data (GStruct fs) \<longleftrightarrow> ''data'' \<notin> fst ` set fs"
| "has_no_data (GSlice g) \<longleftrightarrow> True"
| "has_no_data g \<longleftrightarrow> False"

lemma bare_answer:
  assumes "has_no_data (payload_type r) \<and> is_Write_json r" and "sends (payload_type r) d"
    and "rawRequest env tok url init tm = (evs, Inr (answer_body r d pg meta), tok')"
  shows "request env tok url init tm raw = (evs, Inr JUndef, tok')"
proof -
  have "read_data d = Inr JUndef"
    using received_bare[OF assms(2)] assms(1) by (cases "payload_type r") auto
  moreover have "answer_body r d pg meta = d" using assms(1) by (cases r) auto
  ultimately have "received raw (answer_body r d pg meta) = Inr JUndef" by (simp add: received_def)
  then show ?thesis using request_received[OF assms(3), of raw] by simp
qed


text \<open>Of a page the client also takes \<open>pagination\<close>, and falls back to an empty first page.\<close>

definition no_page :: json where
  "no_page = JObj [(''total'', jint 0), (''limit'', jint 25), (''offset'', jint 0), (''hasMore'', JBool False)]"

lemma typed_page:
  assumes "fits False (present (payload_type r)) t \<and> is_Write_paginated r \<and> (\<exists>g. present (payload_type r) = GSlice g)"
    and "sends (payload_type r) d" and "pg \<noteq> JUndef" "pg \<noteq> JNull"
    and "rawRequest env tok url empty_init (fo_timeout opts) = (evs, Inr (answer_body r d pg meta), tok')"
    and "\<not> fo_raw opts"
  shows "\<exists>items. fetchPaginatedAPI env tok url opts = (evs, Inr (items, pg), tok') \<and> conforms False t items"
proof -
  obtain g where g: "present (payload_type r) = GSlice g" using assms(1) by blast
  have body: "answer_body r d' pg meta = JObj [(''data'', d'), (''meta'', meta), (''pagination'', pg)]" for d'
    using assms(1) by (cases r) auto
  show ?thesis
  proof (cases "d = JNull")
    case True
    have "sends (GSlice g) (JArr [])" by simp
    then have "conforms False t (JArr [])" using assms(1) fits_sound unfolding g by blast
    then show ?thesis using assms(3-6) by (simp add: fetchPaginatedAPI_def body read_data_def True Let_def)
  next
    case False
    then have sent: "sends (GSlice g) d" using sends_or_nil[OF assms(2)] g by simp
    then obtain js where d: "d = JArr js" by (cases d) auto
    have "conforms False t (lowercaseEnums d)" using assms(1) sent fits_sound conforms_lowered unfolding g by blast
    then show ?thesis using assms(3-6) by (simp add: fetchPaginatedAPI_def body read_data_def d Let_def)
  qed
qed

fun has_no_page :: "go_type \<Rightarrow> bool" where
  "has_no_page (GStruct fs) \<longleftrightarrow> ''data'' \<notin> fst ` set fs \<and> ''pagination'' \<notin> fst ` set fs"
| "has_no_page g \<longleftrightarrow> False"

lemma bare_page:
  assumes "has_no_page (payload_type r) \<and> is_Write_json r" and "sends (payload_type r) d"
    and "rawRequest env tok url empty_init (fo_timeout opts) = (evs, Inr (answer_body r d pg meta), tok')"
  shows "fetchPaginatedAPI env tok url opts = (evs, Inr (JArr [], no_page), tok')"
proof -
  obtain fs where g: "payload_type r = GStruct fs" "''data'' \<notin> fst ` set fs" "''pagination'' \<notin> fst ` set fs"
    using assms(1) by (cases "payload_type r") auto
  obtain kvs where d: "d = JObj kvs" and sub: "set (map fst kvs) \<subseteq> fst ` set fs"
    by (rule sends_struct[OF assms(2)[unfolded g(1)]]) blast
  have "map_of kvs ''data'' = None" "map_of kvs ''pagination'' = None"
    using sub g(2,3) by (auto simp: map_of_eq_None_iff)
  moreover have "answer_body r d pg meta = d" using assms(1) by (cases r) auto
  ultimately show ?thesis using assms(3) by (simp add: fetchPaginatedAPI_def read_data_def d no_page_def Let_def)
qed

text \<open>A list sent without a page: its items arrive, with the pagination of an empty first page.\<close>

lemma mistyped_unpaged:
  assumes "mistyped (payload_type r) t \<and> is_Write_success r \<and> (\<exists>g. present (payload_type r) = GSlice g)"
    and "sends (payload_type r) d"
    and "rawRequest env tok url empty_init (fo_timeout opts) = (evs, Inr (answer_body r d pg meta), tok')"
    and "\<not> fo_raw opts"
  shows "\<exists>items. fetchPaginatedAPI env tok url opts = (evs, Inr (items, no_page), tok')
     \<and> (conforms s t items \<longrightarrow> items = JArr [])"
proof -
  have body: "answer_body r d' pg meta = JObj [(''data'', d'), (''meta'', meta)]" for d' using assms(1) by (cases r) auto
  show ?thesis
  proof (cases "d = JNull")
    case True
    then show ?thesis using assms(3,4) by (simp add: fetchPaginatedAPI_def body read_data_def Let_def no_page_def)
  next
    case False
    obtain g where "present (payload_type r) = GSlice g" using assms(1) by blast
    then have "sends (GSlice g) d" using False sends_or_nil[OF assms(2)] by simp
    then obtain js where d: "d = JArr js" by (cases d) auto
    have "conforms s t (lowercaseEnums d) \<longrightarrow> lowercaseEnums d = JArr []"
      using assms(1,2) mistyped_sound[of _ t d _ s] by blast
    then show ?thesis using assms(3,4) by (simp add: fetchPaginatedAPI_def body read_data_def d Let_def no_page_def)
  qed
qed

text \<open>
  A list that may be nil: found empty it is sent as \<open>null\<close>, which is what the caller gets and no list.
\<close>

fun list_type :: "ts_type \<Rightarrow> bool" where
  "list_type (TArray t) \<longleftrightarrow> True"
| "list_type t \<longleftrightarrow> False"

definition nil_list :: "reply \<Rightarrow> ts_type \<Rightarrow> bool" where
  "nil_list r t \<longleftrightarrow> may_be_nil (payload_type r) \<and> list_type t \<and> \<not> is_Write_json r"

lemma nil_list_answer:
  assumes "nil_list r t"
    and "rawRequest env tok url init tm = (evs, Inr (answer_body r JNull pg meta), tok')"
  shows "sends (payload_type r) JNull \<and> request env tok url init tm raw = (evs, Inr JNull, tok') \<and> \<not> conforms s t JNull"
proof -
  obtain e g where t: "t = TArray e" "payload_type r = GNilable g" "\<not> is_Write_json r"
    using assms(1) by (cases t; cases "payload_type r") (auto simp: nil_list_def)
  have "received raw (answer_body r JNull pg meta) = Inr JNull"
    using t(3) by (cases r) (simp_all add: received_def read_data_def)
  then show ?thesis using request_received[OF assms(2), of raw] by (simp add: t)
qed

end
