(* ===== verification/MigrationTypes.thy ===== *)
theory MigrationTypes imports WireTypes begin

text \<open>
  The types of src/frontend/src/types/Migration.ts that the answers of the migration service are
  declared with, and the Go types the service sends there.
\<close>

subsection \<open>Declared by the client\<close>

definition DashboardSummary_ts :: ts_type where
  "DashboardSummary_ts = TObject
     [(''active_engagements'', False, TNumber),
      (''batches_running'', False, TNumber),
      (''avg_error_rate'', False, TNumber),
      (''best_recon_score'', False, TNumber),
      (''open_risks_p1'', False, TNumber),
      (''open_risks_total'', False, TNumber)]"

definition SystemHealth_ts :: ts_type where
  "SystemHealth_ts = TObject
     [(''migration_service'', False, TString),
      (''intelligence_service'', False, TString),
      (''database_connected'', False, TBoolean),
      (''queue_depth'', True, TNumber)]"

definition EngagementStatus_ts :: ts_type where
  "EngagementStatus_ts =
     TUnion [TLit ''DISCOVERY'', TLit ''PROFILING'', TLit ''MAPPING'', TLit ''TRANSFORMING'',
      TLit ''RECONCILING'', TLit ''PARALLEL_RUN'', TLit ''CUTOVER_IN_PROGRESS'', TLit ''GO_LIVE'',
      TLit ''COMPLETE'']"

definition SourceDriver_ts :: ts_type where
  "SourceDriver_ts =
     TUnion [TLit ''postgres'', TLit ''mssql'']"

definition SourceConnection_ts :: ts_type where
  "SourceConnection_ts = TObject
     [(''driver'', False, SourceDriver_ts),
      (''host'', False, TString),
      (''port'', False, TString),
      (''user'', False, TString),
      (''password'', False, TString),
      (''dbname'', False, TString),
      (''sslmode'', True, TString)]"

definition MigrationEngagement_ts :: ts_type where
  "MigrationEngagement_ts = TObject
     [(''engagement_id'', False, TString),
      (''tenant_id'', False, TString),
      (''source_system_name'', False, TString),
      (''canonical_schema_version'', False, TString),
      (''status'', False, EngagementStatus_ts),
      (''source_platform_type'', False, TUnion [TString, TNull]),
      (''contribution_model'', False, TUnion [TLit ''standard'', TLit ''employer_paid'']),
      (''quality_baseline_approved_at'', False, TUnion [TString, TNull]),
      (''source_connection'', False, TUnion [SourceConnection_ts, TNull]),
      (''created_at'', False, TString),
      (''updated_at'', False, TString)]"

definition SourceTable_ts :: ts_type where
  "SourceTable_ts = TObject
     [(''schema_name'', False, TString),
      (''table_name'', False, TString),
      (''row_count'', False, TNumber),
      (''column_count'', False, TNumber)]"

definition QualityProfile_ts :: ts_type where
  "QualityProfile_ts = TObject
     [(''profile_id'', False, TString),
      (''engagement_id'', False, TString),
      (''source_table'', False, TString),
      (''accuracy_score'', False, TNumber),
      (''completeness_score'', False, TNumber),
      (''consistency_score'', False, TNumber),
      (''timeliness_score'', False, TNumber),
      (''validity_score'', False, TNumber),
      (''uniqueness_score'', False, TNumber),
      (''row_count'', False, TNumber),
      (''profiled_at'', False, TString)]"

definition GenerateMappingsSummary_ts :: ts_type where
  "GenerateMappingsSummary_ts = TObject
     [(''total'', False, TNumber),
      (''agreed'', False, TNumber),
      (''disagreed'', False, TNumber),
      (''template_only'', False, TNumber),
      (''signal_only'', False, TNumber),
      (''auto_approved'', False, TNumber)]"

definition AgreementStatus_ts :: ts_type where
  "AgreementStatus_ts =
     TUnion [TLit ''AGREED'', TLit ''DISAGREED'', TLit ''TEMPLATE_ONLY'', TLit ''SIGNAL_ONLY'']"

definition ApprovalStatus_ts :: ts_type where
  "ApprovalStatus_ts =
     TUnion [TLit ''PROPOSED'', TLit ''APPROVED'', TLit ''REJECTED'', TLit ''SUPERSEDED'']"

definition WarningRisk_ts :: ts_type where
  "WarningRisk_ts =
     TUnion [TLit ''HIGH'', TLit ''MEDIUM'', TLit ''LOW'']"

definition MappingWarning_ts :: ts_type where
  "MappingWarning_ts = TObject
     [(''term'', False, TString),
      (''warning'', False, TString),
      (''risk'', False, WarningRisk_ts)]"

definition FieldMapping_ts :: ts_type where
  "FieldMapping_ts = TObject
     [(''mapping_id'', False, TString),
      (''engagement_id'', False, TString),
      (''mapping_version'', False, TString),
      (''source_table'', False, TString),
      (''source_column'', False, TString),
      (''canonical_table'', False, TString),
      (''canonical_column'', False, TString),
      (''template_confidence'', False, TUnion [TNumber, TNull]),
      (''signal_confidence'', False, TUnion [TNumber, TNull]),
      (''agreement_status'', False, AgreementStatus_ts),
      (''approval_status'', False, ApprovalStatus_ts),
      (''approved_by'', False, TUnion [TString, TNull]),
      (''approved_at'', False, TUnion [TString, TNull]),
      (''warnings'', True, TArray MappingWarning_ts),
      (''acknowledged'', True, TBoolean)]"

definition CodeMapping_ts :: ts_type where
  "CodeMapping_ts = TObject
     [(''code_mapping_id'', False, TString),
      (''engagement_id'', False, TString),
      (''source_table'', False, TString),
      (''source_column'', False, TString),
      (''source_value'', False, TString),
      (''canonical_value'', False, TString),
      (''approved_by'', False, TUnion [TString, TNull]),
      (''approved_at'', False, TUnion [TString, TNull])]"

definition BatchStatus_ts :: ts_type where
  "BatchStatus_ts =
     TUnion [TLit ''PENDING'', TLit ''RUNNING'', TLit ''LOADED'', TLit ''RECONCILED'',
      TLit ''APPROVED'', TLit ''FAILED'']"

definition MigrationBatch_ts :: ts_type where
  "MigrationBatch_ts = TObject
     [(''batch_id'', False, TString),
      (''engagement_id'', False, TString),
      (''batch_scope'', False, TString),
      (''status'', False, BatchStatus_ts),
      (''mapping_version'', False, TString),
      (''row_count_source'', False, TUnion [TNumber, TNull]),
      (''row_count_loaded'', False, TUnion [TNumber, TNull]),
      (''row_count_exception'', False, TUnion [TNumber, TNull]),
      (''error_rate'', False, TUnion [TNumber, TNull]),
      (''halted_reason'', False, TUnion [TString, TNull]),
      (''checkpoint_key'', False, TUnion [TString, TNull]),
      (''started_at'', False, TUnion [TString, TNull]),
      (''completed_at'', False, TUnion [TString, TNull])]"

definition ExceptionType_ts :: ts_type where
  "ExceptionType_ts =
     TUnion [TLit ''MISSING_REQUIRED'', TLit ''INVALID_FORMAT'', TLit ''REFERENTIAL_INTEGRITY'',
      TLit ''BUSINESS_RULE'', TLit ''CROSS_TABLE_MISMATCH'', TLit ''THRESHOLD_BREACH'']"

definition ExceptionDisposition_ts :: ts_type where
  "ExceptionDisposition_ts =
     TUnion [TLit ''PENDING'', TLit ''AUTO_FIXED'', TLit ''MANUAL_FIXED'', TLit ''EXCLUDED'',
      TLit ''DEFERRED'']"

definition MigrationException_ts :: ts_type where
  "MigrationException_ts = TObject
     [(''exception_id'', False, TString),
      (''batch_id'', False, TString),
      (''source_table'', False, TString),
      (''source_id'', False, TString),
      (''canonical_table'', False, TUnion [TString, TNull]),
      (''field_name'', False, TString),
      (''exception_type'', False, ExceptionType_ts),
      (''attempted_value'', False, TUnion [TString, TNull]),
      (''constraint_violated'', False, TString),
      (''disposition'', False, ExceptionDisposition_ts),
      (''resolution_note'', False, TUnion [TString, TNull]),
      (''resolved_by'', False, TUnion [TString, TNull]),
      (''resolved_at'', False, TUnion [TString, TNull])]"

definition ReconciliationCategory_ts :: ts_type where
  "ReconciliationCategory_ts =
     TUnion [TLit ''MATCH'', TLit ''MINOR'', TLit ''MAJOR'', TLit ''ERROR'']"

definition RiskSeverity_ts :: ts_type where
  "RiskSeverity_ts =
     TUnion [TLit ''P1'', TLit ''P2'', TLit ''P3'']"

definition Reconciliation_ts :: ts_type where
  "Reconciliation_ts = TObject
     [(''recon_id'', False, TString),
      (''batch_id'', False, TString),
      (''member_id'', False, TString),
      (''tier'', False, TNumber),
      (''calc_name'', False, TString),
      (''legacy_value'', False, TUnion [TString, TNull]),
      (''recomputed_value'', False, TUnion [TString, TNull]),
      (''variance_amount'', False, TUnion [TString, TNull]),
      (''category'', False, ReconciliationCategory_ts),
      (''is_retiree'', False, TBoolean),
      (''priority'', False, RiskSeverity_ts),
      (''suspected_domain'', False, TUnion [TString, TNull]),
      (''systematic_flag'', False, TBoolean),
      (''resolved'', False, TBoolean),
      (''resolved_by'', False, TUnion [TString, TNull]),
      (''resolution_note'', False, TUnion [TString, TNull])]"

definition ReconciliationSummary_ts :: ts_type where
  "ReconciliationSummary_ts = TObject
     [(''total_records'', False, TNumber),
      (''match_count'', False, TNumber),
      (''minor_count'', False, TNumber),
      (''major_count'', False, TNumber),
      (''error_count'', False, TNumber),
      (''gate_score'', False, TNumber),
      (''p1_count'', False, TNumber),
      (''tier1_score'', False, TNumber),
      (''tier2_score'', False, TNumber),
      (''tier3_score'', False, TNumber)]"

definition Certification_ts :: ts_type where
  "Certification_ts = TObject
     [(''certification_id'', False, TString),
      (''engagement_id'', False, TString),
      (''certified_by'', False, TString),
      (''certified_at'', False, TString),
      (''gate_score'', False, TNumber),
      (''p1_count'', False, TNumber),
      (''checklist'', False, TRecord TBoolean),
      (''notes'', True, TString),
      (''phase'', False, EngagementStatus_ts)]"

definition GateMetric_ts :: ts_type where
  "GateMetric_ts = TObject
     [(''metric_name'', False, TString),
      (''current_value'', False, TNumber),
      (''threshold'', False, TNumber),
      (''passing'', False, TBoolean),
      (''display_type'', False, TUnion [TLit ''percentage'', TLit ''count''])]"

definition GateEvaluationResult_ts :: ts_type where
  "GateEvaluationResult_ts = TObject
     [(''passed'', False, TBoolean),
      (''target_phase'', False, EngagementStatus_ts),
      (''metrics'', False, TArray GateMetric_ts),
      (''blocking_failures'', False, TArray TString),
      (''evaluated_at'', False, TString)]"

definition RiskSource_ts :: ts_type where
  "RiskSource_ts =
     TUnion [TLit ''DYNAMIC'', TLit ''STATIC'', TLit ''PROFILER'', TLit ''TRANSFORMER'',
      TLit ''DRIFT'', TLit ''ANALYST'']"

definition RiskStatus_ts :: ts_type where
  "RiskStatus_ts =
     TUnion [TLit ''OPEN'', TLit ''ACKNOWLEDGED'', TLit ''MITIGATED'', TLit ''CLOSED'']"

definition MigrationRisk_ts :: ts_type where
  "MigrationRisk_ts = TObject
     [(''risk_id'', False, TString),
      (''engagement_id'', False, TUnion [TString, TNull]),
      (''tenant_id'', False, TString),
      (''source'', False, RiskSource_ts),
      (''severity'', False, RiskSeverity_ts),
      (''description'', False, TString),
      (''evidence'', False, TUnion [TString, TNull]),
      (''mitigation'', False, TUnion [TString, TNull]),
      (''aiRemediation'', True, TString),
      (''status'', False, RiskStatus_ts),
      (''detected_at'', False, TString),
      (''acknowledged_by'', False, TUnion [TString, TNull]),
      (''closed_at'', False, TUnion [TString, TNull])]"

definition QualityScores_ts :: ts_type where
  "QualityScores_ts = TObject
     [(''accuracy'', False, TNumber),
      (''completeness'', False, TNumber),
      (''consistency'', False, TNumber),
      (''timeliness'', False, TNumber),
      (''validity'', False, TNumber),
      (''uniqueness'', False, TNumber)]"

definition CompareEngagement_ts :: ts_type where
  "CompareEngagement_ts = TObject
     [(''engagement_id'', False, TString),
      (''source_system_name'', False, TString),
      (''status'', False, EngagementStatus_ts),
      (''quality_scores'', False, TUnion [QualityScores_ts, TNull]),
      (''batch_count'', False, TNumber),
      (''error_rate'', False, TNumber),
      (''recon_gate_score'', False, TNumber)]"

definition CompareResult_ts :: ts_type where
  "CompareResult_ts = TObject
     [(''engagements'', False, TArray CompareEngagement_ts)]"

definition PhaseGateTransition_ts :: ts_type where
  "PhaseGateTransition_ts = TObject
     [(''id'', False, TString),
      (''engagementId'', False, TString),
      (''fromPhase'', False, EngagementStatus_ts),
      (''toPhase'', False, EngagementStatus_ts),
      (''direction'', False, TUnion [TLit ''ADVANCE'', TLit ''REGRESS'']),
      (''gateMetrics'', False, TRecord TNumber),
      (''aiRecommendation'', False, TString),
      (''overrides'', False, TArray TString),
      (''authorizedBy'', False, TString),
      (''authorizedAt'', False, TString),
      (''notes'', True, TString)]"

definition CorpusContext_ts :: ts_type where
  "CorpusContext_ts = TObject
     [(''timesSeen'', False, TNumber),
      (''approvalRate'', False, TNumber),
      (''isNovel'', False, TBoolean),
      (''lastSeenDaysAgo'', True, TNumber)]"

definition AttentionItem_ts :: ts_type where
  "AttentionItem_ts = TObject
     [(''id'', False, TString),
      (''source'', False, TUnion [TLit ''TRANSFORMATION'', TLit ''RECONCILIATION'', TLit ''RISK'', TLit ''QUALITY'']),
      (''phase'', False, EngagementStatus_ts),
      (''priority'', False, TUnion [TLit ''P1'', TLit ''P2'', TLit ''P3'']),
      (''summary'', False, TString),
      (''detail'', False, TString),
      (''suggestedAction'', True, TString),
      (''corpusContext'', True, CorpusContext_ts),
      (''batchId'', True, TString),
      (''engagementId'', False, TString),
      (''createdAt'', False, TString),
      (''resolved'', False, TBoolean)]"

definition AttentionSummary_ts :: ts_type where
  "AttentionSummary_ts = TObject
     [(''total'', False, TNumber),
      (''p1'', False, TNumber),
      (''p2'', False, TNumber),
      (''p3'', False, TNumber),
      (''byEngagement'', False, TRecord TNumber)]"

definition AIRecommendation_ts :: ts_type where
  "AIRecommendation_ts = TObject
     [(''phase'', False, EngagementStatus_ts),
      (''type'', False, TUnion [TLit ''GATE_READY'', TLit ''REMEDIATION'', TLit ''BATCH_SIZING'', TLit ''ROOT_CAUSE'', TLit ''MAPPING_SUGGESTION'']),
      (''summary'', False, TString),
      (''detail'', False, TString),
      (''confidence'', False, TNumber),
      (''actionable'', False, TBoolean),
      (''suggestedActions'', False, TArray (TObject [(''label'', False, TString), (''action'', False, TString)]))]"

definition RootCauseResponse_ts :: ts_type where
  "RootCauseResponse_ts = TObject
     [(''analysis'', False, TString),
      (''affectedCount'', False, TNumber),
      (''confidence'', False, TNumber)]"

definition MigrationNotification_ts :: ts_type where
  "MigrationNotification_ts = TObject
     [(''id'', False, TString),
      (''engagementId'', False, TString),
      (''engagementName'', False, TString),
      (''type'', False, TUnion [TLit ''P1_RISK'', TLit ''BATCH_COMPLETE'', TLit ''BATCH_HALTED'', TLit ''RECON_COMPLETE'', TLit ''GATE_READY'', TLit ''STALLED'']),
      (''summary'', False, TString),
      (''read'', False, TBoolean),
      (''createdAt'', False, TString)]"

definition FieldMappingSpec_ts :: ts_type where
  "FieldMappingSpec_ts = TObject
     [(''source_table'', False, TString),
      (''source_column'', False, TString),
      (''canonical_column'', False, TString),
      (''confidence'', False, TNumber),
      (''agreement_status'', False, TString),
      (''approval_status'', False, TString),
      (''approved_by'', True, TString)]"

definition CodeMappingSpec_ts :: ts_type where
  "CodeMappingSpec_ts = TObject
     [(''source_table'', False, TString),
      (''source_column'', False, TString),
      (''source_value'', False, TString),
      (''canonical_value'', False, TString),
      (''approved_by'', True, TString)]"

definition TableMappingSpec_ts :: ts_type where
  "TableMappingSpec_ts = TObject
     [(''canonical_table'', False, TString),
      (''field_mappings'', False, TArray FieldMappingSpec_ts),
      (''code_mappings'', False, TArray CodeMappingSpec_ts),
      (''exception_count'', False, TNumber)]"

definition MappingSpecReport_ts :: ts_type where
  "MappingSpecReport_ts = TObject
     [(''engagement_id'', False, TString),
      (''source_system'', False, TString),
      (''generated_at'', False, TString),
      (''schema_version'', False, TString),
      (''tables'', False, TArray TableMappingSpec_ts),
      (''total_mappings'', False, TNumber),
      (''approved_count'', False, TNumber),
      (''pending_count'', False, TNumber),
      (''rejected_count'', False, TNumber),
      (''code_mappings'', False, TNumber),
      (''assumptions'', False, TArray TString),
      (''exclusions'', False, TArray TString)]"

definition JobType_ts :: ts_type where
  "JobType_ts =
     TUnion [TLit ''PROFILE'', TLit ''TRANSFORM'', TLit ''RECONCILE'', TLit ''LOAD'',
      TLit ''VALIDATE'']"

definition JobStatus_ts :: ts_type where
  "JobStatus_ts =
     TUnion [TLit ''PENDING'', TLit ''CLAIMED'', TLit ''RUNNING'', TLit ''COMPLETED'',
      TLit ''FAILED'', TLit ''CANCELLED'']"

definition Job_ts :: ts_type where
  "Job_ts = TObject
     [(''job_id'', False, TString),
      (''engagement_id'', False, TString),
      (''job_type'', False, JobType_ts),
      (''status'', False, JobStatus_ts),
      (''attempt'', False, TNumber),
      (''max_attempts'', False, TNumber),
      (''error_message'', False, TUnion [TString, TNull]),
      (''created_at'', False, TString),
      (''started_at'', False, TUnion [TString, TNull]),
      (''completed_at'', False, TUnion [TString, TNull])]"

definition JobSummary_ts :: ts_type where
  "JobSummary_ts = TObject
     [(''pending'', False, TNumber),
      (''running'', False, TNumber),
      (''completed'', False, TNumber),
      (''failed'', False, TNumber)]"

definition ReconRuleSetStatus_ts :: ts_type where
  "ReconRuleSetStatus_ts =
     TUnion [TLit ''DRAFT'', TLit ''ACTIVE'', TLit ''SUPERSEDED'', TLit ''ARCHIVED'']"

definition ComparisonType_ts :: ts_type where
  "ComparisonType_ts =
     TUnion [TLit ''EXACT'', TLit ''TOLERANCE_ABS'', TLit ''TOLERANCE_PCT'',
      TLit ''ROUND_THEN_COMPARE'']"

definition ReconRule_ts :: ts_type where
  "ReconRule_ts = TObject
     [(''rule_id'', False, TString),
      (''tier'', False, TUnion [TNumLit ''1'', TNumLit ''2'', TNumLit ''3'']),
      (''calc_name'', False, TString),
      (''comparison_type'', False, ComparisonType_ts),
      (''tolerance_value'', False, TString),
      (''priority_if_mismatch'', False, RiskSeverity_ts),
      (''enabled'', False, TBoolean)]"

definition ReconRuleSet_ts :: ts_type where
  "ReconRuleSet_ts = TObject
     [(''ruleset_id'', False, TString),
      (''engagement_id'', False, TString),
      (''version'', False, TNumber),
      (''label'', False, TString),
      (''status'', False, ReconRuleSetStatus_ts),
      (''rules'', False, TArray ReconRule_ts),
      (''created_by'', False, TString),
      (''created_at'', False, TString),
      (''activated_at'', False, TUnion [TString, TNull]),
      (''superseded_at'', False, TUnion [TString, TNull])]"

definition ReconExecutionStatus_ts :: ts_type where
  "ReconExecutionStatus_ts =
     TUnion [TLit ''PENDING'', TLit ''RUNNING'', TLit ''COMPLETED'', TLit ''FAILED'']"

definition ReconExecution_ts :: ts_type where
  "ReconExecution_ts = TObject
     [(''execution_id'', False, TString),
      (''engagement_id'', False, TString),
      (''ruleset_id'', False, TString),
      (''ruleset_version'', False, TNumber),
      (''parallel_run_id'', False, TString),
      (''status'', False, ReconExecutionStatus_ts),
      (''match_count'', False, TNumber),
      (''mismatch_count'', False, TNumber),
      (''p1_count'', False, TNumber),
      (''p2_count'', False, TNumber),
      (''p3_count'', False, TNumber),
      (''started_at'', False, TString),
      (''completed_at'', False, TUnion [TString, TNull]),
      (''error_message'', False, TUnion [TString, TNull])]"

definition ReconMismatch_ts :: ts_type where
  "ReconMismatch_ts = TObject
     [(''mismatch_id'', False, TString),
      (''execution_id'', False, TString),
      (''priority'', False, RiskSeverity_ts),
      (''member_id'', False, TString),
      (''canonical_entity'', False, TString),
      (''field_name'', False, TString),
      (''legacy_value'', False, TString),
      (''new_value'', False, TString),
      (''variance_amount'', False, TUnion [TString, TNull]),
      (''comparison_type'', False, ComparisonType_ts),
      (''tolerance_value'', False, TString)]"

definition ReconMismatchPage_ts :: ts_type where
  "ReconMismatchPage_ts = TObject
     [(''mismatches'', False, TArray ReconMismatch_ts),
      (''total'', False, TNumber),
      (''page'', False, TNumber),
      (''page_size'', False, TNumber)]"

definition SchemaVersionField_ts :: ts_type where
  "SchemaVersionField_ts = TObject
     [(''entity'', False, TString),
      (''field_name'', False, TString),
      (''data_type'', False, TString),
      (''is_required'', False, TBoolean),
      (''description'', False, TString)]"

definition SchemaVersion_ts :: ts_type where
  "SchemaVersion_ts = TObject
     [(''version_id'', False, TString),
      (''tenant_id'', False, TString),
      (''label'', False, TString),
      (''description'', False, TString),
      (''is_active'', False, TBoolean),
      (''fields'', False, TArray SchemaVersionField_ts),
      (''field_count'', False, TNumber),
      (''created_at'', False, TString),
      (''updated_at'', False, TString)]"

definition DiffChangeType_ts :: ts_type where
  "DiffChangeType_ts =
     TUnion [TLit ''ADDED'', TLit ''REMOVED'', TLit ''CHANGED'']"

definition SchemaFieldDiff_ts :: ts_type where
  "SchemaFieldDiff_ts = TObject
     [(''entity'', False, TString),
      (''field_name'', False, TString),
      (''change_type'', False, DiffChangeType_ts),
      (''old_data_type'', True, TString),
      (''new_data_type'', True, TString),
      (''old_required'', True, TBoolean),
      (''new_required'', True, TBoolean),
      (''old_description'', True, TString),
      (''new_description'', True, TString)]"

definition SchemaVersionDiff_ts :: ts_type where
  "SchemaVersionDiff_ts = TObject
     [(''version1'', False, TObject [(''version_id'', False, TString), (''label'', False, TString)]),
      (''version2'', False, TObject [(''version_id'', False, TString), (''label'', False, TString)]),
      (''changes'', False, TArray SchemaFieldDiff_ts),
      (''added_count'', False, TNumber),
      (''removed_count'', False, TNumber),
      (''changed_count'', False, TNumber)]"

definition RetentionPolicy_ts :: ts_type where
  "RetentionPolicy_ts = TObject
     [(''engagement_id'', False, TString),
      (''event_retention_days'', False, TNumber),
      (''audit_retention_days'', False, TNumber),
      (''updated_at'', False, TString)]"

subsection \<open>Sent by the service\<close>

definition DashboardSummary_go :: go_type where
  "DashboardSummary_go = GStruct
     [(''active_engagements'', False, GInt),
      (''batches_running'', False, GInt),
      (''avg_error_rate'', False, GFloat),
      (''best_recon_score'', False, GFloat),
      (''open_risks_p1'', False, GInt),
      (''open_risks_total'', False, GInt)]"

definition SystemHealthStatus_go :: go_type where
  "SystemHealthStatus_go = GStruct
     [(''migration_service'', False, GString),
      (''intelligence_service'', False, GString),
      (''database_connected'', False, GBool)]"

definition EngagementStatus_go :: go_type where
  "EngagementStatus_go = GEnum
     [''DISCOVERY'', ''PROFILING'', ''MAPPING'', ''TRANSFORMING'', ''RECONCILING'',
      ''PARALLEL_RUN'', ''COMPLETE'', ''CUTOVER_IN_PROGRESS'', ''GO_LIVE'']"

definition SourceConnection_go :: go_type where
  "SourceConnection_go = GStruct
     [(''driver'', False, GString),
      (''host'', False, GString),
      (''port'', False, GString),
      (''user'', False, GString),
      (''password'', False, GString),
      (''dbname'', False, GString),
      (''sslmode'', True, GString)]"

definition Engagement_go :: go_type where
  "Engagement_go = GStruct
     [(''engagement_id'', False, GString),
      (''tenant_id'', False, GString),
      (''source_system_name'', False, GString),
      (''canonical_schema_version'', False, GString),
      (''status'', False, EngagementStatus_go),
      (''source_platform_type'', False, GNilable GString),
      (''contribution_model'', False, GString),
      (''quality_baseline_approved_at'', False, GNilable GTime),
      (''source_connection'', False, GNilable SourceConnection_go),
      (''created_at'', False, GTime),
      (''updated_at'', False, GTime)]"

definition SourceTable_go :: go_type where
  "SourceTable_go = GStruct
     [(''schema_name'', False, GString),
      (''table_name'', False, GString),
      (''row_count'', False, GInt),
      (''column_count'', False, GInt)]"

definition QualityDimension_go :: go_type where
  "QualityDimension_go = GStruct
     [(''name'', False, GString),
      (''score'', False, GFloat),
      (''details'', False, GString)]"

definition DetectedPattern_go :: go_type where
  "DetectedPattern_go = GStruct
     [(''column'', False, GString),
      (''pattern'', False, GString),
      (''label'', False, GString),
      (''match_rate'', False, GFloat),
      (''sample_size'', False, GInt)]"

definition TableProfile_go :: go_type where
  "TableProfile_go = GStruct
     [(''table_name'', False, GString),
      (''row_count'', False, GInt),
      (''dimensions'', False, GNilable (GSlice QualityDimension_go)),
      (''overall_score'', False, GFloat),
      (''detected_patterns'', True, GNilable (GSlice DetectedPattern_go))]"

definition QualityProfileRow_go :: go_type where
  "QualityProfileRow_go = GStruct
     [(''profile_id'', False, GString),
      (''engagement_id'', False, GString),
      (''source_table'', False, GString),
      (''accuracy_score'', False, GFloat),
      (''completeness_score'', False, GFloat),
      (''consistency_score'', False, GFloat),
      (''timeliness_score'', False, GFloat),
      (''validity_score'', False, GFloat),
      (''uniqueness_score'', False, GFloat),
      (''row_count'', False, GInt),
      (''profiled_at'', False, GTime)]"

definition GenerateMappingsSummary_go :: go_type where
  "GenerateMappingsSummary_go = GStruct
     [(''total_columns'', False, GInt),
      (''agreed'', False, GInt),
      (''disagreed'', False, GInt),
      (''template_only'', False, GInt),
      (''signal_only'', False, GInt),
      (''auto_approved'', False, GInt)]"

definition MappingWarning_go :: go_type where
  "MappingWarning_go = GStruct
     [(''term'', False, GString),
      (''warning'', False, GString),
      (''risk'', False, GString)]"

definition FieldMapping_go :: go_type where
  "FieldMapping_go = GStruct
     [(''mapping_id'', False, GString),
      (''engagement_id'', False, GString),
      (''mapping_version'', False, GString),
      (''source_table'', False, GString),
      (''source_column'', False, GString),
      (''canonical_table'', False, GString),
      (''canonical_column'', False, GString),
      (''template_confidence'', False, GNilable GFloat),
      (''signal_confidence'', False, GNilable GFloat),
      (''agreement_status'', False, GString),
      (''approval_status'', False, GString),
      (''approved_by'', False, GNilable GString),
      (''approved_at'', False, GNilable GTime),
      (''warnings'', True, GNilable (GSlice MappingWarning_go)),
      (''acknowledged'', False, GBool)]"

definition CodeColumnCandidate_go :: go_type where
  "CodeColumnCandidate_go = GStruct
     [(''column_name'', False, GString),
      (''cardinality'', False, GInt),
      (''distinct_values'', False, GNilable (GSlice GString)),
      (''likely_domain'', False, GString)]"

definition CodeMapping_go :: go_type where
  "CodeMapping_go = GStruct
     [(''code_mapping_id'', False, GString),
      (''engagement_id'', False, GString),
      (''source_table'', False, GString),
      (''source_column'', False, GString),
      (''source_value'', False, GString),
      (''canonical_value'', False, GString),
      (''approved_by'', False, GNilable GString),
      (''approved_at'', False, GNilable GString)]"

definition CodeMappingResponse_go :: go_type where
  "CodeMappingResponse_go = GStruct
     [(''discoveries'', False, GNilable (GSlice CodeColumnCandidate_go)),
      (''mappings'', False, GNilable (GSlice CodeMapping_go))]"

definition MigrationBatch_go :: go_type where
  "MigrationBatch_go = GStruct
     [(''batch_id'', False, GString),
      (''engagement_id'', False, GString),
      (''batch_scope'', False, GString),
      (''status'', False, GString),
      (''mapping_version'', False, GString),
      (''row_count_source'', False, GNilable GInt),
      (''row_count_loaded'', False, GNilable GInt),
      (''row_count_exception'', False, GNilable GInt),
      (''error_rate'', False, GNilable GFloat),
      (''halted_reason'', False, GNilable GString),
      (''checkpoint_key'', False, GNilable GString),
      (''started_at'', False, GNilable GTime),
      (''completed_at'', False, GNilable GTime)]"

definition MigrationException_go :: go_type where
  "MigrationException_go = GStruct
     [(''exception_id'', False, GString),
      (''batch_id'', False, GString),
      (''source_table'', False, GString),
      (''source_id'', False, GString),
      (''canonical_table'', False, GNilable GString),
      (''field_name'', False, GString),
      (''exception_type'', False, GString),
      (''attempted_value'', False, GNilable GString),
      (''constraint_violated'', False, GString),
      (''disposition'', False, GString),
      (''resolution_note'', False, GNilable GString),
      (''resolved_by'', False, GNilable GString),
      (''resolved_at'', False, GNilable GTime)]"

definition RetransformResult_go :: go_type where
  "RetransformResult_go = GStruct
     [(''correction_id'', False, GString),
      (''rows_affected'', False, GInt),
      (''rows_transformed'', False, GInt),
      (''rows_failed'', False, GInt),
      (''new_version'', False, GString)]"

definition ReconciliationSummaryResult_go :: go_type where
  "ReconciliationSummaryResult_go = GStruct
     [(''total_records'', False, GInt),
      (''match_count'', False, GInt),
      (''minor_count'', False, GInt),
      (''major_count'', False, GInt),
      (''error_count'', False, GInt),
      (''gate_score'', False, GFloat),
      (''p1_count'', False, GInt),
      (''tier1_score'', False, GFloat),
      (''tier2_score'', False, GFloat),
      (''tier3_score'', False, GFloat)]"

definition ReconciliationRecord_go :: go_type where
  "ReconciliationRecord_go = GStruct
     [(''recon_id'', False, GString),
      (''batch_id'', False, GString),
      (''member_id'', False, GString),
      (''calc_name'', False, GString),
      (''legacy_value'', False, GNilable GString),
      (''recomputed_value'', False, GNilable GString),
      (''category'', False, GString),
      (''priority'', False, GString),
      (''tier'', False, GInt)]"

definition CertificationRecord_go :: go_type where
  "CertificationRecord_go = GStruct
     [(''id'', False, GString),
      (''engagement_id'', False, GString),
      (''gate_score'', False, GFloat),
      (''p1_count'', False, GInt),
      (''checklist_json'', False, GNilable (GMap GRaw)),
      (''auto_evaluated'', True, GRaw),
      (''certified_by'', False, GString),
      (''certified_at'', False, GTime),
      (''notes'', True, GString),
      (''created_at'', False, GTime)]"

definition CertificationListResponse_go :: go_type where
  "CertificationListResponse_go = GStruct
     [(''certifications'', False, GNilable (GSlice CertificationRecord_go)),
      (''total'', False, GInt),
      (''page'', False, GInt),
      (''per_page'', False, GInt)]"

definition GateMetricResult_go :: go_type where
  "GateMetricResult_go = GStruct
     [(''name'', False, GString),
      (''current_value'', False, GFloat),
      (''threshold'', False, GFloat),
      (''passed'', False, GBool),
      (''description'', False, GString)]"

definition GateEvaluationResult_go :: go_type where
  "GateEvaluationResult_go = GStruct
     [(''passed'', False, GBool),
      (''metrics'', False, GNilable (GMap GateMetricResult_go)),
      (''blocking_failures'', False, GNilable (GSlice GString))]"

definition Risk_go :: go_type where
  "Risk_go = GStruct
     [(''risk_id'', False, GString),
      (''engagement_id'', False, GNilable GString),
      (''tenant_id'', False, GString),
      (''source'', False, GString),
      (''severity'', False, GString),
      (''description'', False, GString),
      (''evidence'', False, GNilable GString),
      (''mitigation'', False, GNilable GString),
      (''status'', False, GString),
      (''detected_at'', False, GTime),
      (''acknowledged_by'', False, GNilable GString),
      (''closed_at'', False, GNilable GTime)]"

definition QualityScores_go :: go_type where
  "QualityScores_go = GStruct
     [(''accuracy'', False, GFloat),
      (''completeness'', False, GFloat),
      (''consistency'', False, GFloat),
      (''timeliness'', False, GFloat),
      (''validity'', False, GFloat),
      (''uniqueness'', False, GFloat)]"

definition CompareEngagement_go :: go_type where
  "CompareEngagement_go = GStruct
     [(''engagement_id'', False, GString),
      (''source_system_name'', False, GString),
      (''status'', False, GString),
      (''quality_scores'', False, GNilable QualityScores_go),
      (''batch_count'', False, GInt),
      (''error_rate'', False, GFloat),
      (''recon_gate_score'', False, GFloat)]"

definition CompareResult_go :: go_type where
  "CompareResult_go = GStruct
     [(''engagements'', False, GSlice CompareEngagement_go)]"

definition PhaseGateTransition_go :: go_type where
  "PhaseGateTransition_go = GStruct
     [(''id'', False, GString),
      (''engagement_id'', False, GString),
      (''from_phase'', False, GString),
      (''to_phase'', False, GString),
      (''direction'', False, GString),
      (''gate_metrics'', False, GNilable (GMap GFloat)),
      (''ai_recommendation'', False, GString),
      (''overrides'', False, GSlice GString),
      (''authorized_by'', False, GString),
      (''authorized_at'', False, GTime),
      (''notes'', True, GString)]"

definition AttentionItem_go :: go_type where
  "AttentionItem_go = GStruct
     [(''id'', False, GString),
      (''source'', False, GString),
      (''phase'', False, GString),
      (''priority'', False, GString),
      (''summary'', False, GString),
      (''detail'', False, GString),
      (''suggested_action'', True, GString),
      (''batch_id'', True, GString),
      (''engagement_id'', False, GString),
      (''created_at'', False, GString),
      (''resolved'', False, GBool)]"

definition AttentionSummary_go :: go_type where
  "AttentionSummary_go = GStruct
     [(''total'', False, GInt),
      (''p1'', False, GInt),
      (''p2'', False, GInt),
      (''p3'', False, GInt),
      (''by_engagement'', False, GNilable (GMap GInt))]"

definition SuggestedAction_go :: go_type where
  "SuggestedAction_go = GStruct
     [(''label'', False, GString),
      (''action'', False, GString)]"

definition AIRecommendation_go :: go_type where
  "AIRecommendation_go = GStruct
     [(''phase'', False, GString),
      (''type'', False, GString),
      (''summary'', False, GString),
      (''detail'', False, GString),
      (''confidence'', False, GFloat),
      (''actionable'', False, GBool),
      (''suggested_actions'', False, GNilable (GSlice SuggestedAction_go))]"

definition ReconciliationPattern_go :: go_type where
  "ReconciliationPattern_go = GStruct
     [(''pattern_id'', False, GString),
      (''batch_id'', False, GString),
      (''suspected_domain'', False, GString),
      (''plan_code'', False, GString),
      (''direction'', False, GString),
      (''member_count'', False, GInt),
      (''mean_variance'', False, GString),
      (''coefficient_of_var'', False, GFloat),
      (''affected_members'', False, GNilable (GSlice GString)),
      (''correction_type'', False, GNilable GString),
      (''affected_field'', False, GNilable GString),
      (''confidence'', False, GNilable GFloat),
      (''evidence'', False, GNilable GString),
      (''resolved'', False, GBool),
      (''resolved_at'', False, GNilable GString),
      (''created_at'', False, GString)]"

definition RootCauseResponse_go :: go_type where
  "RootCauseResponse_go = GStruct
     [(''analysis'', False, GString),
      (''affected_count'', False, GInt),
      (''confidence'', False, GFloat),
      (''patterns'', True, GNilable (GSlice ReconciliationPattern_go))]"

definition Notification_go :: go_type where
  "Notification_go = GStruct
     [(''id'', False, GString),
      (''tenant_id'', False, GString),
      (''engagement_id'', False, GString),
      (''engagement_name'', False, GString),
      (''type'', False, GString),
      (''summary'', False, GString),
      (''read'', False, GBool),
      (''created_at'', False, GTime)]"

definition FieldMappingSpec_go :: go_type where
  "FieldMappingSpec_go = GStruct
     [(''source_table'', False, GString),
      (''source_column'', False, GString),
      (''canonical_column'', False, GString),
      (''confidence'', False, GFloat),
      (''agreement_status'', False, GString),
      (''approval_status'', False, GString),
      (''approved_by'', True, GNilable GString)]"

definition CodeMappingSpec_go :: go_type where
  "CodeMappingSpec_go = GStruct
     [(''source_table'', False, GString),
      (''source_column'', False, GString),
      (''source_value'', False, GString),
      (''canonical_value'', False, GString),
      (''approved_by'', True, GNilable GString)]"

definition TableMappingSpec_go :: go_type where
  "TableMappingSpec_go = GStruct
     [(''canonical_table'', False, GString),
      (''field_mappings'', False, GSlice FieldMappingSpec_go),
      (''code_mappings'', False, GSlice CodeMappingSpec_go),
      (''exception_count'', False, GInt)]"

definition MappingSpecReport_go :: go_type where
  "MappingSpecReport_go = GStruct
     [(''engagement_id'', False, GString),
      (''source_system'', False, GString),
      (''generated_at'', False, GString),
      (''schema_version'', False, GString),
      (''tables'', False, GSlice TableMappingSpec_go),
      (''total_mappings'', False, GInt),
      (''approved_count'', False, GInt),
      (''pending_count'', False, GInt),
      (''rejected_count'', False, GInt),
      (''code_mappings'', False, GInt),
      (''assumptions'', False, GSlice GString),
      (''exclusions'', False, GSlice GString)]"

definition JobStatus_go :: go_type where
  "JobStatus_go = GEnum
     [''PENDING'', ''CLAIMED'', ''RUNNING'', ''COMPLETE'', ''FAILED'', ''CANCELLED'']"

definition Job_go :: go_type where
  "Job_go = GStruct
     [(''job_id'', False, GString),
      (''engagement_id'', False, GString),
      (''job_type'', False, GString),
      (''scope'', False, GString),
      (''status'', False, JobStatus_go),
      (''priority'', False, GInt),
      (''progress'', False, GInt),
      (''input_json'', False, GRaw),
      (''result_json'', True, GRaw),
      (''error_message'', True, GNilable GString),
      (''worker_id'', True, GNilable GString),
      (''attempt'', False, GInt),
      (''max_attempts'', False, GInt),
      (''created_at'', False, GTime),
      (''claimed_at'', True, GNilable GTime),
      (''heartbeat_at'', True, GNilable GTime),
      (''completed_at'', True, GNilable GTime)]"

definition JobSummary_go :: go_type where
  "JobSummary_go = GStruct
     [(''counts'', False, GNilable (GMap GInt)),
      (''total'', False, GInt),
      (''avg_exec_seconds'', False, GFloat)]"

definition ReconRuleSetStatus_go :: go_type where
  "ReconRuleSetStatus_go = GEnum
     [''DRAFT'', ''ACTIVE'', ''SUPERSEDED'', ''ARCHIVED'']"

definition ReconComparisonType_go :: go_type where
  "ReconComparisonType_go = GEnum
     [''EXACT'', ''TOLERANCE_ABS'', ''TOLERANCE_PCT'', ''ROUND_THEN_COMPARE'']"

definition ReconPriority_go :: go_type where
  "ReconPriority_go = GEnum
     [''P1'', ''P2'', ''P3'']"

definition ReconRule_go :: go_type where
  "ReconRule_go = GStruct
     [(''rule_id'', False, GString),
      (''tier'', False, GInt),
      (''calc_name'', False, GString),
      (''comparison_type'', False, ReconComparisonType_go),
      (''tolerance_value'', False, GString),
      (''priority_if_mismatch'', False, ReconPriority_go),
      (''enabled'', False, GBool)]"

definition ReconRuleSet_go :: go_type where
  "ReconRuleSet_go = GStruct
     [(''ruleset_id'', False, GString),
      (''engagement_id'', False, GString),
      (''version'', False, GInt),
      (''label'', False, GString),
      (''status'', False, ReconRuleSetStatus_go),
      (''rules'', False, GSlice ReconRule_go),
      (''created_by'', False, GString),
      (''created_at'', False, GTime),
      (''activated_at'', False, GNilable GTime),
      (''superseded_at'', False, GNilable GTime)]"

definition ReconExecutionRunStatus_go :: go_type where
  "ReconExecutionRunStatus_go = GEnum
     [''PENDING'', ''RUNNING'', ''COMPLETED'', ''FAILED'']"

definition ReconExecutionRun_go :: go_type where
  "ReconExecutionRun_go = GStruct
     [(''execution_id'', False, GString),
      (''engagement_id'', False, GString),
      (''ruleset_id'', False, GString),
      (''parallel_run_id'', False, GString),
      (''status'', False, ReconExecutionRunStatus_go),
      (''total_evaluated'', False, GInt),
      (''match_count'', False, GInt),
      (''mismatch_count'', False, GInt),
      (''p1_count'', False, GInt),
      (''p2_count'', False, GInt),
      (''p3_count'', False, GInt),
      (''started_at'', True, GNilable GTime),
      (''completed_at'', True, GNilable GTime),
      (''error_message'', True, GNilable GString),
      (''created_at'', False, GTime)]"

definition ReconExecutionMismatch_go :: go_type where
  "ReconExecutionMismatch_go = GStruct
     [(''mismatch_id'', False, GString),
      (''execution_id'', False, GString),
      (''rule_id'', False, GString),
      (''member_id'', False, GString),
      (''canonical_entity'', False, GString),
      (''field_name'', False, GString),
      (''legacy_value'', False, GNilable GString),
      (''new_value'', False, GNilable GString),
      (''variance_amount'', False, GNilable GString),
      (''comparison_type'', False, ReconComparisonType_go),
      (''tolerance_value'', False, GNilable GString),
      (''priority'', False, ReconPriority_go),
      (''created_at'', False, GTime)]"

definition SchemaVersion_go :: go_type where
  "SchemaVersion_go = GStruct
     [(''version_id'', False, GString),
      (''tenant_id'', False, GString),
      (''label'', False, GString),
      (''description'', False, GNilable GString),
      (''is_active'', False, GBool),
      (''created_at'', False, GTime),
      (''updated_at'', False, GTime)]"

definition SchemaVersionField_go :: go_type where
  "SchemaVersionField_go = GStruct
     [(''field_id'', False, GString),
      (''version_id'', False, GString),
      (''entity'', False, GString),
      (''field_name'', False, GString),
      (''data_type'', False, GString),
      (''is_required'', False, GBool),
      (''description'', False, GNilable GString),
      (''created_at'', False, GTime)]"

definition SchemaVersionWithFields_go :: go_type where
  "SchemaVersionWithFields_go = GStruct
     [(''version'', False, SchemaVersion_go),
      (''fields'', False, GNilable (GSlice SchemaVersionField_go))]"

definition FieldTypeChange_go :: go_type where
  "FieldTypeChange_go = GStruct
     [(''entity'', False, GString),
      (''field_name'', False, GString),
      (''old_type'', False, GString),
      (''new_type'', False, GString)]"

definition SchemaVersionDiff_go :: go_type where
  "SchemaVersionDiff_go = GStruct
     [(''from_version'', False, GString),
      (''to_version'', False, GString),
      (''added'', False, GNilable (GSlice SchemaVersionField_go)),
      (''removed'', False, GNilable (GSlice SchemaVersionField_go)),
      (''type_changed'', False, GNilable (GSlice FieldTypeChange_go))]"

end
