(* ===== verification/EmployerTypes.thy ===== *)
theory EmployerTypes imports MigrationTypes begin

text \<open>
  The types of src/frontend/src/types/Employer.ts that the answers of the six employer services are
  declared with, and the Go types the services send there. A name that MigrationTypes has too carries
  the word employer.
\<close>

subsection \<open>Declared by the client\<close>

definition PortalRole_ts :: ts_type where
  "PortalRole_ts =
     TUnion [TLit ''SUPER_USER'', TLit ''PAYROLL_CONTACT'', TLit ''HR_CONTACT'',
      TLit ''READ_ONLY'']"

definition PortalUser_ts :: ts_type where
  "PortalUser_ts = TObject
     [(''id'', False, TString),
      (''orgId'', False, TString),
      (''contactId'', False, TString),
      (''portalRole'', False, PortalRole_ts),
      (''isActive'', False, TBoolean),
      (''lastLoginAt'', False, TUnion [TString, TNull]),
      (''onboardingCompletedAt'', False, TUnion [TString, TNull]),
      (''createdAt'', False, TString),
      (''updatedAt'', False, TString)]"

definition DashboardSummary_employer_ts :: ts_type where
  "DashboardSummary_employer_ts = TObject
     [(''pendingExceptions'', False, TNumber),
      (''unresolvedTasks'', False, TNumber),
      (''recentSubmissions'', False, TNumber),
      (''activeAlerts'', False, TNumber)]"

definition AlertType_ts :: ts_type where
  "AlertType_ts =
     TUnion [TLit ''DEADLINE'', TLit ''TASK'', TLit ''CRITICAL'', TLit ''POLICY_CHANGE'']"

definition EmployerAlert_ts :: ts_type where
  "EmployerAlert_ts = TObject
     [(''id'', False, TString),
      (''orgId'', False, TUnion [TString, TNull]),
      (''alertType'', False, AlertType_ts),
      (''title'', False, TString),
      (''body'', False, TUnion [TString, TNull]),
      (''effectiveFrom'', False, TString),
      (''effectiveTo'', False, TUnion [TString, TNull]),
      (''createdBy'', False, TUnion [TString, TNull]),
      (''createdAt'', False, TString)]"

definition ContributionRateRow_ts :: ts_type where
  "ContributionRateRow_ts = TObject
     [(''id'', False, TString),
      (''divisionCode'', False, TString),
      (''isSafetyOfficer'', False, TBoolean),
      (''memberRate'', False, TString),
      (''employerBaseRate'', False, TString),
      (''aedRate'', False, TString),
      (''saedRate'', False, TString),
      (''aapRate'', False, TString),
      (''dcSupplementRate'', False, TString),
      (''employerTotalRate'', False, TString),
      (''healthCareTrustRate'', False, TString),
      (''effectiveFrom'', False, TString),
      (''effectiveTo'', False, TUnion [TString, TNull]),
      (''boardResolutionRef'', False, TUnion [TString, TNull])]"

definition FileStatus_ts :: ts_type where
  "FileStatus_ts =
     TUnion [TLit ''UPLOADED'', TLit ''VALIDATING'', TLit ''VALIDATED'', TLit ''PARTIAL_POST'',
      TLit ''EXCEPTION'', TLit ''PAYMENT_SETUP'', TLit ''PAYMENT_PENDING'', TLit ''PROCESSED'',
      TLit ''REPLACED'', TLit ''REJECTED'']"

definition ContributionFile_ts :: ts_type where
  "ContributionFile_ts = TObject
     [(''id'', False, TString),
      (''orgId'', False, TString),
      (''uploadedBy'', False, TString),
      (''fileName'', False, TString),
      (''fileType'', False, TUnion [TLit ''TEXT'', TLit ''EXCEL'', TLit ''MANUAL_ENTRY'']),
      (''fileStatus'', False, FileStatus_ts),
      (''periodStart'', False, TString),
      (''periodEnd'', False, TString),
      (''divisionCode'', False, TString),
      (''totalRecords'', False, TNumber),
      (''validRecords'', False, TNumber),
      (''failedRecords'', False, TNumber),
      (''totalAmount'', False, TString),
      (''validatedAmount'', False, TString),
      (''replacesFileId'', False, TUnion [TString, TNull]),
      (''validationStartedAt'', False, TUnion [TString, TNull]),
      (''validationCompletedAt'', False, TUnion [TString, TNull]),
      (''createdAt'', False, TString),
      (''updatedAt'', False, TString)]"

definition ContributionRecord_ts :: ts_type where
  "ContributionRecord_ts = TObject
     [(''id'', False, TString),
      (''fileId'', False, TString),
      (''rowNumber'', False, TNumber),
      (''ssnHash'', False, TString),
      (''memberName'', False, TUnion [TString, TNull]),
      (''memberId'', False, TUnion [TString, TNull]),
      (''divisionCode'', False, TString),
      (''isSafetyOfficer'', False, TBoolean),
      (''isOrp'', False, TBoolean),
      (''grossSalary'', False, TString),
      (''memberContribution'', False, TString),
      (''employerContribution'', False, TString),
      (''aedAmount'', False, TString),
      (''saedAmount'', False, TString),
      (''aapAmount'', False, TString),
      (''dcSupplementAmount'', False, TString),
      (''totalAmount'', False, TString),
      (''recordStatus'', False, TUnion [TLit ''PENDING'', TLit ''VALID'', TLit ''FAILED'', TLit ''CORRECTED'', TLit ''POSTED'']),
      (''validationErrors'', False, TUnion [TString, TNull]),
      (''createdAt'', False, TString)]"

definition ExceptionType_employer_ts :: ts_type where
  "ExceptionType_employer_ts =
     TUnion [TLit ''RATE_MISMATCH'', TLit ''UNKNOWN_MEMBER'', TLit ''WRONG_PLAN'',
      TLit ''WRONG_DIVISION'', TLit ''RETIREE_DETECTED'', TLit ''IC_DETECTED'',
      TLit ''SALARY_SPREADING'', TLit ''DUPLICATE_SSN'', TLit ''MISSING_DATA'',
      TLit ''NEGATIVE_AMOUNT'', TLit ''OTHER'']"

definition ExceptionStatus_ts :: ts_type where
  "ExceptionStatus_ts =
     TUnion [TLit ''UNRESOLVED'', TLit ''PENDING_RESPONSE'', TLit ''ESCALATED'',
      TLit ''RESOLVED'', TLit ''DC_ROUTED'']"

definition ContributionException_ts :: ts_type where
  "ContributionException_ts = TObject
     [(''id'', False, TString),
      (''fileId'', False, TString),
      (''recordId'', False, TUnion [TString, TNull]),
      (''orgId'', False, TString),
      (''exceptionType'', False, ExceptionType_employer_ts),
      (''exceptionStatus'', False, ExceptionStatus_ts),
      (''description'', False, TString),
      (''expectedValue'', False, TUnion [TString, TNull]),
      (''submittedValue'', False, TUnion [TString, TNull]),
      (''assignedTo'', False, TUnion [TString, TNull]),
      (''resolutionNote'', False, TUnion [TString, TNull]),
      (''resolvedBy'', False, TUnion [TString, TNull]),
      (''resolvedAt'', False, TUnion [TString, TNull]),
      (''escalatedAt'', False, TUnion [TString, TNull]),
      (''dcRoutedAt'', False, TUnion [TString, TNull]),
      (''createdAt'', False, TString),
      (''updatedAt'', False, TString)]"

definition PaymentMethod_ts :: ts_type where
  "PaymentMethod_ts =
     TUnion [TLit ''ACH'', TLit ''WIRE'']"

definition PaymentStatus_ts :: ts_type where
  "PaymentStatus_ts =
     TUnion [TLit ''PENDING'', TLit ''SCHEDULED'', TLit ''PROCESSING'', TLit ''COMPLETED'',
      TLit ''FAILED'', TLit ''CANCELLED'']"

definition ContributionPayment_ts :: ts_type where
  "ContributionPayment_ts = TObject
     [(''id'', False, TString),
      (''fileId'', False, TString),
      (''orgId'', False, TString),
      (''paymentMethod'', False, PaymentMethod_ts),
      (''paymentStatus'', False, PaymentStatus_ts),
      (''amount'', False, TString),
      (''scheduledDate'', False, TUnion [TString, TNull]),
      (''processedDate'', False, TUnion [TString, TNull]),
      (''referenceNumber'', False, TUnion [TString, TNull]),
      (''discrepancyAmount'', False, TUnion [TString, TNull]),
      (''createdBy'', False, TUnion [TString, TNull]),
      (''createdAt'', False, TString),
      (''updatedAt'', False, TString)]"

definition LateInterestAccrual_ts :: ts_type where
  "LateInterestAccrual_ts = TObject
     [(''id'', False, TString),
      (''orgId'', False, TString),
      (''fileId'', False, TUnion [TString, TNull]),
      (''periodStart'', False, TString),
      (''periodEnd'', False, TString),
      (''daysLate'', False, TNumber),
      (''baseAmount'', False, TString),
      (''interestRate'', False, TString),
      (''interestAmount'', False, TString),
      (''minimumChargeApplied'', False, TBoolean),
      (''paymentId'', False, TUnion [TString, TNull]),
      (''createdAt'', False, TString)]"

definition EnrollmentType_ts :: ts_type where
  "EnrollmentType_ts =
     TUnion [TLit ''EMPLOYER_INITIATED'', TLit ''MEMBER_INITIATED'', TLit ''REHIRE'']"

definition SubmissionStatus_ts :: ts_type where
  "SubmissionStatus_ts =
     TUnion [TLit ''DRAFT'', TLit ''SUBMITTED'', TLit ''VALIDATING'', TLit ''VALIDATED'',
      TLit ''DUPLICATE_REVIEW'', TLit ''APPROVED'', TLit ''REJECTED'']"

definition EnrollmentSubmission_ts :: ts_type where
  "EnrollmentSubmission_ts = TObject
     [(''id'', False, TString),
      (''orgId'', False, TString),
      (''submittedBy'', False, TString),
      (''enrollmentType'', False, EnrollmentType_ts),
      (''submissionStatus'', False, SubmissionStatus_ts),
      (''ssnHash'', False, TString),
      (''firstName'', False, TString),
      (''lastName'', False, TString),
      (''dateOfBirth'', False, TString),
      (''hireDate'', False, TString),
      (''planCode'', False, TUnion [TLit ''DB'', TLit ''DC'', TLit ''ORP'']),
      (''divisionCode'', False, TString),
      (''tier'', False, TUnion [TString, TNull]),
      (''middleName'', False, TUnion [TString, TNull]),
      (''suffix'', False, TUnion [TString, TNull]),
      (''gender'', False, TUnion [TString, TNull]),
      (''addressLine1'', False, TUnion [TString, TNull]),
      (''addressLine2'', False, TUnion [TString, TNull]),
      (''city'', False, TUnion [TString, TNull]),
      (''state'', False, TUnion [TString, TNull]),
      (''zipCode'', False, TUnion [TString, TNull]),
      (''email'', False, TUnion [TString, TNull]),
      (''phone'', False, TUnion [TString, TNull]),
      (''isSafetyOfficer'', False, TBoolean),
      (''jobTitle'', False, TUnion [TString, TNull]),
      (''annualSalary'', False, TUnion [TString, TNull]),
      (''isRehire'', False, TBoolean),
      (''priorMemberId'', False, TUnion [TString, TNull]),
      (''priorRefundTaken'', False, TUnion [TBoolean, TNull]),
      (''conflictStatus'', False, TUnion [TString, TNull]),
      (''conflictFields'', False, TUnion [TString, TNull]),
      (''conflictResolvedBy'', False, TUnion [TString, TNull]),
      (''conflictResolvedAt'', False, TUnion [TString, TNull]),
      (''validationErrors'', False, TUnion [TString, TNull]),
      (''validatedAt'', False, TUnion [TString, TNull]),
      (''approvedBy'', False, TUnion [TString, TNull]),
      (''approvedAt'', False, TUnion [TString, TNull]),
      (''rejectedBy'', False, TUnion [TString, TNull]),
      (''rejectedAt'', False, TUnion [TString, TNull]),
      (''rejectionReason'', False, TUnion [TString, TNull]),
      (''createdAt'', False, TString),
      (''updatedAt'', False, TString)]"

definition DuplicateMatchType_ts :: ts_type where
  "DuplicateMatchType_ts =
     TUnion [TLit ''SSN_EXACT'', TLit ''NAME_DOB_FUZZY'']"

definition DuplicateResolutionStatus_ts :: ts_type where
  "DuplicateResolutionStatus_ts =
     TUnion [TLit ''PENDING'', TLit ''CONFIRMED_DUPLICATE'', TLit ''FALSE_POSITIVE'',
      TLit ''AUTO_RESOLVED'']"

definition DuplicateFlag_ts :: ts_type where
  "DuplicateFlag_ts = TObject
     [(''id'', False, TString),
      (''submissionId'', False, TString),
      (''matchType'', False, DuplicateMatchType_ts),
      (''matchedMemberId'', False, TUnion [TString, TNull]),
      (''matchedSubmissionId'', False, TUnion [TString, TNull]),
      (''confidenceScore'', False, TString),
      (''matchDetails'', False, TUnion [TString, TNull]),
      (''resolutionStatus'', False, DuplicateResolutionStatus_ts),
      (''resolvedBy'', False, TUnion [TString, TNull]),
      (''resolvedAt'', False, TUnion [TString, TNull]),
      (''resolutionNote'', False, TUnion [TString, TNull]),
      (''createdAt'', False, TString)]"

definition PERAChoiceStatus_ts :: ts_type where
  "PERAChoiceStatus_ts =
     TUnion [TLit ''PENDING'', TLit ''ELECTED_DC'', TLit ''DEFAULTED_DB'', TLit ''WAIVED'',
      TLit ''INELIGIBLE'']"

definition PERAChoiceElection_ts :: ts_type where
  "PERAChoiceElection_ts = TObject
     [(''id'', False, TString),
      (''submissionId'', False, TString),
      (''memberId'', False, TUnion [TString, TNull]),
      (''hireDate'', False, TString),
      (''windowOpens'', False, TString),
      (''windowCloses'', False, TString),
      (''electionStatus'', False, PERAChoiceStatus_ts),
      (''electedAt'', False, TUnion [TString, TNull]),
      (''electedPlan'', False, TUnion [TLit ''DB'', TLit ''DC'', TNull]),
      (''notificationSentAt'', False, TUnion [TString, TNull]),
      (''dcTeamNotified'', False, TBoolean),
      (''reminderSentAt'', False, TUnion [TString, TNull]),
      (''memberAcknowledged'', False, TBoolean),
      (''createdAt'', False, TString),
      (''updatedAt'', False, TString)]"

definition TerminationReason_ts :: ts_type where
  "TerminationReason_ts =
     TUnion [TLit ''RESIGNATION'', TLit ''RETIREMENT'', TLit ''LAYOFF'', TLit ''TERMINATION'',
      TLit ''DEATH'', TLit ''DISABILITY'', TLit ''OTHER'']"

definition CertificationStatus_ts :: ts_type where
  "CertificationStatus_ts =
     TUnion [TLit ''SUBMITTED'', TLit ''UNDER_REVIEW'', TLit ''VERIFIED'', TLit ''REJECTED'',
      TLit ''CANCELLED'']"

definition TerminationCertification_ts :: ts_type where
  "TerminationCertification_ts = TObject
     [(''id'', False, TString),
      (''orgId'', False, TString),
      (''memberId'', False, TUnion [TString, TNull]),
      (''ssnHash'', False, TString),
      (''firstName'', False, TString),
      (''lastName'', False, TString),
      (''lastDayWorked'', False, TString),
      (''terminationReason'', False, TerminationReason_ts),
      (''finalContributionDate'', False, TUnion [TString, TNull]),
      (''finalSalaryAmount'', False, TUnion [TString, TNull]),
      (''certificationStatus'', False, CertificationStatus_ts),
      (''submittedBy'', False, TString),
      (''verifiedBy'', False, TUnion [TString, TNull]),
      (''verifiedAt'', False, TUnion [TString, TNull]),
      (''rejectedBy'', False, TUnion [TString, TNull]),
      (''rejectedAt'', False, TUnion [TString, TNull]),
      (''rejectionReason'', False, TUnion [TString, TNull]),
      (''notes'', False, TUnion [TString, TNull]),
      (''createdAt'', False, TString),
      (''updatedAt'', False, TString)]"

definition HoldStatus_ts :: ts_type where
  "HoldStatus_ts =
     TUnion [TLit ''PENDING'', TLit ''REMINDER_SENT'', TLit ''ESCALATED'', TLit ''RESOLVED'',
      TLit ''CANCELLED'', TLit ''EXPIRED'']"

definition CertificationHold_ts :: ts_type where
  "CertificationHold_ts = TObject
     [(''id'', False, TString),
      (''refundApplicationId'', False, TString),
      (''orgId'', False, TString),
      (''memberId'', False, TUnion [TString, TNull]),
      (''ssnHash'', False, TString),
      (''holdStatus'', False, HoldStatus_ts),
      (''holdReason'', False, TString),
      (''countdownDays'', False, TNumber),
      (''expiresAt'', False, TString),
      (''reminderSentAt'', False, TUnion [TString, TNull]),
      (''escalatedAt'', False, TUnion [TString, TNull]),
      (''resolvedBy'', False, TUnion [TString, TNull]),
      (''resolvedAt'', False, TUnion [TString, TNull]),
      (''resolutionNote'', False, TUnion [TString, TNull]),
      (''certificationId'', False, TUnion [TString, TNull]),
      (''createdAt'', False, TString),
      (''updatedAt'', False, TString)]"

definition RefundPaymentMethod_ts :: ts_type where
  "RefundPaymentMethod_ts =
     TUnion [TLit ''DIRECT_DEPOSIT'', TLit ''ROLLOVER'', TLit ''PARTIAL_ROLLOVER'',
      TLit ''CHECK'']"

definition RefundApplicationStatus_ts :: ts_type where
  "RefundApplicationStatus_ts =
     TUnion [TLit ''DRAFT'', TLit ''SUBMITTED'', TLit ''HOLD_PENDING_CERTIFICATION'',
      TLit ''ELIGIBILITY_CHECK'', TLit ''CALCULATION_COMPLETE'', TLit ''PAYMENT_SCHEDULED'',
      TLit ''PAYMENT_LOCKED'', TLit ''DISBURSED'', TLit ''DENIED'', TLit ''CANCELLED'',
      TLit ''FORFEITURE_ACKNOWLEDGED'']"

definition RefundApplication_ts :: ts_type where
  "RefundApplication_ts = TObject
     [(''id'', False, TString),
      (''memberId'', False, TUnion [TString, TNull]),
      (''ssnHash'', False, TString),
      (''firstName'', False, TString),
      (''lastName'', False, TString),
      (''hireDate'', False, TString),
      (''terminationDate'', False, TUnion [TString, TNull]),
      (''separationDate'', False, TUnion [TString, TNull]),
      (''yearsOfService'', False, TUnion [TString, TNull]),
      (''isVested'', False, TBoolean),
      (''hasDisabilityApp'', False, TBoolean),
      (''disabilityAppDate'', False, TUnion [TString, TNull]),
      (''employeeContributions'', False, TString),
      (''interestRate'', False, TUnion [TString, TNull]),
      (''interestAmount'', False, TString),
      (''grossRefund'', False, TString),
      (''federalTaxWithholding'', False, TString),
      (''droDeduction'', False, TString),
      (''netRefund'', False, TString),
      (''paymentMethod'', False, TUnion [RefundPaymentMethod_ts, TNull]),
      (''rolloverAmount'', False, TUnion [TString, TNull]),
      (''directAmount'', False, TUnion [TString, TNull]),
      (''applicationStatus'', False, RefundApplicationStatus_ts),
      (''forfeitureAcknowledged'', False, TBoolean),
      (''forfeitureAcknowledgedAt'', False, TUnion [TString, TNull]),
      (''memberSignature'', False, TBoolean),
      (''notarized'', False, TBoolean),
      (''w9Received'', False, TBoolean),
      (''createdAt'', False, TString),
      (''updatedAt'', False, TString)]"

definition RefundCalculationResult_ts :: ts_type where
  "RefundCalculationResult_ts = TObject
     [(''employeeContributions'', False, TString),
      (''interestRate'', False, TString),
      (''interestAmount'', False, TString),
      (''grossRefund'', False, TString),
      (''federalTaxWithholding'', False, TString),
      (''droDeduction'', False, TString),
      (''netRefund'', False, TString)]"

definition EligibilityResult_ts :: ts_type where
  "EligibilityResult_ts = TObject
     [(''eligible'', False, TBoolean),
      (''reasons'', False, TArray TString)]"

definition WaretDesignationType_ts :: ts_type where
  "WaretDesignationType_ts =
     TUnion [TLit ''STANDARD'', TLit ''140_DAY'', TLit ''CRITICAL_SHORTAGE'']"

definition WaretDesignationStatus_ts :: ts_type where
  "WaretDesignationStatus_ts =
     TUnion [TLit ''PENDING'', TLit ''APPROVED'', TLit ''ACTIVE'', TLit ''EXPIRED'',
      TLit ''REVOKED'', TLit ''SUSPENDED'']"

definition WaretDesignation_ts :: ts_type where
  "WaretDesignation_ts = TObject
     [(''id'', False, TString),
      (''orgId'', False, TString),
      (''retireeId'', False, TUnion [TString, TNull]),
      (''ssnHash'', False, TString),
      (''firstName'', False, TString),
      (''lastName'', False, TString),
      (''designationType'', False, WaretDesignationType_ts),
      (''calendarYear'', False, TNumber),
      (''dayLimit'', False, TUnion [TNumber, TNull]),
      (''hourLimit'', False, TUnion [TNumber, TNull]),
      (''consecutiveYears'', False, TNumber),
      (''districtId'', False, TUnion [TString, TNull]),
      (''orpExempt'', False, TBoolean),
      (''designationStatus'', False, WaretDesignationStatus_ts),
      (''peracareConflict'', False, TBoolean),
      (''peracareLetterSentAt'', False, TUnion [TString, TNull]),
      (''peracareResponseDue'', False, TUnion [TString, TNull]),
      (''peracareResolved'', False, TBoolean),
      (''approvedBy'', False, TUnion [TString, TNull]),
      (''approvedAt'', False, TUnion [TString, TNull]),
      (''revokedBy'', False, TUnion [TString, TNull]),
      (''revokedAt'', False, TUnion [TString, TNull]),
      (''revocationReason'', False, TUnion [TString, TNull]),
      (''notes'', False, TUnion [TString, TNull]),
      (''createdAt'', False, TString),
      (''updatedAt'', False, TString)]"

definition WaretTrackingStatus_ts :: ts_type where
  "WaretTrackingStatus_ts =
     TUnion [TLit ''RECORDED'', TLit ''VERIFIED'', TLit ''DISPUTED'', TLit ''VOIDED'']"

definition WaretTracking_ts :: ts_type where
  "WaretTracking_ts = TObject
     [(''id'', False, TString),
      (''designationId'', False, TString),
      (''orgId'', False, TString),
      (''retireeId'', False, TUnion [TString, TNull]),
      (''workDate'', False, TString),
      (''hoursWorked'', False, TString),
      (''countsAsDay'', False, TBoolean),
      (''ytdDays'', False, TNumber),
      (''ytdHours'', False, TString),
      (''entryStatus'', False, WaretTrackingStatus_ts),
      (''submittedBy'', False, TString),
      (''verifiedBy'', False, TUnion [TString, TNull]),
      (''verifiedAt'', False, TUnion [TString, TNull]),
      (''notes'', False, TUnion [TString, TNull]),
      (''createdAt'', False, TString),
      (''updatedAt'', False, TString)]"

definition WaretTrackingResult_ts :: ts_type where
  "WaretTrackingResult_ts = TObject
     [(''countsAsDay'', False, TBoolean),
      (''hoursWorked'', False, TString),
      (''newYtdDays'', False, TNumber),
      (''newYtdHours'', False, TString),
      (''overDayLimit'', False, TBoolean),
      (''overHourLimit'', False, TBoolean),
      (''daysRemaining'', False, TUnion [TNumber, TNull]),
      (''hoursRemaining'', False, TUnion [TString, TNull])]"

definition WaretYTDSummary_ts :: ts_type where
  "WaretYTDSummary_ts = TObject
     [(''designationId'', False, TString),
      (''orgId'', False, TString),
      (''retireeId'', False, TUnion [TString, TNull]),
      (''ssnHash'', False, TString),
      (''calendarYear'', False, TNumber),
      (''designationType'', False, WaretDesignationType_ts),
      (''dayLimit'', False, TUnion [TNumber, TNull]),
      (''hourLimit'', False, TUnion [TNumber, TNull]),
      (''orpExempt'', False, TBoolean),
      (''totalDays'', False, TNumber),
      (''totalHours'', False, TString),
      (''daysRemaining'', False, TUnion [TNumber, TNull]),
      (''hoursRemaining'', False, TUnion [TString, TNull]),
      (''overLimit'', False, TBoolean)]"

definition WaretPenaltyType_ts :: ts_type where
  "WaretPenaltyType_ts =
     TUnion [TLit ''OVER_LIMIT'', TLit ''FIRST_BUSINESS_DAY'', TLit ''NON_DISCLOSURE'']"

definition WaretPenaltyStatus_ts :: ts_type where
  "WaretPenaltyStatus_ts =
     TUnion [TLit ''ASSESSED'', TLit ''APPEALED'', TLit ''CONFIRMED'', TLit ''WAIVED'',
      TLit ''COLLECTING'', TLit ''COLLECTED'']"

definition WaretPenalty_ts :: ts_type where
  "WaretPenalty_ts = TObject
     [(''id'', False, TString),
      (''designationId'', False, TString),
      (''retireeId'', False, TUnion [TString, TNull]),
      (''ssnHash'', False, TString),
      (''penaltyType'', False, WaretPenaltyType_ts),
      (''penaltyMonth'', False, TString),
      (''monthlyBenefit'', False, TString),
      (''daysOverLimit'', False, TNumber),
      (''penaltyRate'', False, TString),
      (''penaltyAmount'', False, TString),
      (''employerRecovery'', False, TString),
      (''retireeRecovery'', False, TString),
      (''spreadMonths'', False, TNumber),
      (''monthlyDeduction'', False, TString),
      (''penaltyStatus'', False, WaretPenaltyStatus_ts),
      (''assessedBy'', False, TUnion [TString, TNull]),
      (''assessedAt'', False, TString),
      (''appealedAt'', False, TUnion [TString, TNull]),
      (''appealNote'', False, TUnion [TString, TNull]),
      (''waivedBy'', False, TUnion [TString, TNull]),
      (''waivedAt'', False, TUnion [TString, TNull]),
      (''waiverReason'', False, TUnion [TString, TNull]),
      (''createdAt'', False, TString),
      (''updatedAt'', False, TString)]"

definition WaretDisclosureStatus_ts :: ts_type where
  "WaretDisclosureStatus_ts =
     TUnion [TLit ''SUBMITTED'', TLit ''REVIEWED'', TLit ''FLAGGED'', TLit ''CLEARED'']"

definition WaretICDisclosure_ts :: ts_type where
  "WaretICDisclosure_ts = TObject
     [(''id'', False, TString),
      (''retireeId'', False, TUnion [TString, TNull]),
      (''ssnHash'', False, TString),
      (''orgId'', False, TString),
      (''calendarYear'', False, TNumber),
      (''icStartDate'', False, TString),
      (''icEndDate'', False, TUnion [TString, TNull]),
      (''icDescription'', False, TString),
      (''estimatedHours'', False, TUnion [TString, TNull]),
      (''estimatedCompensation'', False, TUnion [TString, TNull]),
      (''disclosureStatus'', False, WaretDisclosureStatus_ts),
      (''submittedAt'', False, TString),
      (''reviewedBy'', False, TUnion [TString, TNull]),
      (''reviewedAt'', False, TUnion [TString, TNull]),
      (''reviewNote'', False, TUnion [TString, TNull]),
      (''createdAt'', False, TString),
      (''updatedAt'', False, TString)]"

definition PERACareConflictResult_ts :: ts_type where
  "PERACareConflictResult_ts = TObject
     [(''hasConflict'', False, TBoolean),
      (''responseDue'', False, TUnion [TString, TNull]),
      (''subsidyRemoved'', False, TBoolean),
      (''reason'', False, TString)]"

definition SCPCostFactor_ts :: ts_type where
  "SCPCostFactor_ts = TObject
     [(''id'', False, TString),
      (''tier'', False, TString),
      (''hireDateFrom'', False, TString),
      (''hireDateTo'', False, TString),
      (''ageAtPurchase'', False, TNumber),
      (''effectiveDate'', False, TString),
      (''expiryDate'', False, TUnion [TString, TNull]),
      (''costFactor'', False, TString),
      (''sourceDocument'', False, TUnion [TString, TNull]),
      (''notes'', False, TUnion [TString, TNull]),
      (''createdAt'', False, TString),
      (''updatedAt'', False, TString)]"

definition SCPCostQuoteResult_ts :: ts_type where
  "SCPCostQuoteResult_ts = TObject
     [(''costFactor'', False, TString),
      (''annualSalary'', False, TString),
      (''yearsRequested'', False, TString),
      (''totalCost'', False, TString),
      (''quoteDate'', False, TString),
      (''quoteExpires'', False, TString)]"

definition SCPServiceType_ts :: ts_type where
  "SCPServiceType_ts =
     TUnion [TLit ''REFUNDED_PRIOR_PERA'', TLit ''MILITARY_USERRA'',
      TLit ''PRIOR_PUBLIC_EMPLOYMENT'', TLit ''LEAVE_OF_ABSENCE'', TLit ''PERACHOICE_TRANSFER'']"

definition SCPPaymentMethod_ts :: ts_type where
  "SCPPaymentMethod_ts =
     TUnion [TLit ''LUMP_SUM'', TLit ''DIRECT_ROLLOVER'', TLit ''INSTALLMENT'']"

definition SCPRequestStatus_ts :: ts_type where
  "SCPRequestStatus_ts =
     TUnion [TLit ''DRAFT'', TLit ''QUOTED'', TLit ''PENDING_DOCS'', TLit ''UNDER_REVIEW'',
      TLit ''APPROVED'', TLit ''PAYING'', TLit ''COMPLETED'', TLit ''EXPIRED'', TLit ''DENIED'',
      TLit ''CANCELLED'']"

definition SCPRequest_ts :: ts_type where
  "SCPRequest_ts = TObject
     [(''id'', False, TString),
      (''orgId'', False, TString),
      (''memberId'', False, TUnion [TString, TNull]),
      (''ssnHash'', False, TString),
      (''firstName'', False, TString),
      (''lastName'', False, TString),
      (''serviceType'', False, SCPServiceType_ts),
      (''tier'', False, TString),
      (''yearsRequested'', False, TString),
      (''costFactorId'', False, TUnion [TString, TNull]),
      (''costFactor'', False, TUnion [TString, TNull]),
      (''annualSalaryAtPurchase'', False, TUnion [TString, TNull]),
      (''totalCost'', False, TUnion [TString, TNull]),
      (''paymentMethod'', False, TUnion [SCPPaymentMethod_ts, TNull]),
      (''amountPaid'', False, TString),
      (''amountRemaining'', False, TString),
      (''quoteDate'', False, TUnion [TString, TNull]),
      (''quoteExpires'', False, TUnion [TString, TNull]),
      (''quoteRecalculated'', False, TBoolean),
      (''documentationReceived'', False, TBoolean),
      (''documentationVerified'', False, TBoolean),
      (''verifiedBy'', False, TUnion [TString, TNull]),
      (''verifiedAt'', False, TUnion [TString, TNull]),
      (''excludesFromRuleOf7585'', False, TBoolean),
      (''excludesFromIpr'', False, TBoolean),
      (''excludesFromVesting'', False, TBoolean),
      (''requestStatus'', False, SCPRequestStatus_ts),
      (''submittedBy'', False, TUnion [TString, TNull]),
      (''submittedAt'', False, TUnion [TString, TNull]),
      (''reviewedBy'', False, TUnion [TString, TNull]),
      (''reviewedAt'', False, TUnion [TString, TNull]),
      (''reviewNote'', False, TUnion [TString, TNull]),
      (''approvedBy'', False, TUnion [TString, TNull]),
      (''approvedAt'', False, TUnion [TString, TNull]),
      (''deniedBy'', False, TUnion [TString, TNull]),
      (''deniedAt'', False, TUnion [TString, TNull]),
      (''denialReason'', False, TUnion [TString, TNull]),
      (''notes'', False, TUnion [TString, TNull]),
      (''createdAt'', False, TString),
      (''updatedAt'', False, TString)]"

definition SCPEligibilityResult_ts :: ts_type where
  "SCPEligibilityResult_ts = TObject
     [(''eligible'', False, TBoolean),
      (''serviceType'', False, TString),
      (''label'', False, TString),
      (''requiredDocs'', False, TArray TString),
      (''errors'', True, TArray TString)]"

subsection \<open>Sent by the services\<close>

definition PortalUser_go :: go_type where
  "PortalUser_go = GStruct
     [(''id'', False, GString),
      (''orgId'', False, GString),
      (''contactId'', False, GString),
      (''portalRole'', False, GString),
      (''isActive'', False, GBool),
      (''lastLoginAt'', False, GNilable GTime),
      (''onboardingCompletedAt'', False, GNilable GTime),
      (''createdAt'', False, GTime),
      (''updatedAt'', False, GTime)]"

definition DashboardSummary_employer_go :: go_type where
  "DashboardSummary_employer_go = GStruct
     [(''pendingExceptions'', False, GInt),
      (''unresolvedTasks'', False, GInt),
      (''recentSubmissions'', False, GInt),
      (''activeAlerts'', False, GInt)]"

definition Alert_go :: go_type where
  "Alert_go = GStruct
     [(''id'', False, GString),
      (''orgId'', False, GNilable GString),
      (''alertType'', False, GString),
      (''title'', False, GString),
      (''body'', False, GNilable GString),
      (''effectiveFrom'', False, GTime),
      (''effectiveTo'', False, GNilable GTime),
      (''createdBy'', False, GNilable GString),
      (''createdAt'', False, GTime)]"

definition RateTableRow_go :: go_type where
  "RateTableRow_go = GStruct
     [(''id'', False, GString),
      (''divisionCode'', False, GString),
      (''isSafetyOfficer'', False, GBool),
      (''memberRate'', False, GString),
      (''employerBaseRate'', False, GString),
      (''aedRate'', False, GString),
      (''saedRate'', False, GString),
      (''aapRate'', False, GString),
      (''dcSupplementRate'', False, GString),
      (''employerTotalRate'', False, GString),
      (''healthCareTrustRate'', False, GString),
      (''effectiveFrom'', False, GString),
      (''effectiveTo'', False, GNilable GString),
      (''boardResolutionRef'', False, GNilable GString),
      (''createdAt'', False, GTime)]"

definition ContributionFile_go :: go_type where
  "ContributionFile_go = GStruct
     [(''id'', False, GString),
      (''orgId'', False, GString),
      (''uploadedBy'', False, GString),
      (''fileName'', False, GString),
      (''fileType'', False, GString),
      (''fileStatus'', False, GString),
      (''periodStart'', False, GString),
      (''periodEnd'', False, GString),
      (''divisionCode'', False, GString),
      (''totalRecords'', False, GInt),
      (''validRecords'', False, GInt),
      (''failedRecords'', False, GInt),
      (''totalAmount'', False, GString),
      (''validatedAmount'', False, GString),
      (''replacesFileId'', False, GNilable GString),
      (''validationStartedAt'', False, GNilable GTime),
      (''validationCompletedAt'', False, GNilable GTime),
      (''createdAt'', False, GTime),
      (''updatedAt'', False, GTime)]"

definition ContributionRecord_go :: go_type where
  "ContributionRecord_go = GStruct
     [(''id'', False, GString),
      (''fileId'', False, GString),
      (''rowNumber'', False, GInt),
      (''ssnHash'', False, GString),
      (''memberName'', False, GNilable GString),
      (''memberId'', False, GNilable GString),
      (''divisionCode'', False, GString),
      (''isSafetyOfficer'', False, GBool),
      (''isOrp'', False, GBool),
      (''grossSalary'', False, GString),
      (''memberContribution'', False, GString),
      (''employerContribution'', False, GString),
      (''aedAmount'', False, GString),
      (''saedAmount'', False, GString),
      (''aapAmount'', False, GString),
      (''dcSupplementAmount'', False, GString),
      (''totalAmount'', False, GString),
      (''recordStatus'', False, GString),
      (''validationErrors'', False, GNilable GString),
      (''createdAt'', False, GTime)]"

definition ContributionException_go :: go_type where
  "ContributionException_go = GStruct
     [(''id'', False, GString),
      (''fileId'', False, GString),
      (''recordId'', False, GNilable GString),
      (''orgId'', False, GString),
      (''exceptionType'', False, GString),
      (''exceptionStatus'', False, GString),
      (''description'', False, GString),
      (''expectedValue'', False, GNilable GString),
      (''submittedValue'', False, GNilable GString),
      (''assignedTo'', False, GNilable GString),
      (''resolutionNote'', False, GNilable GString),
      (''resolvedBy'', False, GNilable GString),
      (''resolvedAt'', False, GNilable GTime),
      (''escalatedAt'', False, GNilable GTime),
      (''dcRoutedAt'', False, GNilable GTime),
      (''createdAt'', False, GTime),
      (''updatedAt'', False, GTime)]"

definition ContributionPayment_go :: go_type where
  "ContributionPayment_go = GStruct
     [(''id'', False, GString),
      (''fileId'', False, GString),
      (''orgId'', False, GString),
      (''paymentMethod'', False, GString),
      (''paymentStatus'', False, GString),
      (''amount'', False, GString),
      (''scheduledDate'', False, GNilable GString),
      (''processedDate'', False, GNilable GString),
      (''referenceNumber'', False, GNilable GString),
      (''discrepancyAmount'', False, GNilable GString),
      (''createdBy'', False, GNilable GString),
      (''createdAt'', False, GTime),
      (''updatedAt'', False, GTime)]"

definition LateInterestAccrual_go :: go_type where
  "LateInterestAccrual_go = GStruct
     [(''id'', False, GString),
      (''orgId'', False, GString),
      (''fileId'', False, GNilable GString),
      (''periodStart'', False, GString),
      (''periodEnd'', False, GString),
      (''daysLate'', False, GInt),
      (''baseAmount'', False, GString),
      (''interestRate'', False, GString),
      (''interestAmount'', False, GString),
      (''minimumChargeApplied'', False, GBool),
      (''paymentId'', False, GNilable GString),
      (''createdAt'', False, GTime)]"

definition EnrollmentSubmission_go :: go_type where
  "EnrollmentSubmission_go = GStruct
     [(''id'', False, GString),
      (''orgId'', False, GString),
      (''submittedBy'', False, GString),
      (''enrollmentType'', False, GString),
      (''submissionStatus'', False, GString),
      (''ssnHash'', False, GString),
      (''firstName'', False, GString),
      (''lastName'', False, GString),
      (''dateOfBirth'', False, GString),
      (''hireDate'', False, GString),
      (''planCode'', False, GString),
      (''divisionCode'', False, GString),
      (''tier'', False, GNilable GString),
      (''middleName'', False, GNilable GString),
      (''suffix'', False, GNilable GString),
      (''gender'', False, GNilable GString),
      (''addressLine1'', False, GNilable GString),
      (''addressLine2'', False, GNilable GString),
      (''city'', False, GNilable GString),
      (''state'', False, GNilable GString),
      (''zipCode'', False, GNilable GString),
      (''email'', False, GNilable GString),
      (''phone'', False, GNilable GString),
      (''isSafetyOfficer'', False, GBool),
      (''jobTitle'', False, GNilable GString),
      (''annualSalary'', False, GNilable GString),
      (''isRehire'', False, GBool),
      (''priorMemberId'', False, GNilable GString),
      (''priorRefundTaken'', False, GNilable GBool),
      (''conflictStatus'', False, GNilable GString),
      (''conflictFields'', False, GNilable GString),
      (''conflictResolvedBy'', False, GNilable GString),
      (''conflictResolvedAt'', False, GNilable GTime),
      (''validationErrors'', False, GNilable GString),
      (''validatedAt'', False, GNilable GTime),
      (''approvedBy'', False, GNilable GString),
      (''approvedAt'', False, GNilable GTime),
      (''rejectedBy'', False, GNilable GString),
      (''rejectedAt'', False, GNilable GTime),
      (''rejectionReason'', False, GNilable GString),
      (''createdAt'', False, GTime),
      (''updatedAt'', False, GTime)]"

definition DuplicateFlag_go :: go_type where
  "DuplicateFlag_go = GStruct
     [(''id'', False, GString),
      (''submissionId'', False, GString),
      (''matchType'', False, GString),
      (''matchedMemberId'', False, GNilable GString),
      (''matchedSubmissionId'', False, GNilable GString),
      (''confidenceScore'', False, GString),
      (''matchDetails'', False, GNilable GString),
      (''resolutionStatus'', False, GString),
      (''resolvedBy'', False, GNilable GString),
      (''resolvedAt'', False, GNilable GTime),
      (''resolutionNote'', False, GNilable GString),
      (''createdAt'', False, GTime)]"

definition PERAChoiceElection_go :: go_type where
  "PERAChoiceElection_go = GStruct
     [(''id'', False, GString),
      (''submissionId'', False, GString),
      (''memberId'', False, GNilable GString),
      (''hireDate'', False, GString),
      (''windowOpens'', False, GString),
      (''windowCloses'', False, GString),
      (''electionStatus'', False, GString),
      (''electedAt'', False, GNilable GTime),
      (''electedPlan'', False, GNilable GString),
      (''notificationSentAt'', False, GNilable GTime),
      (''dcTeamNotified'', False, GBool),
      (''reminderSentAt'', False, GNilable GTime),
      (''memberAcknowledged'', False, GBool),
      (''createdAt'', False, GTime),
      (''updatedAt'', False, GTime)]"

definition TerminationCertification_go :: go_type where
  "TerminationCertification_go = GStruct
     [(''id'', False, GString),
      (''orgId'', False, GString),
      (''memberId'', False, GNilable GString),
      (''ssnHash'', False, GString),
      (''firstName'', False, GString),
      (''lastName'', False, GString),
      (''lastDayWorked'', False, GString),
      (''terminationReason'', False, GString),
      (''finalContributionDate'', False, GNilable GString),
      (''finalSalaryAmount'', False, GNilable GString),
      (''certificationStatus'', False, GString),
      (''submittedBy'', False, GString),
      (''verifiedBy'', False, GNilable GString),
      (''verifiedAt'', False, GNilable GTime),
      (''rejectedBy'', False, GNilable GString),
      (''rejectedAt'', False, GNilable GTime),
      (''rejectionReason'', False, GNilable GString),
      (''notes'', False, GNilable GString),
      (''createdAt'', False, GTime),
      (''updatedAt'', False, GTime)]"

definition CertificationHold_go :: go_type where
  "CertificationHold_go = GStruct
     [(''id'', False, GString),
      (''refundApplicationId'', False, GString),
      (''orgId'', False, GString),
      (''memberId'', False, GNilable GString),
      (''ssnHash'', False, GString),
      (''holdStatus'', False, GString),
      (''holdReason'', False, GString),
      (''countdownDays'', False, GInt),
      (''expiresAt'', False, GTime),
      (''reminderSentAt'', False, GNilable GTime),
      (''escalatedAt'', False, GNilable GTime),
      (''resolvedBy'', False, GNilable GString),
      (''resolvedAt'', False, GNilable GTime),
      (''resolutionNote'', False, GNilable GString),
      (''certificationId'', False, GNilable GString),
      (''createdAt'', False, GTime),
      (''updatedAt'', False, GTime)]"

definition RefundApplication_go :: go_type where
  "RefundApplication_go = GStruct
     [(''id'', False, GString),
      (''memberId'', False, GNilable GString),
      (''ssnHash'', False, GString),
      (''firstName'', False, GString),
      (''lastName'', False, GString),
      (''hireDate'', False, GString),
      (''terminationDate'', False, GNilable GString),
      (''separationDate'', False, GNilable GString),
      (''yearsOfService'', False, GNilable GString),
      (''isVested'', False, GBool),
      (''hasDisabilityApp'', False, GBool),
      (''disabilityAppDate'', False, GNilable GString),
      (''employeeContributions'', False, GString),
      (''interestRate'', False, GNilable GString),
      (''interestAmount'', False, GString),
      (''grossRefund'', False, GString),
      (''federalTaxWithholding'', False, GString),
      (''droDeduction'', False, GString),
      (''netRefund'', False, GString),
      (''paymentMethod'', False, GNilable GString),
      (''rolloverAmount'', False, GNilable GString),
      (''directAmount'', False, GNilable GString),
      (''achRoutingNumber'', False, GNilable GString),
      (''achAccountNumber'', False, GNilable GString),
      (''rolloverInstitution'', False, GNilable GString),
      (''rolloverAccount'', False, GNilable GString),
      (''applicationStatus'', False, GString),
      (''forfeitureAcknowledged'', False, GBool),
      (''forfeitureAcknowledgedAt'', False, GNilable GTime),
      (''memberSignature'', False, GBool),
      (''notarized'', False, GBool),
      (''w9Received'', False, GBool),
      (''submittedAt'', False, GNilable GTime),
      (''eligibilityCheckedAt'', False, GNilable GTime),
      (''calculatedAt'', False, GNilable GTime),
      (''paymentScheduledAt'', False, GNilable GTime),
      (''paymentLockedAt'', False, GNilable GTime),
      (''disbursedAt'', False, GNilable GTime),
      (''deniedAt'', False, GNilable GTime),
      (''denialReason'', False, GNilable GString),
      (''processedBy'', False, GNilable GString),
      (''createdAt'', False, GTime),
      (''updatedAt'', False, GTime)]"

definition RefundResult_go :: go_type where
  "RefundResult_go = GStruct
     [(''employeeContributions'', False, GString),
      (''interestRate'', False, GString),
      (''interestAmount'', False, GString),
      (''grossRefund'', False, GString),
      (''federalTaxWithholding'', False, GString),
      (''droDeduction'', False, GString),
      (''netRefund'', False, GString)]"

definition EligibilityResult_go :: go_type where
  "EligibilityResult_go = GStruct
     [(''eligible'', False, GBool),
      (''reasons'', False, GNilable (GSlice GString))]"

definition WaretDesignation_go :: go_type where
  "WaretDesignation_go = GStruct
     [(''id'', False, GString),
      (''orgId'', False, GString),
      (''retireeId'', False, GNilable GString),
      (''ssnHash'', False, GString),
      (''firstName'', False, GString),
      (''lastName'', False, GString),
      (''designationType'', False, GString),
      (''calendarYear'', False, GInt),
      (''dayLimit'', False, GNilable GInt),
      (''hourLimit'', False, GNilable GInt),
      (''consecutiveYears'', False, GInt),
      (''districtId'', False, GNilable GString),
      (''orpExempt'', False, GBool),
      (''designationStatus'', False, GString),
      (''peracareConflict'', False, GBool),
      (''peracareLetterSentAt'', False, GNilable GTime),
      (''peracareResponseDue'', False, GNilable GTime),
      (''peracareResolved'', False, GBool),
      (''approvedBy'', False, GNilable GString),
      (''approvedAt'', False, GNilable GTime),
      (''revokedBy'', False, GNilable GString),
      (''revokedAt'', False, GNilable GTime),
      (''revocationReason'', False, GNilable GString),
      (''notes'', False, GNilable GString),
      (''createdAt'', False, GTime),
      (''updatedAt'', False, GTime)]"

definition WaretTracking_go :: go_type where
  "WaretTracking_go = GStruct
     [(''id'', False, GString),
      (''designationId'', False, GString),
      (''orgId'', False, GString),
      (''retireeId'', False, GNilable GString),
      (''workDate'', False, GString),
      (''hoursWorked'', False, GString),
      (''countsAsDay'', False, GBool),
      (''ytdDays'', False, GInt),
      (''ytdHours'', False, GString),
      (''entryStatus'', False, GString),
      (''submittedBy'', False, GString),
      (''verifiedBy'', False, GNilable GString),
      (''verifiedAt'', False, GNilable GTime),
      (''notes'', False, GNilable GString),
      (''createdAt'', False, GTime),
      (''updatedAt'', False, GTime)]"

definition TrackingResult_go :: go_type where
  "TrackingResult_go = GStruct
     [(''countsAsDay'', False, GBool),
      (''hoursWorked'', False, GString),
      (''newYtdDays'', False, GInt),
      (''newYtdHours'', False, GString),
      (''overDayLimit'', False, GBool),
      (''overHourLimit'', False, GBool),
      (''daysRemaining'', False, GNilable GInt),
      (''hoursRemaining'', False, GNilable GString)]"

definition WaretYTDSummary_go :: go_type where
  "WaretYTDSummary_go = GStruct
     [(''designationId'', False, GString),
      (''orgId'', False, GString),
      (''retireeId'', False, GNilable GString),
      (''ssnHash'', False, GString),
      (''calendarYear'', False, GInt),
      (''designationType'', False, GString),
      (''dayLimit'', False, GNilable GInt),
      (''hourLimit'', False, GNilable GInt),
      (''orpExempt'', False, GBool),
      (''totalDays'', False, GInt),
      (''totalHours'', False, GString),
      (''daysRemaining'', False, GNilable GInt),
      (''hoursRemaining'', False, GNilable GString),
      (''overLimit'', False, GBool)]"

definition WaretPenalty_go :: go_type where
  "WaretPenalty_go = GStruct
     [(''id'', False, GString),
      (''designationId'', False, GString),
      (''retireeId'', False, GNilable GString),
      (''ssnHash'', False, GString),
      (''penaltyType'', False, GString),
      (''penaltyMonth'', False, GString),
      (''monthlyBenefit'', False, GString),
      (''daysOverLimit'', False, GInt),
      (''penaltyRate'', False, GString),
      (''penaltyAmount'', False, GString),
      (''employerRecovery'', False, GString),
      (''retireeRecovery'', False, GString),
      (''spreadMonths'', False, GInt),
      (''monthlyDeduction'', False, GString),
      (''penaltyStatus'', False, GString),
      (''assessedBy'', False, GNilable GString),
      (''assessedAt'', False, GTime),
      (''appealedAt'', False, GNilable GTime),
      (''appealNote'', False, GNilable GString),
      (''waivedBy'', False, GNilable GString),
      (''waivedAt'', False, GNilable GTime),
      (''waiverReason'', False, GNilable GString),
      (''createdAt'', False, GTime),
      (''updatedAt'', False, GTime)]"

definition WaretICDisclosure_go :: go_type where
  "WaretICDisclosure_go = GStruct
     [(''id'', False, GString),
      (''retireeId'', False, GNilable GString),
      (''ssnHash'', False, GString),
      (''orgId'', False, GString),
      (''calendarYear'', False, GInt),
      (''icStartDate'', False, GString),
      (''icEndDate'', False, GNilable GString),
      (''icDescription'', False, GString),
      (''estimatedHours'', False, GNilable GString),
      (''estimatedCompensation'', False, GNilable GString),
      (''disclosureStatus'', False, GString),
      (''submittedAt'', False, GTime),
      (''reviewedBy'', False, GNilable GString),
      (''reviewedAt'', False, GNilable GTime),
      (''reviewNote'', False, GNilable GString),
      (''createdAt'', False, GTime),
      (''updatedAt'', False, GTime)]"

definition PERACareConflictResult_go :: go_type where
  "PERACareConflictResult_go = GStruct
     [(''hasConflict'', False, GBool),
      (''responseDue'', False, GNilable GTime),
      (''subsidyRemoved'', False, GBool),
      (''reason'', False, GString)]"

definition SCPCostFactor_go :: go_type where
  "SCPCostFactor_go = GStruct
     [(''id'', False, GString),
      (''tier'', False, GString),
      (''hireDateFrom'', False, GString),
      (''hireDateTo'', False, GString),
      (''ageAtPurchase'', False, GInt),
      (''effectiveDate'', False, GString),
      (''expiryDate'', False, GNilable GString),
      (''costFactor'', False, GString),
      (''sourceDocument'', False, GNilable GString),
      (''notes'', False, GNilable GString),
      (''createdAt'', False, GTime),
      (''updatedAt'', False, GTime)]"

definition CostQuoteResult_go :: go_type where
  "CostQuoteResult_go = GStruct
     [(''costFactor'', False, GString),
      (''annualSalary'', False, GString),
      (''yearsRequested'', False, GString),
      (''totalCost'', False, GString),
      (''quoteDate'', False, GString),
      (''quoteExpires'', False, GString)]"

definition SCPRequest_go :: go_type where
  "SCPRequest_go = GStruct
     [(''id'', False, GString),
      (''orgId'', False, GString),
      (''memberId'', False, GNilable GString),
      (''ssnHash'', False, GString),
      (''firstName'', False, GString),
      (''lastName'', False, GString),
      (''serviceType'', False, GString),
      (''tier'', False, GString),
      (''yearsRequested'', False, GString),
      (''costFactorId'', False, GNilable GString),
      (''costFactor'', False, GNilable GString),
      (''annualSalaryAtPurchase'', False, GNilable GString),
      (''totalCost'', False, GNilable GString),
      (''paymentMethod'', False, GNilable GString),
      (''amountPaid'', False, GString),
      (''amountRemaining'', False, GString),
      (''quoteDate'', False, GNilable GString),
      (''quoteExpires'', False, GNilable GString),
      (''quoteRecalculated'', False, GBool),
      (''documentationReceived'', False, GBool),
      (''documentationVerified'', False, GBool),
      (''verifiedBy'', False, GNilable GString),
      (''verifiedAt'', False, GNilable GTime),
      (''excludesFromRuleOf7585'', False, GBool),
      (''excludesFromIpr'', False, GBool),
      (''excludesFromVesting'', False, GBool),
      (''requestStatus'', False, GString),
      (''submittedBy'', False, GNilable GString),
      (''submittedAt'', False, GNilable GTime),
      (''reviewedBy'', False, GNilable GString),
      (''reviewedAt'', False, GNilable GTime),
      (''reviewNote'', False, GNilable GString),
      (''approvedBy'', False, GNilable GString),
      (''approvedAt'', False, GNilable GTime),
      (''deniedBy'', False, GNilable GString),
      (''deniedAt'', False, GNilable GTime),
      (''denialReason'', False, GNilable GString),
      (''notes'', False, GNilable GString),
      (''createdAt'', False, GTime),
      (''updatedAt'', False, GTime)]"

definition EligibilityResult_scp_domain_go :: go_type where
  "EligibilityResult_scp_domain_go = GStruct
     [(''eligible'', False, GBool),
      (''serviceType'', False, GString),
      (''label'', False, GString),
      (''requiredDocs'', False, GNilable (GSlice GString)),
      (''errors'', True, GNilable (GSlice GString))]"

end
