(* ===== verification/EmployerWire.thy ===== *)
theory EmployerWire imports EmployerTypes begin

text \<open>
  What the answers of the employer services are, against what src/frontend/src/lib/employerApi.ts
  declares them to be. Portal and reporting answer in the envelope the client unwraps; enrollment,
  terminations, working after retirement and service credit answer without one.
\<close>

definition EMPLOYER_TYPED :: "(string \<times> string \<times> reply \<times> ts_type) list" where
  "EMPLOYER_TYPED =
     [(''portal.listUsers'', ''ListPortalUsers'', Write_paginated (GNilable (GSlice PortalUser_go)),
       TArray PortalUser_ts),
      (''portal.createUser'', ''CreatePortalUser'', Write_success PortalUser_go,
       PortalUser_ts),
      (''portal.getDashboard'', ''GetDashboard'', Write_success DashboardSummary_employer_go,
       DashboardSummary_employer_ts),
      (''portal.listAlerts'', ''ListAlerts'', Write_success (GNilable (GSlice Alert_go)),
       TArray EmployerAlert_ts),
      (''portal.createAlert'', ''CreateAlert'', Write_success Alert_go,
       EmployerAlert_ts),
      (''portal.listRateTables'', ''ListRateTables'', Write_success (GNilable (GSlice RateTableRow_go)),
       TArray ContributionRateRow_ts),
      (''portal.getCurrentRate'', ''GetCurrentRate'', Write_success RateTableRow_go,
       ContributionRateRow_ts),
      (''reporting.getFile'', ''GetFile'', Write_success ContributionFile_go,
       ContributionFile_ts),
      (''reporting.submitManualEntry'', ''ManualEntry'', Write_success ContributionFile_go,
       ContributionFile_ts),
      (''reporting.getException'', ''GetException'', Write_success ContributionException_go,
       ContributionException_ts),
      (''reporting.setupPayment'', ''SetupPayment'', Write_success ContributionPayment_go,
       ContributionPayment_ts),
      (''reporting.submitCorrection'', ''SubmitCorrection'', Write_success ContributionFile_go,
       ContributionFile_ts),
      (''reporting.getInterest'', ''GetInterest'', Write_success (GSlice LateInterestAccrual_go),
       TArray LateInterestAccrual_ts)]"

definition EMPLOYER_PAGES :: "(string \<times> string \<times> reply \<times> ts_type) list" where
  "EMPLOYER_PAGES =
     [(''reporting.listFiles'', ''ListFiles'', Write_paginated (GSlice ContributionFile_go),
       TArray ContributionFile_ts),
      (''reporting.getRecords'', ''ListRecords'', Write_paginated (GSlice ContributionRecord_go),
       TArray ContributionRecord_ts),
      (''reporting.listExceptions'', ''ListExceptions'', Write_paginated (GSlice ContributionException_go),
       TArray ContributionException_ts),
      (''reporting.listPayments'', ''ListPayments'', Write_paginated (GSlice ContributionPayment_go),
       TArray ContributionPayment_ts)]"

definition EMPLOYER_MISTYPED :: "(string \<times> string \<times> reply \<times> ts_type) list" where
  "EMPLOYER_MISTYPED =
     [(''portal.updateRole'', ''UpdatePortalUserRole'', Write_success (GStruct [(''id'', False, GString), (''portalRole'', False, GString)]),
       PortalUser_ts),
      (''reporting.resolveException'', ''ResolveException'', Write_success (GStruct [(''resolved'', False, GString)]),
       ContributionException_ts),
      (''reporting.escalateException'', ''EscalateException'', Write_success (GStruct [(''escalated'', False, GString)]),
       ContributionException_ts)]"

definition EMPLOYER_BARE :: "(string \<times> string \<times> reply \<times> ts_type) list" where
  "EMPLOYER_BARE =
     [(''enrollment.createSubmission'', ''CreateSubmission'', Write_json EnrollmentSubmission_go,
       EnrollmentSubmission_ts),
      (''enrollment.getSubmission'', ''GetSubmission'', Write_json EnrollmentSubmission_go,
       EnrollmentSubmission_ts),
      (''enrollment.submitForValidation'', ''SubmitForValidation'', Write_json (GStruct [(''status'', False, GString)]),
       TObject [(''status'', False, TString)]),
      (''enrollment.approveSubmission'', ''ApproveSubmission'', Write_json (GStruct [(''status'', False, GString)]),
       TObject [(''status'', False, TString)]),
      (''enrollment.rejectSubmission'', ''RejectSubmission'', Write_json (GStruct [(''status'', False, GString)]),
       TObject [(''status'', False, TString)]),
      (''enrollment.listSubmissionDuplicates'', ''ListSubmissionDuplicates'', Write_json (GStruct [(''items'', False, GNilable (GSlice DuplicateFlag_go)), (''total'', False,
          GInt)]),
       TObject [(''items'', False, TArray DuplicateFlag_ts), (''total'', False, TNumber)]),
      (''enrollment.resolveDuplicate'', ''ResolveDuplicate'', Write_json (GStruct [(''status'', False, GString)]),
       TObject [(''status'', False, TString)]),
      (''enrollment.getPERAChoiceElection'', ''GetPERAChoiceElection'', Write_json PERAChoiceElection_go,
       PERAChoiceElection_ts),
      (''enrollment.electPERAChoice'', ''ElectPERAChoice'', Write_json (GStruct [(''status'', False, GString)]),
       TObject [(''status'', False, TString)]),
      (''terminations.createCertification'', ''CreateCertification'', Write_json TerminationCertification_go,
       TerminationCertification_ts),
      (''terminations.getCertification'', ''GetCertification'', Write_json TerminationCertification_go,
       TerminationCertification_ts),
      (''terminations.verifyCertification'', ''VerifyCertification'', Write_json (GStruct [(''status'', False, GString)]),
       TObject [(''status'', False, TString)]),
      (''terminations.rejectCertification'', ''RejectCertification'', Write_json (GStruct [(''status'', False, GString)]),
       TObject [(''status'', False, TString)]),
      (''terminations.getHold'', ''GetHold'', Write_json CertificationHold_go,
       CertificationHold_ts),
      (''terminations.resolveHold'', ''ResolveHold'', Write_json (GStruct [(''status'', False, GString)]),
       TObject [(''status'', False, TString)]),
      (''terminations.escalateHold'', ''EscalateHold'', Write_json (GStruct [(''status'', False, GString)]),
       TObject [(''status'', False, TString)]),
      (''terminations.createRefund'', ''CreateRefundApplication'', Write_json RefundApplication_go,
       RefundApplication_ts),
      (''terminations.getRefund'', ''GetRefundApplication'', Write_json RefundApplication_go,
       RefundApplication_ts),
      (''terminations.calculateRefund'', ''CalculateRefund'', Write_json RefundResult_go,
       RefundCalculationResult_ts),
      (''terminations.setupPayment'', ''SetupRefundPayment'', Write_json (GStruct [(''status'', False, GString)]),
       TObject [(''status'', False, TString)]),
      (''terminations.checkEligibility'', ''CheckEligibility'', Write_json EligibilityResult_go,
       EligibilityResult_ts),
      (''waret.createDesignation'', ''CreateDesignation'', Write_json WaretDesignation_go,
       WaretDesignation_ts),
      (''waret.getDesignation'', ''GetDesignation'', Write_json WaretDesignation_go,
       WaretDesignation_ts),
      (''waret.approveDesignation'', ''ApproveDesignation'', Write_json (GStruct [(''status'', False, GString)]),
       TObject [(''status'', False, TString)]),
      (''waret.revokeDesignation'', ''RevokeDesignation'', Write_json (GStruct [(''status'', False, GString)]),
       TObject [(''status'', False, TString)]),
      (''waret.recordWorkDay'', ''RecordWorkDay'', Write_json (GStruct [(''tracking'', False, WaretTracking_go), (''limits'', False,
          TrackingResult_go)]),
       TObject [(''tracking'', False, WaretTracking_ts), (''limits'', False, WaretTrackingResult_ts)]),
      (''waret.getYTDSummary'', ''GetYTDSummary'', Write_json WaretYTDSummary_go,
       WaretYTDSummary_ts),
      (''waret.assessPenalty'', ''AssessPenalty'', Write_json WaretPenalty_go,
       WaretPenalty_ts),
      (''waret.appealPenalty'', ''AppealPenalty'', Write_json (GStruct [(''status'', False, GString)]),
       TObject [(''status'', False, TString)]),
      (''waret.waivePenalty'', ''WaivePenalty'', Write_json (GStruct [(''status'', False, GString)]),
       TObject [(''status'', False, TString)]),
      (''waret.createDisclosure'', ''CreateICDisclosure'', Write_json WaretICDisclosure_go,
       WaretICDisclosure_ts),
      (''waret.checkPERACare'', ''CheckPERACare'', Write_json PERACareConflictResult_go,
       PERACareConflictResult_ts),
      (''waret.resolvePERACare'', ''ResolvePERACare'', Write_json (GStruct [(''status'', False, GString)]),
       TObject [(''status'', False, TString)]),
      (''scp.lookupCostFactor'', ''LookupCostFactor'', Write_json SCPCostFactor_go,
       SCPCostFactor_ts),
      (''scp.createCostFactor'', ''CreateCostFactor'', Write_json SCPCostFactor_go,
       SCPCostFactor_ts),
      (''scp.generateQuote'', ''GenerateQuote'', Write_json (GStruct [(''factor'', False, SCPCostFactor_go), (''quote'', False,
          CostQuoteResult_go)]),
       TObject [(''factor'', False, SCPCostFactor_ts), (''quote'', False, SCPCostQuoteResult_ts)]),
      (''scp.createRequest'', ''CreateRequest'', Write_json SCPRequest_go,
       SCPRequest_ts),
      (''scp.getRequest'', ''GetRequest'', Write_json SCPRequest_go,
       SCPRequest_ts),
      (''scp.applyQuote'', ''ApplyQuote'', Write_json (GStruct [(''status'', False, GString)]),
       TObject [(''status'', False, TString)]),
      (''scp.submitDocumentation'', ''SubmitDocumentation'', Write_json (GStruct [(''status'', False, GString)]),
       TObject [(''status'', False, TString)]),
      (''scp.approveRequest'', ''ApproveRequest'', Write_json (GStruct [(''status'', False, GString)]),
       TObject [(''status'', False, TString)]),
      (''scp.denyRequest'', ''DenyRequest'', Write_json (GStruct [(''status'', False, GString)]),
       TObject [(''status'', False, TString)]),
      (''scp.recordPayment'', ''RecordPayment'', Write_json (GStruct [(''status'', False, GString)]),
       TObject [(''status'', False, TString)]),
      (''scp.cancelRequest'', ''CancelRequest'', Write_json (GStruct [(''status'', False, GString)]),
       TObject [(''status'', False, TString)]),
      (''scp.checkEligibility'', ''CheckEligibility'', Write_json EligibilityResult_scp_domain_go,
       SCPEligibilityResult_ts)]"

definition EMPLOYER_BARE_PAGES :: "(string \<times> string \<times> reply \<times> ts_type) list" where
  "EMPLOYER_BARE_PAGES =
     [(''enrollment.listSubmissions'', ''ListSubmissions'', Write_json (GStruct [(''items'', False, GNilable (GSlice EnrollmentSubmission_go)), (''total'',
          False, GInt)]),
       TArray EnrollmentSubmission_ts),
      (''enrollment.listPendingDuplicates'', ''ListPendingDuplicates'', Write_json (GStruct [(''items'', False, GNilable (GSlice DuplicateFlag_go)), (''total'', False,
          GInt)]),
       TArray DuplicateFlag_ts),
      (''enrollment.listPERAChoicePending'', ''ListPERAChoicePending'', Write_json (GStruct [(''items'', False, GNilable (GSlice PERAChoiceElection_go)), (''total'',
          False, GInt)]),
       TArray PERAChoiceElection_ts),
      (''terminations.listCertifications'', ''ListCertifications'', Write_json (GStruct [(''items'', False, GNilable (GSlice TerminationCertification_go)),
          (''total'', False, GInt), (''limit'', False, GInt), (''offset'', False, GInt)]),
       TArray TerminationCertification_ts),
      (''terminations.listHolds'', ''ListHolds'', Write_json (GStruct [(''items'', False, GNilable (GSlice CertificationHold_go)), (''total'',
          False, GInt), (''limit'', False, GInt), (''offset'', False, GInt)]),
       TArray CertificationHold_ts),
      (''terminations.listRefunds'', ''ListRefundApplications'', Write_json (GStruct [(''items'', False, GNilable (GSlice RefundApplication_go)), (''total'',
          False, GInt), (''limit'', False, GInt), (''offset'', False, GInt)]),
       TArray RefundApplication_ts),
      (''waret.listDesignations'', ''ListDesignations'', Write_json (GStruct [(''items'', False, GNilable (GSlice WaretDesignation_go)), (''total'',
          False, GInt), (''limit'', False, GInt), (''offset'', False, GInt)]),
       TArray WaretDesignation_ts),
      (''waret.listTracking'', ''ListTracking'', Write_json (GStruct [(''items'', False, GNilable (GSlice WaretTracking_go)), (''total'', False,
          GInt), (''limit'', False, GInt), (''offset'', False, GInt)]),
       TArray WaretTracking_ts),
      (''waret.listPenalties'', ''ListPenalties'', Write_json (GStruct [(''items'', False, GNilable (GSlice WaretPenalty_go)), (''total'', False,
          GInt), (''limit'', False, GInt), (''offset'', False, GInt)]),
       TArray WaretPenalty_ts),
      (''waret.listDisclosures'', ''ListICDisclosures'', Write_json (GStruct [(''items'', False, GNilable (GSlice WaretICDisclosure_go)), (''total'',
          False, GInt), (''limit'', False, GInt), (''offset'', False, GInt)]),
       TArray WaretICDisclosure_ts),
      (''scp.listCostFactors'', ''ListCostFactors'', Write_json (GStruct [(''items'', False, GNilable (GSlice SCPCostFactor_go)), (''total'', False,
          GInt), (''limit'', False, GInt), (''offset'', False, GInt)]),
       TArray SCPCostFactor_ts),
      (''scp.listRequests'', ''ListRequests'', Write_json (GStruct [(''items'', False, GNilable (GSlice SCPRequest_go)), (''total'', False,
          GInt), (''limit'', False, GInt), (''offset'', False, GInt)]),
       TArray SCPRequest_ts)]"

text \<open>Answers with a list inside that may be nil.\<close>

definition employer_nil_inside :: "string list" where
  "employer_nil_inside =
     [''enrollment.listSubmissionDuplicates'', ''terminations.checkEligibility'', ''scp.checkEligibility'']"

subsection \<open>Type by type\<close>

lemma fits_PortalUser_PortalUser: "fits False PortalUser_go PortalUser_ts"
  by (simp add: text_alt_def number_alt_def
      PortalUser_go_def PortalUser_ts_def PortalRole_ts_def)

lemma never_updateRole: "never_fits (GStruct [(''id'', False, GString), (''portalRole'', False, GString)]) PortalUser_ts"
  by (simp add: never_fits_def PortalUser_ts_def)

lemma fits_DashboardSummary_employer_DashboardSummary_employer: "fits False DashboardSummary_employer_go DashboardSummary_employer_ts"
  by (simp add: text_alt_def number_alt_def
      DashboardSummary_employer_go_def DashboardSummary_employer_ts_def)

lemma fits_Alert_EmployerAlert: "fits False Alert_go EmployerAlert_ts"
  by (simp add: text_alt_def number_alt_def
      Alert_go_def EmployerAlert_ts_def AlertType_ts_def)

lemma fits_RateTableRow_ContributionRateRow: "fits False RateTableRow_go ContributionRateRow_ts"
  by (simp add: text_alt_def number_alt_def
      RateTableRow_go_def ContributionRateRow_ts_def)

lemma fits_ContributionFile_ContributionFile: "fits False ContributionFile_go ContributionFile_ts"
  by (simp add: text_alt_def number_alt_def
      ContributionFile_go_def ContributionFile_ts_def FileStatus_ts_def)

lemma fits_ContributionRecord_ContributionRecord: "fits False ContributionRecord_go ContributionRecord_ts"
  by (simp add: text_alt_def number_alt_def
      ContributionRecord_go_def ContributionRecord_ts_def)

lemma fits_ContributionException_ContributionException: "fits False ContributionException_go ContributionException_ts"
  by (simp add: text_alt_def number_alt_def
      ContributionException_go_def ContributionException_ts_def ExceptionType_employer_ts_def
      ExceptionStatus_ts_def)

lemma never_resolveException: "never_fits (GStruct [(''resolved'', False, GString)]) ContributionException_ts"
  by (simp add: never_fits_def ContributionException_ts_def)

lemma never_escalateException: "never_fits (GStruct [(''escalated'', False, GString)]) ContributionException_ts"
  by (simp add: never_fits_def ContributionException_ts_def)

lemma fits_ContributionPayment_ContributionPayment: "fits False ContributionPayment_go ContributionPayment_ts"
  by (simp add: text_alt_def number_alt_def
      ContributionPayment_go_def ContributionPayment_ts_def PaymentMethod_ts_def
      PaymentStatus_ts_def)

lemma fits_LateInterestAccrual_LateInterestAccrual: "fits False LateInterestAccrual_go LateInterestAccrual_ts"
  by (simp add: text_alt_def number_alt_def
      LateInterestAccrual_go_def LateInterestAccrual_ts_def)

lemma fits_EnrollmentSubmission_EnrollmentSubmission: "fits False EnrollmentSubmission_go EnrollmentSubmission_ts"
  by (simp add: text_alt_def number_alt_def
      EnrollmentSubmission_go_def EnrollmentSubmission_ts_def EnrollmentType_ts_def
      SubmissionStatus_ts_def)

lemma fits_PERAChoiceElection_PERAChoiceElection: "fits False PERAChoiceElection_go PERAChoiceElection_ts"
  by (simp add: text_alt_def number_alt_def
      PERAChoiceElection_go_def PERAChoiceElection_ts_def PERAChoiceStatus_ts_def)

lemma fits_TerminationCertification_TerminationCertification: "fits False TerminationCertification_go TerminationCertification_ts"
  by (simp add: text_alt_def number_alt_def
      TerminationCertification_go_def TerminationCertification_ts_def TerminationReason_ts_def
      CertificationStatus_ts_def)

lemma fits_CertificationHold_CertificationHold: "fits False CertificationHold_go CertificationHold_ts"
  by (simp add: text_alt_def number_alt_def
      CertificationHold_go_def CertificationHold_ts_def HoldStatus_ts_def)

lemma fits_RefundApplication_RefundApplication: "fits False RefundApplication_go RefundApplication_ts"
  by (simp add: text_alt_def number_alt_def
      RefundApplication_go_def RefundApplication_ts_def RefundPaymentMethod_ts_def
      RefundApplicationStatus_ts_def)

lemma fits_RefundResult_RefundCalculationResult: "fits False RefundResult_go RefundCalculationResult_ts"
  by (simp add: text_alt_def number_alt_def
      RefundResult_go_def RefundCalculationResult_ts_def)

lemma fits_WaretDesignation_WaretDesignation: "fits False WaretDesignation_go WaretDesignation_ts"
  by (simp add: text_alt_def number_alt_def
      WaretDesignation_go_def WaretDesignation_ts_def WaretDesignationType_ts_def
      WaretDesignationStatus_ts_def)

lemma fits_WaretTracking_WaretTracking: "fits False WaretTracking_go WaretTracking_ts"
  by (simp add: text_alt_def number_alt_def
      WaretTracking_go_def WaretTracking_ts_def WaretTrackingStatus_ts_def)

lemma fits_TrackingResult_WaretTrackingResult: "fits False TrackingResult_go WaretTrackingResult_ts"
  by (simp add: text_alt_def number_alt_def
      TrackingResult_go_def WaretTrackingResult_ts_def)

lemma fits_WaretYTDSummary_WaretYTDSummary: "fits False WaretYTDSummary_go WaretYTDSummary_ts"
  by (simp add: text_alt_def number_alt_def
      WaretYTDSummary_go_def WaretYTDSummary_ts_def WaretDesignationType_ts_def)

lemma fits_WaretPenalty_WaretPenalty: "fits False WaretPenalty_go WaretPenalty_ts"
  by (simp add: text_alt_def number_alt_def
      WaretPenalty_go_def WaretPenalty_ts_def WaretPenaltyType_ts_def WaretPenaltyStatus_ts_def)

lemma fits_WaretICDisclosure_WaretICDisclosure: "fits False WaretICDisclosure_go WaretICDisclosure_ts"
  by (simp add: text_alt_def number_alt_def
      WaretICDisclosure_go_def WaretICDisclosure_ts_def WaretDisclosureStatus_ts_def)

lemma fits_PERACareConflictResult_PERACareConflictResult: "fits False PERACareConflictResult_go PERACareConflictResult_ts"
  by (simp add: text_alt_def number_alt_def
      PERACareConflictResult_go_def PERACareConflictResult_ts_def)

lemma fits_SCPCostFactor_SCPCostFactor: "fits False SCPCostFactor_go SCPCostFactor_ts"
  by (simp add: text_alt_def number_alt_def
      SCPCostFactor_go_def SCPCostFactor_ts_def)

lemma fits_CostQuoteResult_SCPCostQuoteResult: "fits False CostQuoteResult_go SCPCostQuoteResult_ts"
  by (simp add: text_alt_def number_alt_def
      CostQuoteResult_go_def SCPCostQuoteResult_ts_def)

lemma fits_SCPRequest_SCPRequest: "fits False SCPRequest_go SCPRequest_ts"
  by (simp add: text_alt_def number_alt_def
      SCPRequest_go_def SCPRequest_ts_def SCPServiceType_ts_def SCPPaymentMethod_ts_def
      SCPRequestStatus_ts_def)

subsection \<open>The tables\<close>

lemma employer_typed_check:
  "list_all (\<lambda>(c, h, r, t). fits False (present (payload_type r)) t \<and> \<not> is_Write_json r) EMPLOYER_TYPED"
  by (simp add: EMPLOYER_TYPED_def text_alt_def number_alt_def fits_PortalUser_PortalUser
      fits_DashboardSummary_employer_DashboardSummary_employer fits_Alert_EmployerAlert
      fits_RateTableRow_ContributionRateRow fits_ContributionFile_ContributionFile
      fits_ContributionRecord_ContributionRecord fits_ContributionException_ContributionException
      fits_ContributionPayment_ContributionPayment fits_LateInterestAccrual_LateInterestAccrual
      fits_EnrollmentSubmission_EnrollmentSubmission fits_PERAChoiceElection_PERAChoiceElection
      fits_TerminationCertification_TerminationCertification
      fits_CertificationHold_CertificationHold fits_RefundApplication_RefundApplication
      fits_RefundResult_RefundCalculationResult fits_WaretDesignation_WaretDesignation
      fits_WaretTracking_WaretTracking fits_TrackingResult_WaretTrackingResult
      fits_WaretYTDSummary_WaretYTDSummary fits_WaretPenalty_WaretPenalty
      fits_WaretICDisclosure_WaretICDisclosure fits_PERACareConflictResult_PERACareConflictResult
      fits_SCPCostFactor_SCPCostFactor fits_CostQuoteResult_SCPCostQuoteResult
      fits_SCPRequest_SCPRequest)

lemma employer_pages_check:
  "list_all (\<lambda>(c, h, r, t). fits False (present (payload_type r)) t \<and> is_Write_paginated r
     \<and> (\<exists>g. present (payload_type r) = GSlice g)) EMPLOYER_PAGES"
  by (simp add: EMPLOYER_PAGES_def text_alt_def number_alt_def fits_PortalUser_PortalUser
      fits_DashboardSummary_employer_DashboardSummary_employer fits_Alert_EmployerAlert
      fits_RateTableRow_ContributionRateRow fits_ContributionFile_ContributionFile
      fits_ContributionRecord_ContributionRecord fits_ContributionException_ContributionException
      fits_ContributionPayment_ContributionPayment fits_LateInterestAccrual_LateInterestAccrual
      fits_EnrollmentSubmission_EnrollmentSubmission fits_PERAChoiceElection_PERAChoiceElection
      fits_TerminationCertification_TerminationCertification
      fits_CertificationHold_CertificationHold fits_RefundApplication_RefundApplication
      fits_RefundResult_RefundCalculationResult fits_WaretDesignation_WaretDesignation
      fits_WaretTracking_WaretTracking fits_TrackingResult_WaretTrackingResult
      fits_WaretYTDSummary_WaretYTDSummary fits_WaretPenalty_WaretPenalty
      fits_WaretICDisclosure_WaretICDisclosure fits_PERACareConflictResult_PERACareConflictResult
      fits_SCPCostFactor_SCPCostFactor fits_CostQuoteResult_SCPCostQuoteResult
      fits_SCPRequest_SCPRequest)

lemma employer_mistyped_check:
  "list_all (\<lambda>(c, h, r, t). mistyped (payload_type r) t \<and> \<not> is_Write_json r) EMPLOYER_MISTYPED"
  by (simp add: EMPLOYER_MISTYPED_def mistyped_never never_updateRole never_resolveException
      never_escalateException)

lemma employer_bare_check:
  "list_all (\<lambda>(c, h, r, t). has_no_data (payload_type r) \<and> is_Write_json r) EMPLOYER_BARE"
  by (simp add: EMPLOYER_BARE_def CertificationHold_go_def EligibilityResult_go_def
      EligibilityResult_scp_domain_go_def EnrollmentSubmission_go_def PERACareConflictResult_go_def
      PERAChoiceElection_go_def RefundApplication_go_def RefundResult_go_def SCPCostFactor_go_def
      SCPRequest_go_def TerminationCertification_go_def WaretDesignation_go_def
      WaretICDisclosure_go_def WaretPenalty_go_def WaretYTDSummary_go_def)

lemma employer_bare_fits:
  "list_all (\<lambda>(c, h, r, t). c \<in> set employer_nil_inside \<or> fits False (payload_type r) t) EMPLOYER_BARE"
  by (simp add: EMPLOYER_BARE_def employer_nil_inside_def text_alt_def number_alt_def
      fits_PortalUser_PortalUser fits_DashboardSummary_employer_DashboardSummary_employer
      fits_Alert_EmployerAlert fits_RateTableRow_ContributionRateRow
      fits_ContributionFile_ContributionFile fits_ContributionRecord_ContributionRecord
      fits_ContributionException_ContributionException fits_ContributionPayment_ContributionPayment
      fits_LateInterestAccrual_LateInterestAccrual fits_EnrollmentSubmission_EnrollmentSubmission
      fits_PERAChoiceElection_PERAChoiceElection
      fits_TerminationCertification_TerminationCertification
      fits_CertificationHold_CertificationHold fits_RefundApplication_RefundApplication
      fits_RefundResult_RefundCalculationResult fits_WaretDesignation_WaretDesignation
      fits_WaretTracking_WaretTracking fits_TrackingResult_WaretTrackingResult
      fits_WaretYTDSummary_WaretYTDSummary fits_WaretPenalty_WaretPenalty
      fits_WaretICDisclosure_WaretICDisclosure fits_PERACareConflictResult_PERACareConflictResult
      fits_SCPCostFactor_SCPCostFactor fits_CostQuoteResult_SCPCostQuoteResult
      fits_SCPRequest_SCPRequest)

lemma employer_bare_pages_check:
  "list_all (\<lambda>(c, h, r, t). has_no_page (payload_type r) \<and> is_Write_json r) EMPLOYER_BARE_PAGES"
  by (simp add: EMPLOYER_BARE_PAGES_def)

text \<open>
  Every answer of the employer portal and of employer reporting listed in the table arrives, in
  lower case where it is an enumeration, with the type the client method is declared to return, or as
  \<open>null\<close> where the service may have nothing to send; and every page arrives with items of the declared
  type and with the pagination the service sent.
\<close>

theorem employer_answers_typed:
  assumes "sends (payload_type r) d" and "pg \<noteq> JUndef" "pg \<noteq> JNull"
    and "rawRequest env tok url init tm = (evs, Inr (answer_body r d pg meta), tok')"
  shows "((c, h, r, t) \<in> set EMPLOYER_TYPED \<longrightarrow>
        (\<exists>x. request env tok url init tm False = (evs, Inr x, tok')
          \<and> (conforms False t x \<or> (x = JNull \<and> may_be_nil (payload_type r)))))
    \<and> ((c, h, r, t) \<in> set EMPLOYER_PAGES \<and> init = empty_init \<and> tm = None \<longrightarrow>
        (\<exists>items. fetchPaginatedAPI env tok url no_options = (evs, Inr (items, pg), tok') \<and> conforms False t items))"
proof (intro conjI impI; (elim conjE)?)
  assume "(c, h, r, t) \<in> set EMPLOYER_TYPED"
  then show "\<exists>x. request env tok url init tm False = (evs, Inr x, tok')
      \<and> (conforms False t x \<or> (x = JNull \<and> may_be_nil (payload_type r)))"
    using typed_answer_lowered[OF _ assms(1,4)] employer_typed_check by (fastforce simp: list_all_iff)
next
  assume "(c, h, r, t) \<in> set EMPLOYER_PAGES" and init: "init = empty_init" "tm = None"
  then have "fits False (present (payload_type r)) t \<and> is_Write_paginated r \<and> (\<exists>g. present (payload_type r) = GSlice g)"
    using employer_pages_check by (fastforce simp: list_all_iff)
  from typed_page[OF this assms(1-3), of env tok url no_options evs meta tok'] assms(4)
  show "\<exists>items. fetchPaginatedAPI env tok url no_options = (evs, Inr (items, pg), tok') \<and> conforms False t items"
    by (simp add: init no_options_def)
qed

theorem employer_answers_typed_witness:
  "\<exists>evs items. fetchPaginatedAPI (answering (answer_body (Write_paginated (GSlice ContributionPayment_go)) (JArr []) (JObj []) JNull))
       [] ''/x'' no_options = (evs, Inr (items, JObj []), []) \<and> conforms False (TArray ContributionPayment_ts) items"
proof -
  obtain evs where run: "rawRequest (answering (answer_body (Write_paginated (GSlice ContributionPayment_go)) (JArr []) (JObj []) JNull))
      [] ''/x'' empty_init None
      = (evs, Inr (answer_body (Write_paginated (GSlice ContributionPayment_go)) (JArr []) (JObj []) JNull), [])"
    using rawRequest_answering by blast
  show ?thesis
    by (rule exI[of _ evs], rule mp[OF conjunct2[OF employer_answers_typed[OF _ _ _ run, where c = "''reporting.listPayments''"
        and h = "''ListPayments''"]]], simp_all)
      (simp add: EMPLOYER_PAGES_def)
qed



end
