(* ===== verification/MigrationWire.thy ===== *)
theory MigrationWire imports MigrationTypes begin

text \<open>
  What the answers of the migration service are, against what src/frontend/src/lib/migrationApi.ts
  declares them to be. An entry names the method of the client, the handler that answers it, whether
  literals are told apart, the helper the handler answers with and the type of its value, and the
  declared type.
\<close>

definition MIGRATION_TYPED :: "(string \<times> string \<times> bool \<times> reply \<times> ts_type) list" where
  "MIGRATION_TYPED =
     [(''getDashboardSummary'', ''DashboardSummary'', True, Write_success DashboardSummary_go,
       DashboardSummary_ts),
      (''getSystemHealth'', ''SystemHealth'', True, Write_success SystemHealthStatus_go,
       SystemHealth_ts),
      (''configureSource'', ''ConfigureSource'', True, Write_success (GStruct [(''connected'', False, GBool)]),
       TObject [(''connected'', False, TBoolean)]),
      (''discoverTables'', ''DiscoverTables'', True, Write_success (GNilable (GSlice SourceTable_go)),
       TArray SourceTable_ts),
      (''listProfiles'', ''ListProfiles'', True, Write_success (GSlice QualityProfileRow_go),
       TArray QualityProfile_ts),
      (''acknowledgeWarning'', ''AcknowledgeMapping'', True, Write_success (GStruct [(''mapping_id'', False, GString), (''acknowledged'', False, GBool)]),
       TObject [(''mapping_id'', False, TString), (''acknowledged'', False, TBoolean)]),
      (''updateCodeMapping'', ''UpdateCodeMapping'', True, Write_success CodeMapping_go,
       CodeMapping_ts),
      (''getReconciliationSummary'', ''ReconciliationSummary'', True, Write_success ReconciliationSummaryResult_go,
       ReconciliationSummary_ts),
      (''getCertification'', ''HandleGetCertification'', True, Write_success (GNilable CertificationRecord_go),
       TUnion [TRecord TUnknown, TNull]),
      (''resolveAttentionItem'', ''HandleResolveAttention'', True, Write_success (GStruct [(''item_id'', False, GString), (''source'', False, GString), (''action'',
          False, GString), (''status'', False, GString)]),
       TObject [(''item_id'', False, TString), (''source'', False, TString), (''action'', False, TString), (''status'', False, TString)]),
      (''deferAttentionItem'', ''HandleDeferAttention'', True, Write_success (GStruct [(''item_id'', False, GString), (''source'', False, GString), (''action'',
          False, GString), (''status'', False, GString)]),
       TObject [(''item_id'', False, TString), (''source'', False, TString), (''action'', False, TString), (''status'', False, TString)]),
      (''getMappingSpec'', ''MappingSpec'', True, Write_success MappingSpecReport_go,
       MappingSpecReport_ts),
      (''listEngagements'', ''ListEngagements'', False, Write_success (GNilable (GSlice Engagement_go)),
       TArray MigrationEngagement_ts),
      (''getEngagement'', ''GetEngagement'', False, Write_success Engagement_go,
       MigrationEngagement_ts),
      (''createEngagement'', ''CreateEngagement'', False, Write_success Engagement_go,
       MigrationEngagement_ts),
      (''updateEngagement'', ''UpdateEngagement'', False, Write_success Engagement_go,
       MigrationEngagement_ts),
      (''approveBaseline'', ''ApproveBaseline'', False, Write_success Engagement_go,
       MigrationEngagement_ts),
      (''listMappings'', ''ListMappings'', False, Write_success (GNilable (GSlice FieldMapping_go)),
       TArray FieldMapping_ts),
      (''updateMapping'', ''UpdateMapping'', False, Write_success FieldMapping_go,
       FieldMapping_ts),
      (''listBatches'', ''ListBatches'', False, Write_success (GSlice MigrationBatch_go),
       TArray MigrationBatch_ts),
      (''createBatch'', ''CreateBatch'', False, Write_success MigrationBatch_go,
       MigrationBatch_ts),
      (''getBatch'', ''GetBatch'', False, Write_success MigrationBatch_go,
       MigrationBatch_ts),
      (''listExceptions'', ''ListExceptions'', False, Write_success (GSlice MigrationException_go),
       TArray MigrationException_ts),
      (''listRisks'', ''ListRisks'', False, Write_success (GNilable (GSlice Risk_go)),
       TArray MigrationRisk_ts),
      (''createRisk'', ''CreateRisk'', False, Write_success Risk_go,
       MigrationRisk_ts),
      (''updateRisk'', ''UpdateRisk'', False, Write_success Risk_go,
       MigrationRisk_ts),
      (''compareEngagements'', ''CompareEngagements'', False, Write_success CompareResult_go,
       CompareResult_ts),
      (''listReconRuleSets'', ''ListReconRuleSets'', False, Write_success (GSlice ReconRuleSet_go),
       TArray ReconRuleSet_ts),
      (''getReconRuleSet'', ''GetReconRuleSet'', False, Write_success ReconRuleSet_go,
       ReconRuleSet_ts),
      (''getActiveReconRuleSet'', ''GetActiveReconRuleSet'', False, Write_success ReconRuleSet_go,
       ReconRuleSet_ts),
      (''createReconRuleSet'', ''CreateReconRuleSet'', False, Write_success ReconRuleSet_go,
       ReconRuleSet_ts),
      (''updateReconRuleSet'', ''UpdateReconRuleSet'', False, Write_success ReconRuleSet_go,
       ReconRuleSet_ts),
      (''activateReconRuleSet'', ''ActivateReconRuleSet'', False, Write_success ReconRuleSet_go,
       ReconRuleSet_ts),
      (''archiveReconRuleSet'', ''ArchiveReconRuleSet'', False, Write_success ReconRuleSet_go,
       ReconRuleSet_ts)]"

definition MIGRATION_MISTYPED :: "(string \<times> string \<times> reply \<times> ts_type) list" where
  "MIGRATION_MISTYPED =
     [(''profileEngagement'', ''ProfileEngagement'', Write_success (GSlice TableProfile_go),
       TArray QualityProfile_ts),
      (''generateMappings'', ''GenerateMappings'', Write_success GenerateMappingsSummary_go,
       GenerateMappingsSummary_ts),
      (''listCodeMappings'', ''ListCodeMappings'', Write_success CodeMappingResponse_go,
       TArray CodeMapping_ts),
      (''executeBatch'', ''ExecuteBatchHandler'', Write_success (GStruct [(''batch_id'', False, GString), (''status'', False, GString)]),
       MigrationBatch_ts),
      (''retransformBatch'', ''RetransformBatch'', Write_success RetransformResult_go,
       MigrationBatch_ts),
      (''getReconciliation'', ''GetReconciliation'', Write_success (GStruct [(''engagement_id'', False, GString), (''records'', False,
          GNilable (GSlice (GStruct [(''recon_id'', False, GString), (''batch_id'', False,
          GString), (''member_id'', False, GString), (''tier'', False, GInt), (''category'',
          False, GString), (''priority'', False, GNilable GString), (''legacy_value'', False,
          GNilable GString), (''recomputed_value'', False, GNilable GString),
          (''variance_amount'', False, GNilable GString), (''suspected_domain'', False,
          GNilable GString), (''details'', False, GNilable GString)]))), (''count'', False,
          GInt)]),
       TArray Reconciliation_ts),
      (''getP1Issues'', ''GetP1Issues'', Write_success (GStruct [(''engagement_id'', False, GString), (''p1_issues'', False,
          GNilable (GSlice (GStruct [(''recon_id'', False, GString), (''batch_id'', False,
          GString), (''member_id'', False, GString), (''tier'', False, GInt), (''category'',
          False, GString), (''legacy_value'', False, GNilable GString), (''recomputed_value'',
          False, GNilable GString), (''variance_amount'', False, GNilable GString),
          (''suspected_domain'', False, GNilable GString), (''details'', False,
          GNilable GString)]))), (''count'', False, GInt)]),
       TArray Reconciliation_ts),
      (''getReconciliationByTier'', ''ReconciliationByTier'', Write_success (GNilable (GSlice ReconciliationRecord_go)),
       TArray Reconciliation_ts),
      (''listCertifications'', ''HandleListCertifications'', Write_success CertificationListResponse_go,
       TArray Certification_ts),
      (''evaluateGate'', ''HandleGetGateEvaluation'', Write_success GateEvaluationResult_go,
       GateEvaluationResult_ts),
      (''advancePhase'', ''HandleAdvancePhase'', Write_success PhaseGateTransition_go,
       PhaseGateTransition_ts),
      (''regressPhase'', ''HandleRegressPhase'', Write_success PhaseGateTransition_go,
       PhaseGateTransition_ts),
      (''getGateHistory'', ''HandleGetGateHistory'', Write_success (GNilable (GSlice PhaseGateTransition_go)),
       TArray PhaseGateTransition_ts),
      (''getAttentionItems'', ''HandleGetAttentionItems'', Write_success (GNilable (GSlice AttentionItem_go)),
       TArray AttentionItem_ts),
      (''getAttentionSummary'', ''HandleGetAttentionSummary'', Write_success AttentionSummary_go,
       AttentionSummary_ts),
      (''getAIRecommendations'', ''HandleGetAIRecommendations'', Write_success (GNilable (GSlice AIRecommendation_go)),
       TArray AIRecommendation_ts),
      (''getBatchSizingRecommendation'', ''HandleGetBatchSizing'', Write_success (GStruct [(''engagement_id'', False, GString), (''tables_profiled'', False, GInt),
          (''quality_min'', False, GFloat), (''recommended_batch_size'', False, GInt),
          (''recommendation'', False, GString)]),
       AIRecommendation_ts),
      (''getRemediationRecommendations'', ''HandleGetRemediation'', Write_success (GStruct [(''engagement_id'', False, GString), (''suggestions'', False,
          GNilable (GSlice (GStruct [(''dimension'', False, GString), (''score'', False,
          GFloat), (''suggestion'', False, GString), (''priority'', False, GString)])))]),
       TArray AIRecommendation_ts),
      (''getRootCauseAnalysis'', ''HandleGetRootCause'', Write_success RootCauseResponse_go,
       RootCauseResponse_ts),
      (''getNotifications'', ''HandleGetNotifications'', Write_success (GNilable (GSlice Notification_go)),
       TArray MigrationNotification_ts),
      (''getJobs'', ''ListJobs'', Write_success (GSlice Job_go),
       TArray Job_ts),
      (''getJobSummary'', ''JobSummary'', Write_success JobSummary_go,
       JobSummary_ts),
      (''cancelJob'', ''CancelJob'', Write_success (GStruct [(''job_id'', False, GString), (''status'', False, GString)]),
       Job_ts),
      (''retryJob'', ''RetryJob'', Write_success (GStruct [(''job_id'', False, GString), (''status'', False, GString)]),
       Job_ts),
      (''getSchemaVersion'', ''GetSchemaVersion'', Write_success SchemaVersionWithFields_go,
       SchemaVersion_ts),
      (''activateSchemaVersion'', ''ActivateSchemaVersion'', Write_success SchemaVersion_go,
       SchemaVersion_ts),
      (''getSchemaVersionDiff'', ''DiffSchemaVersions'', Write_success SchemaVersionDiff_go,
       SchemaVersionDiff_ts),
      (''getRetentionPolicy'', ''HandleGetRetentionPolicy'', Write_success (GStruct [(''retention_policy'', False, GRaw)]),
       RetentionPolicy_ts)]"

definition MIGRATION_BARE :: "(string \<times> string \<times> reply \<times> ts_type) list" where
  "MIGRATION_BARE =
     [(''listReconExecutions'', ''HandleListReconExecutions'', Write_json (GSlice ReconExecutionRun_go),
       TArray ReconExecution_ts),
      (''getReconExecution'', ''HandleGetReconExecution'', Write_json ReconExecutionRun_go,
       ReconExecution_ts),
      (''getReconExecutionMismatches'', ''HandleListReconExecutionMismatches'', Write_json (GSlice ReconExecutionMismatch_go),
       ReconMismatchPage_ts),
      (''triggerReconExecution'', ''HandleCreateReconExecution'', Write_json ReconExecutionRun_go,
       ReconExecution_ts)]"

subsection \<open>Type by type\<close>

lemma fits_DashboardSummary_DashboardSummary: "fits True DashboardSummary_go DashboardSummary_ts"
  by (simp add: text_alt_def number_alt_def
      DashboardSummary_go_def DashboardSummary_ts_def)

lemma fits_SystemHealthStatus_SystemHealth: "fits True SystemHealthStatus_go SystemHealth_ts"
  by (simp add: text_alt_def number_alt_def
      SystemHealthStatus_go_def SystemHealth_ts_def)

lemma fits_Engagement_MigrationEngagement: "fits False Engagement_go MigrationEngagement_ts"
  by (simp add: text_alt_def number_alt_def
      Engagement_go_def EngagementStatus_go_def SourceConnection_go_def MigrationEngagement_ts_def
      EngagementStatus_ts_def SourceConnection_ts_def SourceDriver_ts_def)

lemma fits_SourceTable_SourceTable: "fits True SourceTable_go SourceTable_ts"
  by (simp add: text_alt_def number_alt_def
      SourceTable_go_def SourceTable_ts_def)

lemma never_TableProfile_QualityProfile: "never_fits TableProfile_go QualityProfile_ts"
  by (simp add: never_fits_def TableProfile_go_def QualityProfile_ts_def)

lemma fits_QualityProfileRow_QualityProfile: "fits True QualityProfileRow_go QualityProfile_ts"
  by (simp add: text_alt_def number_alt_def
      QualityProfileRow_go_def QualityProfile_ts_def)

lemma never_GenerateMappingsSummary_GenerateMappingsSummary: "never_fits GenerateMappingsSummary_go GenerateMappingsSummary_ts"
  by (simp add: never_fits_def GenerateMappingsSummary_go_def GenerateMappingsSummary_ts_def)

lemma fits_FieldMapping_FieldMapping: "fits False FieldMapping_go FieldMapping_ts"
  by (simp add: text_alt_def number_alt_def
      FieldMapping_go_def MappingWarning_go_def FieldMapping_ts_def AgreementStatus_ts_def
      ApprovalStatus_ts_def MappingWarning_ts_def WarningRisk_ts_def)

lemma never_listCodeMappings: "never_fits CodeMappingResponse_go (TArray CodeMapping_ts)"
  by (simp add: never_fits_def CodeMappingResponse_go_def CodeMapping_ts_def)

lemma fits_CodeMapping_CodeMapping: "fits True CodeMapping_go CodeMapping_ts"
  by (simp add: text_alt_def number_alt_def
      CodeMapping_go_def CodeMapping_ts_def)

lemma fits_MigrationBatch_MigrationBatch: "fits False MigrationBatch_go MigrationBatch_ts"
  by (simp add: text_alt_def number_alt_def
      MigrationBatch_go_def MigrationBatch_ts_def BatchStatus_ts_def)

lemma fits_MigrationException_MigrationException: "fits False MigrationException_go MigrationException_ts"
  by (simp add: text_alt_def number_alt_def
      MigrationException_go_def MigrationException_ts_def ExceptionType_ts_def
      ExceptionDisposition_ts_def)

lemma never_executeBatch: "never_fits (GStruct [(''batch_id'', False, GString), (''status'', False, GString)]) MigrationBatch_ts"
  by (simp add: never_fits_def MigrationBatch_ts_def)

lemma never_RetransformResult_MigrationBatch: "never_fits RetransformResult_go MigrationBatch_ts"
  by (simp add: never_fits_def RetransformResult_go_def MigrationBatch_ts_def)

lemma never_getReconciliation: "never_fits (GStruct [(''engagement_id'', False, GString), (''records'', False, GNilable (GSlice (GStruct [(''recon_id'', False, GString), (''batch_id'', False, GString), (''member_id'', False, GString), (''tier'', False, GInt), (''category'', False, GString), (''priority'', False, GNilable GString), (''legacy_value'', False, GNilable GString), (''recomputed_value'', False, GNilable GString), (''variance_amount'', False, GNilable GString), (''suspected_domain'', False, GNilable GString), (''details'', False, GNilable GString)]))), (''count'', False, GInt)]) (TArray Reconciliation_ts)"
  by (simp add: never_fits_def Reconciliation_ts_def)

lemma never_getP1Issues: "never_fits (GStruct [(''engagement_id'', False, GString), (''p1_issues'', False, GNilable (GSlice (GStruct [(''recon_id'', False, GString), (''batch_id'', False, GString), (''member_id'', False, GString), (''tier'', False, GInt), (''category'', False, GString), (''legacy_value'', False, GNilable GString), (''recomputed_value'', False, GNilable GString), (''variance_amount'', False, GNilable GString), (''suspected_domain'', False, GNilable GString), (''details'', False, GNilable GString)]))), (''count'', False, GInt)]) (TArray Reconciliation_ts)"
  by (simp add: never_fits_def Reconciliation_ts_def)

lemma fits_ReconciliationSummaryResult_ReconciliationSummary: "fits True ReconciliationSummaryResult_go ReconciliationSummary_ts"
  by (simp add: text_alt_def number_alt_def
      ReconciliationSummaryResult_go_def ReconciliationSummary_ts_def)

lemma never_ReconciliationRecord_Reconciliation: "never_fits ReconciliationRecord_go Reconciliation_ts"
  by (simp add: never_fits_def ReconciliationRecord_go_def Reconciliation_ts_def)

lemma never_listCertifications: "never_fits CertificationListResponse_go (TArray Certification_ts)"
  by (simp add: never_fits_def CertificationListResponse_go_def Certification_ts_def)

lemma never_GateEvaluationResult_GateEvaluationResult: "never_fits GateEvaluationResult_go GateEvaluationResult_ts"
  by (simp add: never_fits_def GateEvaluationResult_go_def GateEvaluationResult_ts_def)

lemma fits_Risk_MigrationRisk: "fits False Risk_go MigrationRisk_ts"
  by (simp add: text_alt_def number_alt_def
      Risk_go_def MigrationRisk_ts_def RiskSource_ts_def RiskSeverity_ts_def RiskStatus_ts_def)

lemma fits_CompareResult_CompareResult: "fits False CompareResult_go CompareResult_ts"
  by (simp add: text_alt_def number_alt_def
      CompareResult_go_def CompareEngagement_go_def QualityScores_go_def CompareResult_ts_def
      CompareEngagement_ts_def EngagementStatus_ts_def QualityScores_ts_def)

lemma never_PhaseGateTransition_PhaseGateTransition: "never_fits PhaseGateTransition_go PhaseGateTransition_ts"
  by (simp add: never_fits_def PhaseGateTransition_go_def PhaseGateTransition_ts_def)

lemma never_AttentionItem_AttentionItem: "never_fits AttentionItem_go AttentionItem_ts"
  by (simp add: never_fits_def AttentionItem_go_def AttentionItem_ts_def)

lemma never_AttentionSummary_AttentionSummary: "never_fits AttentionSummary_go AttentionSummary_ts"
  by (simp add: never_fits_def AttentionSummary_go_def AttentionSummary_ts_def)

lemma never_AIRecommendation_AIRecommendation: "never_fits AIRecommendation_go AIRecommendation_ts"
  by (simp add: never_fits_def AIRecommendation_go_def AIRecommendation_ts_def)

lemma never_getBatchSizingRecommendation: "never_fits (GStruct [(''engagement_id'', False, GString), (''tables_profiled'', False, GInt), (''quality_min'', False, GFloat), (''recommended_batch_size'', False, GInt), (''recommendation'', False, GString)]) AIRecommendation_ts"
  by (simp add: never_fits_def AIRecommendation_ts_def)

lemma never_getRemediationRecommendations: "never_fits (GStruct [(''engagement_id'', False, GString), (''suggestions'', False, GNilable (GSlice (GStruct [(''dimension'', False, GString), (''score'', False, GFloat), (''suggestion'', False, GString), (''priority'', False, GString)])))]) (TArray AIRecommendation_ts)"
  by (simp add: never_fits_def AIRecommendation_ts_def)

lemma never_RootCauseResponse_RootCauseResponse: "never_fits RootCauseResponse_go RootCauseResponse_ts"
  by (simp add: never_fits_def RootCauseResponse_go_def RootCauseResponse_ts_def)

lemma never_Notification_MigrationNotification: "never_fits Notification_go MigrationNotification_ts"
  by (simp add: never_fits_def Notification_go_def MigrationNotification_ts_def)

lemma fits_MappingSpecReport_MappingSpecReport: "fits True MappingSpecReport_go MappingSpecReport_ts"
  by (simp add: text_alt_def number_alt_def
      MappingSpecReport_go_def TableMappingSpec_go_def FieldMappingSpec_go_def
      CodeMappingSpec_go_def MappingSpecReport_ts_def TableMappingSpec_ts_def
      FieldMappingSpec_ts_def CodeMappingSpec_ts_def)

lemma never_Job_Job: "never_fits Job_go Job_ts"
  by (simp add: never_fits_def Job_go_def Job_ts_def)

lemma never_JobSummary_JobSummary: "never_fits JobSummary_go JobSummary_ts"
  by (simp add: never_fits_def JobSummary_go_def JobSummary_ts_def)

lemma never_retryJob: "never_fits (GStruct [(''job_id'', False, GString), (''status'', False, GString)]) Job_ts"
  by (simp add: never_fits_def Job_ts_def)

lemma fits_ReconRuleSet_ReconRuleSet: "fits False ReconRuleSet_go ReconRuleSet_ts"
  by (simp add: text_alt_def number_alt_def
      ReconRuleSet_go_def ReconRuleSetStatus_go_def ReconRule_go_def ReconComparisonType_go_def
      ReconPriority_go_def ReconRuleSet_ts_def ReconRuleSetStatus_ts_def ReconRule_ts_def
      ComparisonType_ts_def RiskSeverity_ts_def)

lemma never_SchemaVersionWithFields_SchemaVersion: "never_fits SchemaVersionWithFields_go SchemaVersion_ts"
  by (simp add: never_fits_def SchemaVersionWithFields_go_def SchemaVersion_ts_def)

lemma never_SchemaVersion_SchemaVersion: "never_fits SchemaVersion_go SchemaVersion_ts"
  by (simp add: never_fits_def SchemaVersion_go_def SchemaVersion_ts_def)

lemma never_SchemaVersionDiff_SchemaVersionDiff: "never_fits SchemaVersionDiff_go SchemaVersionDiff_ts"
  by (simp add: never_fits_def SchemaVersionDiff_go_def SchemaVersionDiff_ts_def)

lemma never_getRetentionPolicy: "never_fits (GStruct [(''retention_policy'', False, GRaw)]) RetentionPolicy_ts"
  by (simp add: never_fits_def RetentionPolicy_ts_def)

subsection \<open>The tables\<close>

lemma migration_typed_check:
  "list_all (\<lambda>(c, h, s, r, t). fits s (present (payload_type r)) t \<and> \<not> is_Write_json r) MIGRATION_TYPED"
  by (simp add: MIGRATION_TYPED_def text_alt_def number_alt_def CertificationRecord_go_def
      fits_DashboardSummary_DashboardSummary fits_SystemHealthStatus_SystemHealth
      fits_Engagement_MigrationEngagement fits_SourceTable_SourceTable
      fits_QualityProfileRow_QualityProfile fits_FieldMapping_FieldMapping
      fits_CodeMapping_CodeMapping fits_MigrationBatch_MigrationBatch
      fits_MigrationException_MigrationException
      fits_ReconciliationSummaryResult_ReconciliationSummary fits_Risk_MigrationRisk
      fits_CompareResult_CompareResult fits_MappingSpecReport_MappingSpecReport
      fits_ReconRuleSet_ReconRuleSet)

lemma migration_mistyped_check:
  "list_all (\<lambda>(c, h, r, t). mistyped (payload_type r) t \<and> \<not> is_Write_json r) MIGRATION_MISTYPED"
  by (simp add: MIGRATION_MISTYPED_def mistyped_never
      never_TableProfile_QualityProfile never_GenerateMappingsSummary_GenerateMappingsSummary
      never_listCodeMappings never_executeBatch never_RetransformResult_MigrationBatch
      never_getReconciliation never_getP1Issues never_ReconciliationRecord_Reconciliation
      never_listCertifications never_GateEvaluationResult_GateEvaluationResult
      never_PhaseGateTransition_PhaseGateTransition never_AttentionItem_AttentionItem
      never_AttentionSummary_AttentionSummary never_AIRecommendation_AIRecommendation
      never_getBatchSizingRecommendation never_getRemediationRecommendations
      never_RootCauseResponse_RootCauseResponse never_Notification_MigrationNotification
      never_Job_Job never_JobSummary_JobSummary never_retryJob
      never_SchemaVersionWithFields_SchemaVersion never_SchemaVersion_SchemaVersion
      never_SchemaVersionDiff_SchemaVersionDiff never_getRetentionPolicy)

lemma migration_bare_check:
  "list_all (\<lambda>(c, h, r, t). has_no_data (payload_type r) \<and> is_Write_json r) MIGRATION_BARE"
  by (simp add: MIGRATION_BARE_def ReconExecutionRun_go_def)

text \<open>
  C9: Every answer the migration service makes to the calls of the table arrives at the caller of the
  client method with the type the method is declared to return: what the handler encodes from its Go
  type, unwrapped by the client, is a value of the TypeScript type (its literals included where the
  table says so), or \<open>null\<close> where the service may have nothing to send.
\<close>

theorem migration_answers_typed:
  assumes "(c, h, s, r, t) \<in> set MIGRATION_TYPED" and "sends (payload_type r) d"
    and "rawRequest env tok url init tm = (evs, Inr (answer_body r d pg meta), tok')"
  shows "\<exists>x. request env tok url init tm True = (evs, Inr x, tok')
     \<and> (conforms s t x \<or> (x = JNull \<and> may_be_nil (payload_type r)))"
  using typed_answer[OF _ assms(2,3)] assms(1) migration_typed_check by (fastforce simp: list_all_iff)

theorem migration_answers_typed_witness:
  "\<exists>evs. \<exists>x. request (answering (answer_body (Write_success (GStruct [(''connected'', False, GBool)]))
       (JObj [(''connected'', JBool True)]) JNull JNull)) [] ''/x'' empty_init None True = (evs, Inr x, [])
     \<and> conforms True (TObject [(''connected'', False, TBoolean)]) x"
proof -
  obtain evs where "rawRequest (answering (answer_body (Write_success (GStruct [(''connected'', False, GBool)])) (JObj [(''connected'', JBool True)]) JNull JNull)) [] ''/x'' empty_init None
      = (evs, Inr (answer_body (Write_success (GStruct [(''connected'', False, GBool)])) (JObj [(''connected'', JBool True)]) JNull JNull), [])"
    using rawRequest_answering by blast
  from migration_answers_typed[OF _ _ this, where c = "''configureSource''" and h = "''ConfigureSource''" and t = "TObject [(''connected'', False, TBoolean)]" and s = True]
  show ?thesis by (auto simp: MIGRATION_TYPED_def)
qed



lemma migration_answers_bare:
  assumes "(c, h, r, t) \<in> set MIGRATION_BARE" and "sends (payload_type r) d"
    and "rawRequest env tok url init tm = (evs, Inr (answer_body r d pg meta), tok')"
  shows "request env tok url init tm raw = (evs, Inr JUndef, tok')"
  using bare_answer[OF _ assms(2,3)] assms(1) migration_bare_check by (fastforce simp: list_all_iff)

end
