(* ===== verification/PlatformTypes.thy ===== *)
theory PlatformTypes imports EmployerTypes begin

text \<open>
  The types the answers of the other platform services are declared with (src/frontend/src/types and
  the clients that declare their own), and the Go types crm, casemanagement, correspondence,
  dataquality, knowledgebase, issues, security, dataaccess, preferences and intelligence send there.
  A name that is already taken carries the word platform or its service.
\<close>

subsection \<open>Declared by the clients\<close>

definition ContactType_ts :: ts_type where
  "ContactType_ts =
     TUnion [TLit ''member'', TLit ''beneficiary'', TLit ''alternate_payee'', TLit ''external'']"

definition SecurityFlag_ts :: ts_type where
  "SecurityFlag_ts =
     TUnion [TLit ''fraud_alert'', TLit ''pending_divorce'', TLit ''suspected_death'',
      TLit ''legal_hold'', TLit ''restricted_access'']"

definition ContactAddress_ts :: ts_type where
  "ContactAddress_ts = TObject
     [(''addressId'', False, TString),
      (''contactId'', False, TString),
      (''addressType'', False, TString),
      (''isPrimary'', False, TBoolean),
      (''line1'', False, TString),
      (''line2'', True, TString),
      (''city'', False, TString),
      (''stateCode'', False, TString),
      (''zipCode'', False, TString),
      (''countryCode'', False, TString),
      (''validated'', False, TBoolean),
      (''validatedAt'', True, TString),
      (''standardizedLine1'', True, TString),
      (''effectiveFrom'', False, TString),
      (''effectiveTo'', True, TString)]"

definition ContactPreference_ts :: ts_type where
  "ContactPreference_ts = TObject
     [(''preferenceId'', False, TString),
      (''contactId'', False, TString),
      (''preferenceType'', False, TString),
      (''preferenceValue'', False, TString),
      (''consentSource'', True, TString),
      (''consentDate'', False, TString)]"

definition OrgContactRole_ts :: ts_type where
  "OrgContactRole_ts = TObject
     [(''orgContactId'', False, TString),
      (''orgId'', False, TString),
      (''contactId'', False, TString),
      (''role'', False, TString),
      (''isPrimaryForRole'', False, TBoolean),
      (''title'', True, TString),
      (''directPhone'', True, TString),
      (''directEmail'', True, TString),
      (''effectiveFrom'', False, TString),
      (''effectiveTo'', True, TString)]"

definition Contact_ts :: ts_type where
  "Contact_ts = TObject
     [(''contactId'', False, TString),
      (''tenantId'', False, TString),
      (''contactType'', False, ContactType_ts),
      (''legacyMemberId'', True, TString),
      (''firstName'', False, TString),
      (''lastName'', False, TString),
      (''middleName'', True, TString),
      (''suffix'', True, TString),
      (''dateOfBirth'', True, TString),
      (''gender'', True, TString),
      (''primaryEmail'', True, TString),
      (''primaryPhone'', True, TString),
      (''primaryPhoneType'', True, TString),
      (''preferredLanguage'', False, TString),
      (''preferredChannel'', False, TString),
      (''identityVerified'', False, TBoolean),
      (''identityVerifiedAt'', True, TString),
      (''identityVerifiedBy'', True, TString),
      (''securityFlag'', True, SecurityFlag_ts),
      (''securityFlagNote'', True, TString),
      (''emailDeliverable'', True, TBoolean),
      (''emailValidatedAt'', True, TString),
      (''phoneValidatedAt'', True, TString),
      (''mailReturned'', False, TBoolean),
      (''mailReturnedAt'', True, TString),
      (''mergedIntoId'', True, TString),
      (''mergeDate'', True, TString),
      (''addresses'', True, TArray ContactAddress_ts),
      (''preferences'', True, TArray ContactPreference_ts),
      (''organizationRoles'', True, TArray OrgContactRole_ts),
      (''createdAt'', False, TString),
      (''updatedAt'', False, TString),
      (''createdBy'', False, TString),
      (''updatedBy'', False, TString)]"

definition InteractionChannel_ts :: ts_type where
  "InteractionChannel_ts =
     TUnion [TLit ''phone_inbound'', TLit ''phone_outbound'', TLit ''secure_message'',
      TLit ''email_inbound'', TLit ''email_outbound'', TLit ''walk_in'', TLit ''portal_activity'',
      TLit ''mail_inbound'', TLit ''mail_outbound'', TLit ''internal_handoff'',
      TLit ''system_event'', TLit ''fax'']"

definition InteractionType_ts :: ts_type where
  "InteractionType_ts =
     TUnion [TLit ''inquiry'', TLit ''request'', TLit ''complaint'', TLit ''follow_up'',
      TLit ''outreach'', TLit ''escalation'', TLit ''callback'', TLit ''notification'',
      TLit ''status_update'', TLit ''document_receipt'', TLit ''process_event'',
      TLit ''system_event'']"

definition InteractionOutcome_ts :: ts_type where
  "InteractionOutcome_ts =
     TUnion [TLit ''resolved'', TLit ''escalated'', TLit ''callback_scheduled'',
      TLit ''info_provided'', TLit ''work_item_created'', TLit ''transferred'',
      TLit ''voicemail_left'', TLit ''no_answer'', TLit ''in_progress'']"

definition Direction_ts :: ts_type where
  "Direction_ts =
     TUnion [TLit ''inbound'', TLit ''outbound'', TLit ''internal'']"

definition Visibility_ts :: ts_type where
  "Visibility_ts =
     TUnion [TLit ''internal'', TLit ''public'']"

definition Note_ts :: ts_type where
  "Note_ts = TObject
     [(''noteId'', False, TString),
      (''interactionId'', False, TString),
      (''templateId'', True, TString),
      (''category'', False, TString),
      (''subcategory'', True, TString),
      (''summary'', False, TString),
      (''outcome'', False, TString),
      (''nextStep'', True, TString),
      (''narrative'', True, TString),
      (''sentiment'', True, TString),
      (''urgentFlag'', False, TBoolean),
      (''aiSuggested'', False, TBoolean),
      (''aiConfidence'', True, TNumber),
      (''createdAt'', False, TString),
      (''createdBy'', False, TString),
      (''updatedAt'', False, TString),
      (''updatedBy'', False, TString)]"

definition CommitmentStatus_ts :: ts_type where
  "CommitmentStatus_ts =
     TUnion [TLit ''pending'', TLit ''in_progress'', TLit ''fulfilled'', TLit ''overdue'',
      TLit ''cancelled'']"

definition Commitment_ts :: ts_type where
  "Commitment_ts = TObject
     [(''commitmentId'', False, TString),
      (''tenantId'', False, TString),
      (''interactionId'', False, TString),
      (''contactId'', True, TString),
      (''conversationId'', True, TString),
      (''description'', False, TString),
      (''targetDate'', False, TString),
      (''ownerAgent'', False, TString),
      (''ownerTeam'', True, TString),
      (''status'', False, CommitmentStatus_ts),
      (''fulfilledAt'', True, TString),
      (''fulfilledBy'', True, TString),
      (''fulfillmentNote'', True, TString),
      (''alertDaysBefore'', False, TNumber),
      (''alertSent'', False, TBoolean),
      (''createdAt'', False, TString),
      (''createdBy'', False, TString),
      (''updatedAt'', False, TString),
      (''updatedBy'', False, TString)]"

definition InteractionLink_ts :: ts_type where
  "InteractionLink_ts = TObject
     [(''linkId'', False, TString),
      (''fromInteractionId'', False, TString),
      (''toInteractionId'', False, TString),
      (''linkType'', False, TString)]"

definition Interaction_ts :: ts_type where
  "Interaction_ts = TObject
     [(''interactionId'', False, TString),
      (''tenantId'', False, TString),
      (''conversationId'', True, TString),
      (''contactId'', True, TString),
      (''orgId'', True, TString),
      (''agentId'', True, TString),
      (''channel'', False, InteractionChannel_ts),
      (''interactionType'', False, InteractionType_ts),
      (''category'', True, TString),
      (''subcategory'', True, TString),
      (''outcome'', True, InteractionOutcome_ts),
      (''direction'', False, Direction_ts),
      (''startedAt'', False, TString),
      (''endedAt'', True, TString),
      (''durationSeconds'', True, TNumber),
      (''externalCallId'', True, TString),
      (''queueName'', True, TString),
      (''waitTimeSeconds'', True, TNumber),
      (''recordingUrl'', True, TString),
      (''transcriptUrl'', True, TString),
      (''messageSubject'', True, TString),
      (''messageThreadId'', True, TString),
      (''summary'', True, TString),
      (''linkedCaseId'', True, TString),
      (''linkedWorkflowId'', True, TString),
      (''wrapUpCode'', True, TString),
      (''wrapUpSeconds'', True, TNumber),
      (''visibility'', False, Visibility_ts),
      (''notes'', True, TArray Note_ts),
      (''commitments'', True, TArray Commitment_ts),
      (''links'', True, TArray InteractionLink_ts),
      (''createdAt'', False, TString),
      (''createdBy'', False, TString)]"

definition ConversationStatus_ts :: ts_type where
  "ConversationStatus_ts =
     TUnion [TLit ''open'', TLit ''pending'', TLit ''resolved'', TLit ''closed'',
      TLit ''reopened'']"

definition SLATracking_ts :: ts_type where
  "SLATracking_ts = TObject
     [(''trackingId'', False, TString),
      (''conversationId'', False, TString),
      (''slaId'', False, TString),
      (''startedAt'', False, TString),
      (''responseDueAt'', False, TString),
      (''resolutionDueAt'', True, TString),
      (''firstResponseAt'', True, TString),
      (''resolvedAt'', True, TString),
      (''responseBreached'', False, TBoolean),
      (''resolutionBreached'', False, TBoolean),
      (''warnSent'', False, TBoolean),
      (''escalationSent'', False, TBoolean)]"

definition Conversation_ts :: ts_type where
  "Conversation_ts = TObject
     [(''conversationId'', False, TString),
      (''tenantId'', False, TString),
      (''anchorType'', False, TString),
      (''anchorId'', True, TString),
      (''topicCategory'', True, TString),
      (''topicSubcategory'', True, TString),
      (''subject'', True, TString),
      (''status'', False, ConversationStatus_ts),
      (''resolvedAt'', True, TString),
      (''resolvedBy'', True, TString),
      (''resolutionSummary'', True, TString),
      (''slaDefinitionId'', True, TString),
      (''slaDueAt'', True, TString),
      (''slaBreached'', False, TBoolean),
      (''assignedTeam'', True, TString),
      (''assignedAgent'', True, TString),
      (''interactionCount'', False, TNumber),
      (''interactions'', True, TArray Interaction_ts),
      (''slaTracking'', True, SLATracking_ts),
      (''createdAt'', False, TString),
      (''updatedAt'', False, TString),
      (''createdBy'', False, TString),
      (''updatedBy'', False, TString)]"

definition OutreachStatus_ts :: ts_type where
  "OutreachStatus_ts =
     TUnion [TLit ''pending'', TLit ''assigned'', TLit ''attempted'', TLit ''completed'',
      TLit ''cancelled'', TLit ''deferred'']"

definition Outreach_ts :: ts_type where
  "Outreach_ts = TObject
     [(''outreachId'', False, TString),
      (''tenantId'', False, TString),
      (''contactId'', True, TString),
      (''orgId'', True, TString),
      (''triggerType'', False, TString),
      (''triggerDetail'', True, TString),
      (''outreachType'', False, TString),
      (''subject'', True, TString),
      (''talkingPoints'', True, TString),
      (''priority'', False, TString),
      (''assignedAgent'', True, TString),
      (''assignedTeam'', True, TString),
      (''status'', False, OutreachStatus_ts),
      (''attemptCount'', False, TNumber),
      (''maxAttempts'', False, TNumber),
      (''lastAttemptAt'', True, TString),
      (''completedAt'', True, TString),
      (''resultInteractionId'', True, TString),
      (''resultOutcome'', True, TString),
      (''scheduledFor'', True, TString),
      (''dueBy'', True, TString),
      (''createdAt'', False, TString),
      (''createdBy'', False, TString),
      (''updatedAt'', False, TString),
      (''updatedBy'', False, TString)]"

definition Organization_ts :: ts_type where
  "Organization_ts = TObject
     [(''orgId'', False, TString),
      (''tenantId'', False, TString),
      (''orgType'', False, TString),
      (''orgName'', False, TString),
      (''orgShortName'', True, TString),
      (''legacyEmployerId'', True, TString),
      (''ein'', True, TString),
      (''addressLine1'', True, TString),
      (''addressLine2'', True, TString),
      (''city'', True, TString),
      (''stateCode'', True, TString),
      (''zipCode'', True, TString),
      (''mainPhone'', True, TString),
      (''mainEmail'', True, TString),
      (''websiteUrl'', True, TString),
      (''employerStatus'', True, TString),
      (''memberCount'', True, TNumber),
      (''lastContributionDate'', True, TString),
      (''reportingFrequency'', True, TString),
      (''contractReference'', True, TString),
      (''contractStartDate'', True, TString),
      (''contractEndDate'', True, TString),
      (''contacts'', True, TArray OrgContactRole_ts),
      (''createdAt'', False, TString),
      (''updatedAt'', False, TString),
      (''createdBy'', False, TString),
      (''updatedBy'', False, TString)]"

definition AuditEventType_ts :: ts_type where
  "AuditEventType_ts =
     TUnion [TLit ''CREATE'', TLit ''UPDATE'', TLit ''DELETE'', TLit ''TRANSITION'']"

definition AuditEntityType_ts :: ts_type where
  "AuditEntityType_ts =
     TUnion [TLit ''Contact'', TLit ''Conversation'', TLit ''Interaction'', TLit ''Commitment'',
      TLit ''Outreach'', TLit ''Organization'']"

definition AuditEntry_ts :: ts_type where
  "AuditEntry_ts = TObject
     [(''auditId'', False, TNumber),
      (''tenantId'', False, TString),
      (''eventType'', False, AuditEventType_ts),
      (''entityType'', False, AuditEntityType_ts),
      (''entityId'', False, TString),
      (''agentId'', False, TString),
      (''agentIp'', True, TString),
      (''agentDevice'', True, TString),
      (''fieldChanges'', True, TRecord (TObject [(''old'', False, TUnknown), (''new'', False, TUnknown)])),
      (''summary'', False, TString),
      (''prevAuditHash'', True, TString),
      (''recordHash'', True, TString),
      (''eventTime'', False, TString)]"

definition StageDefinition_ts :: ts_type where
  "StageDefinition_ts = TObject
     [(''stageIdx'', False, TNumber),
      (''stageName'', False, TString),
      (''description'', True, TString),
      (''sortOrder'', False, TNumber)]"

definition StageCaseCount_ts :: ts_type where
  "StageCaseCount_ts = TObject
     [(''stage'', False, TString),
      (''stageIdx'', False, TNumber),
      (''count'', False, TNumber)]"

definition StatusCount_ts :: ts_type where
  "StatusCount_ts = TObject
     [(''status'', False, TString),
      (''count'', False, TNumber)]"

definition PriorityCount_ts :: ts_type where
  "PriorityCount_ts = TObject
     [(''priority'', False, TString),
      (''count'', False, TNumber)]"

definition AssigneeStats_ts :: ts_type where
  "AssigneeStats_ts = TObject
     [(''assignedTo'', False, TString),
      (''count'', False, TNumber),
      (''avgDaysOpen'', False, TNumber)]"

definition CaseStats_ts :: ts_type where
  "CaseStats_ts = TObject
     [(''totalActive'', False, TNumber),
      (''completedMTD'', False, TNumber),
      (''atRiskCount'', False, TNumber),
      (''caseloadByStage'', False, TArray StageCaseCount_ts),
      (''casesByStatus'', False, TArray StatusCount_ts),
      (''casesByPriority'', False, TArray PriorityCount_ts),
      (''casesByAssignee'', False, TArray AssigneeStats_ts)]"

definition SLAThresholds_ts :: ts_type where
  "SLAThresholds_ts = TObject
     [(''urgent'', False, TNumber),
      (''high'', False, TNumber),
      (''standard'', False, TNumber)]"

definition SLAStats_ts :: ts_type where
  "SLAStats_ts = TObject
     [(''onTrack'', False, TNumber),
      (''atRisk'', False, TNumber),
      (''overdue'', False, TNumber),
      (''avgProcessingDays'', False, TNumber),
      (''thresholds'', False, SLAThresholds_ts)]"

definition MonthlyVolume_ts :: ts_type where
  "MonthlyVolume_ts = TObject
     [(''month'', False, TString),
      (''year'', False, TNumber),
      (''count'', False, TNumber)]"

definition VolumeStats_ts :: ts_type where
  "VolumeStats_ts = TObject
     [(''months'', False, TArray MonthlyVolume_ts)]"

definition StageTransition_ts :: ts_type where
  "StageTransition_ts = TObject
     [(''id'', False, TNumber),
      (''caseId'', False, TString),
      (''fromStageIdx'', False, TUnion [TNumber, TNull]),
      (''toStageIdx'', False, TNumber),
      (''fromStage'', False, TUnion [TString, TNull]),
      (''toStage'', False, TString),
      (''transitionedBy'', False, TString),
      (''note'', True, TString),
      (''transitionedAt'', False, TString)]"

definition DQCheckResult_ts :: ts_type where
  "DQCheckResult_ts = TObject
     [(''resultId'', False, TString),
      (''checkId'', False, TString),
      (''tenantId'', False, TString),
      (''runAt'', False, TString),
      (''recordsChecked'', False, TNumber),
      (''recordsPassed'', False, TNumber),
      (''recordsFailed'', False, TNumber),
      (''passRate'', False, TNumber),
      (''status'', False, TUnion [TLit ''completed'', TLit ''failed'', TLit ''skipped'']),
      (''durationMs'', True, TNumber),
      (''errorMessage'', True, TString),
      (''createdAt'', False, TString)]"

definition DQCheckDefinition_ts :: ts_type where
  "DQCheckDefinition_ts = TObject
     [(''checkId'', False, TString),
      (''tenantId'', False, TString),
      (''checkName'', False, TString),
      (''checkCode'', False, TString),
      (''description'', True, TString),
      (''category'', False, TUnion [TLit ''completeness'', TLit ''consistency'', TLit ''validity'']),
      (''severity'', False, TUnion [TLit ''critical'', TLit ''warning'', TLit ''info'']),
      (''targetTable'', False, TString),
      (''checkQuery'', True, TString),
      (''threshold'', True, TNumber),
      (''isActive'', False, TBoolean),
      (''schedule'', False, TString),
      (''createdAt'', False, TString),
      (''updatedAt'', False, TString),
      (''createdBy'', False, TString),
      (''updatedBy'', False, TString),
      (''latestResult'', True, DQCheckResult_ts)]"

definition DQScore_ts :: ts_type where
  "DQScore_ts = TObject
     [(''overallScore'', False, TNumber),
      (''totalChecks'', False, TNumber),
      (''passingChecks'', False, TNumber),
      (''openIssues'', False, TNumber),
      (''criticalIssues'', False, TNumber),
      (''categoryScores'', False, TRecord TNumber),
      (''lastRunAt'', True, TString)]"

definition DQScoreTrend_ts :: ts_type where
  "DQScoreTrend_ts = TObject
     [(''date'', False, TString),
      (''score'', False, TNumber)]"

definition DQIssue_ts :: ts_type where
  "DQIssue_ts = TObject
     [(''issueId'', False, TString),
      (''resultId'', False, TString),
      (''checkId'', False, TString),
      (''tenantId'', False, TString),
      (''severity'', False, TUnion [TLit ''critical'', TLit ''warning'', TLit ''info'']),
      (''recordTable'', False, TString),
      (''recordId'', False, TString),
      (''fieldName'', True, TString),
      (''currentValue'', True, TString),
      (''expectedPattern'', True, TString),
      (''description'', False, TString),
      (''status'', False, TUnion [TLit ''open'', TLit ''acknowledged'', TLit ''resolved'', TLit ''false_positive'']),
      (''resolvedAt'', True, TString),
      (''resolvedBy'', True, TString),
      (''resolutionNote'', True, TString),
      (''createdAt'', False, TString),
      (''updatedAt'', False, TString)]"

definition EmployerDQScore_ts :: ts_type where
  "EmployerDQScore_ts = TObject
     [(''overallScore'', False, TNumber),
      (''totalChecks'', False, TNumber),
      (''passingChecks'', False, TNumber),
      (''openIssues'', False, TNumber),
      (''criticalIssues'', False, TNumber),
      (''categoryScores'', False, TRecord TNumber),
      (''lastRunAt'', False, TUnion [TString, TNull])]"

definition KBRuleReference_ts :: ts_type where
  "KBRuleReference_ts = TObject
     [(''referenceId'', False, TString),
      (''articleId'', False, TString),
      (''ruleId'', False, TString),
      (''code'', False, TString),
      (''description'', False, TString),
      (''domain'', True, TString),
      (''sortOrder'', False, TNumber),
      (''createdAt'', False, TString),
      (''createdBy'', False, TString)]"

definition RuleParam_ts :: ts_type where
  "RuleParam_ts = TObject
     [(''name'', False, TString),
      (''type'', False, TString),
      (''description'', False, TString),
      (''constraints'', True, TString)]"

definition RuleCondition_ts :: ts_type where
  "RuleCondition_ts = TObject
     [(''condition'', False, TString),
      (''result'', False, TRecord TUnknown),
      (''notes'', True, TArray TString)]"

definition RuleTableRow_ts :: ts_type where
  "RuleTableRow_ts = TObject
     [(''key'', False, TString),
      (''values'', False, TRecord TUnknown)]"

definition RuleLogic_ts :: ts_type where
  "RuleLogic_ts = TObject
     [(''type'', False, TUnion [TLit ''conditional'', TLit ''formula'', TLit ''procedural'', TLit ''lookup_table'']),
      (''conditions'', True, TArray RuleCondition_ts),
      (''formula'', True, TString),
      (''steps'', True, TArray TString),
      (''table'', True, TArray RuleTableRow_ts),
      (''notes'', True, TArray TString)]"

definition RuleOutput_ts :: ts_type where
  "RuleOutput_ts = TObject
     [(''field'', False, TString),
      (''type'', False, TString),
      (''description'', True, TString)]"

definition RuleTestCase_ts :: ts_type where
  "RuleTestCase_ts = TObject
     [(''name'', False, TString),
      (''demoCaseRef'', True, TString),
      (''description'', True, TString),
      (''inputs'', False, TRecord TUnknown),
      (''expected'', False, TRecord TUnknown)]"

definition RuleGovernance_ts :: ts_type where
  "RuleGovernance_ts = TObject
     [(''status'', False, TString),
      (''lastReviewed'', False, TString),
      (''reviewedBy'', False, TString),
      (''effectiveDate'', False, TString)]"

definition TestStatus_ts :: ts_type where
  "TestStatus_ts = TObject
     [(''total'', False, TNumber),
      (''passing'', False, TNumber),
      (''failing'', False, TNumber),
      (''skipped'', False, TNumber),
      (''lastRun'', False, TString)]"

definition RuleDefinition_ts :: ts_type where
  "RuleDefinition_ts = TObject
     [(''id'', False, TString),
      (''name'', False, TString),
      (''domain'', False, TString),
      (''description'', False, TString),
      (''sourceReference'', False, TObject [(''document'', False, TString), (''section'', False, TString), (''lastVerified'', False, TString)]),
      (''appliesTo'', False, TObject [(''tiers'', False, TArray TString), (''memberTypes'', False, TArray TString)]),
      (''inputs'', False, TArray RuleParam_ts),
      (''logic'', False, RuleLogic_ts),
      (''output'', False, TArray RuleOutput_ts),
      (''dependencies'', False, TArray TString),
      (''tags'', False, TArray TString),
      (''testCases'', False, TArray RuleTestCase_ts),
      (''governance'', False, RuleGovernance_ts),
      (''testStatus'', True, TestStatus_ts)]"

definition TestResult_ts :: ts_type where
  "TestResult_ts = TObject
     [(''name'', False, TString),
      (''status'', False, TUnion [TLit ''pass'', TLit ''fail'', TLit ''skip'']),
      (''durationMs'', False, TNumber),
      (''ruleId'', True, TString)]"

definition RuleTestSummary_ts :: ts_type where
  "RuleTestSummary_ts = TObject
     [(''total'', False, TNumber),
      (''passing'', False, TNumber),
      (''failing'', False, TNumber),
      (''skipped'', False, TNumber),
      (''tests'', False, TArray TestResult_ts)]"

definition DemoCase_ts :: ts_type where
  "DemoCase_ts = TObject
     [(''caseId'', False, TString),
      (''description'', False, TString),
      (''member'', False, TObject [(''memberId'', False, TUnion [TNumber, TString]), (''firstName'', False, TString), (''lastName'', False, TString), (''dob'', False, TString), (''hireDate'', False, TString), (''tier'', False, TUnion [TNumber, TString])]),
      (''retirementDate'', False, TString),
      (''inputs'', False, TRecord TUnknown),
      (''expected'', False, TRecord TUnknown),
      (''testPoints'', False, TArray TString),
      (''full'', False, TRecord TUnknown)]"

definition Issue_ts :: ts_type where
  "Issue_ts = TObject
     [(''id'', False, TNumber),
      (''issueId'', False, TString),
      (''tenantId'', False, TString),
      (''title'', False, TString),
      (''description'', False, TString),
      (''severity'', False, TUnion [TLit ''critical'', TLit ''high'', TLit ''medium'', TLit ''low'']),
      (''category'', False, TUnion [TLit ''defect'', TLit ''incident'', TLit ''enhancement'', TLit ''question'', TLit ''error-report'']),
      (''status'', False, TUnion [TLit ''open'', TLit ''triaged'', TLit ''in-work'', TLit ''resolved'', TLit ''closed'']),
      (''affectedService'', False, TString),
      (''reportedBy'', False, TString),
      (''assignedTo'', False, TUnion [TString, TNull]),
      (''reportedAt'', False, TString),
      (''resolvedAt'', False, TUnion [TString, TNull]),
      (''resolutionNote'', False, TUnion [TString, TNull]),
      (''createdAt'', False, TString),
      (''updatedAt'', False, TString)]"

definition IssueStats_ts :: ts_type where
  "IssueStats_ts = TObject
     [(''openCount'', False, TNumber),
      (''criticalCount'', False, TNumber),
      (''avgResolution'', False, TNumber),
      (''resolvedCount'', False, TNumber)]"

definition IssueComment_ts :: ts_type where
  "IssueComment_ts = TObject
     [(''id'', False, TNumber),
      (''issueId'', False, TNumber),
      (''author'', False, TString),
      (''content'', False, TString),
      (''createdAt'', False, TString)]"

definition SecurityEvent_ts :: ts_type where
  "SecurityEvent_ts = TObject
     [(''id'', False, TNumber),
      (''tenantId'', False, TString),
      (''eventType'', False, TString),
      (''actorId'', False, TString),
      (''actorEmail'', False, TString),
      (''ipAddress'', False, TString),
      (''userAgent'', False, TString),
      (''metadata'', False, TString),
      (''createdAt'', False, TString)]"

definition EventStats_ts :: ts_type where
  "EventStats_ts = TObject
     [(''activeUsers'', False, TNumber),
      (''activeSessions'', False, TNumber),
      (''failedLogins24h'', False, TNumber),
      (''roleChanges7d'', False, TNumber)]"

definition ActiveSession_ts :: ts_type where
  "ActiveSession_ts = TObject
     [(''id'', False, TNumber),
      (''tenantId'', False, TString),
      (''userId'', False, TString),
      (''sessionId'', False, TString),
      (''email'', False, TString),
      (''role'', False, TString),
      (''ipAddress'', False, TString),
      (''userAgent'', False, TString),
      (''startedAt'', False, TString),
      (''lastSeenAt'', False, TString)]"

definition MemberSearchResult_ts :: ts_type where
  "MemberSearchResult_ts = TObject
     [(''memberId'', False, TNumber),
      (''firstName'', False, TString),
      (''lastName'', False, TString),
      (''tier'', False, TNumber),
      (''dept'', False, TString),
      (''status'', False, TString)]"

definition Member_ts :: ts_type where
  "Member_ts = TObject
     [(''member_id'', False, TNumber),
      (''first_name'', False, TString),
      (''last_name'', False, TString),
      (''middle_name'', True, TString),
      (''dob'', False, TString),
      (''gender'', True, TString),
      (''marital_status'', False, TString),
      (''hire_date'', False, TString),
      (''term_date'', True, TString),
      (''rehire_date'', True, TString),
      (''status_code'', False, TString),
      (''tier_code'', False, TNumber),
      (''tier'', True, TNumber),
      (''dept_code'', True, TString),
      (''dept_name'', True, TString),
      (''department'', True, TString),
      (''pos_code'', True, TString),
      (''pos_title'', True, TString),
      (''job_title'', True, TString),
      (''medicare_flag'', True, TString),
      (''email'', True, TString)]"

definition EmploymentEvent_ts :: ts_type where
  "EmploymentEvent_ts = TObject
     [(''event_id'', False, TNumber),
      (''member_id'', False, TNumber),
      (''event_type'', False, TString),
      (''event_date'', False, TString),
      (''dept_code'', True, TString),
      (''pos_code'', True, TString),
      (''annual_salary'', True, TNumber),
      (''separation_code'', True, TString),
      (''separation_reason'', True, TString)]"

definition ServiceCreditSummary_ts :: ts_type where
  "ServiceCreditSummary_ts = TObject
     [(''member_id'', False, TNumber),
      (''earned_years'', False, TNumber),
      (''purchased_years'', False, TNumber),
      (''military_years'', False, TNumber),
      (''leave_years'', False, TNumber),
      (''total_years'', False, TNumber),
      (''eligibility_years'', False, TNumber),
      (''benefit_years'', False, TNumber)]"

definition Beneficiary_ts :: ts_type where
  "Beneficiary_ts = TObject
     [(''bene_id'', False, TNumber),
      (''member_id'', False, TNumber),
      (''bene_type'', False, TString),
      (''first_name'', False, TString),
      (''last_name'', False, TString),
      (''relationship'', True, TString),
      (''dob'', True, TString),
      (''alloc_pct'', False, TNumber),
      (''eff_date'', False, TString),
      (''end_date'', True, TString)]"

definition DRORecord_ts :: ts_type where
  "DRORecord_ts = TObject
     [(''dro_id'', False, TNumber),
      (''member_id'', False, TNumber),
      (''court_order_num'', True, TString),
      (''marriage_date'', True, TString),
      (''divorce_date'', True, TString),
      (''alt_payee_first_name'', False, TString),
      (''alt_payee_last_name'', False, TString),
      (''alt_payee_dob'', True, TString),
      (''division_method'', False, TString),
      (''division_value'', False, TNumber),
      (''status'', False, TString)]"

definition ContributionSummary_ts :: ts_type where
  "ContributionSummary_ts = TObject
     [(''member_id'', False, TNumber),
      (''total_ee_contributions'', False, TNumber),
      (''total_er_contributions'', False, TNumber),
      (''total_interest'', False, TNumber),
      (''current_ee_balance'', False, TNumber),
      (''current_er_balance'', False, TNumber),
      (''period_count'', False, TNumber)]"

definition PaymentRecord_ts :: ts_type where
  "PaymentRecord_ts = TObject
     [(''id'', False, TString),
      (''payment_date'', False, TString),
      (''gross_amount'', False, TNumber),
      (''federal_tax'', False, TNumber),
      (''state_tax'', False, TNumber),
      (''other_deductions'', False, TNumber),
      (''net_amount'', False, TNumber),
      (''bank_last_four'', False, TString)]"

definition TaxDocument_ts :: ts_type where
  "TaxDocument_ts = TObject
     [(''id'', False, TString),
      (''tax_year'', False, TNumber),
      (''document_type'', False, TLit ''1099-R''),
      (''available'', False, TBoolean),
      (''download_url'', True, TString)]"

definition DocumentUpload_ts :: ts_type where
  "DocumentUpload_ts = TObject
     [(''id'', False, TString),
      (''document_type'', False, TString),
      (''filename'', False, TString),
      (''status'', False, TUnion [TLit ''processing'', TLit ''received'', TLit ''rejected'']),
      (''ecm_ref'', True, TString),
      (''uploaded_at'', False, TString),
      (''context'', True, TString),
      (''linked_issue_id'', True, TString)]"

definition Address_ts :: ts_type where
  "Address_ts = TObject
     [(''id'', False, TString),
      (''type'', False, TUnion [TLit ''mailing'', TLit ''residential'']),
      (''line1'', False, TString),
      (''line2'', True, TString),
      (''city'', False, TString),
      (''state'', False, TString),
      (''zip'', False, TString)]"

definition AgeAtRetirement_ts :: ts_type where
  "AgeAtRetirement_ts = TObject
     [(''years'', False, TNumber),
      (''months'', False, TNumber),
      (''completed_years'', False, TNumber),
      (''decimal'', False, TNumber)]"

definition ServiceCreditData_ts :: ts_type where
  "ServiceCreditData_ts = TObject
     [(''earned_years'', False, TNumber),
      (''purchased_years'', False, TNumber),
      (''military_years'', False, TNumber),
      (''total_years'', False, TNumber),
      (''eligibility_years'', False, TNumber),
      (''benefit_years'', False, TNumber)]"

definition RuleEvaluation_ts :: ts_type where
  "RuleEvaluation_ts = TObject
     [(''rule_id'', False, TString),
      (''rule_name'', False, TString),
      (''met'', False, TBoolean),
      (''details'', False, TString),
      (''source_reference'', False, TString)]"

definition EligibilityResult_platform_ts :: ts_type where
  "EligibilityResult_platform_ts = TObject
     [(''member_id'', False, TNumber),
      (''retirement_date'', False, TString),
      (''age_at_retirement'', False, AgeAtRetirement_ts),
      (''tier'', False, TNumber),
      (''tier_source'', False, TString),
      (''vested'', False, TBoolean),
      (''rule_of_n_sum'', False, TNumber),
      (''service_credit'', False, ServiceCreditData_ts),
      (''evaluations'', False, TArray RuleEvaluation_ts),
      (''best_eligible_type'', False, TString),
      (''reduction_pct'', False, TNumber),
      (''reduction_factor'', False, TNumber)]"

definition AMSCalcDetail_ts :: ts_type where
  "AMSCalcDetail_ts = TObject
     [(''window_months'', False, TNumber),
      (''window_start'', False, TString),
      (''window_end'', False, TString),
      (''amount'', False, TNumber),
      (''leave_payout_included'', False, TBoolean),
      (''leave_payout_amount'', False, TNumber),
      (''leave_payout_ams_impact'', False, TNumber)]"

definition FormulaDetail_ts :: ts_type where
  "FormulaDetail_ts = TObject
     [(''ams'', False, TNumber),
      (''multiplier'', False, TNumber),
      (''multiplier_pct'', False, TString),
      (''service_years'', False, TNumber),
      (''service_type'', False, TString),
      (''gross_benefit'', False, TNumber),
      (''formula_display'', False, TString)]"

definition ReductionDetail_ts :: ts_type where
  "ReductionDetail_ts = TObject
     [(''applies'', False, TBoolean),
      (''retirement_type'', False, TString),
      (''age_at_retirement'', False, TNumber),
      (''years_under_65'', False, TNumber),
      (''rate_per_year'', False, TNumber),
      (''total_reduction_pct'', False, TNumber),
      (''reduction_factor'', False, TNumber),
      (''reduced_benefit'', False, TNumber),
      (''source_reference'', False, TString)]"

definition JSOption_ts :: ts_type where
  "JSOption_ts = TObject
     [(''member_amount'', False, TNumber),
      (''monthly_amount'', True, TNumber),
      (''survivor_amount'', False, TNumber),
      (''survivor_pct'', False, TNumber),
      (''factor'', False, TNumber)]"

definition PaymentOptions_ts :: ts_type where
  "PaymentOptions_ts = TObject
     [(''base_amount'', False, TNumber),
      (''maximum'', False, TNumber),
      (''js_100'', False, JSOption_ts),
      (''js_75'', False, JSOption_ts),
      (''js_50'', False, JSOption_ts),
      (''joint_survivor_100'', True, JSOption_ts),
      (''joint_survivor_75'', True, JSOption_ts),
      (''joint_survivor_50'', True, JSOption_ts),
      (''disclaimer'', False, TString)]"

definition DROCalcResult_ts :: ts_type where
  "DROCalcResult_ts = TObject
     [(''has_dro'', False, TBoolean),
      (''marriage_date'', False, TString),
      (''divorce_date'', False, TString),
      (''marital_service_years'', False, TNumber),
      (''total_service_years'', False, TNumber),
      (''marital_fraction'', False, TNumber),
      (''gross_benefit'', False, TNumber),
      (''marital_share'', False, TNumber),
      (''alt_payee_pct'', False, TNumber),
      (''alt_payee_amount'', False, TNumber),
      (''member_benefit_after_dro'', False, TNumber),
      (''division_method'', False, TString),
      (''division_value'', True, TNumber),
      (''alt_payee_first_name'', True, TString),
      (''alt_payee_last_name'', True, TString)]"

definition DeathBenefitDetail_ts :: ts_type where
  "DeathBenefitDetail_ts = TObject
     [(''amount'', False, TNumber),
      (''installment_50'', False, TNumber),
      (''installment_100'', False, TNumber),
      (''retirement_type'', False, TString),
      (''source_reference'', False, TString)]"

definition IPRDetail_ts :: ts_type where
  "IPRDetail_ts = TObject
     [(''earned_service_years'', False, TNumber),
      (''non_medicare_monthly'', False, TNumber),
      (''monthly_amount'', True, TNumber),
      (''medicare_monthly'', False, TNumber),
      (''source_reference'', False, TString)]"

definition BenefitCalcResult_ts :: ts_type where
  "BenefitCalcResult_ts = TObject
     [(''member_id'', False, TNumber),
      (''retirement_date'', False, TString),
      (''tier'', False, TNumber),
      (''eligibility'', False, EligibilityResult_platform_ts),
      (''ams'', False, AMSCalcDetail_ts),
      (''formula'', False, FormulaDetail_ts),
      (''reduction'', False, ReductionDetail_ts),
      (''maximum_benefit'', False, TNumber),
      (''payment_options'', False, PaymentOptions_ts),
      (''dro'', True, DROCalcResult_ts),
      (''death_benefit'', False, DeathBenefitDetail_ts),
      (''ipr'', False, IPRDetail_ts)]"

subsection \<open>Sent by the services\<close>

definition ContactType_go :: go_type where
  "ContactType_go = GEnum
     [''member'', ''beneficiary'', ''alternate_payee'', ''external'']"

definition ContactAddress_go :: go_type where
  "ContactAddress_go = GStruct
     [(''addressId'', False, GString),
      (''contactId'', False, GString),
      (''addressType'', False, GString),
      (''isPrimary'', False, GBool),
      (''line1'', False, GString),
      (''line2'', True, GNilable GString),
      (''city'', False, GString),
      (''stateCode'', False, GString),
      (''zipCode'', False, GString),
      (''countryCode'', False, GString),
      (''validated'', False, GBool),
      (''validatedAt'', True, GNilable GTime),
      (''standardizedLine1'', True, GNilable GString),
      (''effectiveFrom'', False, GString),
      (''effectiveTo'', True, GNilable GString)]"

definition ContactPreference_go :: go_type where
  "ContactPreference_go = GStruct
     [(''preferenceId'', False, GString),
      (''contactId'', False, GString),
      (''preferenceType'', False, GString),
      (''preferenceValue'', False, GString),
      (''consentSource'', True, GNilable GString),
      (''consentDate'', False, GTime)]"

definition OrgContactRole_go :: go_type where
  "OrgContactRole_go = GStruct
     [(''orgContactId'', False, GString),
      (''orgId'', False, GString),
      (''contactId'', False, GString),
      (''role'', False, GString),
      (''isPrimaryForRole'', False, GBool),
      (''title'', True, GNilable GString),
      (''directPhone'', True, GNilable GString),
      (''directEmail'', True, GNilable GString),
      (''effectiveFrom'', False, GString),
      (''effectiveTo'', True, GNilable GString)]"

definition Contact_go :: go_type where
  "Contact_go = GStruct
     [(''contactId'', False, GString),
      (''tenantId'', False, GString),
      (''contactType'', False, ContactType_go),
      (''legacyMemberId'', True, GNilable GString),
      (''firstName'', False, GString),
      (''lastName'', False, GString),
      (''middleName'', True, GNilable GString),
      (''suffix'', True, GNilable GString),
      (''dateOfBirth'', True, GNilable GString),
      (''gender'', True, GNilable GString),
      (''primaryEmail'', True, GNilable GString),
      (''primaryPhone'', True, GNilable GString),
      (''primaryPhoneType'', True, GNilable GString),
      (''preferredLanguage'', False, GString),
      (''preferredChannel'', False, GString),
      (''identityVerified'', False, GBool),
      (''identityVerifiedAt'', True, GNilable GTime),
      (''identityVerifiedBy'', True, GNilable GString),
      (''securityFlag'', True, GNilable GString),
      (''securityFlagNote'', True, GNilable GString),
      (''emailDeliverable'', True, GNilable GBool),
      (''emailValidatedAt'', True, GNilable GTime),
      (''phoneValidatedAt'', True, GNilable GTime),
      (''mailReturned'', False, GBool),
      (''mailReturnedAt'', True, GNilable GTime),
      (''mergedIntoId'', True, GNilable GString),
      (''mergeDate'', True, GNilable GTime),
      (''addresses'', True, GNilable (GSlice ContactAddress_go)),
      (''preferences'', True, GNilable (GSlice ContactPreference_go)),
      (''organizationRoles'', True, GNilable (GSlice OrgContactRole_go)),
      (''createdAt'', False, GTime),
      (''updatedAt'', False, GTime),
      (''createdBy'', False, GString),
      (''updatedBy'', False, GString)]"

definition InteractionChannel_go :: go_type where
  "InteractionChannel_go = GEnum
     [''PHONE_INBOUND'', ''PHONE_OUTBOUND'', ''SECURE_MESSAGE'', ''EMAIL_INBOUND'',
      ''EMAIL_OUTBOUND'', ''WALK_IN'', ''PORTAL_ACTIVITY'', ''MAIL_INBOUND'', ''MAIL_OUTBOUND'',
      ''INTERNAL_HANDOFF'', ''SYSTEM_EVENT'', ''FAX'']"

definition InteractionType_go :: go_type where
  "InteractionType_go = GEnum
     [''INQUIRY'', ''REQUEST'', ''COMPLAINT'', ''FOLLOW_UP'', ''OUTREACH'', ''ESCALATION'',
      ''CALLBACK'', ''NOTIFICATION'', ''STATUS_UPDATE'', ''DOCUMENT_RECEIPT'', ''PROCESS_EVENT'',
      ''SYSTEM_EVENT'']"

definition Direction_go :: go_type where
  "Direction_go = GEnum
     [''INBOUND'', ''OUTBOUND'', ''INTERNAL'']"

definition Visibility_go :: go_type where
  "Visibility_go = GEnum
     [''INTERNAL'', ''PUBLIC'']"

definition Note_go :: go_type where
  "Note_go = GStruct
     [(''noteId'', False, GString),
      (''interactionId'', False, GString),
      (''templateId'', True, GNilable GString),
      (''category'', False, GString),
      (''subcategory'', True, GNilable GString),
      (''summary'', False, GString),
      (''outcome'', False, GString),
      (''nextStep'', True, GNilable GString),
      (''narrative'', True, GNilable GString),
      (''sentiment'', True, GNilable GString),
      (''urgentFlag'', False, GBool),
      (''aiSuggested'', False, GBool),
      (''aiConfidence'', True, GNilable GFloat),
      (''createdAt'', False, GTime),
      (''createdBy'', False, GString),
      (''updatedAt'', False, GTime),
      (''updatedBy'', False, GString)]"

definition CommitmentStatus_go :: go_type where
  "CommitmentStatus_go = GEnum
     [''pending'', ''in_progress'', ''fulfilled'', ''overdue'', ''cancelled'']"

definition Commitment_go :: go_type where
  "Commitment_go = GStruct
     [(''commitmentId'', False, GString),
      (''tenantId'', False, GString),
      (''interactionId'', False, GString),
      (''contactId'', True, GNilable GString),
      (''conversationId'', True, GNilable GString),
      (''description'', False, GString),
      (''targetDate'', False, GString),
      (''ownerAgent'', False, GString),
      (''ownerTeam'', True, GNilable GString),
      (''status'', False, CommitmentStatus_go),
      (''fulfilledAt'', True, GNilable GTime),
      (''fulfilledBy'', True, GNilable GString),
      (''fulfillmentNote'', True, GNilable GString),
      (''alertDaysBefore'', False, GInt),
      (''alertSent'', False, GBool),
      (''createdAt'', False, GTime),
      (''createdBy'', False, GString),
      (''updatedAt'', False, GTime),
      (''updatedBy'', False, GString)]"

definition InteractionLink_go :: go_type where
  "InteractionLink_go = GStruct
     [(''linkId'', False, GString),
      (''fromInteractionId'', False, GString),
      (''toInteractionId'', False, GString),
      (''linkType'', False, GString)]"

definition Interaction_go :: go_type where
  "Interaction_go = GStruct
     [(''interactionId'', False, GString),
      (''tenantId'', False, GString),
      (''conversationId'', True, GNilable GString),
      (''contactId'', True, GNilable GString),
      (''orgId'', True, GNilable GString),
      (''agentId'', True, GNilable GString),
      (''channel'', False, InteractionChannel_go),
      (''interactionType'', False, InteractionType_go),
      (''category'', True, GNilable GString),
      (''subcategory'', True, GNilable GString),
      (''outcome'', True, GNilable GString),
      (''direction'', False, Direction_go),
      (''startedAt'', False, GTime),
      (''endedAt'', True, GNilable GTime),
      (''durationSeconds'', True, GNilable GInt),
      (''externalCallId'', True, GNilable GString),
      (''queueName'', True, GNilable GString),
      (''waitTimeSeconds'', True, GNilable GInt),
      (''recordingUrl'', True, GNilable GString),
      (''transcriptUrl'', True, GNilable GString),
      (''messageSubject'', True, GNilable GString),
      (''messageThreadId'', True, GNilable GString),
      (''summary'', True, GNilable GString),
      (''linkedCaseId'', True, GNilable GString),
      (''linkedWorkflowId'', True, GNilable GString),
      (''wrapUpCode'', True, GNilable GString),
      (''wrapUpSeconds'', True, GNilable GInt),
      (''visibility'', False, Visibility_go),
      (''notes'', True, GNilable (GSlice Note_go)),
      (''commitments'', True, GNilable (GSlice Commitment_go)),
      (''links'', True, GNilable (GSlice InteractionLink_go)),
      (''createdAt'', False, GTime),
      (''createdBy'', False, GString)]"

definition ConversationStatus_go :: go_type where
  "ConversationStatus_go = GEnum
     [''open'', ''pending'', ''resolved'', ''closed'', ''reopened'']"

definition SLATracking_go :: go_type where
  "SLATracking_go = GStruct
     [(''trackingId'', False, GString),
      (''conversationId'', False, GString),
      (''slaId'', False, GString),
      (''startedAt'', False, GTime),
      (''responseDueAt'', False, GTime),
      (''resolutionDueAt'', True, GNilable GTime),
      (''firstResponseAt'', True, GNilable GTime),
      (''resolvedAt'', True, GNilable GTime),
      (''responseBreached'', False, GBool),
      (''resolutionBreached'', False, GBool),
      (''warnSent'', False, GBool),
      (''escalationSent'', False, GBool)]"

definition Conversation_go :: go_type where
  "Conversation_go = GStruct
     [(''conversationId'', False, GString),
      (''tenantId'', False, GString),
      (''anchorType'', False, GString),
      (''anchorId'', True, GNilable GString),
      (''topicCategory'', True, GNilable GString),
      (''topicSubcategory'', True, GNilable GString),
      (''subject'', True, GNilable GString),
      (''status'', False, ConversationStatus_go),
      (''resolvedAt'', True, GNilable GTime),
      (''resolvedBy'', True, GNilable GString),
      (''resolutionSummary'', True, GNilable GString),
      (''slaDefinitionId'', True, GNilable GString),
      (''slaDueAt'', True, GNilable GTime),
      (''slaBreached'', False, GBool),
      (''assignedTeam'', True, GNilable GString),
      (''assignedAgent'', True, GNilable GString),
      (''interactionCount'', False, GInt),
      (''interactions'', True, GNilable (GSlice Interaction_go)),
      (''slaTracking'', True, GNilable SLATracking_go),
      (''createdAt'', False, GTime),
      (''updatedAt'', False, GTime),
      (''createdBy'', False, GString),
      (''updatedBy'', False, GString)]"

definition OutreachStatus_go :: go_type where
  "OutreachStatus_go = GEnum
     [''pending'', ''assigned'', ''attempted'', ''completed'', ''cancelled'', ''deferred'']"

definition Outreach_go :: go_type where
  "Outreach_go = GStruct
     [(''outreachId'', False, GString),
      (''tenantId'', False, GString),
      (''contactId'', True, GNilable GString),
      (''orgId'', True, GNilable GString),
      (''triggerType'', False, GString),
      (''triggerDetail'', True, GNilable GString),
      (''outreachType'', False, GString),
      (''subject'', True, GNilable GString),
      (''talkingPoints'', True, GNilable GString),
      (''priority'', False, GString),
      (''assignedAgent'', True, GNilable GString),
      (''assignedTeam'', True, GNilable GString),
      (''status'', False, OutreachStatus_go),
      (''attemptCount'', False, GInt),
      (''maxAttempts'', False, GInt),
      (''lastAttemptAt'', True, GNilable GTime),
      (''completedAt'', True, GNilable GTime),
      (''resultInteractionId'', True, GNilable GString),
      (''resultOutcome'', True, GNilable GString),
      (''scheduledFor'', True, GNilable GTime),
      (''dueBy'', True, GNilable GTime),
      (''createdAt'', False, GTime),
      (''createdBy'', False, GString),
      (''updatedAt'', False, GTime),
      (''updatedBy'', False, GString)]"

definition Organization_go :: go_type where
  "Organization_go = GStruct
     [(''orgId'', False, GString),
      (''tenantId'', False, GString),
      (''orgType'', False, GString),
      (''orgName'', False, GString),
      (''orgShortName'', True, GNilable GString),
      (''legacyEmployerId'', True, GNilable GString),
      (''ein'', True, GNilable GString),
      (''addressLine1'', True, GNilable GString),
      (''addressLine2'', True, GNilable GString),
      (''city'', True, GNilable GString),
      (''stateCode'', True, GNilable GString),
      (''zipCode'', True, GNilable GString),
      (''mainPhone'', True, GNilable GString),
      (''mainEmail'', True, GNilable GString),
      (''websiteUrl'', True, GNilable GString),
      (''employerStatus'', True, GNilable GString),
      (''memberCount'', True, GNilable GInt),
      (''lastContributionDate'', True, GNilable GString),
      (''reportingFrequency'', True, GNilable GString),
      (''contractReference'', True, GNilable GString),
      (''contractStartDate'', True, GNilable GString),
      (''contractEndDate'', True, GNilable GString),
      (''contacts'', True, GNilable (GSlice OrgContactRole_go)),
      (''createdAt'', False, GTime),
      (''updatedAt'', False, GTime),
      (''createdBy'', False, GString),
      (''updatedBy'', False, GString)]"

definition AuditEntry_go :: go_type where
  "AuditEntry_go = GStruct
     [(''AuditID'', False, GInt),
      (''TenantID'', False, GString),
      (''EventTime'', False, GTime),
      (''EventType'', False, GString),
      (''EntityType'', False, GString),
      (''EntityID'', False, GNilable GString),
      (''AgentID'', False, GString),
      (''AgentIP'', False, GNilable GString),
      (''AgentDevice'', False, GNilable GString),
      (''FieldChanges'', False, GNilable GString),
      (''Summary'', False, GNilable GString),
      (''PrevAuditHash'', False, GNilable GString),
      (''RecordHash'', False, GString)]"

definition StageDefinition_go :: go_type where
  "StageDefinition_go = GStruct
     [(''stageIdx'', False, GInt),
      (''stageName'', False, GString),
      (''description'', True, GString),
      (''sortOrder'', False, GInt)]"

definition StageCaseCount_go :: go_type where
  "StageCaseCount_go = GStruct
     [(''stage'', False, GString),
      (''stageIdx'', False, GInt),
      (''count'', False, GInt)]"

definition StatusCount_go :: go_type where
  "StatusCount_go = GStruct
     [(''status'', False, GString),
      (''count'', False, GInt)]"

definition PriorityCount_go :: go_type where
  "PriorityCount_go = GStruct
     [(''priority'', False, GString),
      (''count'', False, GInt)]"

definition AssigneeStats_go :: go_type where
  "AssigneeStats_go = GStruct
     [(''assignedTo'', False, GString),
      (''count'', False, GInt),
      (''avgDaysOpen'', False, GFloat)]"

definition CaseStats_go :: go_type where
  "CaseStats_go = GStruct
     [(''totalActive'', False, GInt),
      (''completedMTD'', False, GInt),
      (''atRiskCount'', False, GInt),
      (''caseloadByStage'', False, GSlice StageCaseCount_go),
      (''casesByStatus'', False, GSlice StatusCount_go),
      (''casesByPriority'', False, GSlice PriorityCount_go),
      (''casesByAssignee'', False, GSlice AssigneeStats_go)]"

definition SLAThresholds_go :: go_type where
  "SLAThresholds_go = GStruct
     [(''urgent'', False, GInt),
      (''high'', False, GInt),
      (''standard'', False, GInt)]"

definition SLAStats_go :: go_type where
  "SLAStats_go = GStruct
     [(''onTrack'', False, GInt),
      (''atRisk'', False, GInt),
      (''overdue'', False, GInt),
      (''avgProcessingDays'', False, GFloat),
      (''thresholds'', False, SLAThresholds_go)]"

definition MonthlyVolume_go :: go_type where
  "MonthlyVolume_go = GStruct
     [(''month'', False, GString),
      (''year'', False, GInt),
      (''count'', False, GInt)]"

definition VolumeStats_go :: go_type where
  "VolumeStats_go = GStruct
     [(''months'', False, GSlice MonthlyVolume_go)]"

definition StageTransition_go :: go_type where
  "StageTransition_go = GStruct
     [(''id'', False, GInt),
      (''caseId'', False, GString),
      (''fromStageIdx'', False, GNilable GInt),
      (''toStageIdx'', False, GInt),
      (''fromStage'', False, GNilable GString),
      (''toStage'', False, GString),
      (''transitionedBy'', False, GString),
      (''note'', True, GString),
      (''transitionedAt'', False, GTime)]"

definition DQCheckResult_go :: go_type where
  "DQCheckResult_go = GStruct
     [(''resultId'', False, GString),
      (''checkId'', False, GString),
      (''tenantId'', False, GString),
      (''runAt'', False, GTime),
      (''recordsChecked'', False, GInt),
      (''recordsPassed'', False, GInt),
      (''recordsFailed'', False, GInt),
      (''passRate'', False, GFloat),
      (''status'', False, GString),
      (''durationMs'', True, GNilable GInt),
      (''errorMessage'', True, GNilable GString),
      (''createdAt'', False, GTime)]"

definition DQCheckDefinition_go :: go_type where
  "DQCheckDefinition_go = GStruct
     [(''checkId'', False, GString),
      (''tenantId'', False, GString),
      (''checkName'', False, GString),
      (''checkCode'', False, GString),
      (''description'', True, GNilable GString),
      (''category'', False, GString),
      (''severity'', False, GString),
      (''targetTable'', False, GString),
      (''checkQuery'', True, GNilable GString),
      (''threshold'', True, GNilable GFloat),
      (''isActive'', False, GBool),
      (''schedule'', False, GString),
      (''createdAt'', False, GTime),
      (''updatedAt'', False, GTime),
      (''createdBy'', False, GString),
      (''updatedBy'', False, GString),
      (''latestResult'', True, GNilable DQCheckResult_go)]"

definition DQScore_go :: go_type where
  "DQScore_go = GStruct
     [(''overallScore'', False, GFloat),
      (''totalChecks'', False, GInt),
      (''passingChecks'', False, GInt),
      (''openIssues'', False, GInt),
      (''criticalIssues'', False, GInt),
      (''categoryScores'', False, GMap GFloat),
      (''lastRunAt'', True, GNilable GTime)]"

definition DQScoreTrend_go :: go_type where
  "DQScoreTrend_go = GStruct
     [(''date'', False, GString),
      (''score'', False, GFloat)]"

definition DQIssue_go :: go_type where
  "DQIssue_go = GStruct
     [(''issueId'', False, GString),
      (''resultId'', False, GString),
      (''checkId'', False, GString),
      (''tenantId'', False, GString),
      (''severity'', False, GString),
      (''recordTable'', False, GString),
      (''recordId'', False, GString),
      (''fieldName'', True, GNilable GString),
      (''currentValue'', True, GNilable GString),
      (''expectedPattern'', True, GNilable GString),
      (''description'', False, GString),
      (''status'', False, GString),
      (''resolvedAt'', True, GNilable GTime),
      (''resolvedBy'', True, GNilable GString),
      (''resolutionNote'', True, GNilable GString),
      (''createdAt'', False, GTime),
      (''updatedAt'', False, GTime)]"

definition EmployerDQSummary_go :: go_type where
  "EmployerDQSummary_go = GStruct
     [(''orgId'', False, GString),
      (''overallScore'', False, GFloat),
      (''totalChecks'', False, GInt),
      (''passingChecks'', False, GInt),
      (''openIssues'', False, GInt),
      (''criticalIssues'', False, GInt)]"

definition KBRuleReference_go :: go_type where
  "KBRuleReference_go = GStruct
     [(''referenceId'', False, GString),
      (''articleId'', False, GString),
      (''ruleId'', False, GString),
      (''code'', False, GString),
      (''description'', False, GString),
      (''domain'', True, GNilable GString),
      (''sortOrder'', False, GInt),
      (''createdAt'', False, GTime),
      (''createdBy'', False, GString)]"

definition SourceRef_go :: go_type where
  "SourceRef_go = GStruct
     [(''document'', False, GString),
      (''section'', False, GString),
      (''lastVerified'', False, GString)]"

definition AppliesTo_go :: go_type where
  "AppliesTo_go = GStruct
     [(''tiers'', False, GNilable (GSlice GString)),
      (''memberTypes'', False, GNilable (GSlice GString))]"

definition RuleParam_go :: go_type where
  "RuleParam_go = GStruct
     [(''name'', False, GString),
      (''type'', False, GString),
      (''required'', False, GBool),
      (''description'', True, GString),
      (''default'', True, GRaw),
      (''constraints'', True, GNilable (GMap GRaw))]"

definition Condition_go :: go_type where
  "Condition_go = GStruct
     [(''condition'', False, GString),
      (''result'', False, GNilable (GMap GRaw)),
      (''notes'', True, GString)]"

definition Step_go :: go_type where
  "Step_go = GStruct
     [(''step'', False, GInt),
      (''action'', False, GString),
      (''ifTrue'', True, GString),
      (''result'', True, GString)]"

definition RuleLogic_go :: go_type where
  "RuleLogic_go = GStruct
     [(''type'', False, GString),
      (''description'', True, GString),
      (''criticalNote'', True, GString),
      (''conditions'', True, GNilable (GSlice Condition_go)),
      (''default'', True, GNilable (GMap GRaw)),
      (''expression'', True, GString),
      (''variables'', True, GNilable (GMap GRaw)),
      (''roundingMethod'', True, GString),
      (''steps'', True, GNilable (GSlice Step_go)),
      (''table'', True, GNilable (GSlice (GNilable (GMap GRaw)))),
      (''keyField'', True, GString),
      (''valueField'', True, GString)]"

definition RuleOutputField_go :: go_type where
  "RuleOutputField_go = GStruct
     [(''name'', False, GString),
      (''type'', False, GString),
      (''description'', True, GString),
      (''values'', True, GNilable (GSlice GString))]"

definition RuleOutput_go :: go_type where
  "RuleOutput_go = GStruct
     [(''name'', False, GString),
      (''type'', False, GString),
      (''precision'', True, GInt),
      (''description'', True, GString),
      (''fields'', True, GNilable (GSlice RuleOutputField_go)),
      (''values'', True, GNilable (GSlice GString))]"

definition RuleTestCase_go :: go_type where
  "RuleTestCase_go = GStruct
     [(''name'', False, GString),
      (''type'', True, GString),
      (''demoCaseRef'', True, GString),
      (''description'', True, GString),
      (''inputs'', False, GNilable (GMap GRaw)),
      (''expected'', False, GNilable (GMap GRaw)),
      (''notes'', True, GString)]"

definition RuleGovernance_go :: go_type where
  "RuleGovernance_go = GStruct
     [(''status'', False, GString),
      (''lastReviewed'', False, GString),
      (''reviewedBy'', False, GString),
      (''effectiveDate'', False, GString)]"

definition TestStatus_go :: go_type where
  "TestStatus_go = GStruct
     [(''total'', False, GInt),
      (''passing'', False, GInt),
      (''failing'', False, GInt),
      (''skipped'', False, GInt),
      (''lastRun'', True, GNilable GTime)]"

definition Rule_go :: go_type where
  "Rule_go = GStruct
     [(''id'', False, GString),
      (''name'', False, GString),
      (''description'', False, GString),
      (''sourceReference'', False, SourceRef_go),
      (''appliesTo'', False, AppliesTo_go),
      (''inputs'', False, GNilable (GSlice RuleParam_go)),
      (''logic'', False, RuleLogic_go),
      (''output'', False, RuleOutput_go),
      (''dependencies'', False, GNilable (GSlice GString)),
      (''tags'', False, GNilable (GSlice GString)),
      (''priority'', True, GInt),
      (''notes'', True, GString),
      (''testCases'', False, GNilable (GSlice RuleTestCase_go)),
      (''governance'', False, RuleGovernance_go),
      (''testStatus'', True, GNilable TestStatus_go)]"

definition TestResult_go :: go_type where
  "TestResult_go = GStruct
     [(''name'', False, GString),
      (''status'', False, GString),
      (''durationMs'', False, GFloat),
      (''ruleId'', True, GString)]"

definition RuleTestSummary_go :: go_type where
  "RuleTestSummary_go = GStruct
     [(''total'', False, GInt),
      (''passing'', False, GInt),
      (''failing'', False, GInt),
      (''skipped'', False, GInt),
      (''tests'', False, GSlice TestResult_go)]"

definition DemoCaseMember_go :: go_type where
  "DemoCaseMember_go = GStruct
     [(''memberId'', False, GRaw),
      (''firstName'', False, GString),
      (''lastName'', False, GString),
      (''dob'', False, GString),
      (''hireDate'', False, GString),
      (''tier'', False, GRaw)]"

definition DemoCase_go :: go_type where
  "DemoCase_go = GStruct
     [(''caseId'', False, GString),
      (''description'', False, GString),
      (''member'', False, DemoCaseMember_go),
      (''retDate'', False, GString),
      (''inputs'', False, GNilable (GMap GRaw)),
      (''expected'', False, GNilable (GMap GRaw)),
      (''testPoints'', False, GNilable (GSlice GString)),
      (''full'', False, GNilable (GMap GRaw))]"

definition Issue_go :: go_type where
  "Issue_go = GStruct
     [(''id'', False, GInt),
      (''issueId'', False, GString),
      (''tenantId'', False, GString),
      (''title'', False, GString),
      (''description'', False, GString),
      (''severity'', False, GString),
      (''category'', False, GString),
      (''status'', False, GString),
      (''affectedService'', False, GString),
      (''reportedBy'', False, GString),
      (''assignedTo'', False, GNilable GString),
      (''reportedAt'', False, GTime),
      (''resolvedAt'', False, GNilable GTime),
      (''resolutionNote'', False, GNilable GString),
      (''createdAt'', False, GTime),
      (''updatedAt'', False, GTime)]"

definition IssueStats_go :: go_type where
  "IssueStats_go = GStruct
     [(''openCount'', False, GInt),
      (''criticalCount'', False, GInt),
      (''avgResolution'', False, GFloat),
      (''resolvedCount'', False, GInt)]"

definition IssueComment_go :: go_type where
  "IssueComment_go = GStruct
     [(''id'', False, GInt),
      (''issueId'', False, GInt),
      (''author'', False, GString),
      (''content'', False, GString),
      (''createdAt'', False, GTime)]"

definition SecurityEvent_go :: go_type where
  "SecurityEvent_go = GStruct
     [(''id'', False, GInt),
      (''tenantId'', False, GString),
      (''eventType'', False, GString),
      (''actorId'', False, GString),
      (''actorEmail'', False, GString),
      (''ipAddress'', False, GString),
      (''userAgent'', False, GString),
      (''metadata'', False, GString),
      (''createdAt'', False, GTime)]"

definition EventStats_go :: go_type where
  "EventStats_go = GStruct
     [(''activeUsers'', False, GInt),
      (''activeSessions'', False, GInt),
      (''failedLogins24h'', False, GInt),
      (''roleChanges7d'', False, GInt),
      (''bruteForceAlerts24h'', False, GInt)]"

definition ActiveSession_go :: go_type where
  "ActiveSession_go = GStruct
     [(''id'', False, GInt),
      (''tenantId'', False, GString),
      (''userId'', False, GString),
      (''sessionId'', False, GString),
      (''email'', False, GString),
      (''role'', False, GString),
      (''ipAddress'', False, GString),
      (''userAgent'', False, GString),
      (''startedAt'', False, GTime),
      (''lastSeenAt'', False, GTime)]"

definition MemberSearchResult_go :: go_type where
  "MemberSearchResult_go = GStruct
     [(''memberId'', False, GInt),
      (''firstName'', False, GString),
      (''lastName'', False, GString),
      (''tier'', False, GInt),
      (''dept'', False, GString),
      (''status'', False, GString)]"

definition Member_go :: go_type where
  "Member_go = GStruct
     [(''member_id'', False, GInt),
      (''first_name'', False, GString),
      (''last_name'', False, GString),
      (''middle_name'', True, GString),
      (''dob'', False, GTime),
      (''gender'', True, GString),
      (''marital_status'', False, GString),
      (''hire_date'', False, GTime),
      (''term_date'', True, GNilable GTime),
      (''rehire_date'', True, GNilable GTime),
      (''status_code'', False, GString),
      (''tier_code'', False, GInt),
      (''dept_code'', True, GString),
      (''dept_name'', True, GString),
      (''pos_code'', True, GString),
      (''pos_title'', True, GString),
      (''medicare_flag'', True, GString),
      (''email'', True, GString)]"

definition EmploymentEvent_go :: go_type where
  "EmploymentEvent_go = GStruct
     [(''event_id'', False, GInt),
      (''member_id'', False, GInt),
      (''event_type'', False, GString),
      (''event_date'', False, GTime),
      (''dept_code'', True, GString),
      (''pos_code'', True, GString),
      (''annual_salary'', True, GNilable GFloat),
      (''separation_code'', True, GString),
      (''separation_reason'', True, GString)]"

definition ServiceCredit_go :: go_type where
  "ServiceCredit_go = GStruct
     [(''svc_credit_id'', False, GInt),
      (''member_id'', False, GInt),
      (''credit_type'', False, GString),
      (''begin_date'', True, GNilable GTime),
      (''end_date'', True, GNilable GTime),
      (''years_credited'', False, GFloat),
      (''cost'', True, GNilable GFloat),
      (''purchase_date'', True, GNilable GTime),
      (''status'', False, GString)]"

definition ServiceCreditSummary_go :: go_type where
  "ServiceCreditSummary_go = GStruct
     [(''member_id'', False, GInt),
      (''earned_years'', False, GFloat),
      (''purchased_years'', False, GFloat),
      (''military_years'', False, GFloat),
      (''leave_years'', False, GFloat),
      (''total_years'', False, GFloat),
      (''eligibility_years'', False, GFloat),
      (''benefit_years'', False, GFloat)]"

definition Beneficiary_go :: go_type where
  "Beneficiary_go = GStruct
     [(''bene_id'', False, GInt),
      (''member_id'', False, GInt),
      (''bene_type'', False, GString),
      (''first_name'', False, GString),
      (''last_name'', False, GString),
      (''relationship'', True, GString),
      (''dob'', True, GNilable GTime),
      (''alloc_pct'', False, GFloat),
      (''eff_date'', False, GTime),
      (''end_date'', True, GNilable GTime)]"

definition DRORecord_go :: go_type where
  "DRORecord_go = GStruct
     [(''dro_id'', False, GInt),
      (''member_id'', False, GInt),
      (''court_order_num'', True, GString),
      (''marriage_date'', True, GNilable GTime),
      (''divorce_date'', True, GNilable GTime),
      (''alt_payee_first_name'', False, GString),
      (''alt_payee_last_name'', False, GString),
      (''alt_payee_dob'', True, GNilable GTime),
      (''division_method'', False, GString),
      (''division_value'', False, GFloat),
      (''status'', False, GString)]"

definition ContributionSummary_go :: go_type where
  "ContributionSummary_go = GStruct
     [(''member_id'', False, GInt),
      (''total_ee_contributions'', False, GFloat),
      (''total_er_contributions'', False, GFloat),
      (''total_interest'', False, GFloat),
      (''current_ee_balance'', False, GFloat),
      (''current_er_balance'', False, GFloat),
      (''period_count'', False, GInt)]"

definition PaymentRecord_go :: go_type where
  "PaymentRecord_go = GStruct
     [(''payment_id'', False, GInt),
      (''member_id'', False, GInt),
      (''payment_date'', False, GTime),
      (''gross_amount'', False, GFloat),
      (''net_amount'', False, GFloat),
      (''federal_tax'', False, GFloat),
      (''state_tax'', False, GFloat),
      (''deductions'', False, GFloat),
      (''payment_method'', False, GString)]"

definition TaxDocument_go :: go_type where
  "TaxDocument_go = GStruct
     [(''doc_id'', False, GInt),
      (''member_id'', False, GInt),
      (''doc_type'', False, GString),
      (''tax_year'', False, GInt),
      (''issued_date'', False, GTime),
      (''gross_distribution'', False, GFloat),
      (''taxable_amount'', False, GFloat),
      (''federal_withheld'', False, GFloat),
      (''state_withheld'', False, GFloat)]"

definition DocumentListItem_go :: go_type where
  "DocumentListItem_go = GStruct
     [(''document_id'', False, GString),
      (''document_type'', False, GString),
      (''file_name'', False, GString),
      (''content_type'', False, GString),
      (''file_size_bytes'', False, GInt),
      (''status'', False, GString),
      (''uploaded_by'', False, GString),
      (''uploaded_at'', False, GTime)]"

definition Address_go :: go_type where
  "Address_go = GStruct
     [(''address_id'', False, GInt),
      (''member_id'', False, GInt),
      (''address_type'', False, GString),
      (''line1'', False, GString),
      (''line2'', True, GString),
      (''city'', False, GString),
      (''state'', False, GString),
      (''zip_code'', False, GString),
      (''is_current'', False, GBool)]"

definition RefundEstimate_go :: go_type where
  "RefundEstimate_go = GStruct
     [(''member_id'', False, GInt),
      (''employee_contributions'', False, GFloat),
      (''interest'', False, GFloat),
      (''total'', False, GFloat),
      (''mandatory_withhold_20pct'', False, GFloat),
      (''net_after_withhold'', False, GFloat)]"

definition AgeAtRetirement_go :: go_type where
  "AgeAtRetirement_go = GStruct
     [(''years'', False, GInt),
      (''months'', False, GInt),
      (''completed_years'', False, GInt),
      (''decimal'', False, GFloat)]"

definition ServiceCreditData_go :: go_type where
  "ServiceCreditData_go = GStruct
     [(''earned_years'', False, GFloat),
      (''purchased_years'', False, GFloat),
      (''military_years'', False, GFloat),
      (''total_years'', False, GFloat),
      (''eligibility_years'', False, GFloat),
      (''benefit_years'', False, GFloat)]"

definition RuleEvaluation_go :: go_type where
  "RuleEvaluation_go = GStruct
     [(''rule_id'', False, GString),
      (''rule_name'', False, GString),
      (''met'', False, GBool),
      (''details'', False, GString),
      (''source_reference'', False, GString)]"

definition EligibilityResult_platform_go :: go_type where
  "EligibilityResult_platform_go = GStruct
     [(''member_id'', False, GInt),
      (''retirement_date'', False, GString),
      (''age_at_retirement'', False, AgeAtRetirement_go),
      (''tier'', False, GInt),
      (''tier_source'', False, GString),
      (''vested'', False, GBool),
      (''service_credit'', False, ServiceCreditData_go),
      (''evaluations'', False, GSlice RuleEvaluation_go),
      (''best_eligible_type'', False, GString),
      (''rule_of_n_sum'', False, GFloat),
      (''reduction_pct'', False, GFloat),
      (''reduction_factor'', False, GFloat)]"

definition AMSCalcDetail_go :: go_type where
  "AMSCalcDetail_go = GStruct
     [(''window_months'', False, GInt),
      (''window_start'', False, GString),
      (''window_end'', False, GString),
      (''amount'', False, GString),
      (''leave_payout_included'', False, GBool),
      (''leave_payout_amount'', False, GString),
      (''leave_payout_ams_impact'', False, GString)]"

definition FormulaDetail_go :: go_type where
  "FormulaDetail_go = GStruct
     [(''ams'', False, GString),
      (''multiplier'', False, GFloat),
      (''multiplier_pct'', False, GString),
      (''service_years'', False, GFloat),
      (''service_type'', False, GString),
      (''gross_benefit'', False, GString),
      (''formula_display'', False, GString)]"

definition ReductionDetail_go :: go_type where
  "ReductionDetail_go = GStruct
     [(''applies'', False, GBool),
      (''retirement_type'', False, GString),
      (''age_at_retirement'', False, GInt),
      (''years_under_65'', False, GInt),
      (''rate_per_year'', False, GFloat),
      (''total_reduction_pct'', False, GFloat),
      (''reduction_factor'', False, GFloat),
      (''reduced_benefit'', False, GString),
      (''source_reference'', False, GString)]"

definition JSOption_go :: go_type where
  "JSOption_go = GStruct
     [(''member_amount'', False, GString),
      (''survivor_amount'', False, GString),
      (''survivor_pct'', False, GInt),
      (''factor'', False, GFloat)]"

definition PaymentOptions_go :: go_type where
  "PaymentOptions_go = GStruct
     [(''base_amount'', False, GString),
      (''maximum'', False, GString),
      (''js_100'', False, JSOption_go),
      (''js_75'', False, JSOption_go),
      (''js_50'', False, JSOption_go),
      (''disclaimer'', False, GString)]"

definition DROCalcResult_go :: go_type where
  "DROCalcResult_go = GStruct
     [(''has_dro'', False, GBool),
      (''marriage_date'', False, GString),
      (''divorce_date'', False, GString),
      (''marital_service_years'', False, GFloat),
      (''total_service_years'', False, GFloat),
      (''marital_fraction'', False, GFloat),
      (''gross_benefit'', False, GString),
      (''marital_share'', False, GString),
      (''alt_payee_pct'', False, GFloat),
      (''alt_payee_amount'', False, GString),
      (''member_benefit_after_dro'', False, GString),
      (''division_method'', False, GString)]"

definition DeathBenefitDetail_go :: go_type where
  "DeathBenefitDetail_go = GStruct
     [(''amount'', False, GString),
      (''installment_50'', False, GString),
      (''installment_100'', False, GString),
      (''retirement_type'', False, GString),
      (''source_reference'', False, GString)]"

definition IPRDetail_go :: go_type where
  "IPRDetail_go = GStruct
     [(''earned_service_years'', False, GFloat),
      (''non_medicare_monthly'', False, GString),
      (''medicare_monthly'', False, GString),
      (''source_reference'', False, GString)]"

definition BenefitCalcResult_go :: go_type where
  "BenefitCalcResult_go = GStruct
     [(''member_id'', False, GInt),
      (''retirement_date'', False, GString),
      (''tier'', False, GInt),
      (''eligibility'', False, EligibilityResult_platform_go),
      (''ams'', False, AMSCalcDetail_go),
      (''formula'', False, FormulaDetail_go),
      (''reduction'', False, ReductionDetail_go),
      (''maximum_benefit'', False, GString),
      (''payment_options'', False, PaymentOptions_go),
      (''dro'', True, GNilable DROCalcResult_go),
      (''death_benefit'', False, DeathBenefitDetail_go),
      (''ipr'', False, IPRDetail_go)]"

end
