(* ===== verification/PlatformWire.thy ===== *)
theory PlatformWire imports PlatformTypes begin

text \<open>
  What the answers of the other platform services are, against what the clients of
  src/frontend/src/lib declare them to be.
\<close>

definition crmAPI_typed :: "(string \<times> string \<times> reply \<times> ts_type) list" where
  "crmAPI_typed =
     [(''crmAPI.getContact'', ''GetContact'', Write_success Contact_go,
       Contact_ts),
      (''crmAPI.createContact'', ''CreateContact'', Write_success Contact_go,
       Contact_ts),
      (''crmAPI.getContactByLegacyId'', ''GetContactByLegacyID'', Write_success Contact_go,
       Contact_ts),
      (''crmAPI.createInteraction'', ''CreateInteraction'', Write_success Interaction_go,
       Interaction_ts),
      (''crmAPI.getInteraction'', ''GetInteraction'', Write_success Interaction_go,
       Interaction_ts),
      (''crmAPI.getConversation'', ''GetConversation'', Write_success Conversation_go,
       Conversation_ts),
      (''crmAPI.createConversation'', ''CreateConversation'', Write_success Conversation_go,
       Conversation_ts),
      (''crmAPI.createNote'', ''CreateNote'', Write_success Note_go,
       Note_ts),
      (''crmAPI.createCommitment'', ''CreateCommitment'', Write_success Commitment_go,
       Commitment_ts),
      (''crmAPI.createOutreach'', ''CreateOutreach'', Write_success Outreach_go,
       Outreach_ts),
      (''crmAPI.getOrganization'', ''GetOrganization'', Write_success Organization_go,
       Organization_ts)]"

definition employerOps_typed :: "(string \<times> string \<times> reply \<times> ts_type) list" where
  "employerOps_typed =
     [(''createEmployerInteraction'', ''CreateEmployerInteraction'', Write_success Interaction_go,
       Interaction_ts)]"

definition caseAPI_typed :: "(string \<times> string \<times> reply \<times> ts_type) list" where
  "caseAPI_typed =
     [(''caseAPI.listStages'', ''ListStages'', Write_data (GNilable (GSlice StageDefinition_go)),
       TArray StageDefinition_ts),
      (''caseAPI.getCaseStats'', ''GetCaseStats'', Write_success CaseStats_go,
       CaseStats_ts),
      (''caseAPI.getSLAStats'', ''GetSLAStats'', Write_success SLAStats_go,
       SLAStats_ts),
      (''caseAPI.getVolumeStats'', ''GetVolumeStats'', Write_success VolumeStats_go,
       VolumeStats_ts),
      (''caseAPI.getStageHistory'', ''GetStageHistory'', Write_data (GSlice StageTransition_go),
       TArray StageTransition_ts)]"

definition dqAPI_typed :: "(string \<times> string \<times> reply \<times> ts_type) list" where
  "dqAPI_typed =
     [(''dqAPI.listChecks'', ''ListChecks'', Write_paginated (GNilable (GSlice DQCheckDefinition_go)),
       TArray DQCheckDefinition_ts),
      (''dqAPI.getCheck'', ''GetCheck'', Write_success DQCheckDefinition_go,
       DQCheckDefinition_ts),
      (''dqAPI.listResults'', ''ListResults'', Write_success (GNilable (GSlice DQCheckResult_go)),
       TArray DQCheckResult_ts),
      (''dqAPI.getScore'', ''GetScore'', Write_success DQScore_go,
       DQScore_ts),
      (''dqAPI.getScoreTrend'', ''GetScoreTrend'', Write_success (GNilable (GSlice DQScoreTrend_go)),
       TArray DQScoreTrend_ts),
      (''dqAPI.listIssues'', ''ListIssues'', Write_paginated (GNilable (GSlice DQIssue_go)),
       TArray DQIssue_ts),
      (''dqAPI.updateIssue'', ''UpdateIssue'', Write_success DQIssue_go,
       DQIssue_ts)]"

definition kbAPI_typed :: "(string \<times> string \<times> reply \<times> ts_type) list" where
  "kbAPI_typed =
     [(''kbAPI.listRules'', ''ListRules'', Write_paginated (GNilable (GSlice KBRuleReference_go)),
       TArray KBRuleReference_ts)]"

definition rulesAPI_typed :: "(string \<times> string \<times> reply \<times> ts_type) list" where
  "rulesAPI_typed =
     [(''rulesAPI.getTestReportForRule'', ''GetTestReportForRule'', Write_success RuleTestSummary_go,
       RuleTestSummary_ts)]"

definition issuesAPI_typed :: "(string \<times> string \<times> reply \<times> ts_type) list" where
  "issuesAPI_typed =
     [(''issuesAPI.getIssue'', ''GetIssue'', Write_success Issue_go,
       Issue_ts),
      (''issuesAPI.createIssue'', ''CreateIssue'', Write_success Issue_go,
       Issue_ts),
      (''issuesAPI.updateIssue'', ''UpdateIssue'', Write_success Issue_go,
       Issue_ts),
      (''issuesAPI.getStats'', ''GetIssueStats'', Write_success IssueStats_go,
       IssueStats_ts),
      (''issuesAPI.listComments'', ''ListComments'', Write_success (GSlice IssueComment_go),
       TArray IssueComment_ts),
      (''issuesAPI.createComment'', ''CreateComment'', Write_success IssueComment_go,
       IssueComment_ts)]"

definition securityAPI_typed :: "(string \<times> string \<times> reply \<times> ts_type) list" where
  "securityAPI_typed =
     [(''securityAPI.getEventStats'', ''GetEventStats'', Write_success EventStats_go,
       EventStats_ts),
      (''securityAPI.listSessions'', ''ListActiveSessions'', Write_success (GSlice ActiveSession_go),
       TArray ActiveSession_ts)]"

definition memberSearchAPI_typed :: "(string \<times> string \<times> reply \<times> ts_type) list" where
  "memberSearchAPI_typed =
     [(''memberSearchAPI.search'', ''SearchMembers'', Write_success (GSlice MemberSearchResult_go),
       TArray MemberSearchResult_ts)]"

definition connectorAPI_typed :: "(string \<times> string \<times> reply \<times> ts_type) list" where
  "connectorAPI_typed =
     [(''connectorAPI.getMember'', ''GetMember'', Write_success Member_go,
       Member_ts),
      (''connectorAPI.getEmployment'', ''GetEmploymentHistory'', Write_paginated (GNilable (GSlice EmploymentEvent_go)),
       TArray EmploymentEvent_ts),
      (''connectorAPI.getServiceCredit'', ''GetServiceCredit'', Write_success (GStruct [(''credits'', False, GNilable (GSlice ServiceCredit_go)), (''summary'',
          False, ServiceCreditSummary_go), (''total'', False, GInt), (''limit'', False, GInt),
          (''offset'', False, GInt)]),
       TObject [(''summary'', False, ServiceCreditSummary_ts)]),
      (''connectorAPI.getBeneficiaries'', ''GetBeneficiaries'', Write_paginated (GNilable (GSlice Beneficiary_go)),
       TArray Beneficiary_ts),
      (''connectorAPI.getDRO'', ''GetDRO'', Write_paginated (GNilable (GSlice DRORecord_go)),
       TArray DRORecord_ts),
      (''connectorAPI.getContributions'', ''GetContributions'', Write_success ContributionSummary_go,
       ContributionSummary_ts)]"

definition refundAPI_typed :: "(string \<times> string \<times> reply \<times> ts_type) list" where
  "refundAPI_typed =
     [(''refundAPI.estimate'', ''GetRefundEstimate'', Write_success RefundEstimate_go,
       TObject [(''employee_contributions'', False, TNumber), (''interest'', False, TNumber), (''total'', False, TNumber)])]"

definition preferencesAPI_typed :: "(string \<times> string \<times> reply \<times> ts_type) list" where
  "preferencesAPI_typed =
     [(''preferencesAPI.upsertPreference'', ''UpsertPreference'', Write_success (GStruct [(''status'', False, GString)]),
       TObject [(''status'', False, TString)]),
      (''preferencesAPI.resetPreferences'', ''ResetPreferences'', Write_success (GStruct [(''status'', False, GString)]),
       TObject [(''status'', False, TString)])]"

definition intelligenceAPI_typed :: "(string \<times> string \<times> reply \<times> ts_type) list" where
  "intelligenceAPI_typed =
     [(''intelligenceAPI.evaluateEligibility'', ''EvaluateEligibility'', Write_success EligibilityResult_platform_go,
       EligibilityResult_platform_ts)]"

definition PLATFORM_TYPED :: "(string \<times> string \<times> reply \<times> ts_type) list" where
  "PLATFORM_TYPED =
     crmAPI_typed @ employerOps_typed @ caseAPI_typed @ dqAPI_typed @ kbAPI_typed @
      rulesAPI_typed @ issuesAPI_typed @ securityAPI_typed @ memberSearchAPI_typed @
      connectorAPI_typed @ refundAPI_typed @ preferencesAPI_typed @ intelligenceAPI_typed"

definition crmAPI_pages :: "(string \<times> string \<times> reply \<times> ts_type) list" where
  "crmAPI_pages =
     [(''crmAPI.searchContacts'', ''SearchContacts'', Write_paginated (GNilable (GSlice Contact_go)),
       TArray Contact_ts),
      (''crmAPI.listInteractions'', ''ListInteractions'', Write_paginated (GNilable (GSlice Interaction_go)),
       TArray Interaction_ts),
      (''crmAPI.listConversations'', ''ListConversations'', Write_paginated (GNilable (GSlice Conversation_go)),
       TArray Conversation_ts),
      (''crmAPI.listConversationsByAnchor'', ''ListConversations'', Write_paginated (GNilable (GSlice Conversation_go)),
       TArray Conversation_ts),
      (''crmAPI.listCommitments'', ''ListCommitments'', Write_paginated (GNilable (GSlice Commitment_go)),
       TArray Commitment_ts),
      (''crmAPI.listOutreach'', ''ListOutreach'', Write_paginated (GNilable (GSlice Outreach_go)),
       TArray Outreach_ts),
      (''crmAPI.listOrganizations'', ''ListOrganizations'', Write_paginated (GNilable (GSlice Organization_go)),
       TArray Organization_ts)]"

definition employerOps_pages :: "(string \<times> string \<times> reply \<times> ts_type) list" where
  "employerOps_pages =
     [(''fetchOrgInteractions'', ''ListOrgInteractions'', Write_paginated (GSlice Interaction_go),
       TArray Interaction_ts),
      (''fetchOrgContacts'', ''ListOrgContacts'', Write_paginated (GSlice Contact_go),
       TArray Contact_ts)]"

definition issuesAPI_pages :: "(string \<times> string \<times> reply \<times> ts_type) list" where
  "issuesAPI_pages =
     [(''issuesAPI.listIssues'', ''ListIssues'', Write_paginated (GNilable (GSlice Issue_go)),
       TArray Issue_ts)]"

definition securityAPI_pages :: "(string \<times> string \<times> reply \<times> ts_type) list" where
  "securityAPI_pages =
     [(''securityAPI.listEvents'', ''ListEvents'', Write_paginated (GNilable (GSlice SecurityEvent_go)),
       TArray SecurityEvent_ts)]"

definition PLATFORM_PAGES :: "(string \<times> string \<times> reply \<times> ts_type) list" where
  "PLATFORM_PAGES =
     crmAPI_pages @ employerOps_pages @ issuesAPI_pages @ securityAPI_pages"

definition employerOps_mistyped :: "(string \<times> string \<times> reply \<times> ts_type) list" where
  "employerOps_mistyped =
     [(''fetchEmployerDQScore'', ''GetEmployerScore'', Write_success EmployerDQSummary_go,
       EmployerDQScore_ts)]"

definition rulesAPI_mistyped :: "(string \<times> string \<times> reply \<times> ts_type) list" where
  "rulesAPI_mistyped =
     [(''rulesAPI.listDefinitions'', ''ListRuleDefinitions'', Write_success (GSlice Rule_go),
       TArray RuleDefinition_ts),
      (''rulesAPI.getDefinition'', ''GetRuleDefinition'', Write_success Rule_go,
       RuleDefinition_ts),
      (''rulesAPI.listDemoCases'', ''ListDemoCases'', Write_success (GSlice DemoCase_go),
       TArray DemoCase_ts),
      (''rulesAPI.getDemoCase'', ''GetDemoCase'', Write_success DemoCase_go,
       DemoCase_ts)]"

definition paymentAPI_mistyped :: "(string \<times> string \<times> reply \<times> ts_type) list" where
  "paymentAPI_mistyped =
     [(''paymentAPI.list'', ''GetPaymentHistory'', Write_paginated (GNilable (GSlice PaymentRecord_go)),
       TArray PaymentRecord_ts),
      (''paymentAPI.taxDocuments'', ''GetTaxDocuments'', Write_paginated (GNilable (GSlice TaxDocument_go)),
       TArray TaxDocument_ts)]"

definition documentAPI_mistyped :: "(string \<times> string \<times> reply \<times> ts_type) list" where
  "documentAPI_mistyped =
     [(''documentAPI.list'', ''ListMemberDocuments'', Write_paginated (GNilable (GSlice DocumentListItem_go)),
       TArray DocumentUpload_ts)]"

definition addressAPI_mistyped :: "(string \<times> string \<times> reply \<times> ts_type) list" where
  "addressAPI_mistyped =
     [(''addressAPI.list'', ''GetAddresses'', Write_success (GNilable (GSlice Address_go)),
       TArray Address_ts),
      (''addressAPI.update'', ''UpdateAddress'', Write_success Address_go,
       Address_ts)]"

definition intelligenceAPI_mistyped :: "(string \<times> string \<times> reply \<times> ts_type) list" where
  "intelligenceAPI_mistyped =
     [(''intelligenceAPI.calculateBenefit'', ''CalculateBenefit'', Write_success BenefitCalcResult_go,
       BenefitCalcResult_ts)]"

definition PLATFORM_MISTYPED :: "(string \<times> string \<times> reply \<times> ts_type) list" where
  "PLATFORM_MISTYPED =
     employerOps_mistyped @ rulesAPI_mistyped @ paymentAPI_mistyped @ documentAPI_mistyped @
      addressAPI_mistyped @ intelligenceAPI_mistyped"

definition auditAPI_unpaged :: "(string \<times> string \<times> reply \<times> ts_type) list" where
  "auditAPI_unpaged =
     [(''auditAPI.listEntries'', ''GetAuditLog'', Write_success (GNilable (GSlice AuditEntry_go)),
       TArray AuditEntry_ts)]"

definition PLATFORM_UNPAGED :: "(string \<times> string \<times> reply \<times> ts_type) list" where
  "PLATFORM_UNPAGED =
     auditAPI_unpaged"

subsection \<open>Type by type\<close>

lemma fits_Contact_Contact: "fits False Contact_go Contact_ts"
  by (simp add: text_alt_def number_alt_def
      Contact_go_def ContactType_go_def ContactAddress_go_def ContactPreference_go_def
      OrgContactRole_go_def Contact_ts_def ContactType_ts_def SecurityFlag_ts_def
      ContactAddress_ts_def ContactPreference_ts_def OrgContactRole_ts_def)

lemma fits_Interaction_Interaction: "fits False Interaction_go Interaction_ts"
  by (simp add: text_alt_def number_alt_def
      Interaction_go_def InteractionChannel_go_def InteractionType_go_def Direction_go_def
      Visibility_go_def Note_go_def Commitment_go_def CommitmentStatus_go_def InteractionLink_go_def
      Interaction_ts_def InteractionChannel_ts_def InteractionType_ts_def InteractionOutcome_ts_def
      Direction_ts_def Visibility_ts_def Note_ts_def Commitment_ts_def CommitmentStatus_ts_def
      InteractionLink_ts_def)

lemma fits_Conversation_Conversation: "fits False Conversation_go Conversation_ts"
  by (simp add: text_alt_def number_alt_def
      Conversation_go_def ConversationStatus_go_def Interaction_go_def InteractionChannel_go_def
      InteractionType_go_def Direction_go_def Visibility_go_def Note_go_def Commitment_go_def
      CommitmentStatus_go_def InteractionLink_go_def SLATracking_go_def Conversation_ts_def
      ConversationStatus_ts_def Interaction_ts_def InteractionChannel_ts_def InteractionType_ts_def
      InteractionOutcome_ts_def Direction_ts_def Visibility_ts_def Note_ts_def Commitment_ts_def
      CommitmentStatus_ts_def InteractionLink_ts_def SLATracking_ts_def)

lemma fits_Note_Note: "fits False Note_go Note_ts"
  by (simp add: text_alt_def number_alt_def
      Note_go_def Note_ts_def)

lemma fits_Commitment_Commitment: "fits False Commitment_go Commitment_ts"
  by (simp add: text_alt_def number_alt_def
      Commitment_go_def CommitmentStatus_go_def Commitment_ts_def CommitmentStatus_ts_def)

lemma fits_Outreach_Outreach: "fits False Outreach_go Outreach_ts"
  by (simp add: text_alt_def number_alt_def
      Outreach_go_def OutreachStatus_go_def Outreach_ts_def OutreachStatus_ts_def)

lemma fits_Organization_Organization: "fits False Organization_go Organization_ts"
  by (simp add: text_alt_def number_alt_def
      Organization_go_def OrgContactRole_go_def Organization_ts_def OrgContactRole_ts_def)

lemma never_AuditEntry_AuditEntry: "never_fits AuditEntry_go AuditEntry_ts"
  by (simp add: never_fits_def AuditEntry_go_def AuditEntry_ts_def)

lemma fits_StageDefinition_StageDefinition: "fits False StageDefinition_go StageDefinition_ts"
  by (simp add: text_alt_def number_alt_def
      StageDefinition_go_def StageDefinition_ts_def)

lemma fits_CaseStats_CaseStats: "fits False CaseStats_go CaseStats_ts"
  by (simp add: text_alt_def number_alt_def
      CaseStats_go_def StageCaseCount_go_def StatusCount_go_def PriorityCount_go_def
      AssigneeStats_go_def CaseStats_ts_def StageCaseCount_ts_def StatusCount_ts_def
      PriorityCount_ts_def AssigneeStats_ts_def)

lemma fits_SLAStats_SLAStats: "fits False SLAStats_go SLAStats_ts"
  by (simp add: text_alt_def number_alt_def
      SLAStats_go_def SLAThresholds_go_def SLAStats_ts_def SLAThresholds_ts_def)

lemma fits_VolumeStats_VolumeStats: "fits False VolumeStats_go VolumeStats_ts"
  by (simp add: text_alt_def number_alt_def
      VolumeStats_go_def MonthlyVolume_go_def VolumeStats_ts_def MonthlyVolume_ts_def)

lemma fits_StageTransition_StageTransition: "fits False StageTransition_go StageTransition_ts"
  by (simp add: text_alt_def number_alt_def
      StageTransition_go_def StageTransition_ts_def)

lemma fits_DQCheckDefinition_DQCheckDefinition: "fits False DQCheckDefinition_go DQCheckDefinition_ts"
  by (simp add: text_alt_def number_alt_def
      DQCheckDefinition_go_def DQCheckResult_go_def DQCheckDefinition_ts_def DQCheckResult_ts_def)

lemma fits_DQCheckResult_DQCheckResult: "fits False DQCheckResult_go DQCheckResult_ts"
  by (simp add: text_alt_def number_alt_def
      DQCheckResult_go_def DQCheckResult_ts_def)

lemma fits_DQScore_DQScore: "fits False DQScore_go DQScore_ts"
  by (simp add: text_alt_def number_alt_def
      DQScore_go_def DQScore_ts_def)

lemma fits_DQScoreTrend_DQScoreTrend: "fits False DQScoreTrend_go DQScoreTrend_ts"
  by (simp add: text_alt_def number_alt_def
      DQScoreTrend_go_def DQScoreTrend_ts_def)

lemma fits_DQIssue_DQIssue: "fits False DQIssue_go DQIssue_ts"
  by (simp add: text_alt_def number_alt_def
      DQIssue_go_def DQIssue_ts_def)

lemma never_EmployerDQSummary_EmployerDQScore: "never_fits EmployerDQSummary_go EmployerDQScore_ts"
  by (simp add: never_fits_def EmployerDQSummary_go_def EmployerDQScore_ts_def)

lemma fits_KBRuleReference_KBRuleReference: "fits False KBRuleReference_go KBRuleReference_ts"
  by (simp add: text_alt_def number_alt_def
      KBRuleReference_go_def KBRuleReference_ts_def)

lemma never_Rule_RuleDefinition: "never_fits Rule_go RuleDefinition_ts"
  by (simp add: never_fits_def Rule_go_def RuleDefinition_ts_def)

lemma fits_RuleTestSummary_RuleTestSummary: "fits False RuleTestSummary_go RuleTestSummary_ts"
  by (simp add: text_alt_def number_alt_def
      RuleTestSummary_go_def TestResult_go_def RuleTestSummary_ts_def TestResult_ts_def)

lemma never_DemoCase_DemoCase: "never_fits DemoCase_go DemoCase_ts"
  by (simp add: never_fits_def DemoCase_go_def DemoCase_ts_def)

lemma fits_Issue_Issue: "fits False Issue_go Issue_ts"
  by (simp add: text_alt_def number_alt_def
      Issue_go_def Issue_ts_def)

lemma fits_IssueStats_IssueStats: "fits False IssueStats_go IssueStats_ts"
  by (simp add: text_alt_def number_alt_def
      IssueStats_go_def IssueStats_ts_def)

lemma fits_IssueComment_IssueComment: "fits False IssueComment_go IssueComment_ts"
  by (simp add: text_alt_def number_alt_def
      IssueComment_go_def IssueComment_ts_def)

lemma fits_SecurityEvent_SecurityEvent: "fits False SecurityEvent_go SecurityEvent_ts"
  by (simp add: text_alt_def number_alt_def
      SecurityEvent_go_def SecurityEvent_ts_def)

lemma fits_EventStats_EventStats: "fits False EventStats_go EventStats_ts"
  by (simp add: text_alt_def number_alt_def
      EventStats_go_def EventStats_ts_def)

lemma fits_ActiveSession_ActiveSession: "fits False ActiveSession_go ActiveSession_ts"
  by (simp add: text_alt_def number_alt_def
      ActiveSession_go_def ActiveSession_ts_def)

lemma fits_MemberSearchResult_MemberSearchResult: "fits False MemberSearchResult_go MemberSearchResult_ts"
  by (simp add: text_alt_def number_alt_def
      MemberSearchResult_go_def MemberSearchResult_ts_def)

lemma fits_Member_Member: "fits False Member_go Member_ts"
  by (simp add: text_alt_def number_alt_def
      Member_go_def Member_ts_def)

lemma fits_EmploymentEvent_EmploymentEvent: "fits False EmploymentEvent_go EmploymentEvent_ts"
  by (simp add: text_alt_def number_alt_def
      EmploymentEvent_go_def EmploymentEvent_ts_def)

lemma fits_ServiceCreditSummary_ServiceCreditSummary: "fits False ServiceCreditSummary_go ServiceCreditSummary_ts"
  by (simp add: text_alt_def number_alt_def
      ServiceCreditSummary_go_def ServiceCreditSummary_ts_def)

lemma fits_Beneficiary_Beneficiary: "fits False Beneficiary_go Beneficiary_ts"
  by (simp add: text_alt_def number_alt_def
      Beneficiary_go_def Beneficiary_ts_def)

lemma fits_DRORecord_DRORecord: "fits False DRORecord_go DRORecord_ts"
  by (simp add: text_alt_def number_alt_def
      DRORecord_go_def DRORecord_ts_def)

lemma fits_ContributionSummary_ContributionSummary: "fits False ContributionSummary_go ContributionSummary_ts"
  by (simp add: text_alt_def number_alt_def
      ContributionSummary_go_def ContributionSummary_ts_def)

lemma never_PaymentRecord_PaymentRecord: "never_fits PaymentRecord_go PaymentRecord_ts"
  by (simp add: never_fits_def PaymentRecord_go_def PaymentRecord_ts_def)

lemma never_TaxDocument_TaxDocument: "never_fits TaxDocument_go TaxDocument_ts"
  by (simp add: never_fits_def TaxDocument_go_def TaxDocument_ts_def)

lemma never_DocumentListItem_DocumentUpload: "never_fits DocumentListItem_go DocumentUpload_ts"
  by (simp add: never_fits_def DocumentListItem_go_def DocumentUpload_ts_def)

lemma never_Address_Address: "never_fits Address_go Address_ts"
  by (simp add: never_fits_def Address_go_def Address_ts_def)

lemma fits_refundAPI_estimate: "fits False RefundEstimate_go (TObject [(''employee_contributions'', False, TNumber), (''interest'', False, TNumber), (''total'', False, TNumber)])"
  by (simp add: text_alt_def number_alt_def
      RefundEstimate_go_def)

lemma fits_EligibilityResult_platform_EligibilityResult_platform: "fits False EligibilityResult_platform_go EligibilityResult_platform_ts"
  by (simp add: text_alt_def number_alt_def
      EligibilityResult_platform_go_def AgeAtRetirement_go_def ServiceCreditData_go_def
      RuleEvaluation_go_def EligibilityResult_platform_ts_def AgeAtRetirement_ts_def
      ServiceCreditData_ts_def RuleEvaluation_ts_def)

lemma never_BenefitCalcResult_BenefitCalcResult: "never_fits BenefitCalcResult_go BenefitCalcResult_ts"
  by (simp add: never_fits_def BenefitCalcResult_go_def BenefitCalcResult_ts_def)

subsection \<open>The tables\<close>

lemma platform_typed_check:
  "list_all (\<lambda>(c, h, r, t). fits False (present (payload_type r)) t \<and> \<not> is_Write_json r) PLATFORM_TYPED"
  by (simp add: PLATFORM_TYPED_def crmAPI_typed_def employerOps_typed_def caseAPI_typed_def dqAPI_typed_def
      kbAPI_typed_def rulesAPI_typed_def issuesAPI_typed_def securityAPI_typed_def
      memberSearchAPI_typed_def connectorAPI_typed_def refundAPI_typed_def preferencesAPI_typed_def
      intelligenceAPI_typed_def text_alt_def number_alt_def fits_Contact_Contact
      fits_Interaction_Interaction fits_Conversation_Conversation fits_Note_Note
      fits_Commitment_Commitment fits_Outreach_Outreach fits_Organization_Organization
      fits_StageDefinition_StageDefinition fits_CaseStats_CaseStats fits_SLAStats_SLAStats
      fits_VolumeStats_VolumeStats fits_StageTransition_StageTransition
      fits_DQCheckDefinition_DQCheckDefinition fits_DQCheckResult_DQCheckResult fits_DQScore_DQScore
      fits_DQScoreTrend_DQScoreTrend fits_DQIssue_DQIssue fits_KBRuleReference_KBRuleReference
      fits_RuleTestSummary_RuleTestSummary fits_Issue_Issue fits_IssueStats_IssueStats
      fits_IssueComment_IssueComment fits_SecurityEvent_SecurityEvent fits_EventStats_EventStats
      fits_ActiveSession_ActiveSession fits_MemberSearchResult_MemberSearchResult fits_Member_Member
      fits_EmploymentEvent_EmploymentEvent fits_ServiceCreditSummary_ServiceCreditSummary
      fits_Beneficiary_Beneficiary fits_DRORecord_DRORecord
      fits_ContributionSummary_ContributionSummary fits_refundAPI_estimate
      fits_EligibilityResult_platform_EligibilityResult_platform)

lemma platform_pages_check:
  "list_all (\<lambda>(c, h, r, t). fits False (present (payload_type r)) t \<and> is_Write_paginated r
     \<and> (\<exists>g. present (payload_type r) = GSlice g)) PLATFORM_PAGES"
  by (simp add: PLATFORM_PAGES_def crmAPI_pages_def employerOps_pages_def issuesAPI_pages_def
      securityAPI_pages_def text_alt_def number_alt_def fits_Contact_Contact
      fits_Interaction_Interaction fits_Conversation_Conversation fits_Note_Note
      fits_Commitment_Commitment fits_Outreach_Outreach fits_Organization_Organization
      fits_StageDefinition_StageDefinition fits_CaseStats_CaseStats fits_SLAStats_SLAStats
      fits_VolumeStats_VolumeStats fits_StageTransition_StageTransition
      fits_DQCheckDefinition_DQCheckDefinition fits_DQCheckResult_DQCheckResult fits_DQScore_DQScore
      fits_DQScoreTrend_DQScoreTrend fits_DQIssue_DQIssue fits_KBRuleReference_KBRuleReference
      fits_RuleTestSummary_RuleTestSummary fits_Issue_Issue fits_IssueStats_IssueStats
      fits_IssueComment_IssueComment fits_SecurityEvent_SecurityEvent fits_EventStats_EventStats
      fits_ActiveSession_ActiveSession fits_MemberSearchResult_MemberSearchResult fits_Member_Member
      fits_EmploymentEvent_EmploymentEvent fits_ServiceCreditSummary_ServiceCreditSummary
      fits_Beneficiary_Beneficiary fits_DRORecord_DRORecord
      fits_ContributionSummary_ContributionSummary fits_refundAPI_estimate
      fits_EligibilityResult_platform_EligibilityResult_platform)

lemma platform_mistyped_check:
  "list_all (\<lambda>(c, h, r, t). mistyped (payload_type r) t \<and> \<not> is_Write_json r) PLATFORM_MISTYPED"
  by (simp add: PLATFORM_MISTYPED_def employerOps_mistyped_def rulesAPI_mistyped_def paymentAPI_mistyped_def
      documentAPI_mistyped_def addressAPI_mistyped_def intelligenceAPI_mistyped_def mistyped_never
      never_AuditEntry_AuditEntry never_EmployerDQSummary_EmployerDQScore never_Rule_RuleDefinition
      never_DemoCase_DemoCase never_PaymentRecord_PaymentRecord never_TaxDocument_TaxDocument
      never_DocumentListItem_DocumentUpload never_Address_Address
      never_BenefitCalcResult_BenefitCalcResult)

lemma platform_unpaged_check:
  "list_all (\<lambda>(c, h, r, t). mistyped (payload_type r) t \<and> is_Write_success r
     \<and> (\<exists>g. present (payload_type r) = GSlice g)) PLATFORM_UNPAGED"
  by (simp add: PLATFORM_UNPAGED_def auditAPI_unpaged_def mistyped_never never_AuditEntry_AuditEntry
      never_EmployerDQSummary_EmployerDQScore never_Rule_RuleDefinition never_DemoCase_DemoCase
      never_PaymentRecord_PaymentRecord never_TaxDocument_TaxDocument
      never_DocumentListItem_DocumentUpload never_Address_Address
      never_BenefitCalcResult_BenefitCalcResult)



text \<open>
  C31: Eleven calls of the other clients get an answer that does not have the type they declare: the
  rule definitions and demo cases, the employer's data-quality score, a member's payments, tax
  documents, documents and addresses, and the benefit calculation, whose amounts are sent as text.
  Whatever the service sends, no value it can send has the declared type, save the empty list; and the
  audit trail, also mistyped, always comes with the pagination of an empty first page.
\<close>

theorem platform_answers_mistyped:
  assumes "sends (payload_type r) d"
    and "rawRequest env tok url init tm = (evs, Inr (answer_body r d pg meta), tok')"
  shows "((c, h, r, t) \<in> set PLATFORM_MISTYPED \<longrightarrow>
        (\<exists>x. request env tok url init tm False = (evs, Inr x, tok') \<and> (conforms False t x \<longrightarrow> x = JArr [])))
    \<and> ((c, h, r, t) \<in> set PLATFORM_UNPAGED \<and> init = empty_init \<and> tm = None \<longrightarrow>
        (\<exists>items. fetchPaginatedAPI env tok url no_options = (evs, Inr (items, no_page), tok')
          \<and> (conforms False t items \<longrightarrow> items = JArr [])))"
proof (intro conjI impI; (elim conjE)?)
  assume "(c, h, r, t) \<in> set PLATFORM_MISTYPED"
  then show "\<exists>x. request env tok url init tm False = (evs, Inr x, tok') \<and> (conforms False t x \<longrightarrow> x = JArr [])"
    using mistyped_answer_lowered[OF _ assms] platform_mistyped_check by (fastforce simp: list_all_iff)
next
  assume "(c, h, r, t) \<in> set PLATFORM_UNPAGED" and init: "init = empty_init" "tm = None"
  then have "mistyped (payload_type r) t \<and> is_Write_success r \<and> (\<exists>g. present (payload_type r) = GSlice g)"
    using platform_unpaged_check by (fastforce simp: list_all_iff)
  from mistyped_unpaged[OF this assms(1), of env tok url no_options evs pg meta tok' False] assms(2)
  show "\<exists>items. fetchPaginatedAPI env tok url no_options = (evs, Inr (items, no_page), tok')
      \<and> (conforms False t items \<longrightarrow> items = JArr [])"
    by (simp add: init no_options_def)
qed

definition dq_score_body :: json where
  "dq_score_body = JObj [(''orgId'', JStr ''E1''), (''overallScore'', JNum ''97.5''), (''totalChecks'', JNum ''40''),
     (''passingChecks'', JNum ''39''), (''openIssues'', JNum ''1''), (''criticalIssues'', JNum ''0'')]"

theorem platform_answers_mistyped_witness:
  "\<exists>evs x. request (answering (answer_body (Write_success EmployerDQSummary_go) dq_score_body JNull JNull))
       [] ''/x'' empty_init None False = (evs, Inr x, []) \<and> (conforms False EmployerDQScore_ts x \<longrightarrow> x = JArr [])"
proof -
  obtain evs where run: "rawRequest (answering (answer_body (Write_success EmployerDQSummary_go) dq_score_body JNull JNull))
      [] ''/x'' empty_init None
      = (evs, Inr (answer_body (Write_success EmployerDQSummary_go) dq_score_body JNull JNull), [])"
    using rawRequest_answering by blast
  have "sends (payload_type (Write_success EmployerDQSummary_go)) dq_score_body"
    by (simp add: EmployerDQSummary_go_def dq_score_body_def)
  from platform_answers_mistyped[OF this run, where c = "''fetchEmployerDQScore''"
        and h = "''GetEmployerScore''" and t = EmployerDQScore_ts]
  show ?thesis by (rule exI[of _ evs, OF mp[OF conjunct1]]) (simp add: PLATFORM_MISTYPED_def employerOps_mistyped_def)
qed

end
