(* ===== verification/EmptyAnswers.thy ===== *)
theory EmptyAnswers imports MigrationWire EmployerWire PlatformWire begin

text \<open>
  The lists a service leaves nil when it finds nothing, over the tables of the three families of
  clients: which they are, and what their callers get.
\<close>

definition nil_lists :: "(string \<times> string \<times> reply \<times> ts_type) list \<Rightarrow> string list" where
  "nil_lists tab = map fst (filter (\<lambda>(c, h, r, t). nil_list r t) tab)"

definition MIGRATION_ANSWERS :: "(string \<times> string \<times> reply \<times> ts_type) list" where
  "MIGRATION_ANSWERS = map (\<lambda>(c, h, s, r, t). (c, h, r, t)) MIGRATION_TYPED @ MIGRATION_MISTYPED"

definition ANSWERS :: "(string \<times> string \<times> reply \<times> ts_type) list" where
  "ANSWERS = MIGRATION_ANSWERS @ (EMPLOYER_TYPED @ EMPLOYER_MISTYPED) @ (PLATFORM_TYPED @ PLATFORM_MISTYPED)"

lemma nil_lists_append: "nil_lists (xs @ ys) = nil_lists xs @ nil_lists ys"
  by (simp add: nil_lists_def)

lemma migration_nil_lists: "nil_lists MIGRATION_ANSWERS = [''discoverTables'', ''listEngagements'', ''listMappings'', ''listRisks'',
      ''getReconciliationByTier'', ''getGateHistory'', ''getAttentionItems'',
      ''getAIRecommendations'', ''getNotifications'']"
  by (simp add: nil_lists_def nil_list_def MIGRATION_ANSWERS_def MIGRATION_TYPED_def
      MIGRATION_MISTYPED_def
      AttentionSummary_go_def CertificationListResponse_go_def CodeMappingResponse_go_def
      CodeMapping_go_def CompareResult_go_def DashboardSummary_go_def Engagement_go_def
      FieldMapping_go_def GateEvaluationResult_go_def GenerateMappingsSummary_go_def
      JobSummary_go_def MappingSpecReport_go_def MigrationBatch_go_def PhaseGateTransition_go_def
      ReconRuleSet_go_def ReconciliationSummaryResult_go_def RetransformResult_go_def Risk_go_def
      RootCauseResponse_go_def SchemaVersionDiff_go_def SchemaVersionWithFields_go_def
      SchemaVersion_go_def SystemHealthStatus_go_def)

lemma employer_nil_lists: "nil_lists (EMPLOYER_TYPED @ EMPLOYER_MISTYPED) = [''portal.listUsers'', ''portal.listAlerts'', ''portal.listRateTables'']"
  by (simp add: nil_lists_def nil_list_def EMPLOYER_TYPED_def EMPLOYER_MISTYPED_def
      Alert_go_def ContributionException_go_def ContributionFile_go_def ContributionPayment_go_def
      DashboardSummary_employer_go_def PortalUser_go_def RateTableRow_go_def)

lemma platform_nil_lists: "nil_lists (PLATFORM_TYPED @ PLATFORM_MISTYPED) = [''caseAPI.listStages'', ''dqAPI.listChecks'', ''dqAPI.listResults'',
      ''dqAPI.getScoreTrend'', ''dqAPI.listIssues'', ''kbAPI.listRules'',
      ''connectorAPI.getEmployment'', ''connectorAPI.getBeneficiaries'',
      ''connectorAPI.getDRO'', ''paymentAPI.list'', ''paymentAPI.taxDocuments'',
      ''documentAPI.list'', ''addressAPI.list'']"
  by (simp add: nil_lists_def nil_list_def crmAPI_typed_def employerOps_typed_def
      caseAPI_typed_def dqAPI_typed_def kbAPI_typed_def rulesAPI_typed_def issuesAPI_typed_def
      securityAPI_typed_def memberSearchAPI_typed_def connectorAPI_typed_def refundAPI_typed_def
      preferencesAPI_typed_def intelligenceAPI_typed_def employerOps_mistyped_def
      rulesAPI_mistyped_def paymentAPI_mistyped_def documentAPI_mistyped_def
      addressAPI_mistyped_def intelligenceAPI_mistyped_def PLATFORM_TYPED_def
      PLATFORM_MISTYPED_def
      Address_go_def BenefitCalcResult_go_def CaseStats_go_def Commitment_go_def Contact_go_def
      ContributionSummary_go_def Conversation_go_def DQCheckDefinition_go_def DQIssue_go_def
      DQScore_go_def DemoCase_go_def EligibilityResult_platform_go_def EmployerDQSummary_go_def
      EventStats_go_def Interaction_go_def IssueComment_go_def IssueStats_go_def Issue_go_def
      Member_go_def Note_go_def Organization_go_def Outreach_go_def RefundEstimate_go_def
      RuleTestSummary_go_def Rule_go_def SLAStats_go_def VolumeStats_go_def)

lemma all_nil_lists: "nil_lists ANSWERS = nil_lists MIGRATION_ANSWERS
    @ nil_lists (EMPLOYER_TYPED @ EMPLOYER_MISTYPED) @ nil_lists (PLATFORM_TYPED @ PLATFORM_MISTYPED)"
  by (simp only: ANSWERS_def nil_lists_append append_assoc)

lemma listed_nil: "(c, h, r, t) \<in> set tab \<Longrightarrow> nil_list r t \<Longrightarrow> c \<in> set (nil_lists tab)"
  by (force simp: nil_lists_def)



end
