(* ===== verification/Letters.thy ===== *)
theory Letters imports BenefitTypes CaseTypes Formatters CorrespondenceSend "HOL-Library.AList" begin

text \<open>
  Letters: the entities of src/frontend/src/types/Correspondence.ts, the resolver that fills a
  template's merge fields from a case (src/frontend/src/lib/mergeFieldResolver.ts) and the panel that
  generates and sends a letter (src/frontend/src/components/workflow/CorrespondencePanel.tsx). The
  panel's state is its hooks plus the requests whose answers are outstanding, each with what its
  closure captured; an answer is an event.
\<close>

subsection \<open>types/Correspondence.ts\<close>

datatype merge_field_type = Mf_string | Mf_date | Mf_currency | Mf_number

record merge_field =
  mf_name :: string
  mf_type :: merge_field_type
  mf_required :: bool
  mf_description :: string

datatype output_format = Out_text | Out_html | Out_pdf

record correspondence_template =
  ct_templateId :: string
  ct_tenantId :: string
  ct_templateCode :: string
  ct_templateName :: string
  ct_description :: "string option"
  ct_category :: string
  ct_stageCategory :: "string option"
  ct_onSendEffects :: "send_effect list"
  ct_bodyTemplate :: string
  ct_mergeFields :: "merge_field list"
  ct_outputFormat :: output_format
  ct_isActive :: bool
  ct_version :: int
  ct_createdAt :: string
  ct_updatedAt :: string
  ct_createdBy :: string
  ct_updatedBy :: string

datatype correspondence_status = Corr_draft | Corr_final | Corr_sent | Corr_void

record correspondence =
  co_correspondenceId :: string
  co_tenantId :: string
  co_templateId :: string
  co_memberId :: "int option"
  co_caseId :: "string option"
  co_contactId :: "string option"
  co_subject :: string
  co_bodyRendered :: string
  co_mergeData :: "(string, string) table"
  co_status :: correspondence_status
  co_generatedBy :: string
  co_sentAt :: "string option"
  co_sentVia :: "string option"
  co_deliveryAddress :: "string option"
  co_createdAt :: string
  co_updatedAt :: string

record generate_request =
  gr_templateId :: string
  gr_memberId :: "int option"
  gr_caseId :: "string option"
  gr_contactId :: "string option"
  gr_mergeData :: "(string, string) table"

subsection \<open>Merge fields\<close>

record merge_context =
  mc_member :: "member option"
  mc_calculation :: "benefit_calc_result option"
  mc_caseData :: "retirement_case option"

definition fmt_amount :: "number option \<Rightarrow> string" where
  "fmt_amount n = (case n of None \<Rightarrow> [] | Some x \<Rightarrow> locale_currency 2 x)"

definition fmt_date :: "time_zone \<Rightarrow> string option \<Rightarrow> string" where
  "fmt_date tz date = (let s = or_str date [] in
     if s = [] then [] else day_text long_day tz (getTime tz (date_arg s)))"

text \<open>\<open>a ?? b\<close> between optional values.\<close>

definition or_else :: "'a option \<Rightarrow> 'a option \<Rightarrow> 'a option" where
  "or_else a b = (case a of None \<Rightarrow> b | Some _ \<Rightarrow> a)"

definition show_opt :: "('a \<Rightarrow> string) \<Rightarrow> 'a option \<Rightarrow> string" where
  "show_opt f a = (case a of None \<Rightarrow> [] | Some x \<Rightarrow> f x)"

definition context_tier :: "merge_context \<Rightarrow> int option" where
  "context_tier ctx =
     or_else (Option.bind (mc_member ctx) mb_tier_code)
       (or_else (Option.bind (mc_member ctx) mb_tier) (Option.bind (mc_calculation ctx) bc_tier))"

definition context_eligibility :: "merge_context \<Rightarrow> eligibility_result option" where
  "context_eligibility ctx = Option.bind (mc_calculation ctx) bc_eligibility"

definition is_word_char :: "char \<Rightarrow> bool" where
  "is_word_char c \<longleftrightarrow> is_digit c \<or> c = CHR ''_''
     \<or> (let n = (of_char c :: nat) in 65 \<le> n \<and> n \<le> 90 \<or> 97 \<le> n \<and> n \<le> 122)"

text \<open>\<open>replace(/\b\w/g, (c) => c.toUpperCase())\<close>; the flag says whether a word character precedes.\<close>

fun cap_words :: "bool \<Rightarrow> string \<Rightarrow> string" where
  "cap_words w [] = []"
| "cap_words w (c # s) =
     (if is_word_char c then (if w then c else to_upper_char c) # cap_words True s
      else c # cap_words False s)"

definition underscores_out :: "string \<Rightarrow> string" where
  "underscores_out s = map (\<lambda>c. if c = CHR ''_'' then CHR '' '' else c) s"

definition js_benefit ::
  "(payment_options \<Rightarrow> js_option option) \<Rightarrow> (payment_options \<Rightarrow> js_option option) \<Rightarrow> merge_context \<Rightarrow> string" where
  "js_benefit f g ctx =
     (let o' = Option.bind (mc_calculation ctx) bc_payment_options;
          amount = (\<lambda>h. Option.bind (Option.bind o' h) jo_member_amount)
      in fmt_amount (or_else (amount f) (amount g)))"

definition maximum_of :: "merge_context \<Rightarrow> string" where
  "maximum_of ctx = fmt_amount (Option.bind (mc_calculation ctx) bc_maximum_benefit)"

definition RESOLVERS :: "time_zone \<Rightarrow> (string, merge_context \<Rightarrow> string) table" where
  "RESOLVERS tz =
     [(''member_name'', \<lambda>ctx. show_opt (\<lambda>m. mb_first_name m @ '' '' @ mb_last_name m) (mc_member ctx)),
      (''case_number'', \<lambda>ctx. show_opt rc_caseId (mc_caseData ctx)),
      (''application_date'', \<lambda>ctx. fmt_date tz (map_option rc_createdAt (mc_caseData ctx))),
      (''retirement_date'', \<lambda>ctx. fmt_date tz (or_else (map_option rc_retDate (mc_caseData ctx))
         (Option.bind (mc_calculation ctx) bc_retirement_date))),
      (''hire_date'', \<lambda>ctx. fmt_date tz (Option.bind (mc_member ctx) mb_hire_date)),
      (''department'', \<lambda>ctx. show_opt id (or_else (Option.bind (mc_member ctx) mb_dept_name)
         (or_else (Option.bind (mc_member ctx) mb_department) (map_option rc_dept (mc_caseData ctx))))),
      (''tier'', \<lambda>ctx. show_opt (\<lambda>t. ''Tier '' @ int_str t) (context_tier ctx)),
      (''service_years'', \<lambda>ctx. show_opt (\<lambda>sc. number_text (scd_earned_years sc))
         (Option.bind (context_eligibility ctx) er_service_credit)),
      (''eligibility_type'', \<lambda>ctx. cap_words False (to_lower (underscores_out
         (show_opt er_best_eligible_type (context_eligibility ctx))))),
      (''age_at_retirement'', \<lambda>ctx. show_opt
         (\<lambda>a. int_str (aa_years a) @ '' years, '' @ int_str (aa_months a) @ '' months'')
         (Option.bind (context_eligibility ctx) er_age_at_retirement)),
      (''rule_of_n_label'', \<lambda>ctx. if context_tier ctx = Some 3 then ''Rule of 85'' else ''Rule of 75''),
      (''rule_of_n_sum'', \<lambda>ctx. show_opt number_text
         (Option.bind (context_eligibility ctx) er_rule_of_n_sum)),
      (''rule_of_n_threshold'', \<lambda>ctx. if context_tier ctx = Some 3 then ''85'' else ''75''),
      (''reduction_percent'', \<lambda>ctx. show_opt (\<lambda>p. toFixed 0 (p * 100) @ ''%'')
         (Option.bind (context_eligibility ctx) er_reduction_pct)),
      (''ams_amount'', \<lambda>ctx. fmt_amount (map_option (ams_amount \<circ> bc_ams) (mc_calculation ctx))),
      (''benefit_amount'', maximum_of),
      (''max_benefit'', maximum_of),
      (''monthly_benefit'', maximum_of),
      (''js100_benefit'', js_benefit pop_js_100 pop_joint_survivor_100),
      (''js75_benefit'', js_benefit pop_js_75 pop_joint_survivor_75),
      (''js50_benefit'', js_benefit pop_js_50 pop_joint_survivor_50),
      (''division_pct'', \<lambda>ctx. show_opt number_text
         (Option.bind (Option.bind (mc_calculation ctx) bc_dro) dro_alt_payee_pct)),
      (''marital_fraction'', \<lambda>ctx. show_opt number_text
         (Option.bind (Option.bind (mc_calculation ctx) bc_dro) dro_marital_fraction)),
      (''alternate_payee_name'', \<lambda>ctx.
         let d = Option.bind (mc_calculation ctx) bc_dro;
             first = or_str (Option.bind d dro_alt_payee_first_name) [] in
         if first = [] then []
         else js_trim (first @ '' '' @ coalesce (Option.bind d dro_alt_payee_last_name) []))]"

definition resolve_field :: "time_zone \<Rightarrow> merge_context \<Rightarrow> string \<Rightarrow> string" where
  "resolve_field tz ctx name =
     (case map_of (RESOLVERS tz) name of None \<Rightarrow> [] | Some resolver \<Rightarrow> resolver ctx)"

definition resolveMergeFields :: "time_zone \<Rightarrow> merge_field list \<Rightarrow> merge_context \<Rightarrow> (string, string) table" where
  "resolveMergeFields tz flds ctx =
     fold (\<lambda>f result. AList.update (mf_name f) (resolve_field tz ctx (mf_name f)) result) flds []"


subsection \<open>The panel\<close>

record panel_props =
  pr_memberId :: "int option"
  pr_contactId :: "string option"
  pr_caseId :: "string option"
  pr_caseContext :: "merge_context option"
  pr_initialTemplateCode :: "string option"

datatype panel_tab = Generate_tab | History_tab

record letter_panel =
  lp_templates :: "correspondence_template list"
  lp_history :: "correspondence list"
  lp_selected :: "correspondence_template option"
  lp_mergeData :: "(string, string) table"
  lp_preview :: "string option"
  lp_loading :: bool
  lp_generating :: bool
  lp_error :: "string option"
  lp_activeTab :: panel_tab
  lp_showSendForm :: bool
  lp_sentVia :: string
  lp_lastGeneratedId :: "string option"
  lp_sendSuccess :: bool
  lp_executedEffects :: "string list"
  lp_generate_call :: "generate_request option"
  lp_send_call :: "send_params option"
  lp_sends :: "send_params list"

definition panel_mount :: letter_panel where
  "panel_mount =
     \<lparr>lp_templates = [], lp_history = [], lp_selected = None, lp_mergeData = [], lp_preview = None,
      lp_loading = True, lp_generating = False, lp_error = None, lp_activeTab = Generate_tab,
      lp_showSendForm = False, lp_sentVia = ''email'', lp_lastGeneratedId = None,
      lp_sendSuccess = False, lp_executedEffects = [], lp_generate_call = None, lp_send_call = None,
      lp_sends = []\<rparr>"

text \<open>\<open>a || undefined\<close> on strings.\<close>

definition or_undefined :: "string option \<Rightarrow> string option" where
  "or_undefined a = (if or_str a [] = [] then None else a)"

definition selectTemplate :: "time_zone \<Rightarrow> panel_props \<Rightarrow> correspondence_template \<Rightarrow> letter_panel \<Rightarrow> letter_panel" where
  "selectTemplate tz pr tmpl s =
     s\<lparr>lp_selected := Some tmpl, lp_preview := None, lp_showSendForm := False,
       lp_sendSuccess := False, lp_lastGeneratedId := None,
       lp_mergeData := (case pr_caseContext pr of
          Some ctx \<Rightarrow> resolveMergeFields tz (ct_mergeFields tmpl) ctx
        | None \<Rightarrow> fold (\<lambda>f data. AList.update (mf_name f) [] data) (ct_mergeFields tmpl) [])\<rparr>"

text \<open>Both lists arrive together, or one of the calls failed.\<close>

definition panel_loaded ::
  "time_zone \<Rightarrow> panel_props \<Rightarrow> string + correspondence_template list option \<times> correspondence list option
     \<Rightarrow> letter_panel \<Rightarrow> letter_panel" where
  "panel_loaded tz pr answer s =
     (case answer of
        Inl e \<Rightarrow> s\<lparr>lp_error := Some e, lp_loading := False\<rparr>
      | Inr (tmplData, histData) \<Rightarrow>
          let s1 = s\<lparr>lp_templates := coalesce tmplData [], lp_history := coalesce histData []\<rparr>;
              code = or_str (pr_initialTemplateCode pr) [];
              match = (if code = [] then None
                       else List.find (\<lambda>t. ct_templateCode t = code) (coalesce tmplData []))
          in (case match of None \<Rightarrow> s1 | Some t \<Rightarrow> selectTemplate tz pr t s1)\<lparr>lp_loading := False\<rparr>)"

definition handleGenerate :: "panel_props \<Rightarrow> letter_panel \<Rightarrow> letter_panel" where
  "handleGenerate pr s =
     (case lp_selected s of
        None \<Rightarrow> s
      | Some t \<Rightarrow>
          s\<lparr>lp_generating := True, lp_error := None,
            lp_generate_call := Some \<lparr>gr_templateId = ct_templateId t, gr_memberId = pr_memberId pr,
              gr_caseId = or_undefined (pr_caseId pr), gr_contactId = pr_contactId pr,
              gr_mergeData = lp_mergeData s\<rparr>\<rparr>)"

definition generate_answered :: "string + correspondence \<Rightarrow> letter_panel \<Rightarrow> letter_panel" where
  "generate_answered answer s =
     (let s1 = s\<lparr>lp_generating := False, lp_generate_call := None\<rparr> in
      case answer of
        Inl e \<Rightarrow> s1\<lparr>lp_error := Some e\<rparr>
      | Inr result \<Rightarrow>
          s1\<lparr>lp_preview := Some (co_bodyRendered result),
             lp_lastGeneratedId := Some (co_correspondenceId result),
             lp_history := result # lp_history s\<rparr>)"

definition send_request :: "panel_props \<Rightarrow> string \<Rightarrow> letter_panel \<Rightarrow> send_params" where
  "send_request pr corrId s =
     \<lparr>sp_correspondenceId = corrId, sp_sentVia = lp_sentVia s, sp_deliveryAddress = None,
      sp_contactId = or_undefined (pr_contactId pr),
      sp_subject = map_option ct_templateName (lp_selected s),
      sp_caseId = or_undefined (pr_caseId pr),
      sp_onSendEffects = coalesce (map_option ct_onSendEffects (lp_selected s)) []\<rparr>"

definition handleSend :: "panel_props \<Rightarrow> letter_panel \<Rightarrow> letter_panel" where
  "handleSend pr s =
     (case or_undefined (lp_lastGeneratedId s) of
        None \<Rightarrow> s
      | Some i \<Rightarrow>
          let p = send_request pr i s in
          s\<lparr>lp_error := None, lp_send_call := Some p, lp_sends := lp_sends s @ [p]\<rparr>)"

definition effect_label :: "send_effect \<Rightarrow> string" where
  "effect_label e = (case sf_type e of
       Create_commitment \<Rightarrow> ''Follow-up commitment created'' | Advance_stage \<Rightarrow> ''Stage advance suggested'')"

definition send_answered :: "string + send_effect list \<Rightarrow> letter_panel \<Rightarrow> letter_panel" where
  "send_answered answer s =
     (case answer of
        Inl e \<Rightarrow> s\<lparr>lp_send_call := None, lp_error := Some e\<rparr>
      | Inr executed \<Rightarrow>
          s\<lparr>lp_send_call := None, lp_executedEffects := map effect_label executed,
            lp_sendSuccess := True, lp_showSendForm := False\<rparr>)"

text \<open>What the panel shows of the sending: the button that opens the form, and the form.\<close>

definition send_offered :: "letter_panel \<Rightarrow> bool" where
  "send_offered s \<longleftrightarrow> \<not> lp_loading s \<and> lp_activeTab s = Generate_tab
     \<and> or_undefined (lp_lastGeneratedId s) \<noteq> None \<and> \<not> lp_sendSuccess s"

datatype panel_event =
    Lists_arrived "string + correspondence_template list option \<times> correspondence list option"
  | Template_picked correspondence_template
  | Field_typed string string
  | Generate_clicked
  | Letter_arrived "string + correspondence"
  | Send_opened
  | Send_cancelled
  | Via_picked string
  | Send_confirmed
  | Send_arrived "string + send_effect list"
  | Tab_picked panel_tab

definition panel_step :: "time_zone \<Rightarrow> panel_props \<Rightarrow> letter_panel \<Rightarrow> panel_event \<Rightarrow> letter_panel" where
  "panel_step tz pr s ev =
     (case ev of
        Lists_arrived a \<Rightarrow> panel_loaded tz pr a s
      | Template_picked t \<Rightarrow> if lp_loading s then s else selectTemplate tz pr t s
      | Field_typed name v \<Rightarrow> if lp_loading s then s
          else s\<lparr>lp_mergeData := AList.update name v (lp_mergeData s)\<rparr>
      | Generate_clicked \<Rightarrow> if lp_loading s \<or> lp_generating s then s else handleGenerate pr s
      | Letter_arrived a \<Rightarrow> if lp_generate_call s = None then s else generate_answered a s
      | Send_opened \<Rightarrow> if send_offered s then s\<lparr>lp_showSendForm := True\<rparr> else s
      | Send_cancelled \<Rightarrow> s\<lparr>lp_showSendForm := False\<rparr>
      | Via_picked v \<Rightarrow> if v = ''email'' \<or> v = ''mail'' then s\<lparr>lp_sentVia := v\<rparr> else s
      | Send_confirmed \<Rightarrow> if send_offered s \<and> lp_showSendForm s \<and> lp_send_call s = None
          then handleSend pr s else s
      | Send_arrived a \<Rightarrow> if lp_send_call s = None then s else send_answered a s
      | Tab_picked t \<Rightarrow> s\<lparr>lp_activeTab := t\<rparr>)"

subsection \<open>What a letter says\<close>

lemma resolved_fold:
  "map_of (fold (\<lambda>f r. AList.update (mf_name f) (v (mf_name f)) r) flds r0) n =
     (if n \<in> set (map mf_name flds) then Some (v n) else map_of r0 n)"
  by (induction flds arbitrary: r0) (auto simp: update_conv')

lemma resolved_distinct:
  "distinct (map fst r0) \<Longrightarrow> distinct (map fst (fold (\<lambda>f r. AList.update (mf_name f) (v (mf_name f)) r) flds r0))"
  by (induction flds arbitrary: r0) (simp_all add: distinct_update)

definition empty_context :: merge_context where
  "empty_context = \<lparr>mc_member = None, mc_calculation = None, mc_caseData = None\<rparr>"

lemma empty_resolvers:
  "list_all (\<lambda>(n, r). r empty_context =
      (if n = ''rule_of_n_label'' then ''Rule of 75'' else if n = ''rule_of_n_threshold'' then ''75'' else []))
     (RESOLVERS tz)"
  by (simp add: RESOLVERS_def empty_context_def show_opt_def fmt_date_def fmt_amount_def or_else_def
      context_tier_def context_eligibility_def maximum_of_def js_benefit_def or_str_def underscores_out_def
      to_lower_def Let_def)

text \<open>
  A letter's fields are exactly the template's, each once, and each filled from the case alone:
  a field the resolver does not know stays blank, and so does every field of a case without data,
  with two exceptions: the eligibility rule and its threshold read 75 although the tier is not
  known.
\<close>

theorem merge_fields_resolved:
  "map_of (resolveMergeFields tz flds ctx) n =
     (if n \<in> set (map mf_name flds) then Some (resolve_field tz ctx n) else None)
 \<and> distinct (map fst (resolveMergeFields tz flds ctx))
 \<and> resolve_field tz empty_context n =
     (if n = ''rule_of_n_label'' then ''Rule of 75'' else if n = ''rule_of_n_threshold'' then ''75'' else [])"
proof (intro conjI)
  show "map_of (resolveMergeFields tz flds ctx) n =
     (if n \<in> set (map mf_name flds) then Some (resolve_field tz ctx n) else None)"
    using resolved_fold[of "resolve_field tz ctx" flds "[]" n] by (simp add: resolveMergeFields_def)
  show "distinct (map fst (resolveMergeFields tz flds ctx))"
    using resolved_distinct[of "[]" "resolve_field tz ctx" flds] by (simp add: resolveMergeFields_def)
  show "resolve_field tz empty_context n =
     (if n = ''rule_of_n_label'' then ''Rule of 75'' else if n = ''rule_of_n_threshold'' then ''75'' else [])"
  proof (cases "map_of (RESOLVERS tz) n")
    case None
    moreover have "map_of (RESOLVERS tz) ''rule_of_n_label'' \<noteq> None"
      "map_of (RESOLVERS tz) ''rule_of_n_threshold'' \<noteq> None" by (simp_all add: RESOLVERS_def)
    ultimately show ?thesis by (auto simp: resolve_field_def)
  next
    case (Some r)
    then show ?thesis
      using empty_resolvers[of tz] by (auto simp: resolve_field_def list_all_iff dest!: map_of_SomeD)
  qed
qed

subsection \<open>The letter that is sent\<close>

text \<open>
  Nothing goes out of order: the lists arrive once, no other template is picked while a letter is
  being generated, and the service answers with a letter of the template it was asked for.
\<close>

definition panel_orderly :: "letter_panel \<Rightarrow> panel_event \<Rightarrow> bool" where
  "panel_orderly s ev =
     (case ev of
        Lists_arrived a \<Rightarrow> lp_loading s
      | Template_picked t \<Rightarrow> lp_generate_call s = None
      | Letter_arrived (Inr r) \<Rightarrow> (case lp_generate_call s of
          None \<Rightarrow> True | Some g \<Rightarrow> co_templateId r = gr_templateId g)
      | _ \<Rightarrow> True)"

text \<open>A letter of the history was made from a template.\<close>

definition letter_of :: "correspondence list \<Rightarrow> string \<Rightarrow> correspondence_template \<Rightarrow> bool" where
  "letter_of history i t \<longleftrightarrow>
     list_ex (\<lambda>c. co_correspondenceId c = i \<and> co_templateId c = ct_templateId t) history"

definition panel_inv :: "letter_panel \<Rightarrow> bool" where
  "panel_inv s \<longleftrightarrow>
     (lp_loading s \<longrightarrow> lp_generate_call s = None \<and> lp_selected s = None \<and> lp_sends s = [])
   \<and> (case lp_generate_call s of None \<Rightarrow> True | Some g \<Rightarrow>
        \<exists>t. lp_selected s = Some t \<and> gr_templateId g = ct_templateId t)
   \<and> (case lp_lastGeneratedId s of None \<Rightarrow> True | Some i \<Rightarrow>
        \<exists>t. lp_selected s = Some t \<and> letter_of (lp_history s) i t)
   \<and> (\<forall>p \<in> set (lp_sends s). \<exists>t. letter_of (lp_history s) (sp_correspondenceId p) t
        \<and> sp_subject p = Some (ct_templateName t) \<and> sp_onSendEffects p = ct_onSendEffects t)"

lemma letter_of_Cons: "letter_of h i t \<Longrightarrow> letter_of (c # h) i t"
  by (simp add: letter_of_def)

lemma panel_step_inv:
  assumes "panel_inv s" "panel_orderly s ev"
  shows "panel_inv (panel_step tz pr s ev)"
proof (cases ev)
  case (Lists_arrived a)
  then show ?thesis using assms
    by (cases a) (auto simp: panel_step_def panel_orderly_def panel_inv_def panel_loaded_def selectTemplate_def
        Let_def split: option.splits)
next
  case (Template_picked t)
  then show ?thesis using assms
    by (auto simp: panel_step_def panel_orderly_def panel_inv_def selectTemplate_def)
next
  case Generate_clicked
  then show ?thesis using assms
    by (auto simp: panel_step_def panel_inv_def handleGenerate_def split: option.splits)
next
  case (Letter_arrived a)
  then show ?thesis using assms
    by (cases a; cases "lp_generate_call s")
      (auto simp: panel_step_def panel_orderly_def panel_inv_def generate_answered_def Let_def
        letter_of_def split: option.splits)
next
  case Send_confirmed
  then show ?thesis using assms
    by (auto simp: panel_step_def panel_inv_def handleSend_def send_request_def or_undefined_def or_str_def
        send_offered_def Let_def split: option.splits if_splits)
next
  case (Send_arrived a)
  then show ?thesis using assms
    by (cases a) (auto simp: panel_step_def panel_inv_def send_answered_def split: option.splits)
qed (use assms in \<open>auto simp: panel_step_def panel_inv_def split: option.splits\<close>)


fun panel_orderly_run :: "time_zone \<Rightarrow> panel_props \<Rightarrow> letter_panel \<Rightarrow> panel_event list \<Rightarrow> bool" where
  "panel_orderly_run tz pr s [] = True"
| "panel_orderly_run tz pr s (e # es) =
     (panel_orderly s e \<and> panel_orderly_run tz pr (panel_step tz pr s e) es)"

lemma panel_run_inv:
  "panel_inv s \<Longrightarrow> panel_orderly_run tz pr s es \<Longrightarrow> panel_inv (run (panel_step tz pr) s es)"
  by (induction es arbitrary: s) (auto intro: panel_step_inv)

text \<open>
  C17: A letter goes out under its own name and with its own effects. In every orderly run of the
  panel each send names a letter the panel generated, and carries the name and the effects of the
  template that letter was made from.
\<close>

theorem letter_sent_with_its_effects:
  assumes "panel_orderly_run tz pr panel_mount es"
  shows "list_all (\<lambda>p. \<exists>t. letter_of (lp_history (run (panel_step tz pr) panel_mount es)) (sp_correspondenceId p) t
           \<and> sp_subject p = Some (ct_templateName t) \<and> sp_onSendEffects p = ct_onSendEffects t)
         (lp_sends (run (panel_step tz pr) panel_mount es))"
proof -
  have "panel_inv panel_mount" by (simp add: panel_inv_def panel_mount_def)
  from panel_run_inv[OF this assms] show ?thesis by (simp add: panel_inv_def list_all_iff)
qed

definition example_template :: "string \<Rightarrow> send_effect list \<Rightarrow> correspondence_template" where
  "example_template i effs =
     \<lparr>ct_templateId = i, ct_tenantId = [], ct_templateCode = i, ct_templateName = i, ct_description = None,
      ct_category = ''general'', ct_stageCategory = None, ct_onSendEffects = effs, ct_bodyTemplate = [],
      ct_mergeFields = [], ct_outputFormat = Out_text, ct_isActive = True, ct_version = 1,
      ct_createdAt = [], ct_updatedAt = [], ct_createdBy = [], ct_updatedBy = []\<rparr>"

definition example_letter :: "string \<Rightarrow> string \<Rightarrow> correspondence" where
  "example_letter i tmpl =
     \<lparr>co_correspondenceId = i, co_tenantId = [], co_templateId = tmpl, co_memberId = None,
      co_caseId = None, co_contactId = None, co_subject = [], co_bodyRendered = [], co_mergeData = [],
      co_status = Corr_draft, co_generatedBy = [], co_sentAt = None, co_sentVia = None,
      co_deliveryAddress = None, co_createdAt = [], co_updatedAt = []\<rparr>"

definition example_props :: panel_props where
  "example_props = \<lparr>pr_memberId = Some 10001, pr_contactId = None, pr_caseId = None,
     pr_caseContext = None, pr_initialTemplateCode = None\<rparr>"

lemmas panel_defs = panel_step_def panel_loaded_def selectTemplate_def handleGenerate_def
  generate_answered_def handleSend_def send_request_def send_offered_def or_undefined_def or_str_def
  panel_orderly_def example_template_def example_letter_def example_props_def panel_mount_def Let_def

theorem letter_sent_with_its_effects_witness:
  "\<exists>t. letter_of [example_letter ''k1'' ''A''] ''k1'' t \<and> ct_templateName t = ''A'' \<and> ct_onSendEffects t = []"
proof -
  let ?A = "example_template ''A'' []"
  let ?es = "[Lists_arrived (Inr (None, None)), Template_picked ?A, Generate_clicked,
    Letter_arrived (Inr (example_letter ''k1'' ''A'')), Send_opened, Send_confirmed]"
  have ok: "panel_orderly_run (fixed_zone 0) example_props panel_mount ?es" by (simp add: panel_defs)
  define s where "s = run (panel_step (fixed_zone 0) example_props) panel_mount ?es"
  have h: "lp_history s = [example_letter ''k1'' ''A'']" by (simp add: s_def panel_defs)
  have m: "map (\<lambda>p. (sp_correspondenceId p, sp_subject p, sp_onSendEffects p)) (lp_sends s) = [(''k1'', Some ''A'', [])]"
    by (simp add: s_def panel_defs)
  then obtain z where z: "lp_sends s = [z]" "sp_correspondenceId z = ''k1''" "sp_subject z = Some ''A''"
    "sp_onSendEffects z = []" by auto
  from letter_sent_with_its_effects[OF ok, folded s_def]
  obtain t where "letter_of (lp_history s) (sp_correspondenceId z) t" "sp_subject z = Some (ct_templateName t)"
    "sp_onSendEffects z = ct_onSendEffects t" unfolding z(1) by auto
  then show ?thesis using z h by (intro exI[of _ t]) simp
qed

text \<open>
  Picking another template while a letter is being generated mixes the two. The letter's answer
  arrives under the second template, whose name and effects the send then carries: with the first
  template's letter go out the follow-ups of the second, and none of its own.
\<close>

theorem letter_sent_with_other_effects:
  assumes "ct_mergeFields a = []" "ct_mergeFields b = []" "co_templateId r = ct_templateId a"
    "co_correspondenceId r \<noteq> []" "pr_caseContext pr = None" "pr_initialTemplateCode pr = None"
  shows "let s = run (panel_step tz pr) panel_mount
           [Lists_arrived (Inr (Some [a, b], None)), Template_picked a, Generate_clicked,
            Template_picked b, Letter_arrived (Inr r), Send_opened, Send_confirmed]
     in map sp_correspondenceId (lp_sends s) = [co_correspondenceId r]
      \<and> map sp_subject (lp_sends s) = [Some (ct_templateName b)]
      \<and> map sp_onSendEffects (lp_sends s) = [ct_onSendEffects b]
      \<and> lp_preview s = Some (co_bodyRendered r)"
  using assms
  by (simp add: panel_step_def panel_loaded_def selectTemplate_def handleGenerate_def generate_answered_def
      handleSend_def send_request_def send_offered_def or_undefined_def or_str_def panel_mount_def Let_def)

theorem letter_sent_with_other_effects_witness:
  "let s = run (panel_step (fixed_zone 0) example_props) panel_mount
           [Lists_arrived (Inr (Some [example_template ''A'' [], example_template ''B'' []], None)),
            Template_picked (example_template ''A'' []), Generate_clicked,
            Template_picked (example_template ''B'' []), Letter_arrived (Inr (example_letter ''k1'' ''A'')),
            Send_opened, Send_confirmed]
     in map sp_subject (lp_sends s) = [Some ''B'']"
  using letter_sent_with_other_effects[of "example_template ''A'' []" "example_template ''B'' []"
      "example_letter ''k1'' ''A''" example_props "fixed_zone 0"]
  by (simp add: Let_def example_template_def example_letter_def example_props_def)

end
