(* ===== verification/MemberSearch.thy ===== *)
theory MemberSearch imports Async begin

text \<open>
  The debounced member search \<open>useMemberSearch\<close> of src/frontend/src/hooks/useMemberSearch.ts: the
  query, the timer that fires the request, the requests in flight and the results shown. A reply
  is the search service's answer or an error; \<open>answer\<close> is the service. A change of the query runs
  the effect's cleanup and the effect before the next event; a request already sent is never
  cancelled.
\<close>

record search_timer =
  sti_id :: nat
  sti_query :: string

record 'r search_state =
  se_query :: string
  se_results :: "'r list"
  se_loading :: bool
  se_error :: "string option"
  se_timerRef :: "nat option"
  se_timers :: "search_timer list"
  se_requests :: "string list"
  se_fresh :: nat

definition search_mount :: "'r search_state" where
  "search_mount =
     \<lparr>se_query = [], se_results = [], se_loading = False, se_error = None, se_timerRef = None,
      se_timers = [], se_requests = [], se_fresh = 0\<rparr>"

definition clear_search_timer :: "'r search_state \<Rightarrow> 'r search_state" where
  "clear_search_timer s =
     s\<lparr>se_timers := filter (\<lambda>t. se_timerRef s \<noteq> Some (sti_id t)) (se_timers s)\<rparr>"

text \<open>The effect on the query; for the empty query it returns no cleanup.\<close>

definition search_effect :: "'r search_state \<Rightarrow> 'r search_state" where
  "search_effect s =
     (if se_query s = [] then s\<lparr>se_results := [], se_loading := False\<rparr>
      else let s' = clear_search_timer (s\<lparr>se_loading := True\<rparr>) in
           s'\<lparr>se_timers := se_timers s' @ [\<lparr>sti_id = se_fresh s', sti_query = se_query s'\<rparr>],
              se_timerRef := Some (se_fresh s'), se_fresh := se_fresh s' + 1\<rparr>)"

definition search_cleanup :: "'r search_state \<Rightarrow> 'r search_state" where
  "search_cleanup s = (if se_query s = [] then s else clear_search_timer s)"

definition setQuery :: "string \<Rightarrow> 'r search_state \<Rightarrow> 'r search_state" where
  "setQuery q s =
     (if q = se_query s then s else search_effect ((search_cleanup s)\<lparr>se_query := q\<rparr>))"

definition search_fires :: "search_timer \<Rightarrow> 'r search_state \<Rightarrow> 'r search_state" where
  "search_fires t s =
     s\<lparr>se_timers := filter (\<lambda>u. sti_id u \<noteq> sti_id t) (se_timers s),
       se_requests := se_requests s @ [sti_query t]\<rparr>"

text \<open>The reply to the request at position \<open>i\<close>: the data, or an error.\<close>

definition search_reply :: "nat \<Rightarrow> string + 'r list \<Rightarrow> 'r search_state \<Rightarrow> 'r search_state" where
  "search_reply i reply s =
     (let s' = s\<lparr>se_requests := take i (se_requests s) @ drop (i + 1) (se_requests s)\<rparr> in
      case reply of
        Inr data \<Rightarrow> s'\<lparr>se_results := data, se_error := None, se_loading := False\<rparr>
      | Inl err \<Rightarrow> s'\<lparr>se_error := Some err, se_results := [], se_loading := False\<rparr>)"

text \<open>
  Steps: typing, the timer, and a reply. With \<open>ordered\<close> only the oldest request is answered.
\<close>

inductive search_step :: "bool \<Rightarrow> (string \<Rightarrow> 'r list) \<Rightarrow> 'r search_state \<Rightarrow> 'r search_state \<Rightarrow> bool"
  for ordered answer where
  types: "search_step ordered answer s (setQuery q s)"
| timer: "t \<in> set (se_timers s) \<Longrightarrow> search_step ordered answer s (search_fires t s)"
| reply_data: "i < length (se_requests s) \<Longrightarrow> ordered \<longrightarrow> i = 0 \<Longrightarrow>
    search_step ordered answer s (search_reply i (Inr (answer (se_requests s ! i))) s)"
| reply_error: "i < length (se_requests s) \<Longrightarrow> ordered \<longrightarrow> i = 0 \<Longrightarrow>
    search_step ordered answer s (search_reply i (Inl err) s)"

inductive search_reachable :: "bool \<Rightarrow> (string \<Rightarrow> 'r list) \<Rightarrow> 'r search_state \<Rightarrow> bool"
  for ordered answer where
  search_start: "search_reachable ordered answer search_mount"
| search_next: "search_reachable ordered answer s \<Longrightarrow> search_step ordered answer s s' \<Longrightarrow>
    search_reachable ordered answer s'"

definition search_wanted :: "'r search_state \<Rightarrow> string option" where
  "search_wanted s = (if se_query s \<noteq> [] \<and> se_timers s = [] then Some (se_query s) else None)"

definition search_shows :: "(string \<Rightarrow> 'r list) \<Rightarrow> 'r search_state \<Rightarrow> string \<Rightarrow> bool" where
  "search_shows answer s q \<longleftrightarrow> \<not> se_loading s \<and>
     (if se_error s = None then se_results s = answer q else se_results s = [])"

text \<open>The one timer: pending only for the query typed.\<close>

definition search_timers_inv :: "'r search_state \<Rightarrow> bool" where
  "search_timers_inv s \<longleftrightarrow> se_timers s = [] \<or>
     (se_query s \<noteq> [] \<and>
      (\<exists>i. se_timers s = [\<lparr>sti_id = i, sti_query = se_query s\<rparr>] \<and> se_timerRef s = Some i))"

lemma search_clear: "search_timers_inv s \<Longrightarrow> se_timers (search_cleanup s) = []"
  by (auto simp: search_timers_inv_def search_cleanup_def clear_search_timer_def)

lemma setQuery_timers:
  assumes "search_timers_inv s"
  shows "setQuery q s = s \<or>
    (se_query (setQuery q s) = q \<and> se_requests (setQuery q s) = se_requests s \<and>
     (if q = [] then se_timers (setQuery q s) = []
      else \<exists>i. se_timers (setQuery q s) = [\<lparr>sti_id = i, sti_query = q\<rparr>] \<and> se_timerRef (setQuery q s) = Some i))"
  using search_clear[OF assms]
  by (simp add: setQuery_def search_effect_def Let_def clear_search_timer_def)
    (simp add: search_cleanup_def clear_search_timer_def)

lemma search_timers_step:
  "search_step ordered answer s s' \<Longrightarrow> search_timers_inv s \<Longrightarrow> search_timers_inv s'"
proof (induction rule: search_step.induct)
  case (types s q)
  then show ?case using setQuery_timers[OF types, of q]
    by (cases "setQuery q s = s") (simp_all add: search_timers_inv_def split: if_splits)
qed (auto simp: search_timers_inv_def search_fires_def search_reply_def Let_def)

text \<open>Under the timer invariant the search is a component that shows the last answer.\<close>

definition ordered_search :: "(string \<Rightarrow> 'r list) \<Rightarrow> 'r search_state \<Rightarrow> 'r search_state \<Rightarrow> bool" where
  "ordered_search answer s s' \<longleftrightarrow> search_timers_inv s \<and> search_step True answer s s'"

interpretation search: latest_request "ordered_search answer" se_requests search_wanted
    "search_shows answer" for answer :: "string \<Rightarrow> 'r list"
proof unfold_locales
  fix s s' :: "'r search_state"
  assume "ordered_search answer s s'"
  then have inv: "search_timers_inv s" and "search_step True answer s s'"
    by (simp_all add: ordered_search_def)
  from this(2) show "(\<exists>k. se_requests s' = se_requests s @ [k] \<and> (search_wanted s' = None \<or> search_wanted s' = Some k))
    \<or> (\<exists>k. se_requests s = k # se_requests s' \<and> search_shows answer s' k
        \<and> (search_wanted s' = None \<or> search_wanted s' = search_wanted s))
    \<or> (se_requests s' = se_requests s \<and> search_wanted s' = None)
    \<or> (se_requests s' = se_requests s \<and> search_wanted s' = search_wanted s
        \<and> (\<forall>k. search_shows answer s k \<longrightarrow> search_shows answer s' k))"
  proof (cases rule: search_step.cases)
    case (types q)
    then show ?thesis using setQuery_timers[OF inv, of q]
      by (auto simp: search_wanted_def split: if_splits)
  next
    case (timer t)
    then show ?thesis using inv
      by (auto simp: search_timers_inv_def search_fires_def search_wanted_def)
  next
    case (reply_data i)
    then show ?thesis
      by (cases "se_requests s") (auto simp: search_reply_def search_shows_def search_wanted_def)
  next
    case (reply_error i err)
    then show ?thesis
      by (cases "se_requests s") (auto simp: search_reply_def search_shows_def search_wanted_def)
  qed
qed

lemma ordered_search_inv:
  "search_reachable True answer s \<Longrightarrow> search_timers_inv s \<and> search.up_to_date answer s"
proof (induction rule: search_reachable.induct)
  case search_start
  show ?case unfolding search.up_to_date_def
    by (simp add: search_timers_inv_def search_mount_def search_wanted_def)
next
  case (search_next s s')
  then show ?case
    using search.up_to_date_step[of answer s s'] by (simp add: ordered_search_def search_timers_step)
qed

text \<open>
  C21: If replies come in the order of the requests, the search settles on what is typed: with no
  timer pending, no request open and a query in the field, nothing is loading and the results are
  the service's answer to that query (or none, with an error).
\<close>

theorem search_settles:
  assumes "search_reachable True answer s" "se_timers s = []" "se_requests s = []" "se_query s \<noteq> []"
  shows "\<not> se_loading s \<and>
    (if se_error s = None then se_results s = answer (se_query s) else se_results s = [])"
proof -
  have "search_wanted s = Some (se_query s)" using assms by (simp add: search_wanted_def)
  then have "search_shows answer s (se_query s)"
    using ordered_search_inv[OF assms(1)] assms(3) search.up_to_date_shows[of answer s] by blast
  then show ?thesis by (simp add: search_shows_def)
qed

text \<open>A query typed into a settled search and its timer fired.\<close>

definition search_sent :: "string \<Rightarrow> 'r search_state \<Rightarrow> 'r search_state" where
  "search_sent q s = search_fires \<lparr>sti_id = se_fresh s, sti_query = q\<rparr> (setQuery q s)"

lemma search_sent_reachable:
  assumes "search_reachable ordered answer s" "se_timers s = []" "q \<noteq> se_query s" "q \<noteq> []"
  shows "search_reachable ordered answer (search_sent q s)"
proof -
  have "search_reachable ordered answer (setQuery q s)"
    by (rule search_next[OF assms(1) search_step.types])
  moreover have "\<lparr>sti_id = se_fresh s, sti_query = q\<rparr> \<in> set (se_timers (setQuery q s))"
    using assms by (simp add: setQuery_def search_effect_def search_cleanup_def
        clear_search_timer_def Let_def)
  ultimately show ?thesis
    unfolding search_sent_def by (rule search_next[OF _ search_step.timer])
qed

lemma search_sent_frame:
  assumes "se_timers s = []" "q \<noteq> se_query s" "q \<noteq> []"
  shows "se_timers (search_sent q s) = []" "se_query (search_sent q s) = q"
    "se_requests (search_sent q s) = se_requests s @ [q]"
  using assms by (simp_all add: search_sent_def search_fires_def setQuery_def search_effect_def
      search_cleanup_def clear_search_timer_def Let_def)

theorem search_settles_witness:
  "\<exists>s. search_reachable True (\<lambda>q. [q]) s \<and> se_query s = ''kim'' \<and> se_results s = [''kim'']"
proof -
  let ?s = "search_sent ''kim'' search_mount :: string search_state"
  have s: "search_reachable True (\<lambda>q. [q]) ?s"
    by (rule search_sent_reachable[OF search_start]) (simp_all add: search_mount_def)
  have f: "se_timers ?s = []" "se_query ?s = ''kim''" "se_requests ?s = [''kim'']"
    using search_sent_frame[of "search_mount :: string search_state" "''kim''"]
    by (simp_all add: search_mount_def)
  let ?t = "search_reply 0 (Inr [''kim'']) ?s"
  have t: "search_reachable True (\<lambda>q. [q]) ?t"
    using search_next[OF s search_step.reply_data[of 0]] f by simp
  have "se_timers ?t = []" "se_requests ?t = []" "se_query ?t = ''kim''" "se_error ?t = None"
    using f by (simp_all add: search_reply_def)
  with search_settles[OF t] t show ?thesis by (intro exI[of _ ?t]) simp
qed

text \<open>
  Nothing makes the replies come in that order, and then the results belong to another query:
  for any two queries the search can come to rest with the second in the field and the results of
  the first. And even in order, a reply that comes after the field was cleared shows its results
  under the empty field.
\<close>

theorem search_shows_stale_results:
  fixes answer :: "string \<Rightarrow> 'r list"
  assumes "q1 \<noteq> []" "q2 \<noteq> []" "q1 \<noteq> q2"
  shows "(\<exists>s. search_reachable False answer s \<and> se_query s = q2 \<and> se_results s = answer q1
        \<and> se_error s = None \<and> \<not> se_loading s \<and> se_timers s = [] \<and> se_requests s = [])
    \<and> (\<exists>s. search_reachable True answer s \<and> se_query s = [] \<and> se_results s = answer q1
        \<and> \<not> se_loading s \<and> se_timers s = [] \<and> se_requests s = [])"
proof -
  let ?m = "search_mount :: 'r search_state"
  have m: "se_timers ?m = []" "se_query ?m = []" "se_requests ?m = []"
    by (simp_all add: search_mount_def)
  let ?a = "search_sent q1 ?m"
  have a: "search_reachable o' answer ?a" for o'
    by (rule search_sent_reachable[OF search_start]) (use m assms in simp_all)
  have fa: "se_timers ?a = []" "se_query ?a = q1" "se_requests ?a = [q1]"
    using search_sent_frame[of ?m q1] m assms by simp_all
  let ?b = "search_sent q2 ?a"
  have b: "search_reachable False answer ?b"
    using search_sent_reachable[OF a, of q2] fa assms by simp
  have fb: "se_timers ?b = []" "se_query ?b = q2" "se_requests ?b = [q1, q2]"
    using search_sent_frame[of ?a q2] fa assms by simp_all
  let ?c = "search_reply 1 (Inr (answer q2)) ?b"
  have c: "search_reachable False answer ?c"
    using search_next[OF b search_step.reply_data[of 1]] fb by simp
  have fc: "se_timers ?c = []" "se_query ?c = q2" "se_requests ?c = [q1]"
    using fb by (simp_all add: search_reply_def)
  let ?d = "search_reply 0 (Inr (answer q1)) ?c"
  have d: "search_reachable False answer ?d"
    using search_next[OF c search_step.reply_data[of 0]] fc by simp
  have fd: "se_query ?d = q2 \<and> se_results ?d = answer q1 \<and> se_error ?d = None \<and> \<not> se_loading ?d
      \<and> se_timers ?d = [] \<and> se_requests ?d = []"
    using fc by (simp add: search_reply_def[of 0])
  let ?e = "setQuery [] ?a"
  have e: "search_reachable True answer ?e" by (rule search_next[OF a search_step.types])
  have fe: "se_timers ?e = []" "se_query ?e = []" "se_requests ?e = [q1]"
    using fa assms by (simp_all add: setQuery_def search_effect_def search_cleanup_def
        clear_search_timer_def)
  let ?f = "search_reply 0 (Inr (answer q1)) ?e"
  have f: "search_reachable True answer ?f"
    using search_next[OF e search_step.reply_data[of 0]] fe by simp
  have ff: "se_query ?f = [] \<and> se_results ?f = answer q1 \<and> \<not> se_loading ?f \<and> se_timers ?f = []
      \<and> se_requests ?f = []"
    using fe by (simp add: search_reply_def[of 0])
  from d fd f ff show ?thesis by blast
qed

theorem search_shows_stale_results_witness:
  "\<exists>s. search_reachable False (\<lambda>q. [q]) s \<and> se_query s = ''martinez'' \<and> se_results s = [''mart'']
     \<and> se_requests s = []"
  using search_shows_stale_results[of "''mart''" "''martinez''" "\<lambda>q. [q]"] by auto

end
