(* ===== verification/ScenarioHash.thy ===== *)
theory ScenarioHash imports Prelude begin

unbundle bit_operations_syntax

text \<open>
  Staleness of saved scenarios: src/frontend/src/lib/scenarioStaleness.ts. The djb2 hash on 32-bit
  words (\<open>hash >>> 0\<close> reads the word as unsigned); a number is the text \<open>String(n)\<close> gives.
\<close>

record data_version_input =
  dv_member_id :: string
  dv_earned_years :: string
  dv_purchased_years :: string
  dv_military_years :: string
  dv_beneficiary_count :: string
  dv_plan_config_version :: string

definition djb2_step :: "32 word \<Rightarrow> char \<Rightarrow> 32 word" where
  "djb2_step hash c = (push_bit 5 hash + hash + word_of_nat (of_char c)) AND 0xffffffff"

definition simpleHash :: "string \<Rightarrow> string" where
  "simpleHash str = ''dv-'' @ nat_to_base 16 (unat (foldl djb2_step 5381 str))"

definition canonical :: "data_version_input \<Rightarrow> string" where
  "canonical i = join_with ''|''
     [''m:'' @ dv_member_id i, ''e:'' @ dv_earned_years i, ''p:'' @ dv_purchased_years i,
      ''mil:'' @ dv_military_years i, ''b:'' @ dv_beneficiary_count i,
      ''cfg:'' @ dv_plan_config_version i]"

definition computeDataVersion :: "data_version_input \<Rightarrow> string" where
  "computeDataVersion i = simpleHash (canonical i)"

definition isScenarioStale :: "string \<Rightarrow> string \<Rightarrow> bool" where
  "isScenarioStale savedVersion currentVersion \<longleftrightarrow> savedVersion \<noteq> currentVersion"

subsection \<open>Numbers as text are injective\<close>

lemma digits_rev_value:
  "2 \<le> b \<Longrightarrow> foldr (\<lambda>d acc. d + b * acc) (digits_rev b n) 0 = n"
proof (induction b n rule: digits_rev.induct)
  case (1 b n)
  then show ?case by (subst digits_rev.simps) auto
qed

lemma digits_rev_less: "2 \<le> b \<Longrightarrow> d \<in> set (digits_rev b n) \<Longrightarrow> d < b"
proof (induction b n rule: digits_rev.induct)
  case (1 b n)
  from 1(3) show ?case
    by (subst (asm) digits_rev.simps) (use 1 in \<open>auto split: if_splits\<close>)
qed

lemma digit_char_inj: "a < 16 \<Longrightarrow> b < 16 \<Longrightarrow> digit_char a = digit_char b \<Longrightarrow> a = b"
proof -
  assume ab: "a < 16" "b < 16" and eq: "digit_char a = digit_char b"
  have v: "of_char (digit_char k) = (if k < 10 then 48 + k else 87 + k)" if "k < 16" for k :: nat
    using that by (simp add: digit_char_def)
  from arg_cong[OF eq, of "of_char :: char \<Rightarrow> nat"] show "a = b"
    using v[OF ab(1)] v[OF ab(2)] ab by (auto split: if_splits)
qed

lemma nat_to_base_16_inj: "nat_to_base 16 m = nat_to_base 16 n \<Longrightarrow> m = n"
proof -
  assume eq: "nat_to_base 16 m = nat_to_base 16 n"
  have "map digit_char (digits_rev 16 m) = map digit_char (digits_rev 16 n)"
    using eq by (simp add: nat_to_base_def rev_map[symmetric])
  then have "digits_rev 16 m = digits_rev 16 n"
    by (rule map_inj_on) (auto simp: inj_on_def intro!: digit_char_inj digits_rev_less[of 16, simplified])
  then have "foldr (\<lambda>d acc. d + 16 * acc) (digits_rev 16 m) 0 = foldr (\<lambda>d acc. d + 16 * acc) (digits_rev 16 n) 0"
    by (rule arg_cong)
  then show "m = n" by (simp only: digits_rev_value[of 16, simplified])
qed

subsection \<open>What the version detects\<close>

lemma djb2_step_33: "djb2_step h c = 33 * h + word_of_nat (of_char c)"
proof -
  have "(0xffffffff :: 32 word) = - 1" by simp
  then have m: "x AND 0xffffffff = x" for x :: "32 word" by (simp only: and.right_neutral)
  show ?thesis unfolding djb2_step_def m by (simp add: push_bit_eq_mult algebra_simps)
qed

lemma djb2_step_inj: "djb2_step h c = djb2_step h' c \<Longrightarrow> h = h'"
proof -
  assume "djb2_step h c = djb2_step h' c"
  then have "1041204193 * (33 * h) = 1041204193 * (33 * h')" by (simp add: djb2_step_33)
  moreover have "1041204193 * (33 * x) = x" for x :: "32 word"
  proof -
    have u: "(1041204193 * 33 :: 32 word) = 1" by simp
    show ?thesis unfolding mult.assoc[symmetric] u by simp
  qed
  ultimately show ?thesis by metis
qed

lemma djb2_fold_inj: "foldl djb2_step h xs = foldl djb2_step h' xs \<Longrightarrow> h = h'"
  by (induction xs arbitrary: h h') (auto dest: djb2_step_inj)

lemma djb2_step_char: "djb2_step h a = djb2_step h b \<Longrightarrow> a = b"
proof -
  assume "djb2_step h a = djb2_step h b"
  then have "(word_of_nat (of_char a) :: 32 word) = word_of_nat (of_char b)"
    by (simp add: djb2_step_33)
  from arg_cong[OF this, of unat]
  have "(of_char a :: nat) mod 2 ^ 32 = of_char b mod 2 ^ 32"
    by (simp add: unat_of_nat)
  moreover have "(of_char c :: nat) mod 2 ^ 32 = of_char c" for c
    by (rule mod_less, rule less_trans[OF nat_of_char_less_256]) simp
  ultimately have "(of_char a :: nat) = of_char b" by metis
  then show ?thesis by simp
qed

text \<open>
  A change of a single character of the member's data (a digit of the service years, the
  number of beneficiaries, a letter of the plan's version) always makes the saved scenario stale:
  the hash tells any two texts apart that differ in one place.
\<close>

theorem single_change_detected:
  assumes "canonical old = x @ a # y" "canonical new = x @ b # y" "a \<noteq> b"
  shows "isScenarioStale (computeDataVersion old) (computeDataVersion new)"
proof -
  have "foldl djb2_step 5381 (x @ a # y) \<noteq> foldl djb2_step 5381 (x @ b # y)"
    using assms(3) by (auto dest: djb2_fold_inj djb2_step_char)
  then have "unat (foldl djb2_step 5381 (x @ a # y)) \<noteq> unat (foldl djb2_step 5381 (x @ b # y))"
    using word_unat_eq_iff by blast
  then show ?thesis
    using assms(1,2)
    by (auto simp: isScenarioStale_def computeDataVersion_def simpleHash_def
        dest!: nat_to_base_16_inj)
qed

definition member_data :: "string \<Rightarrow> string \<Rightarrow> data_version_input" where
  "member_data beneficiaries cfg =
     \<lparr>dv_member_id = ''7'', dv_earned_years = ''20'', dv_purchased_years = ''0'',
      dv_military_years = ''0'', dv_beneficiary_count = beneficiaries, dv_plan_config_version = cfg\<rparr>"

theorem single_change_detected_witness:
  "isScenarioStale (computeDataVersion (member_data ''1'' ''v1'')) (computeDataVersion (member_data ''2'' ''v1''))"
  by (rule single_change_detected[of _ "''m:7|e:20|p:0|mil:0|b:''" "CHR ''1''" "''|cfg:v1''" _ "CHR ''2''"])
    (simp_all add: canonical_def member_data_def)

text \<open>
  Not every change is detected: for every member, a plan configuration version that ends in
  Ez and the one that ends in FY instead give the same data version.
\<close>

theorem version_collision:
  "\<not> isScenarioStale (computeDataVersion (i\<lparr>dv_plan_config_version := v @ ''Ez''\<rparr>))
       (computeDataVersion (i\<lparr>dv_plan_config_version := v @ ''FY''\<rparr>))"
proof -
  have two: "djb2_step (djb2_step h (CHR ''E'')) (CHR ''z'') = djb2_step (djb2_step h (CHR ''F'')) (CHR ''Y'')" for h
    by (simp add: djb2_step_33 algebra_simps)
  have "canonical (i\<lparr>dv_plan_config_version := v @ w\<rparr>) =
      join_with ''|'' [''m:'' @ dv_member_id i, ''e:'' @ dv_earned_years i, ''p:'' @ dv_purchased_years i,
      ''mil:'' @ dv_military_years i, ''b:'' @ dv_beneficiary_count i, ''cfg:'' @ v] @ w" for w
    by (simp add: canonical_def)
  then show ?thesis
    by (simp add: isScenarioStale_def computeDataVersion_def simpleHash_def two del: join_with.simps)
qed

end
