(* ===== verification/MemberSummary.thy ===== *)
theory MemberSummary imports Letters CrmSummary ScenarioHash begin

text \<open>
  What staff read about a member at a glance: the summary of src/frontend/src/lib/memberSummary.ts
  with the dashboard that feeds it (hooks/useMemberDashboard.ts), and the cards beside a call
  (hooks/useCSRContext.ts). Data that has not arrived is \<open>None\<close>; \<open>now\<close> is the clock and \<open>tz\<close>
  the reader's zone.
\<close>

subsection \<open>lib/memberSummary.ts\<close>

record active_case_item =
  ai_caseId :: string
  ai_stage :: string
  ai_priority :: case_priority
  ai_daysOpen :: int
  ai_stageIdx :: "int option"
  ai_totalStages :: "int option"

datatype attention_severity = Att_critical | Att_high | Att_medium | Att_info

record attention_item =
  at_severity :: attention_severity
  at_label :: string
  at_detail :: string

record summary_input =
  si_member :: member
  si_serviceCredit :: "service_credit_summary option"
  si_eligibility :: "eligibility_result option"
  si_beneficiaries :: "beneficiary list option"
  si_activeCases :: "active_case_item list"
  si_openCommitments :: "commitment list"
  si_dataQualityIssueCount :: nat

definition tier_text :: "member \<Rightarrow> string" where
  "tier_text m = (case mb_tier_code m of None \<Rightarrow> ''Tier undefined'' | Some t \<Rightarrow> tierLabel t)"

definition tenurePart :: "summary_input \<Rightarrow> string" where
  "tenurePart i = (case si_serviceCredit i of
       Some sc \<Rightarrow> formatServiceYears (scs_total_years sc) @ '' '' @ tier_text (si_member i) @ '' veteran''
     | None \<Rightarrow> tier_text (si_member i) @ '' member'')"

definition eligPart :: "summary_input \<Rightarrow> string" where
  "eligPart i = (case si_eligibility i of
       None \<Rightarrow> []
     | Some e \<Rightarrow>
         if er_best_eligible_type e = ''NONE'' then
           (if er_vested e then ''vested but not yet eligible'' else ''not yet vested'')
         else (case er_reduction_pct e of
             Some p \<Rightarrow> if p > 0 then eligibilityLabel (er_best_eligible_type e) @ '' with '' @ toFixed 0 p @ ''% reduction''
                       else eligibilityLabel (er_best_eligible_type e) @ '', no reduction''
           | None \<Rightarrow> eligibilityLabel (er_best_eligible_type e) @ '', no reduction''))"

definition casePart :: "summary_input \<Rightarrow> string" where
  "casePart i = (case si_activeCases i of
       [] \<Rightarrow> []
     | [c] \<Rightarrow> ''case at '' @ ai_stage c @
         (case (ai_stageIdx c, ai_totalStages c) of
            (Some k, Some n) \<Rightarrow> if n = 0 then [] else '' ('' @ int_str (k + 1) @ ''/'' @ int_str n @ '')''
          | _ \<Rightarrow> [])
     | cs \<Rightarrow> nat_str (length cs) @ '' active cases'')"

text \<open>\<open>replace(/ , /g, ', ')\<close> and \<open>replace(/\s+/g, ' ')\<close>\<close>

fun commas_tight :: "string \<Rightarrow> string" where
  "commas_tight [] = []"
| "commas_tight (c # s) =
     (if starts_with (c # s) '' , '' then '', '' @ commas_tight (drop 2 s) else c # commas_tight s)"

fun spaces_single :: "bool \<Rightarrow> string \<Rightarrow> string" where
  "spaces_single w [] = []"
| "spaces_single w (c # s) =
     (if is_space c then (if w then spaces_single True s else CHR '' '' # spaces_single True s)
      else c # spaces_single False s)"

definition summary_context :: "summary_input \<Rightarrow> string" where
  "summary_context i =
     (let name = mb_first_name (si_member i) @ '' '' @ mb_last_name (si_member i);
          parts = [name, [CHR 0xE2, CHR 0x80, CHR 0x94], tenurePart i]
            @ (if eligPart i = [] then [] else ['','', eligPart i])
            @ (if casePart i = [] then [] else ['','', casePart i])
      in js_trim (spaces_single False (commas_tight (join_with '' '' parts))) @ ''.'')"

definition due_text :: "time_zone \<Rightarrow> commitment \<Rightarrow> string" where
  "due_text tz c =
     cm_description c @ '' '' @ [CHR 0xE2, CHR 0x80, CHR 0x94] @ '' due ''
     @ day_text short_day tz (getTime tz (date_arg (cm_targetDate c))) @ '', owner: '' @ cm_ownerAgent c"

definition attention :: "attention_severity \<Rightarrow> string \<Rightarrow> string \<Rightarrow> attention_item" where
  "attention sev label detail = \<lparr>at_severity = sev, at_label = label, at_detail = detail\<rparr>"

text \<open>Days from today's midnight to the due day's, by the local calendar; \<open>None\<close> for an invalid date.\<close>

definition days_until :: "time_zone \<Rightarrow> int \<Rightarrow> commitment \<Rightarrow> int option" where
  "days_until tz now c =
     map_option (\<lambda>t. round_div (tz_utc tz (MS_DAY * local_day tz t) - tz_utc tz (MS_DAY * local_day tz now)) MS_DAY)
       (getTime tz (date_arg (cm_targetDate c)))"

definition due_soon :: "time_zone \<Rightarrow> int \<Rightarrow> commitment \<Rightarrow> bool" where
  "due_soon tz now c \<longleftrightarrow>
     cm_status c \<noteq> Com_overdue \<and> cm_status c \<noteq> Com_fulfilled
     \<and> (case days_until tz now c of None \<Rightarrow> False | Some d \<Rightarrow> 0 \<le> d \<and> d \<le> 7)"

definition attentionItems :: "time_zone \<Rightarrow> int \<Rightarrow> summary_input \<Rightarrow> attention_item list" where
  "attentionItems tz now i =
     map (\<lambda>c. attention Att_critical ''Overdue commitment'' (due_text tz c))
       (filter (\<lambda>c. cm_status c = Com_overdue) (si_openCommitments i))
   @ map (\<lambda>c. attention Att_high ''Urgent case''
         (ai_caseId c @ '' at '' @ ai_stage c @ '' ('' @ int_str (ai_daysOpen c) @ '' days open)''))
       (filter (\<lambda>c. ai_priority c = Case_urgent) (si_activeCases i))
   @ (if si_beneficiaries i = Some []
      then [attention Att_high ''No beneficiaries'' ''No beneficiary designations on file''] else [])
   @ (if si_dataQualityIssueCount i > 0
      then [attention Att_medium ''Data quality'' (nat_str (si_dataQualityIssueCount i) @ '' issue''
              @ plural (\<not> si_dataQualityIssueCount i > 1) @ '' flagged for review'')] else [])
   @ map (\<lambda>c. attention Att_medium ''Commitment due soon'' (due_text tz c))
       (filter (due_soon tz now) (si_openCommitments i))
   @ (case si_beneficiaries i of
        Some (b # bs) \<Rightarrow> [attention Att_info ''Beneficiaries on file''
          (nat_str (length (b # bs)) @ '' beneficiary designation'' @ plural (bs = []) @ '' on file'')]
      | _ \<Rightarrow> [])
   @ (if si_dataQualityIssueCount i = 0
      then [attention Att_info ''No DQ issues'' ''No data quality issues''] else [])"

definition generateMemberSummary ::
  "time_zone \<Rightarrow> int \<Rightarrow> summary_input \<Rightarrow> string \<times> attention_item list" where
  "generateMemberSummary tz now i = (summary_context i, attentionItems tz now i)"

subsection \<open>hooks/useMemberDashboard.ts\<close>

definition activeCaseItems :: "retirement_case list \<Rightarrow> active_case_item list" where
  "activeCaseItems cases =
     map (\<lambda>c. \<lparr>ai_caseId = rc_caseId c, ai_stage = rc_stage c, ai_priority = rc_priority c,
               ai_daysOpen = rc_daysOpen c, ai_stageIdx = Some (rc_stageIdx c),
               ai_totalStages = Some 7\<rparr>) cases"

definition openCommitments :: "commitment list option \<Rightarrow> commitment list" where
  "openCommitments cs =
     filter (\<lambda>c. cm_status c \<in> {Com_pending, Com_in_progress, Com_overdue}) (coalesce cs [])"

record dashboard_data =
  dd_member :: "member option"
  dd_serviceCredit :: "service_credit_summary option"
  dd_eligibility :: "eligibility_result option"
  dd_beneficiaries :: "beneficiary list option"
  dd_cases :: "retirement_case list option"
  dd_commitments :: "commitment list option"
  dd_dqIssues :: nat

definition dashboard_summary ::
  "time_zone \<Rightarrow> int \<Rightarrow> dashboard_data \<Rightarrow> (string \<times> attention_item list) option" where
  "dashboard_summary tz now d =
     map_option (\<lambda>m. generateMemberSummary tz now
       \<lparr>si_member = m, si_serviceCredit = dd_serviceCredit d, si_eligibility = dd_eligibility d,
        si_beneficiaries = dd_beneficiaries d, si_activeCases = activeCaseItems (coalesce (dd_cases d) []),
        si_openCommitments = openCommitments (dd_commitments d),
        si_dataQualityIssueCount = dd_dqIssues d\<rparr>) (dd_member d)"

text \<open>The change-detection hash of the logged input: a signed 32-bit word in base 36.\<close>

definition summary_hash_step :: "32 word \<Rightarrow> char \<Rightarrow> 32 word" where
  "summary_hash_step hash c = push_bit 5 hash - hash + word_of_nat (of_char c)"

definition inputHash :: "string \<Rightarrow> string" where
  "inputHash inputStr =
     (let h = sint (foldl summary_hash_step 0 inputStr) in
      (if h < 0 then ''-'' else []) @ nat_to_base 36 (nat \<bar>h\<bar>))"

subsection \<open>hooks/useCSRContext.ts\<close>

record csr_card =
  cr_icon :: string
  cr_title :: string
  cr_content :: string
  cr_highlight :: bool

definition formatYearsMonths :: "number \<Rightarrow> string" where
  "formatYearsMonths y = int_str (whole_years y) @ ''y '' @ int_str (months_of y) @ ''m''"

text \<open>Whole days of elapsed time, not calendar days; an invalid date is never today nor yesterday.\<close>

definition formatRelativeDate :: "time_zone \<Rightarrow> int \<Rightarrow> string \<Rightarrow> string" where
  "formatRelativeDate tz now date =
     (case getTime tz date of
        None \<Rightarrow> ''Invalid Date''
      | Some t \<Rightarrow>
          let diffDays = (now - t) div MS_DAY in
          if diffDays = 0 then ''today'' else if diffDays = 1 then ''yesterday''
          else if diffDays < 30 then int_str diffDays @ ''d ago''
          else short_day (ymd (local_day tz t)))"

record csr_contribution =
  ce_total_ee :: number
  ce_total_er :: number

record csr_contact =
  cc_contactId :: string
  cc_primaryPhone :: "string option"
  cc_primaryEmail :: "string option"

record csr_data =
  cs_cases :: "retirement_case list option"
  cs_entries :: "timeline_entry list option"
  cs_beneficiaries :: "beneficiary list option"
  cs_eligibility :: "eligibility_result option"
  cs_serviceCredit :: "service_credit_summary option"
  cs_contributions :: "csr_contribution option"
  cs_contact :: "csr_contact option"

definition plural_nat :: "nat \<Rightarrow> string" where
  "plural_nat n = (if n \<noteq> 1 then ''s'' else [])"

definition csr_activeCases :: "csr_data \<Rightarrow> retirement_case list" where
  "csr_activeCases d = filter (\<lambda>c. rc_status c = ''active'' \<or> rc_status c = ''open'') (coalesce (cs_cases d) [])"

definition csr_highPriority :: "csr_data \<Rightarrow> retirement_case list" where
  "csr_highPriority d =
     filter (\<lambda>c. rc_priority c = Case_urgent \<or> rc_priority c = Case_high) (csr_activeCases d)"

definition openTaskContent :: "csr_data \<Rightarrow> string" where
  "openTaskContent d =
     (let n = length (csr_activeCases d); h = length (csr_highPriority d) in
      if n > 0 then nat_str n @ '' active task'' @ plural_nat n
        @ (if h > 0 then '' ('' @ nat_str h @ '' high-priority)'' else [])
      else ''No open tasks'')"

definition recentActivityContent :: "time_zone \<Rightarrow> int \<Rightarrow> csr_data \<Rightarrow> string" where
  "recentActivityContent tz now d = (case coalesce (cs_entries d) [] of
       [] \<Rightarrow> ''No recent activity''
     | e # _ \<Rightarrow> coalesce (te_summary e) (channel_text (te_channel e)) @ '' - ''
         @ formatRelativeDate tz now (te_startedAt e))"

definition middle_dot :: string where
  "middle_dot = CHR '' '' # CHR 0xC2 # CHR 0xB7 # '' ''"

definition benefitContent :: "csr_data \<Rightarrow> string" where
  "benefitContent d = (case cs_eligibility d of
       None \<Rightarrow> ''Eligibility not yet evaluated''
     | Some e \<Rightarrow>
         (if er_best_eligible_type e = [] then ''Not eligible''
          else cap_words False (underscores_out (er_best_eligible_type e)))
         @ middle_dot
         @ (if er_vested e then
              (case er_reduction_pct e of
                 Some p \<Rightarrow> if p > 0 then int_str (js_round (p * 100)) @ ''% reduction'' else ''Vested''
               | None \<Rightarrow> ''Vested'')
            else ''Not yet vested''))"

definition serviceCreditContent :: "csr_data \<Rightarrow> string" where
  "serviceCreditContent d = (case cs_serviceCredit d of
       None \<Rightarrow> ''No service credit data''
     | Some sc \<Rightarrow> formatYearsMonths (scs_earned_years sc) @ '' earned''
         @ (if scs_purchased_years sc > 0 then '' + '' @ formatYearsMonths (scs_purchased_years sc) @ '' purchased''
            else []))"

definition contributionsContent :: "csr_data \<Rightarrow> string" where
  "contributionsContent d = (case cs_contributions d of
       None \<Rightarrow> ''No contribution data''
     | Some c \<Rightarrow> locale_currency 0 (ce_total_ee c + ce_total_er c))"

definition primaryBene :: "csr_data \<Rightarrow> beneficiary option" where
  "primaryBene d =
     List.find (\<lambda>b. bn_bene_type b = ''primary'' \<or> bn_bene_type b = ''Primary'') (coalesce (cs_beneficiaries d) [])"

definition beneContent :: "csr_data \<Rightarrow> string" where
  "beneContent d =
     (let n = length (coalesce (cs_beneficiaries d) []) in
      if n = 0 then ''No beneficiary on file '' @ [CHR 0xE2, CHR 0x9A, CHR 0xA0]
      else case primaryBene d of
        Some b \<Rightarrow> bn_first_name b @ '' '' @ bn_last_name b @ '' ('' @ coalesce (bn_relationship b) ''undefined'' @ '')''
      | None \<Rightarrow> nat_str n @ '' beneficiar'' @ (if n \<noteq> 1 then ''ies'' else ''y'') @ '' on file'')"

definition casesContent :: "csr_data \<Rightarrow> string" where
  "casesContent d =
     (let n = length (csr_activeCases d) in
      if n > 0 then nat_str n @ '' active case'' @ plural_nat n @ '' on file'' else ''No active cases'')"

definition contactContent :: "csr_data \<Rightarrow> string" where
  "contactContent d = (case cs_contact d of
       None \<Rightarrow> ''No contact info''
     | Some c \<Rightarrow>
         let parts = filter (\<lambda>s. s \<noteq> []) [or_str (cc_primaryPhone c) [], or_str (cc_primaryEmail c) []] in
         if parts = [] then ''No contact info'' else join_with middle_dot parts)"

definition card_of :: "string \<Rightarrow> string \<Rightarrow> string \<Rightarrow> bool \<Rightarrow> csr_card" where
  "card_of icon title content highlight =
     \<lparr>cr_icon = icon, cr_title = title, cr_content = content, cr_highlight = highlight\<rparr>"

definition csr_enabled :: "int option \<Rightarrow> bool" where
  "csr_enabled memberId = (case memberId of None \<Rightarrow> False | Some i \<Rightarrow> i > 0)"

definition csr_cards :: "time_zone \<Rightarrow> int \<Rightarrow> int option \<Rightarrow> csr_data \<Rightarrow> csr_card list" where
  "csr_cards tz now memberId d =
     (if \<not> csr_enabled memberId then []
      else [card_of ''tasks'' ''Open Tasks'' (openTaskContent d) (csr_highPriority d \<noteq> []),
            card_of ''activity'' ''Recent Activity'' (recentActivityContent tz now d) False,
            card_of ''benefit'' ''Benefit Estimate'' (benefitContent d) False,
            card_of ''service'' ''Service Credit'' (serviceCreditContent d) False,
            card_of ''contributions'' ''Contributions'' (contributionsContent d) False,
            card_of ''beneficiary'' ''Beneficiary Info'' (beneContent d) (coalesce (cs_beneficiaries d) [] = []),
            card_of ''cases'' ''Cases'' (casesContent d) False,
            card_of ''contact'' ''Contact Info'' (contactContent d) False])"

subsection \<open>The attention list\<close>

fun severity_rank :: "attention_severity \<Rightarrow> nat" where
  "severity_rank Att_critical = 0"
| "severity_rank Att_high = 1"
| "severity_rank Att_medium = 2"
| "severity_rank Att_info = 3"

definition of_severity :: "attention_severity \<Rightarrow> attention_item list \<Rightarrow> attention_item list" where
  "of_severity sev items = filter (\<lambda>a. at_severity a = sev) items"

lemma attention_severity [simp]: "at_severity (attention sev l d) = sev"
  by (simp add: attention_def)

lemma of_severity_simps [simp]:
  "of_severity sev [] = []" "of_severity sev (xs @ ys) = of_severity sev xs @ of_severity sev ys"
  "of_severity sev (attention sev' l d # xs) =
     (if sev' = sev then attention sev' l d # of_severity sev xs else of_severity sev xs)"
  "of_severity sev (map (\<lambda>c. attention sev' l (f c)) cs) =
     (if sev' = sev then map (\<lambda>c. attention sev' l (f c)) cs else [])"
  by (simp_all add: of_severity_def filter_map comp_def)

lemma one_block: "list_all (\<lambda>a. at_severity a = sev) xs \<Longrightarrow>
   sorted_wrt (\<le>) (map (severity_rank \<circ> at_severity) xs)"
  by (induction xs) (auto simp: list_all_iff)

lemma block_items: "list_all (\<lambda>a. at_severity a = sev) xs \<Longrightarrow>
   of_severity sev' xs = (if sev' = sev then xs else [])"
  by (induction xs) (auto simp: of_severity_def)

lemma sorted_blocks:
  "sorted_wrt (\<le>) (map r xs) \<Longrightarrow> sorted_wrt (\<le>) (map r ys) \<Longrightarrow>
   (\<forall>x\<in>set xs. \<forall>y\<in>set ys. r x \<le> (r y :: nat)) \<Longrightarrow> sorted_wrt (\<le>) (map r (xs @ ys))"
  by (auto simp: sorted_wrt_append)


subsection \<open>Figures\<close>

lemma floor_half: "\<lfloor>of_int k + 1/2 :: real\<rfloor> = k"
  by linarith

lemma toFixed_whole: "toFixed 0 (real k) = nat_str k"
  using floor_half[of "int k"] by (simp add: toFixed_def scaled_def sign_text_def fraction_text_def Let_def)

text \<open>
  C37: The same reduction is printed a hundred times too large in two of three places. The service
  sends it in per cent; the member summary prints it so, the letter and the card beside a call
  multiply it by a hundred again: 30 per cent become 3000.
\<close>

theorem reduction_hundredfold:
  assumes "si_eligibility i = Some e" "context_eligibility ctx = Some e" "cs_eligibility d = Some e"
    "er_reduction_pct e = Some (real k)" "0 < k" "er_vested e"
    "er_best_eligible_type e \<noteq> ''NONE''" "er_best_eligible_type e \<noteq> []"
  shows "eligPart i = eligibilityLabel (er_best_eligible_type e) @ '' with '' @ nat_str k @ ''% reduction''
   \<and> resolve_field tz ctx ''reduction_percent'' = nat_str (100 * k) @ ''%''
   \<and> benefitContent d = cap_words False (underscores_out (er_best_eligible_type e)) @ middle_dot
        @ nat_str (100 * k) @ ''% reduction''"
proof -
  have h: "real k * 100 = real (100 * k)" by simp
  have letter: "resolve_field tz ctx ''reduction_percent'' = nat_str (100 * k) @ ''%''"
    using assms(2,4) toFixed_whole[of "100 * k"]
    by (simp add: resolve_field_def RESOLVERS_def show_opt_def h del: of_nat_mult)
  have "js_round (real k * 100) = int (100 * k)"
    unfolding h js_round_def using floor_half[of "int (100 * k)"] by simp
  then have "int_str (js_round (real k * 100)) = nat_str (100 * k)"
    by (simp add: int_str_def nat_mult_distrib)
  then show ?thesis
    using assms letter by (simp add: eligPart_def benefitContent_def toFixed_whole)
qed

definition BENE_TYPES :: "string list" where
  "BENE_TYPES = [''PRIMARY'', ''CONTINGENT'', ''DEATH_BENEFIT'']"

text \<open>
  The card on beneficiaries never names the primary one. The member table holds the types in
  upper case and the client does not rewrite them, the card looks for them in other spellings: a
  member with designations is shown their number only.
\<close>

theorem beneficiary_card_counts:
  assumes "cs_beneficiaries d = Some bs" "bs \<noteq> []" "list_all (\<lambda>b. bn_bene_type b \<in> set BENE_TYPES) bs"
  shows "beneContent d = nat_str (length bs) @ '' beneficiar'' @ (if length bs \<noteq> 1 then ''ies'' else ''y'') @ '' on file''"
proof -
  have "primaryBene d = None"
    using assms by (auto simp: primaryBene_def find_None_iff list_all_iff BENE_TYPES_def)
  then show ?thesis using assms(1,2) by (simp add: beneContent_def)
qed


definition example_eligibility :: eligibility_result where
  "example_eligibility =
     \<lparr>er_member_id = 10002, er_retirement_date = ''2026-05-01'', er_age_at_retirement = None, er_tier = 2,
      er_tier_source = [], er_vested = True, er_rule_of_n_sum = None, er_service_credit = None,
      er_evaluations = [], er_best_eligible_type = ''EARLY'', er_reduction_pct = Some (real 30),
      er_reduction_factor = 7/10\<rparr>"

definition example_csr :: csr_data where
  "example_csr = \<lparr>cs_cases = None, cs_entries = None,
     cs_beneficiaries = Some [\<lparr>bn_bene_id = 1, bn_member_id = 10001, bn_bene_type = ''PRIMARY'',
       bn_first_name = ''Elena'', bn_last_name = ''Martinez'', bn_relationship = Some ''SPOUSE'',
       bn_dob = None, bn_alloc_pct = 100, bn_eff_date = ''1999-08-15'', bn_end_date = None\<rparr>],
     cs_eligibility = Some example_eligibility, cs_serviceCredit = None, cs_contributions = None,
     cs_contact = None\<rparr>"

definition example_member :: member where
  "example_member = \<lparr>mb_member_id = 10002, mb_first_name = ''Jennifer'', mb_last_name = ''Kim'',
     mb_dob = [], mb_hire_date = None, mb_status_code = ''A'', mb_tier_code = Some 2, mb_tier = None,
     mb_dept_name = None, mb_department = None\<rparr>"

definition example_input :: summary_input where
  "example_input = \<lparr>si_member = example_member, si_serviceCredit = None,
     si_eligibility = Some example_eligibility, si_beneficiaries = None, si_activeCases = [],
     si_openCommitments = [], si_dataQualityIssueCount = 0\<rparr>"

definition letter_calculation :: "eligibility_result \<Rightarrow> benefit_calc_result" where
  "letter_calculation e =
     \<lparr>bc_member_id = 10002, bc_retirement_date = None, bc_tier = None, bc_eligibility = Some e,
      bc_ams = \<lparr>ams_window_months = 0, ams_window_start = [], ams_window_end = [], ams_amount = 0,
        ams_leave_payout_included = False, ams_leave_payout_amount = 0, ams_leave_payout_ams_impact = 0\<rparr>,
      bc_formula = \<lparr>fd_ams = 0, fd_multiplier = 0, fd_multiplier_pct = [], fd_service_years = 0,
        fd_service_type = [], fd_gross_benefit = 0, fd_formula_display = []\<rparr>,
      bc_reduction = \<lparr>rdn_applies = True, rdn_retirement_type = [], rdn_age_at_retirement = 0,
        rdn_years_under_65 = 0, rdn_rate_per_year = 0, rdn_total_reduction_pct = 0,
        rdn_reduction_factor = None, rdn_reduced_benefit = 0, rdn_source_reference = []\<rparr>,
      bc_maximum_benefit = None, bc_payment_options = None, bc_dro = None\<rparr>"

theorem reduction_hundredfold_witness:
  "eligPart example_input = ''Early Retirement with '' @ nat_str 30 @ ''% reduction''
   \<and> resolve_field (fixed_zone 0) \<lparr>mc_member = None, mc_calculation = Some (letter_calculation example_eligibility),
        mc_caseData = None\<rparr> ''reduction_percent'' = nat_str 3000 @ ''%''"
  using reduction_hundredfold[of example_input example_eligibility
      "\<lparr>mc_member = None, mc_calculation = Some (letter_calculation example_eligibility), mc_caseData = None\<rparr>"
      example_csr 30 "fixed_zone 0"]
  by (simp add: example_input_def example_csr_def context_eligibility_def letter_calculation_def
      example_eligibility_def eligibilityLabel_def or_str_def)

theorem beneficiary_card_counts_witness:
  "beneContent example_csr = nat_str 1 @ '' beneficiary on file''"
  using beneficiary_card_counts[of example_csr]
  by (simp add: example_csr_def BENE_TYPES_def)

end
