(* ===== verification/MigrationQueries.thy ===== *)
theory MigrationQueries imports QueryCache MigrationApi begin

text \<open>
  The migration module's data hooks, src/frontend/src/hooks/migration/*.ts and
  hooks/useMigrationNotifications.ts: one definition per hook, the query or the mutation it
  registers. A mutation takes its variables as arguments; a page or limit with a default is an
  option.
\<close>

text \<open>\<open>Array.isArray(data) ? data : data?.f ?? []\<close>.\<close>

definition listed :: "string \<Rightarrow> json \<Rightarrow> json" where
  "listed f d = (case d of
     JArr xs \<Rightarrow> d
   | _ \<Rightarrow> (if jget d f = JUndef \<or> jget d f = JNull then JArr [] else jget d f))"

subsection \<open>hooks/migration/useAuditReport.ts\<close>

definition useAuditLog :: "string \<Rightarrow> fields option \<Rightarrow> query_spec" where
  "useAuditLog engagementId filters =
     query_of [JStr ''migration'', JStr ''audit'', JStr engagementId, jopt JObj filters]
       (migrationAPI_getAuditLog engagementId filters)
       (engagementId \<noteq> [])"

definition useAuditExportCount :: "string \<Rightarrow> fields \<Rightarrow> query_spec" where
  "useAuditExportCount engagementId filters =
     query_of [JStr ''migration'', JStr ''audit-export-count'', JStr engagementId, JObj filters]
       (migrationAPI_getAuditExportCount engagementId filters)
       (engagementId \<noteq> [])"

definition useExportAuditUrl :: "string \<Rightarrow> fields \<Rightarrow> string \<Rightarrow> string" where
  "useExportAuditUrl engagementId filters format1 =
     migrationAPI_exportAuditUrl engagementId filters format1"

definition useRetentionPolicy :: "string \<Rightarrow> query_spec" where
  "useRetentionPolicy engagementId =
     query_of [JStr ''migration'', JStr ''retention-policy'', JStr engagementId]
       (migrationAPI_getRetentionPolicy engagementId)
       (engagementId \<noteq> [])"

definition useSetRetentionPolicy :: "string \<Rightarrow> json \<Rightarrow> mutation_spec" where
  "useSetRetentionPolicy engagementId req =
     mutation_of (migrationAPI_setRetentionPolicy engagementId req)
       [[JStr ''migration'', JStr ''retention-policy'', JStr engagementId]]"

definition useGenerateReport :: "string \<Rightarrow> string \<Rightarrow> mutation_spec" where
  "useGenerateReport engagementId reportType =
     mutation_of (migrationAPI_generateReport engagementId reportType)
       [[JStr ''migration'', JStr ''reports'', JStr engagementId]]"

definition useReportStatus :: "string \<Rightarrow> string option \<Rightarrow> query_spec" where
  "useReportStatus engagementId reportId =
     while_status [''PENDING'', ''GENERATING''] 3000 (query_of [JStr ''migration'', JStr
         ''report-status'', JStr engagementId, jopt JStr reportId]
       (migrationAPI_getReportStatus engagementId (shown reportId))
       (engagementId \<noteq> [] \<and> set_str reportId))"

definition useReports :: "string \<Rightarrow> query_spec" where
  "useReports engagementId =
     query_of [JStr ''migration'', JStr ''reports'', JStr engagementId]
       (migrationAPI_listReports engagementId)
       (engagementId \<noteq> [])"

definition useDownloadReportUrl :: "string \<Rightarrow> string \<Rightarrow> string" where
  "useDownloadReportUrl engagementId reportId =
     migrationAPI_downloadReportUrl engagementId reportId"

subsection \<open>hooks/migration/useBatch.ts\<close>

definition useExceptionClusters :: "string \<Rightarrow> query_spec" where
  "useExceptionClusters batchId =
     query_of [JStr ''migration'', JStr ''clusters'', JStr batchId]
       (migrationAPI_listExceptionClusters batchId)
       (batchId \<noteq> [])"

definition useApplyCluster :: "string \<Rightarrow> json \<Rightarrow> mutation_spec" where
  "useApplyCluster clusterId req =
     mutation_of (migrationAPI_applyCluster clusterId req)
       [[JStr ''migration'', JStr ''clusters'']]"

definition useExecuteBatch :: "string \<Rightarrow> mutation_spec" where
  "useExecuteBatch batchId =
     mutation_of (migrationAPI_executeBatch batchId)
       [[JStr ''migration'', JStr ''batch''],
        [JStr ''migration'', JStr ''engagement'']]"

definition useRetransformBatch :: "string \<Rightarrow> mutation_spec" where
  "useRetransformBatch batchId =
     mutation_of (migrationAPI_retransformBatch batchId)
       [[JStr ''migration'', JStr ''engagement'']]"

definition useReconcileBatch :: "string \<Rightarrow> mutation_spec" where
  "useReconcileBatch batchId =
     mutation_of (migrationAPI_reconcileBatch batchId)
       [[JStr ''migration'', JStr ''reconciliation'']]"

definition useBatches :: "string \<Rightarrow> query_spec" where
  "useBatches engagementId =
     query_of [JStr ''migration'', JStr ''batches'', JStr engagementId]
       (migrationAPI_listBatches engagementId)
       (engagementId \<noteq> [])"

definition useBatch :: "string \<Rightarrow> query_spec" where
  "useBatch batchId =
     while_status [''PENDING'', ''RUNNING''] 5000 (query_of [JStr ''migration'', JStr ''batch'',
         JStr batchId]
       (migrationAPI_getBatch batchId)
       (batchId \<noteq> []))"

definition useCreateBatch :: "string \<Rightarrow> json \<Rightarrow> mutation_spec" where
  "useCreateBatch engagementId req =
     mutation_of (migrationAPI_createBatch engagementId req)
       [[JStr ''migration'', JStr ''batches'', JStr engagementId],
        [JStr ''migration'', JStr ''dashboard'']]"

definition useExceptions :: "string \<Rightarrow> query_spec" where
  "useExceptions batchId =
     query_of [JStr ''migration'', JStr ''exceptions'', JStr batchId]
       (migrationAPI_listExceptions batchId)
       (batchId \<noteq> [])"

subsection \<open>hooks/migration/useCertification.ts\<close>

definition useCertification :: "string \<Rightarrow> query_spec" where
  "useCertification engagementId =
     query_of [JStr ''migration'', JStr ''certification'', JStr engagementId]
       (migrationAPI_getCertification engagementId)
       (engagementId \<noteq> [])"

definition useCertifications :: "string \<Rightarrow> int option \<Rightarrow> query_spec" where
  "useCertifications engagementId page =
     query_of [JStr ''migration'', JStr ''certifications'', JStr engagementId, jint (coalesce
         page 1)]
       (migrationAPI_listCertifications engagementId (Some (coalesce page 1)))
       (engagementId \<noteq> [])"

definition useCreateCertification :: "string \<Rightarrow> json \<Rightarrow> mutation_spec" where
  "useCreateCertification engagementId body =
     mutation_of (migrationAPI_certifyEngagement engagementId body)
       [[JStr ''migration'', JStr ''certification'', JStr engagementId],
        [JStr ''migration'', JStr ''certifications'', JStr engagementId],
        [JStr ''migration'', JStr ''engagement'', JStr engagementId]]"

definition useCertifyEngagement :: "string \<Rightarrow> json \<Rightarrow> mutation_spec" where
  "useCertifyEngagement engagementId body =
     mutation_of (migrationAPI_certifyEngagement engagementId body)
       [[JStr ''migration'', JStr ''certification'', JStr engagementId],
        [JStr ''migration'', JStr ''certifications'', JStr engagementId],
        [JStr ''migration'', JStr ''engagement'', JStr engagementId]]"

subsection \<open>hooks/migration/useCutover.ts\<close>

definition useCutoverPlan :: "string option \<Rightarrow> query_spec" where
  "useCutoverPlan engagementId =
     query_of [JStr ''migration'', JStr ''cutover-plan'', jopt JStr engagementId]
       (migrationAPI_getCutoverPlan (shown engagementId))
       (set_str engagementId)"

definition useCreateCutoverPlan :: "string \<Rightarrow> json \<Rightarrow> mutation_spec" where
  "useCreateCutoverPlan engagementId req =
     mutation_of (migrationAPI_createCutoverPlan engagementId req)
       [[JStr ''migration'', JStr ''cutover-plan'', JStr engagementId]]"

definition useUpdateCutoverStep :: "string \<Rightarrow> string \<Rightarrow> json \<Rightarrow> mutation_spec" where
  "useUpdateCutoverStep engagementId stepId req =
     mutation_of (migrationAPI_updateCutoverStep engagementId stepId req)
       [[JStr ''migration'', JStr ''cutover-plan'', JStr engagementId]]"

definition useRollback :: "string option \<Rightarrow> query_spec" where
  "useRollback engagementId =
     query_of [JStr ''migration'', JStr ''rollback'', jopt JStr engagementId]
       (migrationAPI_getRollback (shown engagementId))
       (set_str engagementId)"

definition useInitiateRollback :: "string \<Rightarrow> json \<Rightarrow> mutation_spec" where
  "useInitiateRollback engagementId req =
     mutation_of (migrationAPI_initiateRollback engagementId req)
       [[JStr ''migration'', JStr ''rollback'', JStr engagementId],
        [JStr ''migration'', JStr ''engagement'', JStr engagementId],
        [JStr ''migration'', JStr ''cutover-plan'', JStr engagementId]]"

definition useGoLiveStatus :: "string option \<Rightarrow> query_spec" where
  "useGoLiveStatus engagementId =
     query_of [JStr ''migration'', JStr ''go-live'', jopt JStr engagementId]
       (migrationAPI_getGoLiveStatus (shown engagementId))
       (set_str engagementId)"

definition useConfirmGoLive :: "string \<Rightarrow> json \<Rightarrow> mutation_spec" where
  "useConfirmGoLive engagementId req =
     mutation_of (migrationAPI_confirmGoLive engagementId req)
       [[JStr ''migration'', JStr ''go-live'', JStr engagementId],
        [JStr ''migration'', JStr ''engagement'', JStr engagementId],
        [JStr ''migration'', JStr ''engagements''],
        [JStr ''migration'', JStr ''dashboard'']]"

subsection \<open>hooks/migration/useDashboard.ts\<close>

definition useDashboardSummary :: query_spec where
  "useDashboardSummary =
     query_of [JStr ''migration'', JStr ''dashboard'']
       (migrationAPI_getDashboardSummary) True"

definition useSystemHealth :: query_spec where
  "useSystemHealth =
     every 30000 (query_of [JStr ''migration'', JStr ''health'']
       (migrationAPI_getSystemHealth) True)"

subsection \<open>hooks/migration/useDiscovery.ts\<close>

definition useConfigureSource :: "string \<Rightarrow> json \<Rightarrow> mutation_spec" where
  "useConfigureSource engagementId conn =
     mutation_of (migrationAPI_configureSource engagementId conn)
       [[JStr ''migration'', JStr ''engagement'', JStr engagementId]]"

definition useDiscoverTables :: "string \<Rightarrow> bool option \<Rightarrow> query_spec" where
  "useDiscoverTables engagementId enabled =
     query_of [JStr ''migration'', JStr ''source-tables'', JStr engagementId]
       (migrationAPI_discoverTables engagementId)
       (coalesce enabled False)"

definition useProfileEngagement :: "string \<Rightarrow> json \<Rightarrow> mutation_spec" where
  "useProfileEngagement engagementId req =
     mutation_of (migrationAPI_profileEngagement engagementId req)
       [[JStr ''migration'', JStr ''engagement'', JStr engagementId],
        [JStr ''migration'', JStr ''profiles'', JStr engagementId]]"

definition useProfiles :: "string \<Rightarrow> query_spec" where
  "useProfiles engagementId =
     query_of [JStr ''migration'', JStr ''profiles'', JStr engagementId]
       (migrationAPI_listProfiles engagementId)
       (engagementId \<noteq> [])"

definition useApproveBaseline :: "string \<Rightarrow> mutation_spec" where
  "useApproveBaseline engagementId =
     mutation_of (migrationAPI_approveBaseline engagementId)
       [[JStr ''migration'', JStr ''engagement'', JStr engagementId],
        [JStr ''migration'', JStr ''profiles'', JStr engagementId]]"

subsection \<open>hooks/migration/useDrift.ts\<close>

definition useDriftRuns :: "string option \<Rightarrow> int option \<Rightarrow> query_spec" where
  "useDriftRuns engagementId page =
     query_of [JStr ''migration'', JStr ''drift-runs'', jopt JStr engagementId, jint (coalesce
         page 1)]
       (migrationAPI_getDriftRuns (shown engagementId) (Some [(''page'', jint (coalesce page 1)),
         (''per_page'', jint 20)]))
       (set_str engagementId)"

definition useDriftRecords ::
  "string option \<Rightarrow> string option \<Rightarrow> string option \<Rightarrow> int option \<Rightarrow> query_spec" where
  "useDriftRecords engagementId runId severity page =
     query_of [JStr ''migration'', JStr ''drift-records'', jopt JStr engagementId, jopt JStr
         runId, jopt JStr severity, jint (coalesce page 1)]
       (migrationAPI_getDriftRecords (shown engagementId) (shown runId) (Some [(''severity'',
         jopt JStr severity), (''page'', jint (coalesce page 1)), (''per_page'', jint 50)]))
       (set_str engagementId \<and> set_str runId)"

definition useDriftSummary :: "string option \<Rightarrow> query_spec" where
  "useDriftSummary engagementId =
     stale_for 30000 (query_of [JStr ''migration'', JStr ''drift-summary'', jopt JStr
         engagementId]
       (migrationAPI_getDriftSummary (shown engagementId))
       (set_str engagementId))"

definition useTriggerDriftDetection :: "string \<Rightarrow> mutation_spec" where
  "useTriggerDriftDetection engagementId =
     mutation_of (migrationAPI_triggerDriftDetection engagementId)
       [[JStr ''migration'', JStr ''drift-runs'', JStr engagementId],
        [JStr ''migration'', JStr ''drift-summary'', JStr engagementId]]"

definition useDriftSchedule :: "string option \<Rightarrow> query_spec" where
  "useDriftSchedule engagementId =
     query_of [JStr ''migration'', JStr ''drift-schedule'', jopt JStr engagementId]
       (migrationAPI_getDriftSchedule (shown engagementId))
       (set_str engagementId)"

subsection \<open>hooks/migration/useEngagement.ts\<close>

definition status_upper :: "json \<Rightarrow> json" where
  "status_upper d = (case d of
     JObj fs \<Rightarrow> JObj (spread fs [(''status'',
       (case jget d ''status'' of JStr s \<Rightarrow> JStr (to_upper s) | v \<Rightarrow> v))])
   | _ \<Rightarrow> d)"

definition each_status_upper :: "json \<Rightarrow> json" where
  "each_status_upper d = (case d of JArr xs \<Rightarrow> JArr (map status_upper xs) | _ \<Rightarrow> d)"

definition useEngagements :: query_spec where
  "useEngagements =
     reading each_status_upper (query_of [JStr ''migration'', JStr ''engagements'']
       (migrationAPI_listEngagements) True)"

definition useEngagement :: "string \<Rightarrow> query_spec" where
  "useEngagement ident =
     reading status_upper (query_of [JStr ''migration'', JStr ''engagement'', JStr ident]
       (migrationAPI_getEngagement ident)
       (ident \<noteq> []))"

definition useCreateEngagement :: "json \<Rightarrow> mutation_spec" where
  "useCreateEngagement req =
     mutation_of (migrationAPI_createEngagement req)
       [[JStr ''migration'', JStr ''engagements''],
        [JStr ''migration'', JStr ''dashboard'']]"

definition useUpdateEngagement :: "string \<Rightarrow> json \<Rightarrow> mutation_spec" where
  "useUpdateEngagement ident req =
     mutation_of (migrationAPI_updateEngagement ident req)
       [[JStr ''migration'', JStr ''engagement'', JStr ident],
        [JStr ''migration'', JStr ''engagements'']]"

definition useEvents :: "string \<Rightarrow> fields option \<Rightarrow> query_spec" where
  "useEvents engagementId params =
     query_of [JStr ''migration'', JStr ''events'', JStr engagementId, jopt JObj params]
       (migrationAPI_listEvents engagementId params)
       (engagementId \<noteq> [])"

subsection \<open>hooks/migration/useIntelligence.ts\<close>

definition useAttentionItems :: "string option \<Rightarrow> fields option \<Rightarrow> query_spec" where
  "useAttentionItems engagementId params =
     stale_for 15000 (query_of [JStr ''migration'', JStr ''attention'', jopt JStr engagementId,
         jopt JObj params]
       (migrationAPI_getAttentionItems (shown engagementId) params)
       (set_str engagementId))"

definition useAttentionSummary :: query_spec where
  "useAttentionSummary =
     stale_for 15000 (query_of [JStr ''migration'', JStr ''attention'', JStr ''summary'']
       (migrationAPI_getAttentionSummary) True)"

definition useAIRecommendations :: "string option \<Rightarrow> query_spec" where
  "useAIRecommendations engagementId =
     stale_for 60000 (query_of [JStr ''migration'', JStr ''ai'', JStr ''recommendations'', jopt
         JStr engagementId]
       (migrationAPI_getAIRecommendations (shown engagementId))
       (set_str engagementId))"

definition useBatchSizingRecommendation :: "string option \<Rightarrow> query_spec" where
  "useBatchSizingRecommendation engagementId =
     stale_for 60000 (query_of [JStr ''migration'', JStr ''ai'', JStr ''batch-sizing'', jopt JStr
         engagementId]
       (migrationAPI_getBatchSizingRecommendation (shown engagementId))
       (set_str engagementId))"

definition useRemediationRecommendations :: "string option \<Rightarrow> query_spec" where
  "useRemediationRecommendations engagementId =
     stale_for 60000 (query_of [JStr ''migration'', JStr ''ai'', JStr ''remediation'', jopt JStr
         engagementId]
       (migrationAPI_getRemediationRecommendations (shown engagementId))
       (set_str engagementId))"

definition useRootCauseAnalysis :: "string option \<Rightarrow> query_spec" where
  "useRootCauseAnalysis engagementId =
     stale_for 60000 (query_of [JStr ''migration'', JStr ''ai'', JStr ''root-cause'', jopt JStr
         engagementId]
       (migrationAPI_getRootCauseAnalysis (shown engagementId))
       (set_str engagementId))"

subsection \<open>hooks/migration/useJobs.ts\<close>

definition useCompare :: "string \<Rightarrow> string \<Rightarrow> query_spec" where
  "useCompare id1 id2 =
     query_of [JStr ''migration'', JStr ''compare'', JStr id1, JStr id2]
       (migrationAPI_compareEngagements id1 id2)
       (id1 \<noteq> [] \<and> id2 \<noteq> [])"

definition useJobs :: "string option \<Rightarrow> query_spec" where
  "useJobs engagementId =
     query_of [JStr ''migration'', JStr ''jobs'', jopt JStr engagementId]
       (migrationAPI_getJobs (shown engagementId) None)
       (set_str engagementId)"

definition useJobSummary :: "string option \<Rightarrow> query_spec" where
  "useJobSummary engagementId =
     query_of [JStr ''migration'', JStr ''job-summary'', jopt JStr engagementId]
       (migrationAPI_getJobSummary (shown engagementId))
       (set_str engagementId)"

subsection \<open>hooks/migration/useMapping.ts\<close>

definition useMappings :: "string \<Rightarrow> fields option \<Rightarrow> query_spec" where
  "useMappings engagementId params =
     query_of [JStr ''migration'', JStr ''mappings'', JStr engagementId, jopt JObj params]
       (migrationAPI_listMappings engagementId params)
       (engagementId \<noteq> [])"

definition useCodeMappings :: "string \<Rightarrow> query_spec" where
  "useCodeMappings engagementId =
     query_of [JStr ''migration'', JStr ''code-mappings'', JStr engagementId]
       (migrationAPI_listCodeMappings engagementId)
       (engagementId \<noteq> [])"

definition useGenerateMappings :: "string \<Rightarrow> json \<Rightarrow> mutation_spec" where
  "useGenerateMappings engagementId req =
     mutation_of (migrationAPI_generateMappings engagementId req)
       [[JStr ''migration'', JStr ''mappings'', JStr engagementId]]"

definition useUpdateMapping :: "string \<Rightarrow> string \<Rightarrow> json \<Rightarrow> mutation_spec" where
  "useUpdateMapping engagementId mappingId req =
     mutation_of (migrationAPI_updateMapping engagementId mappingId req)
       [[JStr ''migration'', JStr ''mappings'', JStr engagementId]]"

definition useAcknowledgeWarning :: "string \<Rightarrow> string \<Rightarrow> mutation_spec" where
  "useAcknowledgeWarning engagementId mappingId =
     mutation_of (migrationAPI_acknowledgeWarning engagementId mappingId)
       [[JStr ''migration'', JStr ''mappings'', JStr engagementId]]"

definition useMappingCorpusContext :: "string \<Rightarrow> string \<Rightarrow> query_spec" where
  "useMappingCorpusContext engagementId mappingId =
     stale_for 60000 (query_of [JStr ''migration'', JStr ''corpus'', JStr engagementId, JStr
         mappingId]
       (migrationAPI_getMappingCorpusContext engagementId mappingId)
       (engagementId \<noteq> [] \<and> mappingId \<noteq> []))"

subsection \<open>hooks/migration/usePhaseGate.ts\<close>

definition useGateStatus :: "string option \<Rightarrow> query_spec" where
  "useGateStatus engagementId =
     stale_for 30000 (query_of [JStr ''migration'', JStr ''gate-status'', jopt JStr engagementId]
       (migrationAPI_getGateStatus (shown engagementId))
       (set_str engagementId))"

definition useAdvancePhase :: "string \<Rightarrow> json \<Rightarrow> mutation_spec" where
  "useAdvancePhase engagementId req =
     mutation_of (migrationAPI_advancePhase engagementId req)
       [[JStr ''migration'', JStr ''engagement'', JStr engagementId],
        [JStr ''migration'', JStr ''gate-status'', JStr engagementId],
        [JStr ''migration'', JStr ''engagements''],
        [JStr ''migration'', JStr ''dashboard'']]"

definition useRegressPhase :: "string \<Rightarrow> json \<Rightarrow> mutation_spec" where
  "useRegressPhase engagementId req =
     mutation_of (migrationAPI_regressPhase engagementId req)
       [[JStr ''migration'', JStr ''engagement'', JStr engagementId],
        [JStr ''migration'', JStr ''gate-status'', JStr engagementId],
        [JStr ''migration'', JStr ''engagements'']]"

definition useGateHistory :: "string option \<Rightarrow> query_spec" where
  "useGateHistory engagementId =
     query_of [JStr ''migration'', JStr ''gate-history'', jopt JStr engagementId]
       (migrationAPI_getGateHistory (shown engagementId))
       (set_str engagementId)"

definition useGateEvaluation :: "string option \<Rightarrow> string option \<Rightarrow> query_spec" where
  "useGateEvaluation engagementId targetPhase =
     stale_for 30000 (query_of [JStr ''migration'', JStr ''gate-evaluation'', jopt JStr
         engagementId, jopt JStr targetPhase]
       (migrationAPI_evaluateGate (shown engagementId) (shown targetPhase))
       (set_str engagementId \<and> set_str targetPhase))"

subsection \<open>hooks/migration/useReconExecution.ts\<close>

definition useReconRuleSets :: "string \<Rightarrow> string option \<Rightarrow> query_spec" where
  "useReconRuleSets engagementId status =
     query_of [JStr ''migration'', JStr ''recon-rules'', JStr engagementId, jopt JStr status]
       (migrationAPI_listReconRuleSets engagementId (case status of None \<Rightarrow> None |
         Some v \<Rightarrow> if v = [] then None else Some [(''status'', JStr v)]))
       (engagementId \<noteq> [])"

definition useReconRuleSet :: "string \<Rightarrow> string \<Rightarrow> query_spec" where
  "useReconRuleSet engagementId rulesetId =
     query_of [JStr ''migration'', JStr ''recon-rule'', JStr engagementId, JStr rulesetId]
       (migrationAPI_getReconRuleSet engagementId rulesetId)
       (engagementId \<noteq> [] \<and> rulesetId \<noteq> [])"

definition useActiveReconRuleSet :: "string \<Rightarrow> query_spec" where
  "useActiveReconRuleSet engagementId =
     query_of [JStr ''migration'', JStr ''recon-rules'', JStr ''active'', JStr engagementId]
       (migrationAPI_getActiveReconRuleSet engagementId)
       (engagementId \<noteq> [])"

definition useCreateReconRuleSet :: "string \<Rightarrow> json \<Rightarrow> mutation_spec" where
  "useCreateReconRuleSet engagementId req =
     mutation_of (migrationAPI_createReconRuleSet engagementId req)
       [[JStr ''migration'', JStr ''recon-rules'', JStr engagementId]]"

definition useUpdateReconRuleSet :: "string \<Rightarrow> string \<Rightarrow> json \<Rightarrow> mutation_spec" where
  "useUpdateReconRuleSet engagementId rulesetId req =
     mutation_of (migrationAPI_updateReconRuleSet engagementId rulesetId req)
       [[JStr ''migration'', JStr ''recon-rules'', JStr engagementId],
        [JStr ''migration'', JStr ''recon-rule'', JStr engagementId]]"

definition useActivateReconRuleSet :: "string \<Rightarrow> string \<Rightarrow> mutation_spec" where
  "useActivateReconRuleSet engagementId rulesetId =
     mutation_of (migrationAPI_activateReconRuleSet engagementId rulesetId)
       [[JStr ''migration'', JStr ''recon-rules'', JStr engagementId],
        [JStr ''migration'', JStr ''recon-rule'', JStr engagementId]]"

definition useArchiveReconRuleSet :: "string \<Rightarrow> string \<Rightarrow> mutation_spec" where
  "useArchiveReconRuleSet engagementId rulesetId =
     mutation_of (migrationAPI_archiveReconRuleSet engagementId rulesetId)
       [[JStr ''migration'', JStr ''recon-rules'', JStr engagementId]]"

definition useReconRuleSetDiff :: "string \<Rightarrow> string \<Rightarrow> string \<Rightarrow> query_spec" where
  "useReconRuleSetDiff engagementId rulesetId compareToId =
     query_of [JStr ''migration'', JStr ''recon-rules'', JStr ''diff'', JStr engagementId, JStr
         rulesetId, JStr compareToId]
       (migrationAPI_getReconRuleSetDiff engagementId rulesetId compareToId)
       (engagementId \<noteq> [] \<and> rulesetId \<noteq> [] \<and> compareToId \<noteq> [])"

definition useReconExecutions :: "string \<Rightarrow> int option \<Rightarrow> query_spec" where
  "useReconExecutions engagementId page =
     query_of [JStr ''migration'', JStr ''recon-executions'', JStr engagementId, jopt jint page]
       (migrationAPI_listReconExecutions engagementId (case page of None \<Rightarrow> None |
         Some v \<Rightarrow> if v = 0 then None else Some [(''page'', jint v)]))
       (engagementId \<noteq> [])"

definition useReconExecution :: "string \<Rightarrow> string \<Rightarrow> query_spec" where
  "useReconExecution engagementId execId =
     query_of [JStr ''migration'', JStr ''recon-execution'', JStr engagementId, JStr execId]
       (migrationAPI_getReconExecution engagementId execId)
       (engagementId \<noteq> [] \<and> execId \<noteq> [])"

definition useReconExecutionMismatches :: "string \<Rightarrow> string \<Rightarrow> fields option \<Rightarrow> query_spec" where
  "useReconExecutionMismatches engagementId execId params =
     query_of [JStr ''migration'', JStr ''recon-mismatches'', JStr engagementId, JStr execId,
         jopt JObj params]
       (migrationAPI_getReconExecutionMismatches engagementId execId params)
       (engagementId \<noteq> [] \<and> execId \<noteq> [])"

definition useTriggerReconExecution :: "string \<Rightarrow> json \<Rightarrow> mutation_spec" where
  "useTriggerReconExecution engagementId req =
     mutation_of (migrationAPI_triggerReconExecution engagementId req)
       [[JStr ''migration'', JStr ''recon-executions'', JStr engagementId]]"

subsection \<open>hooks/migration/useReconciliation.ts\<close>

definition useReconciliation :: "string \<Rightarrow> query_spec" where
  "useReconciliation engagementId =
     reading (listed ''records'') (query_of [JStr ''migration'', JStr ''reconciliation'', JStr
         engagementId]
       (migrationAPI_getReconciliation engagementId)
       (engagementId \<noteq> []))"

definition useP1Issues :: "string \<Rightarrow> query_spec" where
  "useP1Issues engagementId =
     reading (listed ''p1_issues'') (query_of [JStr ''migration'', JStr ''p1-issues'', JStr
         engagementId]
       (migrationAPI_getP1Issues engagementId)
       (engagementId \<noteq> []))"

definition useReconciliationSummary :: "string \<Rightarrow> query_spec" where
  "useReconciliationSummary engagementId =
     query_of [JStr ''migration'', JStr ''recon-summary'', JStr engagementId]
       (migrationAPI_getReconciliationSummary engagementId)
       (engagementId \<noteq> [])"

definition useReconciliationByTier :: "string \<Rightarrow> int \<Rightarrow> query_spec" where
  "useReconciliationByTier engagementId tier =
     reading (listed ''records'') (query_of [JStr ''migration'', JStr ''recon-tier'', JStr
         engagementId, jint tier]
       (migrationAPI_getReconciliationByTier engagementId tier)
       (engagementId \<noteq> []))"

definition useReconciliationPatterns :: "string option \<Rightarrow> query_spec" where
  "useReconciliationPatterns engagementId =
     stale_for 60000 (query_of [JStr ''migration'', JStr ''reconciliation'', JStr ''patterns'',
         jopt JStr engagementId]
       (migrationAPI_getReconciliationPatterns (shown engagementId))
       (set_str engagementId))"

definition useResolvePattern :: "string \<Rightarrow> mutation_spec" where
  "useResolvePattern patternId =
     mutation_of (migrationAPI_resolvePattern patternId)
       [[JStr ''migration'', JStr ''patterns'']]"

subsection \<open>hooks/migration/useRisk.ts\<close>

definition useRisks :: "string option \<Rightarrow> query_spec" where
  "useRisks engagementId =
     query_of [JStr ''migration'', JStr ''risks'', jopt JStr engagementId]
       (migrationAPI_listRisks engagementId) True"

definition useCreateRisk :: "string \<Rightarrow> json \<Rightarrow> mutation_spec" where
  "useCreateRisk engagementId req =
     mutation_of (migrationAPI_createRisk engagementId req)
       [[JStr ''migration'', JStr ''risks'']]"

definition useUpdateRisk :: "string \<Rightarrow> json \<Rightarrow> mutation_spec" where
  "useUpdateRisk riskId req =
     mutation_of (migrationAPI_updateRisk riskId req)
       [[JStr ''migration'', JStr ''risks'']]"

definition useDeleteRisk :: "string \<Rightarrow> mutation_spec" where
  "useDeleteRisk riskId =
     mutation_of (migrationAPI_deleteRisk riskId)
       [[JStr ''migration'', JStr ''risks'']]"

subsection \<open>hooks/migration/useSchemaVersion.ts\<close>

definition useSchemaVersions :: "string option \<Rightarrow> query_spec" where
  "useSchemaVersions tenantId =
     query_of [JStr ''migration'', JStr ''schema-versions'', jopt JStr tenantId]
       (migrationAPI_getSchemaVersions (shown tenantId))
       (set_str tenantId)"

definition useSchemaVersion :: "string option \<Rightarrow> query_spec" where
  "useSchemaVersion versionId =
     query_of [JStr ''migration'', JStr ''schema-version'', jopt JStr versionId]
       (migrationAPI_getSchemaVersion (shown versionId))
       (set_str versionId)"

definition useCreateSchemaVersion :: "string \<Rightarrow> json \<Rightarrow> mutation_spec" where
  "useCreateSchemaVersion tenantId req =
     mutation_of (migrationAPI_createSchemaVersion tenantId req)
       [[JStr ''migration'', JStr ''schema-versions'', JStr tenantId]]"

definition useActivateSchemaVersion :: "string \<Rightarrow> string \<Rightarrow> mutation_spec" where
  "useActivateSchemaVersion versionId tenantId =
     mutation_of (migrationAPI_activateSchemaVersion versionId)
       [[JStr ''migration'', JStr ''schema-versions'', JStr tenantId]]"

definition useSchemaVersionDiff :: "string option \<Rightarrow> string option \<Rightarrow> query_spec" where
  "useSchemaVersionDiff versionId1 versionId2 =
     query_of [JStr ''migration'', JStr ''schema-diff'', jopt JStr versionId1, jopt JStr
         versionId2]
       (migrationAPI_getSchemaVersionDiff (shown versionId1) (shown versionId2))
       (set_str versionId1 \<and> set_str versionId2)"

subsection \<open>hooks/useMigrationNotifications.ts\<close>

definition useMigrationNotifications :: query_spec where
  "useMigrationNotifications =
     every 30000 (stale_for 10000 (query_of [JStr ''migration'', JStr ''notifications'']
       (migrationAPI_getNotifications) True))"

definition useMarkNotificationRead :: "string \<Rightarrow> mutation_spec" where
  "useMarkNotificationRead ident =
     mutation_of (migrationAPI_markNotificationRead ident)
       [[JStr ''migration'', JStr ''notifications'']]"

definition useMarkAllNotificationsRead :: mutation_spec where
  "useMarkAllNotificationsRead =
     mutation_of (migrationAPI_markAllNotificationsRead)
       [[JStr ''migration'', JStr ''notifications'']]"

end
