(* ===== verification/MigrationEvents.thy ===== *)
theory MigrationEvents imports MigrationQueries begin

text \<open>
  The live connection of the migration pages: \<open>useMigrationEvents\<close> of
  src/frontend/src/hooks/useMigrationEvents.ts. The hook's state and refs, the sockets and timers
  it has created in the browser, and its handlers as functions; what the browser and the page do
  to it is a step relation. A socket or a timer keeps the closure (engagement and token) it was
  created with, as the code's does. After \<open>close()\<close> a socket delivers its close event and no
  other. An event is the parsed message.
\<close>

type_synonym ws_closure = "string \<times> string option"

record ws_socket =
  sk_id :: nat
  sk_closure :: ws_closure
  sk_closing :: bool

record ws_timer =
  tm_id :: nat
  tm_closure :: ws_closure
  tm_delay :: nat

record ws_state =
  ws_engagementId :: "string option"
  ws_token :: "string option"
  ws_mounted :: bool
  ws_cleanup :: bool
  ws_connected :: bool
  ws_lastEvent :: "json option"
  ws_events :: "json list"
  ws_ref :: "nat option"
  ws_attempts :: nat
  ws_timerRef :: "nat option"
  ws_useFallback :: bool
  ws_invalidated :: "query_key list"
  ws_sockets :: "ws_socket list"
  ws_timers :: "ws_timer list"
  ws_fresh :: nat

definition MAX_RECONNECT_ATTEMPTS :: nat where "MAX_RECONNECT_ATTEMPTS = 5"
definition BASE_RECONNECT_DELAY :: nat where "BASE_RECONNECT_DELAY = 1000"
definition POLL_INTERVAL :: nat where "POLL_INTERVAL = 5000"

definition migration_key :: "string \<Rightarrow> query_key" where
  "migration_key s = [JStr ''migration'', JStr s]"

text \<open>The keys an event invalidates.\<close>

definition event_invalidations :: "string \<Rightarrow> query_key list" where
  "event_invalidations t =
     (if t \<in> {''batch_started'', ''batch_completed'', ''batch_failed'', ''batch_halted''}
        then map migration_key [''engagement'', ''dashboard'']
      else if t \<in> {''reconciliation_complete'', ''reconciliation_completed''}
        then map migration_key [''reconciliation'', ''recon-summary'', ''p1-issues'']
      else if t \<in> {''risk_detected'', ''risk_resolved'', ''risk_created'', ''risk_updated''}
        then map migration_key [''risks'']
      else if t \<in> {''engagement_status_changed'', ''phase_changed''}
        then map migration_key [''engagement'', ''engagements'', ''gate-status'', ''gate-history'']
      else if t = ''exception_cluster'' then map migration_key [''clusters'']
      else if t = ''mapping_agreement_updated'' then map migration_key [''mappings'']
      else if t \<in> {''job_started'', ''job_completed'', ''job_failed'', ''job_cancelled''}
        then map migration_key [''jobs'', ''job-summary'']
      else if t = ''recon_rules_activated'' then map migration_key [''recon-rules'', ''recon-rule'']
      else if t = ''recon_execution_completed''
        then map migration_key [''recon-executions'', ''recon-execution'', ''recon-mismatches'']
      else if t \<in> {''drift_detection_completed'', ''drift_detection_started''}
        then map migration_key [''drift-runs'', ''drift-summary'']
      else [])"

definition event_type :: "json \<Rightarrow> string" where
  "event_type ev = (case jget ev ''type'' of JStr t \<Rightarrow> t | _ \<Rightarrow> [])"

definition handleMessage :: "json \<Rightarrow> ws_state \<Rightarrow> ws_state" where
  "handleMessage ev s =
     s\<lparr>ws_lastEvent := Some ev, ws_events := take 100 (ev # ws_events s),
       ws_invalidated := rev (event_invalidations (event_type ev)) @ ws_invalidated s\<rparr>"

text \<open>The address of a socket, \<open>base\<close> being \<open>WS_BASE\<close>.\<close>

definition ws_url :: "string \<Rightarrow> ws_closure \<Rightarrow> string" where
  "ws_url base c =
     (if set_str (snd c)
      then base @ ''/'' @ fst c @ ''?token='' @ encodeURIComponent (the (snd c))
      else base @ ''/'' @ fst c)"

definition connect :: "ws_closure \<Rightarrow> ws_state \<Rightarrow> ws_state" where
  "connect c s =
     s\<lparr>ws_sockets := \<lparr>sk_id = ws_fresh s, sk_closure = c, sk_closing = False\<rparr> # ws_sockets s,
       ws_ref := Some (ws_fresh s), ws_fresh := ws_fresh s + 1\<rparr>"

text \<open>The connection effect and the cleanup it returns when it did connect.\<close>

definition run_effect :: "ws_state \<Rightarrow> ws_state" where
  "run_effect s =
     (if \<not> set_str (ws_engagementId s) \<or> ws_useFallback s then s\<lparr>ws_cleanup := False\<rparr>
      else (connect (the (ws_engagementId s), ws_token s) s)\<lparr>ws_cleanup := True\<rparr>)"

definition run_cleanup :: "ws_state \<Rightarrow> ws_state" where
  "run_cleanup s =
     (if ws_cleanup s then
        s\<lparr>ws_timers := filter (\<lambda>t. ws_timerRef s \<noteq> Some (tm_id t)) (ws_timers s),
          ws_sockets := map (\<lambda>k. if ws_ref s = Some (sk_id k) then k\<lparr>sk_closing := True\<rparr> else k)
            (ws_sockets s)\<rparr>
      else s)"

definition on_open :: "ws_state \<Rightarrow> ws_state" where
  "on_open s = s\<lparr>ws_connected := True, ws_attempts := 0\<rparr>"

text \<open>Setting the fallback re-runs the effect, since it is one of its dependencies.\<close>

definition setUseFallback :: "ws_state \<Rightarrow> ws_state" where
  "setUseFallback s =
     (if ws_useFallback s \<or> \<not> ws_mounted s then s
      else run_effect ((run_cleanup s)\<lparr>ws_useFallback := True\<rparr>))"

definition on_close :: "ws_socket \<Rightarrow> ws_state \<Rightarrow> ws_state" where
  "on_close k s =
     (let s' = s\<lparr>ws_sockets := filter (\<lambda>j. sk_id j \<noteq> sk_id k) (ws_sockets s),
                 ws_connected := False, ws_ref := None\<rparr>
      in if ws_attempts s' < MAX_RECONNECT_ATTEMPTS then
           s'\<lparr>ws_timers :=
                \<lparr>tm_id = ws_fresh s', tm_closure = sk_closure k,
                 tm_delay = BASE_RECONNECT_DELAY * 2 ^ ws_attempts s'\<rparr> # ws_timers s',
              ws_attempts := ws_attempts s' + 1,
              ws_timerRef := Some (ws_fresh s'), ws_fresh := ws_fresh s' + 1\<rparr>
         else setUseFallback s')"

definition on_timer :: "ws_timer \<Rightarrow> ws_state \<Rightarrow> ws_state" where
  "on_timer t s =
     connect (tm_closure t) (s\<lparr>ws_timers := filter (\<lambda>u. tm_id u \<noteq> tm_id t) (ws_timers s)\<rparr>)"

definition poll_keys :: "string \<Rightarrow> query_key list" where
  "poll_keys e = [[JStr ''migration'', JStr ''engagement'', JStr e],
                  [JStr ''migration'', JStr ''events'', JStr e]]"

definition on_poll :: "ws_state \<Rightarrow> ws_state" where
  "on_poll s =
     (if set_str (ws_engagementId s) \<and> ws_useFallback s
      then s\<lparr>ws_invalidated := rev (poll_keys (the (ws_engagementId s))) @ ws_invalidated s\<rparr> else s)"

definition set_props :: "string option \<Rightarrow> string option \<Rightarrow> ws_state \<Rightarrow> ws_state" where
  "set_props e tok s =
     (if e = ws_engagementId s \<and> tok = ws_token s then s
      else run_effect ((run_cleanup s)\<lparr>ws_engagementId := e, ws_token := tok\<rparr>))"

definition unmount :: "ws_state \<Rightarrow> ws_state" where
  "unmount s = (run_cleanup s)\<lparr>ws_mounted := False, ws_cleanup := False\<rparr>"

definition mount :: "string option \<Rightarrow> string option \<Rightarrow> ws_state" where
  "mount e tok = run_effect
     \<lparr>ws_engagementId = e, ws_token = tok, ws_mounted = True, ws_cleanup = False,
      ws_connected = False, ws_lastEvent = None, ws_events = [], ws_ref = None, ws_attempts = 0,
      ws_timerRef = None, ws_useFallback = False, ws_invalidated = [], ws_sockets = [],
      ws_timers = [], ws_fresh = 0\<rparr>"

subsection \<open>Steps\<close>

text \<open>What the browser does: it opens, feeds and closes sockets and fires timers.\<close>

inductive browser_step :: "ws_state \<Rightarrow> ws_state \<Rightarrow> bool" where
  socket_opens: "k \<in> set (ws_sockets s) \<Longrightarrow> \<not> sk_closing k \<Longrightarrow> browser_step s (on_open s)"
| socket_message: "k \<in> set (ws_sockets s) \<Longrightarrow> \<not> sk_closing k \<Longrightarrow> browser_step s (handleMessage ev s)"
| socket_closes: "k \<in> set (ws_sockets s) \<Longrightarrow> browser_step s (on_close k s)"
| timer_fires: "t \<in> set (ws_timers s) \<Longrightarrow> browser_step s (on_timer t s)"
| poll_fires: "ws_mounted s \<Longrightarrow> browser_step s (on_poll s)"

text \<open>The page changes the engagement or the token, or leaves.\<close>

inductive ws_step :: "ws_state \<Rightarrow> ws_state \<Rightarrow> bool" where
  by_browser: "browser_step s s' \<Longrightarrow> ws_step s s'"
| by_props: "ws_mounted s \<Longrightarrow> ws_step s (set_props e tok s)"
| by_unmount: "ws_mounted s \<Longrightarrow> ws_step s (unmount s)"

inductive ws_reachable :: "ws_state \<Rightarrow> bool" where
  reach_mount: "ws_reachable (mount e tok)"
| reach_step: "ws_reachable s \<Longrightarrow> ws_step s s' \<Longrightarrow> ws_reachable s'"

inductive ws_steady :: "string \<Rightarrow> string option \<Rightarrow> ws_state \<Rightarrow> bool" for e tok where
  steady_mount: "ws_steady e tok (mount (Some e) tok)"
| steady_step: "ws_steady e tok s \<Longrightarrow> browser_step s s' \<Longrightarrow> ws_steady e tok s'"

inductive_cases browser_stepE: "browser_step s s'"
inductive_cases ws_stepE: "ws_step s s'"

lemmas ws_handlers = connect_def run_effect_def run_cleanup_def on_open_def setUseFallback_def
  on_close_def on_timer_def on_poll_def set_props_def unmount_def mount_def handleMessage_def
  Let_def

lemma set_str_Some [simp]: "set_str (Some e) \<longleftrightarrow> e \<noteq> []" "\<not> set_str None"
  by (simp_all add: set_str_def)

subsection \<open>Bounds\<close>

definition ws_bounded :: "ws_state \<Rightarrow> bool" where
  "ws_bounded s \<longleftrightarrow>
     ws_attempts s \<le> MAX_RECONNECT_ATTEMPTS \<and> length (ws_events s) \<le> 100
   \<and> list_all (\<lambda>t. tm_delay t \<in> {1000, 2000, 4000, 8000, 16000}) (ws_timers s)"

lemma delays: "n < MAX_RECONNECT_ATTEMPTS \<Longrightarrow>
    BASE_RECONNECT_DELAY * 2 ^ n \<in> {1000, 2000, 4000, 8000, 16000}"
proof -
  assume "n < MAX_RECONNECT_ATTEMPTS"
  then have "n \<in> {0, 1, 2, 3, 4}" by (auto simp: MAX_RECONNECT_ATTEMPTS_def)
  then show ?thesis by (auto simp: BASE_RECONNECT_DELAY_def)
qed

lemma list_all_filter: "list_all p xs \<Longrightarrow> list_all p (filter q xs)"
  by (simp add: list_all_iff)

lemma bounded_connect [simp]: "ws_bounded (connect c s) = ws_bounded s"
  by (simp add: connect_def ws_bounded_def)

lemma bounded_effect [simp]: "ws_bounded (run_effect s) = ws_bounded s"
  by (auto simp: run_effect_def ws_bounded_def connect_def)

lemma bounded_cleanup: "ws_bounded s \<Longrightarrow> ws_bounded (run_cleanup s)"
  by (simp add: run_cleanup_def ws_bounded_def list_all_filter)

lemma bounded_fallback: "ws_bounded s \<Longrightarrow> ws_bounded (setUseFallback s)"
proof -
  assume "ws_bounded s"
  then have "ws_bounded ((run_cleanup s)\<lparr>ws_useFallback := True\<rparr>)"
    using bounded_cleanup[of s] by (simp add: ws_bounded_def)
  then show ?thesis using \<open>ws_bounded s\<close> by (simp add: setUseFallback_def)
qed

lemma bounded_browser: "browser_step s s' \<Longrightarrow> ws_bounded s \<Longrightarrow> ws_bounded s'"
proof (induction rule: browser_step.induct)
  case (socket_closes k s)
  let ?s = "s\<lparr>ws_sockets := filter (\<lambda>j. sk_id j \<noteq> sk_id k) (ws_sockets s),
      ws_connected := False, ws_ref := None\<rparr>"
  have b: "ws_bounded ?s" using socket_closes.prems by (simp add: ws_bounded_def)
  show ?case
  proof (cases "ws_attempts s < MAX_RECONNECT_ATTEMPTS")
    case True
    then show ?thesis
      using b delays[of "ws_attempts s"] by (simp add: on_close_def Let_def ws_bounded_def)
  next
    case False
    then show ?thesis using bounded_fallback[OF b] by (simp add: on_close_def Let_def)
  qed
next
  case (socket_message k s ev)
  then show ?case by (simp add: handleMessage_def ws_bounded_def)
next
  case (timer_fires t s)
  then show ?case by (simp add: on_timer_def) (simp add: ws_bounded_def list_all_filter)
qed (auto simp: on_open_def on_poll_def ws_bounded_def)

text \<open>
  C40: In every state the connection can reach, whatever sockets and timers do and however often
  the page changes engagement, token or leaves, at most five reconnections are counted, every
  pending reconnection waits one of the five back-off times from one to sixteen seconds, and at
  most the last hundred events are kept.
\<close>

theorem connection_bounds:
  assumes "ws_reachable s"
  shows "ws_attempts s \<le> 5 \<and> length (ws_events s) \<le> 100
       \<and> list_all (\<lambda>t. tm_delay t \<in> {1000, 2000, 4000, 8000, 16000}) (ws_timers s)"
proof -
  have "ws_bounded s"
    using assms
  proof (induction rule: ws_reachable.induct)
    case (reach_mount e tok)
    show ?case by (simp add: mount_def) (simp add: ws_bounded_def)
  next
    case (reach_step s s')
    from reach_step.hyps(2) reach_step.IH show ?case
    proof (cases rule: ws_step.cases)
      case (by_props e tok)
      have "ws_bounded ((run_cleanup s)\<lparr>ws_engagementId := e, ws_token := tok\<rparr>)"
        using bounded_cleanup[OF reach_step.IH] by (simp add: ws_bounded_def)
      then show ?thesis using by_props reach_step.IH by (simp add: set_props_def)
    next
      case by_unmount
      then show ?thesis
        using bounded_cleanup[OF reach_step.IH] by (simp add: unmount_def ws_bounded_def)
    qed (simp_all add: bounded_browser)
  qed
  then show ?thesis by (simp add: ws_bounded_def MAX_RECONNECT_ATTEMPTS_def)
qed

theorem connection_bounds_witness:
  "ws_attempts (mount (Some ''e'') None) \<le> 5"
  using connection_bounds[OF reach_mount[of "Some ''e''" None]] by simp

subsection \<open>One engagement\<close>

definition steady_inv :: "string \<Rightarrow> string option \<Rightarrow> ws_state \<Rightarrow> bool" where
  "steady_inv e tok s \<longleftrightarrow>
     ws_mounted s \<and> ws_engagementId s = Some e \<and> ws_token s = tok
   \<and> (if ws_useFallback s then ws_sockets s = [] \<and> ws_timers s = [] \<and> \<not> ws_cleanup s
      else (\<exists>i. ws_sockets s = [\<lparr>sk_id = i, sk_closure = (e, tok), sk_closing = False\<rparr>]
                \<and> ws_timers s = [])
         \<or> (\<exists>i d. ws_sockets s = [] \<and> ws_timers s = [\<lparr>tm_id = i, tm_closure = (e, tok), tm_delay = d\<rparr>]
                \<and> ws_timerRef s = Some i))"

lemma steady_browser: "browser_step s s' \<Longrightarrow> steady_inv e tok s \<Longrightarrow> steady_inv e tok s'"
proof (induction rule: browser_step.induct)
  case (socket_closes k s)
  then have k: "ws_sockets s = [k]" "sk_closure k = (e, tok)" "ws_timers s = []" "\<not> ws_useFallback s"
    by (auto simp: steady_inv_def split: if_splits)
  show ?case
  proof (cases "ws_attempts s < MAX_RECONNECT_ATTEMPTS")
    case True
    then show ?thesis using socket_closes.prems k by (simp add: on_close_def Let_def steady_inv_def)
  next
    case False
    then show ?thesis
      using socket_closes.prems k
      by (simp add: on_close_def setUseFallback_def run_effect_def run_cleanup_def Let_def steady_inv_def)
  qed
next
  case (timer_fires t s)
  then show ?case by (auto simp: on_timer_def connect_def steady_inv_def split: if_splits)
qed (auto simp: on_open_def handleMessage_def on_poll_def steady_inv_def split: if_splits)

text \<open>
  C39: While the page stays on one engagement, there is always exactly one socket or one pending
  reconnection, for that engagement and token, until the fallback; from then on there is neither,
  so the socket and the polling are never active together.
\<close>

theorem steady_single_connection:
  assumes "ws_steady e tok s" "e \<noteq> []"
  shows "length (ws_sockets s) + length (ws_timers s) = (if ws_useFallback s then 0 else 1)
       \<and> list_all (\<lambda>k. sk_closure k = (e, tok)) (ws_sockets s)
       \<and> list_all (\<lambda>t. tm_closure t = (e, tok)) (ws_timers s)"
proof -
  have "steady_inv e tok s"
    using assms(1)
  proof (induction rule: ws_steady.induct)
    case steady_mount
    show ?case using assms(2) by (simp add: mount_def run_effect_def connect_def steady_inv_def)
  next
    case (steady_step s s')
    then show ?case by (simp add: steady_browser)
  qed
  then show ?thesis by (auto simp: steady_inv_def split: if_splits)
qed

theorem steady_single_connection_witness:
  "length (ws_sockets (on_open (mount (Some ''e'') None)))
   + length (ws_timers (on_open (mount (Some ''e'') None))) = 1"
proof -
  have s: "ws_steady ''e'' None (on_open (mount (Some ''e'') None))"
    by (rule steady_step[OF steady_mount],
        rule socket_opens[of "\<lparr>sk_id = 0, sk_closure = (''e'', None), sk_closing = False\<rparr>"])
      (simp_all add: mount_def run_effect_def connect_def)
  have "\<not> ws_useFallback (on_open (mount (Some ''e'') None))"
    by (simp add: on_open_def mount_def run_effect_def connect_def)
  then show ?thesis using steady_single_connection[OF s] by simp
qed

subsection \<open>Giving up\<close>

text \<open>The server refuses: the one socket closes without having opened, and the timer fires.\<close>

definition refused :: "ws_state \<Rightarrow> ws_state" where
  "refused s = on_close (hd (ws_sockets s)) s"

definition retried :: "ws_state \<Rightarrow> ws_state" where
  "retried s = on_timer (hd (ws_timers s)) s"

fun refusals :: "nat \<Rightarrow> ws_state \<Rightarrow> ws_state" where
  "refusals 0 s = s"
| "refusals (Suc n) s = retried (refused (refusals n s))"

definition waiting :: "string \<Rightarrow> string option \<Rightarrow> nat \<Rightarrow> ws_state \<Rightarrow> bool" where
  "waiting e tok n s \<longleftrightarrow>
     (\<exists>i. ws_sockets s = [\<lparr>sk_id = i, sk_closure = (e, tok), sk_closing = False\<rparr>])
   \<and> ws_timers s = [] \<and> ws_attempts s = n \<and> ws_mounted s \<and> \<not> ws_useFallback s
   \<and> ws_engagementId s = Some e"

lemma refused_waits:
  assumes "waiting e tok n s" "n < 5"
  shows "map tm_delay (ws_timers (refused s)) = [1000 * 2 ^ n]"
    "waiting e tok (Suc n) (retried (refused s))"
  using assms by (auto simp: refused_def retried_def waiting_def on_close_def on_timer_def connect_def
      Let_def MAX_RECONNECT_ATTEMPTS_def BASE_RECONNECT_DELAY_def)

lemma refusals_wait:
  "waiting e tok 0 s \<Longrightarrow> n \<le> 5 \<Longrightarrow> waiting e tok n (refusals n s)"
proof (induction n)
  case (Suc n)
  then show ?case using refused_waits(2)[of e tok n "refusals n s"] by simp
qed simp

text \<open>
  C38: A server that refuses every connection is tried six times: the five waits are 1, 2, 4, 8
  and 16 seconds, and the sixth refusal turns to polling with no socket and no timer left.
\<close>

theorem refused_backoff:
  assumes "e \<noteq> []"
  shows "map (\<lambda>n. map tm_delay (ws_timers (refused (refusals n (mount (Some e) tok))))) [0..<5]
         = [[1000], [2000], [4000], [8000], [16000]]
       \<and> ws_useFallback (refused (refusals 5 (mount (Some e) tok)))
       \<and> ws_sockets (refused (refusals 5 (mount (Some e) tok))) = []
       \<and> ws_timers (refused (refusals 5 (mount (Some e) tok))) = []"
proof -
  have w0: "waiting e tok 0 (mount (Some e) tok)"
    using assms by (simp add: mount_def run_effect_def connect_def waiting_def)
  have w: "waiting e tok n (refusals n (mount (Some e) tok))" if "n \<le> 5" for n
    by (rule refusals_wait[OF w0 that])
  have d: "map tm_delay (ws_timers (refused (refusals n (mount (Some e) tok)))) = [1000 * 2 ^ n]"
    if "n < 5" for n using refused_waits(1)[OF w] that by simp
  have "[0..<5] = [0, 1, 2, 3, 4 :: nat]" by (simp add: upt_rec)
  then have delays: "map (\<lambda>n. map tm_delay (ws_timers (refused (refusals n (mount (Some e) tok))))) [0..<5]
      = [[1000], [2000], [4000], [8000], [16000]]"
    using d[of 0] d[of 1] d[of 2] d[of 3] d[of 4] by (simp del: refusals.simps)
  show ?thesis
    using delays w[of 5]
    by (auto simp: refused_def waiting_def on_close_def setUseFallback_def run_effect_def
        run_cleanup_def Let_def MAX_RECONNECT_ATTEMPTS_def simp del: refusals.simps)
qed

theorem refused_backoff_witness:
  "ws_useFallback (refused (refusals 5 (mount (Some ''e'') None)))"
  using refused_backoff[of "''e''" None] by blast

subsection \<open>Changing the engagement\<close>

text \<open>
  Leaving an engagement does not end its connection: the cleanup clears the timer before it
  closes the socket, and the close then schedules a reconnection with the old engagement. The
  connection can reach a state in which the page shows the second engagement while the hook's
  socket is one for the first; leaving the page then closes that one and leaves the second
  engagement's socket open.
\<close>

theorem old_engagement_reconnects:
  assumes "e1 \<noteq> []" "e2 \<noteq> []" "e1 \<noteq> e2"
  shows "\<exists>s. ws_reachable s \<and> ws_engagementId s = Some e2
     \<and> list_ex (\<lambda>k. ws_ref s = Some (sk_id k) \<and> fst (sk_closure k) = e1 \<and> \<not> sk_closing k) (ws_sockets s)
     \<and> list_ex (\<lambda>k. fst (sk_closure k) = e2 \<and> \<not> sk_closing k) (ws_sockets (unmount s))"
proof -
  let ?s1 = "set_props (Some e2) None (mount (Some e1) None)"
  let ?old = "\<lparr>sk_id = 0, sk_closure = (e1, None), sk_closing = True\<rparr>"
  let ?tm = "\<lparr>tm_id = 2, tm_closure = (e1, None), tm_delay = 1000\<rparr>"
  let ?s2 = "on_close ?old ?s1"
  let ?s3 = "on_timer ?tm ?s2"
  have "ws_reachable ?s1"
    by (rule reach_step[OF reach_mount], rule by_props) (simp add: mount_def run_effect_def connect_def)
  moreover have "?old \<in> set (ws_sockets ?s1)"
    using assms by (simp add: ws_handlers)
  ultimately have "ws_reachable ?s2"
    by (meson reach_step by_browser socket_closes)
  moreover have "?tm \<in> set (ws_timers ?s2)"
    using assms by (simp add: ws_handlers MAX_RECONNECT_ATTEMPTS_def BASE_RECONNECT_DELAY_def)
  ultimately have "ws_reachable ?s3"
    by (meson reach_step by_browser timer_fires)
  moreover have "ws_engagementId ?s3 = Some e2
     \<and> list_ex (\<lambda>k. ws_ref ?s3 = Some (sk_id k) \<and> fst (sk_closure k) = e1 \<and> \<not> sk_closing k)
         (ws_sockets ?s3)
     \<and> list_ex (\<lambda>k. fst (sk_closure k) = e2 \<and> \<not> sk_closing k) (ws_sockets (unmount ?s3))"
    using assms by (simp add: ws_handlers MAX_RECONNECT_ATTEMPTS_def BASE_RECONNECT_DELAY_def)
  ultimately show ?thesis by blast
qed

theorem old_engagement_reconnects_witness:
  "\<exists>s. ws_reachable s \<and> ws_engagementId s = Some ''e2''
     \<and> list_ex (\<lambda>k. ws_ref s = Some (sk_id k) \<and> fst (sk_closure k) = ''e1'' \<and> \<not> sk_closing k) (ws_sockets s)
     \<and> list_ex (\<lambda>k. fst (sk_closure k) = ''e2'' \<and> \<not> sk_closing k) (ws_sockets (unmount s))"
  by (rule old_engagement_reconnects) simp_all

subsection \<open>What an event refreshes\<close>

definition event_refreshes :: "string \<Rightarrow> query_spec \<Rightarrow> bool" where
  "event_refreshes t q = list_ex (\<lambda>p. key_prefix p (qs_key q)) (event_invalidations t)"

definition poll_refreshes :: "string \<Rightarrow> query_spec \<Rightarrow> bool" where
  "poll_refreshes e q = list_ex (\<lambda>p. key_prefix p (qs_key q)) (poll_keys e)"

lemmas event_queries = useEngagement_def useDashboardSummary_def useBatches_def useBatch_def
  useGateStatus_def useGateHistory_def useEngagements_def useJobs_def useJobSummary_def
  useRisks_def useReconciliation_def useActiveReconRuleSet_def useEvents_def useDriftSummary_def
  useP1Issues_def useReconciliationSummary_def useGateEvaluation_def

text \<open>
  An event marks the queries of its subject: a phase change the engagement, the lists, the
  gate status and the gate history, a batch event the engagement and the dashboard, a rule set
  activation the active rule set. The batch events mark neither the list of batches nor a batch,
  and the polling fallback refreshes the engagement and its event list only: gate status, jobs,
  risks and reconciliation stay as they were.
\<close>

theorem event_refresh_matrix:
  "list_all (event_refreshes ''phase_changed'')
      [useEngagement e, useEngagements, useGateStatus (Some e), useGateHistory (Some e)]
 \<and> list_all (event_refreshes ''batch_completed'') [useEngagement e, useDashboardSummary]
 \<and> \<not> list_ex (event_refreshes ''batch_completed'') [useBatches e, useBatch b]
 \<and> list_all (event_refreshes ''reconciliation_complete'')
      [useReconciliation e, useReconciliationSummary e, useP1Issues e]
 \<and> event_refreshes ''recon_rules_activated'' (useActiveReconRuleSet e)
 \<and> list_all (event_refreshes ''job_failed'') [useJobs (Some e), useJobSummary (Some e)]
 \<and> list_all (poll_refreshes e) [useEngagement e, useEvents e ps]
 \<and> \<not> list_ex (poll_refreshes e)
      [useGateStatus (Some e), useJobs (Some e), useRisks (Some e), useReconciliation e]"
  by (simp add: event_refreshes_def poll_refreshes_def event_invalidations_def poll_keys_def
      migration_key_def event_queries key_prefix_code hash_key_def2)

end
