(* ===== verification/MigrationRoutes.thy ===== *)
theory MigrationRoutes imports ServiceRoutes MigrationApi begin

text \<open>
  The calls of src/frontend/src/lib/migrationApi.ts against the gateway and the table of the
  migration service: which handler each method reaches, and which methods reach none.
\<close>

subsection \<open>Expected handlers\<close>

definition migration_calls_1 ::
  "string \<Rightarrow> json \<Rightarrow> (rest_call \<times> string) list" where
  "migration_calls_1 i b =
     [(migrationAPI_getDashboardSummary, ''DashboardSummary''),
      (migrationAPI_getSystemHealth, ''SystemHealth''),
      (migrationAPI_listEngagements, ''ListEngagements''),
      (migrationAPI_getEngagement i, ''GetEngagement''),
      (migrationAPI_createEngagement b, ''CreateEngagement''),
      (migrationAPI_updateEngagement i b, ''UpdateEngagement''),
      (migrationAPI_configureSource i b, ''ConfigureSource''),
      (migrationAPI_discoverTables i, ''DiscoverTables'')]"

definition migration_calls_2 ::
  "string \<Rightarrow> string \<Rightarrow> json \<Rightarrow> fields option \<Rightarrow> (rest_call \<times> string) list" where
  "migration_calls_2 i j b q =
     [(migrationAPI_profileEngagement i b, ''ProfileEngagement''),
      (migrationAPI_listProfiles i, ''ListProfiles''),
      (migrationAPI_approveBaseline i, ''ApproveBaseline''),
      (migrationAPI_generateMappings i b, ''GenerateMappings''),
      (migrationAPI_listMappings i q, ''ListMappings''),
      (migrationAPI_updateMapping i j b, ''UpdateMapping''),
      (migrationAPI_acknowledgeWarning i j, ''AcknowledgeMapping''),
      (migrationAPI_listCodeMappings i, ''ListCodeMappings'')]"

definition migration_calls_3 ::
  "string \<Rightarrow> string \<Rightarrow> json \<Rightarrow> (rest_call \<times> string) list" where
  "migration_calls_3 i j b =
     [(migrationAPI_updateCodeMapping i j b, ''UpdateCodeMapping''),
      (migrationAPI_listBatches i, ''ListBatches''),
      (migrationAPI_createBatch i b, ''CreateBatch''),
      (migrationAPI_getBatch i, ''GetBatch''),
      (migrationAPI_listExceptions i, ''ListExceptions''),
      (migrationAPI_executeBatch i, ''ExecuteBatchHandler''),
      (migrationAPI_retransformBatch i, ''RetransformBatch''),
      (migrationAPI_reconcileBatch i, ''ReconcileBatch'')]"

definition migration_calls_4 ::
  "string \<Rightarrow> string \<Rightarrow> json \<Rightarrow> int \<Rightarrow> int option \<Rightarrow> (rest_call \<times> string) list" where
  "migration_calls_4 i s b n m =
     [(migrationAPI_getReconciliation i, ''GetReconciliation''),
      (migrationAPI_getP1Issues i, ''GetP1Issues''),
      (migrationAPI_getReconciliationSummary i, ''ReconciliationSummary''),
      (migrationAPI_getReconciliationByTier i n, ''ReconciliationByTier''),
      (migrationAPI_certifyEngagement i b, ''HandleCertify''),
      (migrationAPI_getCertification i, ''HandleGetCertification''),
      (migrationAPI_listCertifications i m, ''HandleListCertifications''),
      (migrationAPI_evaluateGate i s, ''HandleGetGateEvaluation'')]"

definition migration_calls_5 ::
  "string \<Rightarrow> string \<Rightarrow> string \<Rightarrow> json \<Rightarrow> fields option \<Rightarrow> string option \<Rightarrow> (rest_call \<times> string) list" where
  "migration_calls_5 i s s2 b q t =
     [(migrationAPI_listRisks t, ''ListRisks''),
      (migrationAPI_createRisk i b, ''CreateRisk''),
      (migrationAPI_updateRisk i b, ''UpdateRisk''),
      (migrationAPI_deleteRisk i, ''DeleteRisk''),
      (migrationAPI_listExceptionClusters i, ''ListExceptionClusters''),
      (migrationAPI_applyCluster i b, ''ApplyCluster''),
      (migrationAPI_compareEngagements s s2, ''CompareEngagements''),
      (migrationAPI_listEvents i q, ''ListEvents'')]"

definition migration_calls_6 ::
  "string \<Rightarrow> string \<Rightarrow> string \<Rightarrow> string \<Rightarrow> json \<Rightarrow> fields option \<Rightarrow> (rest_call \<times> string) list" where
  "migration_calls_6 i j s s2 b q =
     [(migrationAPI_getGateStatus i, ''HandleGetGateStatus''),
      (migrationAPI_advancePhase i b, ''HandleAdvancePhase''),
      (migrationAPI_regressPhase i b, ''HandleRegressPhase''),
      (migrationAPI_getGateHistory i, ''HandleGetGateHistory''),
      (migrationAPI_getAttentionItems i q, ''HandleGetAttentionItems''),
      (migrationAPI_getAttentionSummary, ''HandleGetAttentionSummary''),
      (migrationAPI_resolveAttentionItem i j s s2, ''HandleResolveAttention''),
      (migrationAPI_deferAttentionItem i j s s2, ''HandleDeferAttention'')]"

definition migration_calls_7 ::
  "string \<Rightarrow> (rest_call \<times> string) list" where
  "migration_calls_7 i =
     [(migrationAPI_getAIRecommendations i, ''HandleGetAIRecommendations''),
      (migrationAPI_getBatchSizingRecommendation i, ''HandleGetBatchSizing''),
      (migrationAPI_getRemediationRecommendations i, ''HandleGetRemediation''),
      (migrationAPI_getRootCauseAnalysis i, ''HandleGetRootCause''),
      (migrationAPI_getReconciliationPatterns i, ''GetReconciliationPatterns''),
      (migrationAPI_resolvePattern i, ''ResolvePattern''),
      (migrationAPI_getNotifications, ''HandleGetNotifications''),
      (migrationAPI_markNotificationRead i, ''HandleMarkNotificationRead'')]"

definition migration_calls_8 ::
  "string \<Rightarrow> string \<Rightarrow> fields option \<Rightarrow> (rest_call \<times> string) list" where
  "migration_calls_8 i j q =
     [(migrationAPI_markAllNotificationsRead, ''HandleMarkAllNotificationsRead''),
      (migrationAPI_getCoverageReport i, ''CoverageReport''),
      (migrationAPI_getMappingSpec i, ''MappingSpec''),
      (migrationAPI_getJobs i q, ''ListJobs''),
      (migrationAPI_getJobSummary i, ''JobSummary''),
      (migrationAPI_cancelJob i j, ''CancelJob''),
      (migrationAPI_retryJob i j, ''RetryJob''),
      (migrationAPI_listReconRuleSets i q, ''ListReconRuleSets'')]"

definition migration_calls_9 ::
  "string \<Rightarrow> string \<Rightarrow> string \<Rightarrow> json \<Rightarrow> fields option \<Rightarrow> (rest_call \<times> string) list" where
  "migration_calls_9 i j s b q =
     [(migrationAPI_getReconRuleSet i j, ''GetReconRuleSet''),
      (migrationAPI_getActiveReconRuleSet i, ''GetActiveReconRuleSet''),
      (migrationAPI_createReconRuleSet i b, ''CreateReconRuleSet''),
      (migrationAPI_updateReconRuleSet i j b, ''UpdateReconRuleSet''),
      (migrationAPI_activateReconRuleSet i j, ''ActivateReconRuleSet''),
      (migrationAPI_archiveReconRuleSet i j, ''ArchiveReconRuleSet''),
      (migrationAPI_getReconRuleSetDiff i j s, ''DiffReconRuleSets''),
      (migrationAPI_listReconExecutions i q, ''HandleListReconExecutions'')]"

definition migration_calls_10 ::
  "string \<Rightarrow> string \<Rightarrow> string \<Rightarrow> string \<Rightarrow> json \<Rightarrow> fields option \<Rightarrow> (rest_call \<times> string) list" where
  "migration_calls_10 i j s s2 b q =
     [(migrationAPI_getReconExecution i j, ''HandleGetReconExecution''),
      (migrationAPI_getReconExecutionMismatches i j q, ''HandleListReconExecutionMismatches''),
      (migrationAPI_triggerReconExecution i b, ''HandleCreateReconExecution''),
      (migrationAPI_getSchemaVersion i, ''GetSchemaVersion''),
      (migrationAPI_activateSchemaVersion i, ''ActivateSchemaVersion''),
      (migrationAPI_getSchemaVersionDiff s s2, ''DiffSchemaVersions''),
      (migrationAPI_getRetentionPolicy i, ''HandleGetRetentionPolicy'')]"

definition migration_lost_1 ::
  "string \<Rightarrow> string \<Rightarrow> json \<Rightarrow> rest_call list" where
  "migration_lost_1 i j b =
     [migrationAPI_getMappingCorpusContext i j,
      migrationAPI_getJob i,
      migrationAPI_getCutoverPlan i,
      migrationAPI_createCutoverPlan i b,
      migrationAPI_updateCutoverStep i j b,
      migrationAPI_getRollback i,
      migrationAPI_initiateRollback i b,
      migrationAPI_getGoLiveStatus i]"

definition migration_lost_2 ::
  "string \<Rightarrow> string \<Rightarrow> json \<Rightarrow> fields option \<Rightarrow> rest_call list" where
  "migration_lost_2 i j b q =
     [migrationAPI_confirmGoLive i b,
      migrationAPI_getDriftRuns i q,
      migrationAPI_getDriftRecords i j q,
      migrationAPI_getDriftSummary i,
      migrationAPI_triggerDriftDetection i,
      migrationAPI_getDriftSchedule i,
      migrationAPI_updateDriftSchedule i b,
      migrationAPI_getSchemaVersions i]"

definition migration_lost_3 ::
  "string \<Rightarrow> string \<Rightarrow> string \<Rightarrow> json \<Rightarrow> fields \<Rightarrow> fields option \<Rightarrow> rest_call list" where
  "migration_lost_3 i j s b p q =
     [migrationAPI_createSchemaVersion i b,
      migrationAPI_getAuditLog i q,
      migrationAPI_getAuditExportCount i p,
      migrationAPI_generateReport i s,
      migrationAPI_getReportStatus i j,
      migrationAPI_listReports i]"

subsection \<open>Evaluation\<close>

lemmas migration_base_steps = migrationBASE_def

lemma migration_calls_1_ok:
  assumes "plain_segment i"
  shows "list_all (reaches ''migration'') (migration_calls_1 i b)"
  using assms by (simp add: migration_calls_1_def route_steps migration_base_steps
      migrationAPI_getDashboardSummary_def migrationAPI_getSystemHealth_def migrationAPI_listEngagements_def
      migrationAPI_getEngagement_def migrationAPI_createEngagement_def migrationAPI_updateEngagement_def
      migrationAPI_configureSource_def migrationAPI_discoverTables_def)

lemma migration_calls_2_ok:
  assumes "plain_segment i" "plain_segment j"
  shows "list_all (reaches ''migration'') (migration_calls_2 i j b q)"
  using assms by (simp add: migration_calls_2_def route_steps migration_base_steps
      migrationAPI_profileEngagement_def migrationAPI_listProfiles_def migrationAPI_approveBaseline_def
      migrationAPI_generateMappings_def migrationAPI_listMappings_def migrationAPI_updateMapping_def
      migrationAPI_acknowledgeWarning_def migrationAPI_listCodeMappings_def)

lemma migration_calls_3_ok:
  assumes "plain_segment i" "plain_segment j"
  shows "list_all (reaches ''migration'') (migration_calls_3 i j b)"
  using assms by (simp add: migration_calls_3_def route_steps migration_base_steps
      migrationAPI_updateCodeMapping_def migrationAPI_listBatches_def migrationAPI_createBatch_def
      migrationAPI_getBatch_def migrationAPI_listExceptions_def migrationAPI_executeBatch_def
      migrationAPI_retransformBatch_def migrationAPI_reconcileBatch_def)

lemma migration_calls_4_ok:
  assumes "plain_segment i"
  shows "list_all (reaches ''migration'') (migration_calls_4 i s b n m)"
  using assms by (simp add: migration_calls_4_def route_steps migration_base_steps
      migrationAPI_getReconciliation_def migrationAPI_getP1Issues_def migrationAPI_getReconciliationSummary_def
      migrationAPI_getReconciliationByTier_def migrationAPI_certifyEngagement_def migrationAPI_getCertification_def
      migrationAPI_listCertifications_def migrationAPI_evaluateGate_def)

lemma migration_calls_5_ok:
  assumes "plain_segment i"
  shows "list_all (reaches ''migration'') (migration_calls_5 i s s2 b q t)"
  using assms by (simp add: migration_calls_5_def route_steps migration_base_steps
      migrationAPI_listRisks_def migrationAPI_createRisk_def migrationAPI_updateRisk_def
      migrationAPI_deleteRisk_def migrationAPI_listExceptionClusters_def migrationAPI_applyCluster_def
      migrationAPI_compareEngagements_def migrationAPI_listEvents_def)

lemma migration_calls_6_ok:
  assumes "plain_segment i" "plain_segment j"
  shows "list_all (reaches ''migration'') (migration_calls_6 i j s s2 b q)"
  using assms by (simp add: migration_calls_6_def route_steps migration_base_steps
      migrationAPI_getGateStatus_def migrationAPI_advancePhase_def migrationAPI_regressPhase_def
      migrationAPI_getGateHistory_def migrationAPI_getAttentionItems_def migrationAPI_getAttentionSummary_def
      migrationAPI_resolveAttentionItem_def migrationAPI_deferAttentionItem_def)

lemma migration_calls_7_ok:
  assumes "plain_segment i"
  shows "list_all (reaches ''migration'') (migration_calls_7 i)"
  using assms by (simp add: migration_calls_7_def route_steps migration_base_steps
      migrationAPI_getAIRecommendations_def migrationAPI_getBatchSizingRecommendation_def migrationAPI_getRemediationRecommendations_def
      migrationAPI_getRootCauseAnalysis_def migrationAPI_getReconciliationPatterns_def migrationAPI_resolvePattern_def
      migrationAPI_getNotifications_def migrationAPI_markNotificationRead_def)

lemma migration_calls_8_ok:
  assumes "plain_segment i" "plain_segment j"
  shows "list_all (reaches ''migration'') (migration_calls_8 i j q)"
  using assms by (simp add: migration_calls_8_def route_steps migration_base_steps
      migrationAPI_markAllNotificationsRead_def migrationAPI_getCoverageReport_def migrationAPI_getMappingSpec_def
      migrationAPI_getJobs_def migrationAPI_getJobSummary_def migrationAPI_cancelJob_def
      migrationAPI_retryJob_def migrationAPI_listReconRuleSets_def)

lemma migration_calls_9_ok:
  assumes "plain_segment i" "plain_segment j" "j \<noteq> ''active''"
  shows "list_all (reaches ''migration'') (migration_calls_9 i j s b q)"
  using assms by (simp add: migration_calls_9_def route_steps migration_base_steps
      migrationAPI_getReconRuleSet_def migrationAPI_getActiveReconRuleSet_def migrationAPI_createReconRuleSet_def
      migrationAPI_updateReconRuleSet_def migrationAPI_activateReconRuleSet_def migrationAPI_archiveReconRuleSet_def
      migrationAPI_getReconRuleSetDiff_def migrationAPI_listReconExecutions_def)

lemma migration_calls_10_ok:
  assumes "plain_segment i" "plain_segment j" "i \<noteq> ''diff''"
  shows "list_all (reaches ''migration'') (migration_calls_10 i j s s2 b q)"
  using assms by (simp add: migration_calls_10_def route_steps migration_base_steps
      migrationAPI_getReconExecution_def migrationAPI_getReconExecutionMismatches_def migrationAPI_triggerReconExecution_def
      migrationAPI_getSchemaVersion_def migrationAPI_activateSchemaVersion_def migrationAPI_getSchemaVersionDiff_def
      migrationAPI_getRetentionPolicy_def)

lemma migration_lost_1_ok:
  assumes "plain_segment i" "plain_segment j"
  shows "list_all (\<lambda>c. deployed c = Answered ''migration'' Not_found) (migration_lost_1 i j b)"
  using assms by (simp add: migration_lost_1_def route_steps migration_base_steps
      migrationAPI_getMappingCorpusContext_def migrationAPI_getJob_def migrationAPI_getCutoverPlan_def
      migrationAPI_createCutoverPlan_def migrationAPI_updateCutoverStep_def migrationAPI_getRollback_def
      migrationAPI_initiateRollback_def migrationAPI_getGoLiveStatus_def)

lemma migration_lost_2_ok:
  assumes "plain_segment i" "plain_segment j"
  shows "list_all (\<lambda>c. deployed c = Answered ''migration'' Not_found) (migration_lost_2 i j b q)"
  using assms by (simp add: migration_lost_2_def route_steps migration_base_steps
      migrationAPI_confirmGoLive_def migrationAPI_getDriftRuns_def migrationAPI_getDriftRecords_def
      migrationAPI_getDriftSummary_def migrationAPI_triggerDriftDetection_def migrationAPI_getDriftSchedule_def
      migrationAPI_updateDriftSchedule_def migrationAPI_getSchemaVersions_def)

lemma migration_lost_3_ok:
  assumes "plain_segment i" "plain_segment j" "j \<noteq> ''mapping-spec''"
  shows "list_all (\<lambda>c. deployed c = Answered ''migration'' Not_found) (migration_lost_3 i j s b p q)"
  using assms by (simp add: migration_lost_3_def route_steps migration_base_steps
      migrationAPI_createSchemaVersion_def migrationAPI_getAuditLog_def migrationAPI_getAuditExportCount_def
      migrationAPI_generateReport_def migrationAPI_getReportStatus_def migrationAPI_listReports_def)

text \<open>
  C11: Every method of the migration client but the twenty-three below is a call of the deployed
  service: the gateway hands it to the migration service, whose multiplexer answers its method and
  path by the handler the method is written for, whatever identifiers, bodies and parameters it is
  given (identifiers being plain, and none of them one of the words the routes reserve).
\<close>

theorem migration_calls_served:
  assumes "plain_segment i"
    and "plain_segment j"
    and "j \<noteq> ''active''"
    and "i \<noteq> ''diff''"
  shows "list_all (reaches ''migration'')
       (migration_calls_1 i b
        @ migration_calls_2 i j b q
        @ migration_calls_3 i j b
        @ migration_calls_4 i s b n m
        @ migration_calls_5 i s s2 b q t
        @ migration_calls_6 i j s s2 b q
        @ migration_calls_7 i
        @ migration_calls_8 i j q
        @ migration_calls_9 i j s b q
        @ migration_calls_10 i j s s2 b q)"
  using assms by (simp add: migration_calls_1_ok migration_calls_2_ok migration_calls_3_ok migration_calls_4_ok
      migration_calls_5_ok migration_calls_6_ok migration_calls_7_ok migration_calls_8_ok
      migration_calls_9_ok migration_calls_10_ok)

theorem migration_calls_served_witness:
  "list_all (reaches ''migration'')
       (migration_calls_1 ''e1'' JNull
        @ migration_calls_2 ''e1'' ''b7'' JNull None
        @ migration_calls_3 ''e1'' ''b7'' JNull
        @ migration_calls_4 ''e1'' ''x'' JNull 7 (Some 10)
        @ migration_calls_5 ''e1'' ''x'' ''y'' JNull None None
        @ migration_calls_6 ''e1'' ''b7'' ''x'' ''y'' JNull None
        @ migration_calls_7 ''e1''
        @ migration_calls_8 ''e1'' ''b7'' None
        @ migration_calls_9 ''e1'' ''b7'' ''x'' JNull None
        @ migration_calls_10 ''e1'' ''b7'' ''x'' ''y'' JNull None)"
  by (rule migration_calls_served) (simp_all add: plain_segment_def)

lemma retention_not_allowed: "plain_segment i \<Longrightarrow> deployed (migrationAPI_setRetentionPolicy i b) = Answered ''migration'' Method_not_allowed"
  by (simp add: migrationAPI_setRetentionPolicy_def route_steps migration_base_steps)

text \<open>
  C33: Twenty-three methods of the migration client have no handler: the corpus context of
  a mapping, a single job, the cutover plan, the rollback
  and the go-live, the whole of drift detection, reports, the audit log and the versions of a
  tenant's schema are asked for at addresses the service does not know (404), and the retention
  policy is put where the service only takes a patch (405).
\<close>

theorem migration_calls_lost:
  assumes "plain_segment i"
    and "plain_segment j"
    and "j \<noteq> ''mapping-spec''"
  shows "list_all (\<lambda>c. deployed c = Answered ''migration'' Not_found)
       (migration_lost_1 i j b
        @ migration_lost_2 i j b q
        @ migration_lost_3 i j s b p q)
    \<and> deployed (migrationAPI_setRetentionPolicy i b) = Answered ''migration'' Method_not_allowed"
  using assms by (simp add: migration_lost_1_ok migration_lost_2_ok migration_lost_3_ok retention_not_allowed)

theorem migration_calls_lost_witness:
  "list_all (\<lambda>c. deployed c = Answered ''migration'' Not_found)
       (migration_lost_1 ''e1'' ''b7'' JNull
        @ migration_lost_2 ''e1'' ''b7'' JNull None
        @ migration_lost_3 ''e1'' ''b7'' ''x'' JNull [] None)
    \<and> deployed (migrationAPI_setRetentionPolicy ''e1'' JNull) = Answered ''migration'' Method_not_allowed"
  by (rule migration_calls_lost) (simp_all add: plain_segment_def)

end
