(* ===== verification/OptimisticUpdates.thy ===== *)
theory OptimisticUpdates imports MigrationQueries begin

text \<open>
  The mutations that show their effect before the service answers: \<open>useJobMutation\<close> (cancel and
  retry a job) of src/frontend/src/hooks/migration/useJobs.ts and \<open>useUpdateDriftSchedule\<close> of
  useDrift.ts. One cached value with its refetches, the mutations in flight with the value each
  saw before it changed the cache, and the service's value, which only the mutations in flight
  change. \<open>patch\<close> is the change a mutation shows. A refetch reads the service and delivers later;
  cancelling it, and an invalidation (which restarts it), drops the delivery.
\<close>

record ('d, 'p) opt_state =
  os_data :: "'d option"
  os_stale :: bool
  os_fetch :: "'d option"
  os_server :: 'd
  os_flight :: "(nat \<times> 'd option) list"
  os_fresh :: nat

definition opt_mount :: "'d \<Rightarrow> ('d, 'p) opt_state" where
  "opt_mount d =
     \<lparr>os_data = None, os_stale = False, os_fetch = None, os_server = d, os_flight = [], os_fresh = 0\<rparr>"

definition onMutate :: "('p \<Rightarrow> 'd \<Rightarrow> 'd) \<Rightarrow> 'p \<Rightarrow> ('d, 'p) opt_state \<Rightarrow> ('d, 'p) opt_state" where
  "onMutate patch p s =
     s\<lparr>os_fetch := None, os_flight := os_flight s @ [(os_fresh s, os_data s)],
       os_data := map_option (patch p) (os_data s), os_fresh := os_fresh s + 1\<rparr>"

definition onError :: "'d option \<Rightarrow> ('d, 'p) opt_state \<Rightarrow> ('d, 'p) opt_state" where
  "onError previous s = (case previous of None \<Rightarrow> s | Some d \<Rightarrow> s\<lparr>os_data := Some d\<rparr>)"

definition onSettled :: "nat \<Rightarrow> ('d, 'p) opt_state \<Rightarrow> ('d, 'p) opt_state" where
  "onSettled i s =
     s\<lparr>os_flight := filter (\<lambda>m. fst m \<noteq> i) (os_flight s), os_stale := True, os_fetch := None\<rparr>"

definition refetch_reads :: "('d, 'p) opt_state \<Rightarrow> ('d, 'p) opt_state" where
  "refetch_reads s = s\<lparr>os_fetch := Some (os_server s)\<rparr>"

definition refetch_delivers :: "('d, 'p) opt_state \<Rightarrow> ('d, 'p) opt_state" where
  "refetch_delivers s =
     (case os_fetch s of
        None \<Rightarrow> s
      | Some d \<Rightarrow> s\<lparr>os_data := Some d, os_stale := False, os_fetch := None\<rparr>)"

inductive opt_step ::
  "('p \<Rightarrow> 'd \<Rightarrow> 'd) \<Rightarrow> ('d, 'p) opt_state \<Rightarrow> ('d, 'p) opt_state \<Rightarrow> bool" for patch where
  opt_mutates: "opt_step patch s (onMutate patch p s)"
| opt_serves: "os_flight s \<noteq> [] \<Longrightarrow> opt_step patch s (s\<lparr>os_server := d\<rparr>)"
| opt_fails: "(i, previous) \<in> set (os_flight s) \<Longrightarrow> opt_step patch s (onSettled i (onError previous s))"
| opt_succeeds: "(i, previous) \<in> set (os_flight s) \<Longrightarrow> opt_step patch s (onSettled i s)"
| opt_reads: "opt_step patch s (refetch_reads s)"
| opt_delivers: "opt_step patch s (refetch_delivers s)"

inductive opt_reachable :: "('p \<Rightarrow> 'd \<Rightarrow> 'd) \<Rightarrow> ('d, 'p) opt_state \<Rightarrow> bool" for patch where
  opt_start: "opt_reachable patch (opt_mount d)"
| opt_next: "opt_reachable patch s \<Longrightarrow> opt_step patch s s' \<Longrightarrow> opt_reachable patch s'"

text \<open>With no mutation in flight, a refetch carries and a fresh cache shows the service's value.\<close>

definition opt_inv :: "('d, 'p) opt_state \<Rightarrow> bool" where
  "opt_inv s \<longleftrightarrow>
     (os_flight s = [] \<longrightarrow>
        (os_fetch s = None \<or> os_fetch s = Some (os_server s))
      \<and> (os_stale s \<or> os_data s = None \<or> os_data s = Some (os_server s)))"

lemma opt_step_inv: "opt_step patch s s' \<Longrightarrow> opt_inv s \<Longrightarrow> opt_inv s'"
  by (induction rule: opt_step.induct)
    (auto simp: opt_inv_def onMutate_def onSettled_def onError_def refetch_reads_def
      refetch_delivers_def split: option.splits)

lemma opt_reachable_inv: "opt_reachable patch s \<Longrightarrow> opt_inv s"
proof (induction rule: opt_reachable.induct)
  case (opt_start d)
  show ?case by (simp add: opt_inv_def opt_mount_def)
qed (rule opt_step_inv)

subsection \<open>Jobs\<close>

datatype job_status =
  Job_pending | Job_claimed | Job_running | Job_completed | Job_failed | Job_cancelled

record job =
  jb_job_id :: string
  jb_engagement_id :: string
  jb_job_type :: string
  jb_status :: job_status
  jb_attempt :: nat
  jb_max_attempts :: nat
  jb_error_message :: "string option"
  jb_created_at :: string
  jb_started_at :: "string option"
  jb_completed_at :: "string option"

datatype job_patch = Cancel_patch string | Retry_patch string

fun job_patch_id :: "job_patch \<Rightarrow> string" where
  "job_patch_id (Cancel_patch j) = j"
| "job_patch_id (Retry_patch j) = j"

fun optimisticPatch :: "job_patch \<Rightarrow> job \<Rightarrow> job" where
  "optimisticPatch (Cancel_patch _) j = j\<lparr>jb_status := Job_cancelled\<rparr>"
| "optimisticPatch (Retry_patch _) j = j\<lparr>jb_status := Job_pending, jb_attempt := 0\<rparr>"

definition patch_jobs :: "job_patch \<Rightarrow> job list \<Rightarrow> job list" where
  "patch_jobs p previous =
     map (\<lambda>j. if jb_job_id j = job_patch_id p then optimisticPatch p j else j) previous"

definition canCancel :: "job_status \<Rightarrow> bool" where
  "canCancel status \<longleftrightarrow> status = Job_pending \<or> status = Job_claimed"

definition canRetry :: "job_status \<Rightarrow> bool" where
  "canRetry status \<longleftrightarrow> status = Job_failed"

definition useCancelJob :: "string \<Rightarrow> string \<Rightarrow> mutation_spec" where
  "useCancelJob engagementId jobId =
     mutation_of (migrationAPI_cancelJob engagementId jobId)
       [[JStr ''migration'', JStr ''jobs'', JStr engagementId],
        [JStr ''migration'', JStr ''job-summary'', JStr engagementId]]"

definition useRetryJob :: "string \<Rightarrow> string \<Rightarrow> mutation_spec" where
  "useRetryJob engagementId jobId =
     mutation_of (migrationAPI_retryJob engagementId jobId)
       [[JStr ''migration'', JStr ''jobs'', JStr engagementId],
        [JStr ''migration'', JStr ''job-summary'', JStr engagementId]]"

subsection \<open>The drift schedule\<close>

definition patch_schedule :: "(string \<times> json) list \<Rightarrow> (string \<times> json) list \<Rightarrow> (string \<times> json) list" where
  "patch_schedule req previous = spread previous req"

definition useUpdateDriftSchedule :: "string \<Rightarrow> json \<Rightarrow> mutation_spec" where
  "useUpdateDriftSchedule engagementId req =
     mutation_of (migrationAPI_updateDriftSchedule engagementId req)
       [[JStr ''migration'', JStr ''drift-schedule'', JStr engagementId]]"

subsection \<open>Properties\<close>


text \<open>Loaded, and a job mutation started on it.\<close>

lemma loaded_reachable: "opt_reachable patch (refetch_delivers (refetch_reads (opt_mount d)))"
  by (rule opt_next[OF opt_next[OF opt_start opt_reads] opt_delivers])

lemma loaded_simps:
  "refetch_delivers (refetch_reads (opt_mount d)) =
     \<lparr>os_data = Some d, os_stale = False, os_fetch = None, os_server = d, os_flight = [], os_fresh = 0\<rparr>"
  by (simp add: refetch_delivers_def refetch_reads_def opt_mount_def)


text \<open>
  A job mutation shows its effect at once on that job only, keeping the list's jobs in their
  order, and when it fails with nothing in between the list is exactly the one it found and is
  marked for a refetch.
\<close>

theorem failed_mutation_restores:
  "map jb_job_id (patch_jobs p jobs) = map jb_job_id jobs
 \<and> filter (\<lambda>j. jb_job_id j \<noteq> job_patch_id p) (patch_jobs p jobs)
     = filter (\<lambda>j. jb_job_id j \<noteq> job_patch_id p) jobs
 \<and> os_data (onMutate patch_jobs p (s\<lparr>os_data := Some jobs\<rparr>)) = Some (patch_jobs p jobs)
 \<and> (let s' = onSettled (os_fresh s) (onError (Some jobs) (onMutate patch_jobs p (s\<lparr>os_data := Some jobs\<rparr>)))
    in os_data s' = Some jobs \<and> os_stale s')"
proof -
  have same_id: "jb_job_id (optimisticPatch q j) = jb_job_id j" for q j
    by (cases q) simp_all
  have "map jb_job_id (patch_jobs p jobs) = map jb_job_id jobs"
    by (simp add: patch_jobs_def same_id)
  moreover have "filter (\<lambda>j. jb_job_id j \<noteq> job_patch_id p) (patch_jobs p jobs)
      = filter (\<lambda>j. jb_job_id j \<noteq> job_patch_id p) jobs"
    by (induction jobs) (simp_all add: patch_jobs_def same_id)
  ultimately show ?thesis
    by (simp add: onMutate_def onError_def onSettled_def)
qed

text \<open>
  Two overlapping mutations can undo each other on the screen: for any list and any two jobs,
  when the cancellation of the second has succeeded and the list has been refetched, the failure
  of the first puts its old copy of the list back, and the job the service has cancelled shows as
  before until the next refetch.
\<close>

theorem rollback_hides_other_mutation:
  "\<exists>s s'. opt_reachable patch_jobs s \<and> \<not> os_stale s
     \<and> os_data s = Some (patch_jobs (Cancel_patch b) jobs) \<and> os_server s = patch_jobs (Cancel_patch b) jobs
     \<and> opt_step patch_jobs s s'
     \<and> os_flight s' = [] \<and> os_data s' = Some jobs \<and> os_server s' = patch_jobs (Cancel_patch b) jobs"
proof -
  let ?server = "patch_jobs (Cancel_patch b) jobs"
  let ?s1 = "onMutate patch_jobs (Cancel_patch a) (refetch_delivers (refetch_reads (opt_mount jobs)))"
  let ?s2 = "onMutate patch_jobs (Cancel_patch b) ?s1"
  let ?s3 = "?s2\<lparr>os_server := ?server\<rparr>"
  let ?s4 = "onSettled 1 ?s3"
  let ?s5 = "refetch_delivers (refetch_reads ?s4)"
  have "opt_reachable patch_jobs ?s2"
    by (rule opt_next[OF opt_next[OF loaded_reachable opt_mutates] opt_mutates])
  then have "opt_reachable patch_jobs ?s3"
    by (rule opt_next) (rule opt_serves, simp add: onMutate_def)
  then have "opt_reachable patch_jobs ?s4"
    by (rule opt_next)
      (rule opt_succeeds[of _ "Some (patch_jobs (Cancel_patch a) jobs)"], simp add: loaded_simps onMutate_def)
  then have r: "opt_reachable patch_jobs ?s5"
    by (rule opt_next[OF opt_next[OF _ opt_reads] opt_delivers])
  have f: "os_flight ?s5 = [(0, Some jobs)]" "os_data ?s5 = Some ?server" "\<not> os_stale ?s5"
    "os_server ?s5 = ?server"
    by (simp_all add: opt_mount_def onMutate_def onSettled_def refetch_delivers_def refetch_reads_def)
  have "opt_step patch_jobs ?s5 (onSettled 0 (onError (Some jobs) ?s5))"
    by (rule opt_fails) (use f in simp)
  moreover have "os_flight (onSettled 0 (onError (Some jobs) ?s5)) = []"
    "os_data (onSettled 0 (onError (Some jobs) ?s5)) = Some jobs"
    "os_server (onSettled 0 (onError (Some jobs) ?s5)) = ?server"
    using f by (simp_all add: onSettled_def onError_def)
  ultimately show ?thesis using r f by blast
qed

end
