(* ===== verification/PhaseGate.thy ===== *)
theory PhaseGate imports MigrationQueries begin

text \<open>
  Moving a migration engagement from phase to phase. The client: the stepper of
  EngagementDetail.tsx and the dialog PhaseGateDialog.tsx (both under
  src/frontend/src/components/migration/engagement), which decide the target, show the gate and
  send the request. The service: the phase order, the gate and the two handlers of
  src/platform/migration/api/gate_handlers.go and gate_evaluator.go, with the engagement's metrics
  (the database's) as parameters.
\<close>

subsection \<open>Phases\<close>

datatype engagement_status =
    DISCOVERY | PROFILING | MAPPING | TRANSFORMING | RECONCILING | PARALLEL_RUN
  | CUTOVER_IN_PROGRESS | GO_LIVE | COMPLETE

fun phase_text :: "engagement_status \<Rightarrow> string" where
  "phase_text DISCOVERY = ''DISCOVERY''"
| "phase_text PROFILING = ''PROFILING''"
| "phase_text MAPPING = ''MAPPING''"
| "phase_text TRANSFORMING = ''TRANSFORMING''"
| "phase_text RECONCILING = ''RECONCILING''"
| "phase_text PARALLEL_RUN = ''PARALLEL_RUN''"
| "phase_text CUTOVER_IN_PROGRESS = ''CUTOVER_IN_PROGRESS''"
| "phase_text GO_LIVE = ''GO_LIVE''"
| "phase_text COMPLETE = ''COMPLETE''"

text \<open>The client's order.\<close>

definition PHASE_ORDER :: "engagement_status list" where
  "PHASE_ORDER =
     [DISCOVERY, PROFILING, MAPPING, TRANSFORMING, RECONCILING, PARALLEL_RUN, CUTOVER_IN_PROGRESS,
      GO_LIVE, COMPLETE]"

text \<open>The service's order.\<close>

definition orderedPhases :: "engagement_status list" where
  "orderedPhases =
     [DISCOVERY, PROFILING, MAPPING, TRANSFORMING, RECONCILING, PARALLEL_RUN, COMPLETE,
      CUTOVER_IN_PROGRESS, GO_LIVE]"

definition phase_ordinal :: "engagement_status \<Rightarrow> int" where
  "phase_ordinal p = index_of p orderedPhases"

definition nextPhaseFor :: "engagement_status \<Rightarrow> engagement_status option" where
  "nextPhaseFor current =
     (let idx = phase_ordinal current in
      if idx < 0 \<or> int (length orderedPhases) - 1 \<le> idx then None
      else Some (orderedPhases ! nat (idx + 1)))"

fun ValidTransitions :: "engagement_status \<Rightarrow> engagement_status list" where
  "ValidTransitions DISCOVERY = [PROFILING]"
| "ValidTransitions PROFILING = [MAPPING]"
| "ValidTransitions MAPPING = [TRANSFORMING]"
| "ValidTransitions TRANSFORMING = [RECONCILING]"
| "ValidTransitions RECONCILING = [PARALLEL_RUN]"
| "ValidTransitions PARALLEL_RUN = [COMPLETE]"
| "ValidTransitions COMPLETE = [CUTOVER_IN_PROGRESS]"
| "ValidTransitions CUTOVER_IN_PROGRESS = [GO_LIVE, COMPLETE]"
| "ValidTransitions GO_LIVE = []"

definition CanTransitionTo :: "engagement_status \<Rightarrow> engagement_status \<Rightarrow> bool" where
  "CanTransitionTo s target \<longleftrightarrow> target \<in> set (ValidTransitions s)"

subsection \<open>The stepper\<close>

datatype gate_direction = Dir_advance | Dir_regress

definition onPhaseClick ::
  "engagement_status \<Rightarrow> engagement_status \<Rightarrow> (gate_direction \<times> engagement_status) option" where
  "onPhaseClick status phase =
     (let currentIdx = index_of status PHASE_ORDER; targetIdx = index_of phase PHASE_ORDER in
      if targetIdx = currentIdx then None
      else if targetIdx > currentIdx then Some (Dir_advance, PHASE_ORDER ! nat (currentIdx + 1))
      else Some (Dir_regress, phase))"

subsection \<open>The dialog\<close>

record gate_dialog =
  gd_notes :: string
  gd_overrides :: "string list"

definition toggleOverride :: "string \<Rightarrow> gate_dialog \<Rightarrow> gate_dialog" where
  "toggleOverride key d =
     (if key \<in> set (gd_overrides d) then d\<lparr>gd_overrides := removeAll key (gd_overrides d)\<rparr>
      else d\<lparr>gd_overrides := gd_overrides d @ [key]\<rparr>)"

text \<open>
  The failing metrics of a loaded evaluation: \<open>filter\<close> is a method of arrays, on another value the
  render throws.
\<close>

definition eval_failing :: "json \<Rightarrow> string + string list" where
  "eval_failing ev =
     (case jget ev ''metrics'' of
        JArr ms \<Rightarrow> Inr (map (\<lambda>m. js_string (jget m ''metric_name''))
                         (filter (\<lambda>m. \<not> truthy (jget m ''passing'')) ms))
      | _ \<Rightarrow> Inl ''TypeError'')"

record gate_view =
  gv_failing :: "string list"
  gv_hasFailing :: bool
  gv_canSubmit :: bool

definition gate_view_of :: "gate_direction \<Rightarrow> gate_dialog \<Rightarrow> string list \<Rightarrow> bool \<Rightarrow> gate_view" where
  "gate_view_of dir d failing hasFailing =
     \<lparr>gv_failing = failing, gv_hasFailing = hasFailing,
      gv_canSubmit =
        (if dir = Dir_regress then 0 < length (js_trim (gd_notes d))
         else \<not> hasFailing \<or> list_all (\<lambda>k. k \<in> set (gd_overrides d)) failing)\<rparr>"

text \<open>
  A render of the open dialog: the metrics of the gate status, the evaluation once it is loaded.
\<close>

definition PhaseGateDialog ::
  "gate_direction \<Rightarrow> (string \<times> number) list \<Rightarrow> json option \<Rightarrow> gate_dialog \<Rightarrow> string + gate_view" where
  "PhaseGateDialog dir metrics gateEvaluation d =
     (case gateEvaluation of
        Some ev \<Rightarrow>
          if dir = Dir_advance then
            (case eval_failing ev of
               Inl e \<Rightarrow> Inl e
             | Inr failing \<Rightarrow> Inr (gate_view_of dir d failing (\<not> truthy (jget ev ''passed''))))
          else let failing = map fst (filter (\<lambda>(k, v). v < 0.85) metrics) in
               Inr (gate_view_of dir d failing (failing \<noteq> []))
      | None \<Rightarrow>
          let failing = map fst (filter (\<lambda>(k, v). v < 0.85) metrics) in
          Inr (gate_view_of dir d failing (failing \<noteq> [])))"

text \<open>The request the dialog hands the mutation.\<close>

definition gate_request :: "gate_direction \<Rightarrow> engagement_status \<Rightarrow> gate_dialog \<Rightarrow> json" where
  "gate_request dir targetPhase d =
     (case dir of
        Dir_regress \<Rightarrow> JObj [(''targetPhase'', JStr (phase_text targetPhase)), (''notes'', JStr (gd_notes d))]
      | Dir_advance \<Rightarrow>
          JObj [(''notes'', if gd_notes d = [] then JUndef else JStr (gd_notes d)),
                (''overrides'', if gd_overrides d = [] then JUndef else JArr (map JStr (gd_overrides d)))])"

definition handleConfirm :: "string \<Rightarrow> gate_direction \<Rightarrow> engagement_status \<Rightarrow> gate_dialog \<Rightarrow> mutation_spec" where
  "handleConfirm engagementId dir targetPhase d =
     (case dir of
        Dir_regress \<Rightarrow> useRegressPhase engagementId (gate_request dir targetPhase d)
      | Dir_advance \<Rightarrow> useAdvancePhase engagementId (gate_request dir targetPhase d))"

subsection \<open>The service\<close>

record gate_metric_definition =
  gm_name :: string
  gm_threshold :: number
  gm_greaterOrEqual :: bool

definition gateMetricDefinitions ::
  "engagement_status \<Rightarrow> engagement_status \<Rightarrow> gate_metric_definition list" where
  "gateMetricDefinitions fromPhase toPhase =
     (if (fromPhase, toPhase) = (RECONCILING, PARALLEL_RUN) then
        [\<lparr>gm_name = ''mapping_agreed_pct'', gm_threshold = 0.90, gm_greaterOrEqual = True\<rparr>]
      else if (fromPhase, toPhase) = (PARALLEL_RUN, COMPLETE) then
        [\<lparr>gm_name = ''recon_gate_score'', gm_threshold = 0.95, gm_greaterOrEqual = True\<rparr>,
         \<lparr>gm_name = ''recon_p1_unresolved'', gm_threshold = 0, gm_greaterOrEqual = False\<rparr>]
      else if (fromPhase, toPhase) = (COMPLETE, CUTOVER_IN_PROGRESS) then
        [\<lparr>gm_name = ''has_completed_parallel_run'', gm_threshold = 1, gm_greaterOrEqual = True\<rparr>,
         \<lparr>gm_name = ''has_certification'', gm_threshold = 1, gm_greaterOrEqual = True\<rparr>]
      else [])"

text \<open>A metric that is not there reads as 0.\<close>

definition metric_passes :: "(string \<rightharpoonup> number) \<Rightarrow> gate_metric_definition \<Rightarrow> bool" where
  "metric_passes raw def =
     (let currentValue = coalesce (raw (gm_name def)) 0 in
      if gm_greaterOrEqual def then gm_threshold def \<le> currentValue else currentValue \<le> gm_threshold def)"

text \<open>
  The evaluation: passed, the result of each metric, and the names of the blocking failures. \<open>raw\<close>
  holds the database's metrics with, for the cutover, the two flags.
\<close>

record gate_evaluation =
  ge_passed :: bool
  ge_metrics :: "(string \<times> bool) list"
  ge_blocking :: "string list"

definition EvaluateGate ::
  "(string \<rightharpoonup> number) \<Rightarrow> engagement_status \<Rightarrow> engagement_status \<Rightarrow> gate_evaluation" where
  "EvaluateGate raw fromPhase toPhase =
     (let defs = gateMetricDefinitions fromPhase toPhase in
      \<lparr>ge_passed = list_all (metric_passes raw) defs,
       ge_metrics = map (\<lambda>def. (gm_name def, metric_passes raw def)) defs,
       ge_blocking = map gm_name (filter (\<lambda>def. \<not> metric_passes raw def) defs)\<rparr>)"

text \<open>
  The evaluation as the service writes it: the metrics are a map, so an object on the wire.
  \<open>detail\<close> gives the further fields of a metric and \<open>failure\<close> the text of a failure.
\<close>

definition evaluation_json ::
  "(string \<Rightarrow> (string \<times> json) list) \<Rightarrow> (string \<Rightarrow> string) \<Rightarrow> gate_evaluation \<Rightarrow> json" where
  "evaluation_json detail failure ev =
     JObj [(''passed'', JBool (ge_passed ev)),
           (''metrics'', JObj (map (\<lambda>(k, p).
              (k, JObj ([(''name'', JStr k), (''passed'', JBool p)] @ detail k))) (ge_metrics ev))),
           (''blocking_failures'', JArr (map (\<lambda>k. JStr (failure k)) (ge_blocking ev)))]"

datatype phase_error =
    Invalid_body
  | Final_phase
  | Invalid_transition
  | Gate_requirements_not_met
  | Target_required
  | Notes_required
  | Invalid_phase

definition HandleAdvancePhase ::
  "(string \<rightharpoonup> number) \<Rightarrow> string list \<Rightarrow> engagement_status \<Rightarrow> phase_error + engagement_status" where
  "HandleAdvancePhase raw overrides status =
     (case nextPhaseFor status of
        None \<Rightarrow> Inl Final_phase
      | Some nextPhase \<Rightarrow>
          if \<not> CanTransitionTo status nextPhase then Inl Invalid_transition
          else let eval = EvaluateGate raw status nextPhase in
               if \<not> ge_passed eval
                  \<and> list_ex (\<lambda>(k, p). \<not> p \<and> k \<notin> set overrides) (ge_metrics eval)
               then Inl Gate_requirements_not_met
               else Inr nextPhase)"

text \<open>A string field of the decoded body; a field that is missing is the empty string.\<close>

definition body_string :: "json \<Rightarrow> string \<Rightarrow> string option" where
  "body_string b k =
     (case jget b k of JStr s \<Rightarrow> Some s | JUndef \<Rightarrow> Some [] | JNull \<Rightarrow> Some [] | _ \<Rightarrow> None)"

definition HandleRegressPhase ::
  "json \<Rightarrow> engagement_status \<Rightarrow> phase_error + engagement_status" where
  "HandleRegressPhase body status =
     (case (body_string body ''target_phase'', body_string body ''notes'') of
        (Some t, Some n) \<Rightarrow>
          if js_trim t = [] then Inl Target_required
          else if js_trim n = [] then Inl Notes_required
          else (case find (\<lambda>p. phase_text p = js_trim t) orderedPhases of
                  None \<Rightarrow> Inl Invalid_phase
                | Some target \<Rightarrow>
                    if phase_ordinal status \<le> phase_ordinal target then Inl Invalid_transition
                    else Inr target)
      | _ \<Rightarrow> Inl Invalid_body)"

subsection \<open>Client and service together\<close>

text \<open>The body a confirmation puts on the wire, and what the service answers to it.\<close>

definition confirm_body :: "gate_direction \<Rightarrow> engagement_status \<Rightarrow> gate_dialog \<Rightarrow> json" where
  "confirm_body dir targetPhase d =
     coalesce (call_body (hd (ms_calls (handleConfirm [] dir targetPhase d)))) JUndef"

definition body_overrides :: "json \<Rightarrow> string list" where
  "body_overrides b = (case jget b ''overrides'' of JArr xs \<Rightarrow> map js_string xs | _ \<Rightarrow> [])"

definition confirm_effect ::
  "(string \<rightharpoonup> number) \<Rightarrow> gate_direction \<Rightarrow> engagement_status \<Rightarrow> gate_dialog \<Rightarrow> engagement_status
     \<Rightarrow> phase_error + engagement_status" where
  "confirm_effect raw dir targetPhase d status =
     (let body = confirm_body dir targetPhase d in
      case dir of
        Dir_advance \<Rightarrow> HandleAdvancePhase raw (body_overrides body) status
      | Dir_regress \<Rightarrow> HandleRegressPhase body status)"

text \<open>
  An engagement moved with the stepper: a click, the dialog it opens rendered without an error
  (with the evaluation loaded or not), its button enabled, and the service's answer.
\<close>

inductive stepper_run :: "engagement_status \<Rightarrow> bool" where
  stepper_start: "stepper_run DISCOVERY"
| stepper_confirm: "stepper_run s \<Longrightarrow> onPhaseClick s phase = Some (dir, target) \<Longrightarrow>
    gev = None \<or> gev = Some (evaluation_json detail failure (EvaluateGate raw s target)) \<Longrightarrow>
    PhaseGateDialog dir metrics gev d = Inr v \<Longrightarrow> gv_canSubmit v \<Longrightarrow>
    confirm_effect raw dir target d s = Inr s' \<Longrightarrow> stepper_run s'"

lemma js_string_strings: "map js_string (map JStr xs) = xs"
  by (induction xs) simp_all

lemma confirm_body_simps:
  "confirm_body Dir_regress t d = wire (gate_request Dir_regress t d)"
  "confirm_body Dir_advance t d = wire (gate_request Dir_advance t d)"
  by (simp_all add: confirm_body_def handleConfirm_def useRegressPhase_def useAdvancePhase_def
      mutation_of_def migrationAPI_regressPhase_def migrationAPI_advancePhase_def call_body_def
      send_body_def stringify_def gate_request_def RAW_def)

lemma sent_overrides: "body_overrides (confirm_body Dir_advance t d) = gd_overrides d"
proof -
  have w: "wire (JArr (map JStr xs)) = JArr (map JStr xs)" for xs
    by (induction xs) simp_all
  show ?thesis
    by (cases "gd_overrides d"; cases "gd_notes d")
      (simp_all add: confirm_body_simps gate_request_def body_overrides_def w[of "_ # _", simplified]
        js_string_strings comp_def)
qed

lemma phase_index_simps:
  "index_of DISCOVERY PHASE_ORDER = 0" "index_of PROFILING PHASE_ORDER = 1"
  "index_of MAPPING PHASE_ORDER = 2" "index_of TRANSFORMING PHASE_ORDER = 3"
  "index_of RECONCILING PHASE_ORDER = 4" "index_of PARALLEL_RUN PHASE_ORDER = 5"
  "index_of CUTOVER_IN_PROGRESS PHASE_ORDER = 6" "index_of GO_LIVE PHASE_ORDER = 7"
  "index_of COMPLETE PHASE_ORDER = 8"
  by (simp_all add: PHASE_ORDER_def)

lemma nextPhaseFor_simps:
  "nextPhaseFor DISCOVERY = Some PROFILING" "nextPhaseFor PROFILING = Some MAPPING"
  "nextPhaseFor MAPPING = Some TRANSFORMING" "nextPhaseFor TRANSFORMING = Some RECONCILING"
  "nextPhaseFor RECONCILING = Some PARALLEL_RUN" "nextPhaseFor PARALLEL_RUN = Some COMPLETE"
  "nextPhaseFor COMPLETE = Some CUTOVER_IN_PROGRESS" "nextPhaseFor CUTOVER_IN_PROGRESS = Some GO_LIVE"
  "nextPhaseFor GO_LIVE = None"
  by (simp_all add: nextPhaseFor_def phase_ordinal_def orderedPhases_def eval_nat_numeral)

lemma next_allowed: "nextPhaseFor s = Some t \<Longrightarrow> CanTransitionTo s t"
  by (cases s) (auto simp: nextPhaseFor_simps CanTransitionTo_def)

lemma advance_answer:
  "HandleAdvancePhase raw overrides s = Inr t \<longleftrightarrow>
     nextPhaseFor s = Some t
   \<and> list_all (\<lambda>def. metric_passes raw def \<or> gm_name def \<in> set overrides) (gateMetricDefinitions s t)"
proof -
  have "\<not> ge_passed (EvaluateGate raw s t)
      \<and> list_ex (\<lambda>(k, p). \<not> p \<and> k \<notin> set overrides) (ge_metrics (EvaluateGate raw s t))
    \<longleftrightarrow> \<not> list_all (\<lambda>def. metric_passes raw def \<or> gm_name def \<in> set overrides) (gateMetricDefinitions s t)"
    by (auto simp: EvaluateGate_def Let_def list_all_iff list_ex_iff)
  then show ?thesis
    using next_allowed[of s t]
    by (auto simp: HandleAdvancePhase_def Let_def split: option.splits if_splits)
qed

text \<open>
  C24: The service advances an engagement exactly to the next phase of its own order, and only when
  every metric the gate of that transition asks for passes or is named among the overrides. It
  refuses with "final phase" exactly after going live, and otherwise only for an unmet gate, never
  because the transition table disagrees with the order.
\<close>

theorem advance_phase_iff:
  "(HandleAdvancePhase raw overrides s = Inr t \<longleftrightarrow>
     nextPhaseFor s = Some t
   \<and> list_all (\<lambda>def. metric_passes raw def \<or> gm_name def \<in> set overrides) (gateMetricDefinitions s t))
 \<and> (HandleAdvancePhase raw overrides s = Inl Final_phase \<longleftrightarrow> s = GO_LIVE)
 \<and> HandleAdvancePhase raw overrides s \<noteq> Inl Invalid_transition"
proof -
  have "HandleAdvancePhase raw overrides s = Inl Final_phase \<longleftrightarrow> nextPhaseFor s = None"
    by (auto simp: HandleAdvancePhase_def Let_def split: option.splits if_splits)
  moreover have "nextPhaseFor s = None \<longleftrightarrow> s = GO_LIVE"
    by (cases s) (simp_all add: nextPhaseFor_simps)
  moreover have "HandleAdvancePhase raw overrides s \<noteq> Inl Invalid_transition"
    using next_allowed[of s] by (auto simp: HandleAdvancePhase_def Let_def split: option.splits if_splits)
  ultimately show ?thesis by (simp only: advance_answer) simp
qed

text \<open>
  The service refuses every return to an earlier phase the dialog sends, whatever the phase,
  the target and the notes: the body names the target \<open>targetPhase\<close> and the service reads
  \<open>target_phase\<close>, which it then misses.
\<close>

theorem regress_always_refused:
  "confirm_effect raw Dir_regress target d s = Inl Target_required"
  by (simp add: confirm_effect_def confirm_body_simps gate_request_def HandleRegressPhase_def
      body_string_def Let_def)

text \<open>
  The advance dialog throws as soon as the service's evaluation is loaded, for every gate,
  every state of the metrics and every input of the user: the metrics of the evaluation are an
  object on the wire and the dialog filters them as an array.
\<close>

theorem evaluation_breaks_dialog:
  "PhaseGateDialog Dir_advance metrics
     (Some (evaluation_json detail failure (EvaluateGate raw s target))) d = Inl ''TypeError''"
  by (simp add: PhaseGateDialog_def eval_failing_def evaluation_json_def)

text \<open>
  Before the evaluation is loaded the dialog judges every metric against 0.85, counts
  included: with no override, an engagement with open P1 issues can be submitted and one with none
  cannot, the opposite of what the service asks for.
\<close>

theorem fallback_inverts_counts:
  "map_sum id gv_canSubmit (PhaseGateDialog Dir_advance [(''recon_p1_unresolved'', real n)] None
       \<lparr>gd_notes = notes, gd_overrides = []\<rparr>) = Inr (0 < n)
 \<and> metric_passes [''recon_p1_unresolved'' \<mapsto> real n]
     \<lparr>gm_name = ''recon_p1_unresolved'', gm_threshold = 0, gm_greaterOrEqual = False\<rparr> = (n = 0)"
  by (cases n) (auto simp: PhaseGateDialog_def gate_view_of_def metric_passes_def)



end
