(* ===== verification/PlanProfile.thy ===== *)
theory PlanProfile imports ApplicationSafety Json begin

text \<open>
  The plan configuration (the parts of src/frontend/src/config/plan-profile.yaml that code reads
  through src/frontend/src/lib/planProfile.ts, with the types of types/PlanProfile.ts), its
  queries, the document checklist of hooks/useDocumentChecklist.ts and the change impacts of
  hooks/useRetirementApplication.ts.
\<close>

record document_checklist_rule =
  dr_document_type :: string
  dr_label :: string
  dr_required_when :: string
  dr_contexts :: "string list"
  dr_accepted_formats :: "string list"
  dr_max_size_mb :: nat

record field_permissions =
  fp_immediate_edit :: "string list"
  fp_staff_review :: "string list"

record data_change_impact =
  di_trigger :: string
  di_resets_stages :: "string list"
  di_reason :: string
  di_notify_staff :: bool

record glossary_term =
  gt_term :: string
  gt_definition :: string
  gt_applies_to_tiers :: "string list option"

record plan_profile =
  pp_checklist_rules :: "document_checklist_rule list"
  pp_field_permissions :: field_permissions
  pp_data_change_impacts :: "data_change_impact list"
  pp_plan_specific_terms :: "glossary_term list"

definition quote_char :: char where
  "quote_char = char_of (39 :: nat)"

subsection \<open>The configured plan\<close>

definition plan_checklist_rules :: "document_checklist_rule list" where
  "plan_checklist_rules =
    [\<lparr>dr_document_type = ''proof_of_age'', dr_label = ''Proof of Age'',
      dr_required_when = ''always'',
      dr_contexts = [''retirement_application'', ''refund_application''],
      dr_accepted_formats = [''pdf'', ''jpg'', ''png''], dr_max_size_mb = 10\<rparr>,
     \<lparr>dr_document_type = ''marriage_certificate'', dr_label = ''Marriage Certificate'',
      dr_required_when = ''member.marital_status == '' @ [quote_char] @ ''married'' @ [quote_char],
      dr_contexts = [''retirement_application''],
      dr_accepted_formats = [''pdf'', ''jpg'', ''png''], dr_max_size_mb = 10\<rparr>,
     \<lparr>dr_document_type = ''direct_deposit_form'', dr_label = ''Direct Deposit Authorization'',
      dr_required_when = ''always'',
      dr_contexts = [''retirement_application'', ''refund_application''],
      dr_accepted_formats = [''pdf''], dr_max_size_mb = 5\<rparr>,
     \<lparr>dr_document_type = ''tax_withholding'', dr_label = ''Tax Withholding Election (W-4P)'',
      dr_required_when = ''always'',
      dr_contexts = [''retirement_application''],
      dr_accepted_formats = [''pdf''], dr_max_size_mb = 5\<rparr>,
     \<lparr>dr_document_type = ''divorce_decree'', dr_label = ''Divorce Decree / DRO'',
      dr_required_when = ''member.marital_status == '' @ [quote_char] @ ''divorced'' @ [quote_char],
      dr_contexts = [''retirement_application''],
      dr_accepted_formats = [''pdf''], dr_max_size_mb = 20\<rparr>,
     \<lparr>dr_document_type = ''death_certificate'', dr_label = ''Death Certificate'',
      dr_required_when = ''always'',
      dr_contexts = [''death_notification'', ''survivor_claim''],
      dr_accepted_formats = [''pdf'', ''jpg'', ''png''], dr_max_size_mb = 10\<rparr>,
     \<lparr>dr_document_type = ''beneficiary_proof_of_age'', dr_label = ''Beneficiary Proof of Age'',
      dr_required_when = ''always'',
      dr_contexts = [''survivor_claim''],
      dr_accepted_formats = [''pdf'', ''jpg'', ''png''], dr_max_size_mb = 10\<rparr>]"

definition plan_field_permissions :: field_permissions where
  "plan_field_permissions =
     \<lparr>fp_immediate_edit = [''phone'', ''email'', ''mailing_address''],
      fp_staff_review = [''legal_name'', ''date_of_birth'', ''ssn'', ''marital_status'', ''beneficiaries'']\<rparr>"

definition plan_data_change_impacts :: "data_change_impact list" where
  "plan_data_change_impacts =
    [\<lparr>di_trigger = ''beneficiary_change'', di_resets_stages = [''payment_option''],
      di_reason = ''Changing beneficiaries may affect your payment option selection'',
      di_notify_staff = True\<rparr>,
     \<lparr>di_trigger = ''marital_status_change'', di_resets_stages = [''payment_option'', ''document_checklist''],
      di_reason = ''Changes to marital status affect required documents and payment options'',
      di_notify_staff = True\<rparr>,
     \<lparr>di_trigger = ''address_change'', di_resets_stages = [],
      di_reason = ''Address updates are processed immediately'',
      di_notify_staff = False\<rparr>]"

definition plan_specific_terms :: "glossary_term list" where
  "plan_specific_terms =
    [\<lparr>gt_term = ''Rule of 75'',
      gt_definition = ''You may retire when your age plus years of earned service equals 75 or more, provided you are at least age 55.'',
      gt_applies_to_tiers = Some [''tier_1'', ''tier_2'']\<rparr>,
     \<lparr>gt_term = ''Rule of 85'',
      gt_definition = ''You may retire when your age plus years of earned service equals 85 or more, provided you are at least age 60.'',
      gt_applies_to_tiers = Some [''tier_3'']\<rparr>,
     \<lparr>gt_term = ''AMS'',
      gt_definition = ''Average Monthly Salary '' @ [CHR 0xE2, CHR 0x80, CHR 0x94] @ '' the average of your highest consecutive months of salary, used to calculate your retirement benefit.'',
      gt_applies_to_tiers = None\<rparr>,
     \<lparr>gt_term = ''Vesting'',
      gt_definition = ''After 5 years of earned service, you are vested and eligible for a future retirement benefit even if you leave employment.'',
      gt_applies_to_tiers = None\<rparr>,
     \<lparr>gt_term = ''Purchased Service'',
      gt_definition = ''Additional service credit you can buy to increase your benefit amount. Purchased service counts toward your benefit calculation but NOT toward eligibility rules like Rule of 75 or Rule of 85.'',
      gt_applies_to_tiers = None\<rparr>,
     \<lparr>gt_term = ''Early Retirement Reduction'',
      gt_definition = ''If you retire before age 65 without meeting a Rule of 75/85, your benefit is reduced. Tiers 1 and 2: 3% per year under 65. Tier 3: 6% per year under 65.'',
      gt_applies_to_tiers = None\<rparr>]"

definition getPlanProfile :: plan_profile where
  "getPlanProfile =
     \<lparr>pp_checklist_rules = plan_checklist_rules,
      pp_field_permissions = plan_field_permissions,
      pp_data_change_impacts = plan_data_change_impacts,
      pp_plan_specific_terms = plan_specific_terms\<rparr>"

subsection \<open>Conditions\<close>

text \<open>The classes \<open>\w\<close> and (on ASCII) \<open>\s\<close> of regular expressions.\<close>

definition word_char :: "char \<Rightarrow> bool" where
  "word_char c =
     (let n = (of_char c :: nat) in
      65 \<le> n \<and> n \<le> 90 \<or> 97 \<le> n \<and> n \<le> 122 \<or> 48 \<le> n \<and> n \<le> 57 \<or> n = 95)"

definition space_char :: "char \<Rightarrow> bool" where
  "space_char c = (let n = (of_char c :: nat) in n = 32 \<or> 9 \<le> n \<and> n \<le> 13)"

text \<open>The match of \<open>'?([^']+)'?$\<close>, with its group.\<close>

definition match_value :: "string \<Rightarrow> string option" where
  "match_value s =
     (let r = (case s of c # t \<Rightarrow> if c = quote_char then t else s | [] \<Rightarrow> []);
          v = takeWhile (\<lambda>c. c \<noteq> quote_char) r;
          rest = dropWhile (\<lambda>c. c \<noteq> quote_char) r
      in if v \<noteq> [] \<and> (rest = [] \<or> rest = [quote_char]) then Some v else None)"

text \<open>
  The match of \<open>\s*'?([^']+)'?$\<close>: the spaces are taken greedily and given back one at a time
  until the rest matches.
\<close>

fun match_spaced :: "nat \<Rightarrow> string \<Rightarrow> string option" where
  "match_spaced 0 s = match_value s"
| "match_spaced (Suc k) s =
     (case match_value (drop (Suc k) s) of
        Some v \<Rightarrow> Some v
      | None \<Rightarrow> match_spaced k s)"

text \<open>\<open>condition.match(/^(\w+)\.(\w+)\s*==\s*'?([^']+)'?$/)\<close>: the second and third groups.\<close>

definition match_condition :: "string \<Rightarrow> (string \<times> string) option" where
  "match_condition condition =
     (let obj = takeWhile word_char condition; r1 = dropWhile word_char condition in
      if obj = [] then None
      else (case r1 of
        [] \<Rightarrow> None
      | d # r2 \<Rightarrow>
          if d \<noteq> CHR ''.'' then None
          else let fld = takeWhile word_char r2;
                   r3 = dropWhile space_char (dropWhile word_char r2)
               in if fld = [] \<or> take 2 r3 \<noteq> ''=='' then None
                  else let r4 = drop 2 r3 in
                    map_option (Pair fld)
                      (match_spaced (length (takeWhile space_char r4)) r4)))"

definition evaluateCondition :: "string \<Rightarrow> (string \<times> json) list \<Rightarrow> bool" where
  "evaluateCondition condition data =
     (case match_condition condition of
        None \<Rightarrow> True
      | Some (fld, val) \<Rightarrow> js_string (jget (JObj data) fld) = val)"

subsection \<open>Queries\<close>

datatype field_permission = Immediate | Needs_staff_review

definition getFieldPermission :: "string \<Rightarrow> field_permission" where
  "getFieldPermission fld =
     (if fld \<in> set (fp_immediate_edit (pp_field_permissions getPlanProfile)) then Immediate
      else Needs_staff_review)"

definition rule_applies ::
  "string \<Rightarrow> (string \<times> json) list \<Rightarrow> document_checklist_rule \<Rightarrow> bool" where
  "rule_applies ctx memberData rule =
     (if ctx \<notin> set (dr_contexts rule) then False
      else if dr_required_when rule = ''always'' then True
      else evaluateCondition (dr_required_when rule) memberData)"

definition getDocumentChecklist ::
  "string \<Rightarrow> (string \<times> json) list \<Rightarrow> document_checklist_rule list" where
  "getDocumentChecklist ctx memberData =
     filter (rule_applies ctx memberData) (pp_checklist_rules getPlanProfile)"

definition getDataChangeImpacts :: "string \<Rightarrow> data_change_impact list" where
  "getDataChangeImpacts trigger =
     filter (\<lambda>i. di_trigger i = trigger) (pp_data_change_impacts getPlanProfile)"

definition getGlossaryTerm :: "string \<Rightarrow> string option \<Rightarrow> glossary_term option" where
  "getGlossaryTerm term_name tierId =
     find (\<lambda>t. gt_term t = term_name \<and>
        (case gt_applies_to_tiers t of
           None \<Rightarrow> True
         | Some tiers \<Rightarrow> (case tierId of None \<Rightarrow> True | Some ti \<Rightarrow> ti = [] \<or> ti \<in> set tiers)))
       (pp_plan_specific_terms getPlanProfile)"

definition getChangeImpacts :: "string \<Rightarrow> data_change_impact_view list" where
  "getChangeImpacts trigger =
     map (\<lambda>impact. \<lparr>ci_trigger = di_trigger impact, ci_affected_stages = di_resets_stages impact,
                    ci_description = di_reason impact\<rparr>)
       (getDataChangeImpacts trigger)"

subsection \<open>The document checklist\<close>

record document_upload =
  du_id :: string
  du_document_type :: string
  du_filename :: string
  du_status :: upload_status

datatype checklist_status = Outstanding | Received

record checklist_item =
  cl_rule :: document_checklist_rule
  cl_status :: checklist_status
  cl_upload :: "document_upload option"

definition statusToContext :: "string \<Rightarrow> string" where
  "statusToContext memberStatus =
     (let s = to_upper memberStatus in
      if s = ''ACTIVE'' then ''retirement_application''
      else if s = ''INACTIVE'' then ''refund_application''
      else if s = ''DECEASED'' then ''death_notification''
      else [])"

definition checklist_entry :: "document_upload list \<Rightarrow> document_checklist_rule \<Rightarrow> checklist_item" where
  "checklist_entry uploads rule =
     (case find (\<lambda>u. du_document_type u = dr_document_type rule) uploads of
        Some m \<Rightarrow> \<lparr>cl_rule = rule, cl_status = Received, cl_upload = Some m\<rparr>
      | None \<Rightarrow> \<lparr>cl_rule = rule, cl_status = Outstanding, cl_upload = None\<rparr>)"

text \<open>The items, the number outstanding and the number received.\<close>

definition useDocumentChecklist ::
  "string \<Rightarrow> (string \<times> json) list \<Rightarrow> document_upload list \<Rightarrow> checklist_item list \<times> nat \<times> nat" where
  "useDocumentChecklist memberStatus memberData uploads =
     (let ctx = statusToContext memberStatus;
          rules = (if ctx \<noteq> [] then getDocumentChecklist ctx memberData else []);
          items = map (checklist_entry uploads) rules
      in (items, length (filter (\<lambda>i. cl_status i = Outstanding) items),
          length (filter (\<lambda>i. cl_status i = Received) items)))"

lemmas [table_simps] = plan_checklist_rules_def plan_field_permissions_def
  plan_data_change_impacts_def getPlanProfile_def

subsection \<open>What the configuration asks for\<close>

lemma match_married:
  "match_condition (''member.marital_status == '' @ [quote_char] @ ''married'' @ [quote_char])
     = Some (''marital_status'', ''married'')"
  by code_simp

lemma match_divorced:
  "match_condition (''member.marital_status == '' @ [quote_char] @ ''divorced'' @ [quote_char])
     = Some (''marital_status'', ''divorced'')"
  by code_simp

lemma quoted_not_always: "''member.marital_status == '' @ s \<noteq> ''always''"
  by simp

lemma checklist_of_application:
  "map dr_document_type (getDocumentChecklist ''retirement_application'' memberData) =
     [''proof_of_age'']
   @ (if js_string (jget (JObj memberData) ''marital_status'') = ''married''
      then [''marriage_certificate''] else [])
   @ [''direct_deposit_form'', ''tax_withholding'']
   @ (if js_string (jget (JObj memberData) ''marital_status'') = ''divorced''
      then [''divorce_decree''] else [])"
  unfolding getDocumentChecklist_def getPlanProfile_def plan_checklist_rules_def
  by (simp add: rule_applies_def evaluateCondition_def match_married[simplified]
      match_divorced[simplified])

text \<open>
  The retirement application asks an active member for the proof of age, the direct deposit
  form and the tax election in any case, for the marriage certificate exactly when the member is
  married and for the divorce decree exactly when divorced; every required document is either
  received or outstanding, and one is received exactly when an upload of its type exists.
\<close>

theorem application_checklist:
  "let (items, outstanding, received) = useDocumentChecklist ''active'' memberData uploads;
       marital = js_string (jget (JObj memberData) ''marital_status'')
   in map (\<lambda>i. dr_document_type (cl_rule i)) items =
        [''proof_of_age''] @ (if marital = ''married'' then [''marriage_certificate''] else [])
      @ [''direct_deposit_form'', ''tax_withholding'']
      @ (if marital = ''divorced'' then [''divorce_decree''] else [])
    \<and> outstanding + received = length items
    \<and> list_all (\<lambda>i. cl_status i = Received \<longleftrightarrow>
        dr_document_type (cl_rule i) \<in> du_document_type ` set uploads) items"
proof -
  have ctx: "statusToContext ''active'' = ''retirement_application''"
    by code_simp
  have split: "length (filter (\<lambda>i. cl_status i = Outstanding) xs)
      + length (filter (\<lambda>i. cl_status i = Received) xs) = length xs" for xs :: "checklist_item list"
  proof (induction xs)
    case (Cons i xs)
    then show ?case by (cases "cl_status i") simp_all
  qed simp
  have rule: "cl_rule (checklist_entry uploads r) = r" for r
    by (simp add: checklist_entry_def split: option.split)
  have rec: "cl_status (checklist_entry uploads r) = Received
      \<longleftrightarrow> dr_document_type r \<in> du_document_type ` set uploads" for r
    by (auto simp: checklist_entry_def find_None_iff find_Some_iff image_iff
        split: option.split) (metis nth_mem)
  let ?L = "getDocumentChecklist ''retirement_application'' memberData"
  have "length (filter (\<lambda>r. cl_status (checklist_entry uploads r) = Outstanding) ?L)
      + length (filter (\<lambda>r. cl_status (checklist_entry uploads r) = Received) ?L) = length ?L"
    using split[of "map (checklist_entry uploads) ?L"] by (simp add: filter_map comp_def)
  then show ?thesis
    using checklist_of_application[of memberData]
    by (simp add: useDocumentChecklist_def Let_def ctx rule rec list_all_iff comp_def filter_map)
qed

text \<open>The names of the application's stages, as the configuration writes them.\<close>

fun stage_name :: "member_stage \<Rightarrow> string" where
  "stage_name Verify_info = ''verify_info''"
| "stage_name Upload_docs = ''upload_docs''"
| "stage_name Benefit_estimate = ''benefit_estimate''"
| "stage_name Payment_option = ''payment_option''"
| "stage_name Review_submit = ''review_submit''"
| "stage_name Staff_review = ''staff_review''"
| "stage_name Complete_stage = ''complete''"

lemma stage_name_range:
  "n \<in> range stage_name \<longleftrightarrow> n \<in> set [''verify_info'', ''upload_docs'', ''benefit_estimate'',
     ''payment_option'', ''review_submit'', ''staff_review'', ''complete'']"
proof
  assume "n \<in> range stage_name"
  then obtain s where "n = stage_name s" by blast
  then show "n \<in> set [''verify_info'', ''upload_docs'', ''benefit_estimate'',
     ''payment_option'', ''review_submit'', ''staff_review'', ''complete'']"
    by (cases s) simp_all
next
  assume "n \<in> set [''verify_info'', ''upload_docs'', ''benefit_estimate'',
     ''payment_option'', ''review_submit'', ''staff_review'', ''complete'']"
  then show "n \<in> range stage_name"
    by (simp; metis rangeI stage_name.simps)
qed

text \<open>
  The stages a data change resets are stages of the application's state machine, but for one:
  the change of marital status names a document checklist stage, which the machine does not have.
\<close>

theorem change_impact_stages:
  "list_all (\<lambda>v. list_all (\<lambda>n. n \<in> range stage_name
        \<or> trigger = ''marital_status_change'' \<and> n = ''document_checklist'') (ci_affected_stages v))
     (getChangeImpacts trigger)
 \<and> ''document_checklist'' \<notin> range stage_name
 \<and> list_ex (\<lambda>v. ''document_checklist'' \<in> set (ci_affected_stages v))
     (getChangeImpacts ''marital_status_change'')"
  by (simp add: getChangeImpacts_def getDataChangeImpacts_def getPlanProfile_def
      plan_data_change_impacts_def stage_name_range del: range_eqI)

end
