(* ===== verification/PlatformRoutes.thy ===== *)
theory PlatformRoutes imports ServiceRoutes CrmApi MemberPortalApi ServiceApis begin

text \<open>
  The calls of the remaining client objects (src/frontend/src/lib) against the gateway and the
  tables of the services, and the calls that reach no handler.
\<close>

subsection \<open>Expected handlers\<close>

definition dataaccess_calls_1 ::
  "string \<Rightarrow> json \<Rightarrow> int \<Rightarrow> (rest_call \<times> string) list" where
  "dataaccess_calls_1 i b n =
     [(paymentAPI_list n, ''GetPaymentHistory''),
      (paymentAPI_taxDocuments n, ''GetTaxDocuments''),
      (documentAPI_list n, ''ListMemberDocuments''),
      (addressAPI_list n, ''GetAddresses''),
      (addressAPI_update n i b, ''UpdateAddress''),
      (refundAPI_estimate n, ''GetRefundEstimate''),
      (connectorAPI_getMember no_vite n, ''GetMember'')]"

definition dataaccess_calls_2 ::
  "int \<Rightarrow> (rest_call \<times> string) list" where
  "dataaccess_calls_2 n =
     [(connectorAPI_getEmployment no_vite n, ''GetEmploymentHistory''),
      (connectorAPI_getSalary no_vite n, ''GetSalaryHistory''),
      (connectorAPI_getAMS no_vite n, ''GetAMS''),
      (connectorAPI_getBeneficiaries no_vite n, ''GetBeneficiaries''),
      (connectorAPI_getDRO no_vite n, ''GetDRO''),
      (connectorAPI_getContributions no_vite n, ''GetContributions''),
      (connectorAPI_getServiceCredit no_vite n, ''GetServiceCredit'')]"

definition dataaccess_calls_3 ::
  "string \<Rightarrow> int option \<Rightarrow> (rest_call \<times> string) list" where
  "dataaccess_calls_3 s m =
     [(memberSearchAPI_search no_vite s m, ''SearchMembers'')]"

definition intelligence_calls_1 ::
  "string \<Rightarrow> int \<Rightarrow> string option \<Rightarrow> int option \<Rightarrow> string list \<Rightarrow> (rest_call \<times> string) list" where
  "intelligence_calls_1 s n t m l =
     [(intelligenceAPI_evaluateEligibility no_vite n t, ''EvaluateEligibility''),
      (intelligenceAPI_calculateBenefit no_vite n s m, ''CalculateBenefit''),
      (intelligenceAPI_calculateOptions no_vite n s t m, ''CalculatePaymentOptions''),
      (intelligenceAPI_calculateScenario no_vite n l m, ''CalculateScenario''),
      (intelligenceAPI_calculateDRO no_vite n s, ''CalculateDRO'')]"

definition crm_calls_1 ::
  "string \<Rightarrow> json \<Rightarrow> fields \<Rightarrow> int option \<Rightarrow> int option \<Rightarrow> (rest_call \<times> string) list" where
  "crm_calls_1 i b p m m2 =
     [(crmAPI_searchContacts no_vite p, ''SearchContacts''),
      (crmAPI_getContact no_vite i, ''GetContact''),
      (crmAPI_createContact no_vite b, ''CreateContact''),
      (crmAPI_getContactByLegacyId no_vite i, ''GetContactByLegacyID''),
      (crmAPI_getContactTimeline no_vite i m m2, ''GetContactTimeline''),
      (crmAPI_createInteraction no_vite b, ''CreateInteraction''),
      (crmAPI_getInteraction no_vite i, ''GetInteraction'')]"

definition crm_calls_2 ::
  "string \<Rightarrow> string \<Rightarrow> string \<Rightarrow> json \<Rightarrow> fields \<Rightarrow> string option \<Rightarrow> int option \<Rightarrow> (rest_call \<times> string) list" where
  "crm_calls_2 i s s2 b p t m =
     [(crmAPI_listInteractions no_vite p, ''ListInteractions''),
      (crmAPI_listConversations no_vite p, ''ListConversations''),
      (crmAPI_listConversationsByAnchor no_vite s s2 t m, ''ListConversations''),
      (crmAPI_getConversation no_vite i, ''GetConversation''),
      (crmAPI_createConversation no_vite b, ''CreateConversation''),
      (crmAPI_createNote no_vite b, ''CreateNote''),
      (crmAPI_listCommitments no_vite p, ''ListCommitments'')]"

definition crm_calls_3 ::
  "string \<Rightarrow> json \<Rightarrow> fields \<Rightarrow> fields option \<Rightarrow> (rest_call \<times> string) list" where
  "crm_calls_3 i b p q =
     [(crmAPI_createCommitment no_vite b, ''CreateCommitment''),
      (crmAPI_listOutreach no_vite p, ''ListOutreach''),
      (crmAPI_createOutreach no_vite b, ''CreateOutreach''),
      (crmAPI_listOrganizations no_vite p, ''ListOrganizations''),
      (crmAPI_getOrganization no_vite i, ''GetOrganization''),
      (auditAPI_listEntries no_vite q, ''GetAuditLog''),
      (fetchOrgInteractions i q, ''ListOrgInteractions'')]"

definition crm_calls_4 ::
  "string \<Rightarrow> json \<Rightarrow> fields option \<Rightarrow> (rest_call \<times> string) list" where
  "crm_calls_4 i b q =
     [(fetchOrgContacts i q, ''ListOrgContacts''),
      (createEmployerInteraction b, ''CreateEmployerInteraction'')]"

definition knowledgebase_calls_1 ::
  "string \<Rightarrow> string \<Rightarrow> fields option \<Rightarrow> string option \<Rightarrow> int option \<Rightarrow> (rest_call \<times> string) list" where
  "knowledgebase_calls_1 i s q t m =
     [(kbAPI_listArticles no_vite q, ''ListArticles''),
      (kbAPI_getArticle no_vite i, ''GetArticle''),
      (kbAPI_getStageHelp no_vite i, ''GetStageHelp''),
      (kbAPI_searchArticles no_vite s m, ''SearchArticles''),
      (kbAPI_listRules no_vite t, ''ListRules''),
      (kbAPI_getRuleDetail no_vite i, ''GetRule''),
      (rulesAPI_listDefinitions no_vite t, ''ListRuleDefinitions'')]"

definition knowledgebase_calls_2 ::
  "string \<Rightarrow> (rest_call \<times> string) list" where
  "knowledgebase_calls_2 i =
     [(rulesAPI_getDefinition no_vite i, ''GetRuleDefinition''),
      (rulesAPI_getTestReport no_vite, ''GetTestReport''),
      (rulesAPI_getTestReportForRule no_vite i, ''GetTestReportForRule''),
      (rulesAPI_listDemoCases no_vite, ''ListDemoCases''),
      (rulesAPI_getDemoCase no_vite i, ''GetDemoCase'')]"

definition dataquality_calls_1 ::
  "string \<Rightarrow> fields option \<Rightarrow> (rest_call \<times> string) list" where
  "dataquality_calls_1 i q =
     [(fetchEmployerDQScore i, ''GetEmployerScore''),
      (fetchEmployerDQIssues i q, ''ListEmployerIssues''),
      (fetchEmployerDQChecks i q, ''ListEmployerChecks''),
      (dqAPI_listChecks no_vite q, ''ListChecks''),
      (dqAPI_getCheck no_vite i, ''GetCheck''),
      (dqAPI_listResults no_vite q, ''ListResults''),
      (dqAPI_getScore no_vite, ''GetScore'')]"

definition dataquality_calls_2 ::
  "string \<Rightarrow> json \<Rightarrow> fields option \<Rightarrow> int option \<Rightarrow> (rest_call \<times> string) list" where
  "dataquality_calls_2 i b q m =
     [(dqAPI_getScoreTrend no_vite m, ''GetScoreTrend''),
      (dqAPI_listIssues no_vite q, ''ListIssues''),
      (dqAPI_updateIssue no_vite i b, ''UpdateIssue'')]"

definition correspondence_calls_1 ::
  "string \<Rightarrow> json \<Rightarrow> fields option \<Rightarrow> (rest_call \<times> string) list" where
  "correspondence_calls_1 i b q =
     [(fetchEmployerTemplates q, ''ListEmployerTemplates''),
      (generateEmployerLetter b, ''GenerateEmployer''),
      (correspondenceAPI_listTemplates no_vite q, ''ListTemplates''),
      (correspondenceAPI_getTemplate no_vite i, ''GetTemplate''),
      (correspondenceAPI_generate no_vite b, ''Generate''),
      (correspondenceAPI_listHistory no_vite q, ''ListHistory''),
      (correspondenceAPI_getCorrespondence no_vite i, ''GetCorrespondence'')]"

definition correspondence_calls_2 ::
  "string \<Rightarrow> json \<Rightarrow> (rest_call \<times> string) list" where
  "correspondence_calls_2 i b =
     [(correspondenceAPI_updateStatus no_vite i b, ''UpdateCorrespondence'')]"

definition casemanagement_calls_1 ::
  "string \<Rightarrow> json \<Rightarrow> fields option \<Rightarrow> int option \<Rightarrow> (rest_call \<times> string) list" where
  "casemanagement_calls_1 i b q m =
     [(caseAPI_listStages no_vite, ''ListStages''),
      (caseAPI_getCaseStats no_vite, ''GetCaseStats''),
      (caseAPI_getSLAStats no_vite, ''GetSLAStats''),
      (caseAPI_getVolumeStats no_vite m, ''GetVolumeStats''),
      (caseAPI_listCases no_vite q, ''ListCases''),
      (caseAPI_getCase no_vite i, ''GetCase''),
      (caseAPI_createCase no_vite b, ''CreateCase'')]"

definition casemanagement_calls_2 ::
  "string \<Rightarrow> json \<Rightarrow> (rest_call \<times> string) list" where
  "casemanagement_calls_2 i b =
     [(caseAPI_updateCase no_vite i b, ''UpdateCase''),
      (caseAPI_advanceStage no_vite i b, ''AdvanceStage''),
      (caseAPI_getStageHistory no_vite i, ''GetStageHistory'')]"

definition preferences_calls_1 ::
  "string \<Rightarrow> json \<Rightarrow> (rest_call \<times> string) list" where
  "preferences_calls_1 s b =
     [(preferencesAPI_getPreferences no_vite s, ''GetPreferences''),
      (preferencesAPI_upsertPreference no_vite b, ''UpsertPreference''),
      (preferencesAPI_resetPreferences no_vite s, ''ResetPreferences'')]"

definition issues_calls_1 ::
  "json \<Rightarrow> fields \<Rightarrow> fields option \<Rightarrow> int \<Rightarrow> (rest_call \<times> string) list" where
  "issues_calls_1 b p q n =
     [(changeRequestAPI_list n, ''ListIssues''),
      (changeRequestAPI_create p, ''CreateIssue''),
      (issuesAPI_listIssues no_vite q, ''ListIssues''),
      (issuesAPI_getIssue no_vite n, ''GetIssue''),
      (issuesAPI_createIssue no_vite b, ''CreateIssue''),
      (issuesAPI_updateIssue no_vite n b, ''UpdateIssue''),
      (issuesAPI_getStats no_vite, ''GetIssueStats'')]"

definition issues_calls_2 ::
  "json \<Rightarrow> int \<Rightarrow> (rest_call \<times> string) list" where
  "issues_calls_2 b n =
     [(issuesAPI_listComments no_vite n, ''ListComments''),
      (issuesAPI_createComment no_vite n b, ''CreateComment'')]"

definition security_calls_1 ::
  "fields option \<Rightarrow> (rest_call \<times> string) list" where
  "security_calls_1 q =
     [(securityAPI_listEvents no_vite q, ''ListEvents''),
      (securityAPI_getEventStats no_vite, ''GetEventStats''),
      (securityAPI_listSessions no_vite, ''ListActiveSessions'')]"

subsection \<open>Evaluation\<close>

lemmas platform_base_steps = no_vite_def or_str_def CRM_URL_def
  CONNECTOR_URL_def
  INTELLIGENCE_URL_def
  PREFERENCES_URL_def
  CASE_URL_def
  ISSUES_URL_def
  SECURITY_URL_def
  CORR_URL_def
  KB_URL_def
  DQ_URL_def
  DATA_URL_def

lemma platform_words:
  "''search'' \<noteq> int_str n"
  "''stats'' \<noteq> int_str n"
  by (rule not_sym, rule int_not_word[where c = "CHR ''s''"], simp, simp)+

lemma dataaccess_calls_1_ok:
  assumes "plain_segment i"
  shows "list_all (reaches ''dataaccess'') (dataaccess_calls_1 i b n)"
  using assms by (simp add: dataaccess_calls_1_def route_steps platform_base_steps platform_words
      paymentAPI_list_def paymentAPI_taxDocuments_def documentAPI_list_def
      addressAPI_list_def addressAPI_update_def refundAPI_estimate_def
      connectorAPI_getMember_def)

lemma dataaccess_calls_2_ok:
  shows "list_all (reaches ''dataaccess'') (dataaccess_calls_2 n)"
  by (simp add: dataaccess_calls_2_def route_steps platform_base_steps platform_words
      connectorAPI_getEmployment_def connectorAPI_getSalary_def connectorAPI_getAMS_def
      connectorAPI_getBeneficiaries_def connectorAPI_getDRO_def connectorAPI_getContributions_def
      connectorAPI_getServiceCredit_def)

lemma dataaccess_calls_3_ok:
  shows "list_all (reaches ''dataaccess'') (dataaccess_calls_3 s m)"
  by (simp add: dataaccess_calls_3_def route_steps platform_base_steps platform_words
      memberSearchAPI_search_def)

lemma intelligence_calls_1_ok:
  shows "list_all (reaches ''intelligence'') (intelligence_calls_1 s n t m l)"
  by (simp add: intelligence_calls_1_def route_steps platform_base_steps platform_words
      intelligenceAPI_evaluateEligibility_def intelligenceAPI_calculateBenefit_def intelligenceAPI_calculateOptions_def
      intelligenceAPI_calculateScenario_def intelligenceAPI_calculateDRO_def)

lemma crm_calls_1_ok:
  assumes "plain_segment i" "i \<noteq> ''employer''"
  shows "list_all (reaches ''crm'') (crm_calls_1 i b p m m2)"
  using assms by (simp add: crm_calls_1_def route_steps platform_base_steps platform_words
      crmAPI_searchContacts_def crmAPI_getContact_def crmAPI_createContact_def
      crmAPI_getContactByLegacyId_def crmAPI_getContactTimeline_def crmAPI_createInteraction_def
      crmAPI_getInteraction_def)

lemma crm_calls_2_ok:
  assumes "plain_segment i"
  shows "list_all (reaches ''crm'') (crm_calls_2 i s s2 b p t m)"
  using assms by (simp add: crm_calls_2_def route_steps platform_base_steps platform_words
      crmAPI_listInteractions_def crmAPI_listConversations_def crmAPI_listConversationsByAnchor_def
      crmAPI_getConversation_def crmAPI_createConversation_def crmAPI_createNote_def
      crmAPI_listCommitments_def)

lemma crm_calls_3_ok:
  assumes "plain_segment i"
  shows "list_all (reaches ''crm'') (crm_calls_3 i b p q)"
  using assms by (simp add: crm_calls_3_def route_steps platform_base_steps platform_words
      crmAPI_createCommitment_def crmAPI_listOutreach_def crmAPI_createOutreach_def
      crmAPI_listOrganizations_def crmAPI_getOrganization_def auditAPI_listEntries_def
      fetchOrgInteractions_def)

lemma crm_calls_4_ok:
  assumes "plain_segment i"
  shows "list_all (reaches ''crm'') (crm_calls_4 i b q)"
  using assms by (simp add: crm_calls_4_def route_steps platform_base_steps platform_words
      fetchOrgContacts_def createEmployerInteraction_def)

lemma knowledgebase_calls_1_ok:
  assumes "plain_segment i" "i \<noteq> ''definitions''"
  shows "list_all (reaches ''knowledgebase'') (knowledgebase_calls_1 i s q t m)"
  using assms by (simp add: knowledgebase_calls_1_def route_steps platform_base_steps platform_words
      kbAPI_listArticles_def kbAPI_getArticle_def kbAPI_getStageHelp_def
      kbAPI_searchArticles_def kbAPI_listRules_def kbAPI_getRuleDetail_def
      rulesAPI_listDefinitions_def)

lemma knowledgebase_calls_2_ok:
  assumes "plain_segment i"
  shows "list_all (reaches ''knowledgebase'') (knowledgebase_calls_2 i)"
  using assms by (simp add: knowledgebase_calls_2_def route_steps platform_base_steps platform_words
      rulesAPI_getDefinition_def rulesAPI_getTestReport_def rulesAPI_getTestReportForRule_def
      rulesAPI_listDemoCases_def rulesAPI_getDemoCase_def)

lemma dataquality_calls_1_ok:
  assumes "plain_segment i"
  shows "list_all (reaches ''dataquality'') (dataquality_calls_1 i q)"
  using assms by (simp add: dataquality_calls_1_def route_steps platform_base_steps platform_words
      fetchEmployerDQScore_def fetchEmployerDQIssues_def fetchEmployerDQChecks_def
      dqAPI_listChecks_def dqAPI_getCheck_def dqAPI_listResults_def
      dqAPI_getScore_def)

lemma dataquality_calls_2_ok:
  assumes "plain_segment i"
  shows "list_all (reaches ''dataquality'') (dataquality_calls_2 i b q m)"
  using assms by (simp add: dataquality_calls_2_def route_steps platform_base_steps platform_words
      dqAPI_getScoreTrend_def dqAPI_listIssues_def dqAPI_updateIssue_def)

lemma correspondence_calls_1_ok:
  assumes "plain_segment i" "i \<noteq> ''employer''"
  shows "list_all (reaches ''correspondence'') (correspondence_calls_1 i b q)"
  using assms by (simp add: correspondence_calls_1_def route_steps platform_base_steps platform_words
      fetchEmployerTemplates_def generateEmployerLetter_def correspondenceAPI_listTemplates_def
      correspondenceAPI_getTemplate_def correspondenceAPI_generate_def correspondenceAPI_listHistory_def
      correspondenceAPI_getCorrespondence_def)

lemma correspondence_calls_2_ok:
  assumes "plain_segment i"
  shows "list_all (reaches ''correspondence'') (correspondence_calls_2 i b)"
  using assms by (simp add: correspondence_calls_2_def route_steps platform_base_steps platform_words
      correspondenceAPI_updateStatus_def)

lemma casemanagement_calls_1_ok:
  assumes "plain_segment i" "i \<noteq> ''stats''"
  shows "list_all (reaches ''casemanagement'') (casemanagement_calls_1 i b q m)"
  using assms by (simp add: casemanagement_calls_1_def route_steps platform_base_steps platform_words
      caseAPI_listStages_def caseAPI_getCaseStats_def caseAPI_getSLAStats_def
      caseAPI_getVolumeStats_def caseAPI_listCases_def caseAPI_getCase_def
      caseAPI_createCase_def)

lemma casemanagement_calls_2_ok:
  assumes "plain_segment i" "i \<noteq> ''stats''"
  shows "list_all (reaches ''casemanagement'') (casemanagement_calls_2 i b)"
  using assms by (simp add: casemanagement_calls_2_def route_steps platform_base_steps platform_words
      caseAPI_updateCase_def caseAPI_advanceStage_def caseAPI_getStageHistory_def)

lemma preferences_calls_1_ok:
  shows "list_all (reaches ''preferences'') (preferences_calls_1 s b)"
  by (simp add: preferences_calls_1_def route_steps platform_base_steps platform_words
      preferencesAPI_getPreferences_def preferencesAPI_upsertPreference_def preferencesAPI_resetPreferences_def)

lemma issues_calls_1_ok:
  shows "list_all (reaches ''issues'') (issues_calls_1 b p q n)"
  by (simp add: issues_calls_1_def route_steps platform_base_steps platform_words
      changeRequestAPI_list_def changeRequestAPI_create_def issuesAPI_listIssues_def
      issuesAPI_getIssue_def issuesAPI_createIssue_def issuesAPI_updateIssue_def
      issuesAPI_getStats_def)

lemma issues_calls_2_ok:
  shows "list_all (reaches ''issues'') (issues_calls_2 b n)"
  by (simp add: issues_calls_2_def route_steps platform_base_steps platform_words
      issuesAPI_listComments_def issuesAPI_createComment_def)

lemma security_calls_1_ok:
  shows "list_all (reaches ''security'') (security_calls_1 q)"
  by (simp add: security_calls_1_def route_steps platform_base_steps platform_words
      securityAPI_listEvents_def securityAPI_getEventStats_def securityAPI_listSessions_def)

text \<open>
  C12: Apart from the twenty-two methods below, every method of the CRM, member portal, case, issue,
  security, correspondence, knowledge base, data quality, rules, preferences and connector clients
  is a call of the deployed service behind its address: the multiplexer there answers its method and
  path by the handler it is written for.
\<close>

theorem platform_calls_served:
  assumes "plain_segment i"
    and "i \<noteq> ''definitions''"
    and "i \<noteq> ''employer''"
    and "i \<noteq> ''stats''"
  shows "list_all (reaches ''dataaccess'') (dataaccess_calls_1 i b n @ dataaccess_calls_2 n @ dataaccess_calls_3 s m)
     \<and> list_all (reaches ''intelligence'') (intelligence_calls_1 s n t m l)
     \<and> list_all (reaches ''crm'') (crm_calls_1 i b p m m2 @ crm_calls_2 i s s2 b p t m @ crm_calls_3 i b p q @ crm_calls_4 i b q)
     \<and> list_all (reaches ''knowledgebase'') (knowledgebase_calls_1 i s q t m @ knowledgebase_calls_2 i)
     \<and> list_all (reaches ''dataquality'') (dataquality_calls_1 i q @ dataquality_calls_2 i b q m)
     \<and> list_all (reaches ''correspondence'') (correspondence_calls_1 i b q @ correspondence_calls_2 i b)
     \<and> list_all (reaches ''casemanagement'') (casemanagement_calls_1 i b q m @ casemanagement_calls_2 i b)
     \<and> list_all (reaches ''preferences'') (preferences_calls_1 s b)
     \<and> list_all (reaches ''issues'') (issues_calls_1 b p q n @ issues_calls_2 b n)
     \<and> list_all (reaches ''security'') (security_calls_1 q)"
  using assms by (simp add: dataaccess_calls_1_ok dataaccess_calls_2_ok dataaccess_calls_3_ok intelligence_calls_1_ok crm_calls_1_ok
      crm_calls_2_ok crm_calls_3_ok crm_calls_4_ok knowledgebase_calls_1_ok knowledgebase_calls_2_ok
      dataquality_calls_1_ok dataquality_calls_2_ok correspondence_calls_1_ok correspondence_calls_2_ok casemanagement_calls_1_ok
      casemanagement_calls_2_ok preferences_calls_1_ok issues_calls_1_ok issues_calls_2_ok security_calls_1_ok)

theorem platform_calls_served_witness:
  "list_all (reaches ''dataaccess'') (dataaccess_calls_1 ''e1'' JNull 7 @ dataaccess_calls_2 7 @ dataaccess_calls_3 ''x'' (Some 10))
     \<and> list_all (reaches ''intelligence'') (intelligence_calls_1 ''x'' 7 None (Some 10) [''a''])
     \<and> list_all (reaches ''crm'') (crm_calls_1 ''e1'' JNull [] (Some 10) None @ crm_calls_2 ''e1'' ''x'' ''y'' JNull [] None (Some 10) @ crm_calls_3 ''e1'' JNull [] None @ crm_calls_4 ''e1'' JNull None)
     \<and> list_all (reaches ''knowledgebase'') (knowledgebase_calls_1 ''e1'' ''x'' None None (Some 10) @ knowledgebase_calls_2 ''e1'')
     \<and> list_all (reaches ''dataquality'') (dataquality_calls_1 ''e1'' None @ dataquality_calls_2 ''e1'' JNull None (Some 10))
     \<and> list_all (reaches ''correspondence'') (correspondence_calls_1 ''e1'' JNull None @ correspondence_calls_2 ''e1'' JNull)
     \<and> list_all (reaches ''casemanagement'') (casemanagement_calls_1 ''e1'' JNull None (Some 10) @ casemanagement_calls_2 ''e1'' JNull)
     \<and> list_all (reaches ''preferences'') (preferences_calls_1 ''x'' JNull)
     \<and> list_all (reaches ''issues'') (issues_calls_1 JNull [] None 7 @ issues_calls_2 JNull 7)
     \<and> list_all (reaches ''security'') (security_calls_1 None)"
  by (rule platform_calls_served) (simp_all add: plain_segment_def)

lemma updates_not_allowed:
  assumes "plain_segment i"
  shows "list_all (\<lambda>c. deployed c = Answered ''crm'' Method_not_allowed)
       [crmAPI_updateContact no_vite i b,
        crmAPI_updateConversation no_vite i b,
        crmAPI_updateCommitment no_vite i b,
        crmAPI_updateOutreach no_vite i b]"
  using assms by (simp add: route_steps hits_later platform_base_steps platform_words
      crmAPI_updateContact_def crmAPI_updateConversation_def crmAPI_updateCommitment_def
      crmAPI_updateOutreach_def)

lemma lost_at_dataaccess:
  assumes "plain_segment i"
  shows "list_all (\<lambda>c. deployed c = Answered ''dataaccess'' Not_found)
       [memberPreferencesAPI_get n,
        memberPreferencesAPI_update n b,
        scenarioAPI_list n,
        scenarioAPI_get i,
        scenarioAPI_save n s b b2 s2,
        scenarioAPI_delete i,
        notificationAPI_list n,
        notificationAPI_markRead i]"
  using assms by (simp add: route_steps hits_later platform_base_steps platform_words
      memberPreferencesAPI_get_def memberPreferencesAPI_update_def scenarioAPI_list_def
      scenarioAPI_get_def scenarioAPI_save_def scenarioAPI_delete_def
      notificationAPI_list_def notificationAPI_markRead_def)

lemma lost_at_issues:
  assumes "plain_segment i"
  shows "list_all (\<lambda>c. deployed c = Answered ''issues'' Not_found)
       [documentAPI_upload i n b s]"
  using assms by (simp add: route_steps hits_later platform_base_steps platform_words
      documentAPI_upload_def)

lemma lost_at_employer_portal:
  assumes "plain_segment i" "i \<noteq> ''users''"
  shows "list_all (\<lambda>c. deployed c = Answered ''employer-portal'' Not_found)
       [fetchEmployerRoster i q,
        fetchEmployerMemberSummary i,
        fetchEmployerCases i q,
        fetchEmployerCaseSummary i,
        createEmployerCase b]"
  using assms by (simp add: route_steps hits_later platform_base_steps platform_words
      fetchEmployerRoster_def fetchEmployerMemberSummary_def fetchEmployerCases_def
      fetchEmployerCaseSummary_def createEmployerCase_def)

lemma answered_by_pages:
  assumes "plain_segment i"
  shows "list_all (\<lambda>c. deployed c = Page_shell)
       [memberAuthAPI_verify b,
        documentAPI_download i,
        preferencesAPI_getSuggestions no_vite s,
        preferencesAPI_respondToSuggestion no_vite i s]"
  using assms by (simp add: route_steps hits_later platform_base_steps platform_words
      memberAuthAPI_verify_def documentAPI_download_def preferencesAPI_getSuggestions_def
      preferencesAPI_respondToSuggestion_def)



end
