(* ===== verification/PortalHome.thy ===== *)
theory PortalHome imports Machine begin

text \<open>
  The member portal's shell: who the member is (\<open>resolveMemberPersona\<close>, src/frontend/src/types/MemberPortal.ts),
  the cards of components/portal/cardDefinitions.ts, the navigation of components/portal/MemberPortal.tsx
  and the guided tour (hooks/useTour.ts, components/portal/tour). Icons, colours and the texts of the
  tour's steps are not modelled.
\<close>

subsection \<open>Personas\<close>

datatype member_persona = Persona_active | Persona_inactive | Persona_retiree | Persona_beneficiary

definition resolveMemberPersona :: "string \<Rightarrow> nat list option \<Rightarrow> member_persona list" where
  "resolveMemberPersona status_code beneficiaryOf =
     (let status = to_lower status_code;
          personas =
            (if status = ''active'' then [Persona_active]
             else if status = ''inactive'' \<or> status = ''deferred'' then [Persona_inactive]
             else if status = ''retired'' then [Persona_retiree]
             else [])
            @ (if coalesce beneficiaryOf [] \<noteq> [] then [Persona_beneficiary] else []) in
      if personas \<noteq> [] then personas else [Persona_active])"

text \<open>The status codes of the member table, src/domains/pension/schema/001_legacy_schema.sql.\<close>

definition STATUS_CODES :: "(string \<times> string) list" where
  "STATUS_CODES =
     [(''A'', ''Active''), (''R'', ''Retired''), (''T'', ''Terminated''), (''D'', ''Deferred''), (''X'', ''Deceased'')]"

subsection \<open>Cards\<close>

record card_definition =
  cd_key :: string
  cd_label :: string
  cd_personas :: "member_persona list"
  cd_summaryKey :: string
  cd_staticSummary :: "string option"

definition CARD_DEFINITIONS :: "card_definition list" where
  "CARD_DEFINITIONS =
     [\<lparr>cd_key = ''profile'', cd_label = ''My Profile'', cd_personas = [Persona_active, Persona_inactive, Persona_retiree, Persona_beneficiary],
        cd_summaryKey = ''profile-completion'', cd_staticSummary = None\<rparr>,
      \<lparr>cd_key = ''calculator'', cd_label = ''Plan My Retirement'', cd_personas = [Persona_active, Persona_inactive],
        cd_summaryKey = ''benefit-estimate'', cd_staticSummary = None\<rparr>,
      \<lparr>cd_key = ''benefit'', cd_label = ''My Benefit'', cd_personas = [Persona_retiree, Persona_beneficiary],
        cd_summaryKey = ''payment-next'', cd_staticSummary = None\<rparr>,
      \<lparr>cd_key = ''retirement-app'', cd_label = ''Apply to Retire'', cd_personas = [Persona_active],
        cd_summaryKey = ''static'', cd_staticSummary = Some ''Start your retirement application''\<rparr>,
      \<lparr>cd_key = ''refund'', cd_label = ''Request a Refund'', cd_personas = [Persona_inactive],
        cd_summaryKey = ''refund-amount'', cd_staticSummary = None\<rparr>,
      \<lparr>cd_key = ''tax-documents'', cd_label = ''Tax Documents'', cd_personas = [Persona_retiree],
        cd_summaryKey = ''static'', cd_staticSummary = Some ''1099-R forms for tax filing''\<rparr>,
      \<lparr>cd_key = ''documents'', cd_label = ''Documents'', cd_personas = [Persona_active, Persona_inactive, Persona_retiree, Persona_beneficiary],
        cd_summaryKey = ''document-count'', cd_staticSummary = None\<rparr>,
      \<lparr>cd_key = ''messages'', cd_label = ''Messages'', cd_personas = [Persona_active, Persona_inactive, Persona_retiree, Persona_beneficiary],
        cd_summaryKey = ''message-count'', cd_staticSummary = None\<rparr>,
      \<lparr>cd_key = ''preferences'', cd_label = ''Preferences'', cd_personas = [Persona_active, Persona_inactive, Persona_retiree, Persona_beneficiary],
        cd_summaryKey = ''static'', cd_staticSummary = Some ''Notifications, accessibility, security''\<rparr>]"

definition getCardsForPersona :: "member_persona list \<Rightarrow> card_definition list" where
  "getCardsForPersona personas =
     filter (\<lambda>c. list_ex (\<lambda>p. p \<in> set personas) (cd_personas c)) CARD_DEFINITIONS"

definition getLabelForSection :: "string \<Rightarrow> string" where
  "getLabelForSection section =
     (case find (\<lambda>c. cd_key c = section) CARD_DEFINITIONS of
        Some c \<Rightarrow> cd_label c
      | None \<Rightarrow> to_upper (take 1 section) @ drop 1 section)"

subsection \<open>Navigation\<close>

record nav_entry =
  nv_section :: string
  nv_label :: string

definition HOME :: nav_entry where
  "HOME = \<lparr>nv_section = ''dashboard'', nv_label = ''Home''\<rparr>"

datatype nav_action = Nav_to string | Nav_back nat | Nav_home

fun nav_step :: "nav_entry list \<Rightarrow> nav_action \<Rightarrow> nav_entry list" where
  "nav_step prev (Nav_to section) =
     prev @ [\<lparr>nv_section = section, nv_label = getLabelForSection section\<rparr>]"
| "nav_step prev (Nav_back index) = take (index + 1) prev"
| "nav_step prev Nav_home = [HOME]"

definition activeSection :: "nav_entry list \<Rightarrow> string" where
  "activeSection navStack = nv_section (last navStack)"

text \<open>The sections the shell has a page for; any other shows "coming soon".\<close>

definition SECTIONS :: "string list" where
  "SECTIONS =
     [''dashboard'', ''profile'', ''calculator'', ''retirement-app'', ''benefit'', ''projections'', ''refund'',
      ''refund-apply'', ''documents'', ''messages'', ''preferences'']"

definition coming_soon :: "nav_entry list \<Rightarrow> bool" where
  "coming_soon navStack \<longleftrightarrow> activeSection navStack \<notin> set SECTIONS"

subsection \<open>The tour\<close>

datatype tour_position = Pos_top | Pos_bottom | Pos_left | Pos_right

record tour_step_rec =
  tp_id :: string
  tp_targetId :: string
  tp_title :: string
  tp_position :: tour_position

definition tour_step :: "string \<Rightarrow> string \<Rightarrow> string \<Rightarrow> tour_position \<Rightarrow> tour_step_rec" where
  "tour_step i t n p = \<lparr>tp_id = i, tp_targetId = t, tp_title = n, tp_position = p\<rparr>"

definition COMMON_STEPS :: "tour_step_rec list" where
  "COMMON_STEPS =
     [tour_step ''welcome-cards'' ''card-grid'' ''Your Dashboard'' Pos_top,
      tour_step ''card-documents'' ''card-documents'' ''Your Documents'' Pos_bottom,
      tour_step ''card-messages'' ''card-messages'' ''Messages'' Pos_bottom,
      tour_step ''card-preferences'' ''card-preferences'' ''Preferences'' Pos_bottom]"

definition ACTIVE_STEPS :: "tour_step_rec list" where
  "ACTIVE_STEPS =
     [tour_step ''benefit-hero'' ''benefit-hero'' ''Your Estimated Benefit'' Pos_bottom,
      tour_step ''milestone-timeline'' ''milestone-timeline'' ''Retirement Milestones'' Pos_left,
      tour_step ''action-items'' ''action-items'' ''Action Items'' Pos_right,
      tour_step ''documents-checklist'' ''documents-section'' ''Document Checklist'' Pos_bottom]"

definition RETIREE_STEPS :: "tour_step_rec list" where
  "RETIREE_STEPS =
     [tour_step ''next-payment'' ''next-payment'' ''Your Next Payment'' Pos_bottom,
      tour_step ''tax-documents'' ''card-tax-documents'' ''Tax Documents'' Pos_bottom,
      tour_step ''payment-history'' ''benefit-section'' ''Payment History'' Pos_bottom]"

definition INACTIVE_STEPS :: "tour_step_rec list" where
  "INACTIVE_STEPS =
     [tour_step ''options-comparison'' ''options-comparison'' ''Your Options'' Pos_bottom,
      tour_step ''refund-option'' ''card-refund'' ''Request a Refund'' Pos_bottom]"

definition BENEFICIARY_STEPS :: "tour_step_rec list" where
  "BENEFICIARY_STEPS =
     [tour_step ''next-payment'' ''next-payment'' ''Survivor Benefit'' Pos_bottom,
      tour_step ''death-benefit-info'' ''benefit-section'' ''Benefit Details'' Pos_bottom]"

fun personaSteps :: "member_persona \<Rightarrow> tour_step_rec list" where
  "personaSteps Persona_active = ACTIVE_STEPS"
| "personaSteps Persona_retiree = RETIREE_STEPS"
| "personaSteps Persona_inactive = INACTIVE_STEPS"
| "personaSteps Persona_beneficiary = BENEFICIARY_STEPS"

definition getTourSteps :: "member_persona \<Rightarrow> tour_step_rec list" where
  "getTourSteps persona = COMMON_STEPS @ personaSteps persona"

definition CURRENT_TOUR_VERSION :: nat where "CURRENT_TOUR_VERSION = 3"

text \<open>
  The hook's state with the page's \<open>tourCompleted\<close>, which \<open>onComplete\<close> sets. \<open>tour_due\<close> is the
  half-second timer of the provider's effect on \<open>autoStart\<close>, \<open>tourCompleted\<close> and the version.
\<close>

record tour_state =
  to_isActive :: bool
  to_currentIndex :: nat
  to_completed :: bool
  to_due :: bool

datatype tour_action = Tour_timer | Tour_next | Tour_prev | Tour_skip

definition tour_start :: "tour_state \<Rightarrow> tour_state" where
  "tour_start s = s\<lparr>to_currentIndex := 0, to_isActive := True\<rparr>"

definition autoStarts :: "bool \<Rightarrow> bool \<Rightarrow> nat \<Rightarrow> bool" where
  "autoStarts autoStart tourCompleted tourVersion \<longleftrightarrow>
     autoStart \<and> (\<not> tourCompleted \<or> tourVersion < CURRENT_TOUR_VERSION)"

text \<open>The portal passes version 1 and starts the tour unless it has been completed in this visit.\<close>

definition portal_starts :: "bool \<Rightarrow> bool" where
  "portal_starts tourCompleted = autoStarts (\<not> tourCompleted) tourCompleted 1"

definition finish_tour :: "tour_state \<Rightarrow> tour_state" where
  "finish_tour s =
     s\<lparr>to_isActive := False, to_currentIndex := 0, to_completed := True,
       to_due := (if to_completed s then to_due s else portal_starts True)\<rparr>"

fun tour_do :: "tour_step_rec list \<Rightarrow> tour_state \<Rightarrow> tour_action \<Rightarrow> tour_state" where
  "tour_do steps s Tour_timer = (if to_due s then tour_start (s\<lparr>to_due := False\<rparr>) else s)"
| "tour_do steps s Tour_next =
     (if int (length steps) - 1 \<le> int (to_currentIndex s) then finish_tour s
      else s\<lparr>to_currentIndex := to_currentIndex s + 1\<rparr>)"
| "tour_do steps s Tour_prev = s\<lparr>to_currentIndex := to_currentIndex s - 1\<rparr>"
| "tour_do steps s Tour_skip = finish_tour s"

definition tour_mount :: tour_state where
  "tour_mount = \<lparr>to_isActive = False, to_currentIndex = 0, to_completed = False, to_due = portal_starts False\<rparr>"

definition currentStep :: "tour_step_rec list \<Rightarrow> tour_state \<Rightarrow> tour_step_rec option" where
  "currentStep steps s =
     (if to_isActive s then
        (if to_currentIndex s < length steps then Some (steps ! to_currentIndex s) else None)
      else None)"

subsection \<open>Invariants\<close>

definition nav_inv :: "nav_entry list \<Rightarrow> bool" where
  "nav_inv nav \<longleftrightarrow> nav \<noteq> [] \<and> hd nav = HOME"

interpretation nav: invariant_machine nav_step nav_inv
proof unfold_locales
  fix s a assume "nav_inv s"
  then show "nav_inv (nav_step s a)" by (cases a; cases s) (auto simp: nav_inv_def)
qed

definition tour_inv :: "tour_step_rec list \<Rightarrow> tour_state \<Rightarrow> bool" where
  "tour_inv steps s \<longleftrightarrow> to_currentIndex s < length steps \<and> (to_completed s \<longrightarrow> \<not> to_due s)"

lemma tour_step_inv: "tour_inv steps s \<Longrightarrow> tour_inv steps (tour_do steps s a)"
  by (cases a) (auto simp: tour_inv_def tour_start_def finish_tour_def portal_starts_def autoStarts_def)

interpretation tour: invariant_machine "tour_do steps" "tour_inv steps" for steps
  by unfold_locales (rule tour_step_inv)

lemma steps_nonempty: "getTourSteps persona \<noteq> []"
  by (simp add: getTourSteps_def COMMON_STEPS_def)

text \<open>
  Every status code of the member table resolves to the active member's portal: the codes are
  single letters and the resolver asks for words. A retired member, code R, is offered to plan and
  apply for retirement, and neither the benefit nor the tax documents.
\<close>

theorem codes_resolve_to_active:
  "list_all (\<lambda>(code, _). resolveMemberPersona code None = [Persona_active]) STATUS_CODES
 \<and> map cd_key (getCardsForPersona (resolveMemberPersona ''R'' None))
     = [''profile'', ''calculator'', ''retirement-app'', ''documents'', ''messages'', ''preferences'']
 \<and> map cd_key (getCardsForPersona (resolveMemberPersona ''RETIRED'' None))
     = [''profile'', ''benefit'', ''tax-documents'', ''documents'', ''messages'', ''preferences'']"
  by (simp add: STATUS_CODES_def resolveMemberPersona_def Let_def to_lower_def to_lower_char_def
      getCardsForPersona_def CARD_DEFINITIONS_def char_of_def bit_0)

text \<open>
  However the member navigates, the trail starts at Home and is never empty, each crumb leads
  back to its own section with the crumbs before it, and a card opens its section with the card's
  own label; every card has a page but the tax documents, which a retiree is offered and which only
  says "coming soon".
\<close>

theorem portal_navigation:
  "hd (run nav_step [HOME] as) = HOME
 \<and> list_all (\<lambda>i. nav_step (run nav_step [HOME] as) (Nav_back i) = take i (run nav_step [HOME] as) @ [run nav_step [HOME] as ! i]
       \<and> activeSection (nav_step (run nav_step [HOME] as) (Nav_back i)) = nv_section (run nav_step [HOME] as ! i))
     [0..<length (run nav_step [HOME] as)]
 \<and> list_all (\<lambda>c. last (nav_step (run nav_step [HOME] as) (Nav_to (cd_key c)))
         = \<lparr>nv_section = cd_key c, nv_label = cd_label c\<rparr>
       \<and> coming_soon (nav_step (run nav_step [HOME] as) (Nav_to (cd_key c))) = (cd_key c = ''tax-documents''))
     CARD_DEFINITIONS"
proof -
  let ?nav = "run nav_step [HOME] as"
  have "nav_inv ?nav" by (rule nav.run_inv) (simp add: nav_inv_def)
  moreover have "take (i + 1) ?nav = take i ?nav @ [?nav ! i]" if "i < length ?nav" for i
    using that by (simp add: take_Suc_conv_app_nth)
  moreover have "list_all (\<lambda>c. getLabelForSection (cd_key c) = cd_label c
      \<and> (cd_key c \<notin> set SECTIONS) = (cd_key c = ''tax-documents'')) CARD_DEFINITIONS"
    by (simp add: CARD_DEFINITIONS_def getLabelForSection_def SECTIONS_def)
  ultimately show ?thesis
    by (auto simp: nav_inv_def list_all_iff activeSection_def coming_soon_def)
qed

lemma tour_walk:
  "to_currentIndex s + n < length steps \<Longrightarrow>
   run (tour_do steps) s (replicate n Tour_next) = s\<lparr>to_currentIndex := to_currentIndex s + n\<rparr>"
  by (induction n arbitrary: s) simp_all

text \<open>
  Through any clicks the tour stands on a step of the persona's tour, so while it is active a
  step is shown; from its start it ends after as many clicks on "Next" as it has steps; once ended
  it does not start again in this visit. It starts in every visit, completed before or not: nothing
  passes the earlier completion to it.
\<close>

theorem tour_stays_on_steps:
  "to_currentIndex (run (tour_do (getTourSteps persona)) tour_mount as) < length (getTourSteps persona)
 \<and> (to_isActive (run (tour_do (getTourSteps persona)) tour_mount as)
     = (currentStep (getTourSteps persona) (run (tour_do (getTourSteps persona)) tour_mount as) \<noteq> None))
 \<and> \<not> (to_completed (run (tour_do (getTourSteps persona)) tour_mount as)
       \<and> to_due (run (tour_do (getTourSteps persona)) tour_mount as))
 \<and> (let s = run (tour_do (getTourSteps persona)) tour_mount
              (Tour_timer # replicate (length (getTourSteps persona)) Tour_next)
    in to_completed s \<and> \<not> to_isActive s)
 \<and> to_due tour_mount"
proof -
  let ?steps = "getTourSteps persona"
  let ?s = "run (tour_do ?steps) tour_mount as"
  have len: "0 < length ?steps" using steps_nonempty by simp
  have due: "to_due tour_mount" by (simp add: tour_mount_def portal_starts_def autoStarts_def)
  have "tour_inv ?steps ?s"
    by (rule tour.run_inv) (use len in \<open>simp add: tour_inv_def tour_mount_def\<close>)
  moreover define n where "n = length ?steps - 1"
  then have n: "length ?steps = n + 1" using len by simp
  have "run (tour_do ?steps) (tour_start (tour_mount\<lparr>to_due := False\<rparr>)) (replicate (n + 1) Tour_next)
      = finish_tour ((tour_start (tour_mount\<lparr>to_due := False\<rparr>))\<lparr>to_currentIndex := n\<rparr>)"
    unfolding replicate_add run_append
    using tour_walk[of "tour_start (tour_mount\<lparr>to_due := False\<rparr>)" n ?steps] n by (simp add: tour_start_def)
  ultimately show ?thesis
    using due by (auto simp: tour_inv_def currentStep_def n finish_tour_def)
qed

end
