(* ===== verification/Preferences.thy ===== *)
theory Preferences imports Workflow Machine "HOL-Library.Multiset" "HOL-Library.Word" begin

text \<open>
  A worker's panel preferences over the stages of a case: \<open>applyPreferences\<close> and
  \<open>computeContextKey\<close> of src/frontend/src/lib/preferenceOverrides.ts, and
  \<open>useComposedWorkspace\<close> of hooks/usePreferences.ts. The array that is filled by index is a
  list of options (\<open>None\<close> an unset element); the slot search is two counting loops.
\<close>

datatype panel_visibility = Visible | Hidden | Pinned
datatype panel_state = Expanded | Collapsed

record panel_preference =
  pp_panelId :: string
  pp_visibility :: panel_visibility
  pp_position :: "int option"
  pp_defaultState :: panel_state

record composed_stage =
  cs_stage :: stage_descriptor
  cs_preferenceApplied :: bool
  cs_defaultPosition :: nat
  cs_defaultState :: panel_state
  cs_pinned :: bool

definition MANDATORY_STAGES :: "string list" where
  "MANDATORY_STAGES = [''intake'', ''benefit-calc'', ''election'', ''submit'']"

text \<open>\<open>new Map(preferences.map((p) => [p.panelId, p]))\<close>: the last entry of an id counts.\<close>

definition prefMap :: "panel_preference list \<Rightarrow> string \<Rightarrow> panel_preference option" where
  "prefMap preferences i = find (\<lambda>p. pp_panelId p = i) (rev preferences)"

definition annotate :: "panel_preference list \<Rightarrow> stage_descriptor \<Rightarrow> nat \<Rightarrow> composed_stage" where
  "annotate preferences stage idx =
     (let pref = prefMap preferences (sd_id stage) in
      \<lparr>cs_stage = stage, cs_preferenceApplied = (pref \<noteq> None), cs_defaultPosition = idx,
       cs_defaultState = (case pref of Some p \<Rightarrow> pp_defaultState p | None \<Rightarrow> Collapsed),
       cs_pinned = (map_option pp_visibility pref = Some Pinned)\<rparr>)"

definition shown_stage :: "panel_preference list \<Rightarrow> composed_stage \<Rightarrow> bool" where
  "shown_stage preferences stage =
     (if map_option pp_visibility (prefMap preferences (sd_id (cs_stage stage))) = Some Hidden
         \<and> sd_id (cs_stage stage) \<notin> set MANDATORY_STAGES then False else True)"

definition position_of :: "panel_preference list \<Rightarrow> composed_stage \<Rightarrow> int option" where
  "position_of preferences stage =
     (case prefMap preferences (sd_id (cs_stage stage)) of Some p \<Rightarrow> pp_position p | None \<Rightarrow> None)"

text \<open>The two loops that look for a free slot, upwards to the end and then down to 0.\<close>

function slot_up :: "'a option list \<Rightarrow> nat \<Rightarrow> nat" where
  "slot_up result slot =
     (if slot < length result \<and> result ! slot \<noteq> None then slot_up result (slot + 1) else slot)"
  by auto
termination by (relation "measure (\<lambda>(result, slot). length result - slot)") auto

declare slot_up.simps [simp del]

fun slot_down :: "'a option list \<Rightarrow> nat \<Rightarrow> nat" where
  "slot_down result 0 = 0"
| "slot_down result (Suc s) = (if result ! Suc s \<noteq> None then slot_down result s else Suc s)"

definition find_slot :: "'a option list \<Rightarrow> int \<Rightarrow> nat" where
  "find_slot result position =
     (let idx = nat (max 0 (min position (int (length result) - 1)));
          slot = slot_up result idx
      in if length result \<le> slot then slot_down result idx else slot)"

definition place :: "'a option list \<Rightarrow> 'a \<times> int \<Rightarrow> 'a option list" where
  "place result sp = result[find_slot result (snd sp) := Some (fst sp)]"

fun fill_rest :: "'a option list \<Rightarrow> 'a list \<Rightarrow> 'a option list" where
  "fill_rest [] us = []"
| "fill_rest (Some x # rs) us = Some x # fill_rest rs us"
| "fill_rest (None # rs) [] = None # fill_rest rs []"
| "fill_rest (None # rs) (u # us) = Some u # fill_rest rs us"

definition visible_stages :: "stage_descriptor list \<Rightarrow> panel_preference list \<Rightarrow> composed_stage list" where
  "visible_stages baseStages preferences =
     filter (shown_stage preferences)
       (map (\<lambda>(idx, stage). annotate preferences stage idx) (enumerate 0 baseStages))"

definition applyPreferences ::
  "stage_descriptor list \<Rightarrow> panel_preference list \<Rightarrow> composed_stage option list" where
  "applyPreferences baseStages preferences =
     (let stages = visible_stages baseStages preferences;
          positioned = sort_key snd
            (map (\<lambda>s. (s, the (position_of preferences s)))
              (filter (\<lambda>s. position_of preferences s \<noteq> None) stages));
          unpositioned = filter (\<lambda>s. position_of preferences s = None) stages;
          result = foldl place (replicate (length stages) None) positioned
      in fill_rest result unpositioned)"

subsection \<open>The slot search\<close>

definition holes :: "'a option list \<Rightarrow> nat" where
  "holes result = length (filter (\<lambda>x. x = None) result)"

definition placed :: "'a option list \<Rightarrow> 'a list" where
  "placed result = map the (filter (\<lambda>x. x \<noteq> None) result)"

lemma slot_up_spec:
  "slot \<le> slot_up r slot \<and> (\<forall>k. slot \<le> k \<longrightarrow> k < slot_up r slot \<longrightarrow> k < length r \<and> r ! k \<noteq> None)
   \<and> (slot_up r slot < length r \<longrightarrow> r ! slot_up r slot = None)"
proof (induction r slot rule: slot_up.induct)
  case (1 r slot)
  show ?case
  proof (cases "slot < length r \<and> r ! slot \<noteq> None")
    case True
    then have eq: "slot_up r slot = slot_up r (slot + 1)" by (subst slot_up.simps) simp
    from 1[OF True] show ?thesis unfolding eq using True by (metis Suc_eq_plus1 Suc_leD le_antisym not_less_eq_eq)
  next
    case False
    then have "slot_up r slot = slot" by (subst slot_up.simps) auto
    with False show ?thesis by auto
  qed
qed

lemma slot_down_spec:
  "\<exists>k \<le> s. r ! k = None \<Longrightarrow> r ! slot_down r s = None \<and> slot_down r s \<le> s"
proof (induction s)
  case (Suc s)
  then show ?case by (cases "r ! Suc s") (auto simp: le_Suc_eq)
qed auto

lemma find_slot_free:
  assumes "0 < holes r"
  shows "find_slot r p < length r \<and> r ! find_slot r p = None"
proof -
  obtain k where k: "k < length r" "r ! k = None"
    using assms by (auto simp: holes_def filter_empty_conv in_set_conv_nth)
  define idx where "idx = nat (max 0 (min p (int (length r) - 1)))"
  have idx: "idx < length r" using k(1) by (auto simp: idx_def)
  show ?thesis
  proof (cases "length r \<le> slot_up r idx")
    case True
    have "\<not> idx \<le> k" using slot_up_spec[of idx r] k True by (metis le_trans not_le)
    then have "r ! slot_down r idx = None \<and> slot_down r idx \<le> idx"
      using k by (intro slot_down_spec exI[of _ k]) auto
    then show ?thesis using True idx by (simp add: find_slot_def idx_def[symmetric] Let_def)
  next
    case False
    then show ?thesis
      using slot_up_spec[of idx r] by (simp add: find_slot_def idx_def[symmetric] Let_def)
  qed
qed

subsection \<open>The filled array\<close>

lemma set_hole:
  assumes "k < length r" "r ! k = None"
  shows "holes (r[k := Some x]) = holes r - 1" "0 < holes r"
    "mset (placed (r[k := Some x])) = add_mset x (mset (placed r))"
proof -
  have r: "r = take k r @ None # drop (Suc k) r" using assms by (metis id_take_nth_drop)
  have u: "r[k := Some x] = take k r @ Some x # drop (Suc k) r"
    using assms(1) by (rule upd_conv_take_nth_drop)
  have h: "holes r = Suc (holes (take k r) + holes (drop (Suc k) r))"
    by (subst r) (simp add: holes_def)
  have h': "holes (r[k := Some x]) = holes (take k r) + holes (drop (Suc k) r)"
    unfolding u by (simp add: holes_def)
  show "holes (r[k := Some x]) = holes r - 1" "0 < holes r" using h h' by simp_all
  have p: "placed r = placed (take k r) @ placed (drop (Suc k) r)"
    by (subst r) (simp add: placed_def)
  have "placed (r[k := Some x]) = placed (take k r) @ x # placed (drop (Suc k) r)"
    unfolding u by (simp add: placed_def)
  then show "mset (placed (r[k := Some x])) = add_mset x (mset (placed r))" using p by simp
qed

lemma length_place [simp]: "length (place r sp) = length r"
  by (simp add: place_def)

lemma place_hole:
  assumes "0 < holes r"
  shows "holes (place r sp) = holes r - 1"
    "mset (placed (place r sp)) = add_mset (fst sp) (mset (placed r))"
proof -
  have f: "find_slot r (snd sp) < length r" "r ! find_slot r (snd sp) = None"
    using find_slot_free[OF assms] by simp_all
  show "holes (place r sp) = holes r - 1"
    "mset (placed (place r sp)) = add_mset (fst sp) (mset (placed r))"
    unfolding place_def using set_hole(1)[OF f] set_hole(3)[OF f] by simp_all
qed

lemma place_all:
  "length ps \<le> holes r \<Longrightarrow>
   length (foldl place r ps) = length r
   \<and> holes (foldl place r ps) = holes r - length ps
   \<and> mset (placed (foldl place r ps)) = mset (map fst ps) + mset (placed r)"
proof (induction ps arbitrary: r)
  case (Cons a ps)
  then have "0 < holes r" by auto
  then show ?case using Cons.IH[of "place r a"] Cons.prems place_hole[of r a] by auto
qed simp

lemma fill_rest_all:
  "holes r = length us \<Longrightarrow> mset (fill_rest r us) = mset (map Some (placed r)) + mset (map Some us)"
  by (induction r us rule: fill_rest.induct) (auto simp: holes_def placed_def)

lemma positions_split:
  fixes f :: "'a \<Rightarrow> int option"
  shows "mset (map fst (sort_key snd (map (\<lambda>s. (s, the (f s))) (filter (\<lambda>s. f s \<noteq> None) xs))))
    = mset (filter (\<lambda>s. f s \<noteq> None) xs)"
proof -
  have "mset (map fst (sort_key snd ys)) = mset (map fst ys)" for ys :: "('a \<times> int) list"
    by (simp only: mset_map mset_sort)
  moreover have "map fst (map (\<lambda>s. (s, the (f s))) ys) = ys" for ys by (induction ys) auto
  ultimately show ?thesis by (simp only:)
qed

text \<open>
  C5: Whatever the preferences are (positions that clash, that are negative or beyond the end,
  several entries for a stage), the workspace shows exactly the visible stages, each once and no
  empty slot among them: the slot search always finds a free slot and the rest always fills.
\<close>

theorem preferences_permute_stages:
  "mset (applyPreferences baseStages preferences) =
   mset (map Some (visible_stages baseStages preferences))"
proof -
  let ?pos = "position_of preferences"
  let ?st = "visible_stages baseStages preferences"
  let ?ps = "sort_key snd (map (\<lambda>s. (s, the (?pos s))) (filter (\<lambda>s. ?pos s \<noteq> None) ?st))"
  let ?us = "filter (\<lambda>s. ?pos s = None) ?st"
  let ?r = "replicate (length ?st) (None :: composed_stage option)"
  have split: "mset (filter (\<lambda>s. ?pos s \<noteq> None) ?st) + mset ?us = mset ?st"
    by (induction ?st) auto
  have len: "length ?ps + length ?us = length ?st"
    using arg_cong[OF split, of size] by (simp only: size_union size_mset length_sort length_map)
  have h: "holes ?r = length ?st" "placed ?r = []" by (simp_all add: holes_def placed_def)
  have "length ?ps \<le> holes ?r" using len h(1) by simp
  note all = place_all[OF this]
  have "holes (foldl place ?r ?ps) = length ?us" using all h(1) len by simp
  from fill_rest_all[OF this]
  have "mset (applyPreferences baseStages preferences)
      = mset (map Some (placed (foldl place ?r ?ps))) + mset (map Some ?us)"
    by (simp add: applyPreferences_def Let_def)
  also have "mset (map Some (placed (foldl place ?r ?ps))) = image_mset Some (mset (map fst ?ps))"
    using all h(2) by simp
  also have "\<dots> = image_mset Some (mset (filter (\<lambda>s. ?pos s \<noteq> None) ?st))"
    by (simp only: positions_split)
  finally show ?thesis
    by (simp only: mset_map split[symmetric] image_mset_union)
qed

text \<open>
  No preference takes a mandatory stage out of the workspace: the mandatory stages shown are
  those of the case, each as often as the case has it.
\<close>

theorem mandatory_stages_shown:
  "mset (filter (\<lambda>s. sd_id s \<in> set MANDATORY_STAGES)
     (map (cs_stage \<circ> the) (applyPreferences baseStages preferences))) =
   mset (filter (\<lambda>s. sd_id s \<in> set MANDATORY_STAGES) baseStages)"
proof -
  let ?m = "\<lambda>s. sd_id s \<in> set MANDATORY_STAGES"
  let ?f = "cs_stage \<circ> the"
  have "mset (map ?f (applyPreferences baseStages preferences))
      = image_mset ?f (mset (map Some (visible_stages baseStages preferences)))"
    by (simp only: mset_map preferences_permute_stages)
  then have shown: "mset (map ?f (applyPreferences baseStages preferences))
      = mset (map cs_stage (visible_stages baseStages preferences))"
    by (simp add: multiset.map_comp comp_def)
  have kept: "filter ?m (map cs_stage (filter (shown_stage preferences)
      (map (\<lambda>(idx, stage). annotate preferences stage idx) (enumerate n bs)))) = filter ?m bs" for bs n
    by (induction bs arbitrary: n) (auto simp: annotate_def shown_stage_def Let_def)
  have "mset (filter ?m (map ?f (applyPreferences baseStages preferences)))
      = filter_mset ?m (mset (map cs_stage (visible_stages baseStages preferences)))"
    by (simp only: mset_filter shown)
  then show ?thesis
    by (simp only: mset_filter[symmetric] visible_stages_def kept)
qed

subsection \<open>Order\<close>

lemma fill_rest_filter:
  assumes "holes r = length us" "\<forall>x \<in> set (placed r). \<not> p x" "\<forall>u \<in> set us. p u"
  shows "filter (\<lambda>x. x \<noteq> None \<and> p (the x)) (fill_rest r us) = map Some us"
  using assms by (induction r us rule: fill_rest.induct) (auto simp: holes_def placed_def)

lemma placed_positioned:
  assumes "ps = sort_key snd (map (\<lambda>s. (s, the (position_of preferences s)))
      (filter (\<lambda>s. position_of preferences s \<noteq> None) st))"
    "us = filter (\<lambda>s. position_of preferences s = None) st"
    "r = foldl place (replicate (length st) None) ps"
  shows "holes r = length us" "\<forall>x \<in> set (placed r). position_of preferences x \<noteq> None"
    "length r = length st"
proof -
  have h: "holes (replicate (length st) (None :: composed_stage option)) = length st"
    "placed (replicate (length st) (None :: composed_stage option)) = []"
    by (simp_all add: holes_def placed_def)
  have len: "length ps + length us = length st"
    unfolding assms(1,2) length_sort length_map
    using sum_length_filter_compl[of "\<lambda>s. position_of preferences s \<noteq> None" st] by simp
  then have "length ps \<le> holes (replicate (length st) (None :: composed_stage option))" using h by simp
  note all = place_all[OF this]
  show "holes r = length us" "length r = length st" using all len h assms(3) by simp_all
  have "mset (placed r) = mset (map fst ps)" using all h assms(3) by simp
  then have "set (placed r) = set (map fst ps)" by (metis set_mset_mset)
  then show "\<forall>x \<in> set (placed r). position_of preferences x \<noteq> None"
    unfolding assms(1) by auto
qed

text \<open>
  The stages the worker gave no position keep the order of the case among themselves,
  wherever the positioned ones are put.
\<close>

theorem unpositioned_keep_order:
  "filter (\<lambda>x. x \<noteq> None \<and> position_of preferences (the x) = None)
     (applyPreferences baseStages preferences) =
   map Some (filter (\<lambda>s. position_of preferences s = None) (visible_stages baseStages preferences))"
proof -
  note pp = placed_positioned[where preferences = preferences and
      st = "visible_stages baseStages preferences", OF refl refl refl]
  show ?thesis
    unfolding applyPreferences_def Let_def
  proof (rule fill_rest_filter)
    show "\<forall>u \<in> set (filter (\<lambda>s. position_of preferences s = None) (visible_stages baseStages preferences)).
        position_of preferences u = None" by simp
  qed (fact pp)+
qed

lemma slot_up_free: "r ! slot = None \<Longrightarrow> slot_up r slot = slot"
  by (subst slot_up.simps) simp

lemma find_slot_wanted:
  "0 \<le> p \<Longrightarrow> nat p < length r \<Longrightarrow> r ! nat p = None \<Longrightarrow> find_slot r p = nat p"
  by (simp add: find_slot_def slot_up_free Let_def)

lemma place_distinct:
  assumes "distinct (map snd ps)" "\<forall>(x, p) \<in> set ps. 0 \<le> p \<and> nat p < length r \<and> r ! nat p = None"
  shows "\<forall>(x, p) \<in> set ps. foldl place r ps ! nat p = Some x"
    "\<forall>k < length r. (\<forall>(x, p) \<in> set ps. nat p \<noteq> k) \<longrightarrow> foldl place r ps ! k = r ! k"
proof -
  have "(\<forall>(x, p) \<in> set ps. foldl place r ps ! nat p = Some x)
    \<and> (\<forall>k < length r. (\<forall>(x, p) \<in> set ps. nat p \<noteq> k) \<longrightarrow> foldl place r ps ! k = r ! k)"
    using assms
  proof (induction ps arbitrary: r)
    case (Cons a ps)
    obtain x p where a: "a = (x, p)" by (cases a)
    have p: "0 \<le> p" "nat p < length r" "r ! nat p = None" using Cons.prems(2) a by auto
    have pl: "place r a = r[nat p := Some x]" using p by (simp add: a place_def find_slot_wanted)
    have ne: "nat q \<noteq> nat p" if "(y, q) \<in> set ps" for y q
      using Cons.prems a that p(1) by (force simp: nat_eq_iff)
    have "\<forall>(y, q) \<in> set ps. 0 \<le> q \<and> nat q < length (place r a) \<and> place r a ! nat q = None"
    proof (intro ballI, clarify)
      fix y q
      assume q: "(y, q) \<in> set ps"
      then have "0 \<le> q \<and> nat q < length r \<and> r ! nat q = None" using Cons.prems(2) by auto
      with ne[OF q] show "0 \<le> q \<and> nat q < length (place r a) \<and> place r a ! nat q = None"
        by (simp add: pl)
    qed
    then have IH: "\<forall>(y, q) \<in> set ps. foldl place (place r a) ps ! nat q = Some y"
      "\<forall>k < length (place r a). (\<forall>(y, q) \<in> set ps. nat q \<noteq> k) \<longrightarrow>
        foldl place (place r a) ps ! k = place r a ! k"
      using Cons.IH[of "place r a"] Cons.prems(1) a by simp_all
    have "foldl place (place r a) ps ! nat p = Some x"
      using IH(2) ne p(2) by (auto simp: pl)
    with IH show ?case using ne by (auto simp: a pl[unfolded a])
  qed simp
  then show "\<forall>(x, p) \<in> set ps. foldl place r ps ! nat p = Some x"
    "\<forall>k < length r. (\<forall>(x, p) \<in> set ps. nat p \<noteq> k) \<longrightarrow> foldl place r ps ! k = r ! k" by simp_all
qed

lemma fill_rest_keeps: "k < length r \<Longrightarrow> r ! k = Some x \<Longrightarrow> fill_rest r us ! k = Some x"
  by (induction r us arbitrary: k rule: fill_rest.induct) (auto simp: nth_Cons split: nat.splits)

text \<open>
  Where the positions of the visible stages are distinct and within the list, every
  positioned stage stands at the position the worker gave it.
\<close>

theorem positions_honoured:
  assumes "distinct (map (position_of preferences)
      (filter (\<lambda>s. position_of preferences s \<noteq> None) (visible_stages baseStages preferences)))"
    "list_all (\<lambda>s. case position_of preferences s of None \<Rightarrow> True
        | Some p \<Rightarrow> 0 \<le> p \<and> p < int (length (visible_stages baseStages preferences)))
      (visible_stages baseStages preferences)"
    "s \<in> set (visible_stages baseStages preferences)" "position_of preferences s = Some p"
  shows "applyPreferences baseStages preferences ! nat p = Some s"
proof -
  let ?pos = "position_of preferences"
  let ?st = "visible_stages baseStages preferences"
  let ?qs = "map (\<lambda>s. (s, the (?pos s))) (filter (\<lambda>s. ?pos s \<noteq> None) ?st)"
  let ?r = "replicate (length ?st) (None :: composed_stage option)"
  let ?fs = "filter (\<lambda>s. ?pos s \<noteq> None) ?st"
  have "inj_on the (set (map ?pos ?fs))" by (auto simp: inj_on_def)
  then have "distinct (map the (map ?pos ?fs))"
    using assms(1) by (simp only: distinct_map)
  then have d0: "distinct (map snd ?qs)" by (simp only: list.map_comp comp_def snd_conv)
  have "mset (map snd (sort_key snd ?qs)) = mset (map snd ?qs)"
    by (simp only: mset_map mset_sort)
  from iffD2[OF mset_eq_imp_distinct_iff[OF this] d0]
  have d: "distinct (map snd (sort_key snd ?qs))" .
  have rng: "0 \<le> q \<and> nat q < length ?r \<and> ?r ! nat q = None" if "(x, q) \<in> set (sort_key snd ?qs)" for x q
  proof -
    from that have x: "x \<in> set ?st" "?pos x = Some q" by auto
    have "case ?pos x of None \<Rightarrow> True | Some p \<Rightarrow> 0 \<le> p \<and> p < int (length ?st)"
      using assms(2) x(1) unfolding list_all_iff by (rule bspec)
    then have "0 \<le> q \<and> q < int (length ?st)" using x(2) by simp
    then have "0 \<le> q" "nat q < length ?st" by auto
    then show ?thesis by simp
  qed
  then have rng': "\<forall>(x, q) \<in> set (sort_key snd ?qs). 0 \<le> q \<and> nat q < length ?r \<and> ?r ! nat q = None"
    by blast
  have sp: "(s, p) \<in> set (sort_key snd ?qs)" using assms(3,4) by force
  have "foldl place ?r (sort_key snd ?qs) ! nat p = Some s"
    using place_distinct(1)[OF d rng'] sp by blast
  moreover have "nat p < length (foldl place ?r (sort_key snd ?qs))"
    using rng[OF sp] placed_positioned(3)[OF refl refl refl, of ?st preferences] by simp
  ultimately show ?thesis
    unfolding applyPreferences_def Let_def by (intro fill_rest_keeps)
qed

definition example_stage :: "string \<Rightarrow> stage_descriptor" where
  "example_stage i =
     \<lparr>sd_id = i, sd_label = i, sd_icon = [], sd_description = [], sd_confidence = Pending,
      sd_conditional = False\<rparr>"

definition example_preference :: "string \<Rightarrow> int \<Rightarrow> panel_preference" where
  "example_preference i p =
     \<lparr>pp_panelId = i, pp_visibility = Pinned, pp_position = Some p, pp_defaultState = Expanded\<rparr>"

theorem positions_honoured_witness:
  "applyPreferences [example_stage ''intake'', example_stage ''dro'']
     [example_preference ''dro'' 0] ! nat 0
   = Some (annotate [example_preference ''dro'' 0] (example_stage ''dro'') 1)"
  by (rule positions_honoured)
    (simp_all add: visible_stages_def enumerate_eq_zip shown_stage_def position_of_def prefMap_def
      annotate_def example_stage_def example_preference_def Let_def)

subsection \<open>The context key\<close>

text \<open>
  \<open>(hash << 5) - hash + char\<close> and \<open>hash & hash\<close> work on 32 bits: the sum is exact and the
  bitwise operation takes it modulo 2 to the 32.
\<close>

definition key_hash :: "string \<Rightarrow> 32 word" where
  "key_hash raw =
     foldl (\<lambda>hash c. push_bit 5 hash - hash + word_of_nat (of_char c)) 0 raw"

definition bool_str :: "bool \<Rightarrow> string" where
  "bool_str b = (if b then ''true'' else ''false'')"

definition context_raw :: "case_flags \<Rightarrow> string" where
  "context_raw flags =
     ''dro='' @ bool_str (cf_hasDRO flags) @ '';early='' @ bool_str (cf_isEarlyRetirement flags)
     @ '';tier='' @ int_str (cf_tier flags)"

definition pad_start :: "nat \<Rightarrow> char \<Rightarrow> string \<Rightarrow> string" where
  "pad_start n c s = replicate (n - length s) c @ s"

definition computeContextKey :: "case_flags \<Rightarrow> string" where
  "computeContextKey flags =
     pad_start 8 CHR ''0'' (nat_to_base 16 (nat \<bar>sint (key_hash (context_raw flags))\<bar>))"

text \<open>
  \<open>useComposedWorkspace\<close>: the stages of the case under the preferences stored for its key
  (\<open>None\<close> while they load).
\<close>

definition useComposedWorkspace ::
  "(string \<Rightarrow> panel_preference list option) \<Rightarrow> stage_descriptor list \<Rightarrow> case_flags
   \<Rightarrow> composed_stage option list" where
  "useComposedWorkspace userPreferences baseStages flags =
     applyPreferences baseStages (coalesce (userPreferences (computeContextKey flags)) [])"

text \<open>Flags for each of the contexts the key tells apart.\<close>

definition ctx :: "bool \<Rightarrow> bool \<Rightarrow> int \<Rightarrow> case_flags" where
  "ctx dro early tier =
     \<lparr>cf_hasDRO = dro, cf_hasPurchasedService = False, cf_isEarlyRetirement = early,
      cf_hasLeavePayout = False, cf_tier = tier, cf_maritalStatus = None\<rparr>"

definition context_flags :: "case_flags list" where
  "context_flags =
     concat (map (\<lambda>dro. concat (map (\<lambda>early. map (ctx dro early) [1, 2, 3]) [True, False])) [True, False])"

lemma context_hashes:
  "map (\<lambda>f. sint (key_hash (context_raw f))) context_flags =
     [-1901582568, -1901582567, -1901582566, -750411367, -750411366, -750411365,
      310489973, 310489974, 310489975, -895639332, -895639331, -895639330]"
  by code_simp

lemma hash_texts:
  "nat_to_base 16 1901582568 = ''7157d8e8''"
  "nat_to_base 16 1901582567 = ''7157d8e7''"
  "nat_to_base 16 1901582566 = ''7157d8e6''"
  "nat_to_base 16 750411367 = ''2cba5e67''"
  "nat_to_base 16 750411366 = ''2cba5e66''"
  "nat_to_base 16 750411365 = ''2cba5e65''"
  "nat_to_base 16 310489973 = ''1281b375''"
  "nat_to_base 16 310489974 = ''1281b376''"
  "nat_to_base 16 310489975 = ''1281b377''"
  "nat_to_base 16 895639332 = ''35625f24''"
  "nat_to_base 16 895639331 = ''35625f23''"
  "nat_to_base 16 895639330 = ''35625f22''"
  by (simp_all add: nat_to_base_def digits_rev.simps digit_char_def char_of_def bit_0)

text \<open>
  The preference key separates every combination of domestic relations order, early
  retirement and tier: the 32-bit hash of the twelve texts has twelve different absolute values,
  each of eight hexadecimal digits. The other flags of the case do not enter the key.
\<close>

theorem context_keys_distinct:
  "distinct (map computeContextKey context_flags)
   \<and> computeContextKey (flags\<lparr>cf_hasPurchasedService := p, cf_hasLeavePayout := l, cf_maritalStatus := m\<rparr>)
     = computeContextKey flags"
proof -
  have "map computeContextKey context_flags =
      map (\<lambda>h. pad_start 8 CHR ''0'' (nat_to_base 16 (nat \<bar>h\<bar>)))
        (map (\<lambda>f. sint (key_hash (context_raw f))) context_flags)"
    by (simp add: computeContextKey_def)
  also have "\<dots> = [''7157d8e8'', ''7157d8e7'', ''7157d8e6'', ''2cba5e67'', ''2cba5e66'', ''2cba5e65'',
      ''1281b375'', ''1281b376'', ''1281b377'', ''35625f24'', ''35625f23'', ''35625f22'']"
    unfolding context_hashes by (simp add: hash_texts pad_start_def)
  finally show ?thesis by (simp add: computeContextKey_def context_raw_def)
qed

end
