(* ===== verification/RulesExplorer.thy ===== *)
theory RulesExplorer imports Prelude begin

text \<open>
  The explorer of the business rules: the domains of src/frontend/src/lib/domainMapping.ts, the cards
  of components/rules/DomainCardGrid.tsx and the page src/frontend/src/pages/RulesExplorer.tsx with
  its three levels (domains, the rules of a domain, one rule). Of a rule the fields the explorer
  reads are modelled. A dash outside ASCII in a description is written as two hyphens.
\<close>

subsection \<open>Domains\<close>

datatype domain_key =
    Dom_eligibility | Dom_benefits | Dom_salary_ams | Dom_service_credit | Dom_payment_options
  | Dom_dro | Dom_tiers_contributions | Dom_death_benefits | Dom_process_compliance | Dom_general

record domain_meta =
  dm_label :: string
  dm_description :: string

fun DOMAIN_META :: "domain_key \<Rightarrow> domain_meta" where
  "DOMAIN_META Dom_eligibility = \<lparr>dm_label = ''Eligibility'',
     dm_description = ''Vesting, retirement age, Rule of 75/85, early and deferred retirement''\<rparr>"
| "DOMAIN_META Dom_benefits = \<lparr>dm_label = ''Benefits'',
     dm_description = ''Tier benefit formulas, reduction factors, rounding, COLA adjustments''\<rparr>"
| "DOMAIN_META Dom_salary_ams = \<lparr>dm_label = ''Salary & AMS'',
     dm_description = ''Average Monthly Salary window, calculation, leave payout, furlough''\<rparr>"
| "DOMAIN_META Dom_service_credit = \<lparr>dm_label = ''Service Credit'',
     dm_description = ''Earned, purchased, and separation service credit rules''\<rparr>"
| "DOMAIN_META Dom_payment_options = \<lparr>dm_label = ''Payment Options'',
     dm_description = ''Maximum, joint & survivor, default options, spousal consent''\<rparr>"
| "DOMAIN_META Dom_dro = \<lparr>dm_label = ''DRO'',
     dm_description = ''Domestic Relations Orders -- marital share, methods, exclusions''\<rparr>"
| "DOMAIN_META Dom_tiers_contributions = \<lparr>dm_label = ''Tiers & Contributions'',
     dm_description = ''Tier classification, employee and employer contribution rates''\<rparr>"
| "DOMAIN_META Dom_death_benefits = \<lparr>dm_label = ''Death Benefits'',
     dm_description = ''Normal and early death benefits, election, reemployment''\<rparr>"
| "DOMAIN_META Dom_process_compliance = \<lparr>dm_label = ''Process & Compliance'',
     dm_description = ''Application deadlines, notarization, payment cutoff, irrevocability''\<rparr>"
| "DOMAIN_META Dom_general = \<lparr>dm_label = ''General'',
     dm_description = ''Uncategorized rules''\<rparr>"

definition RULE_TO_DOMAIN :: "(string, domain_key) table" where
  "RULE_TO_DOMAIN =
     [(''RULE-VESTING'', Dom_eligibility),
      (''RULE-NORMAL-RET'', Dom_eligibility),
      (''RULE-RULE-OF-75'', Dom_eligibility),
      (''RULE-RULE-OF-85'', Dom_eligibility),
      (''RULE-EARLY-RET-T12'', Dom_eligibility),
      (''RULE-EARLY-RET-T3'', Dom_eligibility),
      (''RULE-EARLY-REDUCE-T12'', Dom_eligibility),
      (''RULE-EARLY-REDUCE-T3'', Dom_eligibility),
      (''RULE-DEFERRED'', Dom_eligibility),
      (''RULE-ELIG-HIERARCHY'', Dom_eligibility),
      (''RULE-BENEFIT-T1'', Dom_benefits),
      (''RULE-BENEFIT-T2'', Dom_benefits),
      (''RULE-BENEFIT-T3'', Dom_benefits),
      (''RULE-REDUCTION-APPLY'', Dom_benefits),
      (''RULE-ROUNDING'', Dom_benefits),
      (''RULE-AMS-WINDOW'', Dom_salary_ams),
      (''RULE-AMS-CALC'', Dom_salary_ams),
      (''RULE-LEAVE-PAYOUT'', Dom_salary_ams),
      (''RULE-FURLOUGH'', Dom_salary_ams),
      (''RULE-SVC-EARNED'', Dom_service_credit),
      (''RULE-SVC-PURCHASED'', Dom_service_credit),
      (''RULE-SVC-SEPARATION'', Dom_service_credit),
      (''RULE-PAY-MAXIMUM'', Dom_payment_options),
      (''RULE-JS-100'', Dom_payment_options),
      (''RULE-JS-75'', Dom_payment_options),
      (''RULE-JS-50'', Dom_payment_options),
      (''RULE-JS-DEFAULT'', Dom_payment_options),
      (''RULE-SPOUSAL-CONSENT'', Dom_payment_options),
      (''RULE-BENEFICIARY-PREDECEASE'', Dom_payment_options),
      (''RULE-DRO-MARITAL-SHARE'', Dom_dro),
      (''RULE-DRO-SEQUENCE'', Dom_dro),
      (''RULE-DRO-METHODS'', Dom_dro),
      (''RULE-DRO-NO-IPR'', Dom_dro),
      (''RULE-DRO-NO-HEALTH'', Dom_dro),
      (''RULE-DRO-COLA'', Dom_dro),
      (''RULE-TIER-1'', Dom_tiers_contributions),
      (''RULE-TIER-2'', Dom_tiers_contributions),
      (''RULE-TIER-3'', Dom_tiers_contributions),
      (''RULE-CONTRIB-EE'', Dom_tiers_contributions),
      (''RULE-CONTRIB-ER'', Dom_tiers_contributions),
      (''RULE-DEATH-NORMAL'', Dom_death_benefits),
      (''RULE-DEATH-EARLY-T12'', Dom_death_benefits),
      (''RULE-DEATH-EARLY-T3'', Dom_death_benefits),
      (''RULE-DEATH-ELECTION'', Dom_death_benefits),
      (''RULE-DEATH-REEMPLOY'', Dom_death_benefits),
      (''RULE-APP-DEADLINE'', Dom_process_compliance),
      (''RULE-NOTARIZATION'', Dom_process_compliance),
      (''RULE-PAYMENT-CUTOFF'', Dom_process_compliance),
      (''RULE-EFFECTIVE-DATE'', Dom_process_compliance),
      (''RULE-IRREVOCABILITY'', Dom_process_compliance),
      (''RULE-COLA'', Dom_process_compliance),
      (''RULE-IPR'', Dom_service_credit)]"

definition getDomainForRule :: "string \<Rightarrow> domain_key" where
  "getDomainForRule ruleId = coalesce (map_of RULE_TO_DOMAIN ruleId) Dom_general"

definition ALL_DOMAINS :: "domain_key list" where
  "ALL_DOMAINS =
     [Dom_eligibility, Dom_benefits, Dom_salary_ams, Dom_service_credit, Dom_payment_options,
      Dom_dro, Dom_tiers_contributions, Dom_death_benefits, Dom_process_compliance]"

subsection \<open>Rules\<close>

record test_status =
  ts_total :: nat
  ts_passing :: nat
  ts_failing :: nat
  ts_skipped :: nat
  ts_lastRun :: string

record rule_definition =
  rd_id :: string
  rd_name :: string
  rd_domain :: string
  rd_description :: string
  rd_dependencies :: "string list"
  rd_tags :: "string list"
  rd_testStatus :: "test_status option"

record test_report =
  tr_lastRun :: string
  tr_byRule :: "string \<rightharpoonup> test_status"

definition rule_passing :: "rule_definition \<Rightarrow> bool" where
  "rule_passing r =
     (case rd_testStatus r of None \<Rightarrow> False | Some t \<Rightarrow> ts_failing t = 0 \<and> 0 < ts_total t)"

definition rule_failing :: "rule_definition \<Rightarrow> bool" where
  "rule_failing r = (case rd_testStatus r of None \<Rightarrow> False | Some t \<Rightarrow> 0 < ts_failing t)"

definition rules_of :: "rule_definition list \<Rightarrow> domain_key \<Rightarrow> rule_definition list" where
  "rules_of rules domain = filter (\<lambda>r. getDomainForRule (rd_id r) = domain) rules"

subsection \<open>components/rules/DomainCardGrid.tsx\<close>

record domain_card =
  dc_key :: domain_key
  dc_label :: string
  dc_description :: string
  dc_ruleCount :: nat
  dc_passingRules :: nat

definition domain_card_of :: "rule_definition list \<Rightarrow> domain_key \<Rightarrow> domain_card list" where
  "domain_card_of rules key =
     (let rs = rules_of rules key in
      if rs = [] then []
      else [\<lparr>dc_key = key, dc_label = dm_label (DOMAIN_META key),
             dc_description = dm_description (DOMAIN_META key),
             dc_ruleCount = length rs, dc_passingRules = length (filter rule_passing rs)\<rparr>])"

definition DomainCardGrid :: "rule_definition list \<Rightarrow> domain_card list" where
  "DomainCardGrid rules =
     concat (map (domain_card_of rules) ALL_DOMAINS) @ domain_card_of rules Dom_general"

subsection \<open>pages/RulesExplorer.tsx\<close>

record explorer_state =
  xs_selectedDomain :: "domain_key option"
  xs_selectedRuleId :: "string option"
  xs_searchQuery :: string

definition explorer_init :: "string option \<Rightarrow> explorer_state" where
  "explorer_init initialRuleId =
     \<lparr>xs_selectedDomain = None, xs_selectedRuleId = initialRuleId, xs_searchQuery = []\<rparr>"

text \<open>The rules with the test results of the report.\<close>

definition enrichedRules ::
  "rule_definition list option \<Rightarrow> test_report option \<Rightarrow> rule_definition list" where
  "enrichedRules rules testReport =
     (case (rules, testReport) of
        (None, _) \<Rightarrow> []
      | (Some rs, None) \<Rightarrow> rs
      | (Some rs, Some t) \<Rightarrow>
          map (\<lambda>r. case tr_byRule t (rd_id r) of
                     None \<Rightarrow> r
                   | Some summary \<Rightarrow> r\<lparr>rd_testStatus := Some (summary\<lparr>ts_lastRun := tr_lastRun t\<rparr>)\<rparr>) rs)"

definition domainRules :: "rule_definition list \<Rightarrow> explorer_state \<Rightarrow> rule_definition list" where
  "domainRules enriched s =
     (case xs_selectedDomain s of None \<Rightarrow> enriched | Some d \<Rightarrow> rules_of enriched d)"

definition filteredRules :: "rule_definition list \<Rightarrow> explorer_state \<Rightarrow> rule_definition list" where
  "filteredRules enriched s =
     (if xs_searchQuery s = [] then domainRules enriched s
      else let q = to_lower (xs_searchQuery s) in
           filter (\<lambda>r. includes_str (to_lower (rd_name r)) q \<or> includes_str (to_lower (rd_id r)) q
                     \<or> includes_str (to_lower (rd_description r)) q) (domainRules enriched s))"

record rules_summary =
  rs_total :: nat
  rs_passing :: nat
  rs_failing :: nat

definition explorer_summary :: "rule_definition list \<Rightarrow> explorer_state \<Rightarrow> rules_summary" where
  "explorer_summary enriched s =
     (let source = (if xs_selectedDomain s \<noteq> None then filteredRules enriched s else enriched) in
      \<lparr>rs_total = length source, rs_passing = length (filter rule_passing source),
       rs_failing = length (filter rule_failing source)\<rparr>)"

definition selectedRule :: "rule_definition list \<Rightarrow> explorer_state \<Rightarrow> rule_definition option" where
  "selectedRule enriched s = find (\<lambda>r. Some (rd_id r) = xs_selectedRuleId s) enriched"

definition goToLevel1 :: "explorer_state \<Rightarrow> explorer_state" where
  "goToLevel1 s = s\<lparr>xs_selectedDomain := None, xs_selectedRuleId := None, xs_searchQuery := []\<rparr>"

definition goToLevel2 :: "domain_key \<Rightarrow> explorer_state \<Rightarrow> explorer_state" where
  "goToLevel2 domain s =
     s\<lparr>xs_selectedDomain := Some domain, xs_selectedRuleId := None, xs_searchQuery := []\<rparr>"

definition goToLevel3 :: "string \<Rightarrow> explorer_state \<Rightarrow> explorer_state" where
  "goToLevel3 ruleId s =
     (if xs_selectedDomain s = None then s\<lparr>xs_selectedDomain := Some (getDomainForRule ruleId)\<rparr> else s)
       \<lparr>xs_selectedRuleId := Some ruleId\<rparr>"

definition setSearchQuery :: "string \<Rightarrow> explorer_state \<Rightarrow> explorer_state" where
  "setSearchQuery q s = s\<lparr>xs_searchQuery := q\<rparr>"

text \<open>\<open>onBack\<close> of the rule's page.\<close>

definition rule_back :: "explorer_state \<Rightarrow> explorer_state" where
  "rule_back s = (case xs_selectedDomain s of Some d \<Rightarrow> goToLevel2 d s | None \<Rightarrow> goToLevel1 s)"

text \<open>The labels of the breadcrumb.\<close>

definition breadcrumbs :: "rule_definition list \<Rightarrow> explorer_state \<Rightarrow> string list" where
  "breadcrumbs enriched s =
     ''Rules Explorer''
     # (case xs_selectedDomain s of None \<Rightarrow> [] | Some d \<Rightarrow> [dm_label (DOMAIN_META d)])
     @ (case selectedRule enriched s of None \<Rightarrow> [] | Some r \<Rightarrow> [rd_id r])"

datatype explorer_view =
    Rule_detail rule_definition
  | Rule_cards domain_key "rule_definition list"
  | Domain_cards "domain_card list"

definition explorer_view_of :: "rule_definition list \<Rightarrow> explorer_state \<Rightarrow> explorer_view" where
  "explorer_view_of enriched s =
     (case selectedRule enriched s of
        Some r \<Rightarrow> Rule_detail r
      | None \<Rightarrow>
          (case xs_selectedDomain s of
             Some d \<Rightarrow> Rule_cards d (filteredRules enriched s)
           | None \<Rightarrow>
               Domain_cards (DomainCardGrid
                 (if xs_searchQuery s = [] then enriched
                  else let q = to_lower (xs_searchQuery s) in
                       filter (\<lambda>r. let meta = DOMAIN_META (getDomainForRule (rd_id r)) in
                                 includes_str (to_lower (dm_label meta)) q
                                 \<or> includes_str (to_lower (dm_description meta)) q) enriched))))"

subsection \<open>The cards\<close>

definition grid_domains :: "domain_key list" where
  "grid_domains = ALL_DOMAINS @ [Dom_general]"

lemma all_domains: "distinct grid_domains" "d \<in> set grid_domains"
  by (simp add: ALL_DOMAINS_def grid_domains_def, cases d) (simp_all add: ALL_DOMAINS_def grid_domains_def)

lemma grid_concat: "DomainCardGrid rules = concat (map (domain_card_of rules) grid_domains)"
  by (simp add: DomainCardGrid_def grid_domains_def)

text \<open>The second level shows the rules of the domain.\<close>

lemma level2_view:
  "explorer_view_of rules (goToLevel2 d s) = Rule_cards d (rules_of rules d)"
  by (simp add: goToLevel2_def explorer_view_of_def selectedRule_def filteredRules_def domainRules_def
      find_None_iff[THEN iffD2])

lemma card_count:
  "sum_list (map dc_ruleCount (domain_card_of rules k)) = length (rules_of rules k)"
  "sum_list (map dc_passingRules (domain_card_of rules k)) = length (filter rule_passing (rules_of rules k))"
  by (simp_all add: domain_card_of_def Let_def)

text \<open>Splitting a list by a value with a known range loses and repeats nothing.\<close>

lemma sum_of_classes:
  "distinct ks \<Longrightarrow> list_all (\<lambda>x. f x \<in> set ks) xs \<Longrightarrow>
   sum_list (map (\<lambda>k. length (filter (\<lambda>x. f x = k) xs)) ks) = length xs"
proof (induction xs)
  case (Cons x xs)
  have one: "sum_list (map (\<lambda>k. if f x = k then 1 else 0) ks) = (1::nat)"
    using Cons.prems sum_list_map_eq_sum_count2[of ks "set ks" "\<lambda>k. if f x = k then 1 else 0"]
    by (simp add: sum_list_distinct_conv_sum_set)
  have "(\<lambda>k. length (filter (\<lambda>y. f y = k) (x # xs)))
      = (\<lambda>k. (if f x = k then 1 else 0) + length (filter (\<lambda>y. f y = k) xs))"
    by (simp add: fun_eq_iff)
  then show ?case using Cons one by (simp add: sum_list_addf)
qed simp

lemma sum_list_concat_map: "sum_list (map f (concat (map g ks))) = sum_list (map (\<lambda>k. sum_list (map f (g k))) ks)"
  for f :: "'a \<Rightarrow> nat"
  by (induction ks) simp_all

lemma grid_total: "sum_list (map dc_ruleCount (DomainCardGrid rules)) = length rules"
proof -
  have "list_all (\<lambda>r. getDomainForRule (rd_id r) \<in> set grid_domains) rules"
    using all_domains(2) by (simp add: list_all_iff)
  from sum_of_classes[OF all_domains(1) this] show ?thesis
    by (simp only: grid_concat sum_list_concat_map card_count rules_of_def)
qed

lemma grid_card:
  "c \<in> set (DomainCardGrid rules) \<longleftrightarrow>
    rules_of rules (dc_key c) \<noteq> [] \<and> domain_card_of rules (dc_key c) = [c]"
proof
  assume "c \<in> set (DomainCardGrid rules)"
  then obtain k where "c \<in> set (domain_card_of rules k)" unfolding grid_concat by auto
  then show "rules_of rules (dc_key c) \<noteq> [] \<and> domain_card_of rules (dc_key c) = [c]"
    by (auto simp: domain_card_of_def Let_def split: if_splits)
next
  assume "rules_of rules (dc_key c) \<noteq> [] \<and> domain_card_of rules (dc_key c) = [c]"
  then have "c \<in> set (domain_card_of rules (dc_key c))" by simp
  then show "c \<in> set (DomainCardGrid rules)"
    unfolding grid_concat using all_domains(2)[of "dc_key c"] by auto
qed

lemma grid_keys: "map dc_key (DomainCardGrid rules) = filter (\<lambda>k. rules_of rules k \<noteq> []) grid_domains"
proof -
  have "map dc_key (concat (map (domain_card_of rules) ks)) = filter (\<lambda>k. rules_of rules k \<noteq> []) ks" for ks
    by (induction ks) (simp_all add: domain_card_of_def Let_def)
  then show ?thesis unfolding grid_concat .
qed

text \<open>
  The cards of the first level divide the rules: no two cards are of the same domain, their
  counts add up to the number of rules, every domain with a rule has its card, and a click on a card
  opens the list of exactly as many rules as the card says, those of its domain, of which as many
  pass as it says.
\<close>

theorem domain_cards_divide:
  "distinct (map dc_key (DomainCardGrid rules))
 \<and> sum_list (map dc_ruleCount (DomainCardGrid rules)) = length rules
 \<and> list_all (\<lambda>r. getDomainForRule (rd_id r) \<in> set (map dc_key (DomainCardGrid rules))) rules
 \<and> list_all (\<lambda>c. \<exists>rs.
       explorer_view_of rules (goToLevel2 (dc_key c) s) = Rule_cards (dc_key c) rs
     \<and> length rs = dc_ruleCount c \<and> length (filter rule_passing rs) = dc_passingRules c
     \<and> set rs = {r \<in> set rules. getDomainForRule (rd_id r) = dc_key c}) (DomainCardGrid rules)"
proof -
  have "distinct (map dc_key (DomainCardGrid rules))"
    unfolding grid_keys using all_domains(1) by (rule distinct_filter)
  moreover have "list_all (\<lambda>r. getDomainForRule (rd_id r) \<in> set (map dc_key (DomainCardGrid rules))) rules"
    unfolding grid_keys using all_domains(2) by (auto simp: list_all_iff rules_of_def filter_empty_conv)
  moreover have "explorer_view_of rules (goToLevel2 (dc_key c) s) = Rule_cards (dc_key c) (rules_of rules (dc_key c))
      \<and> length (rules_of rules (dc_key c)) = dc_ruleCount c
      \<and> length (filter rule_passing (rules_of rules (dc_key c))) = dc_passingRules c"
    if "c \<in> set (DomainCardGrid rules)" for c
  proof -
    have "domain_card_of rules (dc_key c) = [c]" using that grid_card by blast
    then have "dc_ruleCount c = length (rules_of rules (dc_key c))"
      "dc_passingRules c = length (filter rule_passing (rules_of rules (dc_key c)))"
      using card_count[of rules "dc_key c"] by simp_all
    then show ?thesis by (simp add: level2_view)
  qed
  ultimately show ?thesis
    by (auto simp: grid_total list_all_iff rules_of_def)
qed

text \<open>
  Following a dependency into another domain leaves the page in the old one: the rule shown is
  the other domain's, the breadcrumb names the old domain before it, and going back opens the old
  domain's list, which does not hold the rule.
\<close>

theorem dependency_keeps_old_domain:
  assumes "xs_selectedDomain s = Some d" "rd_id r = ruleId" "find (\<lambda>r. rd_id r = ruleId) rules = Some r"
    and "getDomainForRule ruleId \<noteq> d"
  shows "explorer_view_of rules (goToLevel3 ruleId s) = Rule_detail r
    \<and> breadcrumbs rules (goToLevel3 ruleId s) = [''Rules Explorer'', dm_label (DOMAIN_META d), ruleId]
    \<and> (\<exists>rs. explorer_view_of rules (rule_back (goToLevel3 ruleId s)) = Rule_cards d rs \<and> r \<notin> set rs)"
proof -
  have sel: "selectedRule rules (goToLevel3 ruleId s) = Some r"
    using assms(1,3) by (simp add: selectedRule_def goToLevel3_def)
  have dom: "xs_selectedDomain (goToLevel3 ruleId s) = Some d" using assms(1) by (simp add: goToLevel3_def)
  have "explorer_view_of rules (rule_back (goToLevel3 ruleId s)) = Rule_cards d (rules_of rules d)"
    by (simp add: rule_back_def dom level2_view)
  moreover have "r \<notin> set (rules_of rules d)" using assms(2,4) by (auto simp: rules_of_def)
  ultimately show ?thesis
    using sel dom assms(2) by (simp add: explorer_view_of_def breadcrumbs_def)
qed

definition example_rule :: rule_definition where
  "example_rule = \<lparr>rd_id = ''RULE-AMS-CALC'', rd_name = ''AMS'', rd_domain = ''salary'', rd_description = [],
     rd_dependencies = [], rd_tags = [], rd_testStatus = None\<rparr>"

theorem dependency_keeps_old_domain_witness:
  "breadcrumbs [example_rule] (goToLevel3 ''RULE-AMS-CALC'' (goToLevel2 Dom_benefits (explorer_init None)))
     = [''Rules Explorer'', ''Benefits'', ''RULE-AMS-CALC'']"
proof -
  have "xs_selectedDomain (goToLevel2 Dom_benefits (explorer_init None)) = Some Dom_benefits"
    by (simp add: goToLevel2_def)
  moreover have "getDomainForRule ''RULE-AMS-CALC'' \<noteq> Dom_benefits"
    by (simp add: getDomainForRule_def RULE_TO_DOMAIN_def)
  moreover have "rd_id example_rule = ''RULE-AMS-CALC''"
    "find (\<lambda>r. rd_id r = ''RULE-AMS-CALC'') [example_rule] = Some example_rule"
    by (simp_all add: example_rule_def)
  ultimately show ?thesis
    using dependency_keeps_old_domain[of "goToLevel2 Dom_benefits (explorer_init None)" Dom_benefits
        example_rule "''RULE-AMS-CALC''" "[example_rule]"] by simp
qed

end
