(* ===== verification/SpawnAnimation.thy ===== *)
theory SpawnAnimation imports Prelude begin

text \<open>
  The panel animation \<open>useSpawnAnimation\<close> of src/frontend/src/hooks/useSpawnAnimation.ts: the
  phase, the source rectangle, the timers in the browser and the ids the hook remembers. Setting a
  phase that differs re-renders, which runs the cleanup of the effect and then the effect; a
  re-render is committed before the next timer fires. Timers fire in the order of their due time.
  Lengths are reals.
\<close>

datatype spawn_phase = Idle | Measuring | Animating | Opened | Closing

record dom_rect =
  dr_left :: real
  dr_top :: real
  dr_width :: real
  dr_height :: real

datatype spawn_call = Set_phase spawn_phase | Set_idle

record spawn_timer =
  st_id :: nat
  st_due :: nat
  st_call :: spawn_call

record spawn_state =
  sp_phase :: spawn_phase
  sp_sourceRect :: "dom_rect option"
  sp_timersRef :: "nat list"
  sp_cleanup :: "nat list"
  sp_timers :: "spawn_timer list"
  sp_fresh :: nat
  sp_now :: nat

definition DURATION_MS :: nat where "DURATION_MS = 350"

definition cancel :: "nat list \<Rightarrow> spawn_state \<Rightarrow> spawn_state" where
  "cancel ids s = s\<lparr>sp_timers := filter (\<lambda>t. st_id t \<notin> set ids) (sp_timers s)\<rparr>"

definition clearTimers :: "spawn_state \<Rightarrow> spawn_state" where
  "clearTimers s = (cancel (sp_timersRef s) s)\<lparr>sp_timersRef := []\<rparr>"

definition set_timeout :: "spawn_call \<Rightarrow> nat \<Rightarrow> spawn_state \<Rightarrow> spawn_state" where
  "set_timeout c ms s =
     s\<lparr>sp_timers := sp_timers s @ [\<lparr>st_id = sp_fresh s, st_due = sp_now s + ms, st_call = c\<rparr>],
       sp_timersRef := sp_timersRef s @ [sp_fresh s], sp_fresh := sp_fresh s + 1\<rparr>"

text \<open>The effect on the phase, and its cleanup.\<close>

definition measuring_effect :: "spawn_state \<Rightarrow> spawn_state" where
  "measuring_effect s =
     (if sp_phase s \<noteq> Measuring then s\<lparr>sp_cleanup := []\<rparr>
      else (set_timeout (Set_phase Opened) (20 + DURATION_MS)
             (set_timeout (Set_phase Animating) 20 s))\<lparr>sp_cleanup := [sp_fresh s, sp_fresh s + 1]\<rparr>)"

definition setPhase :: "spawn_phase \<Rightarrow> spawn_state \<Rightarrow> spawn_state" where
  "setPhase p s =
     (if p = sp_phase s then s
      else measuring_effect ((cancel (sp_cleanup s) s)\<lparr>sp_phase := p\<rparr>))"

definition open_panel :: "dom_rect \<Rightarrow> spawn_state \<Rightarrow> spawn_state" where
  "open_panel rect s = setPhase Measuring ((clearTimers s)\<lparr>sp_sourceRect := Some rect\<rparr>)"

text \<open>The timer is created before the re-render of the phase is committed.\<close>

definition close_panel :: "spawn_state \<Rightarrow> spawn_state" where
  "close_panel s = setPhase Closing (set_timeout Set_idle DURATION_MS (clearTimers s))"

fun run_timeout :: "spawn_call \<Rightarrow> spawn_state \<Rightarrow> spawn_state" where
  "run_timeout (Set_phase p) s = setPhase p s"
| "run_timeout Set_idle s = setPhase Idle (s\<lparr>sp_sourceRect := None\<rparr>)"

definition fire :: "spawn_timer \<Rightarrow> spawn_state \<Rightarrow> spawn_state" where
  "fire t s =
     run_timeout (st_call t)
       (s\<lparr>sp_timers := filter (\<lambda>u. st_id u \<noteq> st_id t) (sp_timers s), sp_now := max (sp_now s) (st_due t)\<rparr>)"

definition spawn_init :: spawn_state where
  "spawn_init =
     \<lparr>sp_phase = Idle, sp_sourceRect = None, sp_timersRef = [], sp_cleanup = [], sp_timers = [],
      sp_fresh = 0, sp_now = 0\<rparr>"

definition isVisible :: "spawn_state \<Rightarrow> bool" where
  "isVisible s \<longleftrightarrow> sp_phase s \<noteq> Idle"

definition isExpanded :: "spawn_state \<Rightarrow> bool" where
  "isExpanded s \<longleftrightarrow> sp_phase s = Animating \<or> sp_phase s = Opened"

text \<open>The scale of the collapsed panel in a window of the given size.\<close>

definition collapsed_scale :: "real \<Rightarrow> real \<Rightarrow> dom_rect \<Rightarrow> real" where
  "collapsed_scale vw vh sourceRect =
     (let scaleX = min (dr_width sourceRect / (vw * 0.55)) 0.95;
          scaleY = min (dr_height sourceRect / (vh * 0.7)) 0.95
      in max (max scaleX scaleY) 0.05)"

text \<open>The offsets and the scale of \<open>translate(dx, dy) scale(scale)\<close>.\<close>

definition computeTransform :: "real \<Rightarrow> real \<Rightarrow> dom_rect \<Rightarrow> real \<times> real \<times> real" where
  "computeTransform vw vh sourceRect =
     (let dx = dr_left sourceRect + dr_width sourceRect / 2 - vw / 2;
          dy = dr_top sourceRect + dr_height sourceRect / 2 - vh / 2
      in (dx, dy, collapsed_scale vw vh sourceRect))"

subsection \<open>Steps\<close>

inductive spawn_step :: "spawn_state \<Rightarrow> spawn_state \<Rightarrow> bool" where
  step_open: "spawn_step s (open_panel rect s)"
| step_close: "spawn_step s (close_panel s)"
| step_fire: "t \<in> set (sp_timers s) \<Longrightarrow> \<forall>u \<in> set (sp_timers s). st_due t \<le> st_due u
    \<Longrightarrow> spawn_step s (fire t s)"
| step_wait: "\<forall>u \<in> set (sp_timers s). n \<le> st_due u \<Longrightarrow> sp_now s \<le> n \<Longrightarrow>
    spawn_step s (s\<lparr>sp_now := n\<rparr>)"

inductive spawn_reachable :: "spawn_state \<Rightarrow> bool" where
  spawn_start: "spawn_reachable spawn_init"
| spawn_next: "spawn_reachable s \<Longrightarrow> spawn_step s s' \<Longrightarrow> spawn_reachable s'"

text \<open>
  The shape of the reachable states: which timers a phase has pending, and that the hook
  remembers the ids of all of them.
\<close>

definition phase_timers :: "spawn_state \<Rightarrow> bool" where
  "phase_timers s \<longleftrightarrow>
     (case sp_phase s of
        Measuring \<Rightarrow> sp_timers s = []
          \<or> (\<exists>i d. sp_timers s = [\<lparr>st_id = i, st_due = d, st_call = Set_phase Animating\<rparr>,
                \<lparr>st_id = Suc i, st_due = d + DURATION_MS, st_call = Set_phase Opened\<rparr>]
              \<and> sp_cleanup s = [i, Suc i])
      | Closing \<Rightarrow> \<exists>i d. sp_timers s = [\<lparr>st_id = i, st_due = d, st_call = Set_idle\<rparr>] \<and> sp_now s \<le> d
      | Opened \<Rightarrow> False
      | _ \<Rightarrow> sp_timers s = [])"

definition spawn_inv :: "spawn_state \<Rightarrow> bool" where
  "spawn_inv s \<longleftrightarrow>
     phase_timers s
   \<and> list_all (\<lambda>t. st_id t \<in> set (sp_timersRef s) \<and> st_id t < sp_fresh s) (sp_timers s)
   \<and> list_all (\<lambda>i. i < sp_fresh s) (sp_cleanup s)
   \<and> (sp_phase s = Idle \<longrightarrow> sp_sourceRect s = None)"

lemmas spawn_defs = spawn_inv_def phase_timers_def open_panel_def close_panel_def fire_def
  setPhase_def clearTimers_def cancel_def set_timeout_def measuring_effect_def

lemma cleared: "spawn_inv s \<Longrightarrow> filter (\<lambda>t. st_id t \<notin> set (sp_timersRef s)) (sp_timers s) = []"
  by (auto simp: spawn_inv_def list_all_iff filter_empty_conv)

lemma inv_open: "spawn_inv s \<Longrightarrow> spawn_inv (open_panel rect s)"
  using cleared[of s] by (auto simp: spawn_defs split: spawn_phase.splits)

lemma inv_close: "spawn_inv s \<Longrightarrow> spawn_inv (close_panel s)"
  using cleared[of s] by (auto simp: spawn_defs list_all_iff split: spawn_phase.splits)

lemma inv_fire:
  assumes "spawn_inv s" "t \<in> set (sp_timers s)" "\<forall>u \<in> set (sp_timers s). st_due t \<le> st_due u"
  shows "spawn_inv (fire t s)"
proof (cases "sp_phase s")
  case Measuring
  with assms obtain i d where
    "sp_timers s = [\<lparr>st_id = i, st_due = d, st_call = Set_phase Animating\<rparr>,
       \<lparr>st_id = Suc i, st_due = d + DURATION_MS, st_call = Set_phase Opened\<rparr>]"
    "sp_cleanup s = [i, Suc i]"
    by (auto simp: spawn_inv_def phase_timers_def)
  with assms Measuring show ?thesis
    by (auto simp: spawn_defs DURATION_MS_def)
next
  case Closing
  with assms show ?thesis by (auto simp: spawn_defs)
qed (use assms in \<open>auto simp: spawn_defs\<close>)

lemma inv_wait:
  "spawn_inv s \<Longrightarrow> \<forall>u \<in> set (sp_timers s). n \<le> st_due u \<Longrightarrow> spawn_inv (s\<lparr>sp_now := n\<rparr>)"
  by (auto simp: spawn_inv_def phase_timers_def split: spawn_phase.splits)

lemma reachable_inv: "spawn_reachable s \<Longrightarrow> spawn_inv s"
proof (induction rule: spawn_reachable.induct)
  case spawn_start
  show ?case by (simp add: spawn_init_def spawn_inv_def phase_timers_def)
next
  case (spawn_next s s')
  from spawn_next.hyps(2) spawn_next.IH show ?case
    by (cases rule: spawn_step.cases) (simp_all add: inv_open inv_close inv_fire inv_wait)
qed

text \<open>
  The phase \<open>open\<close> is never reached: when the first timer moves the phase to animating, the
  effect's cleanup cancels the second timer, so a panel that was opened stays in the animating
  phase, with no timer pending, until it is closed or opened again.
\<close>

theorem spawn_never_opens:
  assumes "spawn_reachable s"
  shows "sp_phase s \<noteq> Opened \<and> (isExpanded s \<longleftrightarrow> sp_phase s = Animating)
       \<and> (if sp_phase s = Animating then sp_timers s = [] else True)"
  using reachable_inv[OF assms]
  by (auto simp: spawn_inv_def phase_timers_def isExpanded_def split: spawn_phase.splits)

definition example_rect :: dom_rect where
  "example_rect = \<lparr>dr_left = 10, dr_top = 20, dr_width = 300, dr_height = 40\<rparr>"

definition opened_once :: spawn_state where
  "opened_once = open_panel example_rect spawn_init"

lemma opened_once_reachable: "spawn_reachable opened_once"
  unfolding opened_once_def by (rule spawn_next[OF spawn_start step_open])

theorem spawn_never_opens_witness:
  "sp_phase (fire (hd (sp_timers opened_once)) opened_once) = Animating
   \<and> sp_timers (fire (hd (sp_timers opened_once)) opened_once) = []"
proof -
  have "spawn_step opened_once (fire (hd (sp_timers opened_once)) opened_once)"
    by (rule step_fire) (auto simp: opened_once_def spawn_init_def spawn_defs)
  from spawn_never_opens[OF spawn_next[OF opened_once_reachable this]]
  show ?thesis by (simp add: opened_once_def spawn_init_def spawn_defs)
qed

text \<open>
  Opening a panel again while it is still measuring (a double click) leaves it stuck: the
  timers are cleared and, the phase being the same, the effect does not set new ones. The panel
  is mounted but collapsed, and no timer will change that.
\<close>

theorem reopened_panel_stuck:
  assumes "spawn_reachable s" "sp_phase s = Measuring"
  shows "sp_phase (open_panel rect s) = Measuring \<and> sp_timers (open_panel rect s) = []
       \<and> isVisible (open_panel rect s) \<and> \<not> isExpanded (open_panel rect s)"
  using cleared[OF reachable_inv[OF assms(1)]] assms(2)
  by (simp add: open_panel_def setPhase_def clearTimers_def cancel_def isVisible_def isExpanded_def)

theorem reopened_panel_stuck_witness:
  "sp_timers (open_panel example_rect opened_once) = [] \<and> sp_phase (open_panel example_rect opened_once) = Measuring"
  using reopened_panel_stuck[OF opened_once_reachable, of example_rect]
  by (simp add: opened_once_def spawn_init_def spawn_defs)

text \<open>
  Closing works from every state: exactly one timer is left, due 350 milliseconds later, and
  when it fires the panel is hidden, without source rectangle and without timers.
\<close>

theorem closed_panel_hides:
  assumes "spawn_reachable s"
  shows "map st_due (sp_timers (close_panel s)) = [sp_now s + 350]
       \<and> \<not> isVisible (fire (hd (sp_timers (close_panel s))) (close_panel s))
       \<and> sp_sourceRect (fire (hd (sp_timers (close_panel s))) (close_panel s)) = None
       \<and> sp_timers (fire (hd (sp_timers (close_panel s))) (close_panel s)) = []"
proof -
  have "list_all (\<lambda>i. i < sp_fresh s) (sp_cleanup s)"
    using reachable_inv[OF assms] by (simp add: spawn_inv_def)
  then have "sp_fresh s \<notin> set (sp_cleanup s)" by (auto simp: list_all_iff)
  then show ?thesis
    using cleared[OF reachable_inv[OF assms]]
    by (auto simp: close_panel_def setPhase_def measuring_effect_def cancel_def clearTimers_def
        set_timeout_def fire_def isVisible_def DURATION_MS_def)
qed

theorem closed_panel_hides_witness:
  "map st_due (sp_timers (close_panel opened_once)) = [350]"
  using closed_panel_hides[OF opened_once_reachable] by (simp add: opened_once_def spawn_init_def spawn_defs)

text \<open>
  Whatever the source rectangle and the window, the collapsed panel's scale lies between 0.05
  and 0.95.
\<close>

theorem collapsed_scale_bounds:
  "0.05 \<le> snd (snd (computeTransform vw vh rect)) \<and> snd (snd (computeTransform vw vh rect)) \<le> 0.95"
  by (simp add: computeTransform_def collapsed_scale_def Let_def)

end
