(* ===== verification/Spec2Isabelle.thy ===== *)
theory Spec2Isabelle imports
    ActivityTracker ApiClient ApiClientProps AppShell ApplicationHook ApplicationMachine
    ApplicationPage ApplicationSafety ApplicationTypes Async AuthContext BenefitTypes
    CaseTypes CaseWorkflow CorrespondenceSend CrmApi CrmCache CrmLists CrmQueries CrmSummary
    CrmTypes CrmWrites EmployerAlerts EmployerApi EmployerQueries EmployerRoutes EmployerTypes
    EmployerWire EmptyAnswers EndpointProps EnumTransform ErrorReporter Formatters JsDate
    JsSort Json Letters Machine MemberPortalApi MemberQueries MemberSearch MemberSummary
    MigrationApi MigrationEvents MigrationQueries MigrationRoutes MigrationTypes MigrationWire
    OptimisticUpdates PhaseGate PlanProfile PlatformRoutes PlatformTypes PlatformWire
    PortalHome Preferences Prelude QueryCache QueryString RestCall Routing RulesExplorer
    ScenarioHash ServiceApis ServiceRoutes SpawnAnimation StageMapping WhatIf WireTypes
    Workflow
begin

text \<open>
  A verification model of the browser client of the platform, src/frontend/src.

  \<^bold>\<open>The program.\<close> The client is a TypeScript application over a dozen services. Its parts, from
  the network upwards: a request core (lib/apiClient.ts) with retry, token refresh, timeout and
  enum case conversion; one client object per service (lib/*Api.ts) whose methods call it; data
  hooks (hooks/*.ts, hooks/migration/*.ts) that register those calls with a shared query cache
  under keys and name the keys each write invalidates; and the logic behind the pages (the
  member's retirement application, the composed case workflow and its mapping to the case
  service, workspace preferences, the plan profile).

  \<^bold>\<open>The theories.\<close>

  \<^item> Prelude: JavaScript strings, numbers as text, array searches. Machine: runs of a step function
    and the contracts (locales) of an invariant, a frame and a monotone quantity.
  \<^item> ApplicationTypes, ApplicationMachine, ApplicationHook, ApplicationSafety:
    lib/applicationStateMachine.ts and hooks/useRetirementApplication.ts. The hook's state is
    \<open>app_hook\<close>, its callbacks are the actions of \<open>app_step\<close>; the invariant, the effect of a
    bounce and the recovery from it, the forward walk, the derived status.
  \<^item> Json, EnumTransform: JavaScript values and the two enum transforms as inverse on normal values.
    QueryString: \<open>toQueryString\<close> with a reader as its reference. ErrorReporter: the deduplicating
    reporter. ApiClient, ApiClientProps: the request core; attempts, refreshes and reports of a
    request counted exactly. The network is a function from the attempt to its outcome.
  \<^item> RestCall: a call as data (helper, address, body, options) and what it puts on the wire.
    MigrationApi, EmployerApi, CrmApi, MemberPortalApi, ServiceApis: one definition per client
    method. EndpointProps: address families, enum conversion end to end, the updates the services
    refuse, the upload that loses its file.
  \<^item> QueryCache: keys, calls, invalidation by prefix, and the locale \<open>keyed_queries\<close> (a key stands
    for one call). MigrationQueries, EmployerQueries, CrmQueries, MemberQueries: one definition per
    data hook. CrmCache: the CRM hooks as an instance; coherence, refreshes, the public view.
  \<^item> PlanProfile: lib/planProfile.ts, the parts of config/plan-profile.yaml it reads, and the
    document checklist of hooks/useDocumentChecklist.ts.
  \<^item> Workflow: lib/workflowComposition.ts. StageMapping: lib/stageMapping.ts against the advance rule
    of the case service (src/platform/casemanagement/db/cases.go).
  \<^item> MigrationEvents: hooks/useMigrationEvents.ts, the live connection as a step relation over its
    sockets and timers. SpawnAnimation: hooks/useSpawnAnimation.ts, likewise. ScenarioHash:
    lib/scenarioStaleness.ts. CrmWrites: the CRM mutations against the enum checks of the service.
  \<^item> BenefitTypes: types/BenefitCalculation.ts and types/Member.ts. WhatIf:
    hooks/useWhatIfCalculator.ts, the debounced inputs as a step relation and the composed result.
    ApplicationPage: the pages of components/portal/application over the application hook; what a
    submission presupposes, and why the page as wired never leaves its first stage.
  \<^item> Async: the locale \<open>latest_request\<close> of a component whose replies come in order. MemberSearch
    (hooks/useMemberSearch.ts) and AuthContext (contexts/AuthContext.tsx, types/auth.ts,
    lib/devAuth.ts) are its instances, with the races that arise when replies come out of order.
  \<^item> PhaseGate: the phase stepper and the gate dialog of components/migration/engagement against the
    handlers of src/platform/migration. OptimisticUpdates: the optimistic mutations of
    hooks/migration/useJobs.ts and useDrift.ts over one cached list.
  \<^item> JsSort: the library's stable sort and the comparators the code composes, as a locale.
    EmployerAlerts: the alert list of hooks/useEmployerOps.ts. JsDate: the calendar and the instants
    of the ISO texts.
  \<^item> CrmTypes: types/CRM.ts. CrmSummary: lib/crmSummary.ts, the digest of a contact. CrmLists: the
    commitment counts of hooks/useCommitmentStats.ts, the date indicator of the commitment card and
    the list handlers of src/platform/crm they meet. CorrespondenceSend:
    hooks/useCorrespondence.ts, the send and its effects as a fold over the calls made.
  \<^item> RulesExplorer: lib/domainMapping.ts, the card grid and pages/RulesExplorer.tsx, its three levels
    as a step function. ActivityTracker: hooks/useActivityTracker.ts and hooks/useNotifications.ts.
    PortalHome: the persona, the cards, the navigation and the tour of components/portal.
  \<^item> CaseWorkflow: components/RetirementApplication.tsx, the page a case is worked on, as a step
    function over its hooks with the stage the case service holds as the other side; it refines the
    count of finished stages as long as the page is used in order. Formatters: lib/formatters.ts on
    exact numbers. CaseTypes: types/Case.ts. AppShell: App.tsx and components/CommandPalette.tsx, the
    views, who may open them and the palette.
  \<^item> Letters: types/Correspondence.ts, lib/mergeFieldResolver.ts and the panel of
    components/workflow that generates and sends letters. MemberSummary: lib/memberSummary.ts,
    hooks/useMemberDashboard.ts and hooks/useCSRContext.ts.
  \<^item> Preferences: lib/preferenceOverrides.ts; the slot search as two counting loops (the upward one
    with a measure), the context key on 32-bit words.

  \<^item> Routing: the gateway of nginx.conf and the multiplexer of Go. ServiceRoutes: the route tables of
    the eighteen services. MigrationRoutes, EmployerRoutes, PlatformRoutes: the three hundred calls
    of the clients, each with the handler it reaches in the deployment or with the reason it reaches
    none. The build-time environment is empty there, as in the image the client is built in.
  \<^item> WireTypes: TypeScript types and the Go types that \<open>encoding/json\<close> sends, a check of one against the
    other with its soundness, and the envelope of src/platform/apiresponse. MigrationTypes,
    EmployerTypes, PlatformTypes: the declared types of src/frontend/src/types and the Go structs of
    src/platform. MigrationWire, EmployerWire, PlatformWire: which answers have the type the client
    declares, which never have it, and which get lost for want of an envelope. EmptyAnswers: the lists
    that arrive as \<open>null\<close>. The Go side is each handler's result type; a list is taken as possibly nil
    unless the handler or its store makes it in any case. Answers whose match depends on stored JSON
    or on a list deep inside are in no table.

  \<^bold>\<open>Conventions.\<close> \<open>undefined\<close> and \<open>null\<close> are \<open>None\<close>; a thrown error is \<open>Inl\<close>; times are
  milliseconds; the retry loop is bounded by its own counter, so no fuel is needed anywhere. The
  build-time environment is the parameter \<open>vite\<close>. Amounts are reals, without IEEE rounding.

  \<^bold>\<open>Not modelled.\<close> React rendering and the page components beyond the logic named above, the visual
  design constants, the Go and Python services (of the Go code only what the client's
  calls meet), the query library itself beyond keys, prefixes and staleness, the DOM and the
  sockets of the browser.
\<close>

end
